(* ===== verification/Prelude.thy ===== *)
theory Prelude
  imports Main
begin

text \<open>
  Shared vocabulary of the development: the result type of the code that can throw, the
  combinator that sequences such code, generic lemmas on lists and maps, and the collections
  of rules the component theories fill.
  \<^item> \<open>throw_simps\<close>: equations and case rules for code that may throw.
  \<^item> \<open>inv_intros\<close>: the preservation lemmas of the component invariants.
\<close>

named_theorems throw_simps
named_theorems inv_intros

section \<open>Code that may throw\<close>

text \<open>
  A JavaScript function that throws, a rejected promise and a Rust \<open>Err\<close> are \<open>Inl\<close>; a
  normal return, a resolved promise and \<open>Ok\<close> are \<open>Inr\<close>.
\<close>

type_synonym ('e, 'a) res = "'e + 'a"

fun bindR :: "('e, 'a) res \<Rightarrow> ('a \<Rightarrow> ('e, 'b) res) \<Rightarrow> ('e, 'b) res" where
  "bindR (Inl e) f = Inl e"
| "bindR (Inr x) f = f x"

lemma bindR_Inr_iff [throw_simps]: "(bindR m f = Inr y) = (\<exists>v. m = Inr v \<and> f v = Inr y)"
  by (cases m) auto

lemma bindR_Inl_iff [throw_simps]:
  "(bindR m f = Inl e) = (m = Inl e \<or> (\<exists>v. m = Inr v \<and> f v = Inl e))"
  by (cases m) auto

lemma bindR_cong [fundef_cong]:
  "m = m' \<Longrightarrow> (\<And>x. m' = Inr x \<Longrightarrow> f x = g x) \<Longrightarrow> bindR m f = bindR m' g"
  by (cases m') auto

text \<open>\<open>arr.map(f)\<close> where \<open>f\<close> may throw: left to right, the first throw leaves the loop.\<close>

fun mapR :: "('a \<Rightarrow> ('e, 'b) res) \<Rightarrow> 'a list \<Rightarrow> ('e, 'b list) res" where
  "mapR f [] = Inr []"
| "mapR f (x # xs) = bindR (f x) (\<lambda>y. bindR (mapR f xs) (\<lambda>ys. Inr (y # ys)))"

lemma mapR_Inr_iff [throw_simps]:
  "mapR f xs = Inr ys \<longleftrightarrow> list_all2 (\<lambda>x y. f x = Inr y) xs ys"
proof (induction xs arbitrary: ys)
  case Nil
  then show ?case by auto
next
  case (Cons x xs)
  then show ?case by (cases ys) (auto simp: throw_simps)
qed

lemma mapR_Inr_length: "mapR f xs = Inr ys \<Longrightarrow> length ys = length xs"
  by (auto simp: throw_simps dest: list_all2_lengthD)

lemma mapR_total: "(\<And>x. x \<in> set xs \<Longrightarrow> f x = Inr (g x)) \<Longrightarrow> mapR f xs = Inr (map g xs)"
  by (induction xs) auto

lemma mapR_cong [fundef_cong]:
  "xs = ys \<Longrightarrow> (\<And>x. x \<in> set ys \<Longrightarrow> f x = g x) \<Longrightarrow> mapR f xs = mapR g ys"
  by (induction ys arbitrary: xs) auto

section \<open>Lists\<close>

lemma takeWhile_dropWhile_all: "(\<forall>c\<in>set xs. P c) \<Longrightarrow> takeWhile P (xs @ ys) = xs @ takeWhile P ys"
  by (induction xs) auto

lemma dropWhile_hd_stop: "xs = [] \<or> \<not> P (hd xs) \<Longrightarrow> dropWhile P xs = xs"
  by (cases xs) auto

lemma takeWhile_hd_stop: "ys = [] \<or> \<not> P (hd ys) \<Longrightarrow> takeWhile P ys = []"
  by (cases ys) auto

lemma filter_map_upd_length: "length (take n (x # xs)) \<le> n"
  by simp

section \<open>Association lists in insertion order\<close>

text \<open>
  A plain JavaScript object used as a dictionary: \<open>obj[k] = v\<close> keeps the place of an
  existing key and appends a new one, \<open>delete obj[k]\<close> removes it.
\<close>

fun put :: "'k \<Rightarrow> 'v \<Rightarrow> ('k \<times> 'v) list \<Rightarrow> ('k \<times> 'v) list" where
  "put k v [] = [(k, v)]"
| "put k v (p # ps) = (if fst p = k then (k, v) # ps else p # put k v ps)"

definition del :: "'k \<Rightarrow> ('k \<times> 'v) list \<Rightarrow> ('k \<times> 'v) list" where
  "del k ps = filter (\<lambda>p. fst p \<noteq> k) ps"

lemma map_of_put [simp]: "map_of (put k v ps) = (map_of ps)(k \<mapsto> v)"
  by (induction ps) auto

lemma set_fst_put [simp]: "fst ` set (put k v ps) = insert k (fst ` set ps)"
  by (induction ps) auto

lemma put_eq_Nil [simp]: "put k v ps \<noteq> []"
  by (cases ps) auto

lemma distinct_put: "distinct (map fst ps) \<Longrightarrow> distinct (map fst (put k v ps))"
proof (induction ps)
  case Nil
  then show ?case by simp
next
  case (Cons p ps)
  have "fst p \<in> fst ` set (put k v ps) \<longleftrightarrow> fst p = k \<or> fst p \<in> fst ` set ps"
    by simp
  with Cons show ?case by auto
qed

lemma map_of_del [simp]: "map_of (del k ps) = (map_of ps)(k := None)"
  by (induction ps) (auto simp: del_def)

lemma distinct_del: "distinct (map fst ps) \<Longrightarrow> distinct (map fst (del k ps))"
  by (induction ps) (auto simp: del_def)

end
