(* ===== verification/Ledger.thy ===== *)
theory Ledger
  imports Prelude
begin

text \<open>
  The coupon-ledger contract (\<open>contracts/coupon-ledger/src/lib.rs\<close>): its storage as one map per
  kind of \<open>DataKey\<close>, its entry points as functions of the ledger context and the storage, and
  its errors with their numbers. The SDK and the web applications talk to this machine.

  \<open>u64\<close> and \<open>u32\<close> are \<open>nat\<close> and \<open>i128\<close> is \<open>int\<close>; every addition and multiplication of the source
  carries its bound, as a contract error where the source checks it and as a trap where the
  release profile's overflow check does. A Soroban \<open>String\<close> is its UTF-8 bytes, a \<open>BytesN<32>\<close> and
  an \<open>Address\<close> are texts. A call that fails leaves the storage as it was. The token contract is a
  parameter: a record of functions on its own state. Time-to-live extensions have no effect on
  these maps and are left out.
\<close>

section \<open>Types\<close>

type_synonym addr = string

record campaign =
  c_id :: nat
  c_owner :: addr
  c_name :: string
  c_discount_type :: string
  c_discount_value :: nat
  c_total_supply :: nat
  c_minted :: nat
  c_burned :: nat
  c_valid_until :: nat

record coupon_token =
  t_id :: nat
  t_campaign :: nat
  t_code :: string
  t_burned :: bool
  t_minted_at :: nat
  t_ref :: string
  t_burned_at :: nat

record receipt =
  r_token_id :: nat
  r_code :: string
  r_campaign_id :: nat
  r_campaign_name :: string
  r_discount_type :: string
  r_discount_value :: nat
  r_ref :: string
  r_burned_at :: nat
  r_ledger_seq :: nat

record campaign_stats =
  st_total_supply :: nat
  st_minted :: nat
  st_burned :: nat
  st_available :: nat
  st_is_expired :: bool

record shared_code =
  s_campaign :: nat
  s_code :: string
  s_attributed_to :: "addr option"
  s_payout_token :: "addr option"
  s_payout_rate :: int
  s_registered_at :: nat

record tally =
  ta_period :: nat
  ta_count :: nat
  ta_merkle_root :: string
  ta_per_attribution :: "(addr \<times> nat) list"

record payout =
  p_to :: addr
  p_amount :: int

datatype contract_error = CampaignNotFound | CouponNotFound | AlreadyRedeemed | CampaignExpired
  | SupplyExhausted | Unauthorized | InvalidCode | DuplicateCode | InvalidTerms | BatchTooLarge
  | CodeTooLong | SharedNotFound | AlreadyRegistered | PeriodCommitted | TallyNotFound
  | AlreadySettled | InvalidTally | InvalidSettlement | AttributionMismatch

fun error_number :: "contract_error \<Rightarrow> nat" where
  "error_number CampaignNotFound = 1"
| "error_number CouponNotFound = 2"
| "error_number AlreadyRedeemed = 3"
| "error_number CampaignExpired = 4"
| "error_number SupplyExhausted = 5"
| "error_number Unauthorized = 6"
| "error_number InvalidCode = 7"
| "error_number DuplicateCode = 8"
| "error_number InvalidTerms = 9"
| "error_number BatchTooLarge = 10"
| "error_number CodeTooLong = 11"
| "error_number SharedNotFound = 12"
| "error_number AlreadyRegistered = 13"
| "error_number PeriodCommitted = 14"
| "error_number TallyNotFound = 15"
| "error_number AlreadySettled = 16"
| "error_number InvalidTally = 17"
| "error_number InvalidSettlement = 18"
| "error_number AttributionMismatch = 19"

text \<open>A contract error, or a trap of the host: a missing authorization, an overflow, a token panic.\<close>

datatype failure = Contract contract_error | Trap

datatype event = CampaignCreated nat addr string nat | CouponIssued nat nat | CouponBurned nat nat
  | DelegateAdded nat addr | DelegateRemoved nat addr | SharedRegistered nat "addr option"
  | TallyCommitted nat nat nat | TallySettled nat nat addr int

record ledger =
  camp_ctr :: nat
  tok_ctr :: nat
  campaigns :: "nat \<rightharpoonup> campaign"
  tokens :: "nat \<rightharpoonup> coupon_token"
  code_index :: "nat \<times> string \<rightharpoonup> nat"
  delegate :: "nat \<times> addr \<rightharpoonup> bool"
  owner_count :: "addr \<rightharpoonup> nat"
  owner_campaign :: "addr \<times> nat \<rightharpoonup> nat"
  campaign_owner_slot :: "nat \<rightharpoonup> nat"
  shared :: "nat \<times> string \<rightharpoonup> shared_code"
  tallies :: "nat \<times> string \<times> nat \<rightharpoonup> tally"
  settled :: "nat \<times> string \<times> nat \<rightharpoonup> bool"
  events :: "event list"

record ctx = \<comment> \<open>what the host gives a call\<close>
  timestamp :: nat
  ledger_seq :: nat
  authorized :: "addr \<Rightarrow> bool"

definition empty_ledger :: ledger where
  "empty_ledger = \<lparr>camp_ctr = 0, tok_ctr = 0, campaigns = Map.empty, tokens = Map.empty,
     code_index = Map.empty, delegate = Map.empty, owner_count = Map.empty,
     owner_campaign = Map.empty, campaign_owner_slot = Map.empty, shared = Map.empty,
     tallies = Map.empty, settled = Map.empty, events = []\<rparr>"

definition u32_max :: nat where "u32_max = 4294967295"
definition u64_max :: nat where "u64_max = 18446744073709551615"
definition i128_min :: int where "i128_min = - (2 ^ 127)"
definition i128_max :: int where "i128_max = 2 ^ 127 - 1"

definition MAX_BATCH :: nat where "MAX_BATCH = 100"
definition MAX_CODE_LEN :: nat where "MAX_CODE_LEN = 64"
definition MAX_NAME_LEN :: nat where "MAX_NAME_LEN = 96"
definition MAX_DISCOUNT_TYPE_LEN :: nat where "MAX_DISCOUNT_TYPE_LEN = 32"

section \<open>Guards and checked arithmetic\<close>

definition fails :: "contract_error \<Rightarrow> (failure, 'a) res" where
  "fails e = Inl (Contract e)"

definition require :: "bool \<Rightarrow> failure \<Rightarrow> (failure, unit) res" where
  "require b f = (if b then Inr () else Inl f)"

definition ok_or :: "'a option \<Rightarrow> contract_error \<Rightarrow> (failure, 'a) res" where
  "ok_or v e = (case v of None \<Rightarrow> fails e | Some x \<Rightarrow> Inr x)"

definition require_auth :: "ctx \<Rightarrow> addr \<Rightarrow> (failure, unit) res" where
  "require_auth cx a = require (authorized cx a) Trap"

definition add_max :: "nat \<Rightarrow> nat \<Rightarrow> nat \<Rightarrow> failure \<Rightarrow> (failure, nat) res" where
  "add_max m a b f = (if a + b \<le> m then Inr (a + b) else Inl f)"

definition i128 :: "int \<Rightarrow> (failure, int) res" where
  "i128 n = (if i128_min \<le> n \<and> n \<le> i128_max then Inr n else fails InvalidSettlement)"

lemma guard_iffs [throw_simps]:
  "require b f = Inr u \<longleftrightarrow> b" "require b f = Inl g \<longleftrightarrow> \<not> b \<and> g = f"
  "ok_or v e = Inr x \<longleftrightarrow> v = Some x" "ok_or v e = Inl g \<longleftrightarrow> v = None \<and> g = Contract e"
  "add_max m a k f = Inr n \<longleftrightarrow> a + k \<le> m \<and> n = a + k"
  "i128 i = Inr j \<longleftrightarrow> i128_min \<le> i \<and> i \<le> i128_max \<and> j = i"
  "fails e = Inr x \<longleftrightarrow> False" "fails e = Inl g \<longleftrightarrow> g = Contract e"
  "require_auth cx who = Inr u \<longleftrightarrow> authorized cx who"
  by (auto simp: require_def ok_or_def add_max_def i128_def fails_def require_auth_def
      split: option.splits)

definition require_owner :: "ledger \<Rightarrow> nat \<Rightarrow> addr \<Rightarrow> (failure, unit) res" where
  "require_owner L cid caller =
     bindR (ok_or (campaigns L cid) CampaignNotFound) (\<lambda>camp.
     require (caller = c_owner camp) (Contract Unauthorized))"

definition is_delegate :: "nat \<Rightarrow> addr \<Rightarrow> ledger \<Rightarrow> bool" where
  "is_delegate cid who L = (case delegate L (cid, who) of None \<Rightarrow> False | Some b \<Rightarrow> b)"

definition publish :: "event \<Rightarrow> ledger \<Rightarrow> ledger" where
  "publish e L = L\<lparr>events := events L @ [e]\<rparr>"

section \<open>Campaigns\<close>

definition create_campaign ::
  "ctx \<Rightarrow> addr \<Rightarrow> string \<Rightarrow> string \<Rightarrow> nat \<Rightarrow> nat \<Rightarrow> nat \<Rightarrow> ledger \<Rightarrow> (failure, nat \<times> ledger) res"
  where
  "create_campaign cx owner name dtype dvalue supply until L =
     bindR (require_auth cx owner) (\<lambda>_.
     bindR (require (\<not> (supply = 0 \<or> name = [] \<or> MAX_NAME_LEN < length name \<or> dtype = []
              \<or> MAX_DISCOUNT_TYPE_LEN < length dtype)) (Contract InvalidTerms)) (\<lambda>_.
     bindR (require (timestamp cx < until) (Contract InvalidTerms)) (\<lambda>_.
     bindR (add_max u64_max (camp_ctr L) 1 Trap) (\<lambda>id'.
     let camp = \<lparr>c_id = id', c_owner = owner, c_name = name, c_discount_type = dtype,
                 c_discount_value = dvalue, c_total_supply = supply, c_minted = 0, c_burned = 0,
                 c_valid_until = until\<rparr>;
         n = (case owner_count L owner of None \<Rightarrow> 0 | Some n \<Rightarrow> n)
     in bindR (add_max u64_max n 1 (Contract InvalidTerms)) (\<lambda>next.
     Inr (id', publish (CampaignCreated id' owner name supply)
       (L\<lparr>camp_ctr := id',
          campaigns := (campaigns L)(id' \<mapsto> camp),
          owner_campaign := (owner_campaign L)((owner, n) \<mapsto> id'),
          campaign_owner_slot := (campaign_owner_slot L)(id' \<mapsto> n),
          owner_count := (owner_count L)(owner \<mapsto> next)\<rparr>)))))))"

definition get_campaign :: "nat \<Rightarrow> ledger \<Rightarrow> (failure, campaign) res" where
  "get_campaign cid L = ok_or (campaigns L cid) CampaignNotFound"

definition owner_slots :: "addr \<Rightarrow> nat \<Rightarrow> nat \<Rightarrow> ledger \<Rightarrow> nat list" where
  \<comment> \<open>the loop \<open>while slot < end\<close> of both listings\<close>
  "owner_slots owner start stop L =
     List.map_filter (\<lambda>slot. owner_campaign L (owner, slot)) [start..<stop]"

definition count_of :: "addr \<Rightarrow> ledger \<Rightarrow> nat" where
  "count_of owner L = (case owner_count L owner of None \<Rightarrow> 0 | Some n \<Rightarrow> n)"

definition campaigns_of :: "addr \<Rightarrow> ledger \<Rightarrow> nat list" where
  "campaigns_of owner L = owner_slots owner 0 (count_of owner L) L"

definition campaigns_page :: "addr \<Rightarrow> nat \<Rightarrow> nat \<Rightarrow> ledger \<Rightarrow> (failure, nat list) res" where
  "campaigns_page owner cursor n L =
     bindR (require (\<not> (n = 0 \<or> MAX_BATCH < n)) (Contract BatchTooLarge)) (\<lambda>_.
     Inr (owner_slots owner cursor
            (min (min u64_max (cursor + n)) (count_of owner L)) L))"

definition campaign_stats :: "ctx \<Rightarrow> nat \<Rightarrow> ledger \<Rightarrow> (failure, campaign_stats) res" where
  "campaign_stats cx cid L =
     bindR (ok_or (campaigns L cid) CampaignNotFound) (\<lambda>camp.
     Inr \<lparr>st_total_supply = c_total_supply camp, st_minted = c_minted camp,
          st_burned = c_burned camp, st_available = c_minted camp - c_burned camp,
          st_is_expired = (c_valid_until camp < timestamp cx)\<rparr>)"

section \<open>Delegates\<close>

definition add_delegate ::
  "ctx \<Rightarrow> addr \<Rightarrow> nat \<Rightarrow> addr \<Rightarrow> ledger \<Rightarrow> (failure, unit \<times> ledger) res" where
  "add_delegate cx owner cid d L =
     bindR (require_auth cx owner) (\<lambda>_.
     bindR (require_owner L cid owner) (\<lambda>_.
     Inr ((), publish (DelegateAdded cid d) (L\<lparr>delegate := (delegate L)((cid, d) \<mapsto> True)\<rparr>))))"

definition remove_delegate ::
  "ctx \<Rightarrow> addr \<Rightarrow> nat \<Rightarrow> addr \<Rightarrow> ledger \<Rightarrow> (failure, unit \<times> ledger) res" where
  "remove_delegate cx owner cid d L =
     bindR (require_auth cx owner) (\<lambda>_.
     bindR (require_owner L cid owner) (\<lambda>_.
     Inr ((), publish (DelegateRemoved cid d) (L\<lparr>delegate := (delegate L)((cid, d) := None)\<rparr>))))"


section \<open>Issuing and redeeming\<close>

definition zero_ref :: string where
  "zero_ref = replicate 32 (CHR 0x00)"

definition check_code :: "string \<Rightarrow> (failure, unit) res" where
  "check_code code =
     bindR (require (code \<noteq> []) (Contract InvalidCode)) (\<lambda>_.
     require (length code \<le> MAX_CODE_LEN) (Contract CodeTooLong))"

definition issue_one :: "nat \<Rightarrow> nat \<Rightarrow> string \<Rightarrow> ledger \<Rightarrow> (failure, nat \<times> ledger) res" where
  "issue_one now cid code L =
     bindR (check_code code) (\<lambda>_.
     bindR (require (code_index L (cid, code) = None) (Contract DuplicateCode)) (\<lambda>_.
     bindR (add_max u64_max (tok_ctr L) 1 Trap) (\<lambda>token_id.
     let token = \<lparr>t_id = token_id, t_campaign = cid, t_code = code, t_burned = False,
                  t_minted_at = now, t_ref = zero_ref, t_burned_at = 0\<rparr>
     in Inr (token_id, publish (CouponIssued token_id cid)
          (L\<lparr>tok_ctr := token_id,
             tokens := (tokens L)(token_id \<mapsto> token),
             code_index := (code_index L)((cid, code) \<mapsto> token_id)\<rparr>)))))"

fun issue_loop :: "nat \<Rightarrow> nat \<Rightarrow> string list \<Rightarrow> ledger \<Rightarrow> (failure, nat list \<times> ledger) res" where
  "issue_loop now cid [] L = Inr ([], L)"
| "issue_loop now cid (code # codes) L =
     bindR (issue_one now cid code L) (\<lambda>(token_id, L1).
     bindR (issue_loop now cid codes L1) (\<lambda>(ids, L2). Inr (token_id # ids, L2)))"

definition issue_unique ::
  "ctx \<Rightarrow> addr \<Rightarrow> nat \<Rightarrow> string list \<Rightarrow> ledger \<Rightarrow> (failure, nat list \<times> ledger) res" where
  "issue_unique cx owner cid codes L =
     bindR (require_auth cx owner) (\<lambda>_.
     bindR (ok_or (campaigns L cid) CampaignNotFound) (\<lambda>camp.
     bindR (require (owner = c_owner camp) (Contract Unauthorized)) (\<lambda>_.
     bindR (require (timestamp cx \<le> c_valid_until camp) (Contract CampaignExpired)) (\<lambda>_.
     bindR (require (codes \<noteq> []) (Contract InvalidCode)) (\<lambda>_.
     bindR (require (length codes \<le> MAX_BATCH) (Contract BatchTooLarge)) (\<lambda>_.
     bindR (add_max u32_max (c_minted camp) (length codes) (Contract SupplyExhausted)) (\<lambda>new_minted.
     bindR (require (new_minted \<le> c_total_supply camp) (Contract SupplyExhausted)) (\<lambda>_.
     bindR (issue_loop (timestamp cx) cid codes L) (\<lambda>(ids, L1).
     Inr (ids, L1\<lparr>campaigns := (campaigns L1)(cid \<mapsto> camp\<lparr>c_minted := new_minted\<rparr>)\<rparr>))))))))))"

definition redeem_unique ::
  "ctx \<Rightarrow> addr \<Rightarrow> nat \<Rightarrow> string \<Rightarrow> string \<Rightarrow> ledger \<Rightarrow> (failure, receipt \<times> ledger) res" where
  "redeem_unique cx authorizer cid code ref L =
     bindR (require_auth cx authorizer) (\<lambda>_.
     bindR (ok_or (code_index L (cid, code)) CouponNotFound) (\<lambda>token_id.
     bindR (ok_or (tokens L token_id) CouponNotFound) (\<lambda>token.
     bindR (require (\<not> t_burned token) (Contract AlreadyRedeemed)) (\<lambda>_.
     bindR (ok_or (campaigns L (t_campaign token)) CampaignNotFound) (\<lambda>camp.
     bindR (require (authorizer = c_owner camp \<or> is_delegate (t_campaign token) authorizer L)
              (Contract Unauthorized)) (\<lambda>_.
     bindR (require (timestamp cx \<le> c_valid_until camp) (Contract CampaignExpired)) (\<lambda>_.
     let token' = token\<lparr>t_burned := True, t_ref := ref, t_burned_at := timestamp cx\<rparr>
     in bindR (add_max u32_max (c_burned camp) 1 Trap) (\<lambda>burned.
     Inr (\<lparr>r_token_id = token_id, r_code = code, r_campaign_id = c_id camp,
           r_campaign_name = c_name camp, r_discount_type = c_discount_type camp,
           r_discount_value = c_discount_value camp, r_ref = ref, r_burned_at = timestamp cx,
           r_ledger_seq = ledger_seq cx\<rparr>,
          publish (CouponBurned token_id (ledger_seq cx))
            (L\<lparr>tokens := (tokens L)(token_id \<mapsto> token'),
               campaigns := (campaigns L)(t_campaign token \<mapsto> camp\<lparr>c_burned := burned\<rparr>)\<rparr>))))))))))"

definition verify :: "nat \<Rightarrow> string \<Rightarrow> ledger \<Rightarrow> (failure, coupon_token) res" where
  "verify cid code L =
     bindR (ok_or (code_index L (cid, code)) CouponNotFound) (\<lambda>token_id.
     ok_or (tokens L token_id) CouponNotFound)"

definition is_valid :: "ctx \<Rightarrow> nat \<Rightarrow> string \<Rightarrow> ledger \<Rightarrow> bool" where
  "is_valid cx cid code L =
     (case code_index L (cid, code) of
        None \<Rightarrow> False
      | Some i \<Rightarrow>
          (case tokens L i of
             None \<Rightarrow> False
           | Some t \<Rightarrow>
               if t_burned t then False
               else (case campaigns L (t_campaign t) of
                       None \<Rightarrow> False
                     | Some c \<Rightarrow> timestamp cx \<le> c_valid_until c)))"

section \<open>The tally profile\<close>

definition register_shared ::
  "ctx \<Rightarrow> addr \<Rightarrow> nat \<Rightarrow> string \<Rightarrow> addr option \<Rightarrow> addr option \<Rightarrow> int \<Rightarrow> ledger
   \<Rightarrow> (failure, unit \<times> ledger) res" where
  "register_shared cx owner cid code attributed_to payout_token rate L =
     bindR (require_auth cx owner) (\<lambda>_.
     bindR (ok_or (campaigns L cid) CampaignNotFound) (\<lambda>camp.
     bindR (require (owner = c_owner camp) (Contract Unauthorized)) (\<lambda>_.
     bindR (require (timestamp cx \<le> c_valid_until camp) (Contract CampaignExpired)) (\<lambda>_.
     bindR (check_code code) (\<lambda>_.
     bindR (require (\<not> (attributed_to = None \<and> payout_token \<noteq> None))
              (Contract InvalidSettlement)) (\<lambda>_.
     bindR (require (if payout_token \<noteq> None then 0 < rate else rate = 0)
              (Contract InvalidSettlement)) (\<lambda>_.
     bindR (require (shared L (cid, code) = None) (Contract AlreadyRegistered)) (\<lambda>_.
     let s = \<lparr>s_campaign = cid, s_code = code, s_attributed_to = attributed_to,
              s_payout_token = payout_token, s_payout_rate = rate,
              s_registered_at = timestamp cx\<rparr>
     in Inr ((), publish (SharedRegistered cid attributed_to)
          (L\<lparr>shared := (shared L)((cid, code) \<mapsto> s)\<rparr>))))))))))"

definition get_shared :: "nat \<Rightarrow> string \<Rightarrow> ledger \<Rightarrow> (failure, shared_code) res" where
  "get_shared cid code L = ok_or (shared L (cid, code)) SharedNotFound"

fun attributed_sum :: "addr option \<Rightarrow> (addr \<times> nat) list \<Rightarrow> nat \<Rightarrow> (failure, nat) res" where
  "attributed_sum target [] acc = Inr acc"
| "attributed_sum target ((a, v) # ps) acc =
     bindR (require (case target of Some t \<Rightarrow> a = t | None \<Rightarrow> True) (Contract AttributionMismatch)) (\<lambda>_.
     bindR (add_max u32_max acc v (Contract InvalidTally)) (\<lambda>acc'. attributed_sum target ps acc'))"

definition commit_tally ::
  "ctx \<Rightarrow> addr \<Rightarrow> nat \<Rightarrow> string \<Rightarrow> nat \<Rightarrow> nat \<Rightarrow> string \<Rightarrow> (addr \<times> nat) list \<Rightarrow> ledger
   \<Rightarrow> (failure, unit \<times> ledger) res" where
  "commit_tally cx owner cid code period count root per_attribution L =
     bindR (require_auth cx owner) (\<lambda>_.
     bindR (require_owner L cid owner) (\<lambda>_.
     bindR (ok_or (shared L (cid, code)) SharedNotFound) (\<lambda>sh.
     bindR (require (tallies L (cid, code, period) = None) (Contract PeriodCommitted)) (\<lambda>_.
     bindR (require (\<not> (s_attributed_to sh = None \<and> per_attribution \<noteq> []))
              (Contract AttributionMismatch)) (\<lambda>_.
     bindR (attributed_sum (s_attributed_to sh) per_attribution 0) (\<lambda>attributed.
     bindR (require (\<not> (s_attributed_to sh \<noteq> None \<and> attributed \<noteq> count))
              (Contract InvalidTally)) (\<lambda>_.
     Inr ((), publish (TallyCommitted cid period count)
       (L\<lparr>tallies := (tallies L)((cid, code, period) \<mapsto>
            \<lparr>ta_period = period, ta_count = count, ta_merkle_root = root,
             ta_per_attribution = per_attribution\<rparr>)\<rparr>)))))))))"

definition get_tally :: "nat \<Rightarrow> string \<Rightarrow> nat \<Rightarrow> ledger \<Rightarrow> (failure, tally) res" where
  "get_tally cid code period L = ok_or (tallies L (cid, code, period)) TallyNotFound"

definition is_settled :: "nat \<Rightarrow> string \<Rightarrow> nat \<Rightarrow> ledger \<Rightarrow> bool" where
  "is_settled cid code period L \<longleftrightarrow> settled L (cid, code, period) \<noteq> None"

definition compute_payouts ::
  "nat \<Rightarrow> string \<Rightarrow> nat \<Rightarrow> ledger \<Rightarrow> (failure, payout list) res" where
  "compute_payouts cid code period L =
     bindR (ok_or (shared L (cid, code)) SharedNotFound) (\<lambda>sh.
     bindR (ok_or (tallies L (cid, code, period)) TallyNotFound) (\<lambda>ta.
     mapR (\<lambda>(a, n). bindR (i128 (int n * s_payout_rate sh)) (\<lambda>amount.
             Inr \<lparr>p_to = a, p_amount = amount\<rparr>)) (ta_per_attribution ta)))"


text \<open>The token contract, as the settlement uses it; \<open>None\<close> is a transfer the token refuses.\<close>

record 'w token_contract =
  tk_allowance :: "addr \<Rightarrow> addr \<Rightarrow> addr \<Rightarrow> 'w \<Rightarrow> int" \<comment> \<open>token, owner, spender\<close>
  tk_balance :: "addr \<Rightarrow> addr \<Rightarrow> 'w \<Rightarrow> int" \<comment> \<open>token, owner\<close>
  tk_transfer_from :: "addr \<Rightarrow> addr \<Rightarrow> addr \<Rightarrow> addr \<Rightarrow> int \<Rightarrow> 'w \<Rightarrow> 'w option"
    \<comment> \<open>token, spender, owner, receiver, amount\<close>

fun settle_payouts ::
  "int \<Rightarrow> (addr \<times> nat) list \<Rightarrow> int \<Rightarrow> payout list \<Rightarrow> (failure, payout list \<times> int) res" where
  "settle_payouts rate [] tot out = Inr (out, tot)"
| "settle_payouts rate ((a, n) # ps) tot out =
     bindR (i128 (int n * rate)) (\<lambda>amount.
     if 0 < amount then
       bindR (i128 (tot + amount)) (\<lambda>tot'.
       settle_payouts rate ps tot' (out @ [\<lparr>p_to = a, p_amount = amount\<rparr>]))
     else settle_payouts rate ps tot out)"

fun pay_all ::
  "'w token_contract \<Rightarrow> addr \<Rightarrow> addr \<Rightarrow> addr \<Rightarrow> payout list \<Rightarrow> 'w \<Rightarrow> (failure, 'w) res" where
  "pay_all T token spender owner [] w = Inr w"
| "pay_all T token spender owner (p # ps) w =
     (case tk_transfer_from T token spender owner (p_to p) (p_amount p) w of
        None \<Rightarrow> Inl Trap
      | Some w' \<Rightarrow> pay_all T token spender owner ps w')"

definition settle ::
  "'w token_contract \<Rightarrow> addr \<Rightarrow> addr \<Rightarrow> nat \<Rightarrow> string \<Rightarrow> nat \<Rightarrow> ledger \<times> 'w
   \<Rightarrow> (failure, payout list \<times> ledger \<times> 'w) res" where
  \<comment> \<open>\<open>spender\<close> is the contract's own address\<close>
  "settle T spender owner cid code period = (\<lambda>(L, w).
     bindR (require_owner L cid owner) (\<lambda>_.
     bindR (ok_or (shared L (cid, code)) SharedNotFound) (\<lambda>sh.
     bindR (ok_or (s_payout_token sh) InvalidSettlement) (\<lambda>token.
     bindR (require (0 < s_payout_rate sh) (Contract InvalidSettlement)) (\<lambda>_.
     bindR (ok_or (tallies L (cid, code, period)) TallyNotFound) (\<lambda>ta.
     bindR (require (settled L (cid, code, period) = None) (Contract AlreadySettled)) (\<lambda>_.
     bindR (settle_payouts (s_payout_rate sh) (ta_per_attribution ta) 0 []) (\<lambda>(out, tot).
     let L1 = L\<lparr>settled := (settled L)((cid, code, period) \<mapsto> True)\<rparr>
     in bindR (require (tot \<le> tk_allowance T token owner spender w \<and> tot \<le> tk_balance T token owner w)
                 (Contract InvalidSettlement)) (\<lambda>_.
     bindR (pay_all T token spender owner out w) (\<lambda>w'.
     Inr (out, publish (TallySettled cid period token (s_payout_rate sh)) L1, w')))))))))))"

section \<open>The contract as one machine\<close>

text \<open>
  The calls that change the state, with their arguments; the reads are functions of the ledger.
  \<open>exec\<close> runs one call: a failure, whatever it had written, leaves the state as it was.
\<close>

datatype op =
    CreateCampaign addr string string nat nat nat
  | AddDelegate addr nat addr
  | RemoveDelegate addr nat addr
  | IssueUnique addr nat "string list"
  | RedeemUnique addr nat string string
  | RegisterShared addr nat string "addr option" "addr option" int
  | CommitTally addr nat string nat nat string "(addr \<times> nat) list"
  | Settle addr nat string nat

datatype result = RId nat | RUnit | RIds "nat list" | RReceipt receipt | RPayouts "payout list"

definition on_ledger ::
  "('a \<Rightarrow> result) \<Rightarrow> (ledger \<Rightarrow> (failure, 'a \<times> ledger) res) \<Rightarrow> ledger \<times> 'w
   \<Rightarrow> (failure, result \<times> ledger \<times> 'w) res" where
  "on_ledger f g = (\<lambda>(L, w). bindR (g L) (\<lambda>(x, L'). Inr (f x, L', w)))"

fun call_op ::
  "'w token_contract \<Rightarrow> addr \<Rightarrow> ctx \<Rightarrow> op \<Rightarrow> ledger \<times> 'w \<Rightarrow> (failure, result \<times> ledger \<times> 'w) res" where
  "call_op T me cx (CreateCampaign ow n t v s u) = on_ledger RId (create_campaign cx ow n t v s u)"
| "call_op T me cx (AddDelegate ow c d) = on_ledger (\<lambda>_. RUnit) (add_delegate cx ow c d)"
| "call_op T me cx (RemoveDelegate ow c d) = on_ledger (\<lambda>_. RUnit) (remove_delegate cx ow c d)"
| "call_op T me cx (IssueUnique ow c ks) = on_ledger RIds (issue_unique cx ow c ks)"
| "call_op T me cx (RedeemUnique a c k r) = on_ledger RReceipt (redeem_unique cx a c k r)"
| "call_op T me cx (RegisterShared ow c k at tk rt) =
     on_ledger (\<lambda>_. RUnit) (register_shared cx ow c k at tk rt)"
| "call_op T me cx (CommitTally ow c k p n m pa) =
     on_ledger (\<lambda>_. RUnit) (commit_tally cx ow c k p n m pa)"
| "call_op T me cx (Settle ow c k p) = (\<lambda>s.
     bindR (settle T me ow c k p s) (\<lambda>(ps, s'). Inr (RPayouts ps, s')))"

definition exec ::
  "'w token_contract \<Rightarrow> addr \<Rightarrow> ctx \<Rightarrow> op \<Rightarrow> ledger \<times> 'w \<Rightarrow> (failure, result) res \<times> ledger \<times> 'w" where
  "exec T me cx o' s =
     (case call_op T me cx o' s of Inl f \<Rightarrow> (Inl f, s) | Inr (r, s') \<Rightarrow> (Inr r, s'))"

text \<open>
  The machine moves by a call that succeeds, in any context of the host, or because the token's
  own state changed by calls that do not go through this contract.
\<close>

inductive moves :: "'w token_contract \<Rightarrow> addr \<Rightarrow> ledger \<times> 'w \<Rightarrow> ledger \<times> 'w \<Rightarrow> bool" for T me where
  call: "call_op T me cx o' s = Inr (r, s') \<Longrightarrow> moves T me s s'"
| outside: "moves T me (L, w) (L, w')"

inductive_cases moves_cases: "moves T me s s'"

abbreviation later :: "'w token_contract \<Rightarrow> addr \<Rightarrow> ledger \<times> 'w \<Rightarrow> ledger \<times> 'w \<Rightarrow> bool" where
  "later T me \<equiv> (moves T me)\<^sup>*\<^sup>*"

definition reachable :: "'w token_contract \<Rightarrow> addr \<Rightarrow> ledger \<times> 'w \<Rightarrow> bool" where
  "reachable T me s \<longleftrightarrow> (\<exists>w. later T me (empty_ledger, w) s)"

end
