(* ===== verification/Machine.thy ===== *)
theory Machine
  imports Prelude
begin

text \<open>
  The contracts between a state machine and its clients. \<open>invariant_machine\<close> is a step relation
  with an invariant every step keeps; \<open>ordered_machine\<close> adds an order in which every step goes
  up, so that what the order protects is never lost along a run. The ledger, the activity log and
  the playground's mirror are instances, in the theories that define them.
\<close>

locale invariant_machine =
  fixes stp :: "'s \<Rightarrow> 's \<Rightarrow> bool"
    and inv :: "'s \<Rightarrow> bool"
  assumes stp_inv: "stp s t \<Longrightarrow> inv s \<Longrightarrow> inv t"
begin

lemma run_inv: "stp\<^sup>*\<^sup>* s t \<Longrightarrow> inv s \<Longrightarrow> inv t"
  by (induction rule: rtranclp_induct) (auto intro: stp_inv)

end

locale ordered_machine = invariant_machine stp inv
  for stp :: "'s \<Rightarrow> 's \<Rightarrow> bool" and inv :: "'s \<Rightarrow> bool" +
  fixes le :: "'s \<Rightarrow> 's \<Rightarrow> bool"
  assumes le_refl: "le s s"
    and le_trans: "le s t \<Longrightarrow> le t u \<Longrightarrow> le s u"
    and stp_le: "stp s t \<Longrightarrow> inv s \<Longrightarrow> le s t"
begin

lemma run_le: "stp\<^sup>*\<^sup>* s t \<Longrightarrow> inv s \<Longrightarrow> le s t"
proof (induction rule: rtranclp_induct)
  case base
  show ?case by (rule le_refl)
next
  case (step t u)
  from step(1,4) have "inv t" by (rule run_inv)
  with step show ?case by (blast intro: le_trans stp_le)
qed

text \<open>Any two states of one run are ordered: what holds at the first is kept to the last.\<close>

lemma run_chain: "inv s \<Longrightarrow> stp\<^sup>*\<^sup>* s t \<Longrightarrow> stp\<^sup>*\<^sup>* t u \<Longrightarrow> le t u \<and> inv u"
  by (blast intro: run_inv run_le)

end

end
