(* ===== verification/Ledger_Inv.thy ===== *)
theory Ledger_Inv
  imports "HOL-Library.Sublist" Ledger Machine
begin

text \<open>
  The invariant of the coupon-ledger contract and its preservation by every call: the counters of
  a campaign count its coupons and never pass its supply, codes and coupons determine each other,
  every campaign has one slot in its owner's listing, the settlement terms of a shared code are
  consistent, a tally credits only the registered target and exactly the committed total, and a
  settled period has a tally.
\<close>

definition issued :: "ledger \<Rightarrow> nat \<Rightarrow> nat set" where
  "issued L i = {k. \<exists>t. tokens L k = Some t \<and> t_campaign t = i}"

definition redeemed :: "ledger \<Rightarrow> nat \<Rightarrow> nat set" where
  "redeemed L i = {k. \<exists>t. tokens L k = Some t \<and> t_campaign t = i \<and> t_burned t}"

definition token_inv :: "ledger \<Rightarrow> bool" where
  "token_inv L \<longleftrightarrow>
     (\<forall>k t. tokens L k = Some t \<longrightarrow> t_id t = k \<and> 0 < k \<and> k \<le> tok_ctr L \<and>
        code_index L (t_campaign t, t_code t) = Some k \<and> campaigns L (t_campaign t) \<noteq> None) \<and>
     (\<forall>i s k. code_index L (i, s) = Some k \<longrightarrow>
        (\<exists>t. tokens L k = Some t \<and> t_campaign t = i \<and> t_code t = s))"

definition campaign_inv :: "ledger \<Rightarrow> bool" where
  "campaign_inv L \<longleftrightarrow>
     (\<forall>i c. campaigns L i = Some c \<longrightarrow> c_id c = i \<and> 0 < i \<and> i \<le> camp_ctr L \<and>
        c_minted c = card (issued L i) \<and> c_burned c = card (redeemed L i) \<and>
        c_minted c \<le> c_total_supply c)"

definition owner_inv :: "ledger \<Rightarrow> bool" where
  "owner_inv L \<longleftrightarrow>
     (\<forall>a. count_of a L \<le> u64_max) \<and>
     (\<forall>a n. owner_campaign L (a, n) \<noteq> None \<longleftrightarrow> n < count_of a L) \<and>
     (\<forall>a n i. owner_campaign L (a, n) = Some i \<longrightarrow> campaign_owner_slot L i = Some n \<and>
        (\<exists>c. campaigns L i = Some c \<and> c_owner c = a)) \<and>
     (\<forall>i c. campaigns L i = Some c \<longrightarrow> (\<exists>n. owner_campaign L (c_owner c, n) = Some i))"

definition shared_inv :: "ledger \<Rightarrow> bool" where
  "shared_inv L \<longleftrightarrow>
     (\<forall>i s sh. shared L (i, s) = Some sh \<longrightarrow>
        (if s_payout_token sh = None then s_payout_rate sh = 0
         else 0 < s_payout_rate sh \<and> s_attributed_to sh \<noteq> None))"

definition tally_fits :: "shared_code \<Rightarrow> tally \<Rightarrow> bool" where
  "tally_fits sh ta \<longleftrightarrow>
     (case s_attributed_to sh of
        None \<Rightarrow> ta_per_attribution ta = []
      | Some a \<Rightarrow> (\<forall>p\<in>set (ta_per_attribution ta). fst p = a) \<and>
                  sum_list (map snd (ta_per_attribution ta)) = ta_count ta \<and> ta_count ta \<le> u32_max)"

definition tally_inv :: "ledger \<Rightarrow> bool" where
  "tally_inv L \<longleftrightarrow>
     (\<forall>i s p ta. tallies L (i, s, p) = Some ta \<longrightarrow>
        ta_period ta = p \<and> (\<exists>sh. shared L (i, s) = Some sh \<and> tally_fits sh ta)) \<and>
     (\<forall>i s p. settled L (i, s, p) \<noteq> None \<longrightarrow> tallies L (i, s, p) \<noteq> None)"

definition ledger_inv :: "ledger \<Rightarrow> bool" where
  "ledger_inv L \<longleftrightarrow> token_inv L \<and> campaign_inv L \<and> owner_inv L \<and> shared_inv L \<and> tally_inv L"

lemma ledger_inv_empty: "ledger_inv empty_ledger"
  by (simp add: ledger_inv_def token_inv_def campaign_inv_def owner_inv_def shared_inv_def
      tally_inv_def empty_ledger_def count_of_def)

section \<open>Frames: which part of the state each piece reads\<close>

text \<open>An event changes none of them.\<close>

lemma publish_sel [simp]:
  "camp_ctr (publish e L) = camp_ctr L" "tok_ctr (publish e L) = tok_ctr L"
  "campaigns (publish e L) = campaigns L" "tokens (publish e L) = tokens L"
  "code_index (publish e L) = code_index L" "delegate (publish e L) = delegate L"
  "owner_count (publish e L) = owner_count L" "owner_campaign (publish e L) = owner_campaign L"
  "campaign_owner_slot (publish e L) = campaign_owner_slot L" "shared (publish e L) = shared L"
  "tallies (publish e L) = tallies L" "settled (publish e L) = settled L"
  by (simp_all add: publish_def)

lemma events_publish [simp]: "events (publish e L) = events L @ [e]"
  by (simp add: publish_def)

lemma publish_sets [simp]:
  "issued (publish e L) i = issued L i" "redeemed (publish e L) i = redeemed L i"
  "count_of a (publish e L) = count_of a L"
  by (simp_all add: issued_def redeemed_def count_of_def)

lemma publish_inv [simp]: "ledger_inv (publish e L) = ledger_inv L"
  by (simp add: ledger_inv_def token_inv_def campaign_inv_def owner_inv_def shared_inv_def
      tally_inv_def)

text \<open>The coupons of a campaign are finitely many: their numbers are below the counter.\<close>

lemma issued_bounded: "token_inv L \<Longrightarrow> issued L i \<subseteq> {1..tok_ctr L}"
  by (fastforce simp: token_inv_def issued_def)

lemma finite_issued: "token_inv L \<Longrightarrow> finite (issued L i)"
  using finite_subset [OF issued_bounded] by blast

lemma redeemed_subset: "redeemed L i \<subseteq> issued L i"
  by (auto simp: redeemed_def issued_def)

lemma finite_redeemed: "token_inv L \<Longrightarrow> finite (redeemed L i)"
  using finite_issued redeemed_subset finite_subset by metis

lemma burned_le_minted: "token_inv L \<Longrightarrow> campaign_inv L \<Longrightarrow> campaigns L i = Some c \<Longrightarrow>
    c_burned c \<le> c_minted c"
  by (simp add: campaign_inv_def card_mono finite_issued redeemed_subset)

section \<open>Using and establishing the pieces\<close>

lemma token_invD:
  "token_inv L \<Longrightarrow> tokens L k = Some t \<Longrightarrow> t_id t = k \<and> 0 < k \<and> k \<le> tok_ctr L \<and>
     code_index L (t_campaign t, t_code t) = Some k \<and> (\<exists>c. campaigns L (t_campaign t) = Some c)"
  unfolding token_inv_def by blast

lemma code_invD:
  "token_inv L \<Longrightarrow> code_index L (i, s) = Some k \<Longrightarrow>
     \<exists>t. tokens L k = Some t \<and> t_campaign t = i \<and> t_code t = s"
  unfolding token_inv_def by blast

lemma token_invI:
  assumes "\<And>k t. tokens L k = Some t \<Longrightarrow> t_id t = k \<and> 0 < k \<and> k \<le> tok_ctr L \<and>
      code_index L (t_campaign t, t_code t) = Some k \<and> (\<exists>c. campaigns L (t_campaign t) = Some c)"
    and "\<And>i s k. code_index L (i, s) = Some k \<Longrightarrow>
      \<exists>t. tokens L k = Some t \<and> t_campaign t = i \<and> t_code t = s"
  shows "token_inv L"
  unfolding token_inv_def using assms by blast

lemma token_inv_frame:
  "token_inv L \<Longrightarrow> tokens L' = tokens L \<Longrightarrow> code_index L' = code_index L \<Longrightarrow>
   tok_ctr L' = tok_ctr L \<Longrightarrow> dom (campaigns L) \<subseteq> dom (campaigns L') \<Longrightarrow> token_inv L'"
  by (rule token_invI) (fastforce dest: token_invD code_invD)+

lemma campaign_invD:
  "campaign_inv L \<Longrightarrow> campaigns L i = Some c \<Longrightarrow> c_id c = i \<and> 0 < i \<and> i \<le> camp_ctr L \<and>
     c_minted c = card (issued L i) \<and> c_burned c = card (redeemed L i) \<and> c_minted c \<le> c_total_supply c"
  unfolding campaign_inv_def by blast

lemma campaign_invI:
  assumes "\<And>i c. campaigns L i = Some c \<Longrightarrow> c_id c = i \<and> 0 < i \<and> i \<le> camp_ctr L \<and>
     c_minted c = card (issued L i) \<and> c_burned c = card (redeemed L i) \<and> c_minted c \<le> c_total_supply c"
  shows "campaign_inv L"
  unfolding campaign_inv_def using assms by blast

lemma owner_invD:
  assumes "owner_inv L"
  shows "owner_campaign L (a, n) \<noteq> None \<longleftrightarrow> n < count_of a L"
    and "owner_campaign L (a, n) = Some i \<Longrightarrow> campaign_owner_slot L i = Some n \<and>
      (\<exists>c. campaigns L i = Some c \<and> c_owner c = a)"
    and "campaigns L i = Some c \<Longrightarrow> \<exists>n. owner_campaign L (c_owner c, n) = Some i"
    and "count_of a L \<le> u64_max"
  using assms unfolding owner_inv_def by blast+

lemma owner_invI:
  assumes "\<And>a n. owner_campaign L (a, n) \<noteq> None \<longleftrightarrow> n < count_of a L"
    and "\<And>a n i. owner_campaign L (a, n) = Some i \<Longrightarrow> campaign_owner_slot L i = Some n \<and>
      (\<exists>c. campaigns L i = Some c \<and> c_owner c = a)"
    and "\<And>i c. campaigns L i = Some c \<Longrightarrow> \<exists>n. owner_campaign L (c_owner c, n) = Some i"
    and "\<And>a. count_of a L \<le> u64_max"
  shows "owner_inv L"
  unfolding owner_inv_def using assms by blast

text \<open>The owners' listing only reads who owns which campaign.\<close>

lemma owner_inv_frame:
  assumes "owner_inv L" and "owner_campaign L' = owner_campaign L" "owner_count L' = owner_count L"
    "campaign_owner_slot L' = campaign_owner_slot L"
    and "\<And>i. map_option c_owner (campaigns L' i) = map_option c_owner (campaigns L i)"
  shows "owner_inv L'"
proof -
  have "count_of a L' = count_of a L" for a by (simp add: count_of_def assms)
  moreover have "(\<exists>c. campaigns L' i = Some c \<and> c_owner c = a) \<longleftrightarrow>
      (\<exists>c. campaigns L i = Some c \<and> c_owner c = a)" for i a
    using assms(5) [of i] by (cases "campaigns L i"; cases "campaigns L' i") auto
  ultimately show ?thesis
    using assms(1) unfolding owner_inv_def by (simp add: assms(2,4)) metis
qed

lemma shared_inv_frame: "shared L' = shared L \<Longrightarrow> shared_inv L' = shared_inv L"
  by (simp add: shared_inv_def)

lemma tally_inv_frame:
  "shared L' = shared L \<Longrightarrow> tallies L' = tallies L \<Longrightarrow> settled L' = settled L \<Longrightarrow>
   tally_inv L' = tally_inv L"
  by (simp add: tally_inv_def)

text \<open>A change to the tally profile alone concerns the last two pieces only.\<close>

lemma ledger_inv_tally_frame:
  assumes "ledger_inv L" and "camp_ctr L' = camp_ctr L" "tok_ctr L' = tok_ctr L"
    "campaigns L' = campaigns L" "tokens L' = tokens L" "code_index L' = code_index L"
    "owner_count L' = owner_count L" "owner_campaign L' = owner_campaign L"
    "campaign_owner_slot L' = campaign_owner_slot L"
    and "shared_inv L'" "tally_inv L'"
  shows "ledger_inv L'"
proof -
  have "issued L' = issued L" "redeemed L' = redeemed L" "count_of a L' = count_of a L" for a
    by (simp_all add: fun_eq_iff issued_def redeemed_def count_of_def assms(5,7))
  then have "token_inv L' = token_inv L" "campaign_inv L' = campaign_inv L" "owner_inv L' = owner_inv L"
    by (simp_all only: token_inv_def campaign_inv_def owner_inv_def assms(2-9))
  with assms(1,10,11) show ?thesis unfolding ledger_inv_def by blast
qed

section \<open>Preservation\<close>

lemma no_tokens_of_new:
  assumes "token_inv L" and "campaigns L i = None"
  shows "issued L i = {}" "redeemed L i = {}"
  using assms by (auto simp: issued_def redeemed_def dest: token_invD)

lemma create_campaign_inv [inv_intros]:
  assumes I: "ledger_inv L" and c: "create_campaign cx ow nm dt dv supply unt L = Inr (r, L')"
  shows "ledger_inv L'"
proof -
  let ?i = "camp_ctr L + 1"
  have T: "token_inv L" and C: "campaign_inv L" and O: "owner_inv L" and S: "shared_inv L"
    and A: "tally_inv L" using I by (auto simp: ledger_inv_def)
  define camp where "camp = \<lparr>c_id = ?i, c_owner = ow, c_name = nm, c_discount_type = dt,
    c_discount_value = dv, c_total_supply = supply, c_minted = 0, c_burned = 0, c_valid_until = unt\<rparr>"
  define L1 where "L1 = L\<lparr>camp_ctr := ?i, campaigns := (campaigns L)(?i \<mapsto> camp),
    owner_campaign := (owner_campaign L)((ow, count_of ow L) \<mapsto> ?i),
    campaign_owner_slot := (campaign_owner_slot L)(?i \<mapsto> count_of ow L),
    owner_count := (owner_count L)(ow \<mapsto> count_of ow L + 1)\<rparr>"
  have L': "L' = publish (CampaignCreated ?i ow nm supply) L1" and cap: "count_of ow L + 1 \<le> u64_max"
    using c by (auto simp: create_campaign_def throw_simps Let_def L1_def camp_def count_of_def)
  have new: "campaigns L ?i = None" using campaign_invD [OF C, of ?i] by fastforce
  have sets: "issued L1 j = issued L j" "redeemed L1 j = redeemed L j" for j
    by (simp_all add: L1_def issued_def redeemed_def)
  have "token_inv L1" by (rule token_inv_frame [OF T]) (auto simp: L1_def)
  moreover have "campaign_inv L1"
  proof (rule campaign_invI)
    fix i c
    assume "campaigns L1 i = Some c"
    then have "i = ?i \<and> c = camp \<or> i \<noteq> ?i \<and> campaigns L i = Some c"
      by (auto simp: L1_def split: if_splits)
    then show "c_id c = i \<and> 0 < i \<and> i \<le> camp_ctr L1 \<and> c_minted c = card (issued L1 i) \<and>
        c_burned c = card (redeemed L1 i) \<and> c_minted c \<le> c_total_supply c"
      unfolding sets using no_tokens_of_new [OF T new]
      by (auto simp: L1_def camp_def dest: campaign_invD [OF C])
  qed
  moreover have "owner_inv L1"
  proof (rule owner_invI)
    fix a n
    show "owner_campaign L1 (a, n) \<noteq> None \<longleftrightarrow> n < count_of a L1"
      using owner_invD(1) [OF O, of a n] by (auto simp: L1_def count_of_def)
  next
    fix a n i
    assume oc: "owner_campaign L1 (a, n) = Some i"
    show "campaign_owner_slot L1 i = Some n \<and> (\<exists>c. campaigns L1 i = Some c \<and> c_owner c = a)"
    proof (cases "(a, n) = (ow, count_of ow L)")
      case True
      with oc show ?thesis by (simp add: L1_def camp_def)
    next
      case False
      with oc have "owner_campaign L (a, n) = Some i" by (simp add: L1_def split: if_splits)
      from owner_invD(2) [OF O this] new show ?thesis by (auto simp: L1_def)
    qed
  next
    fix i c
    assume "campaigns L1 i = Some c"
    then consider "i = ?i" "c = camp" | "i \<noteq> ?i" "campaigns L i = Some c"
      by (auto simp: L1_def split: if_splits)
    then show "\<exists>n. owner_campaign L1 (c_owner c, n) = Some i"
    proof cases
      case 1
      then show ?thesis by (auto simp: L1_def camp_def)
    next
      case 2
      then obtain n where n: "owner_campaign L (c_owner c, n) = Some i" using owner_invD(3) [OF O] by blast
      then have "n < count_of (c_owner c) L" using owner_invD(1) [OF O, of "c_owner c" n] by simp
      with n show ?thesis by (intro exI [of _ n]) (auto simp: L1_def)
    qed
  next
    fix a
    show "count_of a L1 \<le> u64_max"
      using cap owner_invD(4) [OF O, of a] by (auto simp: L1_def count_of_def)
  qed
  moreover have "shared_inv L1" "tally_inv L1"
    using S A by (simp_all add: shared_inv_def tally_inv_def L1_def)
  ultimately have "ledger_inv L1" by (simp add: ledger_inv_def)
  then show ?thesis by (simp add: L')
qed

text \<open>Delegates and the event list are outside the invariant.\<close>

lemma ledger_inv_delegate: "ledger_inv (L\<lparr>delegate := d\<rparr>) = ledger_inv L"
  by (simp add: ledger_inv_def token_inv_def campaign_inv_def owner_inv_def shared_inv_def
      tally_inv_def issued_def redeemed_def count_of_def)

lemma add_delegate_inv [inv_intros]:
  "ledger_inv L \<Longrightarrow> add_delegate cx ow i d L = Inr (r, L') \<Longrightarrow> ledger_inv L'"
  by (auto simp: add_delegate_def throw_simps ledger_inv_delegate)

lemma remove_delegate_inv [inv_intros]:
  "ledger_inv L \<Longrightarrow> remove_delegate cx ow i d L = Inr (r, L') \<Longrightarrow> ledger_inv L'"
  by (auto simp: remove_delegate_def throw_simps ledger_inv_delegate)

text \<open>
  Issuing: \<open>issued_more i n L L'\<close> says that \<open>n\<close> fresh coupons were added to campaign \<open>i\<close> and that
  the rest of the state is as it was.
\<close>

definition issued_more :: "nat \<Rightarrow> nat \<Rightarrow> ledger \<Rightarrow> ledger \<Rightarrow> bool" where
  "issued_more i n L L' \<longleftrightarrow>
     token_inv L' \<and> card (issued L' i) = card (issued L i) + n \<and>
     (\<forall>j. j \<noteq> i \<longrightarrow> issued L' j = issued L j) \<and> (\<forall>j. redeemed L' j = redeemed L j) \<and>
     campaigns L' = campaigns L \<and> camp_ctr L' = camp_ctr L \<and> owner_count L' = owner_count L \<and>
     owner_campaign L' = owner_campaign L \<and> campaign_owner_slot L' = campaign_owner_slot L \<and>
     shared L' = shared L \<and> tallies L' = tallies L \<and> settled L' = settled L \<and>
     delegate L' = delegate L \<and> tokens L \<subseteq>\<^sub>m tokens L' \<and> code_index L \<subseteq>\<^sub>m code_index L' \<and>
     prefix (events L) (events L')"

lemma issued_moreD:
  assumes "issued_more i n L L'"
  shows "token_inv L'" "card (issued L' i) = card (issued L i) + n"
    "j \<noteq> i \<Longrightarrow> issued L' j = issued L j" "redeemed L' j = redeemed L j"
    "campaigns L' = campaigns L" "camp_ctr L' = camp_ctr L" "owner_count L' = owner_count L"
    "owner_campaign L' = owner_campaign L" "campaign_owner_slot L' = campaign_owner_slot L"
    "shared L' = shared L" "tallies L' = tallies L" "settled L' = settled L"
    "delegate L' = delegate L" "tokens L \<subseteq>\<^sub>m tokens L'" "code_index L \<subseteq>\<^sub>m code_index L'"
    "prefix (events L) (events L')"
  using assms unfolding issued_more_def by blast+

lemma issued_more_refl: "token_inv L \<Longrightarrow> issued_more i 0 L L"
  by (simp add: issued_more_def)

lemma issued_more_trans:
  "issued_more i m L L1 \<Longrightarrow> issued_more i n L1 L2 \<Longrightarrow> issued_more i (m + n) L L2"
  unfolding issued_more_def by (auto intro: map_le_trans prefix_order.trans)

lemma issue_one_more:
  assumes T: "token_inv L" and i: "campaigns L i \<noteq> None"
    and r: "issue_one now i s L = Inr (k, L')"
  shows "issued_more i 1 L L'"
proof -
  define t where "t = \<lparr>t_id = k, t_campaign = i, t_code = s, t_burned = False,
    t_minted_at = now, t_ref = zero_ref, t_burned_at = 0\<rparr>"
  have fresh: "code_index L (i, s) = None" and k: "k = tok_ctr L + 1"
    and L': "L' = publish (CouponIssued k i) (L\<lparr>tok_ctr := k, tokens := (tokens L)(k \<mapsto> t),
      code_index := (code_index L)((i, s) \<mapsto> k)\<rparr>)"
    using r by (auto simp: issue_one_def throw_simps Let_def t_def)
  have new: "tokens L k = None" using token_invD [OF T, of k] k by fastforce
  have t: "t_campaign t = i" "t_code t = s" "\<not> t_burned t" "t_id t = k" by (simp_all add: t_def)
  have sets: "issued L' j = (if j = i then insert k (issued L j) else issued L j)"
    "redeemed L' j = redeemed L j" for j
    using new t by (auto simp: L' issued_def redeemed_def)
  have "k \<notin> issued L i" using new by (simp add: issued_def)
  then have "card (issued L' i) = card (issued L i) + 1"
    using finite_issued [OF T, of i] by (simp add: sets)
  moreover have "token_inv L'"
  proof (rule token_invI)
    fix k' t'
    assume "tokens L' k' = Some t'"
    then consider "k' = k" "t' = t" | "k' \<noteq> k" "tokens L k' = Some t'"
      by (auto simp: L' split: if_splits)
    then show "t_id t' = k' \<and> 0 < k' \<and> k' \<le> tok_ctr L' \<and>
        code_index L' (t_campaign t', t_code t') = Some k' \<and> (\<exists>c. campaigns L' (t_campaign t') = Some c)"
    proof cases
      case 1
      then show ?thesis using i t k by (auto simp: L')
    next
      case 2
      from token_invD [OF T this(2)] fresh k show ?thesis by (auto simp: L')
    qed
  next
    fix i' s' k'
    assume "code_index L' (i', s') = Some k'"
    then consider "(i', s') = (i, s)" "k' = k" | "(i', s') \<noteq> (i, s)" "code_index L (i', s') = Some k'"
      by (auto simp: L' split: if_splits)
    then show "\<exists>t. tokens L' k' = Some t \<and> t_campaign t = i' \<and> t_code t = s'"
    proof cases
      case 1
      then show ?thesis using t by (auto simp: L')
    next
      case 2
      from code_invD [OF T this(2)] new show ?thesis by (auto simp: L')
    qed
  qed
  ultimately show ?thesis
    using sets new fresh by (auto simp: issued_more_def L' map_le_def)
qed

lemma issue_loop_more:
  "token_inv L \<Longrightarrow> campaigns L i \<noteq> None \<Longrightarrow> issue_loop now i ks L = Inr (ids, L') \<Longrightarrow>
   issued_more i (length ks) L L'"
proof (induction ks arbitrary: L ids)
  case Nil
  then show ?case by (simp add: issued_more_refl)
next
  case (Cons s ks)
  obtain k L1 ids' where one: "issue_one now i s L = Inr (k, L1)"
    and rest: "issue_loop now i ks L1 = Inr (ids', L')"
    using Cons.prems(3) by (auto simp: throw_simps split: prod.splits)
  have m: "issued_more i 1 L L1" using Cons.prems one by (intro issue_one_more)
  then have "token_inv L1" "campaigns L1 i \<noteq> None"
    using Cons.prems(2) by (simp_all add: issued_more_def)
  from Cons.IH [OF this rest] m have "issued_more i (1 + length ks) L L'"
    by (rule issued_more_trans [rotated])
  then show ?case by simp
qed

lemma issue_unique_result:
  assumes "issue_unique cx ow i ks L = Inr (ids, L')"
  obtains c L1 where "campaigns L i = Some c" "ow = c_owner c" "authorized cx ow"
    "timestamp cx \<le> c_valid_until c" "c_minted c + length ks \<le> c_total_supply c" "ks \<noteq> []"
    "length ks \<le> MAX_BATCH" "issue_loop (timestamp cx) i ks L = Inr (ids, L1)"
    "L' = L1\<lparr>campaigns := (campaigns L1)(i \<mapsto> c\<lparr>c_minted := c_minted c + length ks\<rparr>)\<rparr>"
  using assms by (auto simp: issue_unique_def throw_simps split: prod.splits)

lemma issue_unique_inv [inv_intros]:
  assumes I: "ledger_inv L" and r: "issue_unique cx ow i ks L = Inr (ids, L')"
  shows "ledger_inv L'"
proof -
  obtain c L1 where c: "campaigns L i = Some c" and cap: "c_minted c + length ks \<le> c_total_supply c"
    and loop: "issue_loop (timestamp cx) i ks L = Inr (ids, L1)"
    and L': "L' = L1\<lparr>campaigns := (campaigns L1)(i \<mapsto> c\<lparr>c_minted := c_minted c + length ks\<rparr>)\<rparr>"
    using issue_unique_result [OF r] by metis
  have T: "token_inv L" and C: "campaign_inv L" and O: "owner_inv L" using I by (auto simp: ledger_inv_def)
  have m: "issued_more i (length ks) L L1" using issue_loop_more [OF T _ loop] c by simp
  note more = issued_moreD [OF m]
  have sets: "issued L' j = issued L1 j" "redeemed L' j = redeemed L1 j" for j
    by (simp_all add: L' issued_def redeemed_def)
  have "token_inv L'" by (rule token_inv_frame [OF more(1)]) (auto simp: L')
  moreover have "campaign_inv L'"
  proof (rule campaign_invI)
    fix j d
    assume "campaigns L' j = Some d"
    then consider "j = i" "d = c\<lparr>c_minted := c_minted c + length ks\<rparr>" | "j \<noteq> i" "campaigns L j = Some d"
      by (auto simp: L' more(5) split: if_splits)
    then show "c_id d = j \<and> 0 < j \<and> j \<le> camp_ctr L' \<and> c_minted d = card (issued L' j) \<and>
        c_burned d = card (redeemed L' j) \<and> c_minted d \<le> c_total_supply d"
      using cap campaign_invD [OF C c] campaign_invD [OF C, of j d] unfolding sets
      by cases (simp_all add: L' more)
  qed
  moreover have "owner_inv L'"
    using c by (intro owner_inv_frame [OF O]) (simp_all add: L' more)
  moreover have "shared_inv L'" "tally_inv L'"
    using I m shared_inv_frame [of L' L] tally_inv_frame [of L' L]
    by (simp_all add: ledger_inv_def L' more)
  ultimately show ?thesis by (simp add: ledger_inv_def)
qed


lemma redeem_unique_result:
  assumes "redeem_unique cx who i s ref L = Inr (r, L')"
  obtains k t c where "code_index L (i, s) = Some k" "tokens L k = Some t" "\<not> t_burned t"
    "campaigns L (t_campaign t) = Some c" "authorized cx who"
    "who = c_owner c \<or> is_delegate (t_campaign t) who L" "timestamp cx \<le> c_valid_until c"
    "r = \<lparr>r_token_id = k, r_code = s, r_campaign_id = c_id c, r_campaign_name = c_name c,
       r_discount_type = c_discount_type c, r_discount_value = c_discount_value c, r_ref = ref,
       r_burned_at = timestamp cx, r_ledger_seq = ledger_seq cx\<rparr>"
    "L' = publish (CouponBurned k (ledger_seq cx))
       (L\<lparr>tokens := (tokens L)(k \<mapsto> t\<lparr>t_burned := True, t_ref := ref, t_burned_at := timestamp cx\<rparr>),
          campaigns := (campaigns L)(t_campaign t \<mapsto> c\<lparr>c_burned := c_burned c + 1\<rparr>)\<rparr>)"
  using assms by (auto simp: redeem_unique_def throw_simps Let_def)

lemma redeem_unique_inv [inv_intros]:
  assumes I: "ledger_inv L" and red: "redeem_unique cx who i s ref L = Inr (r, L')"
  shows "ledger_inv L'"
proof -
  obtain k t c where k: "tokens L k = Some t" "\<not> t_burned t" and c: "campaigns L (t_campaign t) = Some c"
    and L': "L' = publish (CouponBurned k (ledger_seq cx))
       (L\<lparr>tokens := (tokens L)(k \<mapsto> t\<lparr>t_burned := True, t_ref := ref, t_burned_at := timestamp cx\<rparr>),
          campaigns := (campaigns L)(t_campaign t \<mapsto> c\<lparr>c_burned := c_burned c + 1\<rparr>)\<rparr>)"
    using redeem_unique_result [OF red] by metis
  have T: "token_inv L" and C: "campaign_inv L" and O: "owner_inv L" using I by (auto simp: ledger_inv_def)
  have iss: "issued L' j = issued L j" for j using k by (auto simp: L' issued_def)
  have rdm: "redeemed L' j = (if j = t_campaign t then insert k (redeemed L j) else redeemed L j)" for j
    using k by (auto simp: L' redeemed_def)
  have ctr: "camp_ctr L' = camp_ctr L" by (simp add: L')
  have "k \<notin> redeemed L (t_campaign t)" using k by (simp add: redeemed_def)
  then have card: "card (redeemed L' (t_campaign t)) = card (redeemed L (t_campaign t)) + 1"
    using finite_redeemed [OF T] by (simp add: rdm)
  have "token_inv L'"
  proof (rule token_invI)
    fix k' t'
    assume "tokens L' k' = Some t'"
    then obtain t0 where "tokens L k' = Some t0" "t_id t' = t_id t0" "t_campaign t' = t_campaign t0"
      "t_code t' = t_code t0" using k by (auto simp: L' split: if_splits)
    with token_invD [OF T this(1)] show "t_id t' = k' \<and> 0 < k' \<and> k' \<le> tok_ctr L' \<and>
        code_index L' (t_campaign t', t_code t') = Some k' \<and> (\<exists>c. campaigns L' (t_campaign t') = Some c)"
      by (simp add: L')
  next
    fix i' s' k'
    assume "code_index L' (i', s') = Some k'"
    then have "code_index L (i', s') = Some k'" by (simp add: L')
    from code_invD [OF T this] k show "\<exists>t. tokens L' k' = Some t \<and> t_campaign t = i' \<and> t_code t = s'"
      by (auto simp: L')
  qed
  moreover have "campaign_inv L'"
  proof (rule campaign_invI)
    fix j d
    assume "campaigns L' j = Some d"
    then consider "j = t_campaign t" "d = c\<lparr>c_burned := c_burned c + 1\<rparr>"
      | "j \<noteq> t_campaign t" "campaigns L j = Some d"
      by (auto simp: L' split: if_splits)
    then show "c_id d = j \<and> 0 < j \<and> j \<le> camp_ctr L' \<and> c_minted d = card (issued L' j) \<and>
        c_burned d = card (redeemed L' j) \<and> c_minted d \<le> c_total_supply d"
      using campaign_invD [OF C c] campaign_invD [OF C, of j d] card
      by cases (simp_all add: iss rdm ctr)
  qed
  moreover have "owner_inv L'"
    using c by (intro owner_inv_frame [OF O]) (simp_all add: L')
  moreover have "shared_inv L'" "tally_inv L'"
    using I shared_inv_frame [of L' L] tally_inv_frame [of L' L] by (simp_all add: ledger_inv_def L')
  ultimately show ?thesis by (simp add: ledger_inv_def)
qed

lemma ledger_inv_shared:
  assumes "ledger_inv L" and "shared L (i, s) = None"
    and "if s_payout_token sh = None then s_payout_rate sh = 0
         else 0 < s_payout_rate sh \<and> s_attributed_to sh \<noteq> None"
  shows "ledger_inv (L\<lparr>shared := (shared L)((i, s) \<mapsto> sh)\<rparr>)" (is "ledger_inv ?L'")
proof (rule ledger_inv_tally_frame [OF assms(1)])
  show "shared_inv ?L'" using assms(1,3) by (simp add: ledger_inv_def shared_inv_def)
  have "tallies L (i, s, p) = None" for p
    using assms(1,2) unfolding ledger_inv_def tally_inv_def
    by (cases "tallies L (i, s, p)") fastforce+
  then show "tally_inv ?L'"
    using assms(1) unfolding ledger_inv_def tally_inv_def by auto
qed simp_all

lemma register_shared_inv [inv_intros]:
  assumes I: "ledger_inv L" and r: "register_shared cx ow i s at tk rt L = Inr (u, L')"
  shows "ledger_inv L'"
  using r ledger_inv_shared [OF I, of i s]
  by (auto simp: register_shared_def throw_simps Let_def split: if_split_asm)

lemma attributed_sum_result:
  "attributed_sum (Some a) ps acc = Inr n \<Longrightarrow> acc \<le> u32_max \<Longrightarrow>
   (\<forall>p\<in>set ps. fst p = a) \<and> n = acc + sum_list (map snd ps) \<and> n \<le> u32_max"
  by (induction "Some a" ps acc rule: attributed_sum.induct) (auto simp: throw_simps)

lemma ledger_inv_tally:
  assumes "ledger_inv L" and "shared L (i, s) = Some sh" and "ta_period ta = p" and "tally_fits sh ta"
  shows "ledger_inv (L\<lparr>tallies := (tallies L)((i, s, p) \<mapsto> ta)\<rparr>)" (is "ledger_inv ?L'")
proof (rule ledger_inv_tally_frame [OF assms(1)])
  show "shared_inv ?L'" using assms(1) by (simp add: ledger_inv_def shared_inv_def)
  show "tally_inv ?L'" using assms unfolding ledger_inv_def tally_inv_def by simp
qed simp_all

lemma commit_tally_result:
  assumes "commit_tally cx ow i s p n m pa L = Inr (u, L')"
  obtains sh c where "campaigns L i = Some c" "ow = c_owner c" "authorized cx ow"
    "shared L (i, s) = Some sh" "tallies L (i, s, p) = None"
    "tally_fits sh \<lparr>ta_period = p, ta_count = n, ta_merkle_root = m, ta_per_attribution = pa\<rparr>"
    "L' = publish (TallyCommitted i p n) (L\<lparr>tallies := (tallies L)((i, s, p) \<mapsto>
       \<lparr>ta_period = p, ta_count = n, ta_merkle_root = m, ta_per_attribution = pa\<rparr>)\<rparr>)"
proof -
  let ?ta = "\<lparr>ta_period = p, ta_count = n, ta_merkle_root = m, ta_per_attribution = pa\<rparr>"
  obtain c sh k where c: "campaigns L i = Some c" "ow = c_owner c" "authorized cx ow"
    and sh: "shared L (i, s) = Some sh" "tallies L (i, s, p) = None"
      "s_attributed_to sh = None \<longrightarrow> pa = []" "attributed_sum (s_attributed_to sh) pa 0 = Inr k"
      "s_attributed_to sh \<noteq> None \<longrightarrow> k = n"
    and L': "L' = publish (TallyCommitted i p n) (L\<lparr>tallies := (tallies L)((i, s, p) \<mapsto> ?ta)\<rparr>)"
    using assms by (auto simp: commit_tally_def require_owner_def throw_simps)
  have "tally_fits sh ?ta"
  proof (cases "s_attributed_to sh")
    case (Some a)
    with sh attributed_sum_result [of a pa 0 k] show ?thesis by (simp add: tally_fits_def)
  qed (use sh in \<open>simp add: tally_fits_def\<close>)
  with c sh L' that show thesis by blast
qed

lemma commit_tally_inv [inv_intros]:
  "ledger_inv L \<Longrightarrow> commit_tally cx ow i s p n m pa L = Inr (u, L') \<Longrightarrow> ledger_inv L'"
  by (erule commit_tally_result) (simp add: ledger_inv_tally)

lemma ledger_inv_settled:
  assumes "ledger_inv L" and "tallies L (i, s, p) \<noteq> None"
  shows "ledger_inv (L\<lparr>settled := (settled L)((i, s, p) \<mapsto> b)\<rparr>)" (is "ledger_inv ?L'")
proof (rule ledger_inv_tally_frame [OF assms(1)])
  show "shared_inv ?L'" using assms(1) by (simp add: ledger_inv_def shared_inv_def)
  show "tally_inv ?L'" using assms unfolding ledger_inv_def tally_inv_def by simp
qed simp_all

lemma settle_result:
  assumes "settle T me ow i s p (L, w) = Inr (out, L', w')"
  obtains c sh token ta tot where "campaigns L i = Some c" "ow = c_owner c"
    "shared L (i, s) = Some sh" "s_payout_token sh = Some token" "0 < s_payout_rate sh"
    "tallies L (i, s, p) = Some ta" "settled L (i, s, p) = None"
    "settle_payouts (s_payout_rate sh) (ta_per_attribution ta) 0 [] = Inr (out, tot)"
    "tot \<le> tk_allowance T token ow me w" "tot \<le> tk_balance T token ow w"
    "pay_all T token me ow out w = Inr w'"
    "L' = publish (TallySettled i p token (s_payout_rate sh)) (L\<lparr>settled := (settled L)((i, s, p) \<mapsto> True)\<rparr>)"
proof -
  have "\<exists>c sh token ta tot. campaigns L i = Some c \<and> ow = c_owner c \<and>
    shared L (i, s) = Some sh \<and> s_payout_token sh = Some token \<and> 0 < s_payout_rate sh \<and>
    tallies L (i, s, p) = Some ta \<and> settled L (i, s, p) = None \<and>
    settle_payouts (s_payout_rate sh) (ta_per_attribution ta) 0 [] = Inr (out, tot) \<and>
    tot \<le> tk_allowance T token ow me w \<and> tot \<le> tk_balance T token ow w \<and>
    pay_all T token me ow out w = Inr w' \<and>
    L' = publish (TallySettled i p token (s_payout_rate sh)) (L\<lparr>settled := (settled L)((i, s, p) \<mapsto> True)\<rparr>)"
    using assms unfolding settle_def require_owner_def Let_def prod.case
    by (simp only: throw_simps prod.case) (clarsimp simp: throw_simps)
  then show thesis using that by blast
qed

lemma settle_inv [inv_intros]:
  "ledger_inv L \<Longrightarrow> settle T me ow i s p (L, w) = Inr (out, L', w') \<Longrightarrow> ledger_inv L'"
  by (erule settle_result) (simp add: ledger_inv_settled)

lemma call_op_inv:
  assumes "call_op T me cx o' (L, w) = Inr (r, L', w')" and "ledger_inv L"
  shows "ledger_inv L'"
proof -
  have lift: "\<exists>x. g L = Inr (x, L')" if "on_ledger f g (L, w) = Inr (r, L', w')"
    for f :: "'b \<Rightarrow> result" and g
    using that by (auto simp: on_ledger_def throw_simps split: prod.split_asm)
  show ?thesis
  proof (cases o')
    case (Settle ow i s p)
    with assms obtain ps where "settle T me ow i s p (L, w) = Inr (ps, L', w')"
      by (auto simp: throw_simps split: prod.split_asm)
    with assms(2) show ?thesis by (rule settle_inv)
  qed (use assms lift in \<open>simp, blast intro: inv_intros\<close>)+
qed

section \<open>What a call never undoes\<close>

text \<open>
  The order of the machine: campaigns keep their terms and only count up, coupons stay and a burned
  coupon stays as it was burned, codes keep their coupon, shared codes, tallies and settled marks
  stay as they were written.
\<close>

definition campaign_le :: "campaign \<Rightarrow> campaign \<Rightarrow> bool" where
  "campaign_le c d \<longleftrightarrow>
     d = c\<lparr>c_minted := c_minted d, c_burned := c_burned d\<rparr> \<and>
     c_minted c \<le> c_minted d \<and> c_burned c \<le> c_burned d"

definition token_le :: "coupon_token \<Rightarrow> coupon_token \<Rightarrow> bool" where
  "token_le t u \<longleftrightarrow>
     u = t\<lparr>t_burned := t_burned u, t_ref := t_ref u, t_burned_at := t_burned_at u\<rparr> \<and>
     (t_burned t \<longrightarrow> u = t)"

definition map_grows :: "('v \<Rightarrow> 'v \<Rightarrow> bool) \<Rightarrow> ('k \<rightharpoonup> 'v) \<Rightarrow> ('k \<rightharpoonup> 'v) \<Rightarrow> bool" where
  "map_grows le m m' \<longleftrightarrow> (\<forall>k v. m k = Some v \<longrightarrow> (\<exists>v'. m' k = Some v' \<and> le v v'))"

definition ledger_le :: "ledger \<Rightarrow> ledger \<Rightarrow> bool" where
  "ledger_le L L' \<longleftrightarrow>
     map_grows campaign_le (campaigns L) (campaigns L') \<and>
     map_grows token_le (tokens L) (tokens L') \<and>
     code_index L \<subseteq>\<^sub>m code_index L' \<and> owner_campaign L \<subseteq>\<^sub>m owner_campaign L' \<and>
     shared L \<subseteq>\<^sub>m shared L' \<and> tallies L \<subseteq>\<^sub>m tallies L' \<and> settled L \<subseteq>\<^sub>m settled L' \<and>
     prefix (events L) (events L')"


lemma map_growsD: "map_grows le m m' \<Longrightarrow> m k = Some v \<Longrightarrow> \<exists>v'. m' k = Some v' \<and> le v v'"
  by (simp add: map_grows_def)

lemma map_grows_refl: "(\<And>v. le v v) \<Longrightarrow> map_grows le m m"
  by (simp add: map_grows_def)

lemma map_grows_trans:
  "(\<And>u v w. le u v \<Longrightarrow> le v w \<Longrightarrow> le u w) \<Longrightarrow> map_grows le m m1 \<Longrightarrow> map_grows le m1 m2 \<Longrightarrow>
   map_grows le m m2"
  unfolding map_grows_def by blast

lemma map_grows_le: "(\<And>v. le v v) \<Longrightarrow> m \<subseteq>\<^sub>m m' \<Longrightarrow> map_grows le m m'"
  unfolding map_grows_def map_le_def by (metis domI)

lemma map_grows_upd:
  "(\<And>v. le v v) \<Longrightarrow> (\<And>v0. m k = Some v0 \<Longrightarrow> le v0 v) \<Longrightarrow> map_grows le m (m(k \<mapsto> v))"
  unfolding map_grows_def by simp

lemma map_le_new: "m k = None \<Longrightarrow> m \<subseteq>\<^sub>m m(k \<mapsto> v)"
  by (auto simp: map_le_def)

lemma map_leD: "m \<subseteq>\<^sub>m m' \<Longrightarrow> m k = Some v \<Longrightarrow> m' k = Some v"
  by (metis domI map_le_def)

lemma campaign_le_refl [simp]: "campaign_le c c"
  by (simp add: campaign_le_def)

lemma campaign_le_trans: "campaign_le c d \<Longrightarrow> campaign_le d e \<Longrightarrow> campaign_le c e"
  unfolding campaign_le_def
  by (cases c; cases d; cases e) auto

lemma token_le_refl [simp]: "token_le t t"
  by (simp add: token_le_def)

lemma token_le_trans: "token_le t u \<Longrightarrow> token_le u v \<Longrightarrow> token_le t v"
  unfolding token_le_def by (cases t; cases u; cases v) auto

lemma ledger_le_refl: "ledger_le L L"
  by (simp add: ledger_le_def map_grows_refl)

lemma ledger_le_trans: "ledger_le L L1 \<Longrightarrow> ledger_le L1 L2 \<Longrightarrow> ledger_le L L2"
  unfolding ledger_le_def
  by (intro conjI; elim conjE)
    (blast intro: map_grows_trans campaign_le_trans token_le_trans map_le_trans prefix_order.trans)+

lemma ledger_leI:
  assumes "map_grows campaign_le (campaigns L) (campaigns L')"
    "map_grows token_le (tokens L) (tokens L')" "code_index L \<subseteq>\<^sub>m code_index L'"
    "owner_campaign L \<subseteq>\<^sub>m owner_campaign L'" "shared L \<subseteq>\<^sub>m shared L'" "tallies L \<subseteq>\<^sub>m tallies L'"
    "settled L \<subseteq>\<^sub>m settled L'" "prefix (events L) (events L')"
  shows "ledger_le L L'"
  using assms by (simp add: ledger_le_def)

lemma create_campaign_le:
  assumes I: "ledger_inv L" and c: "create_campaign cx ow nm dt dv supply unt L = Inr (r, L')"
  shows "ledger_le L L'"
proof -
  have "campaigns L (camp_ctr L + 1) = None"
    using I campaign_invD [of L "camp_ctr L + 1"] by (fastforce simp: ledger_inv_def)
  moreover have "owner_campaign L (ow, count_of ow L) = None"
    using I owner_invD(1) [of L ow "count_of ow L"] by (simp add: ledger_inv_def)
  ultimately show ?thesis
    using c by (auto simp: create_campaign_def throw_simps Let_def count_of_def
        intro!: ledger_leI map_grows_le map_le_new)
qed

lemma issue_unique_le:
  assumes I: "ledger_inv L" and r: "issue_unique cx ow i ks L = Inr (ids, L')"
  shows "ledger_le L L'"
proof -
  obtain c L1 where c: "campaigns L i = Some c"
    and loop: "issue_loop (timestamp cx) i ks L = Inr (ids, L1)"
    and L': "L' = L1\<lparr>campaigns := (campaigns L1)(i \<mapsto> c\<lparr>c_minted := c_minted c + length ks\<rparr>)\<rparr>"
    using issue_unique_result [OF r] by metis
  have "token_inv L" using I by (simp add: ledger_inv_def)
  then have m: "issued_more i (length ks) L L1" using issue_loop_more [OF _ _ loop] c by simp
  show ?thesis
  proof (rule ledger_leI)
    show "map_grows campaign_le (campaigns L) (campaigns L')"
      using c by (auto simp: L' issued_moreD(5) [OF m] campaign_le_def intro!: map_grows_upd)
    show "map_grows token_le (tokens L) (tokens L')"
      using issued_moreD(14) [OF m] by (simp add: L' map_grows_le)
  qed (use issued_moreD [OF m] in \<open>simp_all add: L'\<close>)
qed

lemma redeem_unique_le:
  assumes "redeem_unique cx who i s ref L = Inr (r, L')"
  shows "ledger_le L L'"
proof -
  obtain k t c where "tokens L k = Some t" "\<not> t_burned t" and "campaigns L (t_campaign t) = Some c"
    and L': "L' = publish (CouponBurned k (ledger_seq cx))
       (L\<lparr>tokens := (tokens L)(k \<mapsto> t\<lparr>t_burned := True, t_ref := ref, t_burned_at := timestamp cx\<rparr>),
          campaigns := (campaigns L)(t_campaign t \<mapsto> c\<lparr>c_burned := c_burned c + 1\<rparr>)\<rparr>)"
    using redeem_unique_result [OF assms] by metis
  then show ?thesis
    by (intro ledger_leI) (auto simp: L' campaign_le_def token_le_def intro!: map_grows_upd)
qed

lemma tally_ops_le:
  "register_shared cx ow i s at tk rt L = Inr (u, L') \<Longrightarrow> ledger_le L L'"
  "commit_tally cx ow i s p n m pa L = Inr (u, L') \<Longrightarrow> ledger_le L L'"
  "settle T me ow i s p (L, w) = Inr (out, L', w') \<Longrightarrow> ledger_le L L'"
  "add_delegate cx ow i d L = Inr (u, L') \<Longrightarrow> ledger_le L L'"
  "remove_delegate cx ow i d L = Inr (u, L') \<Longrightarrow> ledger_le L L'"
proof -
  show "register_shared cx ow i s at tk rt L = Inr (u, L') \<Longrightarrow> ledger_le L L'"
    by (auto simp: register_shared_def throw_simps Let_def intro!: ledger_leI map_grows_refl map_le_new)
  show "commit_tally cx ow i s p n m pa L = Inr (u, L') \<Longrightarrow> ledger_le L L'"
    by (erule commit_tally_result) (auto intro!: ledger_leI map_grows_refl map_le_new)
  show "settle T me ow i s p (L, w) = Inr (out, L', w') \<Longrightarrow> ledger_le L L'"
    by (erule settle_result) (auto intro!: ledger_leI map_grows_refl map_le_new)
qed (auto simp: add_delegate_def remove_delegate_def throw_simps intro!: ledger_leI map_grows_refl)

lemma call_op_le:
  assumes "call_op T me cx o' (L, w) = Inr (r, L', w')" and "ledger_inv L"
  shows "ledger_le L L'"
proof -
  have lift: "\<exists>x. g L = Inr (x, L')" if "on_ledger f g (L, w) = Inr (r, L', w')"
    for f :: "'b \<Rightarrow> result" and g
    using that by (auto simp: on_ledger_def throw_simps split: prod.split_asm)
  show ?thesis
  proof (cases o')
    case (Settle ow i s p)
    with assms obtain ps where "settle T me ow i s p (L, w) = Inr (ps, L', w')"
      by (auto simp: throw_simps split: prod.split_asm)
    then show ?thesis by (rule tally_ops_le)
  qed (use assms lift in \<open>simp, blast intro: create_campaign_le issue_unique_le redeem_unique_le tally_ops_le\<close>)+
qed

section \<open>The contract as an ordered machine\<close>

interpretation lm: ordered_machine "moves T me" "\<lambda>s. ledger_inv (fst s)"
  "\<lambda>s t. ledger_le (fst s) (fst t)" for T :: "'w token_contract" and me
proof
  fix s t :: "ledger \<times> 'w"
  show "moves T me s t \<Longrightarrow> ledger_inv (fst s) \<Longrightarrow> ledger_inv (fst t)"
    by (cases s; cases t) (auto elim!: moves_cases dest: call_op_inv)
  show "moves T me s t \<Longrightarrow> ledger_inv (fst s) \<Longrightarrow> ledger_le (fst s) (fst t)"
    by (cases s; cases t) (auto elim!: moves_cases dest: call_op_le intro: ledger_le_refl)
qed (auto intro: ledger_le_refl ledger_le_trans)

lemma reachable_inv: "reachable T me s \<Longrightarrow> ledger_inv (fst s)"
  using lm.run_inv [of T me _ s] ledger_inv_empty by (auto simp: reachable_def)

end
