(* ===== verification/Ledger_Props.thy ===== *)
theory Ledger_Props
  imports Ledger_Inv
begin

text \<open>
  What the coupon-ledger contract promises its clients, over any run of the machine: supply and
  counters, single redemption, append-only commitments, exact and unique settlement, and the
  owner's listing. The sample run at the end of each proof is evaluated by the simplifier.
\<close>

section \<open>A sample run\<close>

fun run_ops ::
  "'w token_contract \<Rightarrow> addr \<Rightarrow> (ctx \<times> op) list \<Rightarrow> ledger \<times> 'w \<Rightarrow> (failure, ledger \<times> 'w) res" where
  "run_ops T me [] s = Inr s"
| "run_ops T me ((cx, o') # os) s = bindR (call_op T me cx o' s) (\<lambda>(r, s'). run_ops T me os s')"

lemma run_ops_later: "run_ops T me os s = Inr s' \<Longrightarrow> later T me s s'"
proof (induction os arbitrary: s)
  case (Cons p os)
  obtain cx o' where p: "p = (cx, o')" by (cases p)
  obtain r s1 where s1: "call_op T me cx o' s = Inr (r, s1)" "run_ops T me os s1 = Inr s'"
    using Cons.prems p by (auto simp: throw_simps split: prod.splits)
  from s1(1) have "moves T me s s1" by (rule moves.call)
  from this Cons.IH [OF s1(2)] show ?case by (rule converse_rtranclp_into_rtranclp)
qed simp

definition sample_ctx :: ctx where
  "sample_ctx = \<lparr>timestamp = 100, ledger_seq = 5, authorized = (\<lambda>a. True)\<rparr>"

definition sample_token :: "int token_contract" where \<comment> \<open>one owner, whose allowance is the state\<close>
  "sample_token = \<lparr>tk_allowance = (\<lambda>t a b w. w), tk_balance = (\<lambda>t a w. w),
     tk_transfer_from = (\<lambda>t sp a b n w. if n \<le> w then Some (w - n) else None)\<rparr>"

definition sample_ops :: "(ctx \<times> op) list" where
  "sample_ops =
     [(sample_ctx, CreateCampaign ''GOWN'' ''Cafe'' ''percentage'' 1000 10 200),
      (sample_ctx, IssueUnique ''GOWN'' 1 [''A1'', ''A2'']),
      (sample_ctx, RegisterShared ''GOWN'' 1 ''VIP'' (Some ''GCRE'') (Some ''CUSD'') 7),
      (sample_ctx, CommitTally ''GOWN'' 1 ''VIP'' 3 6 ''root'' [(''GCRE'', 6)])]"

lemmas ledger_run_simps = sample_ops_def sample_ctx_def sample_token_def on_ledger_def
  create_campaign_def issue_unique_def issue_one_def check_code_def redeem_unique_def
  register_shared_def commit_tally_def settle_def require_owner_def require_auth_def require_def
  ok_or_def add_max_def i128_def fails_def publish_def empty_ledger_def u32_max_def u64_max_def
  i128_min_def i128_max_def MAX_BATCH_def MAX_CODE_LEN_def MAX_NAME_LEN_def
  MAX_DISCOUNT_TYPE_LEN_def is_delegate_def Let_def

definition sample_state :: "ledger \<times> int" where
  "sample_state = (case run_ops sample_token ''CME'' sample_ops (empty_ledger, 50) of
     Inr s \<Rightarrow> s | Inl _ \<Rightarrow> (empty_ledger, 0))"

lemma sample_runs: "\<exists>s. run_ops sample_token ''CME'' sample_ops (empty_ledger, 50) = Inr s"
  by (simp add: ledger_run_simps)

lemma sample_reachable: "reachable sample_token ''CME'' sample_state"
  using sample_runs run_ops_later unfolding reachable_def sample_state_def by fastforce

section \<open>Supply and counters\<close>

text \<open>
  C4 (invariant). In every reachable state the counters of a campaign are the truth: \<open>burned\<close> is the
  number of its redeemed coupons, \<open>minted\<close> the number of its coupons, and
  \<open>burned \<le> minted \<le> total_supply\<close>; and a code of the campaign names exactly one coupon.
\<close>

theorem ledger_counts:
  "reachable T me (L, w) \<Longrightarrow> campaigns L i = Some c \<Longrightarrow>
   c_minted c = card {k. \<exists>t. tokens L k = Some t \<and> t_campaign t = i} \<and>
   c_burned c = card {k. \<exists>t. tokens L k = Some t \<and> t_campaign t = i \<and> t_burned t} \<and>
   c_burned c \<le> c_minted c \<and> c_minted c \<le> c_total_supply c \<and>
   (\<forall>k k' t t'. tokens L k = Some t \<longrightarrow> tokens L k' = Some t' \<longrightarrow>
      t_campaign t = i \<longrightarrow> t_campaign t' = i \<longrightarrow> t_code t = t_code t' \<longrightarrow> k = k')"
proof -
  assume r: "reachable T me (L, w)" and c: "campaigns L i = Some c"
  from reachable_inv [OF r] have T: "token_inv L" and C: "campaign_inv L" by (auto simp: ledger_inv_def)
  have "k = k'" if "tokens L k = Some t" "tokens L k' = Some t'" "t_campaign t = t_campaign t'"
    "t_code t = t_code t'" for k k' t t'
    using token_invD [OF T that(1)] token_invD [OF T that(2)] that(3,4) by simp
  then show ?thesis
    using campaign_invD [OF C c] burned_le_minted [OF T C c] unfolding issued_def redeemed_def by blast
qed

theorem ledger_counts_witness:
  "\<exists>c. campaigns (fst sample_state) 1 = Some c \<and> c_minted c = 2 \<and>
     card {k. \<exists>t. tokens (fst sample_state) k = Some t \<and> t_campaign t = 1} = 2"
proof -
  have "\<exists>c. campaigns (fst sample_state) 1 = Some c \<and> c_minted c = 2"
    by (simp add: sample_state_def ledger_run_simps)
  then obtain c where c: "campaigns (fst sample_state) 1 = Some c" "c_minted c = 2" by blast
  have "reachable sample_token ''CME'' (fst sample_state, snd sample_state)"
    using sample_reachable by simp
  from ledger_counts [OF this c(1)] c show ?thesis by auto
qed

section \<open>Redemption\<close>

lemma verify_iff:
  "verify i s L = Inr t \<longleftrightarrow> (\<exists>k. code_index L (i, s) = Some k \<and> tokens L k = Some t)"
  by (auto simp: verify_def throw_simps)

lemma later_le:
  "ledger_inv (fst s) \<Longrightarrow> later T me s s' \<Longrightarrow> ledger_le (fst s) (fst s') \<and> ledger_inv (fst s')"
  using lm.run_le lm.run_inv by blast

lemma reachable_later: "reachable T me s \<Longrightarrow> later T me s s' \<Longrightarrow> reachable T me s'"
  unfolding reachable_def by (meson rtranclp_trans)

lemma token_kept:
  assumes "ledger_le L L'" and "verify i s L = Inr t" and "t_burned t"
  shows "verify i s L' = Inr t"
proof -
  obtain k where k: "code_index L (i, s) = Some k" "tokens L k = Some t"
    using assms(2) by (auto simp: verify_iff)
  have "code_index L' (i, s) = Some k" using assms(1) k(1) by (auto simp: ledger_le_def dest: map_leD)
  moreover have "tokens L' k = Some t"
    using assms(1,3) k(2) by (auto simp: ledger_le_def token_le_def dest!: map_growsD)
  ultimately show ?thesis by (auto simp: verify_iff)
qed

text \<open>
  C3 (safety). A coupon is redeemed once and for ever. After a successful redemption, in every
  later state \<open>verify\<close> shows the coupon burned with the commitment and the time of that redemption,
  the coupon is not valid, and every further redemption of it, by anyone, fails.
\<close>

theorem redeem_once:
  "reachable T me (L, w) \<Longrightarrow> redeem_unique cx who i s ref L = Inr (r, L1) \<Longrightarrow>
   later T me (L1, w) (L2, w2) \<Longrightarrow>
   (\<exists>t. verify i s L2 = Inr t \<and> t_burned t \<and> t_id t = r_token_id r \<and> t_ref t = ref \<and>
        t_burned_at t = timestamp cx) \<and>
   \<not> is_valid cx2 i s L2 \<and>
   redeem_unique cx2 who2 i s ref2 L2 =
     Inl (if authorized cx2 who2 then Contract AlreadyRedeemed else Trap)"
proof -
  assume reach: "reachable T me (L, w)" and red: "redeem_unique cx who i s ref L = Inr (r, L1)"
    and lat: "later T me (L1, w) (L2, w2)"
  have I: "ledger_inv L" using reachable_inv [OF reach] by simp
  obtain k t c where k: "code_index L (i, s) = Some k" "tokens L k = Some t"
    and r: "r_token_id r = k"
    and L1: "L1 = publish (CouponBurned k (ledger_seq cx))
       (L\<lparr>tokens := (tokens L)(k \<mapsto> t\<lparr>t_burned := True, t_ref := ref, t_burned_at := timestamp cx\<rparr>),
          campaigns := (campaigns L)(t_campaign t \<mapsto> c\<lparr>c_burned := c_burned c + 1\<rparr>)\<rparr>)"
    by (rule redeem_unique_result [OF red]) auto
  let ?t = "t\<lparr>t_burned := True, t_ref := ref, t_burned_at := timestamp cx\<rparr>"
  have "verify i s L1 = Inr ?t" using k by (auto simp: verify_iff L1)
  moreover have "ledger_le L1 L2" using later_le [OF _ lat] redeem_unique_inv [OF I red] by simp
  ultimately have v: "verify i s L2 = Inr ?t" using token_kept by simp
  then obtain k2 where k2: "code_index L2 (i, s) = Some k2" "tokens L2 k2 = Some ?t"
    by (auto simp: verify_iff)
  then have "redeem_unique cx2 who2 i s ref2 L2 =
      Inl (if authorized cx2 who2 then Contract AlreadyRedeemed else Trap)"
    by (simp add: redeem_unique_def require_auth_def require_def ok_or_def)
  moreover have "t_id t = k" using I token_invD [of L k t] k(2) by (simp add: ledger_inv_def)
  ultimately show ?thesis using v k2 r by (simp add: is_valid_def)
qed

theorem redeem_once_witness:
  "\<exists>r L1. redeem_unique sample_ctx ''GOWN'' 1 ''A2'' ''ref'' (fst sample_state) = Inr (r, L1) \<and>
     redeem_unique sample_ctx ''GOWN'' 1 ''A2'' ''other'' L1 = Inl (Contract AlreadyRedeemed)"
proof -
  have "\<exists>r L1. redeem_unique sample_ctx ''GOWN'' 1 ''A2'' ''ref'' (fst sample_state) = Inr (r, L1)"
    by (simp add: sample_state_def ledger_run_simps)
  then obtain r L1 where red: "redeem_unique sample_ctx ''GOWN'' 1 ''A2'' ''ref'' (fst sample_state)
      = Inr (r, L1)" by blast
  have "reachable sample_token ''CME'' (fst sample_state, snd sample_state)"
    using sample_reachable by simp
  from redeem_once [OF this red rtranclp.rtrancl_refl, of sample_ctx "''GOWN''" "''other''"] red
  show ?thesis by (simp add: sample_ctx_def)
qed


section \<open>The tally profile\<close>

text \<open>
  C5 (invariant). The record of the tally profile is append-only. Whatever calls follow, a
  registered shared code keeps its terms, a committed tally its count, root and attribution, and a
  settled period stays settled; committing the period again fails.
\<close>

theorem tally_append_only:
  "reachable T me (L, w) \<Longrightarrow> later T me (L, w) (L2, w2) \<Longrightarrow>
   (\<forall>sh. get_shared i s L = Inr sh \<longrightarrow> get_shared i s L2 = Inr sh) \<and>
   (\<forall>ta. get_tally i s p L = Inr ta \<longrightarrow> get_tally i s p L2 = Inr ta \<and>
      (\<forall>cx ow n m pa x. commit_tally cx ow i s p n m pa L2 \<noteq> Inr x)) \<and>
   (is_settled i s p L \<longrightarrow> is_settled i s p L2)"
proof -
  assume reach: "reachable T me (L, w)" and lat: "later T me (L, w) (L2, w2)"
  have le: "ledger_le L L2" using later_le [OF _ lat] reachable_inv [OF reach] by simp
  have "commit_tally cx ow i s p n m pa L2 \<noteq> Inr x"
    if "tallies L2 (i, s, p) = Some ta" for cx ow n m pa x ta
  proof
    assume "commit_tally cx ow i s p n m pa L2 = Inr x"
    then have "commit_tally cx ow i s p n m pa L2 = Inr (fst x, snd x)" by (metis prod.collapse)
    then show False by (rule commit_tally_result) (use that in simp)
  qed
  moreover have "shared L \<subseteq>\<^sub>m shared L2" "tallies L \<subseteq>\<^sub>m tallies L2" "settled L \<subseteq>\<^sub>m settled L2"
    using le by (auto simp: ledger_le_def)
  ultimately show ?thesis
    by (auto simp: get_shared_def get_tally_def is_settled_def throw_simps dest: map_leD)
qed

theorem tally_append_only_witness:
  "\<exists>ta. get_tally 1 ''VIP'' 3 (fst sample_state) = Inr ta \<and>
     (\<nexists>x. commit_tally sample_ctx ''GOWN'' 1 ''VIP'' 3 9 ''other'' [(''GCRE'', 9)] (fst sample_state) = Inr x)"
proof -
  have "\<exists>ta. get_tally 1 ''VIP'' 3 (fst sample_state) = Inr ta"
    by (simp add: sample_state_def ledger_run_simps get_tally_def)
  then obtain ta where ta: "get_tally 1 ''VIP'' 3 (fst sample_state) = Inr ta" by blast
  have "reachable sample_token ''CME'' (fst sample_state, snd sample_state)"
    using sample_reachable by simp
  from tally_append_only [OF this rtranclp.rtrancl_refl] ta show ?thesis by blast
qed

lemma settle_payouts_result:
  "settle_payouts rate ps tot out = Inr (out', tot') \<Longrightarrow> 0 < rate \<Longrightarrow>
   (\<exists>more. out' = out @ more \<and> p_to ` set more \<subseteq> fst ` set ps \<and> (\<forall>q\<in>set more. 0 < p_amount q) \<and>
      sum_list (map p_amount more) = int (sum_list (map snd ps)) * rate) \<and>
   tot' = tot + int (sum_list (map snd ps)) * rate"
proof (induction rate ps tot out rule: settle_payouts.induct)
  case (1 rate tot out)
  then show ?case by simp
next
  case (2 rate a n ps tot out)
  show ?case
  proof (cases "0 < int n * rate")
    case True
    with "2.prems" have "settle_payouts rate ps (tot + int n * rate)
        (out @ [\<lparr>p_to = a, p_amount = int n * rate\<rparr>]) = Inr (out', tot')"
      by (auto simp: throw_simps)
    moreover from "2.prems" have "i128 (int n * rate) = Inr (int n * rate)"
      "i128 (tot + int n * rate) = Inr (tot + int n * rate)" using True by (auto simp: throw_simps)
    moreover note "2.IH"(1) [OF this(1) True this(2) _ "2.prems"(2)]
    ultimately obtain more where m: "out' = out @ \<lparr>p_to = a, p_amount = int n * rate\<rparr> # more"
      "p_to ` set more \<subseteq> fst ` set ps" "\<forall>q\<in>set more. 0 < p_amount q"
      "sum_list (map p_amount more) = int (sum_list (map snd ps)) * rate"
      "tot' = tot + int n * rate + int (sum_list (map snd ps)) * rate"
      by auto
    let ?more = "\<lparr>p_to = a, p_amount = int n * rate\<rparr> # more"
    have "out' = out @ ?more \<and> p_to ` set ?more \<subseteq> fst ` set ((a, n) # ps) \<and>
        (\<forall>q\<in>set ?more. 0 < p_amount q) \<and>
        sum_list (map p_amount ?more) = int (sum_list (map snd ((a, n) # ps))) * rate"
      using m True by (auto simp: algebra_simps)
    moreover have "tot' = tot + int (sum_list (map snd ((a, n) # ps))) * rate"
      using m(5) by (simp add: algebra_simps)
    ultimately show ?thesis by blast
  next
    case False
    with "2.prems"(2) have n: "n = 0" by (simp add: zero_less_mult_iff)
    have zero: "i128 (int n * rate) = Inr (int n * rate)"
      by (simp add: n i128_def i128_min_def i128_max_def)
    with "2.prems" False have run: "settle_payouts rate ps tot out = Inr (out', tot')" by simp
    from "2.IH"(2) [OF zero False run "2.prems"(2)] obtain more where "out' = out @ more"
      "p_to ` set more \<subseteq> fst ` set ps" "\<forall>q\<in>set more. 0 < p_amount q"
      "sum_list (map p_amount more) = int (sum_list (map snd ps)) * rate"
      "tot' = tot + int (sum_list (map snd ps)) * rate" by blast
    then show ?thesis by (intro conjI exI [of _ more]) (auto simp: n)
  qed
qed

text \<open>
  C2 (safety). A settlement pays exactly what was committed, and once. It pays only the registered
  target of the code, in positive amounts whose sum is the committed count times the registered
  rate, within the owner's allowance; and in every later state settling the period again fails
  with \<open>AlreadySettled\<close>.
\<close>

theorem settle_exact_once:
  "reachable T me (L, w) \<Longrightarrow> settle T me ow i s p (L, w) = Inr (out, L1, w1) \<Longrightarrow>
   later T me (L1, w1) (L2, w2) \<Longrightarrow>
   (\<exists>sh ta a token. get_shared i s L = Inr sh \<and> get_tally i s p L = Inr ta \<and>
      s_attributed_to sh = Some a \<and> s_payout_token sh = Some token \<and>
      (\<forall>q\<in>set out. p_to q = a \<and> 0 < p_amount q) \<and>
      sum_list (map p_amount out) = int (ta_count ta) * s_payout_rate sh \<and>
      sum_list (map p_amount out) \<le> tk_allowance T token ow me w \<and>
      pay_all T token me ow out w = Inr w1) \<and>
   settle T2 me2 ow i s p (L2, w3) = Inl (Contract AlreadySettled)"
proof -
  assume reach: "reachable T me (L, w)" and st: "settle T me ow i s p (L, w) = Inr (out, L1, w1)"
    and lat: "later T me (L1, w1) (L2, w2)"
  have I: "ledger_inv L" using reachable_inv [OF reach] by simp
  obtain c sh token ta tot where c: "campaigns L i = Some c" "ow = c_owner c"
    and sh: "shared L (i, s) = Some sh" "s_payout_token sh = Some token" "0 < s_payout_rate sh"
    and ta: "tallies L (i, s, p) = Some ta"
    and out: "settle_payouts (s_payout_rate sh) (ta_per_attribution ta) 0 [] = Inr (out, tot)"
      "tot \<le> tk_allowance T token ow me w" "pay_all T token me ow out w = Inr w1"
    and L1: "L1 = publish (TallySettled i p token (s_payout_rate sh))
       (L\<lparr>settled := (settled L)((i, s, p) \<mapsto> True)\<rparr>)"
    by (rule settle_result [OF st]) blast
  have "shared_inv L" "tally_inv L" using I by (auto simp: ledger_inv_def)
  then obtain a where a: "s_attributed_to sh = Some a" and fits: "tally_fits sh ta"
    using sh ta unfolding shared_inv_def tally_inv_def by fastforce
  have sums: "p_to ` set out \<subseteq> fst ` set (ta_per_attribution ta)" "\<forall>q\<in>set out. 0 < p_amount q"
    "sum_list (map p_amount out) = int (sum_list (map snd (ta_per_attribution ta))) * s_payout_rate sh"
    "tot = sum_list (map p_amount out)"
    using settle_payouts_result [OF out(1) sh(3)] by auto
  have per: "\<forall>q\<in>set (ta_per_attribution ta). fst q = a"
    "sum_list (map snd (ta_per_attribution ta)) = ta_count ta"
    using fits a by (auto simp: tally_fits_def)
  have le: "ledger_le L1 L2" using later_le [OF _ lat] settle_inv [OF I st] by simp
  then have l2: "shared L2 (i, s) = Some sh" "tallies L2 (i, s, p) = Some ta"
    "settled L2 (i, s, p) = Some True" "\<exists>c2. campaigns L2 i = Some c2 \<and> c_owner c2 = ow"
  proof -
    have le': "shared L1 \<subseteq>\<^sub>m shared L2" "tallies L1 \<subseteq>\<^sub>m tallies L2" "settled L1 \<subseteq>\<^sub>m settled L2"
      "map_grows campaign_le (campaigns L1) (campaigns L2)"
      using le by (simp_all add: ledger_le_def)
    show "shared L2 (i, s) = Some sh" by (rule map_leD [OF le'(1)]) (simp add: L1 sh)
    show "tallies L2 (i, s, p) = Some ta" by (rule map_leD [OF le'(2)]) (simp add: L1 ta)
    show "settled L2 (i, s, p) = Some True" by (rule map_leD [OF le'(3)]) (simp add: L1)
    have "campaigns L1 i = Some c" using c by (simp add: L1)
    from map_growsD [OF le'(4) this] obtain c2 where "campaigns L2 i = Some c2" "campaign_le c c2"
      by blast
    moreover have "c_owner c2 = c_owner c"
      using \<open>campaign_le c c2\<close> unfolding campaign_le_def
      by (metis campaign.select_convs(2) campaign.surjective campaign.update_convs(7,8))
    ultimately show "\<exists>c2. campaigns L2 i = Some c2 \<and> c_owner c2 = ow" using c by blast
  qed
  then have again: "settle T2 me2 ow i s p (L2, w3) = Inl (Contract AlreadySettled)"
    using sh by (auto simp: settle_def require_owner_def ok_or_def require_def)
  show ?thesis
    using again sh ta a out(2,3) sums per
    by (intro conjI exI [of _ sh] exI [of _ ta] exI [of _ a] exI [of _ token])
      (auto simp: get_shared_def get_tally_def ok_or_def)
qed

theorem settle_exact_once_witness:
  "\<exists>L1 w1 q. settle sample_token ''CME'' ''GOWN'' 1 ''VIP'' 3 sample_state = Inr ([q], L1, w1) \<and>
     p_amount q = 42 \<and>
     settle sample_token ''CME'' ''GOWN'' 1 ''VIP'' 3 (L1, w1) = Inl (Contract AlreadySettled)"
proof -
  have "\<exists>L1 w1 q. settle sample_token ''CME'' ''GOWN'' 1 ''VIP'' 3 (fst sample_state, snd sample_state)
      = Inr ([q], L1, w1) \<and> p_amount q = 42"
    by (simp add: sample_state_def ledger_run_simps)
  then obtain L1 w1 q where st: "settle sample_token ''CME'' ''GOWN'' 1 ''VIP'' 3
      (fst sample_state, snd sample_state) = Inr ([q], L1, w1)" "p_amount q = 42" by blast
  have "reachable sample_token ''CME'' (fst sample_state, snd sample_state)"
    using sample_reachable by simp
  from settle_exact_once [OF this st(1) rtranclp.rtrancl_refl, of sample_token "''CME''" w1] st
  show ?thesis by auto
qed

section \<open>The owner's listing\<close>

lemma map_filter_total:
  "(\<And>x. x \<in> set xs \<Longrightarrow> f x \<noteq> None) \<Longrightarrow> List.map_filter f xs = map (\<lambda>x. the (f x)) xs"
  by (induction xs) (auto simp: List.map_filter_simps split: option.splits)

lemma owner_slots_map:
  assumes "owner_inv L" and "stop \<le> count_of a L"
  shows "owner_slots a start stop L = map (\<lambda>n. the (owner_campaign L (a, n))) [start..<stop]"
  unfolding owner_slots_def
  by (rule map_filter_total) (use assms owner_invD(1) [OF assms(1)] in fastforce)

text \<open>
  C6 (functional). The owner's listing is complete and pages exactly. In every reachable state
  \<open>campaigns_of\<close> lists each campaign of the owner once, and a page of 1 to 100 slots from a cursor
  is that stretch of the listing, so reading pages one after the other misses and repeats nothing.
\<close>

theorem campaigns_pages:
  "reachable T me (L, w) \<Longrightarrow>
   distinct (campaigns_of a L) \<and>
   set (campaigns_of a L) = {i. \<exists>c. campaigns L i = Some c \<and> c_owner c = a} \<and>
   (0 < n \<longrightarrow> n \<le> 100 \<longrightarrow> campaigns_page a cursor n L = Inr (take n (drop cursor (campaigns_of a L))))"
proof -
  assume "reachable T me (L, w)"
  from reachable_inv [OF this] have O: "owner_inv L" by (simp add: ledger_inv_def)
  let ?f = "\<lambda>n. the (owner_campaign L (a, n))"
  have of_eq: "campaigns_of a L = map ?f [0..<count_of a L]"
    unfolding campaigns_of_def by (rule owner_slots_map [OF O]) simp
  have slot: "owner_campaign L (a, n) = Some (?f n)" if "n < count_of a L" for n
    using owner_invD(1) [OF O, of a n] that by auto
  have "inj_on ?f {0..<count_of a L}"
    by (rule inj_onI) (use slot owner_invD(2) [OF O] in \<open>metis atLeastLessThan_iff option.inject\<close>)
  then have d: "distinct (campaigns_of a L)" by (simp add: of_eq distinct_map)
  have "i \<in> ?f ` {0..<count_of a L} \<longleftrightarrow> (\<exists>c. campaigns L i = Some c \<and> c_owner c = a)" for i
  proof
    assume "i \<in> ?f ` {0..<count_of a L}"
    then show "\<exists>c. campaigns L i = Some c \<and> c_owner c = a"
      using slot owner_invD(2) [OF O] by fastforce
  next
    assume "\<exists>c. campaigns L i = Some c \<and> c_owner c = a"
    then obtain n where n: "owner_campaign L (a, n) = Some i" using owner_invD(3) [OF O] by blast
    with owner_invD(1) [OF O, of a n] have "n < count_of a L" by simp
    with n show "i \<in> ?f ` {0..<count_of a L}" by force
  qed
  then have s: "set (campaigns_of a L) = {i. \<exists>c. campaigns L i = Some c \<and> c_owner c = a}"
    by (auto simp: of_eq)
  have "campaigns_page a cursor n L = Inr (take n (drop cursor (campaigns_of a L)))"
    if "0 < n" "n \<le> 100"
  proof -
    let ?e = "min (min u64_max (cursor + n)) (count_of a L)"
    have "?e = min (cursor + n) (count_of a L)" using owner_invD(4) [OF O, of a] by auto
    then have "owner_slots a cursor ?e L = map ?f [cursor..<min (cursor + n) (count_of a L)]"
      using owner_slots_map [OF O, of ?e a cursor] by simp
    also have "\<dots> = take n (drop cursor (campaigns_of a L))"
      by (simp add: of_eq take_map drop_map min_def)
    finally show ?thesis using that by (simp add: campaigns_page_def require_def MAX_BATCH_def)
  qed
  with d s show ?thesis by blast
qed

theorem campaigns_pages_witness:
  "campaigns_page ''GOWN'' 0 100 (fst sample_state) = Inr [1]"
proof -
  have "reachable sample_token ''CME'' (fst sample_state, snd sample_state)"
    using sample_reachable by simp
  moreover have "campaigns_of ''GOWN'' (fst sample_state) = [1]"
    by (simp add: sample_state_def ledger_run_simps campaigns_of_def owner_slots_def count_of_def
        List.map_filter_simps upt_rec)
  ultimately show ?thesis
    using campaigns_pages [of sample_token "''CME''" "fst sample_state" "snd sample_state" "''GOWN''" 100 0]
    by simp
qed

end
