(* ===== verification/Js_Text.thy ===== *)
theory Js_Text
  imports Prelude
begin

text \<open>
  What the sources use of JavaScript strings: \<open>trim\<close>, \<open>slice\<close>, \<open>padStart\<close>, \<open>padEnd\<close>,
  \<open>toUpperCase\<close>, \<open>split\<close>, \<open>startsWith\<close>, \<open>join\<close>, number printing in a radix, \<open>parseInt\<close>
  of hexadecimal digits and the character classes of their regular expressions.

  A JavaScript string is a list of UTF-16 code units; here it is a \<open>string\<close> with one
  \<open>char\<close> per code unit. The characters below 128 are ASCII, those from 160 Latin-1, and
  the few other characters of the sources' literals are written with their Windows-1252
  byte (0x85 the ellipsis, 0x97 the em dash, 0x93 and 0x94 the double quotes) or, for the
  ones that have none, a byte whose character the sources do not use: 0x81 (parallel-to), 0x8D (check
  mark), 0x8E (left arrow), 0x8F (right arrow), 0x98 (Delta), 0x9A (north-east arrow), 0x9E
  (warning sign), 0x9D (the cross of a close button), and 0x83 with 0x84 for the two code units of the ticket. Every length and
  position is therefore the one the code computes.
\<close>

section \<open>Character classes\<close>

definition char_code :: "char \<Rightarrow> int" where
  "char_code c = of_char c"

definition ws :: "char \<Rightarrow> bool" where \<comment> \<open>\<open>\s\<close>, and what \<open>trim\<close> removes\<close>
  "ws c \<longleftrightarrow> char_code c \<in> {9, 10, 11, 12, 13, 32, 160}"

definition digit :: "char \<Rightarrow> bool" where \<comment> \<open>\<open>\d\<close>\<close>
  "digit c \<longleftrightarrow> 48 \<le> char_code c \<and> char_code c \<le> 57"

definition lower_hex :: "char \<Rightarrow> bool" where
  "lower_hex c \<longleftrightarrow> 97 \<le> char_code c \<and> char_code c \<le> 102"

definition upper_hex :: "char \<Rightarrow> bool" where
  "upper_hex c \<longleftrightarrow> 65 \<le> char_code c \<and> char_code c \<le> 70"

definition hex_char :: "char \<Rightarrow> bool" where \<comment> \<open>\<open>[0-9a-fA-F]\<close>\<close>
  "hex_char c \<longleftrightarrow> digit c \<or> lower_hex c \<or> upper_hex c"

definition ascii_upper :: "char \<Rightarrow> bool" where \<comment> \<open>\<open>[A-Z]\<close>\<close>
  "ascii_upper c \<longleftrightarrow> 65 \<le> char_code c \<and> char_code c \<le> 90"

definition ascii_lower :: "char \<Rightarrow> bool" where \<comment> \<open>\<open>[a-z]\<close>\<close>
  "ascii_lower c \<longleftrightarrow> 97 \<le> char_code c \<and> char_code c \<le> 122"

lemmas char_classes = ws_def digit_def lower_hex_def upper_hex_def hex_char_def
  ascii_upper_def ascii_lower_def char_code_def

lemma char_code_inject [simp]: "char_code c = char_code d \<longleftrightarrow> c = d"
  by (simp add: char_code_def of_char_eq_iff)

section \<open>Case\<close>

text \<open>
  \<open>toUpperCase\<close> and \<open>toLowerCase\<close> on this repertoire: ASCII and Latin-1 letters, the sharp
  s that becomes two letters, and the letters whose capital is a Windows-1252 byte. The two
  characters whose capital is outside the repertoire (the micro sign and the florin) are left
  unchanged.
\<close>

definition upper_char :: "char \<Rightarrow> string" where
  "upper_char c =
     (let n = char_code c in
      if 97 \<le> n \<and> n \<le> 122 \<or> 224 \<le> n \<and> n \<le> 254 \<and> n \<noteq> 247 then [char_of (n - 32)]
      else if n = 223 then ''SS''
      else if n = 255 then [CHR 0x9F]
      else if n = 154 \<or> n = 156 \<or> n = 158 then [char_of (n - 16)]
      else [c])"

definition toUpperCase :: "string \<Rightarrow> string" where
  "toUpperCase s = concat (map upper_char s)"

definition lower_char :: "char \<Rightarrow> char" where
  "lower_char c =
     (let n = char_code c in
      if 65 \<le> n \<and> n \<le> 90 \<or> 192 \<le> n \<and> n \<le> 222 \<and> n \<noteq> 215 then char_of (n + 32)
      else if n = 159 then CHR 0xFF
      else if n = 138 \<or> n = 140 \<or> n = 142 then char_of (n + 16)
      else c)"

definition toLowerCase :: "string \<Rightarrow> string" where
  "toLowerCase s = map lower_char s"

lemma toUpperCase_append [simp]: "toUpperCase (s @ t) = toUpperCase s @ toUpperCase t"
  by (simp add: toUpperCase_def)

section \<open>Trimming, slicing, padding, joining\<close>

definition trim :: "string \<Rightarrow> string" where
  "trim s = rev (dropWhile ws (rev (dropWhile ws s)))"

definition slice_last :: "string \<Rightarrow> nat \<Rightarrow> string" where \<comment> \<open>\<open>s.slice(-n)\<close>; \<open>-0\<close> is \<open>0\<close>\<close>
  "slice_last s n = (if n = 0 then s else drop (length s - n) s)"

definition padStart :: "string \<Rightarrow> nat \<Rightarrow> char \<Rightarrow> string" where
  "padStart s n c = replicate (n - length s) c @ s"

definition padEnd :: "string \<Rightarrow> nat \<Rightarrow> char \<Rightarrow> string" where
  "padEnd s n c = s @ replicate (n - length s) c"

definition startsWith :: "string \<Rightarrow> string \<Rightarrow> bool" where
  "startsWith s p \<longleftrightarrow> take (length p) s = p"

fun str_includes :: "string \<Rightarrow> string \<Rightarrow> bool" where
  "str_includes [] p = (p = [])"
| "str_includes (c # s) p = (startsWith (c # s) p \<or> str_includes s p)"

fun join :: "string \<Rightarrow> string list \<Rightarrow> string" where
  "join sep [] = []"
| "join sep [x] = x"
| "join sep (x # y # xs) = x @ sep @ join sep (y # xs)"

text \<open>\<open>s.split(re)\<close> for a class of separators repeated once or more, and for one character.\<close>

function split_runs :: "(char \<Rightarrow> bool) \<Rightarrow> string \<Rightarrow> string list" where
  "split_runs p s =
     (case dropWhile (\<lambda>c. \<not> p c) s of
        [] \<Rightarrow> [s]
      | c # rest \<Rightarrow> takeWhile (\<lambda>c. \<not> p c) s # split_runs p (dropWhile p rest))"
  by pat_completeness auto
termination
proof (relation "measure (\<lambda>(p, s). length s)", goal_cases)
  case 1
  show ?case by simp
next
  case (2 p s c rest)
  have "length (dropWhile p rest) \<le> length rest"
    by (rule length_dropWhile_le)
  moreover have "length (c # rest) \<le> length s"
    using 2 length_dropWhile_le [of "\<lambda>c. \<not> p c" s] by simp
  ultimately show ?case by simp
qed

declare split_runs.simps [simp del]

fun split_on :: "char \<Rightarrow> string \<Rightarrow> string list" where
  "split_on d [] = [[]]"
| "split_on d (c # s) =
     (if c = d then [] # split_on d s
      else (case split_on d s of [] \<Rightarrow> [[c]] | w # wds \<Rightarrow> (c # w) # wds))"

lemma split_on_not_Nil [simp]: "split_on d s \<noteq> []"
  by (induction s) (auto split: list.splits)

lemma join_split_on: "join [d] (split_on d s) = s"
proof (induction s)
  case Nil
  then show ?case by simp
next
  case (Cons c s)
  obtain w wds where w: "split_on d s = w # wds"
    by (cases "split_on d s") auto
  with Cons show ?case by (cases wds) auto
qed

lemma split_on_no_sep: "w \<in> set (split_on d s) \<Longrightarrow> d \<notin> set w"
  by (induction s arbitrary: w) (auto split: list.splits if_splits)

lemma split_runs_no_sep: "w \<in> set (split_runs p s) \<Longrightarrow> c \<in> set w \<Longrightarrow> \<not> p c"
proof (induction p s rule: split_runs.induct)
  case (1 p s)
  show ?case
  proof (cases "dropWhile (\<lambda>c. \<not> p c) s")
    case Nil
    then have "\<forall>c\<in>set s. \<not> p c" by (simp add: dropWhile_eq_Nil_conv)
    moreover have "split_runs p s = [s]" by (subst split_runs.simps) (simp only: Nil list.case)
    ultimately show ?thesis using "1.prems" by simp
  next
    case (Cons d rest)
    with 1 show ?thesis
      by (auto simp: split_runs.simps [of p s] dest: set_takeWhileD)
  qed
qed

lemma trim_idem_chars: "set (trim s) \<subseteq> set s"
  by (auto simp: trim_def dest!: set_dropWhileD)

lemma trim_all_ws: "(\<forall>c\<in>set s. ws c) \<longleftrightarrow> trim s = []"
proof
  assume "trim s = []"
  then have "\<forall>c\<in>set (dropWhile ws s). ws c"
    by (simp add: trim_def dropWhile_eq_Nil_conv)
  moreover have "\<forall>c\<in>set (takeWhile ws s). ws c" by (auto dest: set_takeWhileD)
  ultimately show "\<forall>c\<in>set s. ws c"
    by (metis Un_iff set_append takeWhile_dropWhile_id)
next
  assume "\<forall>c\<in>set s. ws c"
  then have "dropWhile ws s = []" by (simp only: dropWhile_eq_Nil_conv)
  then show "trim s = []" by (simp only: trim_def rev.simps dropWhile.simps)
qed

lemma trim_id: "(\<forall>c\<in>set s. \<not> ws c) \<Longrightarrow> trim s = s"
proof -
  assume "\<forall>c\<in>set s. \<not> ws c"
  then have "dropWhile ws t = t" if "set t \<subseteq> set s" for t
    using that by (cases t) auto
  then show ?thesis by (simp add: trim_def)
qed

section \<open>Numbers as text\<close>

definition dig :: "int \<Rightarrow> char" where
  "dig n = ''0123456789abcdef'' ! nat n"

text \<open>\<open>n.toString(b)\<close> of a non-negative integer, for a radix from 2 to 16.\<close>

function radix_str :: "int \<Rightarrow> int \<Rightarrow> string" where
  "radix_str b n = (if b < 2 \<or> n < b then [dig n] else radix_str b (n div b) @ [dig (n mod b)])"
  by pat_completeness auto
termination
proof (relation "measure (\<lambda>(b, n). nat n)", goal_cases)
  case (2 b n)
  then have "n div b < n" by (intro int_div_less_self) auto
  with 2 show ?case by (simp add: nat_mono_iff)
qed simp

declare radix_str.simps [simp del]

definition dec :: "int \<Rightarrow> string" where
  "dec n = radix_str 10 n"

definition int_str :: "int \<Rightarrow> string" where
  "int_str i = (if i < 0 then CHR ''-'' # dec (- i) else dec i)"

definition dec_val :: "char \<Rightarrow> int" where
  "dec_val c = char_code c - 48"

definition dec_num :: "string \<Rightarrow> int" where
  "dec_num s = foldl (\<lambda>a c. 10 * a + dec_val c) 0 s"

definition hex_val :: "char \<Rightarrow> int" where
  "hex_val c = (if digit c then char_code c - 48 else if lower_hex c then char_code c - 87 else char_code c - 55)"

definition hex_num :: "string \<Rightarrow> int" where \<comment> \<open>\<open>parseInt(s, 16)\<close> of hexadecimal digits\<close>
  "hex_num s = foldl (\<lambda>a c. 16 * a + hex_val c) 0 s"

text \<open>\<open>/^-?\d+$/\<close> and the \<open>BigInt\<close> of such a text.\<close>

definition all_digits :: "string \<Rightarrow> bool" where \<comment> \<open>\<open>\d+\<close>\<close>
  "all_digits s \<longleftrightarrow> s \<noteq> [] \<and> list_all digit s"

fun int_lit :: "string \<Rightarrow> bool" where
  "int_lit [] = False"
| "int_lit (c # s) = (if c = CHR ''-'' then all_digits s else all_digits (c # s))"

fun int_of_lit :: "string \<Rightarrow> int" where
  "int_of_lit [] = 0"
| "int_of_lit (c # s) = (if c = CHR ''-'' then - dec_num s else dec_num (c # s))"

text \<open>What holds of the sixteen digits is checked on each of them.\<close>

lemma below_16: "list_all P [0..15] \<Longrightarrow> 0 \<le> (n::int) \<Longrightarrow> n < 16 \<Longrightarrow> P n"
  by (simp add: list_all_iff)

lemma hex_dig: "0 \<le> n \<Longrightarrow> n < 16 \<Longrightarrow> hex_char (dig n) \<and> hex_val (dig n) = n \<and> \<not> upper_hex (dig n)"
  by (rule below_16 [of "\<lambda>n. hex_char (dig n) \<and> hex_val (dig n) = n \<and> \<not> upper_hex (dig n)"])
    (code_simp, simp_all)

lemma dec_dig: "0 \<le> n \<Longrightarrow> n < 10 \<Longrightarrow> digit (dig n) \<and> dec_val (dig n) = n"
  by (rule below_16 [of "\<lambda>n. n < 10 \<longrightarrow> digit (dig n) \<and> dec_val (dig n) = n", THEN mp])
    (code_simp, simp_all)

lemma digit_dig: "0 \<le> n \<Longrightarrow> n < 10 \<Longrightarrow> digit (dig n)"
  by (simp add: dec_dig)

lemma dec_val_dig: "0 \<le> n \<Longrightarrow> n < 10 \<Longrightarrow> dec_val (dig n) = n"
  by (simp add: dec_dig)

lemma dec_simps: "dec n = (if n < 10 then [dig n] else dec (n div 10) @ [dig (n mod 10)])"
  by (simp add: dec_def radix_str.simps [of 10 n])

lemma dec_small: "n < 10 \<Longrightarrow> dec n = [dig n]"
  by (simp add: dec_simps [of n])

lemma dec_step: "10 \<le> n \<Longrightarrow> dec n = dec (n div 10) @ [dig (n mod 10)]"
  by (simp add: dec_simps [of n])

text \<open>Induction on a non-negative integer, digit by digit.\<close>

lemma digits_induct [consumes 1, case_names small step]:
  assumes "0 \<le> (n::int)"
    and "\<And>n. 0 \<le> n \<Longrightarrow> n < 10 \<Longrightarrow> P n"
    and "\<And>n. 10 \<le> n \<Longrightarrow> P (n div 10) \<Longrightarrow> P n"
  shows "P n"
  using assms(1)
proof (induction "nat n" arbitrary: n rule: less_induct)
  case less
  show ?case
  proof (cases "n < 10")
    case True
    with less assms(2) show ?thesis by simp
  next
    case False
    then have "P (n div 10)" by (intro less.hyps) simp_all
    moreover from False have "10 \<le> n" by simp
    ultimately show ?thesis by (rule assms(3) [rotated])
  qed
qed

lemma all_digits_dec [simp]: "0 \<le> n \<Longrightarrow> all_digits (dec n)"
proof (induction n rule: digits_induct)
  case (small n)
  then show ?case by (simp add: dec_small all_digits_def digit_dig)
next
  case (step n)
  from step(1) have "digit (dig (n mod 10))" by (intro digit_dig) auto
  with step(2) show ?case unfolding dec_step [OF step(1)] by (simp add: all_digits_def)
qed

lemma dec_num_snoc: "dec_num (s @ [c]) = 10 * dec_num s + dec_val c"
  by (simp add: dec_num_def)

lemma dec_num_single: "dec_num [c] = dec_val c"
  by (simp add: dec_num_def)

lemma dec_num_dec [simp]: "0 \<le> n \<Longrightarrow> dec_num (dec n) = n"
proof (induction n rule: digits_induct)
  case (small n)
  then show ?case by (simp add: dec_small dec_num_single dec_val_dig)
next
  case (step n)
  from step(1) have "dec_val (dig (n mod 10)) = n mod 10" by (intro dec_val_dig) auto
  with step(2) show ?case unfolding dec_step [OF step(1)] by (simp add: dec_num_snoc)
qed

lemma dec_not_Nil [simp]: "dec n \<noteq> []"
  by (simp add: dec_simps [of n])

lemma digit_not_minus: "digit c \<Longrightarrow> c \<noteq> CHR ''-''"
  by (auto simp: char_classes)

lemma digit_not_ws: "digit c \<Longrightarrow> \<not> ws c"
  by (auto simp: char_classes)

lemma minus_not_ws: "\<not> ws (CHR ''-'')"
  by (simp add: char_classes)

lemma all_digits_int_lit: "all_digits s \<Longrightarrow> int_lit s"
  using digit_not_minus by (cases s) (auto simp: all_digits_def)

lemma all_digits_int_of_lit: "all_digits s \<Longrightarrow> int_of_lit s = dec_num s"
  using digit_not_minus by (cases s) (auto simp: all_digits_def)

lemma int_lit_int_str [simp]: "int_lit (int_str i)"
  by (cases "i < 0") (simp_all add: int_str_def all_digits_int_lit)

lemma int_of_lit_int_str [simp]: "int_of_lit (int_str i) = i"
  by (cases "i < 0") (simp_all add: int_str_def all_digits_int_of_lit)

lemma int_str_inject [simp]: "int_str i = int_str j \<longleftrightarrow> i = j"
  by (metis int_of_lit_int_str)

lemma all_digits_trim: "all_digits s \<Longrightarrow> trim s = s"
  by (rule trim_id) (auto simp: all_digits_def list_all_iff digit_not_ws)

lemma trim_int_str [simp]: "trim (int_str i) = int_str i"
proof (rule trim_id)
  have "\<forall>c\<in>set (dec n). \<not> ws c" if "0 \<le> n" for n
    using all_digits_dec [OF that] by (auto simp: all_digits_def list_all_iff digit_not_ws)
  from this [of i] this [of "- i"] show "\<forall>c\<in>set (int_str i). \<not> ws c"
    by (auto simp: int_str_def minus_not_ws)
qed

end
