(* ===== verification/Js_Number.thy ===== *)
theory Js_Number
  imports Complex_Main Js_Text
begin

text \<open>
  JavaScript's \<open>Number\<close>: IEEE doubles as the rational they stand for, with the rounding to 53
  significant bits written out, \<open>Number(text)\<close>, \<open>String(number)\<close>, \<open>Number.isSafeInteger\<close>
  and \<open>toFixed\<close>. The two zeros are one value: no code here tells them apart. The facts the
  components use are that integers up to \<open>2 ^ 53\<close> in absolute value survive \<open>Number\<close> and
  \<open>String\<close> unchanged; above it both lose digits, which is what the guards of the SDK are for.
\<close>

datatype jnum = NaN | PosInf | NegInf | Fin rat

section \<open>Rounding to a double\<close>

function ilog2 :: "int \<Rightarrow> int" where
  "ilog2 n = (if n < 2 then 0 else 1 + ilog2 (n div 2))"
  by pat_completeness auto
termination
  by (relation "measure nat") auto

declare ilog2.simps [simp del]

definition pow2 :: "int \<Rightarrow> rat" where
  "pow2 e = (if 0 \<le> e then 2 ^ nat e else 1 / 2 ^ nat (- e))"

definition exp2 :: "rat \<Rightarrow> int" where \<comment> \<open>\<open>2 ^ e \<le> r < 2 ^ (e + 1)\<close>, for positive \<open>r\<close>\<close>
  "exp2 r =
     (let (p, q) = quotient_of r; e = ilog2 p - ilog2 q in if pow2 e \<le> r then e else e - 1)"

definition round_even :: "rat \<Rightarrow> int" where
  "round_even r =
     (let f = \<lfloor>r\<rfloor>; d = r - of_int f
      in if d < 1 / 2 then f else if 1 / 2 < d then f + 1 else if even f then f else f + 1)"

text \<open>
  The nearest value \<open>m * 2 ^ e\<close> with \<open>m\<close> of 53 bits, ties to even; \<open>2 ^ 1024\<close> and above is
  infinite.
\<close>

definition to_double :: "rat \<Rightarrow> jnum" where
  "to_double r =
     (if r = 0 then Fin 0
      else let e = max (exp2 \<bar>r\<bar> - 52) (-1074); m = round_even (\<bar>r\<bar> / pow2 e)
           in if 971 < e \<or> e = 971 \<and> 2 ^ 53 \<le> m then (if r < 0 then NegInf else PosInf)
              else Fin (if r < 0 then - (of_int m * pow2 e) else of_int m * pow2 e))"

definition integral :: "rat \<Rightarrow> bool" where
  "integral r \<longleftrightarrow> of_int \<lfloor>r\<rfloor> = r"

fun isSafeInteger :: "jnum \<Rightarrow> bool" where
  "isSafeInteger (Fin r) = (integral r \<and> \<bar>r\<bar> \<le> 9007199254740991)"
| "isSafeInteger _ = False"

lemma integral_of_int [simp]: "integral (of_int n)"
  by (simp add: integral_def)

lemma integral_numeral [simp]: "integral (numeral k)" "integral 0" "integral 1"
  using integral_of_int [of "numeral k"] integral_of_int [of 0] integral_of_int [of 1] by simp_all

lemma ilog2_nonneg: "0 \<le> ilog2 n"
  by (induction n rule: ilog2.induct) (simp add: ilog2.simps)

lemma ilog2_bounds: "0 < n \<Longrightarrow> 2 ^ nat (ilog2 n) \<le> n \<and> n < 2 * 2 ^ nat (ilog2 n)"
proof (induction n rule: ilog2.induct)
  case (1 n)
  show ?case
  proof (cases "n < 2")
    case True
    with 1 show ?thesis by (simp add: ilog2.simps)
  next
    case False
    with 1 have "2 ^ nat (ilog2 (n div 2)) \<le> n div 2 \<and> n div 2 < 2 * 2 ^ nat (ilog2 (n div 2))"
      by simp
    moreover from False have "nat (ilog2 n) = Suc (nat (ilog2 (n div 2)))"
      using ilog2_nonneg [of "n div 2"] by (simp add: ilog2.simps [of n] nat_add_distrib)
    moreover define p where "p = (2::int) ^ nat (ilog2 (n div 2))"
    ultimately have "p \<le> n div 2" "n div 2 < 2 * p" "(2::int) ^ nat (ilog2 n) = 2 * p" by simp_all
    then show ?thesis by presburger
  qed
qed

lemma round_even_of_int [simp]: "round_even (of_int n) = n"
  by (simp add: round_even_def)

lemma exp2_of_int:
  assumes "0 < n"
  shows "exp2 (of_int n) = ilog2 n"
proof -
  from assms have "2 ^ nat (ilog2 n) \<le> n" by (rule ilog2_bounds [THEN conjunct1])
  then have "(of_int (2 ^ nat (ilog2 n)) :: rat) \<le> of_int n" by (simp only: of_int_le_iff)
  then have "pow2 (ilog2 n) \<le> (of_int n :: rat)" by (simp add: pow2_def ilog2_nonneg)
  then show ?thesis by (simp add: exp2_def quotient_of_int ilog2.simps [of 1])
qed

text \<open>An integer below \<open>2 ^ 53\<close> is a multiple of the spacing at its magnitude.\<close>

lemma to_double_exact:
  assumes "0 < n" and "n < 2 ^ 53"
  shows "to_double (of_int n) = Fin (of_int n)"
proof -
  let ?l = "ilog2 n"
  from assms have "(2::int) ^ nat ?l < 2 ^ 53"
    using ilog2_bounds [THEN conjunct1, of n] by (rule_tac le_less_trans)
  from power_less_imp_less_exp [OF _ this] have l: "?l \<le> 52" by simp
  define k where "k = nat (52 - ?l)"
  have e: "max (exp2 (of_int n) - 52) (-1074) = - int k"
    using l assms ilog2_nonneg [of n] by (simp add: exp2_of_int k_def)
  have p: "pow2 (- int k) = 1 / 2 ^ k" by (simp add: pow2_def)
  have r: "round_even (of_int n / pow2 (- int k)) = n * 2 ^ k"
  proof -
    have "(of_int n :: rat) / pow2 (- int k) = of_int (n * 2 ^ k)" by (simp add: p)
    then show ?thesis by (simp only: round_even_of_int)
  qed
  have x: "of_int (n * 2 ^ k) * pow2 (- int k) = (of_int n :: rat)"
    by (simp add: p)
  have a: "\<bar>of_int n :: rat\<bar> = of_int n" using assms by simp
  from assms have "(of_int n :: rat) \<noteq> 0" by simp
  then show ?thesis
    unfolding to_double_def a Let_def e r x using assms by simp
qed

lemma to_double_uminus: "to_double (- r) = (case to_double r of Fin x \<Rightarrow> Fin (- x)
    | PosInf \<Rightarrow> NegInf | NegInf \<Rightarrow> PosInf | NaN \<Rightarrow> NaN)"
  by (auto simp: to_double_def Let_def)

lemma to_double_of_int: "\<bar>n\<bar> < 2 ^ 53 \<Longrightarrow> to_double (of_int n) = Fin (of_int n)"
proof -
  assume n: "\<bar>n\<bar> < 2 ^ 53"
  consider "n = 0" | "0 < n" | "0 < - n" by linarith
  then show ?thesis
  proof cases
    case 1
    then show ?thesis by (simp add: to_double_def)
  next
    case 2
    with n show ?thesis by (simp add: to_double_exact)
  next
    case 3
    with n have "to_double (of_int (- n)) = Fin (of_int (- n))" by (intro to_double_exact) auto
    then show ?thesis using to_double_uminus [of "of_int (- n)"] by simp
  qed
qed

lemma isSafeInteger_of_int: "isSafeInteger (Fin (of_int n)) \<longleftrightarrow> \<bar>n\<bar> < 2 ^ 53"
proof -
  have "\<bar>of_int n :: rat\<bar> \<le> 9007199254740991 \<longleftrightarrow> \<bar>n\<bar> \<le> 9007199254740991"
    by (metis of_int_abs of_int_le_iff of_int_numeral)
  then show ?thesis by auto
qed

lemma isSafeInteger_iff: "isSafeInteger v \<longleftrightarrow> (\<exists>n. v = Fin (of_int n) \<and> \<bar>n\<bar> < 2 ^ 53)"
proof
  assume s: "isSafeInteger v"
  then obtain r where r: "v = Fin r" by (cases v) auto
  with s have "of_int \<lfloor>r\<rfloor> = r" by (simp add: integral_def)
  with s r isSafeInteger_of_int [of "\<lfloor>r\<rfloor>"] show "\<exists>n. v = Fin (of_int n) \<and> \<bar>n\<bar> < 2 ^ 53"
    by metis
qed (metis isSafeInteger_of_int)

section \<open>Number(text)\<close>

definition pow10 :: "int \<Rightarrow> rat" where
  "pow10 e = (if 0 \<le> e then 10 ^ nat e else 1 / 10 ^ nat (- e))"

text \<open>The optional exponent of a decimal literal, which must use up the text.\<close>

fun exponent :: "string \<Rightarrow> int option" where
  "exponent [] = Some 0"
| "exponent (c # s) =
     (if c = CHR ''e'' \<or> c = CHR ''E'' then
        (case s of
           [] \<Rightarrow> None
         | d # ds \<Rightarrow>
             if d = CHR ''-'' then (if all_digits ds then Some (- dec_num ds) else None)
             else if d = CHR ''+'' then (if all_digits ds then Some (dec_num ds) else None)
             else if all_digits s then Some (dec_num s) else None)
      else None)"

definition dec_literal :: "string \<Rightarrow> rat option" where \<comment> \<open>an unsigned decimal literal\<close>
  "dec_literal s =
     (let ip = takeWhile digit s; r = dropWhile digit s;
          (fp, x) = (case r of c # t \<Rightarrow> if c = CHR ''.'' then (takeWhile digit t, dropWhile digit t)
                                        else ([], r)
                             | [] \<Rightarrow> ([], []))
      in if ip = [] \<and> fp = [] then None
         else map_option (\<lambda>e. of_int (dec_num (ip @ fp)) * pow10 (e - int (length fp))) (exponent x))"

definition radix_literal :: "string \<Rightarrow> rat option" where \<comment> \<open>\<open>0x\<close>, \<open>0o\<close> and \<open>0b\<close> literals\<close>
  "radix_literal s =
     (case s of
        z # m # ds \<Rightarrow>
          if z \<noteq> CHR ''0'' \<or> ds = [] then None
          else if (m = CHR ''x'' \<or> m = CHR ''X'') \<and> list_all hex_char ds
            then Some (of_int (hex_num ds))
          else if (m = CHR ''o'' \<or> m = CHR ''O'') \<and> list_all (\<lambda>c. digit c \<and> dec_val c < 8) ds
            then Some (of_int (foldl (\<lambda>a c. 8 * a + dec_val c) 0 ds))
          else if (m = CHR ''b'' \<or> m = CHR ''B'') \<and> list_all (\<lambda>c. digit c \<and> dec_val c < 2) ds
            then Some (of_int (foldl (\<lambda>a c. 2 * a + dec_val c) 0 ds))
          else None
      | _ \<Rightarrow> None)"

definition unsigned_literal :: "string \<Rightarrow> jnum" where
  "unsigned_literal s =
     (if s = ''Infinity'' then PosInf
      else case dec_literal s of None \<Rightarrow> NaN | Some r \<Rightarrow> to_double r)"

fun neg_num :: "jnum \<Rightarrow> jnum" where
  "neg_num (Fin r) = Fin (- r)"
| "neg_num PosInf = NegInf"
| "neg_num NegInf = PosInf"
| "neg_num NaN = NaN"

definition to_number :: "string \<Rightarrow> jnum" where \<comment> \<open>\<open>Number(s)\<close>\<close>
  "to_number s0 =
     (case trim s0 of
        [] \<Rightarrow> Fin 0
      | c # s \<Rightarrow>
          if c = CHR ''-'' then neg_num (unsigned_literal s)
          else if c = CHR ''+'' then unsigned_literal s
          else case radix_literal (c # s) of
            Some r \<Rightarrow> to_double r
          | None \<Rightarrow> unsigned_literal (c # s))"

section \<open>String(number)\<close>

text \<open>
  Integers below \<open>2 ^ 53\<close> print their decimal digits. Any other double prints the fewest
  significant digits that still round to it (17 are always enough), laid out as ECMAScript's
  \<open>Number::toString\<close> does: the value is \<open>s * 10 ^ (n - k)\<close> for a \<open>k\<close>-digit \<open>s\<close>.
\<close>

fun lead :: "nat \<Rightarrow> rat \<Rightarrow> nat" where
  "lead 0 r = 0"
| "lead (Suc f) r = (if 1 \<le> r then 0 else Suc (lead f (10 * r)))"

definition exp10 :: "rat \<Rightarrow> int" where \<comment> \<open>\<open>10 ^ (n - 1) \<le> r < 10 ^ n\<close>, for a positive double\<close>
  "exp10 r = (if 1 \<le> r then int (length (dec \<lfloor>r\<rfloor>)) else 1 - int (lead 400 r))"

definition shortest :: "rat \<Rightarrow> string \<times> int" where
  "shortest r =
     (let n = exp10 r;
          ok = (\<lambda>k. to_double (of_int (round_even (r / pow10 (n - int k))) * pow10 (n - int k)) = Fin r);
          k = (case find ok [1..<18] of Some k \<Rightarrow> k | None \<Rightarrow> 17);
          s = dec (round_even (r / pow10 (n - int k)))
      in if length s = k then (s, n) else (''1'', n + 1))"

definition layout :: "string \<Rightarrow> int \<Rightarrow> string" where
  "layout s n =
     (let k = int (length s) in
      if k \<le> n \<and> n \<le> 21 then s @ replicate (nat (n - k)) (CHR ''0'')
      else if 0 < n \<and> n \<le> 21 then take (nat n) s @ ''.'' @ drop (nat n) s
      else if -6 < n \<and> n \<le> 0 then ''0.'' @ replicate (nat (- n)) (CHR ''0'') @ s
      else take 1 s @ (if k = 1 then [] else ''.'' @ drop 1 s) @ ''e'' @
           (if 0 \<le> n - 1 then ''+'' else ''-'') @ dec \<bar>n - 1\<bar>)"

fun num_str :: "jnum \<Rightarrow> string" where
  "num_str NaN = ''NaN''"
| "num_str PosInf = ''Infinity''"
| "num_str NegInf = ''-Infinity''"
| "num_str (Fin r) =
     (if isSafeInteger (Fin r) then int_str \<lfloor>r\<rfloor>
      else if r < 0 then CHR ''-'' # (case shortest (- r) of (s, n) \<Rightarrow> layout s n)
      else (case shortest r of (s, n) \<Rightarrow> layout s n))"

definition toFixed :: "nat \<Rightarrow> jnum \<Rightarrow> string" where \<comment> \<open>\<open>x.toFixed(f)\<close>\<close>
  "toFixed f v =
     (case v of
        Fin r \<Rightarrow>
          if 10 ^ 21 \<le> \<bar>r\<bar> then num_str v
          else let n = \<lfloor>\<bar>r\<bar> * 10 ^ f + 1 / 2\<rfloor>; s = padStart (dec n) (f + 1) (CHR ''0'')
               in (if r < 0 then ''-'' else []) @ take (length s - f) s @ (if f = 0 then [] else ''.'' @ drop (length s - f) s)
      | _ \<Rightarrow> num_str v)"

fun num_or :: "jnum \<Rightarrow> jnum \<Rightarrow> jnum" where \<comment> \<open>\<open>x || d\<close>: NaN and zero are falsy\<close>
  "num_or (Fin r) d = (if r = 0 then d else Fin r)"
| "num_or NaN d = d"
| "num_or v d = v"

lemma num_str_of_int [simp]: "\<bar>n\<bar> < 2 ^ 53 \<Longrightarrow> num_str (Fin (of_int n)) = int_str n"
  using isSafeInteger_of_int [of n] by simp

lemma all_digits_takeWhile: "all_digits s \<Longrightarrow> takeWhile digit s = s \<and> dropWhile digit s = []"
  by (auto simp: all_digits_def list_all_iff)

lemma dec_literal_digits:
  assumes "all_digits s"
  shows "dec_literal s = Some (of_int (dec_num s))"
proof -
  from all_digits_takeWhile [OF assms] have t: "takeWhile digit s = s" "dropWhile digit s = []"
    by blast+
  show ?thesis
    unfolding dec_literal_def Let_def t using assms by (simp add: pow10_def all_digits_def)
qed

lemma unsigned_literal_digits:
  "all_digits s \<Longrightarrow> unsigned_literal s = to_double (of_int (dec_num s))"
  by (auto simp: unsigned_literal_def dec_literal_digits all_digits_def char_classes)

lemma digit_not_letter:
  "digit c \<Longrightarrow> c \<notin> {CHR ''x'', CHR ''X'', CHR ''o'', CHR ''O'', CHR ''b'', CHR ''B''}"
  by (auto simp: char_classes)

lemma radix_literal_digits:
  assumes "all_digits s"
  shows "radix_literal s = None"
proof (cases "\<exists>z m ds. s = z # m # ds")
  case True
  then obtain z m ds where s: "s = z # m # ds" by blast
  with assms have "digit m" by (simp add: all_digits_def)
  from digit_not_letter [OF this] show ?thesis by (simp add: s radix_literal_def)
next
  case False
  then show ?thesis by (auto simp: radix_literal_def split: list.split)
qed

lemma to_number_digits:
  assumes "all_digits s"
  shows "to_number s = to_double (of_int (dec_num s))"
proof (cases s)
  case Nil
  with assms show ?thesis by (simp add: all_digits_def)
next
  case (Cons c t)
  with assms have "digit c" by (simp add: all_digits_def)
  then have "c \<noteq> CHR ''-''" "c \<noteq> CHR ''+''" by (auto simp: char_classes)
  with Cons assms show ?thesis
    using all_digits_trim [of s] unsigned_literal_digits [of s] radix_literal_digits [of s]
    by (simp add: to_number_def)
qed

text \<open>A decimal integer that fits in 53 bits goes through \<open>Number\<close> exactly.\<close>

lemma to_number_int_str [simp]:
  assumes "\<bar>n\<bar> < 2 ^ 53"
  shows "to_number (int_str n) = Fin (of_int n)"
proof (cases "n < 0")
  case True
  then have "unsigned_literal (dec (- n)) = to_double (of_int (- n))"
    using unsigned_literal_digits [of "dec (- n)"] by simp
  also have "\<dots> = Fin (of_int (- n))" using assms by (intro to_double_of_int) simp
  finally have u: "unsigned_literal (dec (- n)) = Fin (of_int (- n))" .
  have "trim (CHR ''-'' # dec (- n)) = CHR ''-'' # dec (- n)"
    using trim_int_str [of n] True by (simp add: int_str_def)
  with u True show ?thesis by (simp add: to_number_def int_str_def)
next
  case False
  then have "to_number (int_str n) = to_double (of_int n)"
    by (simp add: int_str_def to_number_digits)
  with assms show ?thesis by (simp add: to_double_of_int)
qed

end
