(* ===== verification/Js_Value.thy ===== *)
theory Js_Value
  imports "HOL-Library.Word" Js_Number
begin

text \<open>
  The values the code passes between the SDK, the stores and the components, the errors it
  throws, and the coercions it applies to them: \<open>String(v)\<close>, truthiness and \<open>v ?? d\<close>.

  \<open>jval\<close> has the kinds of value that occur: primitives, byte arrays, arrays, plain objects in
  insertion order and \<open>Map\<close> objects. A thrown \<open>Error\<close> carries its class, its message, the
  \<open>contractCode\<close> the SDK may attach, the \<open>sd\<close> payload of the playground and the fields of the
  console's \<open>ApiError\<close>.
\<close>

type_synonym byte = "8 word"

datatype jval = JUndef | JNull | JBool bool | JNum jnum | JBig int | JStr string
  | JBytes "byte list" | JArr "jval list" | JObj "(string \<times> jval) list" | JMap "(jval \<times> jval) list"

text \<open>The \<open>code\<close> of an \<open>sd\<close> payload is a contract error number or the text of an em dash.\<close>

datatype sdcode = Num int | Dash

record sd =
  sd_title :: string
  sd_msg :: string
  sd_code :: sdcode

record api_problem = \<comment> \<open>what the console's \<open>ApiError\<close> sets on itself\<close>
  ap_status :: jval
  ap_code :: jval
  ap_name :: jval

record jserr =
  e_class :: string
  e_message :: string
  e_contractCode :: "jnum option"
  e_sd :: "sd option"
  e_api :: "api_problem option"

type_synonym 'a js = "(jserr, 'a) res"

definition Error :: "string \<Rightarrow> jserr" where
  "Error m = \<lparr>e_class = ''Error'', e_message = m, e_contractCode = None, e_sd = None, e_api = None\<rparr>"

definition RangeError :: "string \<Rightarrow> jserr" where
  "RangeError m = \<lparr>e_class = ''RangeError'', e_message = m, e_contractCode = None, e_sd = None, e_api = None\<rparr>"

definition TypeError :: "string \<Rightarrow> jserr" where
  "TypeError m = \<lparr>e_class = ''TypeError'', e_message = m, e_contractCode = None, e_sd = None, e_api = None\<rparr>"

definition with_sd :: "jserr \<Rightarrow> string \<Rightarrow> string \<Rightarrow> sdcode \<Rightarrow> jserr" where
  "with_sd e t m c = e\<lparr>e_sd := Some \<lparr>sd_title = t, sd_msg = m, sd_code = c\<rparr>\<rparr>"

fun js_String :: "jval \<Rightarrow> string" where \<comment> \<open>\<open>String(v)\<close>\<close>
  "js_String JUndef = ''undefined''"
| "js_String JNull = ''null''"
| "js_String (JBool b) = (if b then ''true'' else ''false'')"
| "js_String (JNum n) = num_str n"
| "js_String (JBig i) = int_str i"
| "js_String (JStr s) = s"
| "js_String (JBytes bs) = join '','' (map (\<lambda>b. dec (uint b)) bs)"
| "js_String (JArr vs) =
     join '','' (map (\<lambda>v. if v = JUndef \<or> v = JNull then [] else js_String v) vs)"
| "js_String (JObj _) = ''[object Object]''"
| "js_String (JMap _) = ''[object Map]''"

fun truthy :: "jval \<Rightarrow> bool" where
  "truthy JUndef = False"
| "truthy JNull = False"
| "truthy (JBool b) = b"
| "truthy (JNum n) = (n \<noteq> NaN \<and> n \<noteq> Fin 0)"
| "truthy (JBig i) = (i \<noteq> 0)"
| "truthy (JStr s) = (s \<noteq> [])"
| "truthy _ = True"

definition nullish :: "jval \<Rightarrow> bool" where
  "nullish v \<longleftrightarrow> v = JUndef \<or> v = JNull"

definition nullish_or :: "jval \<Rightarrow> jval \<Rightarrow> jval" where \<comment> \<open>\<open>v ?? d\<close>\<close>
  "nullish_or v d = (if nullish v then d else v)"

definition js_or :: "jval \<Rightarrow> jval \<Rightarrow> jval" where \<comment> \<open>\<open>v || d\<close>\<close>
  "js_or v d = (if truthy v then v else d)"

definition shown :: "jval \<Rightarrow> string" where \<comment> \<open>a value as a child: null, undefined and booleans show nothing\<close>
  "shown v = (case v of JUndef \<Rightarrow> [] | JNull \<Rightarrow> [] | JBool b \<Rightarrow> [] | _ \<Rightarrow> js_String v)"

fun js_Number :: "jval \<Rightarrow> jnum" where
  \<comment> \<open>\<open>Number(v)\<close>; arrays, objects and maps go through their text\<close>
  "js_Number JUndef = NaN"
| "js_Number JNull = Fin 0"
| "js_Number (JBool b) = (if b then Fin 1 else Fin 0)"
| "js_Number (JNum n) = n"
| "js_Number (JBig i) = to_double (of_int i)"
| "js_Number (JStr s) = to_number s"
| "js_Number v = to_number (js_String v)"

fun field :: "jval \<Rightarrow> string \<Rightarrow> jval js" where
  \<comment> \<open>\<open>v.k\<close>: undefined when absent, a throw on null and undefined\<close>
  "field JUndef k = Inl (TypeError (''Cannot read properties of undefined (reading '' @ k @ '')''))"
| "field JNull k = Inl (TypeError (''Cannot read properties of null (reading '' @ k @ '')''))"
| "field (JObj kvs) k = Inr (case map_of kvs k of None \<Rightarrow> JUndef | Some v \<Rightarrow> v)"
| "field _ k = Inr JUndef"

lemma nullish_simps [simp]:
  "nullish JUndef" "nullish JNull" "\<not> nullish (JBool b)" "\<not> nullish (JNum n)" "\<not> nullish (JBig i)"
  "\<not> nullish (JStr s)" "\<not> nullish (JBytes bs)" "\<not> nullish (JArr vs)" "\<not> nullish (JObj kvs)"
  "\<not> nullish (JMap m)"
  by (simp_all add: nullish_def)

lemma coalesce_simps [simp]:
  "nullish v \<Longrightarrow> nullish_or v d = d" "\<not> nullish v \<Longrightarrow> nullish_or v d = v"
  by (simp_all add: nullish_or_def)

lemma js_Number_big [simp]: "\<bar>n\<bar> < 2 ^ 53 \<Longrightarrow> js_Number (JBig n) = Fin (of_int n)"
  using to_double_of_int [of n] by simp

end
