(* ===== verification/Js_Object.thy ===== *)
theory Js_Object
  imports Js_Value
begin

text \<open>
  Plain JavaScript objects used as dictionaries, with the order \<open>Object.keys\<close> gives: the keys
  that are array indices in ascending order, then the others in the order they were added. An
  object is an association list in that order; spreading \<open>{ ...o, [k]: v }\<close> and \<open>delete o[k]\<close>
  keep it. Arithmetic on Numbers that the stores use is here too.
\<close>

definition index_key :: "string \<Rightarrow> bool" where
  "index_key k \<longleftrightarrow> all_digits k \<and> dec (dec_num k) = k \<and> dec_num k < 4294967295"

fun obj_insert :: "string \<Rightarrow> 'v \<Rightarrow> (string \<times> 'v) list \<Rightarrow> (string \<times> 'v) list" where
  \<comment> \<open>of a key that is not in the object\<close>
  "obj_insert k v [] = [(k, v)]"
| "obj_insert k v (p # ps) =
     (if index_key k \<and> (\<not> index_key (fst p) \<or> dec_num k < dec_num (fst p))
      then (k, v) # p # ps else p # obj_insert k v ps)"

definition obj_put :: "string \<Rightarrow> 'v \<Rightarrow> (string \<times> 'v) list \<Rightarrow> (string \<times> 'v) list" where
  "obj_put k v ps = (if k \<in> fst ` set ps then put k v ps else obj_insert k v ps)"

abbreviation obj_keys :: "(string \<times> 'v) list \<Rightarrow> string list" where
  "obj_keys ps \<equiv> map fst ps"

lemma map_of_obj_insert: "k \<notin> fst ` set ps \<Longrightarrow> map_of (obj_insert k v ps) = (map_of ps)(k \<mapsto> v)"
  by (induction ps) (auto simp: fun_eq_iff)

lemma map_of_obj_put [simp]: "map_of (obj_put k v ps) = (map_of ps)(k \<mapsto> v)"
  by (simp add: obj_put_def map_of_obj_insert)

lemma set_obj_insert: "fst ` set (obj_insert k v ps) = insert k (fst ` set ps)"
  by (induction ps) auto

lemma distinct_obj_insert:
  "k \<notin> fst ` set ps \<Longrightarrow> distinct (obj_keys ps) \<Longrightarrow> distinct (obj_keys (obj_insert k v ps))"
proof (induction ps)
  case (Cons p ps)
  have "fst p \<in> fst ` set (obj_insert k v ps) \<longleftrightarrow> fst p = k \<or> fst p \<in> fst ` set ps"
    by (simp only: set_obj_insert) auto
  with Cons show ?case by auto
qed simp

lemma distinct_obj_put: "distinct (obj_keys ps) \<Longrightarrow> distinct (obj_keys (obj_put k v ps))"
  by (simp add: obj_put_def distinct_put distinct_obj_insert del: distinct_map)

definition obj_spread :: "(string \<times> 'v) list \<Rightarrow> (string \<times> 'v) list \<Rightarrow> (string \<times> 'v) list" where \<comment> \<open>\<open>{ ...a, ...b }\<close>\<close>
  "obj_spread a b = foldl (\<lambda>o' (k, v). obj_put k v o') a b"

lemma map_of_obj_spread: "distinct (map fst b) \<Longrightarrow> map_of (obj_spread a b) = map_of a ++ map_of b"
proof (induction b arbitrary: a)
  case (Cons p b)
  obtain k v where p: "p = (k, v)" by (cases p)
  have "obj_spread a (p # b) = obj_spread (obj_put k v a) b" by (simp add: obj_spread_def p)
  moreover have "k \<notin> dom (map_of b)" using Cons.prems by (simp add: p dom_map_of_conv_image_fst)
  ultimately show ?case using Cons by (simp add: p map_add_upd_left fun_eq_iff map_add_def split: option.splits) auto
qed (simp add: obj_spread_def)

lemma distinct_obj_spread: "distinct (obj_keys a) \<Longrightarrow> distinct (obj_keys (obj_spread a b))"
  by (induction b arbitrary: a) (auto simp: obj_spread_def distinct_obj_put simp del: distinct_map)

text \<open>\<open>a + b\<close> and \<open>Math.max(a, b)\<close> of Numbers.\<close>

fun jadd :: "jnum \<Rightarrow> jnum \<Rightarrow> jnum" where
  "jadd (Fin a) (Fin b) = to_double (a + b)"
| "jadd NaN b = NaN"
| "jadd a NaN = NaN"
| "jadd PosInf NegInf = NaN"
| "jadd NegInf PosInf = NaN"
| "jadd PosInf b = PosInf"
| "jadd NegInf b = NegInf"
| "jadd a b = b"

fun jneg :: "jnum \<Rightarrow> jnum" where
  "jneg (Fin a) = Fin (- a)"
| "jneg PosInf = NegInf"
| "jneg NegInf = PosInf"
| "jneg NaN = NaN"

definition jsub :: "jnum \<Rightarrow> jnum \<Rightarrow> jnum" where
  "jsub a b = jadd a (jneg b)"

fun jless :: "jnum \<Rightarrow> jnum \<Rightarrow> bool" where \<comment> \<open>\<open>a < b\<close>, false on NaN\<close>
  "jless (Fin a) (Fin b) = (a < b)"
| "jless NaN b = False"
| "jless a NaN = False"
| "jless NegInf b = (b \<noteq> NegInf)"
| "jless PosInf b = False"
| "jless a PosInf = True"
| "jless a NegInf = False"

definition jmax :: "jnum \<Rightarrow> jnum \<Rightarrow> jnum" where
  "jmax a b = (if a = NaN \<or> b = NaN then NaN else if jless a b then b else a)"

definition jmin :: "jnum \<Rightarrow> jnum \<Rightarrow> jnum" where
  "jmin a b = jneg (jmax (jneg a) (jneg b))"

text \<open>\<open>a * b\<close>, \<open>a / b\<close>, \<open>Math.floor(a)\<close> and \<open>Math.round(a)\<close>; zero has one sign, as everywhere here.\<close>

definition jsgn :: "jnum \<Rightarrow> rat" where
  "jsgn a = (case a of Fin x \<Rightarrow> sgn x | PosInf \<Rightarrow> 1 | NegInf \<Rightarrow> - 1 | NaN \<Rightarrow> 0)"

definition jinf :: "rat \<Rightarrow> jnum" where
  "jinf s = (if s = 0 then NaN else if 0 < s then PosInf else NegInf)"

fun jmul :: "jnum \<Rightarrow> jnum \<Rightarrow> jnum" where
  "jmul (Fin a) (Fin b) = to_double (a * b)"
| "jmul NaN b = NaN"
| "jmul a NaN = NaN"
| "jmul a b = jinf (jsgn a * jsgn b)"

fun jdiv :: "jnum \<Rightarrow> jnum \<Rightarrow> jnum" where
  "jdiv (Fin a) (Fin b) = (if b = 0 then jinf a else to_double (a / b))"
| "jdiv NaN b = NaN"
| "jdiv a NaN = NaN"
| "jdiv (Fin a) b = Fin 0"
| "jdiv a (Fin b) = jinf (jsgn a * (if b < 0 then - 1 else 1))"
| "jdiv a b = NaN"

definition jfloor :: "jnum \<Rightarrow> jnum" where
  "jfloor a = (case a of Fin x \<Rightarrow> Fin (of_int \<lfloor>x\<rfloor>) | _ \<Rightarrow> a)"

definition jround :: "jnum \<Rightarrow> jnum" where
  "jround a = (case a of Fin x \<Rightarrow> Fin (of_int \<lfloor>x + 1 / 2\<rfloor>) | _ \<Rightarrow> a)"

abbreviation num :: "int \<Rightarrow> jnum" where
  "num n \<equiv> Fin (of_int n)"

lemma jadd_num [simp]: "\<bar>m + n\<bar> < 2 ^ 53 \<Longrightarrow> jadd (num m) (num n) = num (m + n)"
  using to_double_of_int [of "m + n"] by simp

lemma jsub_num: "\<bar>m - n\<bar> < 2 ^ 53 \<Longrightarrow> jsub (num m) (num n) = num (m - n)"
  using jadd_num [of m "- n"] by (simp add: jsub_def)

lemma jmax_num [simp]: "jmax (num m) (num n) = num (max m n)"
  by (simp add: jmax_def max_def)

end
