(* ===== verification/Js_Io.thy ===== *)
theory Js_Io
  imports Js_Value
begin

text \<open>
  Code with effects: a computation of type \<open>('s, 'a) io\<close> runs on a state, and returns or throws.
  \<open>bindIO\<close> is \<open>await\<close> followed by the rest of the function, \<open>catchIO\<close> is \<open>try\<close> with \<open>catch\<close>;
  the state reached before a throw is kept, as it is in the program.
\<close>

type_synonym ('s, 'a) io = "'s \<Rightarrow> 'a js \<times> 's"

definition returnIO :: "'a \<Rightarrow> ('s, 'a) io" where
  "returnIO x = (\<lambda>s. (Inr x, s))"

definition throwIO :: "jserr \<Rightarrow> ('s, 'a) io" where
  "throwIO e = (\<lambda>s. (Inl e, s))"

definition liftIO :: "'a js \<Rightarrow> ('s, 'a) io" where \<comment> \<open>a pure call that may throw\<close>
  "liftIO r = (\<lambda>s. (r, s))"

definition bindIO :: "('s, 'a) io \<Rightarrow> ('a \<Rightarrow> ('s, 'b) io) \<Rightarrow> ('s, 'b) io" where
  "bindIO m f = (\<lambda>s. case m s of (Inl e, t) \<Rightarrow> (Inl e, t) | (Inr x, t) \<Rightarrow> f x t)"

definition catchIO :: "('s, 'a) io \<Rightarrow> (jserr \<Rightarrow> ('s, 'a) io) \<Rightarrow> ('s, 'a) io" where
  "catchIO m h = (\<lambda>s. case m s of (Inl e, t) \<Rightarrow> h e t | (Inr x, t) \<Rightarrow> (Inr x, t))"

definition modifyIO :: "('s \<Rightarrow> 's) \<Rightarrow> ('s, unit) io" where
  "modifyIO f = (\<lambda>s. (Inr (), f s))"

definition getIO :: "('s \<Rightarrow> 'a) \<Rightarrow> ('s, 'a) io" where
  "getIO f = (\<lambda>s. (Inr (f s), s))"

fun mapIO :: "('a \<Rightarrow> ('s, 'b) io) \<Rightarrow> 'a list \<Rightarrow> ('s, 'b list) io" where
  "mapIO f [] = returnIO []"
| "mapIO f (x # xs) = bindIO (f x) (\<lambda>y. bindIO (mapIO f xs) (\<lambda>ys. returnIO (y # ys)))"

lemma io_run [simp]:
  "returnIO x s = (Inr x, s)"
  "throwIO e s = (Inl e, s)"
  "liftIO r s = (r, s)"
  "modifyIO f s = (Inr (), f s)"
  "getIO g s = (Inr (g s), s)"
  by (simp_all add: returnIO_def throwIO_def liftIO_def modifyIO_def getIO_def)

lemma bindIO_run:
  "bindIO m f s = (case m s of (Inl e, t) \<Rightarrow> (Inl e, t) | (Inr x, t) \<Rightarrow> f x t)"
  by (simp add: bindIO_def)

lemma catchIO_run:
  "catchIO m h s = (case m s of (Inl e, t) \<Rightarrow> h e t | (Inr x, t) \<Rightarrow> (Inr x, t))"
  by (simp add: catchIO_def)

lemma bindIO_simps [simp]:
  "m s = (Inl e, t) \<Longrightarrow> bindIO m f s = (Inl e, t)"
  "m s = (Inr x, t) \<Longrightarrow> bindIO m f s = f x t"
  by (simp_all add: bindIO_def)

lemma catchIO_simps [simp]:
  "m s = (Inl e, t) \<Longrightarrow> catchIO m h s = h e t"
  "m s = (Inr x, t) \<Longrightarrow> catchIO m h s = (Inr x, t)"
  by (simp_all add: catchIO_def)

text \<open>A run of a sequence splits at its first step.\<close>

lemma bindIO_eq_iff [throw_simps]:
  "bindIO m f s = (r, u) \<longleftrightarrow>
     (\<exists>e. m s = (Inl e, u) \<and> r = Inl e) \<or> (\<exists>x t. m s = (Inr x, t) \<and> f x t = (r, u))"
  by (auto simp: bindIO_def split: prod.splits sum.splits)

lemma bindIO_cases:
  assumes "bindIO m f s = (r, u)"
  obtains (throw) e where "m s = (Inl e, u)" "r = Inl e"
    | (more) x t where "m s = (Inr x, t)" "f x t = (r, u)"
  using assms by (auto simp: bindIO_eq_iff)

lemma catchIO_cases:
  assumes "catchIO m h s = (r, u)"
  obtains (caught) e t where "m s = (Inl e, t)" "h e t = (r, u)"
    | (normal) x where "m s = (Inr x, u)" "r = Inr x"
  using assms by (cases "m s"; cases "fst (m s)") auto

lemma liftIO_eq_iff [throw_simps]: "liftIO r s = (q, u) \<longleftrightarrow> r = q \<and> s = u"
  by auto

text \<open>
  \<open>frame P m\<close>: every run of \<open>m\<close> relates its start and end state by \<open>P\<close>. Reflexive and
  transitive relations pass through sequencing and handlers.
\<close>

definition frame :: "('s \<Rightarrow> 's \<Rightarrow> bool) \<Rightarrow> ('s, 'a) io \<Rightarrow> bool" where
  "frame P m \<longleftrightarrow> (\<forall>s r t. m s = (r, t) \<longrightarrow> P s t)"

lemma frameI: "(\<And>s r t. m s = (r, t) \<Longrightarrow> P s t) \<Longrightarrow> frame P m"
  by (simp add: frame_def)

lemma frameD: "frame P m \<Longrightarrow> m s = (r, t) \<Longrightarrow> P s t"
  by (simp add: frame_def)

lemma frame_pure:
  assumes "reflp P"
  shows "frame P (returnIO x)" "frame P (throwIO e)" "frame P (liftIO r)" "frame P (getIO g)"
  using assms by (auto simp: frame_def reflp_def)

lemma frame_bind:
  assumes "transp P" and "frame P m" and "\<And>x. frame P (f x)"
  shows "frame P (bindIO m f)"
proof (rule frameI)
  fix s r t
  assume "bindIO m f s = (r, t)"
  then show "P s t"
    by (cases rule: bindIO_cases) (use assms in \<open>auto dest: frameD intro: transpD\<close>)
qed

lemma frame_catch:
  assumes "transp P" and "frame P m" and "\<And>e. frame P (h e)"
  shows "frame P (catchIO m h)"
proof (rule frameI)
  fix s r t
  assume "catchIO m h s = (r, t)"
  then show "P s t"
    by (cases rule: catchIO_cases) (use assms in \<open>auto dest: frameD intro: transpD\<close>)
qed

end
