(* ===== verification/Sdk_Codec.thy ===== *)
theory Sdk_Codec
  imports Js_Value
begin

text \<open>
  The pure part of the SDK (\<open>sdk/ts/src/browser.ts\<close>, \<open>sdk/ts/src/helpers.ts\<close>): the hexadecimal
  codec, the recovery of a contract error code from a host error, the guards that keep
  integers in their range and within the safe integers, the ScVal encoders and the redeemer
  commitment.

  \<open>nativeToScVal\<close> of the Stellar SDK is a parameter \<open>n2s\<close> of every encoder; \<open>scval\<close> lists the
  arms of the XDR union that occur. The digest of WebCrypto is the parameter \<open>sha256\<close> and the
  random bytes are an argument.
\<close>

section \<open>Hexadecimal\<close>

definition strip_0x :: "string \<Rightarrow> string" where \<comment> \<open>\<open>s.replace(/^0x/, "")\<close>\<close>
  "strip_0x s = (if startsWith s ''0x'' then drop 2 s else s)"

definition hex64 :: "string \<Rightarrow> bool" where \<comment> \<open>\<open>/^[0-9a-fA-F]{64}$/\<close>\<close>
  "hex64 s \<longleftrightarrow> length s = 64 \<and> list_all hex_char s"

fun hex_pairs :: "string \<Rightarrow> byte list" where
  "hex_pairs (a # b # s) = word_of_int (hex_num [a, b]) # hex_pairs s"
| "hex_pairs _ = []"

definition hexToBytes :: "jval \<Rightarrow> byte list js" where
  "hexToBytes hex =
     (let s = strip_0x (js_String (js_or hex (JStr [])))
      in if \<not> hex64 s then Inl (Error ''Expected a 32-byte hex value.'') else Inr (hex_pairs s))"

definition hex_byte :: "byte \<Rightarrow> string" where
  "hex_byte x = padStart (radix_str 16 (uint x)) 2 (CHR ''0'')"

definition hex_of_bytes :: "byte list \<Rightarrow> string" where
  "hex_of_bytes bs = concat (map hex_byte bs)"

definition byte_of :: "jval \<Rightarrow> byte" where \<comment> \<open>storing a value in a \<open>Uint8Array\<close> cell\<close>
  "byte_of v = (case js_Number v of
       Fin r \<Rightarrow> word_of_int (if r < 0 then - \<lfloor>- r\<rfloor> else \<lfloor>r\<rfloor>) | _ \<Rightarrow> 0)"

fun store_byte :: "jval \<Rightarrow> byte js" where \<comment> \<open>\<open>ToNumber\<close> throws on a \<open>BigInt\<close>\<close>
  "store_byte (JBig n) = Inl (TypeError ''Cannot convert a BigInt value to a number'')"
| "store_byte v = Inr (byte_of v)"

fun bytes_from :: "jval \<Rightarrow> byte list js" where \<comment> \<open>\<open>Uint8Array.from(v)\<close>\<close>
  "bytes_from JUndef = Inl (TypeError ''undefined is not iterable'')"
| "bytes_from JNull = Inl (TypeError ''null is not iterable'')"
| "bytes_from (JArr vs) = mapR store_byte vs"
| "bytes_from (JBytes bs) = Inr bs"
| "bytes_from (JStr s) = Inr (map (\<lambda>c. byte_of (JStr [c])) s)"
| "bytes_from _ = Inr []"

definition bytesToHex :: "jval \<Rightarrow> string js" where
  "bytesToHex b =
     (case b of
        JUndef \<Rightarrow> Inr []
      | JNull \<Rightarrow> Inr []
      | JStr s \<Rightarrow> Inr s
      | JBytes bs \<Rightarrow> Inr (hex_of_bytes bs)
      | _ \<Rightarrow> bindR (field b ''data'') (\<lambda>d.
               bindR (if truthy d then bytes_from d else bytes_from b) (\<lambda>bs. Inr (hex_of_bytes bs))))"

lemma nibbles:
  "0 \<le> uint (x :: byte) div 16" "uint x div 16 < 16" "0 \<le> uint x mod 16" "uint x mod 16 < 16"
proof -
  have "0 \<le> uint x" "uint x < 256" using uint_bounded [of x] by simp_all
  then show "0 \<le> uint x div 16" "uint x div 16 < 16" "0 \<le> uint x mod 16" "uint x mod 16 < 16"
    by presburger+
qed

text \<open>One byte is two lower-case digits, and the two digits read back as the byte.\<close>

lemma hex_byte_digits: "hex_byte x = [dig (uint x div 16), dig (uint x mod 16)]"
proof -
  have x: "0 \<le> uint x" "uint x < 256" using uint_bounded [of x] by simp_all
  show ?thesis
  proof (cases "uint x < 16")
    case True
    with x show ?thesis by (simp add: hex_byte_def padStart_def radix_str.simps dig_def)
  next
    case False
    with x have "radix_str 16 (uint x div 16) = [dig (uint x div 16)]"
      by (simp add: radix_str.simps)
    with False show ?thesis
      by (simp add: hex_byte_def padStart_def radix_str.simps [of 16 "uint x"])
  qed
qed

lemma hex_byte_roundtrip: "word_of_int (hex_num (hex_byte x)) = (x :: byte)"
proof -
  have "hex_val (dig (uint x div 16)) = uint x div 16" "hex_val (dig (uint x mod 16)) = uint x mod 16"
    using hex_dig nibbles [of x] by blast+
  then have "hex_num (hex_byte x) = 16 * (uint x div 16) + uint x mod 16"
    by (simp add: hex_byte_digits hex_num_def)
  then show ?thesis by simp
qed

lemma hex_pairs_hex_of_bytes [simp]: "hex_pairs (hex_of_bytes bs) = bs"
proof (induction bs)
  case (Cons b bs)
  then show ?case
    using hex_byte_roundtrip [of b] by (simp add: hex_of_bytes_def hex_byte_digits)
qed (simp add: hex_of_bytes_def)

lemma length_hex_of_bytes [simp]: "length (hex_of_bytes bs) = 2 * length bs"
  by (induction bs) (auto simp: hex_of_bytes_def hex_byte_digits)

lemma hex_of_bytes_chars: "c \<in> set (hex_of_bytes bs) \<Longrightarrow> hex_char c \<and> \<not> upper_hex c"
proof (induction bs)
  case (Cons b bs)
  have "hex_char (dig (uint b div 16)) \<and> \<not> upper_hex (dig (uint b div 16))"
    "hex_char (dig (uint b mod 16)) \<and> \<not> upper_hex (dig (uint b mod 16))"
    using hex_dig nibbles [of b] by blast+
  with Cons show ?case by (auto simp: hex_of_bytes_def hex_byte_digits)
qed (simp add: hex_of_bytes_def)

lemma x_not_hex: "\<not> hex_char (CHR ''x'')"
  by (simp add: char_classes)

lemma strip_0x_hex [simp]:
  assumes "list_all hex_char s"
  shows "strip_0x s = s"
proof (rule ccontr)
  assume "strip_0x s \<noteq> s"
  then have "take 2 s = ''0x''"
    by (auto simp: strip_0x_def startsWith_def numeral_2_eq_2 split: if_splits)
  then have "CHR ''x'' \<in> set s" by (metis in_set_takeD list.set_intros(1) list.set_intros(2))
  with assms x_not_hex show False by (auto simp: list_all_iff)
qed

lemma hex64_hex_of_bytes: "length bs = 32 \<Longrightarrow> hex64 (hex_of_bytes bs)"
  using hex_of_bytes_chars by (auto simp: hex64_def list_all_iff)

section \<open>The contract error code of a host error\<close>

text \<open>
  What \<open>contractErrorCode\<close> is given: a string, or another value with its \<open>message\<close> property, if
  it has one, and its JSON text.
\<close>

datatype raw = RawStr string | RawObj "string option" string

fun raw_text :: "raw \<Rightarrow> string" where
  "raw_text (RawStr s) = s"
| "raw_text (RawObj (Some m) json) = m"
| "raw_text (RawObj None json) = json"

text \<open>\<open>/Error\(Contract,\s*#(\d+)\)/\<close> at the start of the text, and its first match anywhere.\<close>

definition code_at :: "string \<Rightarrow> string option" where
  "code_at s =
     (if startsWith s ''Error(Contract,'' then
        (case dropWhile ws (drop 15 s) of
           [] \<Rightarrow> None
         | c # t \<Rightarrow>
             if c = CHR ''#'' \<and> takeWhile digit t \<noteq> [] then
               (case dropWhile digit t of
                  [] \<Rightarrow> None
                | d # _ \<Rightarrow> if d = CHR '')'' then Some (takeWhile digit t) else None)
             else None)
      else None)"

fun code_search :: "string \<Rightarrow> string option" where
  "code_search [] = None"
| "code_search (c # s) =
     (case code_at (c # s) of Some d \<Rightarrow> Some d | None \<Rightarrow> code_search s)"

definition contractErrorCode :: "raw \<Rightarrow> jnum option" where
  "contractErrorCode r = map_option to_number (code_search (raw_text r))"

definition contractErr :: "raw \<Rightarrow> jserr" where
  "contractErr r =
     (let s = raw_text r; e = Error s
      in case contractErrorCode (RawStr s) of
           Some c \<Rightarrow> e\<lparr>e_contractCode := Some c\<rparr>
         | None \<Rightarrow> e)"

section \<open>Integers in range\<close>

definition js_integer :: "jval \<Rightarrow> string \<Rightarrow> int js" where \<comment> \<open>\<open>integer(value, label)\<close>\<close>
  "js_integer v lab =
     (let t = trim (js_String (nullish_or v (JStr [])))
      in if \<not> int_lit t then Inl (RangeError (lab @ '' must be an integer''))
         else Inr (int_of_lit t))"

definition safeNumber :: "jval \<Rightarrow> string \<Rightarrow> jnum js" where
  "safeNumber v lab =
     bindR (js_integer v lab) (\<lambda>n.
       if n < - 9007199254740991 \<or> 9007199254740991 < n
       then Inl (RangeError (lab @ '' exceeds JavaScript'' @ [CHR 0x27] @ ''s safe integer range; ''
              @ ''use the generated typed client to retain bigint precision''))
       else Inr (js_Number (JBig n)))"

section \<open>ScVal encoders\<close>

datatype scval = ScvVoid | ScvBool bool | ScvU32 int | ScvU64 int | ScvI128 int
  | ScvBytes "byte list" | ScvString string | ScvAddress string
  | ScvVec "scval list" | ScvMap "(scval \<times> scval) list"

text \<open>\<open>nativeToScVal(v, { type: t })\<close>\<close>

type_synonym native_to_scval = "jval \<Rightarrow> string \<Rightarrow> scval js"

definition U32_MAX :: int where "U32_MAX = 4294967295"
definition U64_MAX :: int where "U64_MAX = 2 ^ 64 - 1"
definition I128_MIN :: int where "I128_MIN = - (2 ^ 127)"
definition I128_MAX :: int where "I128_MAX = 2 ^ 127 - 1"

definition scAddr :: "native_to_scval \<Rightarrow> string \<Rightarrow> scval js" where
  "scAddr n2s a = n2s (JStr a) ''address''"

definition scStr :: "native_to_scval \<Rightarrow> jval \<Rightarrow> scval js" where
  "scStr n2s s = n2s (JStr (js_String s)) ''string''"

definition scU64 :: "native_to_scval \<Rightarrow> jval \<Rightarrow> scval js" where
  "scU64 n2s n =
     bindR (js_integer n ''u64'') (\<lambda>value.
       if value < 0 \<or> U64_MAX < value then Inl (RangeError ''u64 is out of range'')
       else n2s (JBig value) ''u64'')"

definition scU32 :: "native_to_scval \<Rightarrow> jval \<Rightarrow> scval js" where
  "scU32 n2s n =
     bindR (js_integer n ''u32'') (\<lambda>value.
       if value < 0 \<or> U32_MAX < value then Inl (RangeError ''u32 is out of range'')
       else n2s (JNum (js_Number (JBig value))) ''u32'')"

definition scI128 :: "native_to_scval \<Rightarrow> jval \<Rightarrow> scval js" where
  "scI128 n2s n =
     bindR (js_integer n ''i128'') (\<lambda>value.
       if value < I128_MIN \<or> I128_MAX < value then Inl (RangeError ''i128 is out of range'')
       else n2s (JBig value) ''i128'')"

definition scBytes32 :: "native_to_scval \<Rightarrow> jval \<Rightarrow> scval js" where
  "scBytes32 n2s hex = bindR (hexToBytes hex) (\<lambda>bs. n2s (JBytes bs) ''bytes'')"

definition scVecStr :: "native_to_scval \<Rightarrow> string list \<Rightarrow> scval js" where
  "scVecStr n2s arr = bindR (mapR (\<lambda>c. scStr n2s (JStr c)) arr) (\<lambda>vs. Inr (ScvVec vs))"

definition scVecU64 :: "native_to_scval \<Rightarrow> jval list \<Rightarrow> scval js" where
  "scVecU64 n2s arr = bindR (mapR (scU64 n2s) arr) (\<lambda>vs. Inr (ScvVec vs))"

definition scOptAddr :: "native_to_scval \<Rightarrow> string option \<Rightarrow> scval js" where
  "scOptAddr n2s a =
     (case a of Some (c # s) \<Rightarrow> scAddr n2s (c # s) | _ \<Rightarrow> Inr ScvVoid)"

definition scMapAddrU32 :: "native_to_scval \<Rightarrow> (string \<times> jval) list \<Rightarrow> scval js" where
  "scMapAddrU32 n2s pairs =
     bindR (mapR (\<lambda>(addr, n). bindR (scAddr n2s addr) (\<lambda>k. bindR (scU32 n2s n) (\<lambda>v. Inr (k, v)))) pairs)
       (\<lambda>es. Inr (ScvMap es))"

section \<open>The redeemer commitment\<close>

definition nonce32 :: "string \<Rightarrow> bool" where \<comment> \<open>\<open>/^[0-9a-fA-F]{32}$/\<close>\<close>
  "nonce32 s \<longleftrightarrow> length s = 32 \<and> list_all hex_char s"

definition randomNonceHex :: "byte list \<Rightarrow> string" where \<comment> \<open>of the 16 random bytes drawn\<close>
  "randomNonceHex a = concat (map (\<lambda>b. padStart (radix_str 16 (uint b)) 2 (CHR ''0'')) a)"

definition redeemerCommitment ::
  "(string \<Rightarrow> byte list) \<Rightarrow> (byte list \<Rightarrow> byte list) \<Rightarrow> byte list \<Rightarrow> string \<Rightarrow> string option
   \<Rightarrow> (string \<times> byte list) js" where
  "redeemerCommitment encode sha256 random ref nonceHex =
     (case nonceHex of
        Some h \<Rightarrow>
          if \<not> nonce32 h
          then Inl (RangeError ''nonceHex must contain exactly 16 bytes (32 hex characters)'')
          else let nonce = toLowerCase h in Inr (nonce, sha256 (encode (nonce @ ''|'' @ ref)))
      | None \<Rightarrow>
          let nonce = randomNonceHex random in Inr (nonce, sha256 (encode (nonce @ ''|'' @ ref))))"

section \<open>Correctness of the codec\<close>

lemma code_dig: "0 \<le> n \<Longrightarrow> n < 16 \<Longrightarrow> char_code (dig n) = (if n < 10 then n + 48 else n + 87)"
  by (rule below_16 [of "\<lambda>n. char_code (dig n) = (if n < 10 then n + 48 else n + 87)"])
    (code_simp, simp_all)

lemma code_char_of: "0 \<le> n \<Longrightarrow> n < 256 \<Longrightarrow> char_code (char_of n) = n"
  by (simp add: char_code_def)

lemma hex_val_bounds: "hex_char c \<Longrightarrow> 0 \<le> hex_val c \<and> hex_val c < 16"
  by (auto simp: hex_char_def hex_val_def digit_def lower_hex_def upper_hex_def)

lemma dig_hex_val:
  assumes "hex_char c"
  shows "dig (hex_val c) = lower_char c"
proof -
  have "char_code (dig (hex_val c)) = (if hex_val c < 10 then hex_val c + 48 else hex_val c + 87)"
    using hex_val_bounds [OF assms] by (intro code_dig) auto
  also have "\<dots> = (if upper_hex c then char_code c + 32 else char_code c)"
    using assms by (auto simp: hex_char_def hex_val_def digit_def lower_hex_def upper_hex_def)
  also have "\<dots> = char_code (lower_char c)"
    using assms by (auto simp: hex_char_def lower_char_def digit_def lower_hex_def upper_hex_def
        code_char_of)
  finally show ?thesis by simp
qed

lemma hex_byte_of_pair:
  assumes "hex_char a" and "hex_char b"
  shows "hex_byte (word_of_int (hex_num [a, b])) = [lower_char a, lower_char b]"
proof -
  let ?v = "16 * hex_val a + hex_val b"
  have v: "0 \<le> ?v" "?v < 256" and d: "?v div 16 = hex_val a" "?v mod 16 = hex_val b"
    using hex_val_bounds [OF assms(1)] hex_val_bounds [OF assms(2)] by auto
  have "uint (word_of_int ?v :: byte) = ?v mod 256" by (subst uint_word_of_int) simp
  also have "\<dots> = ?v" using v by (rule mod_pos_pos_trivial)
  finally show ?thesis
    using d dig_hex_val [OF assms(1)] dig_hex_val [OF assms(2)]
    by (simp add: hex_byte_digits hex_num_def)
qed

lemma hex_of_hex_pairs:
  "even (length s) \<Longrightarrow> list_all hex_char s \<Longrightarrow> hex_of_bytes (hex_pairs s) = toLowerCase s"
  by (induction s rule: hex_pairs.induct)
    (auto simp: hex_of_bytes_def toLowerCase_def hex_byte_of_pair)

lemma hex_of_bytes_inject: "hex_of_bytes bs = hex_of_bytes cs \<longleftrightarrow> bs = cs"
  by (metis hex_pairs_hex_of_bytes)

lemma hexToBytes_str:
  "hexToBytes (JStr s) =
     (if hex64 (strip_0x s) then Inr (hex_pairs (strip_0x s))
      else Inl (Error ''Expected a 32-byte hex value.''))"
  by (cases s) (simp_all add: hexToBytes_def js_or_def)

text \<open>
  C12 (roundtrip). \<open>hexToBytes\<close> and \<open>bytesToHex\<close> are inverse: a text is accepted exactly when,
  after an optional \<open>0x\<close>, it is 64 hexadecimal digits, and the bytes it gives are exactly the
  ones that print back as the same digits in lower case; every 32 bytes are reached, by their
  own print-out.
\<close>

theorem hexToBytes_bytesToHex:
  "(hexToBytes (JStr s) = Inr bs \<longleftrightarrow>
      hex64 (strip_0x s) \<and> bytesToHex (JBytes bs) = Inr (toLowerCase (strip_0x s))) \<and>
   (length bs = 32 \<longleftrightarrow> bindR (bytesToHex (JBytes bs)) (\<lambda>h. hexToBytes (JStr h)) = Inr bs)"
proof (intro conjI)
  have "hex_of_bytes (hex_pairs (strip_0x s)) = toLowerCase (strip_0x s)" if "hex64 (strip_0x s)"
    using that hex_of_hex_pairs by (simp add: hex64_def)
  then show "hexToBytes (JStr s) = Inr bs \<longleftrightarrow>
      hex64 (strip_0x s) \<and> bytesToHex (JBytes bs) = Inr (toLowerCase (strip_0x s))"
    by (auto simp: hexToBytes_str bytesToHex_def) (metis hex_of_bytes_inject)
  have "strip_0x (hex_of_bytes bs) = hex_of_bytes bs"
    by (rule strip_0x_hex) (auto simp: list_all_iff dest: hex_of_bytes_chars)
  then show "length bs = 32 \<longleftrightarrow> bindR (bytesToHex (JBytes bs)) (\<lambda>h. hexToBytes (JStr h)) = Inr bs"
    using hex64_hex_of_bytes [of bs] by (auto simp: bytesToHex_def hexToBytes_str hex64_def)
qed

lemma js_integer_big [simp]: "js_integer (JBig n) lab = Inr n"
  by (simp add: js_integer_def)

lemma js_integer_int_str [simp]: "js_integer (JStr (int_str n)) lab = Inr n"
  by (simp add: js_integer_def)

lemma js_integer_num [simp]: "\<bar>n\<bar> < 2 ^ 53 \<Longrightarrow> js_integer (JNum (Fin (of_int n))) lab = Inr n"
proof -
  assume "\<bar>n\<bar> < 2 ^ 53"
  then have "num_str (Fin (of_int n)) = int_str n" by (rule num_str_of_int)
  then show ?thesis by (simp add: js_integer_def del: num_str.simps)
qed

text \<open>
  C13 (bounds). The \<open>u64\<close>, \<open>u32\<close> and \<open>i128\<close> encoders hand the Stellar SDK exactly the integer
  they were given, whether it came as a bigint or as its decimal text, when it fits the width,
  and reject every other integer with a \<open>RangeError\<close> before the SDK is called.
\<close>

theorem encoders_exact:
  "v = JBig n \<or> v = JStr (int_str n) \<Longrightarrow>
   scU64 n2s v = (if 0 \<le> n \<and> n < 2 ^ 64 then n2s (JBig n) ''u64''
                  else Inl (RangeError ''u64 is out of range'')) \<and>
   scU32 n2s v = (if 0 \<le> n \<and> n < 2 ^ 32 then n2s (JNum (Fin (of_int n))) ''u32''
                  else Inl (RangeError ''u32 is out of range'')) \<and>
   scI128 n2s v = (if - (2 ^ 127) \<le> n \<and> n < 2 ^ 127 then n2s (JBig n) ''i128''
                   else Inl (RangeError ''i128 is out of range''))"
  by (auto simp: scU64_def scU32_def scI128_def U64_MAX_def U32_MAX_def I128_MIN_def I128_MAX_def
      to_double_of_int)

theorem encoders_exact_witness:
  "scU64 (\<lambda>v t. Inr (ScvU64 7)) (JStr (int_str 18446744073709551616)) =
     Inl (RangeError ''u64 is out of range'') \<and>
   scI128 (\<lambda>v t. Inr (ScvI128 7)) (JStr (int_str 18446744073709551616)) = Inr (ScvI128 7)"
  using encoders_exact [of "JStr (int_str 18446744073709551616)" 18446744073709551616
      "\<lambda>v t. Inr (ScvU64 7)"]
    encoders_exact [of "JStr (int_str 18446744073709551616)" 18446744073709551616
      "\<lambda>v t. Inr (ScvI128 7)"]
  by simp

text \<open>
  C14 (bounds). \<open>safeNumber\<close> returns a Number only for an integer of absolute value below
  \<open>2 ^ 53\<close>, and then the Number is that integer: no digit of an id, a value or a timestamp
  read from the chain is ever lost silently.
\<close>

theorem safeNumber_exact:
  "safeNumber v lab = Inr x \<longleftrightarrow>
     (\<exists>n. js_integer v lab = Inr n \<and> \<bar>n\<bar> < 2 ^ 53 \<and> x = Fin (of_int n))"
proof (cases "js_integer v lab")
  case (Inr n)
  show ?thesis
  proof (cases "\<bar>n\<bar> < 2 ^ 53")
    case True
    then have "\<not> (n < - 9007199254740991 \<or> 9007199254740991 < n)" by simp linarith
    with True Inr show ?thesis by (auto simp: safeNumber_def to_double_of_int)
  next
    case False
    then have "n < - 9007199254740991 \<or> 9007199254740991 < n" by simp linarith
    with False Inr show ?thesis by (auto simp: safeNumber_def)
  qed
qed (simp add: safeNumber_def)


section \<open>Errors and commitments\<close>

lemma length_startsWith: "startsWith s p \<Longrightarrow> length p \<le> length s"
  by (metis length_take min.cobounded1 startsWith_def)

lemma startsWith_append: "length p \<le> length s \<Longrightarrow> startsWith (s @ t) p = startsWith s p"
  by (simp add: startsWith_def)

lemma str_includes_startsWith: "startsWith s p \<Longrightarrow> str_includes s p"
  by (cases s) (auto simp: startsWith_def)

text \<open>
  The prefix the error pattern starts with cannot overlap itself, so text in front of an error
  can neither hide it nor take its code.
\<close>

lemma no_straddle:
  assumes "s \<noteq> []" and "length s < 15" and "startsWith (s @ CHR ''E'' # t) ''Error(Contract,''"
  shows False
proof -
  have "length ''Error(Contract,'' = 15" by simp
  with assms(3) have "take 15 (s @ CHR ''E'' # t) = ''Error(Contract,''"
    by (simp only: startsWith_def)
  then have "(s @ CHR ''E'' # t) ! length s = ''Error(Contract,'' ! length s"
    using assms(2) by (metis nth_take)
  then have E: "''Error(Contract,'' ! length s = CHR ''E''" by simp
  have "length s \<in> {1..<15}" using assms(1,2) by (cases s) auto
  moreover have "\<forall>i\<in>{1..<15}. ''Error(Contract,'' ! i \<noteq> CHR ''E''" by code_simp
  ultimately show False using E by blast
qed

lemma code_search_skip:
  assumes "\<not> str_includes pre ''Error(Contract,''"
  shows "code_search (pre @ CHR ''E'' # t) = code_search (CHR ''E'' # t)"
  using assms
proof (induction pre)
  case (Cons c pre)
  have "\<not> startsWith ((c # pre) @ CHR ''E'' # t) ''Error(Contract,''"
  proof
    assume st: "startsWith ((c # pre) @ CHR ''E'' # t) ''Error(Contract,''"
    show False
    proof (cases "length (c # pre) < 15")
      case True
      with st no_straddle show False by blast
    next
      case False
      then have "startsWith (c # pre) ''Error(Contract,''"
        using st startsWith_append [of "''Error(Contract,''" "c # pre"] by simp
      then have "str_includes (c # pre) ''Error(Contract,''" by (rule str_includes_startsWith)
      with Cons.prems show False by blast
    qed
  qed
  then have "code_at (c # pre @ CHR ''E'' # t) = None" by (simp add: code_at_def)
  with Cons show ?case by simp
qed simp

lemma paren_not_digit: "\<not> digit (CHR '')'')"
  by (simp add: char_classes)

lemma hash_not_ws: "\<not> ws (CHR ''#'')"
  by (simp add: char_classes)

lemma code_at_error:
  assumes "all_digits d" and "list_all ws w"
  shows "code_at (''Error(Contract,'' @ w @ ''#'' @ d @ '')'' @ post) = Some d"
proof -
  have "dropWhile ws (w @ ''#'' @ d @ '')'' @ post) = ''#'' @ d @ '')'' @ post"
    using assms(2) hash_not_ws by (induction w) auto
  moreover have "takeWhile digit (d @ '')'' @ post) = d"
    using assms(1) paren_not_digit
    by (simp add: all_digits_def list_all_iff takeWhile_append2)
  moreover have "dropWhile digit (d @ '')'' @ post) = '')'' @ post"
    using assms(1) paren_not_digit
    by (simp add: all_digits_def list_all_iff dropWhile_append2)
  ultimately show ?thesis
    using assms(1) by (simp add: code_at_def startsWith_def all_digits_def)
qed

lemma contractErrorCode_text:
  assumes "\<not> str_includes pre ''Error(Contract,''" and "list_all ws w" and "0 \<le> n" and "n < 2 ^ 53"
  shows "contractErrorCode (RawStr (pre @ ''Error(Contract,'' @ w @ ''#'' @ dec n @ '')'' @ post)) =
    Some (Fin (of_int n))"
proof -
  let ?e = "''Error(Contract,'' @ w @ ''#'' @ dec n @ '')'' @ post"
  have "code_at ?e = Some (dec n)" using assms(2,3) by (intro code_at_error) simp_all
  then have "code_search ?e = Some (dec n)" by simp
  then have "code_search (pre @ ?e) = Some (dec n)"
    using code_search_skip [OF assms(1)] by simp
  moreover have "to_number (dec n) = Fin (of_int n)"
    using to_number_int_str [of n] assms(3,4) by (simp add: int_str_def)
  ultimately show ?thesis by (simp add: contractErrorCode_def)
qed

text \<open>
  C10 (error). The code the contract panicked with is the code the caller sees: whatever host
  text surrounds the first \<open>Error(Contract, #n)\<close> of a failure, the error \<open>contractErr\<close> throws
  keeps the whole text as its message and \<open>n\<close> as its \<open>contractCode\<close>, from a bare string and
  from an error's message alike.
\<close>

theorem contractErr_carries_code:
  "\<not> str_includes pre ''Error(Contract,'' \<Longrightarrow> list_all ws w \<Longrightarrow> 0 \<le> n \<Longrightarrow> n < 2 ^ 32 \<Longrightarrow>
   s = pre @ ''Error(Contract,'' @ w @ ''#'' @ dec n @ '')'' @ post \<Longrightarrow>
   r = RawStr s \<or> r = RawObj (Some s) json \<Longrightarrow>
   e_contractCode (contractErr r) = Some (Fin (of_int n)) \<and> e_message (contractErr r) = s"
  using contractErrorCode_text [of pre w n post]
  by (elim disjE) (simp_all add: contractErr_def Error_def)

theorem contractErr_carries_code_witness:
  "e_contractCode (contractErr (RawStr (''HostError: '' @ ''Error(Contract,'' @ '' '' @ ''#''
     @ dec 3 @ '')'' @ '' (Error(Contract, #99))''))) = Some (Fin (of_int 3))"
proof -
  have "list_all ws '' ''" by (simp add: char_classes)
  moreover have "\<not> str_includes ''HostError: '' ''Error(Contract,''" by code_simp
  ultimately show ?thesis
    using contractErr_carries_code [of "''HostError: ''" "'' ''" 3 _ "'' (Error(Contract, #99))''"
      _ "[]"] by simp
qed

lemma randomNonceHex_eq: "randomNonceHex a = hex_of_bytes a"
  by (simp add: randomNonceHex_def hex_of_bytes_def hex_byte_def [abs_def])

lemma length_randomNonceHex [simp]: "length (randomNonceHex a) = 2 * length a"
  by (simp add: randomNonceHex_eq)

lemma randomNonceHex_chars: "c \<in> set (randomNonceHex a) \<Longrightarrow> hex_char c \<and> \<not> upper_hex c"
  using hex_of_bytes_chars [of c a] by (simp add: randomNonceHex_eq)

lemma lower_char_hex: "hex_char c \<Longrightarrow> hex_char (lower_char c) \<and> \<not> upper_hex (lower_char c)"
  using dig_hex_val [of c] hex_dig [of "hex_val c"] hex_val_bounds [of c] by simp

lemma lower_char_id: "hex_char c \<Longrightarrow> \<not> upper_hex c \<Longrightarrow> lower_char c = c"
  by (auto simp: hex_char_def lower_char_def digit_def lower_hex_def Let_def)

lemma dig_listed: "0 \<le> n \<Longrightarrow> n < 16 \<Longrightarrow> dig n \<in> set ''0123456789abcdef''"
  by (rule below_16 [of "\<lambda>n. dig n \<in> set ''0123456789abcdef''"]) (code_simp, simp_all)

lemma lower_hex_listed: "hex_char c \<Longrightarrow> \<not> upper_hex c \<Longrightarrow> c \<in> set ''0123456789abcdef''"
  using dig_listed [of "hex_val c"] hex_val_bounds [of c] by (simp add: dig_hex_val lower_char_id)

lemma redeemerCommitment_nonce:
  assumes "redeemerCommitment enc sha rnd ref nh = Inr (n, h)" and "length rnd = 16"
  shows "nonce32 n" "toLowerCase n = n" "h = sha (enc (n @ ''|'' @ ref))"
    and "length n = 32 \<and> (\<forall>c\<in>set n. c \<in> set ''0123456789abcdef'')"
    and "n = (case nh of None \<Rightarrow> hex_of_bytes rnd | Some t \<Rightarrow> toLowerCase t)"
proof -
  have n: "length n = 32 \<and> (\<forall>c\<in>set n. hex_char c \<and> \<not> upper_hex c) \<and> h = sha (enc (n @ ''|'' @ ref))"
    using assms randomNonceHex_chars lower_char_hex
    by (auto simp: redeemerCommitment_def nonce32_def toLowerCase_def Let_def list_all_iff
        split: option.splits if_splits)
  then show "nonce32 n" "h = sha (enc (n @ ''|'' @ ref))" by (simp_all add: nonce32_def list_all_iff)
  from n show "length n = 32 \<and> (\<forall>c\<in>set n. c \<in> set ''0123456789abcdef'')" using lower_hex_listed by blast
  show "n = (case nh of None \<Rightarrow> hex_of_bytes rnd | Some t \<Rightarrow> toLowerCase t)"
    using assms(1) by (auto simp: redeemerCommitment_def randomNonceHex_eq Let_def split: option.splits if_splits)
  from n show "toLowerCase n = n" by (simp add: toLowerCase_def lower_char_id map_idI)
qed

text \<open>
  C11 (safety). A redeemer commitment can be opened and opens one way only. The nonce returned
  is 32 lower-case hexadecimal digits, the caller's in lower case or the random bytes'; committing to the same reference with it, however the
  randomness falls, reproduces the digest; and the text that was hashed determines both the
  nonce and the reference, so two different openings of one digest are a collision of SHA-256
  on two known texts. \<open>encode\<close> is \<open>TextEncoder\<close>, injective on well-formed text.
\<close>

theorem redeemerCommitment_binding:
  "redeemerCommitment enc sha rnd1 ref1 nh1 = Inr (n1, h1) \<Longrightarrow>
   redeemerCommitment enc sha rnd2 ref2 nh2 = Inr (n2, h2) \<Longrightarrow>
   length rnd1 = 16 \<Longrightarrow> length rnd2 = 16 \<Longrightarrow> inj enc \<Longrightarrow>
   length n1 = 32 \<and> (\<forall>c\<in>set n1. c \<in> set ''0123456789abcdef'') \<and>
   n1 = (case nh1 of None \<Rightarrow> hex_of_bytes rnd1 | Some t \<Rightarrow> toLowerCase t) \<and>
   redeemerCommitment enc sha rnd2 ref1 (Some n1) = Inr (n1, h1) \<and>
   (\<exists>m1 m2. h1 = sha m1 \<and> h2 = sha m2 \<and> (m1 = m2 \<longleftrightarrow> n1 = n2 \<and> ref1 = ref2))"
proof -
  assume c1: "redeemerCommitment enc sha rnd1 ref1 nh1 = Inr (n1, h1)"
    and c2: "redeemerCommitment enc sha rnd2 ref2 nh2 = Inr (n2, h2)"
    and l1: "length rnd1 = 16" and l2: "length rnd2 = 16" and i: "inj enc"
  note r1 = redeemerCommitment_nonce [OF c1 l1] and r2 = redeemerCommitment_nonce [OF c2 l2]
  have "enc (n1 @ ''|'' @ ref1) = enc (n2 @ ''|'' @ ref2) \<longleftrightarrow> n1 = n2 \<and> ref1 = ref2"
    using r1(1) r2(1) by (auto simp: inj_eq [OF i] nonce32_def)
  with r1(3) r2(3) have
    "\<exists>m1 m2. h1 = sha m1 \<and> h2 = sha m2 \<and> (m1 = m2 \<longleftrightarrow> n1 = n2 \<and> ref1 = ref2)" by blast
  moreover have "redeemerCommitment enc sha rnd2 ref1 (Some n1) = Inr (n1, h1)"
    using r1(1-3) by (simp add: redeemerCommitment_def Let_def)
  ultimately show ?thesis using r1(4,5) by blast
qed

lemma inj_code_bytes: "inj (map (\<lambda>c. word_of_int (char_code c) :: byte))"
proof (rule inj_mapI, rule injI)
  fix c d :: char
  assume "(word_of_int (char_code c) :: byte) = word_of_int (char_code d)"
  then have "uint (word_of_int (char_code c) :: byte) = uint (word_of_int (char_code d) :: byte)" by simp
  then have "char_code c mod 256 = char_code d mod 256" by (simp add: uint_word_of_int)
  then have "char_code c = char_code d" by (simp add: char_code_def)
  then show "c = d" by simp
qed

theorem redeemerCommitment_binding_witness:
  "\<exists>h. redeemerCommitment (map (\<lambda>c. word_of_int (char_code c))) rev (replicate 16 1) ''order-7''
      (Some (replicate 32 (CHR ''a''))) = Inr (replicate 32 (CHR ''a''), h)"
proof -
  let ?enc = "map (\<lambda>c. word_of_int (char_code c) :: byte)"
  let ?n = "replicate 32 (CHR ''A'')"
  have n: "nonce32 ?n" by (simp add: nonce32_def list_all_iff char_classes)
  have "lower_char (CHR ''A'') = CHR ''a''" by code_simp
  then have "toLowerCase ?n = replicate 32 (CHR ''a'')" by (simp add: toLowerCase_def)
  with n obtain h where h: "redeemerCommitment ?enc rev (replicate 16 0) ''order-7'' (Some ?n)
      = Inr (replicate 32 (CHR ''a''), h)"
    by (simp add: redeemerCommitment_def Let_def)
  obtain n2 h2 where "redeemerCommitment ?enc rev (replicate 16 1) ''order-8'' None = Inr (n2, h2)"
    by (simp add: redeemerCommitment_def Let_def)
  from redeemerCommitment_binding [OF h this _ _ inj_code_bytes] show ?thesis by auto
qed

end
