(* ===== verification/Sdk_Client.thy ===== *)
theory Sdk_Client
  imports "HOL-Library.Sublist" Js_Io Sdk_Codec
begin

text \<open>
  The effectful part of the SDK: \<open>freighterClient\<close> of \<open>sdk/ts/src/browser.ts\<close> and
  \<open>approveSettlement\<close> of \<open>sdk/ts/src/helpers.ts\<close>.

  The pure functions of the Stellar SDK are the fields of a record \<open>stellar\<close>; the RPC server,
  the Freighter extension, \<open>fetch\<close> and the timer are the fields of a record \<open>env\<close> over the
  state \<open>'w\<close> of the outside world, each of which may throw. Every such call is appended to a
  trace, so that theorems speak of what was asked of the outside and in which order.
\<close>

section \<open>The outside\<close>

record account =
  acc_id :: string
  acc_seq :: string

record tx = \<comment> \<open>what a \<open>TransactionBuilder\<close> is given\<close>
  tx_source :: account
  tx_fee :: string
  tx_passphrase :: string
  tx_contract :: string
  tx_method :: string
  tx_args :: "scval list"
  tx_timeout :: int

text \<open>A transaction: as built, assembled with a simulation, or read from a signed XDR.\<close>

datatype txn = Built tx | Xdr string

datatype sim = SimError raw | SimOk "scval option"

record sent =
  sent_status :: string
  sent_hash :: string
  sent_error :: string \<comment> \<open>\<open>JSON.stringify(sent.errorResult || sent)\<close>\<close>

record got =
  got_status :: string
  got_returnValue :: "scval option"
  got_ledger :: jval
  got_resultXdr :: "string js option" \<comment> \<open>absent, or what \<open>toXDR("base64")\<close> does\<close>

record response = \<comment> \<open>of \<open>fetch\<close>\<close>
  resp_ok :: bool
  resp_json :: "jval js"

record stellar =
  nativeToScVal :: native_to_scval
  scValToNative :: "scval \<Rightarrow> jval js"
  newAccount :: "string \<Rightarrow> string \<Rightarrow> account js"
  newContract :: "string \<Rightarrow> string js"
  assembleTransaction :: "txn \<Rightarrow> sim \<Rightarrow> txn js"
  toXDR :: "txn \<Rightarrow> string"
  fromXDR :: "jval \<Rightarrow> string \<Rightarrow> txn js"
  signWith :: "string \<Rightarrow> txn \<Rightarrow> txn js" \<comment> \<open>\<open>prepared.sign(kp)\<close>, by the secret\<close>
  keypairOf :: "string \<Rightarrow> string js" \<comment> \<open>\<open>Keypair.fromSecret(s).publicKey()\<close>\<close>
  localeNumber :: "jnum \<Rightarrow> string" \<comment> \<open>\<open>toLocaleString\<close> with two decimals at most\<close>
  base_fee :: string

datatype call = LoadFreighter | GetAccount string | Simulate txn
  | SignTransaction string string string \<comment> \<open>the XDR, the passphrase and the address\<close>
  | SendTransaction txn | GetTransaction string | Sleep int
  | IsConnected | RequestAccess | GetAddress | GetNetworkDetails | GetNetwork
  | Fetch string | GetLatestLedger | PrepareTransaction txn

record 'w env =
  e_loadFreighter :: "'w \<Rightarrow> unit js \<times> 'w"
  e_getAccount :: "string \<Rightarrow> 'w \<Rightarrow> account js \<times> 'w"
  e_simulate :: "txn \<Rightarrow> 'w \<Rightarrow> sim js \<times> 'w"
  e_signTransaction :: "string \<Rightarrow> string \<Rightarrow> string \<Rightarrow> 'w \<Rightarrow> jval js \<times> 'w"
  e_sendTransaction :: "txn \<Rightarrow> 'w \<Rightarrow> sent js \<times> 'w"
  e_getTransaction :: "string \<Rightarrow> 'w \<Rightarrow> got js \<times> 'w"
  e_sleep :: "int \<Rightarrow> 'w \<Rightarrow> 'w"
  e_isConnected :: "'w \<Rightarrow> jval js \<times> 'w"
  e_requestAccess :: "'w \<Rightarrow> jval js \<times> 'w"
  e_getAddress :: "'w \<Rightarrow> jval js \<times> 'w"
  e_getNetworkDetails :: "('w \<Rightarrow> jval js \<times> 'w) option"
  e_getNetwork :: "'w \<Rightarrow> jval js \<times> 'w"
  e_fetch :: "string \<Rightarrow> 'w \<Rightarrow> response js \<times> 'w"
  e_getLatestLedger :: "'w \<Rightarrow> jnum js \<times> 'w"
  e_prepareTransaction :: "txn \<Rightarrow> 'w \<Rightarrow> txn js \<times> 'w"

text \<open>The state of a run: the outside world and the calls made so far.\<close>

type_synonym 'w run = "'w \<times> call list"

definition ask :: "call \<Rightarrow> ('w \<Rightarrow> 'a js \<times> 'w) \<Rightarrow> ('w run, 'a) io" where
  "ask c f = (\<lambda>(w, tr). case f w of (r, w') \<Rightarrow> (r, (w', tr @ [c])))"

definition sleep :: "'w env \<Rightarrow> int \<Rightarrow> ('w run, unit) io" where
  "sleep E ms = ask (Sleep ms) (\<lambda>w. (Inr (), e_sleep E ms w))"

definition getTransaction :: "'w env \<Rightarrow> string \<Rightarrow> ('w run, got) io" where
  "getTransaction E h = ask (GetTransaction h) (e_getTransaction E h)"

record config =
  contractId :: string
  rpcUrl :: string
  networkPassphrase :: string
  readSource :: string
  horizonUrl :: "string option"

section \<open>Reads\<close>

definition readAt ::
  "stellar \<Rightarrow> 'w env \<Rightarrow> config \<Rightarrow> string \<Rightarrow> string \<Rightarrow> scval list \<Rightarrow> ('w run, scval option) io" where
  "readAt S E cfg cid method args =
     bindIO (liftIO (newAccount S (readSource cfg) ''0'')) (\<lambda>source.
     bindIO (liftIO (newContract S cid)) (\<lambda>contract.
     let tx = Built \<lparr>tx_source = source, tx_fee = base_fee S,
                     tx_passphrase = networkPassphrase cfg, tx_contract = contract,
                     tx_method = method, tx_args = args, tx_timeout = 60\<rparr>
     in bindIO (ask (Simulate tx) (e_simulate E tx)) (\<lambda>sim.
        case sim of
          SimError r \<Rightarrow> throwIO (contractErr r)
        | SimOk retval \<Rightarrow> returnIO retval)))"

definition sdk_read ::
  "stellar \<Rightarrow> 'w env \<Rightarrow> config \<Rightarrow> string \<Rightarrow> scval list \<Rightarrow> ('w run, scval option) io" where
  "sdk_read S E cfg method args = readAt S E cfg (contractId cfg) method args"

definition toNative :: "stellar \<Rightarrow> scval option \<Rightarrow> jval js" where
  "toNative S scv = (case scv of None \<Rightarrow> Inr JNull | Some v \<Rightarrow> scValToNative S v)"

section \<open>Writes\<close>

function wait_loop :: "'w env \<Rightarrow> string \<Rightarrow> got \<Rightarrow> nat \<Rightarrow> ('w run, got) io" where
  "wait_loop E hash res tries =
     (if got_status res = ''NOT_FOUND'' \<and> tries < 20 then
        bindIO (sleep E 900) (\<lambda>_.
        bindIO (getTransaction E hash) (\<lambda>res'. wait_loop E hash res' (tries + 1)))
      else returnIO res)"
  by pat_completeness auto
termination by (relation "measure (\<lambda>(E, hash, res, tries). 20 - tries)") auto

declare wait_loop.simps [simp del]

definition waitForTx :: "'w env \<Rightarrow> string \<Rightarrow> ('w run, got) io" where
  "waitForTx E hash = bindIO (getTransaction E hash) (\<lambda>res. wait_loop E hash res 0)"

record written =
  w_retval :: "scval option"
  w_tx :: string
  w_seq :: jval

text \<open>
  The wallet's answer: an object with an \<open>error\<close> is a refusal, whose message is that of the
  error or its text; a string is the signed XDR, otherwise it is \<open>signed.signedTxXdr\<close>.
\<close>

definition sign_error :: "jval \<Rightarrow> jserr option" where
  "sign_error reply =
     (case (if truthy reply then field reply ''error'' else Inr JUndef) of
        Inl _ \<Rightarrow> None
      | Inr err \<Rightarrow>
          if \<not> truthy err then None
          else Some (with_sd
                 (Error (js_String (case field err ''message'' of
                            Inr m \<Rightarrow> js_or m err | Inl _ \<Rightarrow> err)))
                 ''Signing cancelled'' ''The transaction was not signed in Freighter.'' Dash))"

definition signed_xdr :: "jval \<Rightarrow> jval js" where
  "signed_xdr reply =
     (case reply of JStr s \<Rightarrow> Inr (JStr s) | _ \<Rightarrow> field reply ''signedTxXdr'')"

definition failed_detail :: "got \<Rightarrow> string" where
  "failed_detail got =
     (case got_resultXdr got of Some (Inr b64) \<Rightarrow> b64 | _ \<Rightarrow> ''Transaction failed on-chain.'')"

text \<open>\<open>writeAt\<close> in its three stretches: prepare (simulate and assemble), sign, and send and confirm.\<close>

definition prepare ::
  "stellar \<Rightarrow> 'w env \<Rightarrow> config \<Rightarrow> string \<Rightarrow> string \<Rightarrow> string \<Rightarrow> scval list \<Rightarrow> ('w run, txn) io" where
  "prepare S E cfg from cid method args =
     bindIO (ask (GetAccount from) (e_getAccount E from)) (\<lambda>source.
     bindIO (liftIO (newContract S cid)) (\<lambda>contract.
     let built = Built \<lparr>tx_source = source, tx_fee = base_fee S,
                        tx_passphrase = networkPassphrase cfg, tx_contract = contract,
                        tx_method = method, tx_args = args, tx_timeout = 60\<rparr>
     in bindIO (ask (Simulate built) (e_simulate E built)) (\<lambda>sim.
     case sim of
       SimError r \<Rightarrow> throwIO (contractErr r)
     | SimOk _ \<Rightarrow> liftIO (assembleTransaction S built sim))))"

definition sign_prepared ::
  "stellar \<Rightarrow> 'w env \<Rightarrow> config \<Rightarrow> string \<Rightarrow> txn \<Rightarrow> ('w run, txn) io" where
  "sign_prepared S E cfg from prepared =
     bindIO (ask (SignTransaction (toXDR S prepared) (networkPassphrase cfg) from)
               (e_signTransaction E (toXDR S prepared) (networkPassphrase cfg) from)) (\<lambda>reply.
     case sign_error reply of
       Some e \<Rightarrow> throwIO e
     | None \<Rightarrow>
         bindIO (liftIO (signed_xdr reply)) (\<lambda>xdr.
         liftIO (fromXDR S xdr (networkPassphrase cfg))))"

definition submit :: "'w env \<Rightarrow> txn \<Rightarrow> ('w run, written) io" where
  "submit E signedTx =
     bindIO (ask (SendTransaction signedTx) (e_sendTransaction E signedTx)) (\<lambda>sent.
     if sent_status sent = ''ERROR'' then throwIO (contractErr (RawStr (sent_error sent)))
     else
     bindIO (waitForTx E (sent_hash sent)) (\<lambda>got.
     if got_status got \<noteq> ''SUCCESS'' then throwIO (contractErr (RawStr (failed_detail got)))
     else returnIO \<lparr>w_retval = got_returnValue got, w_tx = sent_hash sent,
                     w_seq = got_ledger got\<rparr>))"

definition writeAt ::
  "stellar \<Rightarrow> 'w env \<Rightarrow> config \<Rightarrow> string \<Rightarrow> string \<Rightarrow> string \<Rightarrow> scval list \<Rightarrow> ('w run, written) io"
  where
  "writeAt S E cfg from cid method args =
     bindIO (ask LoadFreighter (e_loadFreighter E)) (\<lambda>_.
     bindIO (prepare S E cfg from cid method args) (\<lambda>prepared.
     bindIO (sign_prepared S E cfg from prepared) (\<lambda>signedTx.
     submit E signedTx)))"

definition sdk_write ::
  "stellar \<Rightarrow> 'w env \<Rightarrow> config \<Rightarrow> string \<Rightarrow> string \<Rightarrow> scval list \<Rightarrow> ('w run, written) io" where
  "sdk_write S E cfg from method args = writeAt S E cfg from (contractId cfg) method args"

section \<open>The wallet\<close>

fun find_native :: "jval list \<Rightarrow> jval js" where
  \<comment> \<open>\<open>bs.find((b) => b.asset_type === "native")\<close>\<close>
  "find_native [] = Inr JUndef"
| "find_native (b # bs) =
     bindR (field b ''asset_type'') (\<lambda>t. if t = JStr ''native'' then Inr b else find_native bs)"

definition getBalance :: "stellar \<Rightarrow> 'w env \<Rightarrow> config \<Rightarrow> string \<Rightarrow> ('w run, string) io" where
  "getBalance S E cfg addr =
     (let horizon = (case horizonUrl cfg of
                       None \<Rightarrow> ''https://horizon-testnet.stellar.org'' | Some u \<Rightarrow> u);
          url = horizon @ ''/accounts/'' @ addr
      in bindIO (ask (Fetch url) (e_fetch E url)) (\<lambda>r.
         if \<not> resp_ok r then returnIO [CHR 0x97]
         else
           bindIO (liftIO (resp_json r)) (\<lambda>j.
           bindIO (liftIO (field j ''balances'')) (\<lambda>bs.
           case js_or bs (JArr []) of
             JArr vs \<Rightarrow>
               bindIO (liftIO (find_native vs)) (\<lambda>n.
               if truthy n
               then bindIO (liftIO (field n ''balance'')) (\<lambda>v. returnIO (localeNumber S (js_Number v)))
               else returnIO [CHR 0x97])
           | _ \<Rightarrow> throwIO (TypeError ''find is not a function'')))))"

record wallet =
  wal_address :: jval
  wal_balance :: string

definition not_installed :: jserr where
  "not_installed = with_sd (Error ''freighter-missing'') ''Freighter not found''
     (''Install the Freighter browser extension to sign transactions. ''
      @ ''You can still use public read calls like verify().'') Dash"

definition wrong_network :: jserr where
  "wrong_network = with_sd (Error ''wrong-network'') ''Wrong network''
     ''Switch Freighter to the Testnet network, then reconnect.'' Dash"

definition prop_if :: "jval \<Rightarrow> string \<Rightarrow> jval js" where \<comment> \<open>\<open>v && v.k\<close>\<close>
  "prop_if v k = (if truthy v then field v k else Inr v)"

definition check_network :: "'w env \<Rightarrow> config \<Rightarrow> ('w run, unit) io" where
  "check_network E cfg =
     catchIO
       (bindIO (case e_getNetworkDetails E of
                  Some f \<Rightarrow> ask GetNetworkDetails f
                | None \<Rightarrow> ask GetNetwork (e_getNetwork E)) (\<lambda>details.
        bindIO (liftIO (prop_if details ''networkPassphrase'')) (\<lambda>p.
        bindIO (if truthy p then returnIO p else liftIO (prop_if details ''network'')) (\<lambda>q.
        let pp = js_or q (JStr []) in
        if truthy pp \<and> pp \<noteq> JStr (networkPassphrase cfg) then throwIO wrong_network
        else returnIO ()))))
       (\<lambda>e. if e_sd e \<noteq> None then throwIO e else returnIO ())"

definition connectWallet :: "stellar \<Rightarrow> 'w env \<Rightarrow> config \<Rightarrow> ('w run, wallet) io" where
  "connectWallet S E cfg =
     bindIO (ask LoadFreighter (e_loadFreighter E)) (\<lambda>_.
     bindIO (catchIO (ask IsConnected (e_isConnected E)) (\<lambda>_. returnIO (JBool False))) (\<lambda>conn.
     bindIO (if conn = JBool True then returnIO (JBool True)
             else liftIO (prop_if conn ''isConnected'')) (\<lambda>installed.
     if \<not> truthy installed then throwIO not_installed
     else
     bindIO (ask RequestAccess (e_requestAccess E)) (\<lambda>access.
     bindIO (liftIO (prop_if access ''error'')) (\<lambda>err.
     if truthy access \<and> truthy err then
       throwIO (with_sd (Error (js_String err)) ''Connection rejected''
                  ''Freighter access was not granted.'' Dash)
     else
     bindIO (liftIO (prop_if access ''address'')) (\<lambda>a.
     bindIO (if truthy a then returnIO a
             else bindIO (ask GetAddress (e_getAddress E)) (\<lambda>g.
                    liftIO (field (js_or g (JObj [])) ''address''))) (\<lambda>address.
     if \<not> truthy address then
       throwIO (with_sd (Error ''no-address'') ''No account''
                  ''Could not read an address from Freighter.'' Dash)
     else
     bindIO (check_network E cfg) (\<lambda>_.
     bindIO (catchIO (getBalance S E cfg (js_String address)) (\<lambda>_. returnIO [CHR 0x97])) (\<lambda>balance.
     returnIO \<lparr>wal_address = address, wal_balance = balance\<rparr>)))))))))"


section \<open>The contract's methods\<close>

text \<open>A read of a contract method with encoded arguments, as a native value.\<close>

definition native_read ::
  "stellar \<Rightarrow> 'w env \<Rightarrow> config \<Rightarrow> string \<Rightarrow> scval list js \<Rightarrow> ('w run, jval) io" where
  "native_read S E cfg method args =
     bindIO (liftIO args) (\<lambda>vs. bindIO (sdk_read S E cfg method vs) (\<lambda>r. liftIO (toNative S r)))"

definition encoded_write ::
  "stellar \<Rightarrow> 'w env \<Rightarrow> config \<Rightarrow> string \<Rightarrow> string \<Rightarrow> scval list js \<Rightarrow> ('w run, written) io" where
  "encoded_write S E cfg from method args =
     bindIO (liftIO args) (\<lambda>vs. sdk_write S E cfg from method vs)"

text \<open>An argument list \<open>[a, b, ...]\<close>, evaluated from left to right.\<close>

definition args_of :: "scval js list \<Rightarrow> scval list js" where
  "args_of rs = mapR (\<lambda>r. r) rs"

definition id_list :: "jval \<Rightarrow> jnum list js" where
  \<comment> \<open>\<open>(ids || []).map((id) => safeNumber(id, "campaign id"))\<close>\<close>
  "id_list ids =
     (case js_or ids (JArr []) of
        JArr vs \<Rightarrow> mapR (\<lambda>v. safeNumber v ''campaign id'') vs
      | _ \<Rightarrow> Inl (TypeError ''map is not a function''))"

definition campaignsOf ::
  "stellar \<Rightarrow> 'w env \<Rightarrow> config \<Rightarrow> string \<Rightarrow> ('w run, jnum list) io" where
  "campaignsOf S E cfg owner =
     bindIO (native_read S E cfg ''campaigns_of'' (args_of [scAddr (nativeToScVal S) owner]))
       (\<lambda>ids. liftIO (id_list ids))"

definition campaignsPage ::
  "stellar \<Rightarrow> 'w env \<Rightarrow> config \<Rightarrow> string \<Rightarrow> jval \<Rightarrow> jval option \<Rightarrow> ('w run, jnum list) io" where
  "campaignsPage S E cfg owner cursor maxn =
     (let n2s = nativeToScVal S; l = (case maxn of None \<Rightarrow> JNum (Fin 100) | Some v \<Rightarrow> v)
      in bindIO (native_read S E cfg ''campaigns_page''
                   (args_of [scAddr n2s owner, scU64 n2s cursor, scU32 n2s l]))
           (\<lambda>ids. liftIO (id_list ids)))"

record campaign_info =
  ci_id :: jnum
  ci_owner :: jval
  ci_name :: jval
  ci_discount_type :: jval
  ci_discount_value :: jnum
  ci_total_supply :: jnum
  ci_minted :: jnum
  ci_burned :: jnum
  ci_valid_until :: jnum

definition campaign_of_native :: "jval \<Rightarrow> campaign_info js" where
  "campaign_of_native c =
     bindR (bindR (field c ''id'') (\<lambda>v. safeNumber v ''campaign id'')) (\<lambda>id'.
     bindR (field c ''owner'') (\<lambda>owner.
     bindR (field c ''name'') (\<lambda>name.
     bindR (field c ''discount_type'') (\<lambda>dtype.
     bindR (bindR (field c ''discount_value'') (\<lambda>v. safeNumber v ''discount value'')) (\<lambda>dvalue.
     bindR (field c ''total_supply'') (\<lambda>supply.
     bindR (field c ''minted'') (\<lambda>minted.
     bindR (field c ''burned'') (\<lambda>burned.
     bindR (bindR (field c ''valid_until'') (\<lambda>v. safeNumber v ''valid_until'')) (\<lambda>until.
     Inr \<lparr>ci_id = id', ci_owner = owner, ci_name = name, ci_discount_type = dtype,
          ci_discount_value = dvalue, ci_total_supply = js_Number supply,
          ci_minted = js_Number minted, ci_burned = js_Number burned,
          ci_valid_until = until\<rparr>)))))))))"

definition getCampaign :: "stellar \<Rightarrow> 'w env \<Rightarrow> config \<Rightarrow> jval \<Rightarrow> ('w run, campaign_info) io" where
  "getCampaign S E cfg cid =
     bindIO (native_read S E cfg ''get_campaign'' (args_of [scU64 (nativeToScVal S) cid]))
       (\<lambda>c. liftIO (campaign_of_native c))"

definition registerShared ::
  "stellar \<Rightarrow> 'w env \<Rightarrow> config \<Rightarrow> string \<Rightarrow> jval \<Rightarrow> string \<Rightarrow> string option \<Rightarrow> string option
   \<Rightarrow> jval \<Rightarrow> ('w run, written) io" where
  "registerShared S E cfg from campaignId code attributedTo payoutToken payoutRate =
     (let n2s = nativeToScVal S in
      encoded_write S E cfg from ''register_shared''
        (args_of [scAddr n2s from, scU64 n2s campaignId, scStr n2s (JStr code),
           scOptAddr n2s attributedTo, scOptAddr n2s payoutToken,
           scI128 n2s (nullish_or payoutRate (JNum (Fin 0)))]))"

definition getShared :: "stellar \<Rightarrow> 'w env \<Rightarrow> config \<Rightarrow> jval \<Rightarrow> string \<Rightarrow> ('w run, jval) io" where
  "getShared S E cfg campaignId code =
     (let n2s = nativeToScVal S in
      native_read S E cfg ''get_shared'' (args_of [scU64 n2s campaignId, scStr n2s (JStr code)]))"

definition commitTally ::
  "stellar \<Rightarrow> 'w env \<Rightarrow> config \<Rightarrow> string \<Rightarrow> jval \<Rightarrow> string \<Rightarrow> jval \<Rightarrow> jval \<Rightarrow> jval
   \<Rightarrow> (string \<times> jval) list \<Rightarrow> ('w run, written) io" where
  "commitTally S E cfg from campaignId code period count merkleHex perAttribution =
     (let n2s = nativeToScVal S in
      encoded_write S E cfg from ''commit_tally''
        (args_of [scAddr n2s from, scU64 n2s campaignId, scStr n2s (JStr code),
           scU64 n2s period, scU32 n2s count, scBytes32 n2s merkleHex,
           scMapAddrU32 n2s perAttribution]))"

text \<open>The reads and writes addressed by a campaign, a code and a period.\<close>

definition period_args :: "stellar \<Rightarrow> jval \<Rightarrow> string \<Rightarrow> jval \<Rightarrow> scval js list" where
  "period_args S campaignId code period =
     (let n2s = nativeToScVal S
      in [scU64 n2s campaignId, scStr n2s (JStr code), scU64 n2s period])"

definition getTally ::
  "stellar \<Rightarrow> 'w env \<Rightarrow> config \<Rightarrow> jval \<Rightarrow> string \<Rightarrow> jval \<Rightarrow> ('w run, jval) io" where
  "getTally S E cfg campaignId code period =
     native_read S E cfg ''get_tally'' (args_of (period_args S campaignId code period))"

definition isSettled ::
  "stellar \<Rightarrow> 'w env \<Rightarrow> config \<Rightarrow> jval \<Rightarrow> string \<Rightarrow> jval \<Rightarrow> ('w run, bool) io" where
  "isSettled S E cfg campaignId code period =
     bindIO (native_read S E cfg ''is_settled'' (args_of (period_args S campaignId code period)))
       (\<lambda>v. returnIO (truthy v))"

definition computePayouts ::
  "stellar \<Rightarrow> 'w env \<Rightarrow> config \<Rightarrow> jval \<Rightarrow> string \<Rightarrow> jval \<Rightarrow> ('w run, jval) io" where
  "computePayouts S E cfg campaignId code period =
     native_read S E cfg ''compute_payouts'' (args_of (period_args S campaignId code period))"

definition settleFor ::
  "stellar \<Rightarrow> 'w env \<Rightarrow> config \<Rightarrow> string \<Rightarrow> string \<Rightarrow> jval \<Rightarrow> string \<Rightarrow> jval \<Rightarrow> ('w run, written) io"
  where
  "settleFor S E cfg from owner campaignId code period =
     encoded_write S E cfg from ''settle''
       (args_of (scAddr (nativeToScVal S) owner # period_args S campaignId code period))"

definition settle ::
  "stellar \<Rightarrow> 'w env \<Rightarrow> config \<Rightarrow> string \<Rightarrow> jval \<Rightarrow> string \<Rightarrow> jval \<Rightarrow> ('w run, written) io" where
  "settle S E cfg from campaignId code period = settleFor S E cfg from from campaignId code period"

definition approveAllowance ::
  "stellar \<Rightarrow> 'w env \<Rightarrow> config \<Rightarrow> string \<Rightarrow> string \<Rightarrow> jval \<Rightarrow> jval \<Rightarrow> ('w run, written) io" where
  \<comment> \<open>\<open>approveSettlement\<close> of the browser client\<close>
  "approveAllowance S E cfg from payoutToken amount expirationLedger =
     (let n2s = nativeToScVal S in
      bindIO (liftIO (args_of [scAddr n2s from, scAddr n2s (contractId cfg), scI128 n2s amount,
                scU32 n2s expirationLedger]))
        (\<lambda>vs. writeAt S E cfg from payoutToken ''approve'' vs))"

definition settlementAllowance ::
  "stellar \<Rightarrow> 'w env \<Rightarrow> config \<Rightarrow> string \<Rightarrow> string \<Rightarrow> ('w run, jval) io" where
  "settlementAllowance S E cfg payoutToken owner =
     (let n2s = nativeToScVal S in
      bindIO (liftIO (args_of [scAddr n2s owner, scAddr n2s (contractId cfg)])) (\<lambda>vs.
      bindIO (readAt S E cfg payoutToken ''allowance'' vs) (\<lambda>r. liftIO (toNative S r))))"

definition bumpTally ::
  "stellar \<Rightarrow> 'w env \<Rightarrow> config \<Rightarrow> string \<Rightarrow> jval \<Rightarrow> string \<Rightarrow> jval list \<Rightarrow> ('w run, written) io" where
  "bumpTally S E cfg from campaignId code periods =
     (let n2s = nativeToScVal S in
      encoded_write S E cfg from ''bump_tally''
        (args_of [scU64 n2s campaignId, scStr n2s (JStr code), scVecU64 n2s periods]))"

definition bumpDelegates ::
  "stellar \<Rightarrow> 'w env \<Rightarrow> config \<Rightarrow> string \<Rightarrow> jval \<Rightarrow> string list \<Rightarrow> ('w run, written) io" where
  "bumpDelegates S E cfg from campaignId delegates =
     (let n2s = nativeToScVal S in
      encoded_write S E cfg from ''bump_delegates''
        (args_of [scU64 n2s campaignId,
           bindR (mapR (scAddr n2s) delegates) (\<lambda>vs. Inr (ScvVec vs))]))"

section \<open>Granting the settlement allowance from a server\<close>

text \<open>The loop \<open>for (let i = 0; i < 30; i++)\<close> of \<open>approveSettlement\<close>.\<close>

function confirm_loop :: "'w env \<Rightarrow> string \<Rightarrow> nat \<Rightarrow> ('w run, unit) io" where
  "confirm_loop E hash i =
     (if i < 30 then
        bindIO (getTransaction E hash) (\<lambda>res.
        if got_status res = ''SUCCESS'' then returnIO ()
        else if got_status res = ''FAILED''
        then throwIO (Error ''approve transaction failed on-chain'')
        else bindIO (sleep E 1000) (\<lambda>_. confirm_loop E hash (i + 1)))
      else throwIO (Error ''approve transaction was not confirmed in time''))"
  by pat_completeness auto
termination by (relation "measure (\<lambda>(E, hash, i). 30 - i)") auto

declare confirm_loop.simps [simp del]

record approve_opts =
  ao_ownerSecret :: string
  ao_payoutToken :: string
  ao_amount :: int
  ao_liveUntilLedger :: "jnum option"
  ao_contractId :: string
  ao_networkPassphrase :: string

fun add_num :: "jnum \<Rightarrow> int \<Rightarrow> jnum" where
  "add_num (Fin r) k = to_double (r + of_int k)"
| "add_num v k = v"

definition send_allowance ::
  "stellar \<Rightarrow> 'w env \<Rightarrow> approve_opts \<Rightarrow> string \<Rightarrow> jnum \<Rightarrow> ('w run, unit) io" where
  \<comment> \<open>\<open>approveSettlement\<close> from \<open>server.getAccount\<close> on\<close>
  "send_allowance S E opts pk live =
     (let n2s = nativeToScVal S in
      bindIO (ask (GetAccount pk) (e_getAccount E pk)) (\<lambda>source.
      bindIO (liftIO (newContract S (ao_payoutToken opts))) (\<lambda>token.
      bindIO (liftIO (args_of [scAddr n2s pk, scAddr n2s (ao_contractId opts),
                n2s (JBig (ao_amount opts)) ''i128'', n2s (JNum live) ''u32''])) (\<lambda>args.
      let t = Built \<lparr>tx_source = source, tx_fee = base_fee S,
                     tx_passphrase = ao_networkPassphrase opts, tx_contract = token,
                     tx_method = ''approve'', tx_args = args, tx_timeout = 60\<rparr>
      in bindIO (ask (PrepareTransaction t) (e_prepareTransaction E t)) (\<lambda>prepared.
      bindIO (liftIO (signWith S (ao_ownerSecret opts) prepared)) (\<lambda>signedTx.
      bindIO (ask (SendTransaction signedTx) (e_sendTransaction E signedTx)) (\<lambda>sent.
      if sent_status sent = ''ERROR''
      then throwIO (Error (''approve submission failed: '' @ sent_status sent))
      else confirm_loop E (sent_hash sent) 0)))))))"

definition approveSettlement :: "stellar \<Rightarrow> 'w env \<Rightarrow> approve_opts \<Rightarrow> ('w run, unit) io" where
  "approveSettlement S E opts =
     bindIO (liftIO (keypairOf S (ao_ownerSecret opts))) (\<lambda>pk.
     bindIO (case ao_liveUntilLedger opts of
               Some l \<Rightarrow> returnIO l
             | None \<Rightarrow> bindIO (ask GetLatestLedger (e_getLatestLedger E)) (\<lambda>n.
                         returnIO (add_num n 200))) (\<lambda>live.
     send_allowance S E opts pk live))"


section \<open>What a write asks of the outside\<close>

text \<open>\<open>asks m Q\<close>: a run of \<open>m\<close> makes a list of calls that, with its outcome, satisfies \<open>Q\<close>.\<close>

definition asks :: "('w run, 'a) io \<Rightarrow> ('a js \<Rightarrow> call list \<Rightarrow> bool) \<Rightarrow> bool" where
  "asks m Q \<longleftrightarrow> (\<forall>w tr r w' tr'. m (w, tr) = (r, (w', tr')) \<longrightarrow> (\<exists>cs. tr' = tr @ cs \<and> Q r cs))"

lemma asksD: "asks m Q \<Longrightarrow> m (w, tr) = (r, (w', tr')) \<Longrightarrow> \<exists>cs. tr' = tr @ cs \<and> Q r cs"
  by (auto simp: asks_def)

lemma asks_ask: "(\<And>r. Q r [c]) \<Longrightarrow> asks (ask c f) Q"
  by (auto simp: asks_def ask_def split: prod.splits)

lemma asks_pure:
  "Q (Inr x) [] \<Longrightarrow> asks (returnIO x) Q"
  "Q (Inl e) [] \<Longrightarrow> asks (throwIO e) Q"
  "Q q [] \<Longrightarrow> asks (liftIO q) Q"
  by (auto simp: asks_def)

lemma asks_bind:
  assumes "asks m Q1" and "\<And>e cs. Q1 (Inl e) cs \<Longrightarrow> Q (Inl e) cs"
    and "\<And>x cs. Q1 (Inr x) cs \<Longrightarrow> asks (f x) (\<lambda>r ds. Q r (cs @ ds))"
  shows "asks (bindIO m f) Q"
  unfolding asks_def
proof (intro allI impI)
  fix w tr r w' tr'
  assume "bindIO m f (w, tr) = (r, (w', tr'))"
  then show "\<exists>cs. tr' = tr @ cs \<and> Q r cs"
  proof (cases rule: bindIO_cases)
    case (throw e)
    then show ?thesis using asksD [OF assms(1)] assms(2) by blast
  next
    case (more x t)
    obtain w1 tr1 where t: "t = (w1, tr1)" by (cases t)
    obtain cs where cs: "tr1 = tr @ cs" "Q1 (Inr x) cs" using asksD [OF assms(1)] more(1) t by blast
    then obtain ds where "tr' = tr1 @ ds" "Q r (cs @ ds)"
      using asksD [OF assms(3)] more(2) t by blast
    with cs show ?thesis by auto
  qed
qed

lemma asks_mono: "asks m Q1 \<Longrightarrow> (\<And>r cs. Q1 r cs \<Longrightarrow> Q r cs) \<Longrightarrow> asks m Q"
  unfolding asks_def by blast

definition polls :: "call \<Rightarrow> call \<Rightarrow> nat \<Rightarrow> call list" where
  "polls c d k = concat (replicate k [c, d])"

lemma polls_simps [simp]: "polls c d 0 = []" "polls c d (Suc k) = c # d # polls c d k"
  by (simp_all add: polls_def)

definition waited :: "string \<Rightarrow> nat \<Rightarrow> got js \<Rightarrow> call list \<Rightarrow> bool" where
  "waited h n r cs \<longleftrightarrow> (\<exists>k. n + k \<le> 20 \<and> cs = polls (Sleep 900) (GetTransaction h) k \<and>
     (\<forall>g. r = Inr g \<longrightarrow> got_status g = ''NOT_FOUND'' \<longrightarrow> n + k = 20))"

lemma waited_stop:
  "n \<le> 20 \<Longrightarrow> got_status g \<noteq> ''NOT_FOUND'' \<or> n = 20 \<Longrightarrow> waited h n (Inr g) []"
  unfolding waited_def by (rule exI [of _ 0]) auto

lemma waited_step: "waited h (Suc n) r cs \<Longrightarrow> waited h n r (Sleep 900 # GetTransaction h # cs)"
  unfolding waited_def by (elim exE, rename_tac k, rule_tac x = "Suc k" in exI) simp

lemma waited_throw: "n < 20 \<Longrightarrow> waited h n (Inl e) [Sleep 900, GetTransaction h]"
  unfolding waited_def by (rule exI [of _ 1]) simp

lemma asks_sleep: "asks (sleep E ms) (\<lambda>r cs. r = Inr () \<and> cs = [Sleep ms])"
  by (auto simp: sleep_def asks_def ask_def)

lemma asks_getTransaction: "asks (getTransaction E h) (\<lambda>r cs. cs = [GetTransaction h])"
  by (simp add: getTransaction_def asks_ask)

lemma wait_loop_asks: "tries \<le> 20 \<Longrightarrow> asks (wait_loop E h res tries) (waited h tries)"
proof (induction E h res tries rule: wait_loop.induct)
  case (1 E h res tries)
  show ?case
  proof (cases "got_status res = ''NOT_FOUND'' \<and> tries < 20")
    case False
    then have "got_status res \<noteq> ''NOT_FOUND'' \<or> tries = 20" using "1.prems" by auto
    then have "waited h tries (Inr res) []" using "1.prems" by (rule waited_stop [rotated])
    then have "asks (returnIO res) (waited h tries)" by (rule asks_pure)
    with False show ?thesis by (simp only: wait_loop.simps [of E h res tries] if_False)
  next
    case True
    then have ih: "asks (wait_loop E h res' (Suc tries)) (waited h (Suc tries))" for res'
      using "1.IH" by simp
    have "asks (bindIO (getTransaction E h) (\<lambda>res'. wait_loop E h res' (tries + 1)))
        (\<lambda>r ds. waited h tries r (Sleep 900 # ds))"
      by (rule asks_bind [OF asks_getTransaction])
        (use True in \<open>auto simp: waited_throw intro!: asks_mono [OF ih] waited_step\<close>)
    then have "asks (bindIO (sleep E 900)
        (\<lambda>_. bindIO (getTransaction E h) (\<lambda>res'. wait_loop E h res' (tries + 1)))) (waited h tries)"
      by (intro asks_bind [OF asks_sleep]) auto
    with True show ?thesis by (simp only: wait_loop.simps [of E h res tries] if_True simp_thms)
  qed
qed


lemma ask_eq_iff [throw_simps]:
  "ask c f (w, tr) = (r, u) \<longleftrightarrow> (\<exists>w'. f w = (r, w') \<and> u = (w', tr @ [c]))"
  by (auto simp: ask_def split: prod.splits)

text \<open>
  \<open>prepared_for\<close>: the transaction is the one of this call, assembled from a simulation of it that
  succeeded.
\<close>

definition prepared_for ::
  "stellar \<Rightarrow> config \<Rightarrow> string \<Rightarrow> string \<Rightarrow> scval list \<Rightarrow> tx \<Rightarrow> txn \<Rightarrow> bool" where
  "prepared_for S cfg cid method args t p \<longleftrightarrow>
     tx_method t = method \<and> tx_args t = args \<and> tx_passphrase t = networkPassphrase cfg \<and>
     newContract S cid = Inr (tx_contract t) \<and>
     (\<exists>v. assembleTransaction S (Built t) (SimOk v) = Inr p)"

lemma prepare_asks:
  "asks (prepare S E cfg from cid method args) (\<lambda>r cs.
     (\<exists>t. cs = [GetAccount from] \<or> cs = [GetAccount from, Simulate (Built t)]) \<and>
     (\<forall>p. r = Inr p \<longrightarrow> (\<exists>t. cs = [GetAccount from, Simulate (Built t)] \<and>
                           prepared_for S cfg cid method args t p)))"
  unfolding asks_def prepare_def Let_def prepared_for_def
  by (auto simp: throw_simps split: sim.split_asm)

lemma sign_asks:
  "asks (sign_prepared S E cfg from p) (\<lambda>r cs.
     cs = [SignTransaction (toXDR S p) (networkPassphrase cfg) from])"
  unfolding asks_def sign_prepared_def
  by (auto simp: throw_simps split: option.split_asm)

text \<open>\<open>waitForTx\<close> looks the transaction up at least once and at most 21 times.\<close>

lemma waitForTx_asks:
  "asks (waitForTx E h) (\<lambda>r cs. \<exists>ds. cs = GetTransaction h # ds \<and> waited h 0 r ds)"
  unfolding waitForTx_def
proof (rule asks_bind [OF asks_getTransaction])
  fix e :: jserr and cs
  assume "cs = [GetTransaction h]"
  moreover have "waited h 0 (Inl e) []" unfolding waited_def by (rule exI [of _ 0]) simp
  ultimately show "\<exists>ds. cs = GetTransaction h # ds \<and> waited h 0 (Inl e) ds" by simp
next
  fix g cs
  assume "cs = [GetTransaction h]"
  then show "asks (wait_loop E h g 0) (\<lambda>r ds. \<exists>es. cs @ ds = GetTransaction h # es \<and> waited h 0 r es)"
    by (intro asks_mono [OF wait_loop_asks]) simp_all
qed

lemma submit_asks:
  "asks (submit E t) (\<lambda>r cs. \<exists>h k. k \<le> 20 \<and>
     (cs = [SendTransaction t] \<or>
      cs = SendTransaction t # GetTransaction h # polls (Sleep 900) (GetTransaction h) k) \<and>
     (\<forall>x. r = Inr x \<longrightarrow> w_tx x = h \<and> cs \<noteq> [SendTransaction t]))"
  unfolding submit_def
proof (rule asks_bind [where ?Q1.0 = "\<lambda>r cs. cs = [SendTransaction t]"])
  show "asks (ask (SendTransaction t) (e_sendTransaction E t)) (\<lambda>r cs. cs = [SendTransaction t])"
    by (simp add: asks_ask)
next
  fix sent cs
  assume cs: "cs = [SendTransaction t]"
  let ?h = "sent_hash sent"
  let ?rest = "bindIO (waitForTx E ?h) (\<lambda>got.
     if got_status got \<noteq> ''SUCCESS'' then throwIO (contractErr (RawStr (failed_detail got)))
     else returnIO \<lparr>w_retval = got_returnValue got, w_tx = ?h, w_seq = got_ledger got\<rparr>)"
  have "asks ?rest (\<lambda>r ds. \<exists>k. k \<le> 20 \<and> ds = GetTransaction ?h # polls (Sleep 900) (GetTransaction ?h) k \<and>
      (\<forall>x. r = Inr x \<longrightarrow> w_tx x = ?h))"
    by (rule asks_bind [OF waitForTx_asks]) (auto simp: waited_def intro!: asks_pure)
  then have "asks ?rest (\<lambda>r ds. \<exists>h k. k \<le> 20 \<and>
      (cs @ ds = [SendTransaction t] \<or>
       cs @ ds = SendTransaction t # GetTransaction h # polls (Sleep 900) (GetTransaction h) k) \<and>
      (\<forall>x. r = Inr x \<longrightarrow> w_tx x = h \<and> cs @ ds \<noteq> [SendTransaction t]))"
    by (rule asks_mono) (auto simp: cs)
  then show "asks (if sent_status sent = ''ERROR''
      then throwIO (contractErr (RawStr (sent_error sent))) else ?rest)
      (\<lambda>r ds. \<exists>h k. k \<le> 20 \<and>
      (cs @ ds = [SendTransaction t] \<or>
       cs @ ds = SendTransaction t # GetTransaction h # polls (Sleep 900) (GetTransaction h) k) \<and>
      (\<forall>x. r = Inr x \<longrightarrow> w_tx x = h \<and> cs @ ds \<noteq> [SendTransaction t]))"
    by (auto simp: cs intro!: asks_pure)
qed auto


text \<open>\<open>wrote\<close> says which calls a write may have made when it ends with \<open>r\<close>.\<close>

definition wrote ::
  "stellar \<Rightarrow> config \<Rightarrow> string \<Rightarrow> string \<Rightarrow> string \<Rightarrow> scval list \<Rightarrow> written js \<Rightarrow> call list \<Rightarrow> bool"
  where
  "wrote S cfg from cid method args r cs \<longleftrightarrow> (\<exists>t p st h k. k \<le> 20 \<and>
     prefix cs ([LoadFreighter, GetAccount from, Simulate (Built t),
       SignTransaction (toXDR S p) (networkPassphrase cfg) from, SendTransaction st, GetTransaction h]
       @ polls (Sleep 900) (GetTransaction h) k) \<and>
     (3 < length cs \<longrightarrow> prepared_for S cfg cid method args t p) \<and>
     (\<forall>x. r = Inr x \<longrightarrow> length cs = 6 + 2 * k \<and> w_tx x = h))"

lemma length_polls [simp]: "length (polls c d k) = 2 * k"
  by (induction k) auto

lemma wrote_stop:
  "prefix cs [LoadFreighter, GetAccount from, Simulate (Built t)] \<Longrightarrow>
   wrote S cfg from cid method args (Inl e) cs"
  unfolding wrote_def
  by (rule exI [of _ t], intro exI [of _ undefined] exI [of _ 0])
    (auto dest: prefix_length_le intro: prefix_order.trans simp: prefix_Cons)

lemma wrote_signed:
  assumes "prepared_for S cfg cid method args t p"
  shows "wrote S cfg from cid method args (Inl e) [LoadFreighter, GetAccount from,
    Simulate (Built t), SignTransaction (toXDR S p) (networkPassphrase cfg) from]"
  unfolding wrote_def
  by (rule exI [of _ t], rule exI [of _ p], intro exI [of _ undefined] exI [of _ 0])
    (simp add: assms)

lemma wrote_sent:
  assumes "prepared_for S cfg cid method args t p" and "k \<le> 20"
    and "cs = [SendTransaction st] \<or>
         cs = SendTransaction st # GetTransaction h # polls (Sleep 900) (GetTransaction h) k"
    and "\<forall>x. r = Inr x \<longrightarrow> w_tx x = h \<and> cs \<noteq> [SendTransaction st]"
  shows "wrote S cfg from cid method args r ([LoadFreighter, GetAccount from, Simulate (Built t),
    SignTransaction (toXDR S p) (networkPassphrase cfg) from] @ cs)"
  unfolding wrote_def
  by (rule exI [of _ t], rule exI [of _ p], rule exI [of _ st], rule exI [of _ h], rule exI [of _ k])
    (use assms in auto)

lemma sign_submit_asks:
  assumes "prepared_for S cfg cid method args t p"
  shows "asks (bindIO (sign_prepared S E cfg from p) (\<lambda>st. submit E st)) (\<lambda>r ds.
    wrote S cfg from cid method args r ([LoadFreighter, GetAccount from, Simulate (Built t)] @ ds))"
proof (rule asks_bind [OF sign_asks])
  fix e :: jserr and cs
  assume "cs = [SignTransaction (toXDR S p) (networkPassphrase cfg) from]"
  with wrote_signed [OF assms] show "wrote S cfg from cid method args (Inl e)
      ([LoadFreighter, GetAccount from, Simulate (Built t)] @ cs)" by simp
next
  fix st cs
  assume cs: "cs = [SignTransaction (toXDR S p) (networkPassphrase cfg) from]"
  show "asks (submit E st) (\<lambda>r ds. wrote S cfg from cid method args r
      ([LoadFreighter, GetAccount from, Simulate (Built t)] @ cs @ ds))"
    by (rule asks_mono [OF submit_asks])
      (use wrote_sent [OF assms] in \<open>fastforce simp: cs\<close>)
qed

lemma write_asks: "asks (writeAt S E cfg from cid method args) (wrote S cfg from cid method args)"
  unfolding writeAt_def
proof (rule asks_bind [where ?Q1.0 = "\<lambda>r cs. cs = [LoadFreighter]"])
  show "asks (ask LoadFreighter (e_loadFreighter E)) (\<lambda>r cs. cs = [LoadFreighter])"
    by (simp add: asks_ask)
next
  fix e :: jserr and cs
  assume "cs = [LoadFreighter]"
  then show "wrote S cfg from cid method args (Inl e) cs" by (auto intro: wrote_stop)
next
  fix x cs
  assume cs: "cs = [LoadFreighter]"
  show "asks (bindIO (prepare S E cfg from cid method args) (\<lambda>prepared.
      bindIO (sign_prepared S E cfg from prepared) (\<lambda>st. submit E st)))
      (\<lambda>r ds. wrote S cfg from cid method args r (cs @ ds))"
    by (intro asks_bind [OF prepare_asks])
      (auto simp: cs intro: wrote_stop sign_submit_asks [simplified])
qed


section \<open>What the result of a write means\<close>

text \<open>
  \<open>unanswered E ms h again k w w'\<close>: from \<open>w\<close> on, the transaction \<open>h\<close> is looked up \<open>k\<close> times,
  each answer's status is in \<open>again\<close>, and each is followed by a pause of \<open>ms\<close>; this leaves \<open>w'\<close>.
\<close>

fun unanswered :: "'w env \<Rightarrow> int \<Rightarrow> string \<Rightarrow> (string \<Rightarrow> bool) \<Rightarrow> nat \<Rightarrow> 'w \<Rightarrow> 'w \<Rightarrow> bool" where
  "unanswered E ms h again 0 w w' \<longleftrightarrow> w' = w"
| "unanswered E ms h again (Suc k) w w' \<longleftrightarrow>
     (\<exists>g w1. e_getTransaction E h w = (Inr g, w1) \<and> again (got_status g) \<and>
        unanswered E ms h again k (e_sleep E ms w1) w')"

abbreviation looked :: "'w env \<Rightarrow> int \<Rightarrow> string \<Rightarrow> (string \<Rightarrow> bool) \<Rightarrow> nat \<Rightarrow> 'w \<Rightarrow> got js \<Rightarrow> 'w \<Rightarrow> bool" where
  "looked E ms h again k w q w' \<equiv>
     \<exists>v. unanswered E ms h again k w v \<and> e_getTransaction E h v = (q, w')"

abbreviation unfound :: "string \<Rightarrow> bool" where
  "unfound st \<equiv> st = ''NOT_FOUND''"

lemma wait_loop_result:
  "wait_loop E h res n (w, tr) = (Inr g, (w', tr')) \<Longrightarrow>
   (g = res \<and> w' = w \<and> tr' = tr) \<or>
   (unfound (got_status res) \<and> (\<exists>k. n + Suc k \<le> 20 \<and>
      looked E 900 h unfound k (e_sleep E 900 w) (Inr g) w' \<and>
      tr' = tr @ polls (Sleep 900) (GetTransaction h) (Suc k)))"
proof (induction E h res n arbitrary: w tr rule: wait_loop.induct)
  case (1 E h res n)
  show ?case
  proof (cases "unfound (got_status res) \<and> n < 20")
    case False
    with "1.prems" show ?thesis by (simp add: wait_loop.simps [of E h res n] split: if_splits)
  next
    case True
    obtain r1 w2 where g: "e_getTransaction E h (e_sleep E 900 w) = (Inr r1, w2)"
      "wait_loop E h r1 (n + 1) (w2, tr @ [Sleep 900, GetTransaction h]) = (Inr g, (w', tr'))"
      using "1.prems" True
      by (auto simp: wait_loop.simps [of E h res n] throw_simps sleep_def getTransaction_def)
    from "1.IH" [OF True g(2)] show ?thesis
    proof (elim disjE conjE exE)
      assume "g = r1" "w' = w2" "tr' = tr @ [Sleep 900, GetTransaction h]"
      with True g(1) show ?thesis by (intro disjI2 conjI exI [of _ 0]) simp_all
    next
      fix k v
      assume "unfound (got_status r1)" "n + 1 + Suc k \<le> 20"
        "unanswered E 900 h unfound k (e_sleep E 900 w2) v" "e_getTransaction E h v = (Inr g, w')"
        "tr' = (tr @ [Sleep 900, GetTransaction h]) @ polls (Sleep 900) (GetTransaction h) (Suc k)"
      with True g(1) show ?thesis by (intro disjI2 conjI exI [of _ "Suc k"]) auto
    qed
  qed
qed

lemma waitForTx_result:
  assumes "waitForTx E h (w, tr) = (Inr g, (w', tr'))"
  obtains k where "k \<le> 20" "looked E 900 h unfound k w (Inr g) w'"
    "tr' = tr @ GetTransaction h # polls (Sleep 900) (GetTransaction h) k"
proof -
  obtain res w1 where 1: "e_getTransaction E h w = (Inr res, w1)"
    and run: "wait_loop E h res 0 (w1, tr @ [GetTransaction h]) = (Inr g, (w', tr'))"
    using assms by (auto simp: waitForTx_def getTransaction_def throw_simps)
  from wait_loop_result [OF run] show thesis
  proof (elim disjE conjE exE)
    assume "g = res" "w' = w1" "tr' = tr @ [GetTransaction h]"
    with 1 that [of 0] show thesis by simp
  next
    fix k v
    assume "unfound (got_status res)" "0 + Suc k \<le> 20"
      "unanswered E 900 h unfound k (e_sleep E 900 w1) v" "e_getTransaction E h v = (Inr g, w')"
      "tr' = (tr @ [GetTransaction h]) @ polls (Sleep 900) (GetTransaction h) (Suc k)"
    with 1 that [of "Suc k"] show thesis by auto
  qed
qed

lemma submit_result:
  assumes "submit E t (w, tr) = (Inr x, (w', tr'))"
  obtains sent w1 k g where "e_sendTransaction E t w = (Inr sent, w1)" "sent_status sent \<noteq> ''ERROR''"
    "k \<le> 20" "looked E 900 (sent_hash sent) unfound k w1 (Inr g) w'" "got_status g = ''SUCCESS''"
    "x = \<lparr>w_retval = got_returnValue g, w_tx = sent_hash sent, w_seq = got_ledger g\<rparr>"
    "tr' = tr @ SendTransaction t # GetTransaction (sent_hash sent) #
       polls (Sleep 900) (GetTransaction (sent_hash sent)) k"
proof -
  obtain sent w1 g where 1: "e_sendTransaction E t w = (Inr sent, w1)" "sent_status sent \<noteq> ''ERROR''"
    and run: "waitForTx E (sent_hash sent) (w1, tr @ [SendTransaction t]) = (Inr g, (w', tr'))"
    and 2: "got_status g = ''SUCCESS''"
      "x = \<lparr>w_retval = got_returnValue g, w_tx = sent_hash sent, w_seq = got_ledger g\<rparr>"
    using assms by (auto simp: submit_def throw_simps split: if_splits)
  from run obtain k where "k \<le> 20" "looked E 900 (sent_hash sent) unfound k w1 (Inr g) w'"
    "tr' = (tr @ [SendTransaction t]) @ GetTransaction (sent_hash sent) #
       polls (Sleep 900) (GetTransaction (sent_hash sent)) k"
    by (rule waitForTx_result)
  with 1 2 that show thesis by simp
qed

lemma prepare_result:
  assumes "prepare S E cfg from cid method args (w, tr) = (Inr p, s)"
  obtains acc w1 t sim w2 where "e_getAccount E from w = (Inr acc, w1)"
    "tx_source t = acc" "tx_method t = method" "tx_args t = args"
    "e_simulate E (Built t) w1 = (Inr sim, w2)" "assembleTransaction S (Built t) sim = Inr p"
    "s = (w2, tr @ [GetAccount from, Simulate (Built t)])"
proof -
  obtain acc w1 con where 1: "e_getAccount E from w = (Inr acc, w1)" "newContract S cid = Inr con"
    using assms by (auto simp: prepare_def throw_simps)
  let ?t = "\<lparr>tx_source = acc, tx_fee = base_fee S, tx_passphrase = networkPassphrase cfg,
    tx_contract = con, tx_method = method, tx_args = args, tx_timeout = 60\<rparr>"
  obtain q w2 where 2: "e_simulate E (Built ?t) w1 = (q, w2)" by fastforce
  with assms 1 obtain sim where 3: "q = Inr sim"
    by (cases q) (auto simp: prepare_def Let_def bindIO_run ask_def)
  have "assembleTransaction S (Built ?t) sim = Inr p \<and> s = (w2, tr @ [GetAccount from, Simulate (Built ?t)])"
    using assms 1 2 3 by (cases sim) (auto simp: prepare_def Let_def bindIO_run ask_def)
  with 1 2 3 show thesis by (intro that [of acc w1 ?t sim w2]) simp_all
qed

lemma writeAt_prefix:
  assumes "writeAt S E cfg from cid method args (w, tr) = (Inr x, (w', tr'))"
  obtains t p w1 acc w2 sim w3 reply w4 xdr st where
    "e_loadFreighter E w = (Inr (), w1)" "e_getAccount E from w1 = (Inr acc, w2)"
    "tx_source t = acc" "tx_method t = method" "tx_args t = args"
    "e_simulate E (Built t) w2 = (Inr sim, w3)" "assembleTransaction S (Built t) sim = Inr p"
    "e_signTransaction E (toXDR S p) (networkPassphrase cfg) from w3 = (Inr reply, w4)"
    "signed_xdr reply = Inr xdr" "fromXDR S xdr (networkPassphrase cfg) = Inr st"
    "submit E st (w4, tr @ [LoadFreighter, GetAccount from, Simulate (Built t),
       SignTransaction (toXDR S p) (networkPassphrase cfg) from]) = (Inr x, (w', tr'))"
proof -
  obtain w1 where 1: "e_loadFreighter E w = (Inr (), w1)"
    and r1: "bindIO (prepare S E cfg from cid method args) (\<lambda>p. bindIO (sign_prepared S E cfg from p) (submit E))
      (w1, tr @ [LoadFreighter]) = (Inr x, (w', tr'))"
    using assms by (auto simp: writeAt_def throw_simps)
  then obtain p s1 where p: "prepare S E cfg from cid method args (w1, tr @ [LoadFreighter]) = (Inr p, s1)"
    and r2: "bindIO (sign_prepared S E cfg from p) (submit E) s1 = (Inr x, (w', tr'))"
    by (auto simp: throw_simps)
  from p obtain acc w2 t sim w3 where 2: "e_getAccount E from w1 = (Inr acc, w2)"
    "tx_source t = acc" "tx_method t = method" "tx_args t = args"
    "e_simulate E (Built t) w2 = (Inr sim, w3)" "assembleTransaction S (Built t) sim = Inr p"
    "s1 = (w3, (tr @ [LoadFreighter]) @ [GetAccount from, Simulate (Built t)])"
    by (rule prepare_result)
  from r2 2(7) obtain reply w4 xdr st where
    "e_signTransaction E (toXDR S p) (networkPassphrase cfg) from w3 = (Inr reply, w4)"
    "signed_xdr reply = Inr xdr" "fromXDR S xdr (networkPassphrase cfg) = Inr st"
    "submit E st (w4, tr @ [LoadFreighter, GetAccount from, Simulate (Built t),
       SignTransaction (toXDR S p) (networkPassphrase cfg) from]) = (Inr x, (w', tr'))"
    unfolding sign_prepared_def by (auto simp: throw_simps split: option.splits)
  with 1 2 that show thesis by blast
qed

text \<open>A concrete outside, on which the theorems are evaluated.\<close>

definition sample_stellar :: stellar where
  "sample_stellar = \<lparr>
     nativeToScVal = (\<lambda>v t. Inr (ScvString t)),
     scValToNative = (\<lambda>v. Inr (JStr ''native'')),
     newAccount = (\<lambda>a n. Inr \<lparr>acc_id = a, acc_seq = n\<rparr>),
     newContract = Inr,
     assembleTransaction = (\<lambda>t s. Inr t),
     toXDR = (\<lambda>t. ''AAAA''),
     fromXDR = (\<lambda>x pp. Inr (Xdr (js_String x))),
     signWith = (\<lambda>k t. Inr t),
     keypairOf = (\<lambda>k. Inr ''GOWNER''),
     localeNumber = num_str,
     base_fee = ''100''\<rparr>"

definition sample_env :: "raw option \<Rightarrow> nat \<Rightarrow> nat env" where
  \<comment> \<open>the error the simulation gives, and how many lookups precede the success\<close>
  "sample_env err n = \<lparr>
     e_loadFreighter = (\<lambda>w. (Inr (), w)),
     e_getAccount = (\<lambda>a w. (Inr \<lparr>acc_id = a, acc_seq = ''7''\<rparr>, w)),
     e_simulate = (\<lambda>t w. (Inr (case err of None \<Rightarrow> SimOk None | Some r \<Rightarrow> SimError r), w)),
     e_signTransaction = (\<lambda>x pp a w. (Inr (JStr ''SIGNED''), w)),
     e_sendTransaction = (\<lambda>t w. (Inr \<lparr>sent_status = ''PENDING'', sent_hash = ''h1'', sent_error = []\<rparr>, w)),
     e_getTransaction = (\<lambda>h w. (Inr \<lparr>got_status = (if w < n then ''NOT_FOUND'' else ''SUCCESS''),
        got_returnValue = Some (ScvU64 1), got_ledger = JNum (Fin 99), got_resultXdr = None\<rparr>, Suc w)),
     e_sleep = (\<lambda>ms w. w),
     e_isConnected = (\<lambda>w. (Inr (JBool True), w)),
     e_requestAccess = (\<lambda>w. (Inr (JObj [(''address'', JStr ''GUSER'')]), w)),
     e_getAddress = (\<lambda>w. (Inr JNull, w)),
     e_getNetworkDetails = Some (\<lambda>w. (Inr (JObj [(''network'', JStr ''TESTNET''),
        (''networkPassphrase'', JStr ''Test SDF Network ; September 2015'')]), w)),
     e_getNetwork = (\<lambda>w. (Inr JNull, w)),
     e_fetch = (\<lambda>u w. (Inr \<lparr>resp_ok = False, resp_json = Inr JNull\<rparr>, w)),
     e_getLatestLedger = (\<lambda>w. (Inr (Fin 1000), w)),
     e_prepareTransaction = (\<lambda>t w. (Inr t, w))\<rparr>"

definition sample_config :: config where
  "sample_config = \<lparr>contractId = ''CCOUPON'', rpcUrl = ''rpc'',
     networkPassphrase = ''Test SDF Network ; September 2015'', readSource = ''GREAD'',
     horizonUrl = None\<rparr>"

lemmas sample_simps = sample_stellar_def sample_env_def sample_config_def

lemmas client_run_simps = writeAt_def prepare_def sign_prepared_def submit_def waitForTx_def
  wait_loop.simps getTransaction_def sleep_def ask_def bindIO_run sign_error_def signed_xdr_def Let_def



text \<open>
  C7 (functional). A write that returns reports the chain's own answer about the transaction it
  submitted. The wallet was asked to sign the call's own transaction as assembled from its
  simulation; what it signed was submitted, once, and not rejected; and the lookups that followed
  were all of the hash that submission was given, at most 21, each but the last saying
  \<open>NOT_FOUND\<close> and the last \<open>SUCCESS\<close>: its value and ledger, and the hash submitted, are
  what is returned, and nothing was asked after it.
\<close>

theorem writeAt_success:
  "writeAt S E cfg from cid method args (w, tr) = (Inr x, (w', tr')) \<Longrightarrow>
   \<exists>t p w1 acc w2 sim w3 reply w4 xdr st sent w5 k w6 g.
     e_loadFreighter E w = (Inr (), w1) \<and> e_getAccount E from w1 = (Inr acc, w2) \<and>
     tx_source t = acc \<and> tx_method t = method \<and> tx_args t = args \<and>
     e_simulate E (Built t) w2 = (Inr sim, w3) \<and> assembleTransaction S (Built t) sim = Inr p \<and>
     e_signTransaction E (toXDR S p) (networkPassphrase cfg) from w3 = (Inr reply, w4) \<and>
     signed_xdr reply = Inr xdr \<and> fromXDR S xdr (networkPassphrase cfg) = Inr st \<and>
     e_sendTransaction E st w4 = (Inr sent, w5) \<and> sent_status sent \<noteq> ''ERROR'' \<and>
     w_tx x = sent_hash sent \<and>
     k \<le> 20 \<and> unanswered E 900 (w_tx x) (\<lambda>status. status = ''NOT_FOUND'') k w5 w6 \<and>
     e_getTransaction E (w_tx x) w6 = (Inr g, w') \<and>
     got_status g = ''SUCCESS'' \<and> w_retval x = got_returnValue g \<and> w_seq x = got_ledger g \<and>
     tr' = tr @ [LoadFreighter, GetAccount from, Simulate (Built t),
        SignTransaction (toXDR S p) (networkPassphrase cfg) from, SendTransaction st,
        GetTransaction (w_tx x)] @ concat (replicate k [Sleep 900, GetTransaction (w_tx x)])"
  by (erule writeAt_prefix, erule submit_result) (simp add: polls_def, blast)

theorem writeAt_success_witness:
  "\<exists>x w' cs. writeAt sample_stellar (sample_env None 1) sample_config ''GUSER'' ''CCOUPON'' ''settle'' [] (0, [])
     = (Inr x, (w', cs)) \<and> w_seq x = JNum (Fin 99)"
proof -
  have "\<exists>x w' cs. writeAt sample_stellar (sample_env None 1) sample_config ''GUSER'' ''CCOUPON''
      ''settle'' [] (0, []) = (Inr x, (w', cs))"
    by (simp add: sample_simps client_run_simps)
  then obtain x w' cs where "writeAt sample_stellar (sample_env None 1) sample_config ''GUSER''
      ''CCOUPON'' ''settle'' [] (0, []) = (Inr x, (w', cs))" by blast
  with writeAt_success [OF this] show ?thesis
    by (auto simp: sample_env_def)
qed

text \<open>
  C8 (error). A contract that panics in simulation is reported, never signed: the write ends with
  an error whose message is the host's text and whose \<open>contractCode\<close> is the one in it, after
  asking for the account and the simulation only.
\<close>

theorem writeAt_panic:
  "e_loadFreighter E w = (Inr (), w1) \<Longrightarrow> e_getAccount E from w1 = (Inr acc, w2) \<Longrightarrow>
   newContract S cid = Inr c \<Longrightarrow> (\<And>t. fst (e_simulate E t w2) = Inr (SimError raw)) \<Longrightarrow>
   \<exists>t w3. writeAt S E cfg from cid method args (w, tr) =
     (Inl (contractErr raw), (w3, tr @ [LoadFreighter, GetAccount from, Simulate t]))"
proof -
  assume h: "e_loadFreighter E w = (Inr (), w1)" "e_getAccount E from w1 = (Inr acc, w2)"
    "newContract S cid = Inr c" "\<And>t. fst (e_simulate E t w2) = Inr (SimError raw)"
  have "\<exists>w3. e_simulate E t w2 = (Inr (SimError raw), w3)" for t
    using h(4) [of t] by (metis prod.collapse)
  with h(1-3) show ?thesis
    unfolding writeAt_def prepare_def Let_def by (force simp: throw_simps)
qed

theorem writeAt_panic_witness:
  "\<exists>e w3 t. writeAt sample_stellar (sample_env (Some (RawStr ''Error(Contract, #16)'')) 0)
     sample_config ''GUSER'' ''CCOUPON'' ''settle'' [] (0, []) =
     (Inl e, (w3, [LoadFreighter, GetAccount ''GUSER'', Simulate t])) \<and>
     e_contractCode e = Some (Fin 16)"
proof -
  have "e_contractCode (contractErr (RawStr ''Error(Contract, #16)'')) = Some (Fin 16)" by code_simp
  then show ?thesis
    using writeAt_panic [of "sample_env (Some (RawStr ''Error(Contract, #16)'')) 0" 0 0 "''GUSER''"
        "\<lparr>acc_id = ''GUSER'', acc_seq = ''7''\<rparr>" 0 sample_stellar "''CCOUPON''" "''CCOUPON''"
        "RawStr ''Error(Contract, #16)''" sample_config "''settle''" "[]" "[]"]
    by (auto simp: sample_simps)
qed

section \<open>The allowance\<close>

definition is_lookup :: "call \<Rightarrow> bool" where
  "is_lookup c = (case c of GetTransaction _ \<Rightarrow> True | _ \<Rightarrow> False)"

definition is_submission :: "call \<Rightarrow> bool" where
  "is_submission c = (case c of SendTransaction _ \<Rightarrow> True | _ \<Rightarrow> False)"

lemma is_lookup_simps [simp]:
  "is_lookup (GetTransaction h)" "\<not> is_lookup (SendTransaction t)" "\<not> is_lookup (Sleep n)"
  "\<not> is_lookup GetLatestLedger" "\<not> is_lookup (GetAccount a)" "\<not> is_lookup (PrepareTransaction t)"
  "\<not> is_submission (GetTransaction h)" "is_submission (SendTransaction t)"
  "\<not> is_submission (Sleep n)" "\<not> is_submission GetLatestLedger"
  "\<not> is_submission (GetAccount a)" "\<not> is_submission (PrepareTransaction t)"
  by (simp_all add: is_lookup_def is_submission_def)

text \<open>\<open>confirmed h i\<close>: what the polling loop does from round \<open>i\<close> on, and how it ends.\<close>

abbreviation undecided :: "string \<Rightarrow> bool" where
  "undecided st \<equiv> st \<noteq> ''SUCCESS'' \<and> st \<noteq> ''FAILED''"

definition verdict :: "got js \<Rightarrow> unit js \<Rightarrow> bool" where
  "verdict q r \<longleftrightarrow> (case q of Inl e \<Rightarrow> r = Inl e
     | Inr g \<Rightarrow> if got_status g = ''SUCCESS'' then r = Inr ()
         else got_status g = ''FAILED'' \<and> r = Inl (Error ''approve transaction failed on-chain''))"

definition confirmed :: "'w env \<Rightarrow> string \<Rightarrow> nat \<Rightarrow> 'w \<Rightarrow> unit js \<Rightarrow> 'w \<Rightarrow> call list \<Rightarrow> bool" where
  "confirmed E h n w r w' cs \<longleftrightarrow>
     (\<exists>k<n. \<exists>v a. unanswered E 1000 h undecided k w v \<and> e_getTransaction E h v = (a, w') \<and>
        cs = polls (GetTransaction h) (Sleep 1000) k @ [GetTransaction h] \<and> verdict a r) \<or>
     (r = Inl (Error ''approve transaction was not confirmed in time'') \<and>
        unanswered E 1000 h undecided n w w' \<and> cs = polls (GetTransaction h) (Sleep 1000) n)"

lemma confirmed_now: "e_getTransaction E h w = (q, w') \<Longrightarrow> verdict q r \<Longrightarrow>
    confirmed E h (Suc n) w r w' [GetTransaction h]"
  unfolding confirmed_def by (intro disjI1 exI [of _ 0]) simp

lemma confirmed_later:
  assumes g: "e_getTransaction E h w = (Inr g, w1)" "undecided (got_status g)"
    and c: "confirmed E h n (e_sleep E 1000 w1) r w' cs"
  shows "confirmed E h (Suc n) w r w' ([GetTransaction h, Sleep 1000] @ cs)"
  using c unfolding confirmed_def
proof (elim disjE exE conjE, goal_cases)
  case (1 k v q)
  with g show ?case by (intro disjI1 exI [of _ "Suc k"]) auto
next
  case 2
  with g show ?case by (intro disjI2) simp
qed

lemma confirm_loop_calls:
  "i \<le> 30 \<Longrightarrow> confirm_loop E h i (w, tr) = (r, (w', tr')) \<Longrightarrow>
   \<exists>cs. tr' = tr @ cs \<and> confirmed E h (30 - i) w r w' cs"
proof (induction E h i arbitrary: w tr rule: confirm_loop.induct)
  case (1 E h i)
  show ?case
  proof (cases "i < 30")
    case False
    with "1.prems"(1) have "i = 30" by simp
    with "1.prems"(2) show ?thesis by (simp add: confirm_loop.simps [of E h 30] confirmed_def)
  next
    case i: True
    then have n: "30 - i = Suc (30 - (i + 1))" by simp
    obtain q w1 where g: "e_getTransaction E h w = (q, w1)" by fastforce
    show ?thesis
    proof (cases "\<exists>g. q = Inr g \<and> undecided (got_status g)")
      case False
      then consider e where "q = Inl e" | x where "q = Inr x" "got_status x = ''SUCCESS''"
        | x where "q = Inr x" "got_status x = ''FAILED''" by (cases q) auto
      then have "tr' = tr @ [GetTransaction h] \<and> w' = w1 \<and> verdict q r"
        using "1.prems"(2) i g
        by cases (simp_all add: confirm_loop.simps [of E h i] getTransaction_def bindIO_run ask_def verdict_def)
      moreover from this g have "confirmed E h (30 - i) w r w' [GetTransaction h]"
        unfolding n by (intro confirmed_now [of _ _ _ q]) auto
      ultimately show ?thesis by blast
    next
      case True
      then obtain x where x: "q = Inr x" "undecided (got_status x)" by blast
      then have "confirm_loop E h (i + 1) (e_sleep E 1000 w1, tr @ [GetTransaction h, Sleep 1000]) =
          (r, (w', tr'))"
        using "1.prems" i g
        by (auto simp: confirm_loop.simps [of E h i] getTransaction_def sleep_def bindIO_run ask_def)
      with "1.IH" i x obtain cs where "tr' = tr @ [GetTransaction h, Sleep 1000] @ cs"
        "confirmed E h (30 - (i + 1)) (e_sleep E 1000 w1) r w' cs" by fastforce
      moreover have "confirmed E h (30 - i) w r w' ([GetTransaction h, Sleep 1000] @ cs)"
        unfolding n using g x calculation(2) by (intro confirmed_later) simp_all
      ultimately show ?thesis by (intro exI conjI)
    qed
  qed
qed

text \<open>The steps of \<open>approveSettlement\<close> before it sends: no submission, no lookup.\<close>

definition quiet_call :: "call \<Rightarrow> bool" where
  "quiet_call c \<longleftrightarrow> \<not> is_lookup c \<and> \<not> is_submission c"

definition allowance_tx :: "stellar \<Rightarrow> 'w env \<Rightarrow> approve_opts \<Rightarrow> 'w \<Rightarrow> string \<Rightarrow> tx \<Rightarrow> txn \<Rightarrow> 'w \<Rightarrow> bool" where
  \<comment> \<open>\<open>st\<close> is the owner's signature of the prepared allowance, reached in \<open>wx\<close> from \<open>w\<close>\<close>
  "allowance_tx S E opts w pk t st wx \<longleftrightarrow>
     (\<exists>wp p. e_getAccount E pk w = (Inr (tx_source t), wp) \<and> tx_method t = ''approve'' \<and>
        newContract S (ao_payoutToken opts) = Inr (tx_contract t) \<and>
        e_prepareTransaction E (Built t) wp = (Inr p, wx) \<and> signWith S (ao_ownerSecret opts) p = Inr st)"

lemma send_allowance_parts:
  assumes "send_allowance S E opts pk live (w, tr) = (r, (w', tr'))"
  shows "(\<exists>cs e. tr' = tr @ cs \<and> list_all quiet_call cs \<and> r = Inl e) \<or>
    (\<exists>t st wx q wt. allowance_tx S E opts w pk t st wx \<and> e_sendTransaction E st wx = (q, wt) \<and>
       (let calls = tr @ [GetAccount pk, PrepareTransaction (Built t), SendTransaction st]
        in case q of Inl e \<Rightarrow> r = Inl e \<and> w' = wt \<and> tr' = calls
        | Inr sent \<Rightarrow> (if sent_status sent = ''ERROR''
             then throwIO (Error (''approve submission failed: '' @ sent_status sent))
             else confirm_loop E (sent_hash sent) 0) (wt, calls) = (r, (w', tr'))))"
proof -
  obtain qa wp where acc: "e_getAccount E pk w = (qa, wp)" by fastforce
  let ?args = "args_of [scAddr (nativeToScVal S) pk, scAddr (nativeToScVal S) (ao_contractId opts),
      nativeToScVal S (JBig (ao_amount opts)) ''i128'', nativeToScVal S (JNum live) ''u32'']"
  consider e where "qa = Inl e" | e where "newContract S (ao_payoutToken opts) = Inl e"
    | e where "?args = Inl e"
    | a tok vs where "qa = Inr a" "newContract S (ao_payoutToken opts) = Inr tok" "?args = Inr vs"
    by (cases qa; cases "newContract S (ao_payoutToken opts)"; cases ?args) auto
  then show ?thesis
  proof cases
    case 4
    let ?t = "\<lparr>tx_source = a, tx_fee = base_fee S, tx_passphrase = ao_networkPassphrase opts,
      tx_contract = tok, tx_method = ''approve'', tx_args = vs, tx_timeout = 60\<rparr>"
    obtain qp wx where prep: "e_prepareTransaction E (Built ?t) wp = (qp, wx)" by fastforce
    consider e where "qp = Inl e" | p e where "qp = Inr p" "signWith S (ao_ownerSecret opts) p = Inl e"
      | p st where "qp = Inr p" "signWith S (ao_ownerSecret opts) p = Inr st"
      by (cases qp; cases "signWith S (ao_ownerSecret opts) (projr qp)") auto
    then show ?thesis
    proof cases
      case 3
      obtain q wt where sent: "e_sendTransaction E st wx = (q, wt)" by fastforce
      have "allowance_tx S E opts w pk ?t st wx"
        using 4 3 acc prep by (simp add: allowance_tx_def)
      moreover have "case q of Inl e \<Rightarrow> r = Inl e \<and> w' = wt \<and>
            tr' = tr @ [GetAccount pk, PrepareTransaction (Built ?t), SendTransaction st]
        | Inr sent \<Rightarrow> (if sent_status sent = ''ERROR''
             then throwIO (Error (''approve submission failed: '' @ sent_status sent))
             else confirm_loop E (sent_hash sent) 0)
            (wt, tr @ [GetAccount pk, PrepareTransaction (Built ?t), SendTransaction st]) = (r, (w', tr'))"
        using assms 4 3 acc prep sent
        by (cases q) (simp_all add: send_allowance_def Let_def bindIO_run ask_def)
      ultimately show ?thesis using sent unfolding Let_def by blast
    qed (use assms 4 acc prep in \<open>auto simp: send_allowance_def Let_def bindIO_run ask_def quiet_call_def\<close>)
  qed (use assms acc in \<open>auto simp: send_allowance_def Let_def bindIO_run ask_def quiet_call_def
        split: sum.splits prod.splits\<close>)
qed

abbreviation live_state :: "'w env \<Rightarrow> approve_opts \<Rightarrow> 'w \<Rightarrow> 'w" where
  "live_state E opts w \<equiv>
     (case ao_liveUntilLedger opts of None \<Rightarrow> snd (e_getLatestLedger E w) | Some _ \<Rightarrow> w)"

abbreviation live_calls :: "approve_opts \<Rightarrow> call list" where
  "live_calls opts \<equiv> (case ao_liveUntilLedger opts of None \<Rightarrow> [GetLatestLedger] | Some _ \<Rightarrow> [])"

lemma approveSettlement_parts:
  assumes "approveSettlement S E opts (w, tr) = (r, (w', tr'))"
  shows "(\<exists>cs e. tr' = tr @ cs \<and> list_all quiet_call cs \<and> r = Inl e) \<or>
    (\<exists>pk t st wx q wt. keypairOf S (ao_ownerSecret opts) = Inr pk \<and>
       allowance_tx S E opts (live_state E opts w) pk t st wx \<and> e_sendTransaction E st wx = (q, wt) \<and>
       (let calls = tr @ live_calls opts @
              [GetAccount pk, PrepareTransaction (Built t), SendTransaction st]
        in case q of Inl e \<Rightarrow> r = Inl e \<and> w' = wt \<and> tr' = calls
        | Inr sent \<Rightarrow> (if sent_status sent = ''ERROR''
             then throwIO (Error (''approve submission failed: '' @ sent_status sent))
             else confirm_loop E (sent_hash sent) 0) (wt, calls) = (r, (w', tr'))))"
proof (cases "keypairOf S (ao_ownerSecret opts)")
  case (Inl e)
  with assms show ?thesis by (auto simp: approveSettlement_def throw_simps)
next
  case pk: (Inr pk)
  show ?thesis
  proof (cases "ao_liveUntilLedger opts")
    case (Some l)
    with assms pk have "send_allowance S E opts pk l (w, tr) = (r, (w', tr'))"
      by (simp add: approveSettlement_def bindIO_run)
    from send_allowance_parts [OF this] pk Some show ?thesis by (simp add: Let_def)
  next
    case None
    obtain ql wl where l: "e_getLatestLedger E w = (ql, wl)" by fastforce
    show ?thesis
    proof (cases ql)
      case (Inl e)
      with assms pk None l show ?thesis
        by (auto simp: approveSettlement_def bindIO_run ask_def quiet_call_def)
    next
      case (Inr n)
      with assms pk None l have
        "send_allowance S E opts pk (add_num n 200) (wl, tr @ [GetLatestLedger]) = (r, (w', tr'))"
        by (simp add: approveSettlement_def bindIO_run ask_def)
      from send_allowance_parts [OF this] show ?thesis
      proof (elim disjE exE conjE, goal_cases)
        case (1 cs e)
        then show ?case by (intro disjI1 exI [of _ "GetLatestLedger # cs"]) (simp add: quiet_call_def)
      next
        case (2 t st wx q wt)
        with pk None l show ?case by (intro disjI2 exI conjI) (assumption | simp)+
      qed
    qed
  qed
qed

text \<open>
  C9 (termination). \<open>approveSettlement\<close> always ends, and its result is the chain's verdict on the
  one transaction it submitted. Either it throws before submitting anything; or it submits once
  the owner's signature of the transaction it prepared, and a submission that throws or is
  rejected with \<open>ERROR\<close> is its error, with no lookup; or it looks up the hash of that very
  submission, at most 30 times, until one lookup throws (its error), says \<open>SUCCESS\<close> (it returns)
  or \<open>FAILED\<close> (an error), and after 30 undecided lookups it throws that it was not confirmed.
\<close>

theorem approveSettlement_confirmed:
  "approveSettlement S E opts (w, tr) = (r, (w', tr')) \<Longrightarrow>
   (\<exists>cs e. tr' = tr @ cs \<and> (\<forall>c\<in>set cs. \<not> is_submission c \<and> \<not> is_lookup c) \<and> r = Inl e) \<or>
   (\<exists>pk wa acc wp t p wx st q wt post.
      keypairOf S (ao_ownerSecret opts) = Inr pk \<and>
      wa = (case ao_liveUntilLedger opts of None \<Rightarrow> snd (e_getLatestLedger E w) | Some _ \<Rightarrow> w) \<and>
      e_getAccount E pk wa = (Inr acc, wp) \<and> tx_source t = acc \<and> tx_method t = ''approve'' \<and>
      newContract S (ao_payoutToken opts) = Inr (tx_contract t) \<and>
      e_prepareTransaction E (Built t) wp = (Inr p, wx) \<and> signWith S (ao_ownerSecret opts) p = Inr st \<and>
      e_sendTransaction E st wx = (q, wt) \<and>
      tr' = tr @ (case ao_liveUntilLedger opts of None \<Rightarrow> [GetLatestLedger] | Some _ \<Rightarrow> []) @
         [GetAccount pk, PrepareTransaction (Built t), SendTransaction st] @ post \<and>
      (case q of
         Inl e \<Rightarrow> r = Inl e \<and> post = []
       | Inr sent \<Rightarrow>
           if sent_status sent = ''ERROR''
           then r = Inl (Error ''approve submission failed: ERROR'') \<and> post = []
           else (\<exists>k<30. \<exists>v a. unanswered E 1000 (sent_hash sent) undecided k wt v \<and>
                   e_getTransaction E (sent_hash sent) v = (a, w') \<and>
                   post = concat (replicate k [GetTransaction (sent_hash sent), Sleep 1000]) @
                     [GetTransaction (sent_hash sent)] \<and>
                   (case a of Inl e \<Rightarrow> r = Inl e
                    | Inr g \<Rightarrow> if got_status g = ''SUCCESS'' then r = Inr ()
                        else got_status g = ''FAILED'' \<and>
                             r = Inl (Error ''approve transaction failed on-chain''))) \<or>
                (r = Inl (Error ''approve transaction was not confirmed in time'') \<and>
                   unanswered E 1000 (sent_hash sent) undecided 30 wt w' \<and>
                   post = concat (replicate 30 [GetTransaction (sent_hash sent), Sleep 1000]))))"
proof (drule approveSettlement_parts, elim disjE exE conjE, goal_cases)
  case 1
  then show ?case by (intro disjI1) (auto simp: quiet_call_def list_all_iff)
next
  case (2 pk t st wx q wt)
  then obtain wp p where a: "allowance_tx S E opts (live_state E opts w) pk t st wx"
    "e_getAccount E pk (live_state E opts w) = (Inr (tx_source t), wp)" "tx_method t = ''approve''"
    "newContract S (ao_payoutToken opts) = Inr (tx_contract t)"
    "e_prepareTransaction E (Built t) wp = (Inr p, wx)" "signWith S (ao_ownerSecret opts) p = Inr st"
    unfolding allowance_tx_def by blast
  have "\<exists>post. tr' = tr @ live_calls opts @ [GetAccount pk, PrepareTransaction (Built t), SendTransaction st] @ post \<and>
    (case q of Inl e \<Rightarrow> r = Inl e \<and> post = []
     | Inr sent \<Rightarrow> if sent_status sent = ''ERROR''
        then r = Inl (Error ''approve submission failed: ERROR'') \<and> post = []
        else confirmed E (sent_hash sent) 30 wt r w' post)"
    using 2(4) confirm_loop_calls [of 0]
    by (cases q) (fastforce split: if_splits)+
  then obtain post where "tr' = tr @ live_calls opts @
      [GetAccount pk, PrepareTransaction (Built t), SendTransaction st] @ post"
    "case q of Inl e \<Rightarrow> r = Inl e \<and> post = []
     | Inr sent \<Rightarrow> if sent_status sent = ''ERROR''
        then r = Inl (Error ''approve submission failed: ERROR'') \<and> post = []
        else confirmed E (sent_hash sent) 30 wt r w' post" by blast
  then show ?case
    unfolding confirmed_def verdict_def polls_def using 2(1,3) a by (intro disjI2 exI conjI) (assumption | rule refl)+
qed

definition sample_approval :: approve_opts where
  "sample_approval = \<lparr>ao_ownerSecret = ''S'', ao_payoutToken = ''CUSDC'', ao_amount = 5,
     ao_liveUntilLedger = Some (Fin 1200), ao_contractId = ''CCOUPON'', ao_networkPassphrase = ''net''\<rparr>"

theorem approveSettlement_confirmed_witness:
  "\<exists>w' tr' pre t. approveSettlement sample_stellar (sample_env None 1) sample_approval (0, []) =
     (Inr (), (w', tr')) \<and> 
     tr' = pre @ [SendTransaction t, GetTransaction ''h1'', Sleep 1000, GetTransaction ''h1'']"
proof -
  have "\<exists>w' tr'. approveSettlement sample_stellar (sample_env None 1) sample_approval (0, []) =
     (Inr (), (w', tr')) \<and> length tr' = 6"
    by (simp add: sample_simps sample_approval_def approveSettlement_def send_allowance_def args_of_def
        scAddr_def client_run_simps confirm_loop.simps)
  then obtain w' tr' where run: "approveSettlement sample_stellar (sample_env None 1) sample_approval (0, []) =
     (Inr (), (w', tr'))" "length tr' = 6" by blast
  from approveSettlement_confirmed [OF run(1)]
  obtain pk t st post k where "tr' = [GetAccount pk, PrepareTransaction (Built t), SendTransaction st] @ post"
    "post = concat (replicate k [GetTransaction ''h1'', Sleep 1000]) @ [GetTransaction ''h1'']"
    by (auto simp: sample_env_def sample_approval_def)
  with run show ?thesis by (cases k) auto
qed

end
