(* ===== verification/Js_Round.thy ===== *)
theory Js_Round
  imports Js_Number
begin

text \<open>
  How far a double is from the rational it rounds, and what that gives for a number of cents
  divided by 100 and printed with two decimals.
\<close>

lemma pow2_powi: "pow2 e = 2 powi e"
  by (simp add: pow2_def power_int_def field_simps power_one_over)

lemma pow2_pos [simp]: "0 < pow2 e"
  by (simp add: pow2_def)

lemma pow2_mono: "d \<le> e \<Longrightarrow> pow2 d \<le> pow2 e"
  by (simp add: pow2_powi power_int_increasing)

lemma pow2_less_iff: "pow2 d < pow2 e \<longleftrightarrow> d < e"
proof
  assume "pow2 d < pow2 e"
  then show "d < e" using pow2_mono [of e d] by (meson not_le)
next
  assume "d < e"
  then show "pow2 d < pow2 e" by (simp add: pow2_powi power_int_strict_increasing)
qed

lemma pow2_diff: "pow2 (d - int k) = pow2 d / 2 ^ k"
  by (simp add: pow2_powi power_int_diff)

lemma pow2_max: "pow2 (max d e) \<le> pow2 d + pow2 e"
  by (simp add: max_def less_imp_le)

lemma pow2_nat: "pow2 (int k) = 2 ^ k"
  by (simp add: pow2_def)

lemma exp2_le:
  assumes "0 < r"
  shows "pow2 (exp2 r) \<le> r"
proof -
  obtain p q where pq: "quotient_of r = (p, q)" by (cases "quotient_of r")
  then have q: "0 < q" and r: "r = of_int p / of_int q"
    using quotient_of_denom_pos quotient_of_div by blast+
  then have p: "0 < p" using assms by (simp add: zero_less_divide_iff)
  define a b where "a = nat (ilog2 p)" and "b = nat (ilog2 q)"
  have ab: "ilog2 p = int a" "ilog2 q = int b" by (simp_all add: a_def b_def ilog2_nonneg)
  have pa: "2 ^ a \<le> p" and qb: "q < 2 * 2 ^ b"
    using ilog2_bounds [OF p] ilog2_bounds [OF q] by (simp_all add: a_def b_def)
  have "(of_int (2 ^ a) :: rat) \<le> of_int p" "(of_int q :: rat) < of_int (2 * 2 ^ b)"
    using pa qb by (simp_all only: of_int_le_iff of_int_less_iff)
  then have "(2 :: rat) ^ a * of_int q \<le> of_int p * (2 * 2 ^ b)"
    using q p by (intro mult_mono) auto
  then have "(2 :: rat) ^ a / (2 * 2 ^ b) \<le> of_int p / of_int q"
    using q by (simp add: field_simps)
  moreover have "pow2 (int a - int b - 1) = (2 :: rat) ^ a / (2 * 2 ^ b)"
    using pow2_diff [of "int a" "Suc b"] by (simp add: pow2_nat algebra_simps)
  moreover have "exp2 r = (if pow2 (int a - int b) \<le> r then int a - int b else int a - int b - 1)"
    by (simp add: exp2_def pq ab)
  ultimately show ?thesis unfolding r by (auto split: if_splits)
qed

lemma round_even_close: "\<bar>of_int (round_even r) - r\<bar> \<le> 1 / 2"
proof -
  have "of_int \<lfloor>r\<rfloor> \<le> r" "r < of_int \<lfloor>r\<rfloor> + 1" by linarith+
  then show ?thesis by (auto simp: round_even_def Let_def abs_le_iff)
qed

lemma to_double_close:
  assumes "0 < r" and "r < 2 ^ 60"
  obtains x where "to_double r = Fin x" and "\<bar>x - r\<bar> \<le> r / 2 ^ 53 + 1 / 2 ^ 21"
proof -
  let ?e = "max (exp2 r - 52) (-1074)"
  let ?m = "round_even (r / pow2 ?e)"
  have "pow2 (exp2 r) < pow2 60" using exp2_le [OF assms(1)] assms(2) by (simp add: pow2_def)
  then have e: "?e < 971" by (simp add: pow2_less_iff)
  have "\<bar>of_int ?m - r / pow2 ?e\<bar> * pow2 ?e \<le> 1 / 2 * pow2 ?e"
    by (intro mult_right_mono round_even_close) (simp add: less_imp_le)
  moreover have "of_int ?m * pow2 ?e - r = (of_int ?m - r / pow2 ?e) * pow2 ?e"
    using pow2_pos [of ?e] by (simp add: left_diff_distrib less_imp_neq [symmetric])
  then have "\<bar>of_int ?m * pow2 ?e - r\<bar> = \<bar>of_int ?m - r / pow2 ?e\<bar> * pow2 ?e"
    by (simp only: abs_mult abs_of_pos [OF pow2_pos])
  ultimately have "\<bar>of_int ?m * pow2 ?e - r\<bar> \<le> pow2 ?e / 2" by linarith
  also have "\<dots> \<le> (pow2 (exp2 r - int 52) + pow2 (0 - int 20)) / 2"
    using pow2_max [of "exp2 r - 52" "- 1074"] pow2_mono [of "- 1074" "- 20"] by simp
  also have "\<dots> \<le> r / 2 ^ 53 + 1 / 2 ^ 21"
    unfolding pow2_diff using exp2_le [OF assms(1)] by (simp add: pow2_def field_simps)
  finally have "\<bar>of_int ?m * pow2 ?e - r\<bar> \<le> r / 2 ^ 53 + 1 / 2 ^ 21" .
  moreover have "to_double r = Fin (of_int ?m * pow2 ?e)"
  proof -
    have "\<not> (971 < ?e \<or> ?e = 971 \<and> 2 ^ 53 \<le> ?m)" using e by linarith
    moreover have "\<bar>r\<bar> = r" "r \<noteq> 0" "\<not> r < 0" using assms(1) by simp_all
    ultimately show ?thesis by (simp only: to_double_def Let_def if_False)
  qed
  ultimately show thesis by (rule that [rotated])
qed

text \<open>Hundredths are recovered from the double nearest to them.\<close>

lemma cents_recovered:
  assumes "0 \<le> n" and "n < 2 ^ 50"
  obtains x where "to_double (of_int n / 100) = Fin x" and "0 \<le> x" and "x < 2 ^ 50"
    and "\<lfloor>x * 100 + 1 / 2\<rfloor> = n"
proof (cases "n = 0")
  case True
  then have "to_double (of_int n / 100) = Fin 0" by (simp add: to_double_def)
  moreover have "\<lfloor>1 / 2 :: rat\<rfloor> = 0" by (simp add: floor_eq_iff)
  ultimately show thesis using True by (intro that [of 0]) simp_all
next
  case False
  let ?r = "of_int n / 100 :: rat"
  have n: "(1 :: rat) \<le> of_int n" "(of_int n :: rat) < 2 ^ 50"
    using False assms by (simp, metis of_int_less_iff of_int_numeral of_int_power)
  then obtain x where x: "to_double ?r = Fin x" "\<bar>x - ?r\<bar> \<le> ?r / 2 ^ 53 + 1 / 2 ^ 21"
    using to_double_close [of ?r] by auto
  have "(1 :: rat) / 2 ^ 21 \<le> 1 / 1000" by simp
  moreover have "?r / 2 ^ 53 \<le> 1 / 800" using n by simp
  ultimately have "\<bar>x - ?r\<bar> < 1 / 200" using x(2) by linarith
  then have d: "x - ?r < 1 / 200" "?r - x < 1 / 200" by linarith+
  have "of_int n < x * 100 + 1 / 2" "x * 100 + 1 / 2 < of_int n + 1" using d by linarith+
  moreover have "0 < x" using d(2) n(1) by linarith
  moreover have "x < 2 ^ 50" using d(1) n by simp
  moreover have "\<lfloor>x * 100 + 1 / 2\<rfloor> = n" using calculation(1,2) by (intro floor_unique) auto
  ultimately show thesis using x(1) by (intro that [of x]) auto
qed

definition two_digits :: "int \<Rightarrow> string" where
  "two_digits k = [dig (k div 10), dig (k mod 10)]"

lemma mod_mult2_eq_10: "n mod 100 div 10 = n div 10 mod (10 :: int)"
proof -
  have "n mod (10 * 10) = 10 * (n div 10 mod 10) + n mod 10" by (rule zmod_zmult2_eq) simp
  then have "n mod 100 = 10 * (n div 10 mod 10) + n mod 10" by simp
  then show ?thesis by simp
qed

lemma dig_0: "dig 0 = CHR ''0''"
  by (simp add: dig_def)

lemma replicate_2: "replicate 2 c = [c, c]"
  by (simp add: numeral_2_eq_2)

lemma toFixed_cents:
  assumes "0 \<le> n" and "n < 2 ^ 50"
  shows "toFixed 2 (to_double (of_int n / 100)) = dec (n div 100) @ ''.'' @ two_digits (n mod 100)"
proof -
  obtain x where x: "to_double (of_int n / 100) = Fin x" "0 \<le> x" "x < 2 ^ 50"
    "\<lfloor>x * 100 + 1 / 2\<rfloor> = n" using cents_recovered [OF assms] by blast
  let ?s = "padStart (dec n) 3 (CHR ''0'')"
  have "?s = dec (n div 100) @ two_digits (n mod 100)"
  proof (cases "n < 100")
    case True
    show ?thesis
    proof (cases "n < 10")
      case True
      with assms show ?thesis
        by (simp add: padStart_def dec_small two_digits_def dig_0 replicate_2)
    next
      case False
      have "dec n = [dig (n div 10), dig (n mod 10)]"
        using dec_step [of n] dec_small [of "n div 10"] True False by simp
      with True False assms show ?thesis
        by (simp add: padStart_def dec_small two_digits_def dig_0)
    qed
  next
    case False
    then have "10 \<le> n" "10 \<le> n div 10" by simp_all
    then have "dec n = (dec (n div 10 div 10) @ [dig (n div 10 mod 10)]) @ [dig (n mod 10)]"
      using dec_step by metis
    moreover have "n div 10 div 10 = n div 100" by (simp add: div_mult2_eq' [symmetric])
    moreover have "n mod 100 div 10 = n div 10 mod 10" by (simp add: mod_mult2_eq_10)
    moreover have "n mod 100 mod 10 = n mod 10" by (simp add: mod_mod_cancel)
    ultimately have "dec n = dec (n div 100) @ two_digits (n mod 100)"
      by (simp only: two_digits_def append_assoc append_Cons append_Nil)
    moreover have "dec (n div 100) \<noteq> []" by (rule dec_not_Nil)
    ultimately show ?thesis by (cases "dec (n div 100)") (simp_all add: padStart_def two_digits_def)
  qed
  moreover have "\<not> 10 ^ 21 \<le> \<bar>x\<bar>" using x(2,3) by simp
  ultimately show ?thesis
    using x by (simp add: toFixed_def Let_def two_digits_def)
qed

end
