(* ===== verification/Play_Data.thy ===== *)
theory Play_Data
  imports Js_Round Sdk_Codec
begin

text \<open>
  The playground's data layer (\<open>web/src/data.js\<close>): network constants, the truncation of long
  values, the nonce and the commitment of a redemption, the formats of discounts and times, the
  table of contract errors and the generators of the code snippets, text for text.

  \<open>date_ms\<close> stands for \<open>new Date(text).getTime()\<close>, which depends on the local time zone; random
  bytes, the text encoder and the digest of WebCrypto are arguments, absent where the browser has
  none.
\<close>

section \<open>Constants\<close>

definition nl :: string where "nl = [CHR 0x0A]"

definition lines_of :: "string list \<Rightarrow> string" where \<comment> \<open>\<open>[...].join("\n")\<close>\<close>
  "lines_of ls = join nl ls"

definition or_text :: "string \<Rightarrow> string \<Rightarrow> string" where \<comment> \<open>\<open>s || d\<close>\<close>
  "or_text s d = (if s = [] then d else s)"

definition net_network :: string where "net_network = ''testnet''"
definition net_passphrase :: string where "net_passphrase = ''Test SDF Network ; September 2015''"
definition net_rpc :: string where "net_rpc = ''https://soroban-testnet.stellar.org''"
definition net_contractId :: string where
  "net_contractId = ''CCXNPRC4C2DX2W7Z2AW35NC6WORZPTI5JWJCTQIVRJ2FLMI3ZZ32MKRF''"
definition net_ownerWallet :: string where
  "net_ownerWallet = ''GCIJM67CD2U6XPI5GYS5VYSNIYOKLH7DZ4XA3W45PID7DYCRYFTRDSV6''"
definition net_explorer :: string where
  "net_explorer = ''https://stellar.expert/explorer/testnet''"

definition ZERO32 :: string where "ZERO32 = replicate 64 (CHR ''0'')"

section \<open>Truncation\<close>

definition trunc :: "nat \<Rightarrow> nat \<Rightarrow> string \<Rightarrow> string" where
  "trunc head tail s =
     (if s = [] \<or> length s \<le> head + tail + 1 then s
      else take head s @ [CHR 0x85] @ slice_last s tail)"

section \<open>Nonce and commitment\<close>

definition randomNonce :: "byte list option \<Rightarrow> string js" where \<comment> \<open>of the 16 random bytes drawn\<close>
  "randomNonce random =
     (case random of
        None \<Rightarrow> Inl (Error ''Secure randomness is unavailable in this browser context.'')
      | Some a \<Rightarrow> Inr (concat (map (\<lambda>b. padStart (radix_str 16 (uint b)) 2 (CHR ''0'')) a)))"

definition redeemerHash ::
  "(string \<Rightarrow> byte list) \<Rightarrow> (byte list \<Rightarrow> byte list) option \<Rightarrow> byte list option \<Rightarrow> string \<Rightarrow> string
   \<Rightarrow> string js" where
  "redeemerHash encode sha256 random ref salt =
     bindR (if salt \<noteq> [] then Inr salt else randomNonce random) (\<lambda>s.
     let data = encode (s @ ''|'' @ ref) in
     case sha256 of
       None \<Rightarrow> Inl (Error ''WebCrypto SHA-256 is unavailable in this browser context.'')
     | Some digest \<Rightarrow>
         Inr (concat (map (\<lambda>b. padStart (radix_str 16 (uint b)) 2 (CHR ''0'')) (digest data))))"

section \<open>Discounts and times\<close>

fun jdiv :: "jnum \<Rightarrow> rat \<Rightarrow> jnum" where \<comment> \<open>\<open>x / d\<close>, for a positive \<open>d\<close>\<close>
  "jdiv (Fin r) d = to_double (r / d)"
| "jdiv x d = x"

fun jfloor :: "jnum \<Rightarrow> jnum" where \<comment> \<open>\<open>Math.floor(x)\<close>\<close>
  "jfloor (Fin r) = Fin (of_int \<lfloor>r\<rfloor>)"
| "jfloor x = x"

definition fmtDiscount :: "string \<Rightarrow> jval \<Rightarrow> string" where
  "fmtDiscount type valueCents =
     (let v = num_or (js_Number valueCents) (Fin 0) in
      if type = ''percentage'' then toFixed 2 (jdiv v 100) @ ''%''
      else if type = ''fixed_amount'' then ''$'' @ toFixed 2 (jdiv v 100)
      else ''Free item'')"

definition DISCOUNT_LABEL :: "string \<Rightarrow> string option" where
  "DISCOUNT_LABEL = map_of
     [(''percentage'', ''Percentage''), (''fixed_amount'', ''Fixed amount''),
      (''free_item'', ''Free item'')]"

definition unix :: "(string \<Rightarrow> jnum) \<Rightarrow> string \<Rightarrow> jnum" where
  "unix date_ms dt = jfloor (jdiv (date_ms dt) 1000)"

definition nowUnix :: "jnum \<Rightarrow> jnum" where \<comment> \<open>of \<open>Date.now()\<close>\<close>
  "nowUnix now_ms = jfloor (jdiv now_ms 1000)"

text \<open>\<open>Date.prototype.toISOString\<close>: the proleptic Gregorian date of a number of days since 1970.\<close>

definition civil :: "int \<Rightarrow> int \<times> int \<times> int" where
  "civil days =
     (let z = days + 719468; era = z div 146097; doe = z mod 146097;
          yoe = (doe - doe div 1460 + doe div 36524 - doe div 146096) div 365;
          doy = doe - (365 * yoe + yoe div 4 - yoe div 100);
          mp = (5 * doy + 2) div 153; d = doy - (153 * mp + 2) div 5 + 1;
          m = (if mp < 10 then mp + 3 else mp - 9)
      in (yoe + era * 400 + (if m \<le> 2 then 1 else 0), m, d))"

definition pad0 :: "nat \<Rightarrow> int \<Rightarrow> string" where
  "pad0 k n = padStart (dec n) k (CHR ''0'')"

definition iso_year :: "int \<Rightarrow> string" where
  "iso_year y = (if 0 \<le> y \<and> y \<le> 9999 then pad0 4 y
                 else (if y < 0 then ''-'' else ''+'') @ pad0 6 \<bar>y\<bar>)"

definition toISOString :: "int \<Rightarrow> string js" where \<comment> \<open>of a time value in milliseconds\<close>
  "toISOString t =
     (if \<bar>t\<bar> > 8640000000000000 then Inl (RangeError ''Invalid time value'')
      else
        let day = t div 86400000; ms = t mod 86400000; (y, m, d) = civil day
        in Inr (iso_year y @ ''-'' @ pad0 2 m @ ''-'' @ pad0 2 d @ ''T'' @ pad0 2 (ms div 3600000)
                @ '':'' @ pad0 2 (ms div 60000 mod 60) @ '':'' @ pad0 2 (ms div 1000 mod 60) @ ''.''
                @ pad0 3 (ms mod 1000) @ ''Z''))"

definition time_value :: "jnum \<Rightarrow> int option" where \<comment> \<open>of \<open>new Date(x)\<close>: truncated, or invalid\<close>
  "time_value x = (case x of Fin r \<Rightarrow> Some (if r < 0 then - \<lfloor>- r\<rfloor> else \<lfloor>r\<rfloor>) | _ \<Rightarrow> None)"

fun replace_first :: "char \<Rightarrow> char \<Rightarrow> string \<Rightarrow> string" where \<comment> \<open>\<open>s.replace("T", " ")\<close>\<close>
  "replace_first a b [] = []"
| "replace_first a b (c # s) = (if c = a then b # s else c # replace_first a b s)"

fun jmul1000 :: "jnum \<Rightarrow> jnum" where
  "jmul1000 (Fin r) = to_double (r * 1000)"
| "jmul1000 x = x"

definition fmtTs :: "jnum \<Rightarrow> string js" where
  "fmtTs u =
     (if u = NaN \<or> u = Fin 0 then Inr [CHR 0x97]
      else
        bindR (case time_value (jmul1000 u) of
                 None \<Rightarrow> Inl (RangeError ''Invalid time value'')
               | Some t \<Rightarrow> toISOString t) (\<lambda>s.
        Inr (take 19 (replace_first (CHR ''T'') (CHR '' '') s) @ ''Z'')))"

section \<open>The table of contract errors\<close>

definition ERRORS :: \<open>(string \<times> sd) list\<close> where
  \<open>ERRORS =
    [(''CampaignNotFound'', \<lparr>sd_title = ''Campaign not found'', sd_msg = ''No campaign exists with that ID on this contract.'', sd_code = Num 1\<rparr>),
     (''CouponNotFound'', \<lparr>sd_title = ''Code not found'', sd_msg = ''No coupon with that code has been issued.'', sd_code = Num 2\<rparr>),
     (''AlreadyRedeemed'', \<lparr>sd_title = ''Already redeemed'', sd_msg = ''This code was already redeemed '' @ [CHR 0x97] @ '' single-use codes can only be burned once.'', sd_code = Num 3\<rparr>),
     (''CampaignExpired'', \<lparr>sd_title = ''Campaign expired'', sd_msg = ''This campaign is past its valid-until date and can no longer be redeemed.'', sd_code = Num 4\<rparr>),
     (''SupplyExhausted'', \<lparr>sd_title = ''Supply exhausted'', sd_msg = ''Issuing these codes would exceed the campaign'' @ [CHR 0x27] @ ''s total supply.'', sd_code = Num 5\<rparr>),
     (''Unauthorized'', \<lparr>sd_title = ''Unauthorized'', sd_msg = ''Only the campaign owner (or a delegate) can do this.'', sd_code = Num 6\<rparr>),
     (''InvalidCode'', \<lparr>sd_title = ''Invalid code'', sd_msg = ''Provide at least one non-empty coupon code.'', sd_code = Num 7\<rparr>),
     (''DuplicateCode'', \<lparr>sd_title = ''Duplicate code'', sd_msg = ''That code was already issued in this campaign '' @ [CHR 0x97] @ '' codes are unique per campaign.'', sd_code = Num 8\<rparr>),
     (''InvalidTerms'', \<lparr>sd_title = ''Invalid terms'', sd_msg = ''Supply must be > 0, expiry must be in the future, name must be 1'' @ [CHR 0x96] @ ''96 UTF-8 bytes, and discount type must be 1'' @ [CHR 0x96] @ ''32 UTF-8 bytes.'', sd_code = Num 9\<rparr>),
     (''BatchTooLarge'', \<lparr>sd_title = ''Batch too large'', sd_msg = ''Issue at most 100 codes per call.'', sd_code = Num 10\<rparr>),
     (''CodeTooLong'', \<lparr>sd_title = ''Code too long'', sd_msg = ''Coupon codes can be at most 64 UTF-8 bytes.'', sd_code = Num 11\<rparr>),
     (''SharedNotFound'', \<lparr>sd_title = ''Shared code not found'', sd_msg = ''No shared code is registered with that name in this campaign.'', sd_code = Num 12\<rparr>),
     (''AlreadyRegistered'', \<lparr>sd_title = ''Already registered'', sd_msg = ''That shared code is already registered in this campaign.'', sd_code = Num 13\<rparr>),
     (''PeriodCommitted'', \<lparr>sd_title = ''Period already committed'', sd_msg = ''A tally for this period was already committed '' @ [CHR 0x97] @ '' commitments are append-only.'', sd_code = Num 14\<rparr>),
     (''TallyNotFound'', \<lparr>sd_title = ''Tally not found'', sd_msg = ''No tally has been committed for that code and period.'', sd_code = Num 15\<rparr>),
     (''AlreadySettled'', \<lparr>sd_title = ''Already settled'', sd_msg = ''This tally period was already settled.'', sd_code = Num 16\<rparr>),
     (''InvalidTally'', \<lparr>sd_title = ''Invalid tally'', sd_msg = ''For an attributed code, the attributed count must equal the committed total.'', sd_code = Num 17\<rparr>),
     (''InvalidSettlement'', \<lparr>sd_title = ''Invalid settlement'', sd_msg = ''Inconsistent settlement config: a payout token requires rate > 0, no token requires rate 0, and an unattributed code can'' @ [CHR 0x27] @ ''t set a payout token (or the amount overflowed).'', sd_code = Num 18\<rparr>),
     (''AttributionMismatch'', \<lparr>sd_title = ''Attribution mismatch'', sd_msg = ''An attributed code can only credit its registered creator/referrer; an unattributed code can'' @ [CHR 0x27] @ ''t carry per-attribution counts.'', sd_code = Num 19\<rparr>)]\<close>

section \<open>Snippets\<close>

record campaign_form =
  cf_name :: string
  cf_discount_type :: string
  cf_discount_value :: string
  cf_total_supply :: string
  cf_valid_until :: string

record snippet =
  sn_cli :: string
  sn_ts :: string
  sn_go :: string

definition quoted :: \<open>string list \<Rightarrow> string\<close> where
  \<open>quoted codes = join '', '' (map (\<lambda>c. ''"'' @ c @ ''"'') codes)\<close>

definition tsHeader :: \<open>string\<close> where
  \<open>tsHeader =
     lines_of
      [''import {'',
       ''  Contract, Keypair, TransactionBuilder, nativeToScVal, scValToNative,'',
       ''  rpc, Networks, BASE_FEE,'',
       ''} from "@stellar/stellar-sdk";'',
       [],
       ''const ownerKeypair = Keypair.fromSecret(process.env.SOROTICKET_SECRET);'',
       ''const owner = ownerKeypair.publicKey();'',
       ''const server = new rpc.Server("'' @ net_rpc @ ''");'',
       ''const contract = new Contract("'' @ net_contractId @ ''");'',
       ''const source = await server.getAccount(owner);'',
       []]\<close>

definition goHeader :: \<open>string\<close> where
  \<open>goHeader =
     lines_of
      [''// go get github.com/soroticket/soroticket-go'',
       ''kp := keypair.MustParseFull(os.Getenv("SOROTICKET_SECRET"))'',
       ''// Testnet preset: current v0.2.0 testnet deployment.'',
       ''client, err := soroticket.Testnet(kp)'',
       ''if err != nil { return err }'',
       ''defer client.Close()'',
       []]\<close>

definition tsInvoke :: \<open>string \<Rightarrow> string list \<Rightarrow> string\<close> where
  \<open>tsInvoke meth argsLines =
     concat
      ([tsHeader,
        ''const tx = new TransactionBuilder(source, {'' @ [CHR 0x0A],
        ''  fee: BASE_FEE,'' @ [CHR 0x0A],
        ''  networkPassphrase: Networks.TESTNET,'' @ [CHR 0x0A],
        ''})'' @ [CHR 0x0A],
        ''  .addOperation(contract.call('' @ [CHR 0x0A],
        ''    "'' @ meth @ ''",'' @ [CHR 0x0A]] @
       [join nl (map (\<lambda>l. ''    '' @ l) argsLines) @ (if argsLines = [] then [] else nl)] @
       [''  ))'' @ [CHR 0x0A],
        ''  .setTimeout(30)'' @ [CHR 0x0A],
        ''  .build();'' @ [CHR 0x0A] @ [CHR 0x0A],
        ''const prepared = await server.prepareTransaction(tx);'' @ [CHR 0x0A],
        ''prepared.sign(ownerKeypair);'' @ [CHR 0x0A],
        ''const submitted = await server.sendTransaction(prepared);'' @ [CHR 0x0A],
        ''if (submitted.status === "ERROR") throw new Error("transaction rejected");'' @ [CHR 0x0A],
        ''let result;'' @ [CHR 0x0A],
        ''do {'' @ [CHR 0x0A],
        ''  await new Promise((resolve) => setTimeout(resolve, 1000));'' @ [CHR 0x0A],
        ''  result = await server.getTransaction(submitted.hash);'' @ [CHR 0x0A],
        ''} while (result.status === "NOT_FOUND");'' @ [CHR 0x0A],
        ''if (result.status !== "SUCCESS") throw new Error("transaction failed");'' @ [CHR 0x0A],
        ''console.log(scValToNative(result.returnValue));''])\<close>

definition create_cli :: \<open>(string \<Rightarrow> jnum) \<Rightarrow> campaign_form \<Rightarrow> string\<close> where
  \<open>create_cli date_ms f =
     (let validUntil = (if cf_valid_until f \<noteq> [] then num_str (unix date_ms (cf_valid_until f))
                        else ''VALID_UNTIL_UNIX'') in
     lines_of
      [''stellar contract invoke '' @ [CHR 0x5C],
       ''  --id '' @ net_contractId @ '' '' @ [CHR 0x5C],
       ''  --source owner '' @ [CHR 0x5C],
       ''  --network testnet '' @ [CHR 0x5C],
       ''  -- create_campaign '' @ [CHR 0x5C],
       ''  --owner '' @ net_ownerWallet @ '' '' @ [CHR 0x5C],
       ''  --name '' @ [CHR 0x27] @ or_text (cf_name f) ''Demo Cafe'' @ [CHR 0x27] @ '' '' @ [CHR 0x5C],
       ''  --discount_type '' @ cf_discount_type f @ '' '' @ [CHR 0x5C],
       ''  --discount_value '' @ or_text (cf_discount_value f) ''1000'' @ '' '' @ [CHR 0x5C],
       ''  --total_supply '' @ or_text (cf_total_supply f) ''100'' @ '' '' @ [CHR 0x5C],
       ''  --valid_until '' @ validUntil])\<close>

definition create_ts :: \<open>(string \<Rightarrow> jnum) \<Rightarrow> campaign_form \<Rightarrow> string\<close> where
  \<open>create_ts date_ms f =
     (let validUntil = (if cf_valid_until f \<noteq> [] then num_str (unix date_ms (cf_valid_until f))
                        else ''VALID_UNTIL_UNIX'') in
     tsInvoke ''create_campaign''
      [''nativeToScVal(owner, { type: "address" }),'',
       ''nativeToScVal("'' @ or_text (cf_name f) ''Demo Cafe'' @ ''", { type: "string" }),'',
       ''nativeToScVal("'' @ cf_discount_type f @ ''", { type: "string" }),'',
       ''nativeToScVal('' @ or_text (cf_discount_value f) ''1000'' @ ''n, { type: "u64" }),'',
       ''nativeToScVal('' @ or_text (cf_total_supply f) ''100'' @ '', { type: "u32" }),'',
       ''nativeToScVal('' @ validUntil @ ''n, { type: "u64" }),''])\<close>

definition create_go :: \<open>(string \<Rightarrow> jnum) \<Rightarrow> campaign_form \<Rightarrow> string\<close> where
  \<open>create_go date_ms f =
     (let validUntil = (if cf_valid_until f \<noteq> [] then num_str (unix date_ms (cf_valid_until f))
                        else ''VALID_UNTIL_UNIX'') in
     goHeader @ lines_of
      [''campaignID, err := client.CreateCampaign(ctx,'',
       ''    "'' @ or_text (cf_name f) ''Demo Cafe'' @ ''", "'' @ cf_discount_type f @ ''",'',
       ''    '' @ or_text (cf_discount_value f) ''1000'' @ '', '' @ or_text (cf_total_supply f) ''100'' @ '', '' @ validUntil @ '')'',
       ''if err != nil { return err }'',
       ''log.Printf("campaign_id = %d", campaignID)''])\<close>

definition snip_create_campaign :: \<open>(string \<Rightarrow> jnum) \<Rightarrow> campaign_form \<Rightarrow> snippet\<close> where
  \<open>snip_create_campaign date_ms f =
     \<lparr>sn_cli = create_cli date_ms f, sn_ts = create_ts date_ms f, sn_go = create_go date_ms f\<rparr>\<close>

definition issue_cli :: \<open>string \<Rightarrow> string list \<Rightarrow> string\<close> where
  \<open>issue_cli cid0 codes0 =
     (let codes = (if codes0 \<noteq> [] then codes0 else [''DEMO0003'', ''DEMO0004'']) in
     lines_of
      [''stellar contract invoke '' @ [CHR 0x5C],
       ''  --id '' @ net_contractId @ '' '' @ [CHR 0x5C],
       ''  --source owner '' @ [CHR 0x5C],
       ''  --network testnet '' @ [CHR 0x5C],
       ''  -- issue_unique '' @ [CHR 0x5C],
       ''  --owner '' @ net_ownerWallet @ '' '' @ [CHR 0x5C],
       ''  --campaign_id '' @ or_text cid0 ''1'' @ '' '' @ [CHR 0x5C],
       ''  --codes '' @ [CHR 0x27] @ ''['' @ quoted codes @ '']'' @ [CHR 0x27]])\<close>

definition issue_ts :: \<open>string \<Rightarrow> string list \<Rightarrow> string\<close> where
  \<open>issue_ts cid0 codes0 =
     (let codes = (if codes0 \<noteq> [] then codes0 else [''DEMO0003'', ''DEMO0004'']) in
     tsInvoke ''issue_unique''
      [''nativeToScVal(owner, { type: "address" }),'',
       ''nativeToScVal('' @ or_text cid0 ''1'' @ ''n, { type: "u64" }),'',
       ''nativeToScVal('',
       ''  ['' @ quoted codes @ ''].map(c =>'',
       ''    nativeToScVal(c, { type: "string" })), { type: "vec" }),''])\<close>

definition issue_go :: \<open>string \<Rightarrow> string list \<Rightarrow> string\<close> where
  \<open>issue_go cid0 codes0 =
     (let codes = (if codes0 \<noteq> [] then codes0 else [''DEMO0003'', ''DEMO0004'']) in
     goHeader @ lines_of
      [''tokenIDs, err := client.IssueUnique(ctx, '' @ or_text cid0 ''1'' @ '','',
       ''    []string{'' @ quoted codes @ ''})'',
       ''if err != nil { return err }'',
       ''log.Printf("issued token_ids = %v", tokenIDs)''])\<close>

definition snip_issue_unique :: \<open>string \<Rightarrow> string list \<Rightarrow> snippet\<close> where
  \<open>snip_issue_unique cid0 codes0 =
     \<lparr>sn_cli = issue_cli cid0 codes0, sn_ts = issue_ts cid0 codes0, sn_go = issue_go cid0 codes0\<rparr>\<close>

definition redeem_cli :: \<open>string \<Rightarrow> string \<Rightarrow> string \<Rightarrow> string\<close> where
  \<open>redeem_cli cid0 code0 hash =
     (let code = or_text code0 ''DEMO0001''; cid = or_text cid0 ''1'' in
     lines_of
      [''# redeemer_ref_hash = SHA-256(random nonce '' @ [CHR 0x81] @ '' reference), computed off-chain.'',
       ''stellar contract invoke '' @ [CHR 0x5C],
       ''  --id '' @ net_contractId @ '' '' @ [CHR 0x5C],
       ''  --source authorizer '' @ [CHR 0x5C],
       ''  --network testnet '' @ [CHR 0x5C],
       ''  -- redeem_unique '' @ [CHR 0x5C],
       ''  --authorizer '' @ net_ownerWallet @ '' '' @ [CHR 0x5C],
       ''  --campaign_id '' @ cid @ '' '' @ [CHR 0x5C],
       ''  --code "'' @ code @ ''" '' @ [CHR 0x5C],
       ''  --redeemer_ref_hash '' @ or_text hash ''<64-hex commitment>''])\<close>

definition redeem_ts :: \<open>string \<Rightarrow> string \<Rightarrow> string \<Rightarrow> string\<close> where
  \<open>redeem_ts cid0 code0 hash =
     (let code = or_text code0 ''DEMO0001''; cid = or_text cid0 ''1'' in
     concat
      [''// Commit the redeemer ref off-chain '' @ [CHR 0x97] @ '' random nonce, no PII on-chain (ADR-010).'' @ [CHR 0x0A],
       ''const nonce = crypto.getRandomValues(new Uint8Array(16));'' @ [CHR 0x0A],
       ''const enc = new TextEncoder().encode('' @ [CHR 0x0A],
       ''  [...nonce].map(b => b.toString(16).padStart(2,"0")).join("") + "|" + redeemerRef);'' @ [CHR 0x0A],
       ''const refHash = Buffer.from(await crypto.subtle.digest("SHA-256", enc)); // 32 bytes'' @ [CHR 0x0A] @ [CHR 0x0A]] @
     tsInvoke ''redeem_unique''
      [''nativeToScVal(authorizer, { type: "address" }),'',
       ''nativeToScVal('' @ cid @ ''n, { type: "u64" }),'',
       ''nativeToScVal("'' @ code @ ''", { type: "string" }),'',
       ''nativeToScVal(refHash, { type: "bytes" }),''])\<close>

definition redeem_go :: \<open>string \<Rightarrow> string \<Rightarrow> string \<Rightarrow> string\<close> where
  \<open>redeem_go cid0 code0 hash =
     (let code = or_text code0 ''DEMO0001''; cid = or_text cid0 ''1'' in
     goHeader @ lines_of
      [''// Randomized commitment '' @ [CHR 0x97] @ '' never plaintext PII on-chain (ADR-010).'',
       ''commitment, nonce, err := soroticket.RedeemerCommitment(redeemerRef)'',
       ''if err != nil { return err }'',
       ''_ = nonce // store off-chain only if later proof is required'',
       [],
       ''receipt, err := client.RedeemUnique(ctx, '' @ cid @ '', "'' @ code @ ''", commitment)'',
       ''if err != nil { return err }'',
       ''log.Printf("burned token=%d ledger=%d", receipt.TokenID, receipt.LedgerSeq)''])\<close>

definition snip_redeem_unique :: \<open>string \<Rightarrow> string \<Rightarrow> string \<Rightarrow> snippet\<close> where
  \<open>snip_redeem_unique cid0 code0 hash =
     \<lparr>sn_cli = redeem_cli cid0 code0 hash, sn_ts = redeem_ts cid0 code0 hash, sn_go = redeem_go cid0 code0 hash\<rparr>\<close>

definition verify_cli :: \<open>string \<Rightarrow> string \<Rightarrow> string\<close> where
  \<open>verify_cli cid0 code0 =
     (let code = or_text code0 ''DEMO0001''; cid = or_text cid0 ''1'' in
     lines_of
      [''# Public read '' @ [CHR 0x97] @ '' no wallet, no signature required.'',
       ''stellar contract invoke '' @ [CHR 0x5C],
       ''  --id '' @ net_contractId @ '' '' @ [CHR 0x5C],
       ''  --source any '' @ [CHR 0x5C],
       ''  --network testnet '' @ [CHR 0x5C],
       ''  -- verify '' @ [CHR 0x5C],
       ''  --campaign_id '' @ cid @ '' '' @ [CHR 0x5C],
       ''  --code "'' @ code @ ''"''])\<close>

definition verify_ts :: \<open>string \<Rightarrow> string \<Rightarrow> string\<close> where
  \<open>verify_ts cid0 code0 =
     (let code = or_text code0 ''DEMO0001''; cid = or_text cid0 ''1'' in
     concat
      [''import { Contract, rpc, scValToNative, nativeToScVal } from "@stellar/stellar-sdk";'' @ [CHR 0x0A] @ [CHR 0x0A],
       ''const server = new rpc.Server("'' @ net_rpc @ ''");'' @ [CHR 0x0A],
       ''const contract = new Contract("'' @ net_contractId @ ''");'' @ [CHR 0x0A] @ [CHR 0x0A],
       ''// verify() is read-only '' @ [CHR 0x97] @ '' simulate, no signing needed.'' @ [CHR 0x0A],
       ''const sim = await server.simulateTransaction('' @ [CHR 0x0A],
       ''  buildReadTx(contract.call("verify",'' @ [CHR 0x0A],
       ''    nativeToScVal('' @ cid @ ''n, { type: "u64" }),'' @ [CHR 0x0A],
       ''    nativeToScVal("'' @ code @ ''", { type: "string" }))));'' @ [CHR 0x0A],
       ''const token = scValToNative(sim.result.retval);'' @ [CHR 0x0A],
       ''console.log(token.is_burned ? "BURNED" : "VALID");''])\<close>

definition verify_go :: \<open>string \<Rightarrow> string \<Rightarrow> string\<close> where
  \<open>verify_go cid0 code0 =
     (let code = or_text code0 ''DEMO0001''; cid = or_text cid0 ''1'' in
     goHeader @ lines_of
      [''// Read-only '' @ [CHR 0x97] @ '' simulate against the RPC, no signature.'',
       ''token, err := client.Verify(ctx, '' @ cid @ '', "'' @ code @ ''")'',
       ''if err != nil { return err }'',
       ''if token.IsBurned {'',
       ''    log.Printf("BURNED, ref=%x", token.RedeemerRef)'',
       ''} else {'',
       ''    log.Printf("VALID '' @ [CHR 0x97] @ '' token %d", token.TokenID)'',
       ''}''])\<close>

definition snip_verify :: \<open>string \<Rightarrow> string \<Rightarrow> snippet\<close> where
  \<open>snip_verify cid0 code0 =
     \<lparr>sn_cli = verify_cli cid0 code0, sn_ts = verify_ts cid0 code0, sn_go = verify_go cid0 code0\<rparr>\<close>

definition delegate_cli :: \<open>string \<Rightarrow> string \<Rightarrow> string\<close> where
  \<open>delegate_cli cid0 who =
     lines_of
      [''stellar contract invoke '' @ [CHR 0x5C],
       ''  --id '' @ net_contractId @ '' '' @ [CHR 0x5C],
       ''  --source owner '' @ [CHR 0x5C],
       ''  --network testnet '' @ [CHR 0x5C],
       ''  -- add_delegate '' @ [CHR 0x5C],
       ''  --owner '' @ net_ownerWallet @ '' '' @ [CHR 0x5C],
       ''  --campaign_id '' @ or_text cid0 ''1'' @ '' '' @ [CHR 0x5C],
       ''  --delegate '' @ or_text who (''G'' @ [CHR 0x85])]\<close>

definition delegate_ts :: \<open>string \<Rightarrow> string \<Rightarrow> string\<close> where
  \<open>delegate_ts cid0 who =
     tsInvoke ''add_delegate''
      [''nativeToScVal(owner, { type: "address" }),'',
       ''nativeToScVal('' @ or_text cid0 ''1'' @ ''n, { type: "u64" }),'',
       ''nativeToScVal("'' @ or_text who (''G'' @ [CHR 0x85]) @ ''", { type: "address" }),'']\<close>

definition delegate_go :: \<open>string \<Rightarrow> string \<Rightarrow> string\<close> where
  \<open>delegate_go cid0 who =
     goHeader @ lines_of
      [''err := client.AddDelegate(ctx, '' @ or_text cid0 ''1'' @ '', "'' @ or_text who (''G'' @ [CHR 0x85]) @ ''")'']\<close>

definition snip_add_delegate :: \<open>string \<Rightarrow> string \<Rightarrow> snippet\<close> where
  \<open>snip_add_delegate cid0 who =
     \<lparr>sn_cli = delegate_cli cid0 who, sn_ts = delegate_ts cid0 who, sn_go = delegate_go cid0 who\<rparr>\<close>


section \<open>Correctness of the data layer\<close>

lemma hex_text: "concat (map (\<lambda>b. padStart (radix_str 16 (uint b)) 2 (CHR ''0'')) bs) = hex_of_bytes bs"
  using randomNonceHex_eq [of bs] by (simp add: randomNonceHex_def)

lemma fmtDiscount_cents:
  assumes "0 \<le> n" and "n < 2 ^ 50"
  shows "toFixed 2 (jdiv (num_or (js_Number (JStr (int_str n))) (Fin 0)) 100) =
    dec (n div 100) @ ''.'' @ two_digits (n mod 100)"
proof -
  have "js_Number (JStr (int_str n)) = Fin (of_int n)" using assms by simp
  then have "jdiv (num_or (js_Number (JStr (int_str n))) (Fin 0)) 100 = to_double (of_int n / 100)"
    by simp
  with toFixed_cents [OF assms] show ?thesis by simp
qed

text \<open>
  A discount is displayed to the exact hundredth: for every value of hundredths below
  \<open>2 ^ 50\<close> typed in the form, the percentage and the amount shown are the quotient and the two digits
  of the remainder by 100, although the division is done in floating point.
\<close>

theorem fmtDiscount_exact:
  "0 \<le> n \<Longrightarrow> n < 2 ^ 50 \<Longrightarrow>
   fmtDiscount ''percentage'' (JStr (int_str n)) = dec (n div 100) @ ''.'' @ two_digits (n mod 100) @ ''%'' \<and>
   fmtDiscount ''fixed_amount'' (JStr (int_str n)) = ''$'' @ dec (n div 100) @ ''.'' @ two_digits (n mod 100)"
  using fmtDiscount_cents [of n] by (simp add: fmtDiscount_def Let_def del: js_Number.simps)

theorem fmtDiscount_exact_witness:
  "fmtDiscount ''percentage'' (JStr ''1005'') = ''10.05%''"
proof -
  have "int_str 1005 = ''1005''" "dec (1005 div 100) @ ''.'' @ two_digits (1005 mod 100) @ ''%'' = ''10.05%''"
    by code_simp+
  with fmtDiscount_exact [of 1005] show ?thesis by simp
qed

text \<open>
  The playground commits to a redeemer exactly as the SDK does: for the nonce the
  SDK's \<open>redeemerCommitment\<close> used, \<open>redeemerHash\<close> gives the hexadecimal text of the SDK's digest,
  and the encoder that sends it to the contract recovers that digest byte for byte.
\<close>

theorem redeemerHash_sdk:
  "redeemerCommitment enc sha rnd ref nh = Inr (n, h) \<Longrightarrow> length rnd = 16 \<Longrightarrow> length h = 32 \<Longrightarrow>
   redeemerHash enc (Some sha) rnd2 ref n = Inr (hex_of_bytes h) \<and>
   scBytes32 n2s (JStr (hex_of_bytes h)) = n2s (JBytes h) ''bytes''"
proof -
  assume c: "redeemerCommitment enc sha rnd ref nh = Inr (n, h)" and l: "length rnd = 16"
    and h: "length h = 32"
  note n = redeemerCommitment_nonce(1-3) [OF c l]
  then have "n \<noteq> []" by (auto simp: nonce32_def)
  then have "redeemerHash enc (Some sha) rnd2 ref n = Inr (hex_of_bytes h)"
    using n(3) hex_text by (simp add: redeemerHash_def Let_def)
  moreover have "strip_0x (hex_of_bytes h) = hex_of_bytes h"
    by (rule strip_0x_hex) (auto simp: list_all_iff dest: hex_of_bytes_chars)
  then have "hexToBytes (JStr (hex_of_bytes h)) = Inr h"
    using hex64_hex_of_bytes [OF h] by (simp add: hexToBytes_str)
  ultimately show ?thesis by (simp add: scBytes32_def)
qed

theorem redeemerHash_sdk_witness:
  "redeemerHash (map (\<lambda>c. word_of_int (char_code c))) (Some (take 32)) None ''order-7'' (replicate 32 (CHR ''a''))
     = Inr (hex_of_bytes (replicate 32 97))"
proof -
  let ?enc = "map (\<lambda>c. word_of_int (char_code c) :: byte)"
  let ?n = "replicate 32 (CHR ''a'')"
  have n: "nonce32 ?n" by (simp add: nonce32_def list_all_iff char_classes)
  have "lower_char (CHR ''a'') = CHR ''a''" by code_simp
  then have "toLowerCase ?n = ?n" by (simp add: toLowerCase_def)
  moreover have "char_code (CHR ''a'') = 97" by code_simp
  ultimately have "redeemerCommitment ?enc (take 32) (replicate 16 0) ''order-7'' (Some ?n) =
      Inr (?n, replicate 32 97)"
    using n by (simp add: redeemerCommitment_def Let_def)
  from redeemerHash_sdk [OF this] show ?thesis by simp
qed

lemma trunc_length: "length s \<le> head + tail + 1 \<Longrightarrow> trunc head tail s = s"
  by (simp add: trunc_def)

text \<open>
  A truncated value keeps its two ends: what is shown is never longer than the
  parts asked for and the ellipsis, begins and ends like the value, and a value that is not longer
  than that is shown whole.
\<close>

theorem trunc_ends:
  "0 < tail \<Longrightarrow>
   length (trunc head tail s) = min (length s) (head + tail + 1) \<and>
   take head (trunc head tail s) = take head s \<and>
   drop (length (trunc head tail s) - tail) (trunc head tail s) = drop (length s - tail) s"
proof (cases "length s \<le> head + tail + 1")
  case True
  then show ?thesis by (simp add: trunc_length)
next
  case False
  moreover assume "0 < tail"
  ultimately have t: "trunc head tail s = take head s @ [CHR 0x85] @ drop (length s - tail) s"
    by (auto simp: trunc_def slice_last_def)
  from False have l: "length (take head s) = head" "length (drop (length s - tail) s) = tail" by simp_all
  from l have "length (trunc head tail s) = head + tail + 1" by (simp add: t)
  with l False show ?thesis by (simp add: t)
qed

theorem trunc_ends_witness: "trunc 4 4 ''GABCDEFGHIJ'' = ''GABC'' @ [CHR 0x85] @ ''GHIJ''"
  using trunc_ends [of 4 4 "''GABCDEFGHIJ''"] by (simp add: trunc_def slice_last_def)

end
