(* ===== verification/Play_Store.thy ===== *)
theory Play_Store
  imports Js_Object Sdk_Client Play_Data
begin

text \<open>
  The playground's store (\<open>web/src/store.jsx\<close>): friendly errors, toasts, the activity log with its
  \<open>invoke\<close>, the wallet, and every call to the contract with the update of the local mirror.

  A call runs on the run of the SDK (\<open>'w run\<close>) and the store. The host record gives the clock, the
  parser of local dates and the SDK's parameters; \<open>crypto.randomUUID\<close> is a fresh number. The
  values a React callback closes over (the wallet, the state) are those of the store when the
  call starts.
\<close>

section \<open>Friendly errors\<close>

definition CODE2KEY :: "jnum \<Rightarrow> string option" where
  "CODE2KEY n =
     map_of (map (\<lambda>(k, s). ((case sd_code s of Num c \<Rightarrow> dec c | Dash \<Rightarrow> [CHR 0x97]), k)) ERRORS)
       (num_str n)"

definition SDErr :: "string \<Rightarrow> jserr" where
  "SDErr key =
     (case map_of ERRORS key of
        Some e \<Rightarrow> (Error (sd_msg e))\<lparr>e_sd := Some e\<rparr>
      | None \<Rightarrow> TypeError ''Cannot read properties of undefined (reading msg)'')"

definition failErr :: "string \<Rightarrow> string \<Rightarrow> sdcode \<Rightarrow> jserr" where
  "failErr title msg code = with_sd (Error msg) title msg code"

definition code_key :: "jnum option \<Rightarrow> string option" where
  "code_key c = (case c of None \<Rightarrow> None | Some n \<Rightarrow> CODE2KEY n)"

definition toFriendly :: "jserr \<Rightarrow> jserr" where
  "toFriendly raw =
     (if e_sd raw \<noteq> None then raw
      else case code_key (e_contractCode raw) of
        Some k \<Rightarrow> SDErr k
      | None \<Rightarrow>
          (let s = (if e_message raw \<noteq> [] then e_message raw else e_class raw)
           in case code_key (contractErrorCode (RawStr s)) of
                Some k \<Rightarrow> SDErr k
              | None \<Rightarrow> failErr ''Transaction failed'' (or_text (take 180 s) ''Unknown error'') Dash))"

section \<open>State\<close>

record mtoken = \<comment> \<open>a token of the mirror\<close>
  mt_token_id :: jval
  mt_campaign_id :: jnum
  mt_code :: jval
  mt_burned :: bool
  mt_minted_at :: jnum
  mt_ref :: string
  mt_burned_at :: jnum

record mirror =
  m_campCtr :: jnum
  m_tokenCtr :: jnum
  m_campaigns :: "(string \<times> campaign_info) list"
  m_tokens :: "(string \<times> mtoken) list"
  m_delegates :: "(string \<times> bool) list"

definition initialState :: mirror where
  "initialState = \<lparr>m_campCtr = Fin 0, m_tokenCtr = Fin 0, m_campaigns = [], m_tokens = [],
     m_delegates = []\<rparr>"

record toast =
  to_id :: nat
  to_kind :: string
  to_title :: string
  to_msg :: string

record log_entry =
  l_id :: nat
  l_at :: jnum
  l_method :: string
  l_auth :: string
  l_args :: "(string \<times> jval) list"
  l_status :: string
  l_read :: bool
  l_tx :: jval
  l_seq :: jval
  l_result :: jval
  l_error :: "sd option"

record store =
  s_wallet :: "wallet option"
  s_connecting :: bool
  s_state :: mirror
  s_log :: "log_entry list"
  s_toasts :: "toast list"
  s_highlight :: "jnum option"
  s_uuid :: nat

definition init_store :: store where
  "init_store = \<lparr>s_wallet = None, s_connecting = False, s_state = initialState, s_log = [],
     s_toasts = [], s_highlight = None, s_uuid = 0\<rparr>"

record 'w host =
  h_stellar :: stellar
  h_env :: "'w env"
  h_config :: config
  h_now :: "'w \<Rightarrow> jnum" \<comment> \<open>\<open>Date.now()\<close>\<close>
  h_date_ms :: "string \<Rightarrow> jnum" \<comment> \<open>\<open>new Date(s).getTime()\<close> of a local date and time\<close>
  h_parts :: "jnum \<Rightarrow> int \<times> int \<times> int \<times> int \<times> int" \<comment> \<open>year, month from 0, day, hours, minutes\<close>
  h_locale :: "jnum \<Rightarrow> string" \<comment> \<open>\<open>n.toLocaleString()\<close>\<close>
  h_clock :: "jnum \<Rightarrow> string" \<comment> \<open>\<open>toLocaleTimeString("en-GB", ...)\<close>\<close>
  h_random :: "'w \<Rightarrow> byte list option" \<comment> \<open>16 random bytes, if there is a source of them\<close>
  h_sha256 :: "(string \<Rightarrow> byte list) \<times> (byte list \<Rightarrow> byte list) option" \<comment> \<open>the text encoder and the digest\<close>

type_synonym 'w app = "'w run \<times> store"

definition sdk_io :: "('w run, 'a) io \<Rightarrow> ('w app, 'a) io" where
  "sdk_io m = (\<lambda>(w, s). case m w of (r, w') \<Rightarrow> (r, (w', s)))"

definition on_store :: "(store \<Rightarrow> store) \<Rightarrow> ('w app, unit) io" where
  "on_store f = modifyIO (\<lambda>(w, s). (w, f s))"

definition clock :: "'w host \<Rightarrow> ('w app, jnum) io" where
  "clock H = getIO (\<lambda>((w, tr), s). h_now H w)"

definition applyState :: "(mirror \<Rightarrow> mirror) \<Rightarrow> ('w app, unit) io" where
  "applyState f = on_store (\<lambda>s. s\<lparr>s_state := f (s_state s)\<rparr>)"

definition randomUUID :: "('w app, nat) io" where
  "randomUUID = (\<lambda>(w, s). (Inr (s_uuid s), (w, s\<lparr>s_uuid := s_uuid s + 1\<rparr>)))"

section \<open>Toasts and the activity log\<close>

definition toast :: "string \<Rightarrow> string \<Rightarrow> string \<Rightarrow> ('w app, unit) io" where
  "toast kind title msg =
     bindIO randomUUID (\<lambda>i. on_store (\<lambda>s. s\<lparr>s_toasts :=
       s_toasts s @ [\<lparr>to_id = i, to_kind = kind, to_title = title, to_msg = msg\<rparr>]\<rparr>))"

definition dismissToast :: "nat \<Rightarrow> store \<Rightarrow> store" where
  \<comment> \<open>also what the timer of a toast does\<close>
  "dismissToast i s = s\<lparr>s_toasts := filter (\<lambda>t. to_id t \<noteq> i) (s_toasts s)\<rparr>"

definition push_log :: "log_entry \<Rightarrow> store \<Rightarrow> store" where
  "push_log e s = s\<lparr>s_log := take 60 (e # s_log s)\<rparr>"

definition set_log :: "nat \<Rightarrow> (log_entry \<Rightarrow> log_entry) \<Rightarrow> store \<Rightarrow> store" where
  \<comment> \<open>\<open>setLog((l) => l.map((e) => e.id === i ? f(e) : e))\<close>\<close>
  "set_log i f s = s\<lparr>s_log := map (\<lambda>e. if l_id e = i then f e else e) (s_log s)\<rparr>"

definition clearLog :: "store \<Rightarrow> store" where
  "clearLog s = s\<lparr>s_log := []\<rparr>"

record outcome = \<comment> \<open>what the function given to \<open>invoke\<close> returns\<close>
  o_result :: jval
  o_tx :: jval
  o_seq :: jval

definition pending_entry ::
  "nat \<Rightarrow> jnum \<Rightarrow> string \<Rightarrow> string \<Rightarrow> (string \<times> jval) list \<Rightarrow> bool \<Rightarrow> log_entry" where
  "pending_entry i t method auth args rd =
     \<lparr>l_id = i, l_at = t, l_method = method, l_auth = auth, l_args = args, l_status = ''pending'',
      l_read = rd, l_tx = JNull, l_seq = JUndef, l_result = JUndef, l_error = None\<rparr>"

definition log_ok :: "outcome \<Rightarrow> log_entry \<Rightarrow> log_entry" where
  "log_ok out e = e\<lparr>l_status := ''ok'', l_result := o_result out,
     l_tx := nullish_or (o_tx out) JNull, l_seq := nullish_or (o_seq out) JNull\<rparr>"

definition log_err :: "jserr \<Rightarrow> log_entry \<Rightarrow> log_entry" where
  "log_err err e = e\<lparr>l_status := ''err'', l_error := e_sd err, l_tx := JNull\<rparr>"

definition invoke ::
  "'w host \<Rightarrow> string \<Rightarrow> string \<Rightarrow> (string \<times> jval) list \<Rightarrow> bool \<Rightarrow> ('w app, outcome) io
   \<Rightarrow> ('w app, outcome) io" where
  "invoke H method auth args rd fn =
     bindIO randomUUID (\<lambda>logId.
     bindIO (clock H) (\<lambda>t.
     bindIO (on_store (push_log (pending_entry logId t method auth args rd))) (\<lambda>_.
     catchIO
       (bindIO fn (\<lambda>out.
        bindIO (on_store (set_log logId (log_ok out))) (\<lambda>_.
        returnIO \<lparr>o_result = o_result out, o_tx = nullish_or (o_tx out) JNull,
                  o_seq = nullish_or (o_seq out) JNull\<rparr>)))
       (\<lambda>raw.
        let err = toFriendly raw in
        bindIO (on_store (set_log logId (log_err err))) (\<lambda>_. throwIO err)))))"

section \<open>The wallet\<close>

definition merge_campaigns :: "campaign_info list \<Rightarrow> mirror \<Rightarrow> mirror" where
  \<comment> \<open>the updater of \<open>loadOwnedCampaigns\<close>\<close>
  "merge_campaigns cs m =
     foldl (\<lambda>m c. m\<lparr>m_campaigns := obj_put (num_str (ci_id c)) c (m_campaigns m),
                    m_campCtr := jmax (m_campCtr m) (ci_id c)\<rparr>) m cs"

definition loadOwnedCampaigns :: "'w host \<Rightarrow> string \<Rightarrow> ('w app, unit) io" where
  "loadOwnedCampaigns H address =
     catchIO
       (bindIO (sdk_io (campaignsOf (h_stellar H) (h_env H) (h_config H) address)) (\<lambda>ids.
        bindIO (mapIO (\<lambda>i. catchIO
                   (bindIO (sdk_io (getCampaign (h_stellar H) (h_env H) (h_config H) (JNum i)))
                      (\<lambda>c. returnIO (Some c)))
                   (\<lambda>_. returnIO None)) ids) (\<lambda>fetched.
        applyState (merge_campaigns [c. Some c \<leftarrow> fetched]))))
       (\<lambda>_. returnIO ())"

definition sd_of :: "jserr \<Rightarrow> sd" where
  "sd_of e = (case e_sd e of Some s \<Rightarrow> s | None \<Rightarrow> \<lparr>sd_title = [], sd_msg = [], sd_code = Dash\<rparr>)"

definition connect :: "'w host \<Rightarrow> ('w app, unit) io" where
  "connect H =
     bindIO (on_store (\<lambda>s. s\<lparr>s_connecting := True\<rparr>)) (\<lambda>_.
     bindIO (catchIO
       (bindIO (sdk_io (connectWallet (h_stellar H) (h_env H) (h_config H))) (\<lambda>w.
        bindIO (on_store (\<lambda>s. s\<lparr>s_wallet := Some w\<rparr>)) (\<lambda>_.
        bindIO (toast ''success'' ''Freighter connected''
                  (''Signed in as '' @ trunc 4 4 (js_String (wal_address w)) @ '' on Testnet.'')) (\<lambda>_.
        loadOwnedCampaigns H (js_String (wal_address w))))))
       (\<lambda>raw. let err = toFriendly raw in
          toast ''error'' (sd_title (sd_of err)) (sd_msg (sd_of err)))) (\<lambda>_.
     on_store (\<lambda>s. s\<lparr>s_connecting := False\<rparr>)))"

definition disconnect :: "('w app, unit) io" where
  "disconnect =
     bindIO (on_store (\<lambda>s. s\<lparr>s_wallet := None\<rparr>)) (\<lambda>_.
     toast ''info'' ''Wallet disconnected'' ''You can still use public read calls like verify().'')"

definition wallet_address :: "wallet option \<Rightarrow> jval" where \<comment> \<open>\<open>wallet?.address\<close>\<close>
  "wallet_address w = (case w of None \<Rightarrow> JUndef | Some x \<Rightarrow> wal_address x)"

definition requireWallet :: "wallet option \<Rightarrow> ('w app, string) io" where
  \<comment> \<open>then \<open>wallet.address\<close>\<close>
  "requireWallet w =
     (case w of
        None \<Rightarrow> throwIO (failErr ''Connect a wallet'' ''Connect Freighter to sign this transaction.'' (Num 6))
      | Some x \<Rightarrow> returnIO (js_String (wal_address x)))"

end
