(* ===== verification/Play_Ops.thy ===== *)
theory Play_Ops
  imports Play_Store
begin

text \<open>
  The playground's calls to the contract (\<open>web/src/store.jsx\<close>, from \<open>createCampaign\<close> to
  \<open>bumpTally\<close>). A write asks for the wallet, encodes its arguments from left to right, goes
  through the SDK's \<open>write\<close>, and updates the mirror only after the call returned; the updaters
  are the pure functions \<open>apply_...\<close>. Every call goes through \<open>invoke\<close>, which logs it.
\<close>

section \<open>Common parts\<close>

definition closed_wallet :: "(wallet option \<Rightarrow> ('w app, 'a) io) \<Rightarrow> ('w app, 'a) io" where
  \<comment> \<open>the \<open>wallet\<close> of the render the callback was made in\<close>
  "closed_wallet f = bindIO (getIO (\<lambda>(r, s). s_wallet s)) f"

definition setHighlight :: "jnum \<Rightarrow> ('w app, unit) io" where
  "setHighlight n = on_store (\<lambda>s. s\<lparr>s_highlight := Some n\<rparr>)"

definition numeric :: "jval \<Rightarrow> jval" where \<comment> \<open>\<open>Number(v)\<close>\<close>
  "numeric v = JNum (js_Number v)"

definition null_or :: "string option \<Rightarrow> jval" where \<comment> \<open>\<open>s || null\<close>\<close>
  "null_or s = (case s of Some (c # t) \<Rightarrow> JStr (c # t) | _ \<Rightarrow> JNull)"

definition store_write ::
  "'w host \<Rightarrow> string \<Rightarrow> string \<Rightarrow> scval js list \<Rightarrow> ('w app, written) io" where
  \<comment> \<open>\<open>s.write(wallet.address, method, [...])\<close>\<close>
  "store_write H addr method args =
     bindIO (liftIO (args_of args)) (\<lambda>vs.
     sdk_io (sdk_write (h_stellar H) (h_env H) (h_config H) addr method vs))"

definition store_read :: "'w host \<Rightarrow> string \<Rightarrow> scval js list \<Rightarrow> ('w app, jval) io" where
  \<comment> \<open>\<open>s.toNative(await s.read(method, [...]))\<close>\<close>
  "store_read H method args =
     sdk_io (native_read (h_stellar H) (h_env H) (h_config H) method (args_of args))"

definition sent_outcome :: "jval \<Rightarrow> written \<Rightarrow> outcome" where
  "sent_outcome r x = \<lparr>o_result = r, o_tx = JStr (w_tx x), o_seq = w_seq x\<rparr>"

definition read_outcome :: "jval \<Rightarrow> outcome" where
  "read_outcome r = \<lparr>o_result = r, o_tx = JUndef, o_seq = JUndef\<rparr>"

definition ok_true :: jval where "ok_true = JObj [(''ok'', JBool True)]"

section \<open>Campaigns and codes\<close>

definition apply_created :: "jval \<Rightarrow> campaign_form \<Rightarrow> jnum \<Rightarrow> jnum \<Rightarrow> mirror \<Rightarrow> mirror" where
  "apply_created owner f validUntil i m =
     m\<lparr>m_campCtr := jmax (m_campCtr m) i,
       m_campaigns := obj_put (num_str i)
         \<lparr>ci_id = i, ci_owner = owner, ci_name = JStr (cf_name f),
          ci_discount_type = JStr (cf_discount_type f),
          ci_discount_value = to_number (cf_discount_value f),
          ci_total_supply = to_number (cf_total_supply f),
          ci_minted = Fin 0, ci_burned = Fin 0, ci_valid_until = validUntil\<rparr> (m_campaigns m)\<rparr>"

definition createCampaign :: "'w host \<Rightarrow> campaign_form \<Rightarrow> ('w app, outcome) io" where
  "createCampaign H f = closed_wallet (\<lambda>wallet.
     let n2s = nativeToScVal (h_stellar H); validUntil = unix (h_date_ms H) (cf_valid_until f);
         dvalue = JNum (to_number (cf_discount_value f));
         supply = JNum (to_number (cf_total_supply f))
     in invoke H ''create_campaign'' ''owner''
       [(''owner'', wallet_address wallet), (''name'', JStr (cf_name f)),
        (''discount_type'', JStr (cf_discount_type f)), (''discount_value'', dvalue),
        (''total_supply'', supply), (''valid_until'', JNum validUntil)] False
       (bindIO (requireWallet wallet) (\<lambda>addr.
        bindIO (store_write H addr ''create_campaign''
          [scAddr n2s addr, scStr n2s (JStr (cf_name f)), scStr n2s (JStr (cf_discount_type f)),
           scU64 n2s dvalue, scU32 n2s supply, scU64 n2s (JNum validUntil)]) (\<lambda>x.
        bindIO (liftIO (toNative (h_stellar H) (w_retval x))) (\<lambda>v.
        let i = js_Number v in
        bindIO (applyState (apply_created (wallet_address wallet) f validUntil i)) (\<lambda>_.
        bindIO (setHighlight i) (\<lambda>_.
        returnIO (sent_outcome (JObj [(''campaign_id'', JNum i)]) x))))))))"

definition token_key :: "jnum \<Rightarrow> string \<Rightarrow> string" where
  "token_key cid code = num_str cid @ '':'' @ code"

definition put_issued :: "jnum \<Rightarrow> jnum \<Rightarrow> (string \<times> jval) list
    \<Rightarrow> (string \<times> mtoken) list \<Rightarrow> (string \<times> mtoken) list" where
  "put_issued cid now cs ts =
     foldl (\<lambda>ts (code, i). obj_put (token_key cid code)
       \<lparr>mt_token_id = i, mt_campaign_id = cid, mt_code = JStr code, mt_burned = False,
        mt_minted_at = now, mt_ref = ZERO32, mt_burned_at = Fin 0\<rparr> ts) ts cs"

definition nth_id :: "jnum list \<Rightarrow> nat \<Rightarrow> jval" where \<comment> \<open>\<open>ids[i]\<close>\<close>
  "nth_id ids i = (if i < length ids then JNum (ids ! i) else JUndef)"

definition apply_issued :: "jnum \<Rightarrow> string list \<Rightarrow> jnum list \<Rightarrow> jnum \<Rightarrow> mirror \<Rightarrow> mirror" where
  "apply_issued cid codes ids now m =
     m\<lparr>m_tokenCtr := foldl jmax (m_tokenCtr m) ids,
       m_tokens := put_issued cid now
         (map (\<lambda>i. (codes ! i, nth_id ids i)) [0..<length codes]) (m_tokens m),
       m_campaigns := (case map_of (m_campaigns m) (num_str cid) of
           None \<Rightarrow> m_campaigns m
         | Some c \<Rightarrow> obj_put (num_str cid)
             (c\<lparr>ci_minted := jadd (ci_minted c) (num (int (length codes)))\<rparr>) (m_campaigns m))\<rparr>"

definition js_array :: "jval \<Rightarrow> jval list js" where \<comment> \<open>the elements that \<open>(v || []).map\<close> visits\<close>
  "js_array v = (case js_or v (JArr []) of
       JArr vs \<Rightarrow> Inr vs | _ \<Rightarrow> Inl (TypeError ''map is not a function''))"

definition issueCodes :: "'w host \<Rightarrow> jval \<Rightarrow> string list \<Rightarrow> ('w app, outcome) io" where
  "issueCodes H campaignId codes = closed_wallet (\<lambda>wallet.
     let n2s = nativeToScVal (h_stellar H); cid = js_Number campaignId
     in invoke H ''issue_unique'' ''owner''
       [(''owner'', wallet_address wallet), (''campaign_id'', JNum cid),
        (''codes'', JArr (map JStr codes))] False
       (bindIO (requireWallet wallet) (\<lambda>addr.
        bindIO (store_write H addr ''issue_unique''
          [scAddr n2s addr, scU64 n2s (JNum cid), scVecStr n2s codes]) (\<lambda>x.
        bindIO (liftIO (toNative (h_stellar H) (w_retval x))) (\<lambda>v.
        bindIO (liftIO (js_array v)) (\<lambda>vs.
        let ids = map js_Number vs in
        bindIO (clock H) (\<lambda>t.
        bindIO (applyState (apply_issued cid codes ids (nowUnix t))) (\<lambda>_.
        bindIO (setHighlight cid) (\<lambda>_.
        returnIO (sent_outcome (JObj [(''token_ids'', JArr (map JNum ids))]) x))))))))))"

definition campaign_name_of :: "mirror \<Rightarrow> jnum \<Rightarrow> jval" where
  \<comment> \<open>\<open>(state.campaigns[id] || {}).name\<close>\<close>
  "campaign_name_of m i =
     (case map_of (m_campaigns m) (num_str i) of None \<Rightarrow> JUndef | Some c \<Rightarrow> ci_name c)"

record receipt_info =
  ri_token_id :: jnum
  ri_code :: jval
  ri_campaign_id :: jnum
  ri_campaign_name :: jval
  ri_discount_type :: jval
  ri_discount_value :: jnum
  ri_redeemer_ref :: string
  ri_burned_at :: jnum
  ri_ledger_seq :: jnum

definition receipt_obj :: "receipt_info \<Rightarrow> jval" where
  "receipt_obj r = JObj [(''token_id'', JNum (ri_token_id r)), (''code'', ri_code r),
     (''campaign_id'', JNum (ri_campaign_id r)), (''campaign_name'', ri_campaign_name r),
     (''discount_type'', ri_discount_type r), (''discount_value'', JNum (ri_discount_value r)),
     (''redeemer_ref'', JStr (ri_redeemer_ref r)), (''burned_at'', JNum (ri_burned_at r)),
     (''ledger_seq'', JNum (ri_ledger_seq r))]"

definition receipt_of ::
  "mirror \<Rightarrow> jval \<Rightarrow> string \<Rightarrow> string \<Rightarrow> jnum \<Rightarrow> jval \<Rightarrow> jval \<Rightarrow> receipt_info js" where
  \<comment> \<open>from the native return value, with the defaults of the caller\<close>
  "receipt_of m campaignId code hash now sq native =
     (let r = js_or native (JObj []) in
      bindR (field r ''token_id'') (\<lambda>tid.
      bindR (field r ''code'') (\<lambda>c.
      bindR (field r ''campaign_id'') (\<lambda>cid.
      bindR (field r ''campaign_name'') (\<lambda>cname.
      bindR (field r ''discount_type'') (\<lambda>dtype.
      bindR (field r ''discount_value'') (\<lambda>dvalue.
      bindR (field r ''redeemer_ref'') (\<lambda>ref.
      bindR (bytesToHex ref) (\<lambda>hex.
      bindR (field r ''burned_at'') (\<lambda>burned.
      bindR (field r ''ledger_seq'') (\<lambda>lseq.
      let cid' = js_Number (nullish_or cid campaignId)
      in Inr \<lparr>ri_token_id = js_Number (nullish_or tid (JNum (Fin 0))),
           ri_code = js_or c (JStr code), ri_campaign_id = cid',
           ri_campaign_name = js_or (js_or cname (campaign_name_of m cid')) (JStr []),
           ri_discount_type = js_or dtype (JStr []),
           ri_discount_value = js_Number (nullish_or dvalue (JNum (Fin 0))),
           ri_redeemer_ref = or_text hex hash,
           ri_burned_at = js_Number (nullish_or burned (JNum now)),
           ri_ledger_seq = js_Number (nullish_or (nullish_or lseq sq) (JNum (Fin 0)))\<rparr>)))))))))))"

definition apply_redeemed :: "jval \<Rightarrow> string \<Rightarrow> receipt_info \<Rightarrow> mirror \<Rightarrow> mirror" where
  "apply_redeemed campaignId code receipt m =
     (let tk = token_key (js_Number campaignId) code; ck = num_str (ri_campaign_id receipt)
      in m\<lparr>m_tokens := (case map_of (m_tokens m) tk of
                None \<Rightarrow> m_tokens m
              | Some t \<Rightarrow> obj_put tk (t\<lparr>mt_burned := True, mt_ref := ri_redeemer_ref receipt,
                            mt_burned_at := ri_burned_at receipt\<rparr>) (m_tokens m)),
           m_campaigns := (case map_of (m_campaigns m) ck of
                None \<Rightarrow> m_campaigns m
              | Some c \<Rightarrow> obj_put ck (c\<lparr>ci_burned := jadd (ci_burned c) (num 1)\<rparr>) (m_campaigns m))\<rparr>)"

definition redeem :: "'w host \<Rightarrow> jval \<Rightarrow> string \<Rightarrow> string \<Rightarrow> ('w app, outcome) io" where
  "redeem H campaignId code hash = closed_wallet (\<lambda>wallet.
     bindIO (getIO (\<lambda>(r, s). s_state s)) (\<lambda>state.
     let n2s = nativeToScVal (h_stellar H)
     in invoke H ''redeem_unique'' ''delegate''
       [(''authorizer'', wallet_address wallet), (''campaign_id'', numeric campaignId),
        (''code'', JStr code), (''redeemer_ref_hash'', JStr hash)] False
       (bindIO (requireWallet wallet) (\<lambda>addr.
        bindIO (store_write H addr ''redeem_unique''
          [scAddr n2s addr, scU64 n2s (numeric campaignId), scStr n2s (JStr code),
           scBytes32 n2s (JStr hash)]) (\<lambda>x.
        bindIO (liftIO (toNative (h_stellar H) (w_retval x))) (\<lambda>v.
        bindIO (clock H) (\<lambda>t.
        bindIO (liftIO (receipt_of state campaignId code hash (nowUnix t) (w_seq x) v)) (\<lambda>receipt.
        bindIO (applyState (apply_redeemed campaignId code receipt)) (\<lambda>_.
        bindIO (setHighlight (ri_campaign_id receipt)) (\<lambda>_.
        returnIO \<lparr>o_result = receipt_obj receipt, o_tx = JStr (w_tx x),
                  o_seq = JNum (ri_ledger_seq receipt)\<rparr>))))))))))"

section \<open>Looking a code up\<close>

definition token_of_native :: "jval \<Rightarrow> mtoken js" where
  "token_of_native tn =
     bindR (field tn ''token_id'') (\<lambda>tid.
     bindR (field tn ''campaign_id'') (\<lambda>cid.
     bindR (field tn ''code'') (\<lambda>c.
     bindR (field tn ''is_burned'') (\<lambda>burned.
     bindR (field tn ''minted_at'') (\<lambda>minted.
     bindR (field tn ''redeemer_ref'') (\<lambda>ref.
     bindR (bytesToHex ref) (\<lambda>hex.
     bindR (field tn ''burned_at'') (\<lambda>burned_at.
     Inr \<lparr>mt_token_id = numeric tid, mt_campaign_id = js_Number cid, mt_code = c,
          mt_burned = truthy burned, mt_minted_at = js_Number minted, mt_ref = hex,
          mt_burned_at = js_Number burned_at\<rparr>))))))))"

definition lenient_campaign :: "jval \<Rightarrow> campaign_info js" where
  \<comment> \<open>the campaign as \<open>verify\<close> reads it: \<open>Number\<close>, not the checked \<open>safeNumber\<close> of the SDK\<close>
  "lenient_campaign c =
     bindR (field c ''id'') (\<lambda>i.
     bindR (field c ''owner'') (\<lambda>owner.
     bindR (field c ''name'') (\<lambda>name.
     bindR (field c ''discount_type'') (\<lambda>dtype.
     bindR (field c ''discount_value'') (\<lambda>dvalue.
     bindR (field c ''total_supply'') (\<lambda>supply.
     bindR (field c ''minted'') (\<lambda>minted.
     bindR (field c ''burned'') (\<lambda>burned.
     bindR (field c ''valid_until'') (\<lambda>until.
     Inr \<lparr>ci_id = js_Number i, ci_owner = owner, ci_name = name, ci_discount_type = dtype,
          ci_discount_value = js_Number dvalue, ci_total_supply = js_Number supply,
          ci_minted = js_Number minted, ci_burned = js_Number burned,
          ci_valid_until = js_Number until\<rparr>)))))))))"

definition token_obj :: "mtoken \<Rightarrow> jval" where
  "token_obj t = JObj [(''token_id'', mt_token_id t), (''campaign_id'', JNum (mt_campaign_id t)),
     (''code'', mt_code t), (''is_burned'', JBool (mt_burned t)),
     (''minted_at'', JNum (mt_minted_at t)), (''redeemer_ref'', JStr (mt_ref t)),
     (''burned_at'', JNum (mt_burned_at t))]"

definition campaign_obj :: "campaign_info \<Rightarrow> jval" where
  "campaign_obj c = JObj [(''id'', JNum (ci_id c)), (''owner'', ci_owner c), (''name'', ci_name c),
     (''discount_type'', ci_discount_type c), (''discount_value'', JNum (ci_discount_value c)),
     (''total_supply'', JNum (ci_total_supply c)), (''minted'', JNum (ci_minted c)),
     (''burned'', JNum (ci_burned c)), (''valid_until'', JNum (ci_valid_until c))]"

definition coupon_status :: "mtoken \<Rightarrow> campaign_info option \<Rightarrow> jnum \<Rightarrow> string" where
  "coupon_status t c now =
     (if mt_burned t then ''burned''
      else if (case c of None \<Rightarrow> False | Some x \<Rightarrow> jless (ci_valid_until x) now) then ''expired''
      else ''valid'')"

definition apply_verified :: "jval \<Rightarrow> string \<Rightarrow> mtoken \<Rightarrow> campaign_info option \<Rightarrow> mirror \<Rightarrow> mirror"
  where
  "apply_verified campaignId code t c m =
     m\<lparr>m_tokens := obj_put (token_key (js_Number campaignId) code) t (m_tokens m),
       m_campaigns := (case c of
           None \<Rightarrow> m_campaigns m
         | Some x \<Rightarrow> obj_put (num_str (ci_id x)) x (m_campaigns m))\<rparr>"

definition verify :: "'w host \<Rightarrow> jval \<Rightarrow> string \<Rightarrow> ('w app, outcome) io" where
  "verify H campaignId code =
     (let n2s = nativeToScVal (h_stellar H)
      in invoke H ''verify'' ''public''
       [(''campaign_id'', numeric campaignId), (''code'', JStr code)] True
       (bindIO (store_read H ''verify'' [scU64 n2s (numeric campaignId), scStr n2s (JStr code)]) (\<lambda>tn.
        bindIO (liftIO (token_of_native tn)) (\<lambda>token.
        bindIO (catchIO
          (bindIO (store_read H ''get_campaign'' [scU64 n2s (JNum (mt_campaign_id token))]) (\<lambda>c.
           bindIO (liftIO (lenient_campaign c)) (\<lambda>x. returnIO (Some x))))
          (\<lambda>_. returnIO None)) (\<lambda>campaign.
        bindIO (clock H) (\<lambda>t.
        bindIO (applyState (apply_verified campaignId code token campaign)) (\<lambda>_.
        returnIO (read_outcome (JObj [(''token'', token_obj token),
          (''campaign'', case campaign of None \<Rightarrow> JNull | Some x \<Rightarrow> campaign_obj x),
          (''status'', JStr (coupon_status token campaign (nowUnix t)))])))))))))"

record mirror_stats =
  ms_total_supply :: jnum
  ms_minted :: jnum
  ms_burned :: jnum
  ms_available :: jnum
  ms_expired :: jnum
  ms_is_expired :: bool

definition campaignStats :: "jnum \<Rightarrow> jval \<Rightarrow> mirror \<Rightarrow> mirror_stats option" where
  \<comment> \<open>at a time in seconds; \<open>null\<close> for a campaign the mirror does not have\<close>
  "campaignStats now cid m =
     (case map_of (m_campaigns m) (js_String cid) of
        None \<Rightarrow> None
      | Some c \<Rightarrow>
          (let expired = jless (ci_valid_until c) now
           in Some \<lparr>ms_total_supply = ci_total_supply c, ms_minted = ci_minted c,
                ms_burned = ci_burned c,
                ms_available = jmax (Fin 0) (jsub (ci_minted c) (ci_burned c)),
                ms_expired = (if expired
                              then jmax (Fin 0) (jsub (ci_total_supply c) (ci_minted c)) else Fin 0),
                ms_is_expired = expired\<rparr>))"

section \<open>Delegates\<close>

definition delegate_key :: "jval \<Rightarrow> string \<Rightarrow> string" where
  "delegate_key campaignId d = js_String campaignId @ '':'' @ d"

definition apply_delegate :: "jval \<Rightarrow> string \<Rightarrow> mirror \<Rightarrow> mirror" where
  "apply_delegate campaignId d m =
     m\<lparr>m_delegates := obj_put (delegate_key campaignId d) True (m_delegates m)\<rparr>"

definition apply_undelegate :: "jval \<Rightarrow> string \<Rightarrow> mirror \<Rightarrow> mirror" where
  "apply_undelegate campaignId d m =
     m\<lparr>m_delegates := del (delegate_key campaignId d) (m_delegates m)\<rparr>"

definition addDelegate :: "'w host \<Rightarrow> jval \<Rightarrow> string \<Rightarrow> ('w app, outcome) io" where
  "addDelegate H campaignId d = closed_wallet (\<lambda>wallet.
     let n2s = nativeToScVal (h_stellar H)
     in invoke H ''add_delegate'' ''owner''
       [(''owner'', wallet_address wallet), (''campaign_id'', numeric campaignId),
        (''delegate'', JStr d)] False
       (bindIO (requireWallet wallet) (\<lambda>addr.
        bindIO (store_write H addr ''add_delegate''
          [scAddr n2s addr, scU64 n2s (numeric campaignId), scAddr n2s d]) (\<lambda>x.
        bindIO (applyState (apply_delegate campaignId d)) (\<lambda>_.
        returnIO (sent_outcome ok_true x))))))"

definition removeDelegate :: "'w host \<Rightarrow> jval \<Rightarrow> string \<Rightarrow> ('w app, outcome) io" where
  "removeDelegate H campaignId d = closed_wallet (\<lambda>wallet.
     let n2s = nativeToScVal (h_stellar H)
     in invoke H ''remove_delegate'' ''owner''
       [(''owner'', wallet_address wallet), (''campaign_id'', numeric campaignId),
        (''delegate'', JStr d)] False
       (bindIO (requireWallet wallet) (\<lambda>addr.
        bindIO (store_write H addr ''remove_delegate''
          [scAddr n2s addr, scU64 n2s (numeric campaignId), scAddr n2s d]) (\<lambda>x.
        bindIO (applyState (apply_undelegate campaignId d)) (\<lambda>_.
        returnIO (sent_outcome ok_true x))))))"

definition isDelegate :: "'w host \<Rightarrow> jval \<Rightarrow> string \<Rightarrow> ('w app, outcome) io" where
  "isDelegate H campaignId who =
     (let n2s = nativeToScVal (h_stellar H)
      in invoke H ''is_delegate'' ''public''
       [(''campaign_id'', numeric campaignId), (''who'', JStr who)] True
       (bindIO (store_read H ''is_delegate'' [scU64 n2s (numeric campaignId), scAddr n2s who]) (\<lambda>v.
        returnIO (read_outcome (JObj [(''is_delegate'', JBool (truthy v))])))))"

section \<open>Shared codes and tallies\<close>

text \<open>The writes that only report \<open>{ ok: true }\<close>: nothing of the mirror changes.\<close>

definition plain_write ::
  "'w host \<Rightarrow> string \<Rightarrow> string \<Rightarrow> (string \<times> jval) list \<Rightarrow> wallet option
   \<Rightarrow> (string \<Rightarrow> ('w run, written) io) \<Rightarrow> ('w app, outcome) io" where
  "plain_write H method auth args wallet send =
     invoke H method auth args False
       (bindIO (requireWallet wallet) (\<lambda>addr.
        bindIO (sdk_io (send addr)) (\<lambda>x. returnIO (sent_outcome ok_true x))))"

definition registerShared ::
  "'w host \<Rightarrow> jval \<Rightarrow> string \<Rightarrow> string option \<Rightarrow> string option \<Rightarrow> jval \<Rightarrow> ('w app, outcome) io" where
  "registerShared H campaignId code attributedTo payoutToken payoutRate =
     closed_wallet (\<lambda>wallet.
     let rate = JStr (js_String (nullish_or payoutRate (JNum (Fin 0))))
     in plain_write H ''register_shared'' ''owner''
       [(''owner'', wallet_address wallet), (''campaign_id'', numeric campaignId),
        (''code'', JStr code), (''attributed_to'', null_or attributedTo),
        (''payout_token'', null_or payoutToken), (''payout_rate'', rate)] wallet
       (\<lambda>addr. Sdk_Client.registerShared (h_stellar H) (h_env H) (h_config H) addr
          (numeric campaignId) code attributedTo payoutToken rate))"

definition text_or_null :: "jval \<Rightarrow> jval" where \<comment> \<open>\<open>v ? String(v) : null\<close>\<close>
  "text_or_null v = (if truthy v then JStr (js_String v) else JNull)"

definition shared_result :: "jval \<Rightarrow> jval js" where
  "shared_result sh =
     bindR (field sh ''attributed_to'') (\<lambda>a.
     bindR (field sh ''payout_token'') (\<lambda>t.
     bindR (field sh ''payout_rate'') (\<lambda>r.
     Inr (JObj [(''attributed_to'', text_or_null a), (''payout_token'', text_or_null t),
                (''payout_rate'', JStr (js_String r))]))))"

definition getShared :: "'w host \<Rightarrow> jval \<Rightarrow> string \<Rightarrow> ('w app, outcome) io" where
  "getShared H campaignId code =
     invoke H ''get_shared'' ''public''
       [(''campaign_id'', numeric campaignId), (''code'', JStr code)] True
       (bindIO (sdk_io (Sdk_Client.getShared (h_stellar H) (h_env H) (h_config H)
                 (numeric campaignId) code)) (\<lambda>sh.
        bindIO (liftIO (shared_result sh)) (\<lambda>r. returnIO (read_outcome r))))"

definition commitTally ::
  "'w host \<Rightarrow> jval \<Rightarrow> string \<Rightarrow> jval \<Rightarrow> jval \<Rightarrow> string \<Rightarrow> (string \<times> jval) list
   \<Rightarrow> ('w app, outcome) io" where
  "commitTally H campaignId code period count merkleHex perAttribution =
     closed_wallet (\<lambda>wallet.
     plain_write H ''commit_tally'' ''owner''
       [(''owner'', wallet_address wallet), (''campaign_id'', numeric campaignId),
        (''code'', JStr code), (''period'', numeric period), (''count'', numeric count)] wallet
       (\<lambda>addr. Sdk_Client.commitTally (h_stellar H) (h_env H) (h_config H) addr
          (numeric campaignId) code (numeric period) (numeric count) (JStr merkleHex)
          perAttribution))"

fun entry_list :: "jval \<Rightarrow> (jval \<times> jval) list js" where \<comment> \<open>\<open>[...v.entries()]\<close>\<close>
  "entry_list (JMap kvs) = Inr kvs"
| "entry_list (JArr vs) = Inr (map (\<lambda>(i, v). (JNum (num (int i)), v)) (enumerate 0 vs))"
| "entry_list (JBytes bs) = Inr (map (\<lambda>(i, b). (JNum (num (int i)), JNum (num (uint b)))) (enumerate 0 bs))"
| "entry_list v = Inl (TypeError ''entries is not a function'')"

definition attribution_rows :: "jval \<Rightarrow> (string \<times> jnum) list" where
  \<comment> \<open>the \<open>try\<close> of \<open>getTally\<close>, whose \<open>catch\<close> leaves the list empty\<close>
  "attribution_rows t =
     (case bindR (field t ''per_attribution'') entry_list of
        Inl _ \<Rightarrow> []
      | Inr kvs \<Rightarrow> map (\<lambda>(k, v). (js_String k, js_Number v)) kvs)"

definition tally_result :: "jval \<Rightarrow> jval js" where
  "tally_result t =
     bindR (field t ''period'') (\<lambda>p.
     bindR (field t ''count'') (\<lambda>c.
     bindR (field t ''merkle_root'') (\<lambda>root.
     bindR (bytesToHex root) (\<lambda>hex.
     Inr (JObj [(''period'', numeric p), (''count'', numeric c), (''merkle_root'', JStr hex),
       (''per_attribution'', JArr (map (\<lambda>(a, n). JArr [JStr a, JNum n]) (attribution_rows t)))])))))"

definition getTally :: "'w host \<Rightarrow> jval \<Rightarrow> string \<Rightarrow> jval \<Rightarrow> ('w app, outcome) io" where
  "getTally H campaignId code period =
     invoke H ''get_tally'' ''public''
       [(''campaign_id'', numeric campaignId), (''code'', JStr code), (''period'', numeric period)] True
       (bindIO (sdk_io (Sdk_Client.getTally (h_stellar H) (h_env H) (h_config H)
                 (numeric campaignId) code (numeric period))) (\<lambda>t.
        bindIO (liftIO (tally_result t)) (\<lambda>r. returnIO (read_outcome r))))"

definition payout_rows :: "jval \<Rightarrow> jval js" where
  "payout_rows v =
     bindR (js_array v) (\<lambda>ps.
     bindR (mapR (\<lambda>p. bindR (field p ''to'') (\<lambda>t. bindR (field p ''amount'') (\<lambda>a.
              Inr (JObj [(''to'', JStr (js_String t)), (''amount'', JStr (js_String a))])))) ps) (\<lambda>rows.
     Inr (JArr rows)))"

definition computePayouts :: "'w host \<Rightarrow> jval \<Rightarrow> string \<Rightarrow> jval \<Rightarrow> ('w app, outcome) io" where
  "computePayouts H campaignId code period =
     invoke H ''compute_payouts'' ''public''
       [(''campaign_id'', numeric campaignId), (''code'', JStr code), (''period'', numeric period)] True
       (bindIO (sdk_io (Sdk_Client.computePayouts (h_stellar H) (h_env H) (h_config H)
                 (numeric campaignId) code (numeric period))) (\<lambda>v.
        bindIO (liftIO (payout_rows v)) (\<lambda>rows. returnIO (read_outcome rows))))"

definition settle :: "'w host \<Rightarrow> jval \<Rightarrow> string \<Rightarrow> jval \<Rightarrow> ('w app, outcome) io" where
  "settle H campaignId code period = closed_wallet (\<lambda>wallet.
     invoke H ''settle'' ''owner''
       [(''owner'', wallet_address wallet), (''campaign_id'', numeric campaignId),
        (''code'', JStr code), (''period'', numeric period)] False
       (bindIO (requireWallet wallet) (\<lambda>addr.
        bindIO (sdk_io (Sdk_Client.settle (h_stellar H) (h_env H) (h_config H) addr
                 (numeric campaignId) code (numeric period))) (\<lambda>x.
        bindIO (liftIO (toNative (h_stellar H) (w_retval x))) (\<lambda>v.
        bindIO (liftIO (payout_rows v)) (\<lambda>rows.
        returnIO (sent_outcome (JObj [(''payouts'', rows)]) x)))))))"

definition bumpTally :: "'w host \<Rightarrow> jval \<Rightarrow> string \<Rightarrow> jval \<Rightarrow> ('w app, outcome) io" where
  "bumpTally H campaignId code period = closed_wallet (\<lambda>wallet.
     plain_write H ''bump_tally'' ''public''
       [(''campaign_id'', numeric campaignId), (''code'', JStr code),
        (''periods'', JArr [numeric period])] wallet
       (\<lambda>addr. Sdk_Client.bumpTally (h_stellar H) (h_env H) (h_config H) addr
          (numeric campaignId) code [numeric period]))"

section \<open>The context the cards call\<close>

datatype request = CreateCampaign campaign_form | IssueCodes jval "string list"
  | Redeem jval string string | Verify jval string | AddDelegate jval string
  | RemoveDelegate jval string | IsDelegate jval string
  | RegisterShared jval string "string option" "string option" jval | GetShared jval string
  | CommitTally jval string jval jval string "(string \<times> jval) list"
  | GetTally jval string jval | ComputePayouts jval string jval | Settle jval string jval
  | BumpTally jval string jval

fun call_app :: "'w host \<Rightarrow> request \<Rightarrow> ('w app, outcome) io" where
  "call_app H (CreateCampaign f) = createCampaign H f"
| "call_app H (IssueCodes c codes) = issueCodes H c codes"
| "call_app H (Redeem c code hash) = redeem H c code hash"
| "call_app H (Verify c code) = verify H c code"
| "call_app H (AddDelegate c d) = addDelegate H c d"
| "call_app H (RemoveDelegate c d) = removeDelegate H c d"
| "call_app H (IsDelegate c d) = isDelegate H c d"
| "call_app H (RegisterShared c code a t r) = registerShared H c code a t r"
| "call_app H (GetShared c code) = getShared H c code"
| "call_app H (CommitTally c code p n mroot per) = commitTally H c code p n mroot per"
| "call_app H (GetTally c code p) = getTally H c code p"
| "call_app H (ComputePayouts c code p) = computePayouts H c code p"
| "call_app H (Settle c code p) = settle H c code p"
| "call_app H (BumpTally c code p) = bumpTally H c code p"

fun is_signed :: "request \<Rightarrow> bool" where
  "is_signed (Verify c code) = False"
| "is_signed (IsDelegate c d) = False"
| "is_signed (GetShared c code) = False"
| "is_signed (GetTally c code p) = False"
| "is_signed (ComputePayouts c code p) = False"
| "is_signed q = True"

end
