(* ===== verification/Play_Props.thy ===== *)
theory Play_Props
  imports Machine Play_Ops
begin

text \<open>
  What every call of the playground's store does to the store, whatever the outside answers.
  \<open>keeps\<close>, \<open>updates\<close> and \<open>body\<close> classify the code inside a call: code that leaves the store alone,
  code that cannot throw and only touches the mirror and the highlight, and the first followed by
  the second. \<open>logged\<close> is what \<open>invoke\<close> makes of a body; \<open>call_app_logged\<close> is its instance
  for all fourteen calls, and the properties at the end follow from it.
\<close>

section \<open>Code inside a call\<close>

definition ends :: "('w app, 'a) io \<Rightarrow> ('a js \<Rightarrow> store \<Rightarrow> store \<Rightarrow> bool) \<Rightarrow> bool" where
  "ends m Q \<longleftrightarrow> (\<forall>z r z'. m z = (r, z') \<longrightarrow> Q r (snd z) (snd z'))"

definition touched :: "store \<Rightarrow> store \<Rightarrow> bool" where
  "touched s s' \<longleftrightarrow> (\<exists>m h. s' = s\<lparr>s_state := m, s_highlight := h\<rparr>)"

abbreviation keeps :: "('w app, 'a) io \<Rightarrow> bool" where
  "keeps m \<equiv> ends m (\<lambda>r s t. t = s)"

abbreviation updates :: "('w app, 'a) io \<Rightarrow> bool" where
  "updates m \<equiv> ends m (\<lambda>r s t. (\<exists>x. r = Inr x) \<and> touched s t)"

abbreviation body :: "('w app, 'a) io \<Rightarrow> bool" where
  "body m \<equiv> ends m (\<lambda>r s t. case r of Inl _ \<Rightarrow> t = s | Inr _ \<Rightarrow> touched s t)"

named_theorems call_intros

lemma endsI: "(\<And>z r z'. m z = (r, z') \<Longrightarrow> Q r (snd z) (snd z')) \<Longrightarrow> ends m Q"
  unfolding ends_def by blast

lemma endsD: "ends m Q \<Longrightarrow> m z = (r, z') \<Longrightarrow> Q r (snd z) (snd z')"
  unfolding ends_def by blast

lemma ends_mono: "ends m Q \<Longrightarrow> (\<And>r s t. Q r s t \<Longrightarrow> R r s t) \<Longrightarrow> ends m R"
  unfolding ends_def by blast

lemma ends_bind:
  assumes "ends m Q" and "\<And>x. ends (f x) R"
    and "\<And>e s t. Q (Inl e) s t \<Longrightarrow> T (Inl e) s t"
    and "\<And>x r s t u. Q (Inr x) s t \<Longrightarrow> R r t u \<Longrightarrow> T r s u"
  shows "ends (bindIO m f) T"
proof (rule endsI)
  fix z r z'
  assume "bindIO m f z = (r, z')"
  then show "T r (snd z) (snd z')"
  proof (cases rule: bindIO_cases)
    case (throw e)
    then show ?thesis using assms(3) endsD [OF assms(1)] by blast
  next
    case (more x t)
    then show ?thesis using assms(4) endsD [OF assms(1)] endsD [OF assms(2)] by blast
  qed
qed

lemma ends_catch:
  assumes "ends m Q" and "\<And>e. ends (h e) R"
    and "\<And>x s t. Q (Inr x) s t \<Longrightarrow> T (Inr x) s t"
    and "\<And>e r s t u. Q (Inl e) s t \<Longrightarrow> R r t u \<Longrightarrow> T r s u"
  shows "ends (catchIO m h) T"
proof (rule endsI)
  fix z r z'
  assume "catchIO m h z = (r, z')"
  then show "T r (snd z) (snd z')"
  proof (cases rule: catchIO_cases)
    case (caught e t)
    then show ?thesis using assms(4) endsD [OF assms(1)] endsD [OF assms(2)] by blast
  next
    case (normal x)
    then show ?thesis using assms(3) endsD [OF assms(1)] by blast
  qed
qed

lemma touched_refl [simp]: "touched s s"
  unfolding touched_def by (rule exI [of _ "s_state s"], rule exI [of _ "s_highlight s"]) simp

lemma touched_trans: "touched s t \<Longrightarrow> touched t u \<Longrightarrow> touched s u"
  unfolding touched_def by force

lemma touched_fields [simp]:
  assumes "touched s t"
  shows "s_wallet t = s_wallet s" "s_connecting t = s_connecting s" "s_log t = s_log s"
    "s_toasts t = s_toasts s" "s_uuid t = s_uuid s"
  using assms by (auto simp: touched_def)

lemma keeps_sdk_io [call_intros]: "keeps (sdk_io m)"
  by (auto simp: ends_def sdk_io_def split: prod.splits)

lemma keeps_pure [call_intros]:
  "keeps (returnIO x)" "keeps (throwIO e)" "keeps (liftIO r)" "keeps (getIO g)" "keeps (clock H)"
  by (auto simp: ends_def clock_def)

lemma keeps_bind [call_intros]: "keeps m \<Longrightarrow> (\<And>x. keeps (f x)) \<Longrightarrow> keeps (bindIO m f)"
  by (rule ends_bind [where Q = "\<lambda>r s t. t = s" and R = "\<lambda>r s t. t = s"]) auto

lemma keeps_catch [call_intros]: "keeps m \<Longrightarrow> (\<And>e. keeps (h e)) \<Longrightarrow> keeps (catchIO m h)"
  by (rule ends_catch [where Q = "\<lambda>r s t. t = s" and R = "\<lambda>r s t. t = s"]) auto

lemma keeps_requireWallet [call_intros]: "keeps (requireWallet w)"
  by (auto simp: requireWallet_def intro: call_intros split: option.split)

lemma keeps_store [call_intros]:
  "keeps (store_write H addr method args)" "keeps (store_read H method args)"
  by (auto simp: store_write_def store_read_def intro: call_intros)

lemma updates_return: "updates (returnIO x)"
  by (simp add: ends_def)

lemma updates_on_store: "(\<And>s. touched s (f s)) \<Longrightarrow> updates (on_store f)"
  by (auto simp: ends_def on_store_def)

lemma touched_fields_upd: "touched s (s\<lparr>s_state := m\<rparr>)" "touched s (s\<lparr>s_highlight := h\<rparr>)"
proof -
  have "s\<lparr>s_state := m\<rparr> = s\<lparr>s_state := m, s_highlight := s_highlight s\<rparr>"
    and "s\<lparr>s_highlight := h\<rparr> = s\<lparr>s_state := s_state s, s_highlight := h\<rparr>" by simp_all
  then show "touched s (s\<lparr>s_state := m\<rparr>)" "touched s (s\<lparr>s_highlight := h\<rparr>)"
    unfolding touched_def by metis+
qed

lemma updates_applyState: "updates (applyState f)"
  unfolding applyState_def by (intro updates_on_store touched_fields_upd)

lemma updates_setHighlight: "updates (setHighlight n)"
  unfolding setHighlight_def by (intro updates_on_store touched_fields_upd)

lemma updates_bind: "updates m \<Longrightarrow> (\<And>x. updates (f x)) \<Longrightarrow> updates (bindIO m f)"
  by (rule ends_bind [where Q = "\<lambda>r s t. (\<exists>x. r = Inr x) \<and> touched s t"
        and R = "\<lambda>r s t. (\<exists>x. r = Inr x) \<and> touched s t"]) (auto intro: touched_trans)

lemma body_bind: "keeps m \<Longrightarrow> (\<And>x. body (f x)) \<Longrightarrow> body (bindIO m f)"
  by (rule ends_bind [where Q = "\<lambda>r s t. t = s"
        and R = "\<lambda>r s t. case r of Inl _ \<Rightarrow> t = s | Inr _ \<Rightarrow> touched s t"]) auto

lemma body_updates: "updates m \<Longrightarrow> body m"
  by (erule ends_mono) auto

lemmas updates_intros = updates_return updates_applyState updates_setHighlight updates_bind

section \<open>What \<open>invoke\<close> makes of it\<close>

definition fresh_log :: "store \<Rightarrow> bool" where
  "fresh_log s \<longleftrightarrow> (\<forall>e\<in>set (s_log s). l_id e < s_uuid s)"

definition entered :: "store \<Rightarrow> log_entry \<Rightarrow> store \<Rightarrow> bool" where
  \<comment> \<open>one finished entry was added, and nothing changed but the mirror and the highlight\<close>
  "entered s e t \<longleftrightarrow> l_id e = s_uuid s \<and> s_log t = take 60 (e # s_log s) \<and> s_uuid t = s_uuid s + 1 \<and>
     s_wallet t = s_wallet s \<and> s_connecting t = s_connecting s \<and> s_toasts t = s_toasts s"

definition logged :: "('w app, outcome) io \<Rightarrow> bool" where
  "logged m \<longleftrightarrow> ends m (\<lambda>r s s'. fresh_log s \<longrightarrow>
     (\<exists>e. entered s e s' \<and>
       (case r of
          Inl err \<Rightarrow> l_status e = ''err'' \<and> l_error e = e_sd err \<and> e_sd err \<noteq> None \<and>
            s_state s' = s_state s \<and> s_highlight s' = s_highlight s
        | Inr out \<Rightarrow> l_status e = ''ok'' \<and> l_result e = o_result out \<and> l_tx e = o_tx out)))"

lemma SDErr_sd: "map_of ERRORS k \<noteq> None \<Longrightarrow> e_sd (SDErr k) = map_of ERRORS k"
  by (auto simp: SDErr_def)

lemma CODE2KEY_in:
  assumes "CODE2KEY n = Some k"
  shows "map_of ERRORS k \<noteq> None"
proof -
  from assms have "k \<in> fst ` set ERRORS"
    unfolding CODE2KEY_def by (drule_tac map_of_SomeD) force
  then show ?thesis by (metis map_of_eq_None_iff)
qed

lemma code_key_in: "code_key c = Some k \<Longrightarrow> map_of ERRORS k \<noteq> None"
  by (cases c) (auto simp: code_key_def dest!: CODE2KEY_in)

lemma toFriendly_sd: "e_sd (toFriendly raw) \<noteq> None"
proof -
  have "code_key c = Some k \<Longrightarrow> e_sd (SDErr k) \<noteq> None" for c k
    using code_key_in [of c k] by (simp add: SDErr_sd)
  then show ?thesis
    by (fastforce simp: toFriendly_def failErr_def with_sd_def Let_def split: option.splits)
qed

lemma map_fresh: "\<forall>e\<in>set es. l_id e < n \<Longrightarrow> map (\<lambda>e. if l_id e = n then f e else e) es = es"
  by (induction es) auto

lemma set_log_head:
  "l_id e = n \<Longrightarrow> \<forall>x\<in>set es. l_id x < n \<Longrightarrow>
   map (\<lambda>x. if l_id x = n then f x else x) (take 60 (e # es)) = take 60 (f e # es)"
  using map_fresh [of "take 59 es" n f] by (auto simp: take_Cons' dest: in_set_takeD)

lemma invoke_logged:
  assumes "body fn"
  shows "logged (invoke H method auth args rd fn)"
  unfolding logged_def
proof (rule endsI, rule impI)
  fix z :: "'a app" and r z'
  assume run': "invoke H method auth args rd fn z = (r, z')" and fresh': "fresh_log (snd z)"
  obtain w tr s where z: "z = ((w, tr), s)" by (metis prod.exhaust)
  obtain p' s' where z': "z' = (p', s')" by (metis prod.exhaust)
  note run = run' [unfolded z z'] and fresh = fresh' [unfolded z, simplified]
  define e where "e = pending_entry (s_uuid s) (h_now H w) method auth args rd"
  define s1 where "s1 = s\<lparr>s_uuid := s_uuid s + 1, s_log := take 60 (e # s_log s)\<rparr>"
  obtain q p2 s2 where fn: "fn ((w, tr), s1) = (q, (p2, s2))" by (metis prod_cases3)
  have ids: "l_id e = s_uuid s" "\<forall>x\<in>set (s_log s). l_id x < s_uuid s"
    using fresh by (simp_all add: e_def pending_entry_def fresh_log_def)
  have start: "invoke H method auth args rd fn ((w, tr), s) =
     catchIO (bindIO fn (\<lambda>out. bindIO (on_store (set_log (s_uuid s) (log_ok out))) (\<lambda>_.
        returnIO \<lparr>o_result = o_result out, o_tx = nullish_or (o_tx out) JNull,
                  o_seq = nullish_or (o_seq out) JNull\<rparr>)))
       (\<lambda>raw. let err = toFriendly raw in
        bindIO (on_store (set_log (s_uuid s) (log_err err))) (\<lambda>_. throwIO err)) ((w, tr), s1)"
    by (simp add: invoke_def randomUUID_def clock_def on_store_def push_log_def s1_def e_def bindIO_run)
  show "\<exists>e. entered (snd z) e (snd z') \<and>
       (case r of
          Inl err \<Rightarrow> l_status e = ''err'' \<and> l_error e = e_sd err \<and> e_sd err \<noteq> None \<and>
            s_state (snd z') = s_state (snd z) \<and> s_highlight (snd z') = s_highlight (snd z)
        | Inr out \<Rightarrow> l_status e = ''ok'' \<and> l_result e = o_result out \<and> l_tx e = o_tx out)"
  proof (cases q)
    case (Inl raw)
    let ?err = "toFriendly raw"
    have "s2 = s1" using endsD [OF assms fn] Inl by simp
    then have "r = Inl ?err" "s' = set_log (s_uuid s) (log_err ?err) s1"
      using run fn Inl unfolding z' start by (simp_all add: catchIO_run bindIO_run on_store_def Let_def)
    then show ?thesis unfolding z z' using set_log_head [OF ids] toFriendly_sd [of raw]
      by (intro exI [of _ "log_err ?err e"])
        (simp add: entered_def set_log_def s1_def log_err_def e_def pending_entry_def)
  next
    case (Inr out)
    have t: "touched s1 s2" using endsD [OF assms fn] Inr by simp
    have "r = Inr \<lparr>o_result = o_result out, o_tx = nullish_or (o_tx out) JNull,
                  o_seq = nullish_or (o_seq out) JNull\<rparr>" "s' = set_log (s_uuid s) (log_ok out) s2"
      using run fn Inr unfolding z' start by (simp_all add: catchIO_run bindIO_run on_store_def)
    then show ?thesis unfolding z z' using set_log_head [OF ids, of "log_ok out"] t
      by (intro exI [of _ "log_ok out e"])
        (simp add: entered_def set_log_def, simp add: s1_def log_ok_def e_def pending_entry_def)
  qed
qed

section \<open>The fourteen calls\<close>

lemma ends_get: "(\<And>x. ends (f x) Q) \<Longrightarrow> ends (bindIO (getIO g) f) Q"
  unfolding ends_def by (simp only: bindIO_run io_run split: prod.split sum.split) blast

lemma logged_get: "(\<And>x. logged (f x)) \<Longrightarrow> logged (bindIO (getIO g) f)"
  unfolding logged_def by (rule ends_get)

lemma logged_closed_wallet: "(\<And>w. logged (f w)) \<Longrightarrow> logged (closed_wallet f)"
  unfolding closed_wallet_def by (rule logged_get)

lemmas logged_intros = logged_closed_wallet logged_get invoke_logged
lemmas body_intros = body_bind [OF keeps_requireWallet] body_bind [OF keeps_store(1)]
  body_bind [OF keeps_store(2)] body_bind [OF keeps_sdk_io] body_bind [OF keeps_pure(3)]
  body_bind [OF keeps_pure(5)] body_updates

lemma createCampaign_logged: "logged (createCampaign H f)"
  unfolding createCampaign_def Let_def by (intro logged_intros body_intros updates_intros)

lemma issueCodes_logged: "logged (issueCodes H c codes)"
  unfolding issueCodes_def Let_def by (intro logged_intros body_intros updates_intros)

lemma redeem_logged: "logged (redeem H c code hash)"
  unfolding redeem_def Let_def by (intro logged_intros body_intros updates_intros)

lemma verify_logged: "logged (verify H c code)"
  unfolding verify_def Let_def
  by (intro logged_intros body_intros body_bind [OF keeps_catch] updates_intros keeps_bind keeps_store
      keeps_pure)

lemma delegates_logged:
  "logged (addDelegate H c d)" "logged (removeDelegate H c d)" "logged (isDelegate H c d)"
  unfolding addDelegate_def removeDelegate_def isDelegate_def Let_def
  by (intro logged_intros body_intros updates_intros)+

lemma plain_write_logged: "logged (plain_write H method auth args w send)"
  unfolding plain_write_def by (intro logged_intros body_intros updates_intros)

lemma tally_logged:
  "logged (registerShared H c code a t r)" "logged (getShared H c code)"
  "logged (commitTally H c code p n mroot per)" "logged (getTally H c code p)"
  "logged (computePayouts H c code p)" "logged (bumpTally H c code p)" "logged (settle H c code p)"
  unfolding registerShared_def getShared_def commitTally_def getTally_def computePayouts_def
    bumpTally_def settle_def Let_def
  by (intro logged_intros plain_write_logged body_intros updates_intros)+

lemma call_app_logged: "logged (call_app H q)"
  by (cases q) (simp_all add: createCampaign_logged issueCodes_logged redeem_logged verify_logged
      delegates_logged tally_logged)

section \<open>Public calls only simulate\<close>

definition simulated :: "'w app \<Rightarrow> 'w app \<Rightarrow> bool" where
  "simulated z z' \<longleftrightarrow> (\<exists>cs. snd (fst z') = snd (fst z) @ cs \<and> (\<forall>c\<in>set cs. \<exists>t. c = Simulate t))"

lemma simulated_same [simp]: "fst z' = fst z \<Longrightarrow> simulated z z'"
  by (auto simp: simulated_def)

lemma simulated_refl: "reflp simulated"
  by (rule reflpI) simp

lemma simulated_trans: "transp simulated"
proof (rule transpI)
  fix x y z :: "'a app"
  assume "simulated x y" "simulated y z"
  then obtain cs ds where "snd (fst y) = snd (fst x) @ cs" "\<forall>c\<in>set cs. \<exists>t. c = Simulate t"
      "snd (fst z) = snd (fst y) @ ds" "\<forall>c\<in>set ds. \<exists>t. c = Simulate t"
    unfolding simulated_def by blast
  then show "simulated x z" unfolding simulated_def by (intro exI [of _ "cs @ ds"]) auto
qed

lemma sim_asks:
  assumes "asks m (\<lambda>r cs. \<forall>c\<in>set cs. \<exists>t. c = Simulate t)"
  shows "frame simulated (sdk_io m)"
proof (rule frameI)
  fix z r z'
  assume run: "sdk_io m z = (r, z')"
  obtain w tr s where z: "z = ((w, tr), s)" by (metis prod.exhaust)
  obtain q w' tr' where m: "m (w, tr) = (q, (w', tr'))" by (metis prod.exhaust)
  with run z have "z' = ((w', tr'), s)" by (simp add: sdk_io_def)
  then show "simulated z z'" using asksD [OF assms m] z by (auto simp: simulated_def)
qed

abbreviation only_sim :: "('w run, 'a) io \<Rightarrow> bool" where
  "only_sim m \<equiv> asks m (\<lambda>r cs. \<forall>c\<in>set cs. \<exists>t. c = Simulate t)"

lemma only_sim_bind: "only_sim m \<Longrightarrow> (\<And>x. only_sim (f x)) \<Longrightarrow> only_sim (bindIO m f)"
  by (erule asks_bind) (simp, rule asks_mono, assumption, auto)

lemma only_sim_pure: "only_sim (returnIO x)" "only_sim (throwIO e)" "only_sim (liftIO q)"
  by (simp_all add: asks_pure)

lemma only_sim_ask: "only_sim (ask (Simulate t) f)"
  by (rule asks_ask) simp

lemma native_read_sim: "only_sim (native_read S E cfg method args)"
proof -
  have "only_sim (case sim of SimError r \<Rightarrow> throwIO (contractErr r) | SimOk v \<Rightarrow> returnIO v)"
    for sim :: sim
    by (cases sim) (simp_all add: only_sim_pure)
  then show ?thesis
    unfolding native_read_def sdk_read_def readAt_def Let_def
    by (intro only_sim_bind only_sim_pure only_sim_ask)
qed

lemma sdk_reads_sim:
  "only_sim (Sdk_Client.getShared S E cfg c code)" "only_sim (Sdk_Client.getTally S E cfg c code p)"
  "only_sim (Sdk_Client.computePayouts S E cfg c code p)"
  unfolding Sdk_Client.getShared_def Sdk_Client.getTally_def Sdk_Client.computePayouts_def Let_def
  by (rule native_read_sim)+

lemma simulated_on_store: "frame simulated (on_store f)"
  by (rule frameI) (auto simp: on_store_def)

lemma simulated_uuid: "frame simulated randomUUID"
  by (rule frameI) (auto simp: randomUUID_def split: prod.splits)

lemmas sim_bind = frame_bind [OF simulated_trans]
lemmas sim_catch = frame_catch [OF simulated_trans]
lemmas sim_pure = frame_pure [OF simulated_refl]

lemma invoke_sim:
  assumes "frame simulated fn"
  shows "frame simulated (invoke H method auth args rd fn)"
  unfolding invoke_def clock_def Let_def
  by (intro sim_bind sim_catch sim_pure simulated_on_store simulated_uuid assms)

lemma store_read_sim: "frame simulated (store_read H method args)"
  unfolding store_read_def by (intro sim_asks native_read_sim)

lemmas sim_intros = invoke_sim sim_bind sim_catch sim_pure simulated_on_store store_read_sim sim_asks
  native_read_sim sdk_reads_sim

lemma reads_sim:
  "frame simulated (verify H c code)" "frame simulated (isDelegate H c d)"
  "frame simulated (getShared H c code)" "frame simulated (getTally H c code p)"
  "frame simulated (computePayouts H c code p)"
  unfolding verify_def isDelegate_def getShared_def getTally_def computePayouts_def clock_def
    applyState_def Let_def
  by (intro sim_intros)+

lemma public_sim: "\<not> is_signed q \<Longrightarrow> frame simulated (call_app H q)"
  by (cases q) (simp_all add: reads_sim)

section \<open>Without a wallet\<close>

definition no_wallet :: jserr where
  "no_wallet = failErr ''Connect a wallet'' ''Connect Freighter to sign this transaction.'' (Num 6)"

lemma invoke_no_wallet:
  "\<exists>s'. invoke H method auth args rd (bindIO (requireWallet None) g) (p, s) = (Inl no_wallet, (p, s')) \<and>
     s_state s' = s_state s"
  by (cases p) (simp add: invoke_def randomUUID_def clock_def on_store_def push_log_def set_log_def
      requireWallet_def bindIO_run catchIO_run toFriendly_def no_wallet_def failErr_def with_sd_def
      Let_def)

lemma no_wallet_signed:
  "is_signed q \<Longrightarrow> s_wallet s = None \<Longrightarrow>
   \<exists>s'. call_app H q (p, s) = (Inl no_wallet, (p, s')) \<and> s_state s' = s_state s"
  by (cases q)
    (simp_all add: createCampaign_def issueCodes_def redeem_def addDelegate_def removeDelegate_def
      registerShared_def commitTally_def settle_def bumpTally_def plain_write_def closed_wallet_def
      bindIO_run Let_def invoke_no_wallet)

section \<open>The store as a state machine\<close>

text \<open>
  What a user can do to the store: a call of the context, connecting, disconnecting, clearing the
  log, dismissing a toast (or its timer), while the outside changes on its own.
\<close>

inductive app_step :: "'w host \<Rightarrow> 'w app \<Rightarrow> 'w app \<Rightarrow> bool" for H where
  call: "call_app H q z = (r, z') \<Longrightarrow> app_step H z z'"
| connect: "connect H z = (r, z') \<Longrightarrow> app_step H z z'"
| disconnect: "disconnect z = (r, z') \<Longrightarrow> app_step H z z'"
| clear: "app_step H (p, s) (p, clearLog s)"
| dismiss: "app_step H (p, s) (p, dismissToast i s)"
| outside: "app_step H ((w, tr), s) ((w', tr), s)"

inductive_cases app_step_cases: "app_step H z z'"

definition store_inv :: "store \<Rightarrow> bool" where
  "store_inv s \<longleftrightarrow> fresh_log s \<and> distinct (map l_id (s_log s)) \<and> length (s_log s) \<le> 60 \<and>
     (\<forall>e\<in>set (s_log s). l_status e = ''ok'' \<or> l_status e = ''err'' \<and> l_error e \<noteq> None) \<and>
     distinct (map to_id (s_toasts s)) \<and> (\<forall>t\<in>set (s_toasts s). to_id t < s_uuid s)"

lemma store_inv_init: "store_inv init_store"
  by (simp add: store_inv_def fresh_log_def init_store_def)

lemma store_inv_entered:
  assumes "store_inv s" and "entered s e t"
    and "l_status e = ''ok'' \<or> l_status e = ''err'' \<and> l_error e \<noteq> None"
  shows "store_inv t"
proof -
  have log: "s_log t = e # take 59 (s_log s)" and ident: "l_id e = s_uuid s" "s_uuid t = s_uuid s + 1"
    and toasts: "s_toasts t = s_toasts s"
    using assms(2) by (simp_all add: entered_def)
  have old: "\<And>x. x \<in> set (take 59 (s_log s)) \<Longrightarrow> x \<in> set (s_log s)" by (rule in_set_takeD)
  have less: "\<And>x. x \<in> set (s_log s) \<Longrightarrow> l_id x < s_uuid s"
    and ok: "\<And>x. x \<in> set (s_log s) \<Longrightarrow> l_status x = ''ok'' \<or> l_status x = ''err'' \<and> l_error x \<noteq> None"
    and tless: "\<And>x. x \<in> set (s_toasts s) \<Longrightarrow> to_id x < s_uuid s"
    and tdist: "distinct (map to_id (s_toasts s))"
    using assms(1) by (simp_all add: store_inv_def fresh_log_def)
  have "l_id e \<notin> l_id ` set (take 59 (s_log s))" using old less ident by force
  moreover have "distinct (map l_id (take 59 (s_log s)))"
    using assms(1) by (simp add: store_inv_def take_map [symmetric])
  moreover have "\<forall>x\<in>set (s_log t). l_id x < s_uuid t"
    using log ident old less by (simp add: less_Suc_eq)
  moreover have "\<forall>x\<in>set (s_log t). l_status x = ''ok'' \<or> l_status x = ''err'' \<and> l_error x \<noteq> None"
    using log old ok assms(3) by auto
  ultimately show ?thesis
    using log toasts tdist tless ident(2) by (simp add: store_inv_def fresh_log_def less_Suc_eq)
qed

lemma call_store_inv:
  assumes "call_app H q z = (r, z')" and "store_inv (snd z)"
  shows "store_inv (snd z')"
proof -
  have "fresh_log (snd z)" using assms(2) by (simp add: store_inv_def)
  then obtain e where "entered (snd z) e (snd z')"
      "l_status e = ''ok'' \<or> l_status e = ''err'' \<and> l_error e \<noteq> None"
    using endsD [OF call_app_logged [unfolded logged_def] assms(1)]
    by (cases r) auto
  then show ?thesis using assms(2) store_inv_entered by blast
qed

text \<open>Connecting adds toasts with fresh ids and leaves the log alone.\<close>

definition grew :: "'w app \<Rightarrow> 'w app \<Rightarrow> bool" where
  "grew z z' \<longleftrightarrow> (store_inv (snd z) \<longrightarrow> store_inv (snd z'))"

lemma grew_refl: "reflp grew"
  by (simp add: reflp_def grew_def)

lemma grew_trans: "transp grew"
  unfolding transp_def grew_def by blast

lemma grew_on_store: "(\<And>s. store_inv s \<Longrightarrow> store_inv (f s)) \<Longrightarrow> frame grew (on_store f)"
  by (rule frameI) (auto simp: on_store_def grew_def)

lemma grew_toast: "frame grew (toast k t msg)"
  by (rule frameI)
    (auto simp: toast_def randomUUID_def on_store_def grew_def store_inv_def fresh_log_def bindIO_run
      less_Suc_eq split: prod.splits, fastforce)

lemma grew_sdk_io: "frame grew (sdk_io m)"
  by (rule frameI) (auto simp: sdk_io_def grew_def split: prod.splits)

lemma frame_mapIO:
  assumes "reflp P" and "transp P" and "\<And>x. frame P (f x)"
  shows "frame P (mapIO f xs)"
proof (induction xs)
  case Nil
  show ?case by (simp only: mapIO.simps frame_pure [OF assms(1)])
next
  case (Cons x xs)
  then show ?case unfolding mapIO.simps by (intro frame_bind assms frame_pure)
qed

lemmas grew_intros = frame_bind [OF grew_trans] frame_catch [OF grew_trans] frame_pure [OF grew_refl]
  frame_mapIO [OF grew_refl grew_trans] grew_toast grew_sdk_io grew_on_store

lemma grew_connect: "frame grew (connect H)"
  unfolding connect_def loadOwnedCampaigns_def applyState_def Let_def
  by (intro grew_intros; simp add: store_inv_def fresh_log_def)

lemma grew_disconnect: "frame grew disconnect"
  unfolding disconnect_def by (intro grew_intros; simp add: store_inv_def fresh_log_def)

lemma app_step_inv: "app_step H z z' \<Longrightarrow> store_inv (snd z) \<Longrightarrow> store_inv (snd z')"
proof (induction rule: app_step.induct)
  case (call q z r z')
  then show ?case using call_store_inv by blast
next
  case (connect z r z')
  then show ?case unfolding grew_def using frameD [OF grew_connect] grew_def by blast
next
  case (disconnect z r z')
  then show ?case unfolding grew_def using frameD [OF grew_disconnect] grew_def by blast
next
  case (dismiss p s i)
  then show ?case
    by (auto simp: store_inv_def fresh_log_def dismissToast_def intro: distinct_map_filter)
qed (auto simp: store_inv_def fresh_log_def clearLog_def)

interpretation pm: invariant_machine "app_step H" "\<lambda>z. store_inv (snd z)" for H :: "'w host"
  by unfold_locales (rule app_step_inv)

section \<open>Properties\<close>

definition sample_host :: "raw option \<Rightarrow> nat host" where
  "sample_host err = \<lparr>h_stellar = sample_stellar, h_env = sample_env err 0, h_config = sample_config,
     h_now = (\<lambda>w. Fin 1700000000000), h_date_ms = (\<lambda>d. Fin 1800000000000),
     h_parts = (\<lambda>t. (2027, 0, 15, 8, 0)), h_locale = num_str, h_clock = num_str,
     h_random = (\<lambda>w. Some (replicate 16 (word_of_nat w))),
     h_sha256 = (map (\<lambda>c. word_of_int (char_code c)), Some (\<lambda>bs. replicate 32 0))\<rparr>"

lemmas app_run_simps = invoke_def randomUUID_def clock_def on_store_def push_log_def set_log_def
  requireWallet_def bindIO_run catchIO_run store_write_def store_read_def sdk_io_def plain_write_def
  closed_wallet_def init_store_def sample_host_def

text \<open>
  C17 (safety). Without a wallet none of the nine signed calls reaches the outside: the run (the
  world and the trace of what was asked of it) is the one it started with, the mirror is
  unchanged, and the caller gets the error that asks to connect a wallet.
\<close>

theorem signed_needs_wallet:
  "is_signed q \<Longrightarrow> s_wallet s = None \<Longrightarrow>
   \<exists>s'. call_app H q (p, s) = (Inl no_wallet, (p, s')) \<and> s_state s' = s_state s"
  by (rule no_wallet_signed)

theorem signed_needs_wallet_witness:
  "\<exists>s'. call_app (sample_host None) (Settle (JNum (Fin 1)) ''CODE'' (JNum (Fin 1))) ((0, []), init_store) =
     (Inl no_wallet, ((0, []), s')) \<and> s_state s' = s_state init_store"
  by (rule signed_needs_wallet) (simp_all add: init_store_def)

text \<open>
  C18 (safety). The five public calls ask nothing of the outside but simulations, whatever the
  outside answers: no account is read, no signature is requested, nothing is submitted.
\<close>

theorem public_calls_simulate:
  "\<not> is_signed q \<Longrightarrow> call_app H q ((w, tr), s) = (r, ((w', tr'), s')) \<Longrightarrow>
   \<exists>cs. tr' = tr @ cs \<and> (\<forall>c\<in>set cs. \<exists>t. c = Simulate t)"
  by (drule public_sim, drule frameD, assumption) (simp add: simulated_def)

theorem public_calls_simulate_witness:
  "\<exists>cs. [Simulate (Built \<lparr>tx_source = \<lparr>acc_id = ''GREAD'', acc_seq = ''0''\<rparr>, tx_fee = ''100'',
       tx_passphrase = ''Test SDF Network ; September 2015'', tx_contract = ''CCOUPON'',
       tx_method = ''is_delegate'', tx_args = [ScvString ''u64'', ScvString ''address''],
       tx_timeout = 60\<rparr>)] = [] @ cs \<and> (\<forall>c\<in>set cs. \<exists>t. c = Simulate t)"
proof -
  have one: "js_integer (JNum (Fin 1)) ''u64'' = Inr 1" using js_integer_num [of 1] by simp
  obtain r s' where "call_app (sample_host None) (IsDelegate (JNum (Fin 1)) ''GD'') ((0, []), init_store) =
     (r, ((0, [Simulate (Built \<lparr>tx_source = \<lparr>acc_id = ''GREAD'', acc_seq = ''0''\<rparr>, tx_fee = ''100'',
       tx_passphrase = ''Test SDF Network ; September 2015'', tx_contract = ''CCOUPON'',
       tx_method = ''is_delegate'', tx_args = [ScvString ''u64'', ScvString ''address''],
       tx_timeout = 60\<rparr>)]), s'))"
    by (simp add: isDelegate_def app_run_simps native_read_def sdk_read_def readAt_def sample_simps
        args_of_def scU64_def scAddr_def numeric_def one U64_MAX_def toNative_def ask_def Let_def)
  then show ?thesis by (rule public_calls_simulate [rotated]) simp
qed

text \<open>A concrete run: a lookup that the contract refuses with \<open>CouponNotFound\<close>.\<close>

definition not_found :: raw where
  "not_found = RawStr ''HostError: Error(Contract, #2)''"

lemma not_found_run:
  "\<exists>p' s'. call_app (sample_host (Some not_found)) (Verify (JNum (Fin 1)) ''NOPE'') ((0, []), init_store) =
     (Inl (SDErr ''CouponNotFound''), (p', s'))"
proof -
  have code: "contractErrorCode not_found = Some (Fin 2)" by code_simp
  have key: "CODE2KEY (Fin 2) = Some ''CouponNotFound''" by code_simp
  have one: "js_integer (JNum (Fin 1)) ''u64'' = Inr 1" using js_integer_num [of 1] by simp
  have "toFriendly (contractErr not_found) = SDErr ''CouponNotFound''"
    using code key by (simp add: toFriendly_def contractErr_def not_found_def Error_def code_key_def)
  then show ?thesis
    by (simp add: verify_def app_run_simps native_read_def sdk_read_def readAt_def sample_simps
        args_of_def scU64_def scStr_def numeric_def one U64_MAX_def ask_def Let_def)
qed

text \<open>
  C16 (error). A call that throws has changed nothing of the mirror, the highlight, the wallet or
  the toasts; the thrown error always carries the friendly payload the cards read, and the log
  has exactly one new entry, in state \<open>err\<close>, with that payload.
\<close>

theorem failed_call_is_clean:
  "fresh_log s \<Longrightarrow> call_app H q (p, s) = (Inl err, (p', s')) \<Longrightarrow>
   s_state s' = s_state s \<and> s_highlight s' = s_highlight s \<and> s_wallet s' = s_wallet s \<and>
   s_toasts s' = s_toasts s \<and> e_sd err \<noteq> None \<and>
   (\<exists>e. s_log s' = take 60 (e # s_log s) \<and> l_status e = ''err'' \<and> l_error e = e_sd err)"
  by (drule endsD [OF call_app_logged [unfolded logged_def], rotated]) (auto simp: entered_def)

theorem failed_call_is_clean_witness:
  "\<exists>p' s' e. call_app (sample_host (Some not_found)) (Verify (JNum (Fin 1)) ''NOPE'') ((0, []), init_store) =
     (Inl (SDErr ''CouponNotFound''), (p', s')) \<and> s_state s' = initialState \<and>
     s_log s' = [e] \<and> l_status e = ''err'' \<and> l_error e = map_of ERRORS ''CouponNotFound''"
proof -
  obtain p' s' where run: "call_app (sample_host (Some not_found)) (Verify (JNum (Fin 1)) ''NOPE'')
      ((0, []), init_store) = (Inl (SDErr ''CouponNotFound''), (p', s'))"
    using not_found_run by blast
  have sd: "e_sd (SDErr ''CouponNotFound'') = map_of ERRORS ''CouponNotFound''"
    by (rule SDErr_sd) (simp add: ERRORS_def)
  have "fresh_log init_store" by (simp add: fresh_log_def init_store_def)
  note clean = failed_call_is_clean [OF this run]
  have "s_log init_store = []" "s_state init_store = initialState" by (simp_all add: init_store_def)
  with clean sd run show ?thesis by (simp only: take_Cons' take_Nil) fastforce
qed

text \<open>
  C19 (invariant). Along every run of the store (calls with any outcome, connecting,
  disconnecting, clearing the log, dismissing toasts, the outside moving on its own) the log has
  at most 60 entries, their ids are distinct, none is left pending once its call is over, every
  failed one carries its error, and the ids of the toasts are distinct.
\<close>

theorem store_invariant:
  "(app_step H)\<^sup>*\<^sup>* (p, init_store) (p', s) \<Longrightarrow> store_inv s"
  using pm.run_inv [of H "(p, init_store)" "(p', s)"] store_inv_init by simp

theorem store_invariant_witness:
  "\<exists>p' s. (app_step (sample_host (Some not_found)))\<^sup>*\<^sup>* ((0, []), init_store) (p', s) \<and> store_inv s \<and>
     s_toasts s \<noteq> [] \<and> s_wallet s = None"
proof -
  let ?H = "sample_host (Some not_found)"
  obtain p1 s1 where call: "app_step ?H ((0, []), init_store) (p1, s1)"
    using not_found_run app_step.call by blast
  obtain s2 where dis: "disconnect (p1, s1) = (Inr (), (p1, s2))" "s_toasts s2 \<noteq> []" "s_wallet s2 = None"
    by (simp add: disconnect_def toast_def app_run_simps)
  have run: "(app_step ?H)\<^sup>*\<^sup>* ((0, []), init_store) (p1, s2)"
    by (rule converse_rtranclp_into_rtranclp, rule call, rule r_into_rtranclp,
        rule app_step.disconnect, rule dis(1))
  with store_invariant [OF run] dis show ?thesis by blast
qed

end
