(* ===== verification/Play_Refine.thy ===== *)
theory Play_Refine
  imports Ledger_Props Play_Props
begin

text \<open>
  The playground against the contract: the friendly error a card shows for each error of the
  contract, and the mirror of the store as a lower bound of the ledger. \<open>sync\<close> is the composed
  machine: the ledger moves on its own, and each updater of the store runs after the ledger call it
  belongs to. \<open>mirrored\<close> says that what the mirror shows is on the ledger.
\<close>

section \<open>What the mirror shows of the ledger\<close>

definition ckey :: "nat \<Rightarrow> string" where
  "ckey i = int_str (int i)"

definition tkey :: "nat \<Rightarrow> string \<Rightarrow> string" where
  "tkey i s = ckey i @ '':'' @ s"

definition camp_shown :: "campaign \<Rightarrow> campaign_info \<Rightarrow> bool" where
  "camp_shown x c \<longleftrightarrow>
     ci_owner c = JStr (c_owner x) \<and> ci_total_supply c = num (int (c_total_supply x)) \<and>
     (\<exists>a b. ci_minted c = num (int a) \<and> ci_burned c = num (int b) \<and> a \<le> c_minted x \<and> b \<le> c_burned x)"

definition token_shown :: "coupon_token \<Rightarrow> mtoken \<Rightarrow> bool" where
  "token_shown y t \<longleftrightarrow>
     mt_token_id t = JNum (num (int (t_id y))) \<and> (mt_burned t \<longrightarrow> t_burned y)"

definition camp_at :: "ledger \<Rightarrow> string \<Rightarrow> campaign_info \<Rightarrow> bool" where
  "camp_at L k c \<longleftrightarrow> (\<exists>i x. k = ckey i \<and> campaigns L i = Some x \<and> camp_shown x c)"

definition token_at :: "ledger \<Rightarrow> string \<Rightarrow> mtoken \<Rightarrow> bool" where
  "token_at L k t \<longleftrightarrow>
     (\<exists>i s n y. k = tkey i s \<and> code_index L (i, s) = Some n \<and> tokens L n = Some y \<and> token_shown y t)"

definition mirrored :: "ledger \<Rightarrow> mirror \<Rightarrow> bool" where
  "mirrored L m \<longleftrightarrow>
     (\<forall>k c. map_of (m_campaigns m) k = Some c \<longrightarrow> camp_at L k c) \<and>
     (\<forall>k t. map_of (m_tokens m) k = Some t \<longrightarrow> token_at L k t)"

lemma num_key: "i < 2 ^ 53 \<Longrightarrow> num_str (num (int i)) = ckey i"
  unfolding ckey_def by (rule num_str_of_int) simp

lemma token_num_key: "i < 2 ^ 53 \<Longrightarrow> token_key (num (int i)) s = tkey i s"
  unfolding token_key_def tkey_def by (simp only: num_key)

lemma ckey_inject [simp]: "ckey i = ckey j \<longleftrightarrow> i = j"
  by (simp add: ckey_def)

lemma ckey_no_colon: "CHR '':'' \<notin> set (ckey i)"
proof -
  have "list_all digit (ckey i)"
    using all_digits_dec [of "int i"] by (simp add: ckey_def int_str_def all_digits_def)
  then show ?thesis by (auto simp: list_all_iff digit_def char_code_def)
qed

lemma takeWhile_stop: "c \<notin> set xs \<Longrightarrow> takeWhile (\<lambda>d. d \<noteq> c) (xs @ c # ys) = xs"
  by (induction xs) auto

lemma tkey_inject [simp]: "tkey i s = tkey j t \<longleftrightarrow> i = j \<and> s = t"
proof
  assume eq: "tkey i s = tkey j t"
  have "takeWhile (\<lambda>c. c \<noteq> CHR '':'') (tkey l u) = ckey l" for l u
    unfolding tkey_def using takeWhile_stop [OF ckey_no_colon] by simp
  then have "ckey i = ckey j" using eq by metis
  then show "i = j \<and> s = t" using eq by (simp add: tkey_def)
qed simp

lemma mirrored_campD: "mirrored L m \<Longrightarrow> map_of (m_campaigns m) k = Some c \<Longrightarrow> camp_at L k c"
  unfolding mirrored_def by blast

lemma mirrored_tokD: "mirrored L m \<Longrightarrow> map_of (m_tokens m) k = Some t \<Longrightarrow> token_at L k t"
  unfolding mirrored_def by blast

lemma camp_atI: "campaigns L i = Some x \<Longrightarrow> camp_shown x c \<Longrightarrow> camp_at L (ckey i) c"
  unfolding camp_at_def by blast

lemma token_atI:
  "code_index L (i, s) = Some n \<Longrightarrow> tokens L n = Some y \<Longrightarrow> token_shown y t \<Longrightarrow> token_at L (tkey i s) t"
  unfolding token_at_def by blast

lemma camp_shown_le: "campaign_le x y \<Longrightarrow> camp_shown x c \<Longrightarrow> camp_shown y c"
proof -
  assume le: "campaign_le x y" and shown: "camp_shown x c"
  let ?z = "x\<lparr>c_minted := c_minted y, c_burned := c_burned y\<rparr>"
  have y: "y = ?z" and counts: "c_minted x \<le> c_minted y" "c_burned x \<le> c_burned y"
    using le unfolding campaign_le_def by blast+
  have "c_owner y = c_owner ?z" "c_total_supply y = c_total_supply ?z"
    using y by (rule arg_cong)+
  then have same: "c_owner y = c_owner x" "c_total_supply y = c_total_supply x" by simp_all
  from shown obtain a b where "ci_minted c = num (int a)" "ci_burned c = num (int b)"
      "a \<le> c_minted x" "b \<le> c_burned x"
    unfolding camp_shown_def by blast
  then have "\<exists>a b. ci_minted c = num (int a) \<and> ci_burned c = num (int b) \<and> a \<le> c_minted y \<and> b \<le> c_burned y"
    using counts le_trans by blast
  with shown show ?thesis unfolding camp_shown_def same by blast
qed

lemma token_shown_le: "token_le x y \<Longrightarrow> token_shown x t \<Longrightarrow> token_shown y t"
proof -
  assume le: "token_le x y" and shown: "token_shown x t"
  let ?z = "x\<lparr>t_burned := t_burned y, t_ref := t_ref y, t_burned_at := t_burned_at y\<rparr>"
  have y: "y = ?z" and burned: "t_burned x \<longrightarrow> y = x" using le unfolding token_le_def by blast+
  have "t_id y = t_id ?z" using y by (rule arg_cong)
  with shown burned show ?thesis unfolding token_shown_def by auto
qed

text \<open>The ledger moving on leaves every shown fact true.\<close>

lemma camp_at_le:
  assumes "camp_at L k c" and "ledger_le L L'"
  shows "camp_at L' k c"
proof -
  obtain i x where x: "k = ckey i" "campaigns L i = Some x" "camp_shown x c"
    using assms(1) unfolding camp_at_def by blast
  have "map_grows campaign_le (campaigns L) (campaigns L')" using assms(2) unfolding ledger_le_def by blast
  from map_growsD [OF this x(2)] obtain y where "campaigns L' i = Some y" "campaign_le x y" by blast
  with x show ?thesis by (simp add: camp_atI camp_shown_le)
qed

lemma token_at_le:
  assumes "token_at L k t" and "ledger_le L L'"
  shows "token_at L' k t"
proof -
  obtain i s n y where y: "k = tkey i s" "code_index L (i, s) = Some n" "tokens L n = Some y"
      "token_shown y t"
    using assms(1) unfolding token_at_def by blast
  have "map_grows token_le (tokens L) (tokens L')" and ci: "code_index L \<subseteq>\<^sub>m code_index L'"
    using assms(2) unfolding ledger_le_def by blast+
  from map_growsD [OF this(1) y(3)] obtain z where "tokens L' n = Some z" "token_le y z" by blast
  with y map_leD [OF ci y(2)] show ?thesis by (simp add: token_atI token_shown_le)
qed

lemma mirrored_le: "mirrored L m \<Longrightarrow> ledger_le L L' \<Longrightarrow> mirrored L' m"
  unfolding mirrored_def using camp_at_le token_at_le by blast

section \<open>Each updater after its ledger call\<close>

lemma camp_shown_new:
  "ci_owner c = JStr (c_owner x) \<Longrightarrow> ci_total_supply c = num (int (c_total_supply x)) \<Longrightarrow>
   ci_minted c = num (int a) \<Longrightarrow> ci_burned c = num (int b) \<Longrightarrow> a \<le> c_minted x \<Longrightarrow> b \<le> c_burned x \<Longrightarrow>
   camp_shown x c"
  unfolding camp_shown_def by blast

lemma mirrored_upd:
  assumes "mirrored L m"
  shows "camp_at L k c \<Longrightarrow> mirrored L (m\<lparr>m_campaigns := obj_put k c (m_campaigns m)\<rparr>)"
    and "token_at L k t \<Longrightarrow> mirrored L (m\<lparr>m_tokens := obj_put k t (m_tokens m)\<rparr>)"
  using assms by (simp_all add: mirrored_def)

text \<open>The counters of the mirror are no part of what it shows.\<close>

lemma mirrored_counters [simp]:
  "mirrored L (m\<lparr>m_campCtr := n\<rparr>) = mirrored L m" "mirrored L (m\<lparr>m_tokenCtr := n\<rparr>) = mirrored L m"
  "mirrored L (m\<lparr>m_delegates := d\<rparr>) = mirrored L m"
  by (simp_all add: mirrored_def)

lemma mirrored_created:
  assumes "mirrored L m" and I: "ledger_inv L"
    and c: "create_campaign cx ow nm dt dv supply unt L = Inr (i, L')"
    and "cf_total_supply f = int_str (int supply)" and "supply < 2 ^ 53" and "i < 2 ^ 53"
  shows "mirrored L' (apply_created (JStr ow) f u (num (int i)) m)"
proof -
  have "mirrored L' m" using mirrored_le [OF assms(1) create_campaign_le [OF I c]] .
  moreover have "\<exists>x. campaigns L' i = Some x \<and> c_owner x = ow \<and> c_total_supply x = supply"
    using c by (auto simp: create_campaign_def throw_simps Let_def)
  then obtain x where x: "campaigns L' i = Some x" "ow = c_owner x" "supply = c_total_supply x" by blast
  moreover have "to_number (cf_total_supply f) = num (int supply)"
    using assms(4,5) to_number_int_str [of "int supply"] by simp
  ultimately show ?thesis
    unfolding apply_created_def num_key [OF assms(6)]
    by (subst mirrored_def) (auto simp: mirrored_def intro!: camp_atI [OF x(1)] camp_shown_new [of _ _ 0 0])
qed

lemma put_issued_lookup:
  "map_of (put_issued cid now cs ts) k = Some t \<Longrightarrow>
   map_of ts k = Some t \<or>
   (\<exists>s v. (s, v) \<in> set cs \<and> k = token_key cid s \<and> mt_token_id t = v \<and> \<not> mt_burned t)"
  unfolding put_issued_def
proof (induction cs arbitrary: ts)
  case (Cons p cs)
  then show ?case by (cases p) (fastforce split: if_splits)
qed simp

lemma issue_loop_index:
  "token_inv L \<Longrightarrow> campaigns L i \<noteq> None \<Longrightarrow> issue_loop now i ks L = Inr (ids, L') \<Longrightarrow>
   length ids = length ks \<and> (\<forall>j<length ks. code_index L' (i, ks ! j) = Some (ids ! j))"
proof (induction ks arbitrary: L ids)
  case (Cons s ks)
  obtain k L1 ids' where one: "issue_one now i s L = Inr (k, L1)"
    and rest: "issue_loop now i ks L1 = Inr (ids', L')" and ids: "ids = k # ids'"
    using Cons.prems(3) by (auto simp: throw_simps split: prod.splits)
  have m: "issued_more i 1 L L1" using Cons.prems one by (intro issue_one_more)
  note m1 = issued_moreD [OF m]
  have c1: "campaigns L1 i \<noteq> None" using Cons.prems(2) m1(5) by simp
  have m2: "issued_more i (length ks) L1 L'" by (rule issue_loop_more [OF m1(1) c1 rest])
  have "code_index L1 (i, s) = Some k" using one by (auto simp: issue_one_def throw_simps Let_def)
  then have "code_index L' (i, s) = Some k" using issued_moreD(15) [OF m2] map_leD by metis
  with Cons.IH [OF m1(1) c1 rest] ids show ?case by (simp add: nth_Cons split: nat.split)
qed simp

lemma mirrored_issued:
  assumes "mirrored L m" and I: "ledger_inv L"
    and r: "issue_unique cx ow i ks L = Inr (ids, L')" and "i < 2 ^ 53"
  shows "mirrored L' (apply_issued (num (int i)) ks (map (\<lambda>n. num (int n)) ids) now m)"
proof -
  obtain c L1 where c: "campaigns L i = Some c" and loop: "issue_loop (timestamp cx) i ks L = Inr (ids, L1)"
    and L': "L' = L1\<lparr>campaigns := (campaigns L1)(i \<mapsto> c\<lparr>c_minted := c_minted c + length ks\<rparr>)\<rparr>"
    using issue_unique_result [OF r] by metis
  have bound: "c_minted c + length ks \<le> u32_max"
    using r c by (auto simp: issue_unique_def throw_simps split: prod.splits)
  have T: "token_inv L" using I by (simp add: ledger_inv_def)
  have idx: "length ids = length ks" "\<And>j. j < length ks \<Longrightarrow> code_index L' (i, ks ! j) = Some (ids ! j)"
    using issue_loop_index [OF T _ loop] c by (auto simp: L')
  have T': "token_inv L'" using issue_unique_inv [OF I r] by (simp add: ledger_inv_def)
  have old: "mirrored L' m" using mirrored_le [OF assms(1) issue_unique_le [OF I r]] .
  let ?m = "apply_issued (num (int i)) ks (map (\<lambda>n. num (int n)) ids) now m"
  show ?thesis
  proof (subst mirrored_def, intro conjI allI impI)
    fix k t
    assume "map_of (m_tokens ?m) k = Some t"
    then consider "map_of (m_tokens m) k = Some t"
      | j where "j < length ks" "k = token_key (num (int i)) (ks ! j)"
          "mt_token_id t = JNum (num (int (ids ! j)))" "\<not> mt_burned t"
      using idx(1) by (fastforce simp: apply_issued_def nth_id_def dest!: put_issued_lookup)
    then show "token_at L' k t"
    proof cases
      case 2
      obtain y where y: "tokens L' (ids ! j) = Some y" using code_invD [OF T' idx(2) [OF 2(1)]] by blast
      then have "t_id y = ids ! j" using token_invD [OF T'] by blast
      with 2 y idx(2) [OF 2(1)] show ?thesis
        unfolding token_num_key [OF assms(4)] by (simp add: token_atI token_shown_def)
    qed (rule mirrored_tokD [OF old])
  next
    fix k d
    assume "map_of (m_campaigns ?m) k = Some d"
    then consider "map_of (m_campaigns m) k = Some d"
      | e where "k = ckey i" "map_of (m_campaigns m) k = Some e"
          "d = e\<lparr>ci_minted := jadd (ci_minted e) (num (int (length ks)))\<rparr>"
      unfolding apply_issued_def num_key [OF assms(4)] by (auto split: option.splits if_splits)
    then show "camp_at L' k d"
    proof cases
      case 2
      obtain x where "campaigns L i = Some x" "camp_shown x e"
        using mirrored_campD [OF assms(1) 2(2)] 2(1) unfolding camp_at_def by auto
      with c have "camp_shown c e" by simp
      then obtain a b where ab: "ci_owner e = JStr (c_owner c)" "ci_total_supply e = num (int (c_total_supply c))"
          "ci_minted e = num (int a)" "ci_burned e = num (int b)" "a \<le> c_minted c" "b \<le> c_burned c"
        unfolding camp_shown_def by blast
      have "\<bar>int a + int (length ks)\<bar> < 2 ^ 53" using ab(5) bound by (simp add: u32_max_def)
      from jadd_num [OF this] ab have "ci_minted d = num (int (a + length ks))" by (simp add: 2(3))
      with ab have "camp_shown (c\<lparr>c_minted := c_minted c + length ks\<rparr>) d"
        by (intro camp_shown_new [of _ _ "a + length ks" b]) (simp_all add: 2(3))
      then show ?thesis using 2(1) by (simp add: camp_atI L')
    qed (rule mirrored_campD [OF old])
  qed
qed

lemma mirrored_redeemed:
  assumes "mirrored L m" and I: "ledger_inv L"
    and r: "redeem_unique cx who i s ref L = Inr (r, L')" and "i < 2 ^ 53"
    and "ri_campaign_id rc = num (int (r_campaign_id r))"
  shows "mirrored L' (apply_redeemed (JNum (num (int i))) s rc m)"
proof -
  obtain k t c where k: "code_index L (i, s) = Some k" "tokens L k = Some t"
    and c: "campaigns L (t_campaign t) = Some c" and rid: "r_campaign_id r = c_id c"
    and L': "L' = publish (CouponBurned k (ledger_seq cx))
       (L\<lparr>tokens := (tokens L)(k \<mapsto> t\<lparr>t_burned := True, t_ref := ref, t_burned_at := timestamp cx\<rparr>),
          campaigns := (campaigns L)(t_campaign t \<mapsto> c\<lparr>c_burned := c_burned c + 1\<rparr>)\<rparr>)"
    using redeem_unique_result [OF r] by (metis receipt.select_convs(3))
  have "t_campaign t = i" using I code_invD [OF _ k(1)] k(2) by (auto simp: ledger_inv_def)
  with c have ci: "campaigns L i = Some c" by simp
  then have id: "c_id c = i" using I campaign_invD by (fastforce simp: ledger_inv_def)
  have bound: "c_burned c + 1 \<le> u32_max"
    using r k ci \<open>t_campaign t = i\<close> by (auto simp: redeem_unique_def throw_simps Let_def)
  have ck: "num_str (ri_campaign_id rc) = ckey i"
    using assms(5) rid id num_key [OF assms(4)] by (simp del: num_str.simps)
  have tk: "token_key (js_Number (JNum (num (int i)))) s = tkey i s"
    using token_num_key [OF assms(4)] by (simp del: num_str.simps)
  have old: "mirrored L' m" using mirrored_le [OF assms(1) redeem_unique_le [OF r]] .
  let ?m = "apply_redeemed (JNum (num (int i))) s rc m"
  show ?thesis
  proof (subst mirrored_def, intro conjI allI impI)
    fix q u
    assume "map_of (m_tokens ?m) q = Some u"
    then consider "map_of (m_tokens m) q = Some u"
      | v where "q = tkey i s" "map_of (m_tokens m) q = Some v" "mt_token_id u = mt_token_id v"
      unfolding apply_redeemed_def Let_def tk by (auto split: option.splits if_splits)
    then show "token_at L' q u"
    proof cases
      case 2
      obtain n y where "code_index L (i, s) = Some n" "tokens L n = Some y" "token_shown y v"
        using mirrored_tokD [OF assms(1) 2(2)] 2(1) unfolding token_at_def by auto
      with k have v: "token_shown t v" by simp
      have "token_shown (t\<lparr>t_burned := True, t_ref := ref, t_burned_at := timestamp cx\<rparr>) u"
        using v 2(3) by (simp add: token_shown_def)
      with 2(1) k show ?thesis by (simp add: token_atI L')
    qed (rule mirrored_tokD [OF old])
  next
    fix q d
    assume "map_of (m_campaigns ?m) q = Some d"
    then consider "map_of (m_campaigns m) q = Some d"
      | e where "q = ckey i" "map_of (m_campaigns m) q = Some e"
          "d = e\<lparr>ci_burned := jadd (ci_burned e) (num 1)\<rparr>"
      unfolding apply_redeemed_def Let_def ck by (auto split: option.splits if_splits)
    then show "camp_at L' q d"
    proof cases
      case 2
      obtain x where "campaigns L i = Some x" "camp_shown x e"
        using mirrored_campD [OF assms(1) 2(2)] 2(1) unfolding camp_at_def by auto
      with ci have "camp_shown c e" by simp
      then obtain a b where ab: "ci_owner e = JStr (c_owner c)" "ci_total_supply e = num (int (c_total_supply c))"
          "ci_minted e = num (int a)" "ci_burned e = num (int b)" "a \<le> c_minted c" "b \<le> c_burned c"
        unfolding camp_shown_def by blast
      have "\<bar>int b + 1\<bar> < 2 ^ 53" using ab(6) bound by (simp add: u32_max_def)
      from jadd_num [OF this] ab have "ci_burned d = num (int (b + 1))" by (simp add: 2(3) add.commute)
      with ab have "camp_shown (c\<lparr>c_burned := c_burned c + 1\<rparr>) d"
        by (intro camp_shown_new [of _ _ a "b + 1"]) (simp_all add: 2(3))
      then show ?thesis using 2(1) \<open>t_campaign t = i\<close> by (simp add: camp_atI L')
    qed (rule mirrored_campD [OF old])
  qed
qed

text \<open>What a read returned of the ledger as it was when it ran.\<close>

definition read_campaign :: "ledger \<Rightarrow> campaign_info \<Rightarrow> bool" where
  "read_campaign L c \<longleftrightarrow>
     (\<exists>i x. i < 2 ^ 53 \<and> ci_id c = num (int i) \<and> campaigns L i = Some x \<and> camp_shown x c)"

lemma read_campaign_at: "read_campaign L c \<Longrightarrow> camp_at L (num_str (ci_id c)) c"
  unfolding read_campaign_def using num_key camp_atI by metis

lemma mirrored_verified:
  assumes "mirrored L m" and "code_index L (i, s) = Some n" and "tokens L n = Some y"
    and "token_shown y t" and "i < 2 ^ 53" and "\<And>c. oc = Some c \<Longrightarrow> read_campaign L c"
  shows "mirrored L (apply_verified (JNum (num (int i))) s t oc m)"
proof -
  have tk: "token_key (js_Number (JNum (num (int i)))) s = tkey i s"
    using token_num_key [OF assms(5)] by (simp del: num_str.simps)
  have "token_at L (tkey i s) t" using assms(2-4) by (rule token_atI)
  then show ?thesis
    using assms(1,6) read_campaign_at unfolding apply_verified_def tk
    by (auto simp: mirrored_def split: option.splits)
qed

lemma mirrored_loaded:
  "mirrored L m \<Longrightarrow> (\<And>c. c \<in> set cs \<Longrightarrow> read_campaign L c) \<Longrightarrow> mirrored L (merge_campaigns cs m)"
  unfolding merge_campaigns_def
proof (induction cs arbitrary: m)
  case (Cons c cs)
  have "mirrored L (m\<lparr>m_campaigns := obj_put (num_str (ci_id c)) c (m_campaigns m),
      m_campCtr := jmax (m_campCtr m) (ci_id c)\<rparr>)"
    using Cons.prems mirrored_upd(1) read_campaign_at by simp
  with Cons show ?case by simp
qed simp

section \<open>The composed machine\<close>

inductive sync :: "'w token_contract \<Rightarrow> addr \<Rightarrow> (ledger \<times> 'w) \<times> mirror \<Rightarrow> (ledger \<times> 'w) \<times> mirror \<Rightarrow> bool" for T me where
  chain: "moves T me s s' \<Longrightarrow> sync T me (s, m) (s', m)"
    \<comment> \<open>any call of anybody, or the token moving on its own\<close>
| created: "create_campaign cx ow nm dt dv supply unt L = Inr (i, L') \<Longrightarrow> i < 2 ^ 53 \<Longrightarrow>
     supply < 2 ^ 53 \<Longrightarrow> cf_total_supply f = int_str (int supply) \<Longrightarrow>
     sync T me ((L, w), m) ((L', w), apply_created (JStr ow) f u (num (int i)) m)"
| issued: "issue_unique cx ow i ks L = Inr (ids, L') \<Longrightarrow> i < 2 ^ 53 \<Longrightarrow>
     sync T me ((L, w), m) ((L', w), apply_issued (num (int i)) ks (map (\<lambda>n. num (int n)) ids) now m)"
| redeemed: "redeem_unique cx who i s ref L = Inr (r, L') \<Longrightarrow> i < 2 ^ 53 \<Longrightarrow>
     ri_campaign_id rc = num (int (r_campaign_id r)) \<Longrightarrow>
     sync T me ((L, w), m) ((L', w), apply_redeemed (JNum (num (int i))) s rc m)"
| verified: "code_index L (i, s) = Some n \<Longrightarrow> tokens L n = Some y \<Longrightarrow> token_shown y t \<Longrightarrow>
     i < 2 ^ 53 \<Longrightarrow> (\<And>c. oc = Some c \<Longrightarrow> read_campaign L c) \<Longrightarrow>
     sync T me ((L, w), m) ((L, w), apply_verified (JNum (num (int i))) s t oc m)"
| loaded: "(\<And>c. c \<in> set cs \<Longrightarrow> read_campaign L c) \<Longrightarrow>
     sync T me ((L, w), m) ((L, w), merge_campaigns cs m)"
| delegated: "sync T me (s, m) (s, apply_delegate c d m)"
| undelegated: "sync T me (s, m) (s, apply_undelegate c d m)"

definition in_sync :: "(ledger \<times> 'w) \<times> mirror \<Rightarrow> bool" where
  "in_sync z \<longleftrightarrow> ledger_inv (fst (fst z)) \<and> mirrored (fst (fst z)) (snd z)"

lemma sync_inv: "sync T me z z' \<Longrightarrow> in_sync z \<Longrightarrow> in_sync z'"
proof (induction rule: sync.induct)
  case (chain s s' m)
  have "ledger_inv (fst s')" "ledger_le (fst s) (fst s')"
    using chain lm.stp_inv [OF chain(1)] lm.stp_le [OF chain(1)] by (simp_all add: in_sync_def)
  with chain show ?case using mirrored_le by (auto simp: in_sync_def)
next
  case created
  then show ?case unfolding in_sync_def fst_conv snd_conv by (blast intro: mirrored_created create_campaign_inv)
next
  case issued
  then show ?case unfolding in_sync_def fst_conv snd_conv by (blast intro: mirrored_issued issue_unique_inv)
next
  case redeemed
  then show ?case unfolding in_sync_def fst_conv snd_conv by (blast intro: mirrored_redeemed redeem_unique_inv)
next
  case verified
  then show ?case unfolding in_sync_def fst_conv snd_conv by (blast intro: mirrored_verified)
next
  case loaded
  then show ?case by (simp add: in_sync_def mirrored_loaded)
qed (simp_all add: in_sync_def apply_delegate_def apply_undelegate_def)

interpretation sy: invariant_machine "sync T me" in_sync for T :: "'w token_contract" and me
  by unfold_locales (rule sync_inv)

lemma in_sync_init: "in_sync ((empty_ledger, w), initialState)"
  by (simp add: in_sync_def ledger_inv_empty mirrored_def initialState_def)

section \<open>Friendly errors and the contract's\<close>

definition contract_errors :: "contract_error list" where
  "contract_errors = [CampaignNotFound, CouponNotFound, AlreadyRedeemed, CampaignExpired,
     SupplyExhausted, Unauthorized, InvalidCode, DuplicateCode, InvalidTerms, BatchTooLarge,
     CodeTooLong, SharedNotFound, AlreadyRegistered, PeriodCommitted, TallyNotFound,
     AlreadySettled, InvalidTally, InvalidSettlement, AttributionMismatch]"

lemma error_numbers: "(\<exists>e. int (error_number e) = n) \<longleftrightarrow> 1 \<le> n \<and> n \<le> 19"
proof
  assume "\<exists>e. int (error_number e) = n"
  then show "1 \<le> n \<and> n \<le> 19" by (elim exE) (rename_tac e, case_tac e, auto)
next
  assume n: "1 \<le> n \<and> n \<le> 19"
  have "map error_number contract_errors = [1..<20]" by code_simp
  moreover have "nat n \<in> set [1..<20]" using n by auto
  ultimately have "nat n \<in> error_number ` set contract_errors" by (metis set_map)
  then obtain e where "nat n = error_number e" by blast
  then have "int (error_number e) = n" using n by linarith
  then show "\<exists>e. int (error_number e) = n" by (rule exI)
qed

lemma errors_codes: "map (\<lambda>(k, s). case sd_code s of Num c \<Rightarrow> dec c | Dash \<Rightarrow> [CHR 0x97]) ERRORS =
    map int_str [1..19]"
  by code_simp

lemma errors_table: "list_all (\<lambda>n. \<exists>k\<in>set (map fst ERRORS). CODE2KEY (Fin (of_int n)) = Some k \<and>
    map_option sd_code (map_of ERRORS k) = Some (Num n)) [1..19]"
  by code_simp

lemma CODE2KEY_num:
  assumes "\<bar>n\<bar> < 2 ^ 53"
  shows "if 1 \<le> n \<and> n \<le> 19
    then \<exists>k. CODE2KEY (num n) = Some k \<and> map_option sd_code (map_of ERRORS k) = Some (Num n)
    else CODE2KEY (num n) = None"
proof (cases "1 \<le> n \<and> n \<le> 19")
  case True
  then have "n \<in> set [1..19]" by simp
  then obtain k where "CODE2KEY (num n) = Some k" "map_option sd_code (map_of ERRORS k) = Some (Num n)"
    using errors_table unfolding list_all_iff by blast
  then show ?thesis unfolding if_P [OF True] by blast
next
  case False
  let ?t = "map (\<lambda>(k, s). ((case sd_code s of Num c \<Rightarrow> dec c | Dash \<Rightarrow> [CHR 0x97]), k)) ERRORS"
  have "map fst ?t = map int_str [1..19]"
    using errors_codes by (simp only: map_map comp_def case_prod_unfold fst_conv)
  then have "fst ` set ?t = int_str ` set [1..19]" by (metis set_map)
  moreover have "int_str n \<notin> int_str ` set [1..19]" using False by auto
  ultimately have "map_of ?t (num_str (num n)) = None"
    unfolding num_str_of_int [OF assms] by (simp only: map_of_eq_None_iff simp_thms)
  then have "CODE2KEY (num n) = None" unfolding CODE2KEY_def .
  with False show ?thesis by (simp only: if_False)
qed

text \<open>
  C24 (equivalence). The friendly errors are those of the contract: when the text of an error
  names contract error \<open>n\<close>, the card shows the entry of number \<open>n\<close> exactly if \<open>n\<close> is an error the
  contract defines, and the generic message otherwise.
\<close>

theorem friendly_matches_contract:
  "contractErrorCode (RawStr s) = Some (num n) \<Longrightarrow> \<bar>n\<bar> < 2 ^ 53 \<Longrightarrow>
   \<exists>d. e_sd (toFriendly (contractErr (RawStr s))) = Some d \<and>
     (if \<exists>e. int (error_number e) = n then sd_code d = Num n
      else sd_title d = ''Transaction failed'' \<and> sd_code d = Dash)"
proof -
  assume code: "contractErrorCode (RawStr s) = Some (num n)" and n: "\<bar>n\<bar> < 2 ^ 53"
  then have "s \<noteq> []" by (auto simp: contractErrorCode_def)
  note table = CODE2KEY_num [OF n]
  show ?thesis
  proof (cases "1 \<le> n \<and> n \<le> 19")
    case True
    with table obtain k where k: "CODE2KEY (num n) = Some k" "map_option sd_code (map_of ERRORS k) = Some (Num n)"
      by auto
    then have "toFriendly (contractErr (RawStr s)) = SDErr k"
      using code by (simp add: toFriendly_def contractErr_def Error_def code_key_def Let_def)
    with k True show ?thesis unfolding error_numbers by (auto simp: SDErr_def)
  next
    case False
    then have "CODE2KEY (num n) = None" using table by simp
    then have "toFriendly (contractErr (RawStr s)) =
        failErr ''Transaction failed'' (or_text (take 180 s) ''Unknown error'') Dash"
      using code \<open>s \<noteq> []\<close> by (simp add: toFriendly_def contractErr_def Error_def code_key_def Let_def)
    with False show ?thesis unfolding error_numbers by (simp add: failErr_def with_sd_def)
  qed
qed

theorem friendly_matches_contract_witness:
  "\<exists>d. e_sd (toFriendly (contractErr (RawStr ''HostError: Error(Contract, #3)''))) = Some d \<and>
     sd_code d = Num 3"
proof -
  have "contractErrorCode (RawStr ''HostError: Error(Contract, #3)'') = Some (Fin 3)" by code_simp
  then have "contractErrorCode (RawStr ''HostError: Error(Contract, #3)'') = Some (num 3)" by simp
  from friendly_matches_contract [OF this]
  have "\<exists>d. e_sd (toFriendly (contractErr (RawStr ''HostError: Error(Contract, #3)''))) = Some d \<and>
     (if \<exists>e. int (error_number e) = 3 then sd_code d = Num 3
      else sd_title d = ''Transaction failed'' \<and> sd_code d = Dash)" by simp
  moreover have "\<exists>e. int (error_number e) = 3" unfolding error_numbers by simp
  ultimately show ?thesis by (simp only: if_True)
qed

section \<open>The mirror never claims more than the ledger\<close>



end
