(* ===== verification/Ui.thy ===== *)
theory Ui
  imports Js_Object
begin

text \<open>
  The values JSX evaluates to: elements with a tag or a component name, their props and children.
  A component with no state of its own is a function from its props to elements; one with state
  stays an element with its name, and its own definition renders it. Repeated props are those of a
  spread, the last one wins. Event handlers are given by the event they raise, so that what a
  view offers can be compared with what the handlers accept. The \<open>key\<close> that lists carry for the
  renderer is not a prop and is left out.
\<close>

datatype 'e attr =
    Val string
  | Flag bool
  | On 'e
  | OnV "string \<Rightarrow> 'e"
  | OnAt "jnum \<Rightarrow> jnum \<Rightarrow> 'e"
  | Elts "'e html list"
  | Sty "(string \<times> string) list"
  | Snips "(string \<times> string) list"
and 'e html =
    Text string
  | El string "(string \<times> 'e attr) list" "'e html list"

text \<open>
  \<open>On\<close> is a handler, \<open>OnV\<close> a handler of the value or key typed, \<open>OnAt\<close> one of the
  position of the pointer, \<open>Elts\<close> elements given as a prop,
  \<open>Sty\<close> a style object, \<open>Snips\<close> the named snippets of a card.
\<close>

definition attr_of :: "(string \<times> 'e attr) list \<Rightarrow> string \<Rightarrow> 'e attr option" where
  "attr_of ps k = map_of (rev ps) k"

text \<open>A disabled element raises nothing; otherwise its handlers without an argument do.\<close>

definition disabled :: "(string \<times> 'e attr) list \<Rightarrow> bool" where
  "disabled ps \<longleftrightarrow> attr_of ps ''disabled'' = Some (Flag True)"

definition own_clicks :: "(string \<times> 'e attr) list \<Rightarrow> 'e list" where
  "own_clicks ps =
     (if disabled ps then [] else concat (map (\<lambda>(k, p). case p of On e \<Rightarrow> [e] | _ \<Rightarrow> []) ps))"

fun clicks :: "'e html \<Rightarrow> 'e list" where \<comment> \<open>the events the tree can raise without typing\<close>
  "clicks (Text t) = []"
| "clicks (El tag ps cs) = own_clicks ps @ concat (map clicks cs)"

abbreviation all_clicks :: "'e html list \<Rightarrow> 'e list" where
  "all_clicks hs \<equiv> concat (map clicks hs)"

fun text_of :: "'e html \<Rightarrow> string" where \<comment> \<open>\<open>textContent\<close>\<close>
  "text_of (Text t) = t"
| "text_of (El tag ps cs) = concat (map text_of cs)"

lemma own_clicks_simps [simp]:
  "own_clicks [] = []"
  by (simp add: own_clicks_def disabled_def attr_of_def)

lemma all_clicks_if: "all_clicks (if c then a else b) = (if c then all_clicks a else all_clicks b)"
  by simp

end
