(* ===== verification/Play_Art.thy ===== *)
theory Play_Art
  imports Ui
begin

text \<open>
  The drawing of the hero (\<open>HeroArt\<close> of \<open>web/src/hero.jsx\<close>): brush strokes, tickets, a stamp and a coin.
  The coordinates of a stroke are computed from its rectangle, in doubles.
\<close>

definition at_share :: "int \<Rightarrow> int \<Rightarrow> rat \<Rightarrow> string" where
  \<comment> \<open>\<open>${a + w * f}\<close>, with the double of \<open>f\<close>\<close>
  "at_share a w f = num_str (jadd (num a) (jmul (num w) (to_double f)))"

definition brush :: "int \<Rightarrow> int \<Rightarrow> int \<Rightarrow> int \<Rightarrow> string" where
  "brush x y w h =
     (let i = (\<lambda>n. num_str (num n)) in
      ''M'' @ i (x - 2) @ '','' @ i (y + 3) @ '' C'' @ at_share x w (3 / 10) @ '','' @ i (y - 4) @ '' ''
      @ at_share x w (7 / 10) @ '','' @ i (y + 5) @ '' '' @ i (x + w + 3) @ '','' @ i (y - 1) @ '' ''
      @ ''C'' @ i (x + w - 2) @ '','' @ at_share y h (4 / 10) @ '' '' @ i (x + w + 4) @ '','' @ i (y + h - 2) @ '' ''
      @ i (x + w - 1) @ '','' @ i (y + h + 3) @ '' ''
      @ ''C'' @ at_share x w (6 / 10) @ '','' @ i (y + h - 5) @ '' '' @ at_share x w (3 / 10) @ '','' @ i (y + h + 4)
      @ '' '' @ i (x - 3) @ '','' @ i (y + h - 1) @ '' ''
      @ ''C'' @ i (x + 2) @ '','' @ at_share y h (6 / 10) @ '' '' @ i (x - 4) @ '','' @ at_share y h (3 / 10) @ '' ''
      @ i (x - 2) @ '','' @ i (y + 3) @ '' Z'')"

definition hero_ticket :: \<open>int \<Rightarrow> int \<Rightarrow> int \<Rightarrow> bool \<Rightarrow> 'e html\<close> where \<comment> \<open>\<open>Ticket\<close>\<close>
  \<open>hero_ticket x y r lit =
     El ''g'' [(''transform'',
                Val (''translate(''
                       @ int_str x
                       @ '' ''
                       @ int_str y
                       @ '') rotate(''
                       @ int_str r
                       @ '')''))]
       [El ''path'' [(''d'',
                      Val
                        ''M0 6a6 6 0 0 1 6-6h70a6 6 0 0 1 6 6v8a5 5 0 0 0 0 10v8a6 6 0 0 1-6 6H6a6 6 0 0 1-6-6v-8a5 5 0 0 0 0-10z''),
                     (''fill'', Val ''var(--surface)''), (''stroke'', Val ''var(--ink)''),
                     (''strokeWidth'', Val ''2''), (''strokeLinejoin'', Val ''round'')] [],
        El ''line'' [(''x1'', Val ''50''), (''y1'', Val ''4''), (''x2'', Val ''50''),
                     (''y2'', Val ''34''), (''stroke'', Val ''var(--ink)''),
                     (''strokeWidth'', Val ''1.6''), (''strokeDasharray'', Val ''2 3''),
                     (''opacity'', Val ''.55'')] [],
        El ''circle'' [(''cx'', Val ''20''), (''cy'', Val ''13''), (''r'', Val ''6''),
                       (''fill'', Val (if lit then ''var(--accent)'' else ''none'')),
                       (''stroke'', Val ''var(--ink)''), (''strokeWidth'', Val ''1.8'')] [],
        El ''line'' [(''x1'', Val ''60''), (''y1'', Val ''13''), (''x2'', Val ''74''),
                     (''y2'', Val ''13''), (''stroke'', Val ''var(--ink)''),
                     (''strokeWidth'', Val ''2''), (''strokeLinecap'', Val ''round'')] [],
        El ''line'' [(''x1'', Val ''60''), (''y1'', Val ''22''), (''x2'', Val ''70''),
                     (''y2'', Val ''22''), (''stroke'', Val ''var(--ink)''),
                     (''strokeWidth'', Val ''2''), (''strokeLinecap'', Val ''round''),
                     (''opacity'', Val ''.5'')] []]\<close>

definition hero_style :: string where \<comment> \<open>the style sheet of the drawing\<close>
  \<open>hero_style = join [CHR 0x0A]
     [[],
      ''        .hero-art { position: relative; width: 100%; max-width: 520px; margin: 0 auto; aspect-ratio: 1.18 / 1; }'',
      ''        .hero-art svg { width: 100%; height: 100%; overflow: visible; }'',
      ''        .ha-float { animation: haFloat 6s ease-in-out infinite; transform-box: fill-box; transform-origin: center; }'',
      ''        .ha-float.b { animation-duration: 7.5s; animation-delay: -2s; }'',
      ''        .ha-float.c { animation-duration: 8.5s; animation-delay: -4s; }'',
      ''        @keyframes haFloat { 0%,100% { transform: translateY(0); } 50% { transform: translateY(-7px); } }'',
      ''        .ha-stamp { animation: haStamp 4.5s ease-in-out infinite; transform-box: fill-box; transform-origin: center; }'',
      ''        @keyframes haStamp { 0%,72%,100% { transform: scale(1); } 80% { transform: scale(.9) rotate(-2deg); } 88% { transform: scale(1.04); } }'',
      ''        .ha-spark { animation: haSpark 4.5s ease-in-out infinite; transform-box: fill-box; transform-origin: center; }'',
      ''        @keyframes haSpark { 0%,78%,100% { opacity: 0; transform: scale(.4); } 84%,94% { opacity: 1; transform: scale(1); } }'',
      ''        .ha-dash { stroke-dasharray: 4 5; animation: haDash 1.4s linear infinite; }'',
      ''        @keyframes haDash { to { stroke-dashoffset: -18; } }'',
      ''        .ha-coin { animation: haCoin 5s ease-in-out infinite; transform-box: fill-box; transform-origin: center; }'',
      ''        @keyframes haCoin { 0%,100% { transform: translateY(0) rotate(0); } 50% { transform: translateY(-9px) rotate(8deg); } }'',
      ''      '']\<close>

definition HeroArt :: \<open>'e html\<close> where
  \<open>HeroArt =
     El ''div'' [(''className'', Val ''hero-art'')]
       [El ''style'' [] [Text hero_style],
        El ''svg'' [(''viewBox'', Val ''0 0 520 440''), (''fill'', Val ''none'')]
          [El ''path'' [(''d'', Val (brush 70 150 200 150)), (''fill'', Val ''var(--accent)''),
                        (''opacity'', Val ''.9'')] [],
           El ''path'' [(''d'', Val (brush 305 70 120 90)), (''fill'', Val ''var(--accent)''),
                        (''opacity'', Val ''.85'')] [],
           El ''path'' [(''d'', Val (brush 330 300 110 80)), (''fill'', Val ''var(--accent)''),
                        (''opacity'', Val ''.8'')] [],
           El ''path'' [(''className'', Val ''ha-dash''), (''d'', Val ''M40 360 H470''),
                        (''stroke'', Val ''var(--ink)''), (''strokeWidth'', Val ''2''),
                        (''strokeLinecap'', Val ''round''), (''opacity'', Val ''.4'')] [],
           El ''circle'' [(''cx'', Val ''40''), (''cy'', Val ''360''), (''r'', Val ''4''),
                          (''fill'', Val ''var(--ink)''), (''opacity'', Val ''.4'')] [],
           El ''circle'' [(''cx'', Val ''470''), (''cy'', Val ''360''), (''r'', Val ''4''),
                          (''fill'', Val ''var(--ink)''), (''opacity'', Val ''.4'')] [],
           El ''path'' [(''d'', Val ''M150 250 C200 200 250 195 300 215''),
                        (''stroke'', Val ''var(--ink)''), (''strokeWidth'', Val ''1.6''),
                        (''strokeDasharray'', Val ''2 4''), (''opacity'', Val ''.4''),
                        (''fill'', Val ''none'')] [],
           El ''g'' [(''className'', Val ''ha-float'')]
             [El ''rect'' [(''x'', Val ''60''), (''y'', Val ''200''), (''width'', Val ''120''),
                           (''height'', Val ''92''), (''rx'', Val ''12''),
                           (''fill'', Val ''var(--surface)''), (''stroke'', Val ''var(--ink)''),
                           (''strokeWidth'', Val ''2'')] [],
              El ''rect'' [(''x'', Val ''74''), (''y'', Val ''216''), (''width'', Val ''46''),
                           (''height'', Val ''9''), (''rx'', Val ''4.5''),
                           (''fill'', Val ''var(--ink)'')] [],
              El ''rect'' [(''x'', Val ''74''), (''y'', Val ''234''), (''width'', Val ''92''),
                           (''height'', Val ''6''), (''rx'', Val ''3''), (''fill'', Val ''var(--ink)''),
                           (''opacity'', Val ''.35'')] [],
              El ''rect'' [(''x'', Val ''74''), (''y'', Val ''248''), (''width'', Val ''78''),
                           (''height'', Val ''6''), (''rx'', Val ''3''), (''fill'', Val ''var(--ink)''),
                           (''opacity'', Val ''.35'')] [],
              El ''rect'' [(''x'', Val ''74''), (''y'', Val ''266''), (''width'', Val ''34''),
                           (''height'', Val ''14''), (''rx'', Val ''7''),
                           (''fill'', Val ''var(--accent)''), (''stroke'', Val ''var(--ink)''),
                           (''strokeWidth'', Val ''1.6'')] []],
           El ''g'' [(''className'', Val ''ha-float b'')] [hero_ticket 300 188 (- 7) False],
           El ''g'' [(''className'', Val ''ha-float c'')] [hero_ticket 322 250 5 True],
           El ''g'' [(''transform'', Val ''translate(390 130)'')]
             [El ''g'' [(''className'', Val ''ha-stamp'')]
                [El ''circle'' [(''cx'', Val ''0''), (''cy'', Val ''0''), (''r'', Val ''42''),
                                (''fill'', Val ''var(--surface)''), (''stroke'', Val ''var(--ink)''),
                                (''strokeWidth'', Val ''2.4'')] [],
                 El ''circle'' [(''cx'', Val ''0''), (''cy'', Val ''0''), (''r'', Val ''33''),
                                (''fill'', Val ''none''), (''stroke'', Val ''var(--ink)''),
                                (''strokeWidth'', Val ''1.4''), (''strokeDasharray'', Val ''2 3''),
                                (''opacity'', Val ''.55'')] [],
                 El ''path'' [(''d'', Val ''M-16 2 L-5 13 L16 -11''), (''stroke'', Val ''var(--ink)''),
                              (''strokeWidth'', Val ''3.4''), (''strokeLinecap'', Val ''round''),
                              (''strokeLinejoin'', Val ''round''), (''fill'', Val ''none'')] []],
              El ''g'' [(''className'', Val ''ha-spark''), (''stroke'', Val ''var(--ink)''),
                        (''strokeWidth'', Val ''2.4''), (''strokeLinecap'', Val ''round'')]
                [El ''line'' [(''x1'', Val ''48''), (''y1'', Val ''-30''), (''x2'', Val ''56''),
                              (''y2'', Val ''-38'')] [],
                 El ''line'' [(''x1'', Val ''52''), (''y1'', Val ''-8''), (''x2'', Val ''62''),
                              (''y2'', Val ''-10'')] [],
                 El ''line'' [(''x1'', Val ''44''), (''y1'', Val ''-50''), (''x2'', Val ''49''),
                              (''y2'', Val ''-58'')] []]],
           El ''g'' [(''className'', Val ''ha-coin''), (''transform'', Val ''translate(430 350)'')]
             [El ''circle'' [(''cx'', Val ''0''), (''cy'', Val ''0''), (''r'', Val ''26''),
                             (''fill'', Val ''var(--accent)''), (''stroke'', Val ''var(--ink)''),
                             (''strokeWidth'', Val ''2.2'')] [],
              El ''circle'' [(''cx'', Val ''0''), (''cy'', Val ''0''), (''r'', Val ''19''),
                             (''fill'', Val ''none''), (''stroke'', Val ''var(--ink)''),
                             (''strokeWidth'', Val ''1.4''), (''opacity'', Val ''.5'')] [],
              El ''path'' [(''d'',
                            Val
                              ''M0 -11 V11 M-6 -5 a6 5 0 0 1 6 -3 a6 5 0 0 1 0 9 a6 5 0 0 0 0 9 a6 5 0 0 0 6 -3''),
                           (''stroke'', Val ''var(--ink)''), (''strokeWidth'', Val ''2''),
                           (''fill'', Val ''none''), (''strokeLinecap'', Val ''round'')] []]]]\<close>

end
