(* ===== verification/Play_Ui.thy ===== *)
theory Play_Ui
  imports Ui Play_Data
begin

text \<open>
  The shared elements of the playground: \<open>web/src/components.jsx\<close> (icons, copying, pills, buttons,
  the code block and its highlighter) and \<open>web/src/cards-core.jsx\<close> (the frame of a card, its
  result and error panels). The definitions are the JSX, element by element; what a component
  keeps in React state (the chosen tab, whether a value was just copied) is an argument.
\<close>

section \<open>Icons\<close>

definition Ic_table :: \<open>(string \<times> (string \<times> 'e attr) list \<times> 'e html list) list\<close> where
  \<open>Ic_table =
    [(''copy'',
      [(''viewBox'', Val ''0 0 24 24''), (''fill'', Val ''none''), (''stroke'', Val ''currentColor''),
       (''strokeWidth'', Val ''1.8''), (''strokeLinecap'', Val ''round''),
       (''strokeLinejoin'', Val ''round'')],
      [El ''rect'' [(''x'', Val ''9''), (''y'', Val ''9''), (''width'', Val ''11''),
                    (''height'', Val ''11''), (''rx'', Val ''2.5'')] [],
       El ''path'' [(''d'', Val ''M5 15V5.5A1.5 1.5 0 0 1 6.5 4H15'')] []]),
     (''check'',
      [(''viewBox'', Val ''0 0 24 24''), (''fill'', Val ''none''), (''stroke'', Val ''currentColor''),
       (''strokeWidth'', Val ''2.2''), (''strokeLinecap'', Val ''round''),
       (''strokeLinejoin'', Val ''round'')],
      [El ''polyline'' [(''points'', Val ''4 12.5 9.5 18 20 6'')] []]),
     (''arrow'',
      [(''viewBox'', Val ''0 0 24 24''), (''fill'', Val ''none''), (''stroke'', Val ''currentColor''),
       (''strokeWidth'', Val ''2.1''), (''strokeLinecap'', Val ''round''),
       (''strokeLinejoin'', Val ''round'')],
      [El ''line'' [(''x1'', Val ''5''), (''y1'', Val ''12''), (''x2'', Val ''19''),
                    (''y2'', Val ''12'')] [],
       El ''polyline'' [(''points'', Val ''13 6 19 12 13 18'')] []]),
     (''arrowUR'',
      [(''viewBox'', Val ''0 0 24 24''), (''fill'', Val ''none''), (''stroke'', Val ''currentColor''),
       (''strokeWidth'', Val ''2.1''), (''strokeLinecap'', Val ''round''),
       (''strokeLinejoin'', Val ''round'')],
      [El ''line'' [(''x1'', Val ''7''), (''y1'', Val ''17''), (''x2'', Val ''17''),
                    (''y2'', Val ''7'')] [],
       El ''polyline'' [(''points'', Val ''8 7 17 7 17 16'')] []]),
     (''ext'',
      [(''viewBox'', Val ''0 0 24 24''), (''fill'', Val ''none''), (''stroke'', Val ''currentColor''),
       (''strokeWidth'', Val ''1.9''), (''strokeLinecap'', Val ''round''),
       (''strokeLinejoin'', Val ''round'')],
      [El ''path'' [(''d'', Val ''M14 5h5v5'')] [],
       El ''path'' [(''d'', Val ''M19 5l-8 8'')] [],
       El ''path'' [(''d'',
                     Val
                       ''M18 13.5V18a1.5 1.5 0 0 1-1.5 1.5h-9A1.5 1.5 0 0 1 6 18V9a1.5 1.5 0 0 1 1.5-1.5H12'')]
         []]),
     (''wallet'',
      [(''viewBox'', Val ''0 0 24 24''), (''fill'', Val ''none''), (''stroke'', Val ''currentColor''),
       (''strokeWidth'', Val ''1.8''), (''strokeLinecap'', Val ''round''),
       (''strokeLinejoin'', Val ''round'')],
      [El ''rect'' [(''x'', Val ''3''), (''y'', Val ''6''), (''width'', Val ''18''),
                    (''height'', Val ''13''), (''rx'', Val ''2.5'')] [],
       El ''path'' [(''d'', Val ''M3 9h18'')] [],
       El ''circle'' [(''cx'', Val ''17''), (''cy'', Val ''13.5''), (''r'', Val ''1.3''),
                      (''fill'', Val ''currentColor''), (''stroke'', Val ''none'')] []]),
     (''lock'',
      [(''viewBox'', Val ''0 0 24 24''), (''fill'', Val ''none''), (''stroke'', Val ''currentColor''),
       (''strokeWidth'', Val ''1.8''), (''strokeLinecap'', Val ''round''),
       (''strokeLinejoin'', Val ''round'')],
      [El ''rect'' [(''x'', Val ''5''), (''y'', Val ''11''), (''width'', Val ''14''),
                    (''height'', Val ''9''), (''rx'', Val ''2'')] [],
       El ''path'' [(''d'', Val ''M8 11V8a4 4 0 0 1 8 0v3'')] []]),
     (''globe'',
      [(''viewBox'', Val ''0 0 24 24''), (''fill'', Val ''none''), (''stroke'', Val ''currentColor''),
       (''strokeWidth'', Val ''1.8''), (''strokeLinecap'', Val ''round''),
       (''strokeLinejoin'', Val ''round'')],
      [El ''circle'' [(''cx'', Val ''12''), (''cy'', Val ''12''), (''r'', Val ''9'')] [],
       El ''path'' [(''d'', Val ''M3 12h18M12 3a14 14 0 0 1 0 18M12 3a14 14 0 0 0 0 18'')] []]),
     (''shield'',
      [(''viewBox'', Val ''0 0 24 24''), (''fill'', Val ''none''), (''stroke'', Val ''currentColor''),
       (''strokeWidth'', Val ''1.8''), (''strokeLinecap'', Val ''round''),
       (''strokeLinejoin'', Val ''round'')],
      [El ''path'' [(''d'', Val ''M12 3l7 3v5c0 4.5-3 8-7 10-4-2-7-5.5-7-10V6z'')] []]),
     (''users'',
      [(''viewBox'', Val ''0 0 24 24''), (''fill'', Val ''none''), (''stroke'', Val ''currentColor''),
       (''strokeWidth'', Val ''1.8''), (''strokeLinecap'', Val ''round''),
       (''strokeLinejoin'', Val ''round'')],
      [El ''circle'' [(''cx'', Val ''9''), (''cy'', Val ''8''), (''r'', Val ''3.2'')] [],
       El ''path'' [(''d'', Val ''M3.5 19a5.5 5.5 0 0 1 11 0'')] [],
       El ''path'' [(''d'', Val ''M16 6.2a3 3 0 0 1 0 5.6M17.5 19a5.5 5.5 0 0 0-3-4.9'')] []]),
     (''spark'',
      [(''viewBox'', Val ''0 0 24 24''), (''fill'', Val ''none''), (''stroke'', Val ''currentColor''),
       (''strokeWidth'', Val ''1.8''), (''strokeLinecap'', Val ''round''),
       (''strokeLinejoin'', Val ''round'')],
      [El ''path'' [(''d'',
                     Val
                       ''M12 3v4M12 17v4M3 12h4M17 12h4M5.6 5.6l2.8 2.8M15.6 15.6l2.8 2.8M18.4 5.6l-2.8 2.8M8.4 15.6l-2.8 2.8'')]
         []]),
     (''chevron'',
      [(''viewBox'', Val ''0 0 24 24''), (''fill'', Val ''none''), (''stroke'', Val ''currentColor''),
       (''strokeWidth'', Val ''2.1''), (''strokeLinecap'', Val ''round''),
       (''strokeLinejoin'', Val ''round'')],
      [El ''polyline'' [(''points'', Val ''6 9 12 15 18 9'')] []]),
     (''x'',
      [(''viewBox'', Val ''0 0 24 24''), (''fill'', Val ''none''), (''stroke'', Val ''currentColor''),
       (''strokeWidth'', Val ''2.1''), (''strokeLinecap'', Val ''round''),
       (''strokeLinejoin'', Val ''round'')],
      [El ''line'' [(''x1'', Val ''6''), (''y1'', Val ''6''), (''x2'', Val ''18''),
                    (''y2'', Val ''18'')] [],
       El ''line'' [(''x1'', Val ''18''), (''y1'', Val ''6''), (''x2'', Val ''6''),
                    (''y2'', Val ''18'')] []]),
     (''plus'',
      [(''viewBox'', Val ''0 0 24 24''), (''fill'', Val ''none''), (''stroke'', Val ''currentColor''),
       (''strokeWidth'', Val ''2.1''), (''strokeLinecap'', Val ''round''),
       (''strokeLinejoin'', Val ''round'')],
      [El ''line'' [(''x1'', Val ''12''), (''y1'', Val ''5''), (''x2'', Val ''12''),
                    (''y2'', Val ''19'')] [],
       El ''line'' [(''x1'', Val ''5''), (''y1'', Val ''12''), (''x2'', Val ''19''),
                    (''y2'', Val ''12'')] []]),
     (''terminal'',
      [(''viewBox'', Val ''0 0 24 24''), (''fill'', Val ''none''), (''stroke'', Val ''currentColor''),
       (''strokeWidth'', Val ''1.8''), (''strokeLinecap'', Val ''round''),
       (''strokeLinejoin'', Val ''round'')],
      [El ''rect'' [(''x'', Val ''3''), (''y'', Val ''4''), (''width'', Val ''18''),
                    (''height'', Val ''16''), (''rx'', Val ''2.5'')] [],
       El ''polyline'' [(''points'', Val ''7 9 10 12 7 15'')] [],
       El ''line'' [(''x1'', Val ''12.5''), (''y1'', Val ''15''), (''x2'', Val ''16''),
                    (''y2'', Val ''15'')] []]),
     (''alert'',
      [(''viewBox'', Val ''0 0 24 24''), (''fill'', Val ''none''), (''stroke'', Val ''currentColor''),
       (''strokeWidth'', Val ''1.9''), (''strokeLinecap'', Val ''round''),
       (''strokeLinejoin'', Val ''round'')],
      [El ''circle'' [(''cx'', Val ''12''), (''cy'', Val ''12''), (''r'', Val ''9'')] [],
       El ''line'' [(''x1'', Val ''12''), (''y1'', Val ''8''), (''x2'', Val ''12''),
                    (''y2'', Val ''13'')] [],
       El ''circle'' [(''cx'', Val ''12''), (''cy'', Val ''16''), (''r'', Val ''0.6''),
                      (''fill'', Val ''currentColor''), (''stroke'', Val ''currentColor'')] []]),
     (''ok'',
      [(''viewBox'', Val ''0 0 24 24''), (''fill'', Val ''none''), (''stroke'', Val ''currentColor''),
       (''strokeWidth'', Val ''1.9''), (''strokeLinecap'', Val ''round''),
       (''strokeLinejoin'', Val ''round'')],
      [El ''circle'' [(''cx'', Val ''12''), (''cy'', Val ''12''), (''r'', Val ''9'')] [],
       El ''polyline'' [(''points'', Val ''8 12.5 11 15.5 16 9'')] []]),
     (''fire'',
      [(''viewBox'', Val ''0 0 24 24''), (''fill'', Val ''none''), (''stroke'', Val ''currentColor''),
       (''strokeWidth'', Val ''1.7''), (''strokeLinecap'', Val ''round''),
       (''strokeLinejoin'', Val ''round'')],
      [El ''path'' [(''d'',
                     Val
                       ''M12 3c1 3-1.5 4-1.5 6.5A2.5 2.5 0 0 0 13 12c.5-.8.4-1.6.2-2.2 1.8 1 3.3 3 3.3 5.4a4.5 4.5 0 1 1-9 0C7.5 11 11 9 12 3z'')]
         []]),
     (''info'',
      [(''viewBox'', Val ''0 0 24 24''), (''fill'', Val ''none''), (''stroke'', Val ''currentColor''),
       (''strokeWidth'', Val ''1.9''), (''strokeLinecap'', Val ''round''),
       (''strokeLinejoin'', Val ''round'')],
      [El ''circle'' [(''cx'', Val ''12''), (''cy'', Val ''12''), (''r'', Val ''9'')] [],
       El ''line'' [(''x1'', Val ''12''), (''y1'', Val ''11''), (''x2'', Val ''12''),
                    (''y2'', Val ''16'')] [],
       El ''circle'' [(''cx'', Val ''12''), (''cy'', Val ''8''), (''r'', Val ''0.6''),
                      (''fill'', Val ''currentColor''), (''stroke'', Val ''currentColor'')] []]),
     (''hash'',
      [(''viewBox'', Val ''0 0 24 24''), (''fill'', Val ''none''), (''stroke'', Val ''currentColor''),
       (''strokeWidth'', Val ''1.8''), (''strokeLinecap'', Val ''round''),
       (''strokeLinejoin'', Val ''round'')],
      [El ''line'' [(''x1'', Val ''9''), (''y1'', Val ''4''), (''x2'', Val ''7''), (''y2'', Val ''20'')]
         [],
       El ''line'' [(''x1'', Val ''17''), (''y1'', Val ''4''), (''x2'', Val ''15''),
                    (''y2'', Val ''20'')] [],
       El ''line'' [(''x1'', Val ''4''), (''y1'', Val ''9''), (''x2'', Val ''20''), (''y2'', Val ''9'')]
         [],
       El ''line'' [(''x1'', Val ''3.5''), (''y1'', Val ''15''), (''x2'', Val ''19.5''),
                    (''y2'', Val ''15'')] []]),
     (''spinner'',
      [(''viewBox'', Val ''0 0 24 24''), (''fill'', Val ''none''), (''stroke'', Val ''currentColor''),
       (''strokeWidth'', Val ''2.2''), (''strokeLinecap'', Val ''round'')],
      [El ''path'' [(''d'', Val ''M12 3a9 9 0 1 0 9 9''), (''opacity'', Val ''1'')] [],
       El ''path'' [(''d'', Val ''M12 3a9 9 0 0 1 9 9''), (''opacity'', Val ''0.25'')] []])]\<close>

definition Ic :: "string \<Rightarrow> (string \<times> 'e attr) list \<Rightarrow> 'e html" where
  "Ic name p =
     (case map_of Ic_table name of
        Some (ps, cs) \<Rightarrow> El ''svg'' (ps @ p) cs | None \<Rightarrow> El name p [])"

section \<open>Copying\<close>

definition useCopy :: "bool option \<Rightarrow> bool \<Rightarrow> bool \<Rightarrow> bool" where
  \<comment> \<open>\<open>copied\<close> after a copy: by the clipboard, if there is one, else by the selected text area\<close>
  "useCopy clipboard selected copied =
     (case clipboard of Some True \<Rightarrow> True | _ \<Rightarrow> if selected then True else copied)"

definition CopyValue :: \<open>bool \<Rightarrow> (string \<Rightarrow> 'e) \<Rightarrow> string \<Rightarrow> string \<Rightarrow> string \<Rightarrow> string \<Rightarrow> bool \<Rightarrow> string \<Rightarrow> 'e html list\<close> where
  \<open>CopyValue copied copy value display label link ismono className =
     [El ''span'' [(''className'', Val (''copy '' @ (if copied then ''copied '' else []) @ className)),
                   (''onClick'', On (copy value)),
                   (''title'', Val (if label \<noteq> [] then label @ '': '' @ value else value)),
                   (''role'', Val ''button'')]
        ([El ''span'' [(''className'', Val (''val'' @ (if ismono then '' mono'' else [])))]
            [Text (or_text display value)]]
           @
           (if link \<noteq> [] then
              [El ''a'' [(''href'', Val link), (''target'', Val ''_blank''),
                         (''rel'', Val ''noopener''), (''className'', Val ''ci''),
                         (''onClick'', Val ''stopPropagation''),
                         (''title'', Val ''Open in stellar.expert'')] [Ic ''ext'' []]] else [])
           @
           [El ''span'' [(''className'', Val ''ci'')]
              (if copied then [Ic ''check'' []] else [Ic ''copy'' []])])]\<close>

definition CopyBare :: \<open>bool \<Rightarrow> (string \<Rightarrow> 'e) \<Rightarrow> string \<Rightarrow> string \<Rightarrow> bool \<Rightarrow> 'e html list\<close> where
  \<open>CopyBare copied copy value display ismono =
     [El ''span'' [(''className'', Val (''copy-bare '' @ (if copied then ''copied'' else []))),
                   (''onClick'', On (copy value)), (''title'', Val (''Copy: '' @ value)),
                   (''role'', Val ''button''),
                   (''style'', Sty (if ismono then [(''fontFamily'', ''var(--mono)'')] else []))]
        [Text (or_text display value),
         El ''span'' [(''className'', Val ''ci'')]
           (if copied then [Ic ''check'' []] else [Ic ''copy'' []])]]\<close>

section \<open>Pills, tags and buttons\<close>

definition Pill :: \<open>string \<Rightarrow> 'e html list \<Rightarrow> 'e html\<close> where
  \<open>Pill kind children =
     El ''span'' [(''className'', Val (''pill pill-'' @ kind))]
       ([El ''span'' [(''className'', Val ''dot'')] []] @ children)\<close>

definition AuthTag :: "string \<Rightarrow> 'e html" where
  "AuthTag auth =
     (let m = map_of [(''owner'', (''lock'', ''owner'')), (''delegate'', (''users'', ''owner or delegate'')),
                      (''public'', (''globe'', ''public''))] auth;
          (icon, t) = (case m of Some x \<Rightarrow> x | None \<Rightarrow> (''globe'', ''public''))
      in El ''span'' [(''className'', Val ''authtag'')] [Ic icon [], Text t])"

definition Spinner :: \<open>string \<Rightarrow> 'e html\<close> where
  \<open>Spinner sz =
     Ic ''spinner'' [(''className'', Val ''spin''),
                     (''style'', Sty [(''width'', sz), (''height'', sz)])]\<close>

definition Btn :: \<open>string \<Rightarrow> bool \<Rightarrow> bool \<Rightarrow> bool \<Rightarrow> 'e html list \<Rightarrow> (string \<times> 'e attr) list \<Rightarrow> 'e html list \<Rightarrow> 'e html\<close> where
  \<open>Btn variant loading dis small icon rest children =
     El ''button'' ([(''className'',
                      Val (''btn btn-'' @ variant @ (if small then '' btn-sm'' else []))),
                     (''disabled'', Flag (dis \<or> loading))]
                      @ rest)
       [El ''span'' [] children,
        El ''span'' [(''className'', Val ''chip'')]
          (if loading then [Spinner (if small then ''13'' else ''15'')] else
             (if icon \<noteq> [] then icon else
                [Ic ''arrow'' [(''style'',
                                Sty [(''width'', (if small then ''13'' else ''15'')),
                                     (''height'', (if small then ''13'' else ''15''))])]]))]\<close>

section \<open>Code blocks\<close>

definition LANGS :: "(string \<times> string) list" where
  "LANGS = [(''cli'', ''stellar CLI''), (''ts'', ''TypeScript''), (''go'', ''Go'')]"

definition KEYWORDS :: \<open>string list\<close> where
  \<open>KEYWORDS =
     [''import'', ''from'', ''const'', ''let'', ''var'', ''await'', ''async'', ''new'', ''return'',
      ''if'', ''else'', ''function'', ''err'', ''nil'', ''client'', ''ctx'', ''log'', ''range'',
      ''map'', ''Buffer'', ''crypto'', ''require'', ''type'']\<close>

fun comment_at :: "string \<Rightarrow> char option \<Rightarrow> nat \<Rightarrow> nat option" where
  \<comment> \<open>the index of the comment in the rest of a line, from the state of the quotes\<close>
  "comment_at [] inStr k = None"
| "comment_at (ch # rest) (Some q) k = comment_at rest (if ch = q then None else Some q) (k + 1)"
| "comment_at (ch # rest) None k =
     (if ch = CHR 0x22 \<or> ch = CHR 0x27 \<or> ch = CHR 0x60 then comment_at rest (Some ch) (k + 1)
      else if ch = CHR ''#'' then Some k
      else if ch = CHR ''/'' \<and> startsWith rest ''/'' then Some k
      else comment_at rest None (k + 1))"

definition word_start :: "char \<Rightarrow> bool" where \<comment> \<open>\<open>[A-Za-z_$]\<close>\<close>
  "word_start c \<longleftrightarrow> ascii_upper c \<or> ascii_lower c \<or> c = CHR ''_'' \<or> c = CHR ''$''"

definition word_char :: "char \<Rightarrow> bool" where \<comment> \<open>\<open>\w\<close>\<close>
  "word_char c \<longleftrightarrow> ascii_upper c \<or> ascii_lower c \<or> c = CHR ''_'' \<or> digit c"

definition quote_char :: "char \<Rightarrow> bool" where
  "quote_char c \<longleftrightarrow> c = CHR 0x22 \<or> c = CHR 0x27 \<or> c = CHR 0x60"

fun quoted_rest :: "char \<Rightarrow> string \<Rightarrow> nat option" where
  \<comment> \<open>the length of the rest of a quoted text, up to its closing quote; \<open>.\<close> is no line end\<close>
  "quoted_rest q [] = None"
| "quoted_rest q (c # s) =
     (if c = q then Some 1
      else if c = CHR 0x5C
      then (case s of [] \<Rightarrow> None
        | d # t \<Rightarrow> if d = CHR 0x0D then None else map_option (\<lambda>n. n + 2) (quoted_rest q t))
      else map_option (\<lambda>n. n + 1) (quoted_rest q s))"

text \<open>
  A token at a position of the line, of the first alternative of the expression that matches: a
  quoted text, a number between word boundaries, a word, blanks, or one other character. Where none
  matches, \<open>exec\<close> looks at the next position.
\<close>

datatype token = Str string | Numb string | Word string | Blank string | Other char

fun token_text :: "token \<Rightarrow> string" where
  "token_text (Str s) = s"
| "token_text (Numb s) = s"
| "token_text (Word s) = s"
| "token_text (Blank s) = s"
| "token_text (Other c) = [c]"

definition number_len :: "string \<Rightarrow> nat" where \<comment> \<open>of \<open>\d[\d_]*n?\<close>\<close>
  "number_len s =
     (let n = length (takeWhile (\<lambda>c. digit c \<or> c = CHR ''_'') s)
      in if startsWith (drop n s) ''n'' then n + 1 else n)"

definition token_at :: "char option \<Rightarrow> string \<Rightarrow> token option" where
  \<comment> \<open>the character before the position, and the rest of the line\<close>
  "token_at prev s =
     (case s of
        [] \<Rightarrow> None
      | c # t \<Rightarrow>
          if quote_char c
          then map_option (\<lambda>n. Str (take (n + 1) s)) (quoted_rest c t)
          else if digit c
          then (if (\<forall>p. prev = Some p \<longrightarrow> \<not> word_char p) \<and>
                   (drop (number_len s) s = [] \<or> \<not> word_char (hd (drop (number_len s) s)))
                then Some (Numb (take (number_len s) s)) else None)
          else if word_start c
          then Some (Word (c # takeWhile (\<lambda>d. word_char d \<or> d = CHR ''$'') t))
          else if ws c then Some (Blank (takeWhile ws s))
          else Some (Other c))"

lemma token_at_progress: "token_at p s = Some k \<Longrightarrow> 0 < length (token_text k)"
  by (auto simp: token_at_def number_len_def Let_def split: list.splits if_splits)

function tokenize :: "char option \<Rightarrow> string \<Rightarrow> token list" where
  "tokenize prev [] = []"
| "tokenize prev (c # s) =
     (case token_at prev (c # s) of
        None \<Rightarrow> tokenize (Some c) s
      | Some k \<Rightarrow> k # tokenize (Some (last (token_text k))) (drop (length (token_text k)) (c # s)))"
  by pat_completeness auto
termination
  by (relation "measure (\<lambda>(p, s). length s)") (auto dest: token_at_progress)

fun token_html :: "token \<Rightarrow> 'e html" where
  "token_html (Str s) = El ''span'' [(''className'', Val ''hl-str'')] [Text s]"
| "token_html (Numb s) = El ''span'' [(''className'', Val ''hl-num'')] [Text s]"
| "token_html (Word s) =
     (if s \<in> set KEYWORDS then El ''span'' [(''className'', Val ''hl-kw'')] [Text s]
      else if s \<noteq> [] \<and> ascii_upper (hd s) then El ''span'' [(''className'', Val ''hl-type'')] [Text s]
      else Text s)"
| "token_html (Blank s) = Text s"
| "token_html (Other c) = Text [c]"

definition highlight_line :: "string \<Rightarrow> 'e html" where
  "highlight_line line =
     (let (codePart, commentPart) = (case comment_at line None 0 of
            Some k \<Rightarrow> (take k line, drop k line) | None \<Rightarrow> (line, []));
          frag = map token_html (tokenize None codePart) @
            (if commentPart \<noteq> [] then [El ''span'' [(''className'', Val ''hl-com'')] [Text commentPart]]
             else [])
      in El ''div'' [(''className'', Val ''cl'')] (if frag \<noteq> [] then frag else [Text [CHR 0xA0]]))"

definition highlight :: "string \<Rightarrow> 'e html list" where
  "highlight code = map highlight_line (split_on (CHR 0x0A) code)"

definition CodeBlock :: \<open>bool \<Rightarrow> (string \<Rightarrow> 'e) \<Rightarrow> string \<Rightarrow> (string \<Rightarrow> 'e) \<Rightarrow> (string \<times> string) list \<Rightarrow> 'e html\<close> where
  \<open>CodeBlock copied copy lang setLang snippets =
     (let code = (case map_of snippets lang of Some c \<Rightarrow> c | None \<Rightarrow> [])
      in El ''div'' [(''className'', Val ''codeblock'')]
           [El ''div'' [(''className'', Val ''cb-head'')]
              [El ''div'' [(''className'', Val ''cb-tabs'')]
                 (concat (map (\<lambda> (ident, label) .
                                 [El ''button'' [(''className'',
                                                  Val (''cb-tab''
                                                         @ (if lang = ident then '' on'' else []))),
                                                 (''onClick'', On (setLang ident))] [Text label]])
                            LANGS)),
               El ''button'' [(''className'', Val (''cb-copy'' @ (if copied then '' copied'' else []))),
                              (''onClick'', On (copy code))]
                 ((if copied then [Ic ''check'' []] else [Ic ''copy'' []])
                    @ [El ''span'' [] [Text (if copied then ''Copied'' else ''Copy'')]])],
            El ''pre'' [(''className'', Val ''cb-body mono'')] [El ''code'' [] (highlight code)]])\<close>

definition RunCodeTabs :: \<open>string \<Rightarrow> (string \<Rightarrow> 'e) \<Rightarrow> 'e html\<close> where
  \<open>RunCodeTabs tab setTab =
     El ''div'' [(''className'', Val ''rc-tabs''), (''role'', Val ''tablist'')]
       [El ''button'' [(''role'', Val ''tab''),
                       (''className'', Val (''rc-tab'' @ (if tab = ''run'' then '' on'' else []))),
                       (''onClick'', On (setTab ''run''))]
          [Ic ''spark'' [(''style'', Sty [(''width'', ''14''), (''height'', ''14'')])],
           Text ''Run''],
        El ''button'' [(''role'', Val ''tab''),
                       (''className'', Val (''rc-tab'' @ (if tab = ''code'' then '' on'' else []))),
                       (''onClick'', On (setTab ''code''))]
          [Ic ''terminal'' [(''style'', Sty [(''width'', ''14''), (''height'', ''14'')])],
           Text ''Code'']]\<close>

section \<open>The frame of a card\<close>

definition LockNotice :: \<open>bool \<Rightarrow> 'e \<Rightarrow> string \<Rightarrow> 'e html\<close> where
  \<open>LockNotice connecting connectEv msg =
     El ''div'' [(''style'',
                  Sty [(''display'', ''flex''), (''flexDirection'', ''column''), (''gap'', ''16''),
                       (''alignItems'', ''flex-start'')])]
       [El ''div'' [(''className'', Val ''lock-overlay'')]
          [Ic ''lock'' [],
           El ''span'' []
             [Text (or_text msg
                      ''Connect Freighter to run this call. The Code tab is available without a wallet.'')]],
        Btn ''primary'' connecting False True
          [Ic ''wallet'' [(''style'', Sty [(''width'', ''13''), (''height'', ''13'')])]]
          [(''onClick'', On connectEv)]
          [Text (if connecting then ''Connecting'' else ''Connect Freighter'')]]\<close>

definition ActionCard :: \<open>string \<Rightarrow> (string \<Rightarrow> 'e) \<Rightarrow> bool \<Rightarrow> 'e \<Rightarrow> string \<Rightarrow> string \<Rightarrow> string \<Rightarrow> string \<Rightarrow> string \<Rightarrow> bool \<Rightarrow> string
   \<Rightarrow> (string \<times> string) list \<Rightarrow> string \<Rightarrow> 'e html list \<Rightarrow> 'e html\<close> where
  \<open>ActionCard tab setTab connecting connectEv no ident title desc auth locked lockMsg snippets label children =
     El ''div'' [(''id'', Val ident),
                 (''className'', Val (''acard card'' @ (if locked then '' dimmed'' else []))),
                 (''data-screen-label'', Val label)]
       [El ''div'' [(''className'', Val ''acard-head'')]
          [El ''div'' [(''className'', Val ''acard-num'')] [Text no],
           El ''div'' [(''className'', Val ''acard-titles'')]
             [El ''h3'' [] [Text title],
              El ''p'' [] [Text desc]],
           El ''div'' [(''className'', Val ''head-right'')] [AuthTag auth, RunCodeTabs tab setTab]],
        El ''div'' [(''className'', Val ''acard-body'')]
          (if tab = ''run'' then (if locked then [LockNotice connecting connectEv lockMsg] else
                                    children) else
             [El ''CodeBlock'' [(''snippets'', Snips snippets)] []])]\<close>

definition ResultPanel :: \<open>string \<Rightarrow> 'e option \<Rightarrow> 'e html list \<Rightarrow> 'e html\<close> where
  \<open>ResultPanel title onClose children =
     El ''div'' [(''className'', Val ''result'')]
       [El ''div'' [(''className'', Val ''result-head'')]
          ([Ic ''ok'' [],
            El ''span'' [(''style'', Sty [(''flex'', ''1'')])] [Text (or_text title ''Result'')]]
             @
             (if onClose \<noteq> None then
                [El ''button'' [(''onClick'', On (the onClose)), (''className'', Val ''faint''),
                                (''style'',
                                 Sty [(''display'', ''grid''), (''placeItems'', ''center''),
                                      (''padding'', ''2'')])]
                   [Ic ''x'' [(''style'', Sty [(''width'', ''15''), (''height'', ''15'')])]]] else [])),
        El ''div'' [(''className'', Val ''result-body'')] children]\<close>

definition code_text :: "sdcode \<Rightarrow> string" where
  "code_text c = (case c of Num n \<Rightarrow> int_str n | Dash \<Rightarrow> [CHR 0x97])"

definition ErrorPanel :: \<open>sd option \<Rightarrow> 'e option \<Rightarrow> 'e html list\<close> where
  \<open>ErrorPanel err onClose =
     (case err of None \<Rightarrow> [] | Some error \<Rightarrow>
        [El ''div'' [(''className'', Val ''result''),
                     (''style'', Sty [(''borderColor'', ''var(--burned)'')])]
           [El ''div'' [(''className'', Val ''result-head err'')]
              ([Ic ''alert'' [],
                El ''span'' [(''style'', Sty [(''flex'', ''1'')])] [Text (sd_title error)],
                El ''span'' [(''className'', Val ''mono''),
                             (''style'', Sty [(''fontSize'', ''11''), (''opacity'', ''.7'')])]
                  [Text ''Error #'',
                   Text (code_text (sd_code error))]]
                 @
                 (if onClose \<noteq> None then
                    [El ''button'' [(''onClick'', On (the onClose)), (''className'', Val ''faint''),
                                    (''style'',
                                     Sty [(''display'', ''grid''), (''placeItems'', ''center''),
                                          (''padding'', ''2'')])]
                       [Ic ''x'' [(''style'', Sty [(''width'', ''15''), (''height'', ''15'')])]]] else
                    [])),
            El ''div'' [(''className'', Val ''result-body'')]
              [El ''span'' [(''style'',
                             Sty [(''fontSize'', ''14''), (''color'', ''var(--ink-2)''),
                                  (''lineHeight'', ''1.5'')])] [Text (sd_msg error)]]]])\<close>

definition KV :: \<open>string \<Rightarrow> 'e html list \<Rightarrow> 'e html\<close> where
  \<open>KV k children =
     El ''div'' [(''className'', Val ''kv'')]
       [El ''div'' [(''className'', Val ''kv-k'')] [Text k],
        El ''div'' [(''className'', Val ''kv-v'')] children]\<close>

end
