(* ===== verification/Play_Card.thy ===== *)
theory Play_Card
  imports Play_Ui Play_Ops
begin

text \<open>
  The frame of the action cards' handlers: a card runs on the store and its own React state. The
  state a handler reads is that of the render it was made in; \<open>set...\<close> calls change the state of
  the next render. A handler is \<open>try\<close>, \<open>catch\<close> and \<open>finally\<close> around one call of the context.
\<close>

type_synonym ('w, 'l) card = "'w app \<times> 'l"

definition in_app :: "('w app, 'a) io \<Rightarrow> (('w, 'l) card, 'a) io" where
  "in_app m = (\<lambda>(z, l). case m z of (r, z') \<Rightarrow> (r, (z', l)))"

definition set_local :: "('l \<Rightarrow> 'l) \<Rightarrow> (('w, 'l) card, unit) io" where
  "set_local f = modifyIO (\<lambda>(z, l). (z, f l))"

definition finallyIO :: "('s, 'a) io \<Rightarrow> ('s, unit) io \<Rightarrow> ('s, 'a) io" where
  "finallyIO m f = (\<lambda>s. case m s of (r, t) \<Rightarrow>
     (case f t of (Inr _, u) \<Rightarrow> (r, u) | (Inl e, u) \<Rightarrow> (Inl e, u)))"

definition no_payload :: jserr where
  "no_payload = TypeError ''Cannot read properties of undefined (reading title)''"

definition show_error :: "(sd option \<Rightarrow> 'l \<Rightarrow> 'l) \<Rightarrow> jserr \<Rightarrow> (('w, 'l) card, unit) io" where
  \<comment> \<open>\<open>setError(err.sd); toast({ kind: "error", title: err.sd.title, msg: err.sd.msg })\<close>\<close>
  "show_error set_error err =
     bindIO (set_local (set_error (e_sd err))) (\<lambda>_.
     case e_sd err of
       None \<Rightarrow> throwIO no_payload
     | Some d \<Rightarrow> in_app (toast ''error'' (sd_title d) (sd_msg d)))"

definition res :: "jval \<Rightarrow> string \<Rightarrow> jval" where \<comment> \<open>\<open>result.k\<close> of a result object\<close>
  "res r k = (case field r k of Inr v \<Rightarrow> v | Inl _ \<Rightarrow> JUndef)"

fun elems :: "jval \<Rightarrow> jval list" where \<comment> \<open>the elements of an array\<close>
  "elems (JArr vs) = vs"
| "elems v = []"

definition localised :: "'w host \<Rightarrow> jval \<Rightarrow> string" where \<comment> \<open>\<open>v?.toLocaleString()\<close>\<close>
  "localised h v = (case v of JNum n \<Rightarrow> h_locale h n | _ \<Rightarrow> shown v)"

definition wallet_text :: "wallet option \<Rightarrow> string" where \<comment> \<open>\<open>wallet?.address\<close> as text\<close>
  "wallet_text w = (case w of None \<Rightarrow> [] | Some x \<Rightarrow> js_String (wal_address x))"

definition snippet_texts :: "snippet \<Rightarrow> (string \<times> string) list" where
  "snippet_texts s = [(''cli'', sn_cli s), (''ts'', sn_ts s), (''go'', sn_go s)]"

definition plural :: "nat \<Rightarrow> string" where \<comment> \<open>\<open>n !== 1 ? "s" : ""\<close>\<close>
  "plural n = (if n \<noteq> 1 then ''s'' else [])"

definition nat_text :: "nat \<Rightarrow> string" where
  "nat_text n = dec (int n)"

definition explorer :: "string \<Rightarrow> string \<Rightarrow> string" where
  "explorer kind x = net_explorer @ ''/'' @ kind @ ''/'' @ x"

lemma finallyIO_run: "finallyIO m f s = (case m s of (r, t) \<Rightarrow>
     (case f t of (Inr _, u) \<Rightarrow> (r, u) | (Inl e, u) \<Rightarrow> (Inl e, u)))"
  by (simp add: finallyIO_def)

definition same_num :: "jnum \<Rightarrow> jnum \<Rightarrow> bool" where \<comment> \<open>\<open>a === b\<close> of Numbers: NaN is not itself\<close>
  "same_num a b \<longleftrightarrow> a = b \<and> a \<noteq> NaN"

definition ts_of :: "jval \<Rightarrow> string js" where \<comment> \<open>\<open>SD.fmtTs(v)\<close> of a field\<close>
  "ts_of v = fmtTs (js_Number v)"

definition discount_label :: "jval \<Rightarrow> string" where \<comment> \<open>\<open>SD.DISCOUNT_LABEL[v]\<close> as a child\<close>
  "discount_label v = (case DISCOUNT_LABEL (js_String v) of None \<Rightarrow> [] | Some t \<Rightarrow> t)"

definition upper :: "string \<Rightarrow> string" where \<comment> \<open>\<open>code.trim().toUpperCase()\<close>\<close>
  "upper s = toUpperCase (trim s)"

end
