(* ===== verification/Cards_A.thy ===== *)
theory Cards_A
  imports Play_Card
begin

text \<open>
  The cards that create a campaign and issue its codes (\<open>web/src/cards-a.jsx\<close>): the state of each,
  the events its elements raise, the setters, the handler of the button, and the elements shown.
  A \<open>CopyValue\<close> or \<open>CopyBare\<close> has state of its own and stays an element with its props.
\<close>

section \<open>Create a campaign\<close>

definition two :: "int \<Rightarrow> string" where
  "two n = padStart (int_str n) 2 (CHR ''0'')"

definition dtLocal :: "'w host \<Rightarrow> jnum \<Rightarrow> int \<Rightarrow> string" where
  \<comment> \<open>of \<open>Date.now()\<close> and an offset in days, as the local time of the host\<close>
  "dtLocal h now offsetDays =
     (case h_parts h (jadd now (to_double (of_int (offsetDays * 86400000)))) of
        (y, mo, d, hr, mi) \<Rightarrow>
          int_str y @ ''-'' @ two (mo + 1) @ ''-'' @ two d @ ''T'' @ two hr @ '':'' @ two mi)"

record created = \<comment> \<open>\<open>{ ...r, tx, seq }\<close>\<close>
  cr_result :: jval
  cr_tx :: jval
  cr_seq :: jval

record create_state =
  cs_f :: campaign_form
  cs_busy :: bool
  cs_result :: "created option"
  cs_error :: "sd option"

definition create_init :: "'w host \<Rightarrow> jnum \<Rightarrow> create_state" where
  "create_init h now = \<lparr>cs_f = \<lparr>cf_name = ''Demo Cafe'', cf_discount_type = ''percentage'',
     cf_discount_value = ''1000'', cf_total_supply = ''100'', cf_valid_until = dtLocal h now 30\<rparr>,
     cs_busy = False, cs_result = None, cs_error = None\<rparr>"

datatype create_ev = CreateTab string | CreateConnect | CreateName string | CreateType string
  | CreateValue string | CreateSupply string | CreateUntil string | CreateSubmit
  | CreateCloseError | CreateCloseResult

fun create_set :: "create_ev \<Rightarrow> create_state \<Rightarrow> create_state" where
  "create_set (CreateName v) l = l\<lparr>cs_f := (cs_f l)\<lparr>cf_name := v\<rparr>\<rparr>"
| "create_set (CreateType v) l = l\<lparr>cs_f := (cs_f l)\<lparr>cf_discount_type := v\<rparr>\<rparr>"
| "create_set (CreateValue v) l = l\<lparr>cs_f := (cs_f l)\<lparr>cf_discount_value := v\<rparr>\<rparr>"
| "create_set (CreateSupply v) l = l\<lparr>cs_f := (cs_f l)\<lparr>cf_total_supply := v\<rparr>\<rparr>"
| "create_set (CreateUntil v) l = l\<lparr>cs_f := (cs_f l)\<lparr>cf_valid_until := v\<rparr>\<rparr>"
| "create_set CreateCloseError l = l\<lparr>cs_error := None\<rparr>"
| "create_set CreateCloseResult l = l\<lparr>cs_result := None\<rparr>"
| "create_set _ l = l"

definition create_helper :: "campaign_form \<Rightarrow> string" where
  "create_helper f =
     (if cf_discount_type f = ''percentage''
      then ''In hundredths of a percent '' @ [CHR 0x97] @ '' 1000 = 10.00%''
      else if cf_discount_type f = ''fixed_amount''
      then ''In cents '' @ [CHR 0x97] @ '' 1000 = $10.00'' else ''Value ignored for free-item deals'')"

definition create_submit :: "'w host \<Rightarrow> campaign_form \<Rightarrow> (('w, create_state) card, unit) io" where
  \<comment> \<open>the form of the render the button was clicked in\<close>
  "create_submit h f =
     bindIO (set_local (\<lambda>l. l\<lparr>cs_busy := True, cs_error := None, cs_result := None\<rparr>)) (\<lambda>_.
     finallyIO
       (catchIO
          (bindIO (in_app (createCampaign h f)) (\<lambda>o'.
           bindIO (set_local (\<lambda>l. l\<lparr>cs_result := Some \<lparr>cr_result = o_result o', cr_tx = o_tx o',
                                                       cr_seq = o_seq o'\<rparr>\<rparr>)) (\<lambda>_.
           in_app (toast ''success'' ''Campaign created''
             (''campaign_id = '' @ js_String (res (o_result o') ''campaign_id'') @ '' '' @ [CHR 0xB7]
              @ '' '' @ [CHR 0x93] @ cf_name f @ [CHR 0x94] @ '' is live on testnet.'')))))
          (show_error (\<lambda>e l. l\<lparr>cs_error := e\<rparr>)))
       (set_local (\<lambda>l. l\<lparr>cs_busy := False\<rparr>)))"

definition create_view :: \<open>'w host \<Rightarrow> store \<Rightarrow> string \<Rightarrow> create_state \<Rightarrow> create_ev html\<close> where
  \<open>create_view h st tab l =
     (let f = cs_f l; r = the (cs_result l) in ActionCard tab CreateTab (s_connecting st) CreateConnect
        ''02'' ''create'' ''Create Campaign'' (''Define the terms of a promotion ''
                                                 @ [CHR 0x97]
                                                 @
                                                 '' reward, supply and validity. The campaign is owned by your connected wallet; there is no global admin.'')
        ''owner'' (s_wallet st = None) [] (snippet_texts (snip_create_campaign (h_date_ms h) f))
        ''Create Campaign''
        ([El ''div'' [(''className'', Val ''form-grid'')]
            [El ''div'' [(''className'', Val ''field span2'')]
               [El ''label'' []
                  [Text ''Name '',
                   El ''span'' [(''className'', Val ''req'')] [Text ''*'']],
                El ''input'' [(''className'', Val ''input''), (''value'', Val (cf_name f)),
                              (''onChange'', OnV CreateName), (''placeholder'', Val ''Demo Cafe'')] []],
             El ''div'' [(''className'', Val ''field'')]
               [El ''label'' [] [Text ''Discount type''],
                El ''select'' [(''className'', Val ''select''), (''value'', Val (cf_discount_type f)),
                               (''onChange'', OnV CreateType)]
                  [El ''option'' [(''value'', Val ''percentage'')] [Text ''Percentage''],
                   El ''option'' [(''value'', Val ''fixed_amount'')] [Text ''Fixed amount''],
                   El ''option'' [(''value'', Val ''free_item'')] [Text ''Free item'']]],
             El ''div'' [(''className'', Val ''field'')]
               [El ''label'' [] [Text ''Discount value''],
                El ''input'' [(''className'', Val ''input mono''), (''type'', Val ''number''),
                              (''value'', Val (cf_discount_value f)), (''onChange'', OnV CreateValue),
                              (''disabled'', Flag (cf_discount_type f = ''free_item''))] [],
                El ''span'' [(''className'', Val ''help'')]
                  [Text (create_helper f),
                   Text (if cf_discount_type f \<noteq> ''free_item'' \<and> cf_discount_value f
                           \<noteq> [] then '' ''
                           @ [CHR 0x8F]
                           @ '' ''
                           @ fmtDiscount (cf_discount_type f) (JStr (cf_discount_value f)) else [])]],
             El ''div'' [(''className'', Val ''field'')]
               [El ''label'' [] [Text ''Total supply''],
                El ''input'' [(''className'', Val ''input mono''), (''type'', Val ''number''),
                              (''value'', Val (cf_total_supply f)), (''onChange'', OnV CreateSupply)]
                  [],
                El ''span'' [(''className'', Val ''help'')]
                  [Text ''Max codes that can ever be issued'']],
             El ''div'' [(''className'', Val ''field'')]
               [El ''label'' [] [Text ''Valid until''],
                El ''input'' [(''className'', Val ''input mono''), (''type'', Val ''datetime-local''),
                              (''value'', Val (cf_valid_until f)), (''onChange'', OnV CreateUntil)] [],
                El ''span'' [(''className'', Val ''help'')]
                  [Text ''Redemptions fail after this time'']],
             El ''div'' [(''className'', Val ''field span2'')]
               [El ''label'' []
                  [Text ''Owner '',
                   El ''span'' [(''className'', Val ''authtag''),
                                (''style'', Sty [(''fontSize'', ''10''), (''padding'', ''1px 6px'')])]
                     [Text ''read-only'']],
                El ''input'' [(''className'', Val ''input mono input-readonly''),
                              (''value'', Val (wallet_text (s_wallet st))), (''readOnly'', Flag True)]
                  []]],
          El ''div'' [(''className'', Val ''form-actions'')]
            [Btn ''primary'' (cs_busy l) False False [] [(''onClick'', On CreateSubmit)]
               [Text (if cs_busy l then ''Signing & sending'' else ''Create on testnet'')],
             El ''span'' [(''className'', Val ''help'')]
               [Text (''Signs with Freighter '' @ [CHR 0xB7] @ '' ~5s on testnet'')]]]
           @ (if cs_error l \<noteq> None then (ErrorPanel (cs_error l) (Some CreateCloseError)) else
                [])
           @
           (if cs_result l \<noteq> None then
              [ResultPanel ''Campaign created'' (Some CreateCloseResult)
                 [KV ''campaign_id''
                    [El ''span'' [(''className'', Val ''bigid'')]
                       [Text ''#'',
                        Text (js_String (res (cr_result r) ''campaign_id'')),
                        Text '' '',
                        El ''small'' [] [Text ''u64'']]],
                  KV ''transaction''
                    [El ''CopyValue'' [(''value'', Val (shown (cr_tx r))),
                                       (''display'', Val (trunc 8 6 (shown (cr_tx r)))),
                                       (''link'', Val (explorer ''tx'' (shown (cr_tx r))))] []],
                  KV ''ledger_seq''
                    [El ''span'' [(''className'', Val ''mono''),
                                  (''style'', Sty [(''fontSize'', ''13.5'')])]
                       [Text (localised h (cr_seq r))]],
                  KV ''event''
                    [El ''span'' [(''className'', Val ''mono''),
                                  (''style'',
                                   Sty [(''fontSize'', ''12.5''), (''color'', ''var(--ink-2)'')])]
                       [Text (''(campaign, create) '' @ [CHR 0x8F] @ '' (''),
                        Text (js_String (res (cr_result r) ''campaign_id'')),
                        Text '', '',
                        Text (trunc 4 3 (wallet_text (s_wallet st))),
                        Text '', "'',
                        Text (cf_name f),
                        Text ''", '',
                        Text (cf_total_supply f),
                        Text '')'']]]] else [])))\<close>

section \<open>The chip input\<close>

definition clean_code :: "string \<Rightarrow> string" where
  "clean_code s = toUpperCase (trim s)"

definition chip_commit :: "string \<Rightarrow> string list \<Rightarrow> string list \<times> string" where
  \<comment> \<open>the codes and the draft after \<open>commit(raw)\<close>\<close>
  "chip_commit raw codes =
     (let parts = filter (\<lambda>x. x \<noteq> []) (map clean_code (split_runs (\<lambda>c. ws c \<or> c = CHR '','') raw))
      in (if parts \<noteq> [] then codes @ filter (\<lambda>p. p \<notin> set codes) parts else codes, []))"

datatype chip_ev = ChipFocus | ChipRemove string | ChipDraft string | ChipKey string
  | ChipPaste string | ChipBlur

fun chip_set :: "chip_ev \<Rightarrow> string list \<times> string \<Rightarrow> string list \<times> string" where
  \<comment> \<open>on the codes of the card and the draft\<close>
  "chip_set ChipFocus (codes, draft) = (codes, draft)"
| "chip_set (ChipRemove c) (codes, draft) = (filter (\<lambda>x. x \<noteq> c) codes, draft)"
| "chip_set (ChipDraft v) (codes, draft) = (codes, v)"
| "chip_set (ChipKey k) (codes, draft) =
     (if k = ''Enter'' \<or> k = '','' \<or> k = ''Tab''
      then (if trim draft \<noteq> [] then chip_commit draft codes else (codes, draft))
      else if k = ''Backspace'' \<and> draft = [] \<and> codes \<noteq> [] then (butlast codes, draft)
      else (codes, draft))"
| "chip_set (ChipPaste t) (codes, draft) =
     (if \<exists>c\<in>set t. ws c \<or> c = CHR '','' then chip_commit t codes else (codes, draft @ t))"
| "chip_set ChipBlur (codes, draft) =
     (if trim draft \<noteq> [] then chip_commit draft codes else (codes, draft))"

definition ChipInput :: \<open>string list \<Rightarrow> string \<Rightarrow> chip_ev html\<close> where
  \<open>ChipInput codes draft =
     El ''div'' [(''className'', Val ''chip-input''), (''onClick'', On ChipFocus)]
       ((concat (map (\<lambda>c.
                        [El ''span'' [(''className'', Val ''chip-code'')]
                           [Text c,
                            El ''button'' [(''onClick'', On (ChipRemove c))]
                              [Ic ''x'' [(''style'',
                                          Sty [(''width'', ''11''), (''height'', ''11'')])]]]]) codes))
          @
          [El ''input'' [(''ref'', Val ''input''), (''value'', Val draft),
                         (''onChange'', OnV ChipDraft), (''onKeyDown'', OnV ChipKey),
                         (''onPaste'', OnV ChipPaste), (''onBlur'', On ChipBlur),
                         (''placeholder'',
                          Val (if codes \<noteq> [] then [] else ''Type a code, press Enter''
                                 @ [CHR 0x85]))] []])\<close>

section \<open>Issue codes\<close>

record issued =
  is_result :: jval
  is_tx :: jval
  is_seq :: jval
  is_codes :: "string list"

record issue_state =
  iss_cid :: string
  iss_mode :: string
  iss_codes :: "string list"
  iss_draft :: string
  iss_bulk :: string
  iss_busy :: bool
  iss_result :: "issued option"
  iss_error :: "sd option"

definition issue_init :: issue_state where
  "issue_init = \<lparr>iss_cid = [], iss_mode = ''chips'', iss_codes = [''DEMO0003'', ''DEMO0004''],
     iss_draft = [], iss_bulk = ''DEMO0003'' @ nl @ ''DEMO0004'', iss_busy = False,
     iss_result = None, iss_error = None\<rparr>"

datatype issue_ev = IssueTab string | IssueConnect | IssueCampaign string | IssueMode string
  | IssueChip chip_ev | IssueBulk string | IssueSubmit | IssueCloseError | IssueCloseResult

fun issue_set :: "issue_ev \<Rightarrow> issue_state \<Rightarrow> issue_state" where
  "issue_set (IssueCampaign v) l = l\<lparr>iss_cid := v\<rparr>"
| "issue_set (IssueMode v) l = l\<lparr>iss_mode := v\<rparr>"
| "issue_set (IssueChip e) l =
     (case chip_set e (iss_codes l, iss_draft l) of (cs, d) \<Rightarrow> l\<lparr>iss_codes := cs, iss_draft := d\<rparr>)"
| "issue_set (IssueBulk v) l = l\<lparr>iss_bulk := v\<rparr>"
| "issue_set IssueCloseError l = l\<lparr>iss_error := None\<rparr>"
| "issue_set IssueCloseResult l = l\<lparr>iss_result := None\<rparr>"
| "issue_set _ l = l"

definition owned_ids :: "store \<Rightarrow> string list" where
  \<comment> \<open>the campaigns of the mirror that the connected wallet owns\<close>
  "owned_ids st =
     map fst (filter (\<lambda>(k, c). case s_wallet st of
                Some w \<Rightarrow> ci_owner c = wal_address w | None \<Rightarrow> False) (m_campaigns (s_state st)))"

definition chosen_campaign :: "store \<Rightarrow> string \<Rightarrow> string" where
  \<comment> \<open>the effect that keeps the selection valid\<close>
  "chosen_campaign st cid =
     (let owned = owned_ids st;
          high = (case s_highlight st of Some n \<Rightarrow> num_str n | None \<Rightarrow> []) in
      if cid \<noteq> [] \<and> cid \<in> set owned then cid
      else if (case s_highlight st of Some n \<Rightarrow> truthy (JNum n) | None \<Rightarrow> False) \<and> high \<in> set owned then high
      else if owned = [] then [] else last owned)"

definition effCodes :: "issue_state \<Rightarrow> string list" where
  "effCodes l =
     (if iss_mode l = ''chips'' then iss_codes l
      else filter (\<lambda>x. x \<noteq> []) (map clean_code (split_runs (\<lambda>c. c = CHR 0x0A) (iss_bulk l))))"

definition camp_named :: "store \<Rightarrow> string \<Rightarrow> campaign_info option" where \<comment> \<open>\<open>state.campaigns[k]\<close>\<close>
  "camp_named st k = map_of (m_campaigns (s_state st)) k"

definition issue_submit ::
  "'w host \<Rightarrow> string \<Rightarrow> string list \<Rightarrow> (('w, issue_state) card, unit) io" where
  "issue_submit h cid codes =
     bindIO (set_local (\<lambda>l. l\<lparr>iss_busy := True, iss_error := None, iss_result := None\<rparr>)) (\<lambda>_.
     finallyIO
       (catchIO
          (bindIO (in_app (issueCodes h (JStr cid) codes)) (\<lambda>o'.
           let n = length (elems (res (o_result o') ''token_ids'')) in
           bindIO (set_local (\<lambda>l. l\<lparr>iss_result := Some \<lparr>is_result = o_result o', is_tx = o_tx o',
                                                        is_seq = o_seq o', is_codes = codes\<rparr>\<rparr>)) (\<lambda>_.
           in_app (toast ''success'' ''Codes issued''
             (nat_text n @ '' unique token'' @ (if 1 < n then ''s'' else [])
              @ '' minted under campaign #'' @ cid @ ''.'')))))
          (show_error (\<lambda>e l. l\<lparr>iss_error := e\<rparr>)))
       (set_local (\<lambda>l. l\<lparr>iss_busy := False\<rparr>)))"

definition issue_view :: \<open>'w host \<Rightarrow> store \<Rightarrow> string \<Rightarrow> issue_state \<Rightarrow> issue_ev html\<close> where
  \<open>issue_view h st tab l =
     (let cid = iss_cid l;
          eff = effCodes l;
          camp = camp_named st (num_str (to_number cid));
          r = the (iss_result l);
          ids = elems (res (is_result r) ''token_ids'')
      in ActionCard tab IssueTab (s_connecting st) IssueConnect ''03'' ''issue'' ''Issue Codes''
           (
              ''Mint a batch of unique single-use codes under a campaign. Each becomes an on-chain token. Issuing is owner-only ''
              @ [CHR 0x97]
              @ '' delegates can redeem but never mint supply.'') ''owner'' (s_wallet st = None) []
           (snippet_texts (snip_issue_unique cid eff)) ''Issue Codes''
           ([El ''div'' [(''className'', Val ''form-grid'')]
               [El ''div'' [(''className'', Val ''field'')]
                  ([El ''label'' [] [Text ''Campaign ID''],
                    El ''select'' [(''className'', Val ''select mono''), (''value'', Val cid),
                                   (''onChange'', OnV IssueCampaign),
                                   (''disabled'', Flag (owned_ids st = []))]
                      (if owned_ids st \<noteq> [] then
                         (concat (map (\<lambda>k.
                                         [El ''option'' [(''value'', Val k)]
                                            [Text ''#'',
                                             Text k,
                                             Text ('' '' @ [CHR 0x97] @ '' ''),
                                             Text (shown (ci_name (the (camp_named st k))))]])
                                    (owned_ids st))) else
                         [El ''option'' [(''value'', Val [])] [Text ''No campaigns you own yet'']])]
                     @
                     (if camp \<noteq> None then
                        [El ''span'' [(''className'', Val ''help'')]
                           [Text (num_str (ci_minted (the camp))),
                            Text ''/'',
                            Text (num_str (ci_total_supply (the camp))),
                            Text ('' minted '' @ [CHR 0xB7] @ '' ''),
                            Text (num_str (jsub (ci_total_supply (the camp)) (ci_minted (the camp)))),
                            Text '' left in supply'']] else
                        [El ''span'' [(''className'', Val ''help'')]
                           [Text (''Create a campaign first ''
                                    @ [CHR 0x97]
                                    @ '' issuing is owner-only.'')]])),
                El ''div'' [(''className'', Val ''field''),
                            (''style'', Sty [(''justifyContent'', ''flex-end'')])]
                  [El ''label'' [] [Text ''Input mode''],
                   El ''div'' [(''className'', Val ''seg'')]
                     [El ''button'' [(''className'',
                                      Val (if iss_mode l = ''chips'' then ''on'' else [])),
                                     (''onClick'', On (IssueMode ''chips''))] [Text ''Chips''],
                      El ''button'' [(''className'',
                                      Val (if (iss_mode l = ''bulk'') then ''on'' else [])),
                                     (''onClick'', On (IssueMode ''bulk''))] [Text ''One per line'']]],
                El ''div'' [(''className'', Val ''field span2'')]
                  ([El ''label'' []
                      [Text ''Codes '',
                       El ''span'' [(''className'', Val ''req'')] [Text ''*''],
                       El ''span'' [(''className'', Val ''help''),
                                    (''style'', Sty [(''marginLeft'', ''auto'')])]
                         [Text (nat_text (length eff)),
                          Text '' code'',
                          Text (plural (length eff))]]]
                     @
                     (if iss_mode l = ''chips'' then [map_html IssueChip (ChipInput (iss_codes l)
                                                                            (iss_draft l))] else
                        [El ''textarea'' [(''className'', Val ''textarea mono''),
                                          (''value'', Val (iss_bulk l)), (''onChange'', OnV IssueBulk),
                                          (''placeholder'',
                                           Val (''DEMO0003'' @ nl @ ''DEMO0004'' @ nl @ ''DEMO0005''))]
                           []])
                     @
                     [El ''span'' [(''className'', Val ''help'')]
                        [Text (''Codes are unique within this campaign ''
                                 @ [CHR 0x97]
                                 @ '' duplicates are rejected with DuplicateCode.'')]])],
             El ''div'' [(''className'', Val ''form-actions'')]
               [Btn ''primary'' (iss_busy l) (eff = [] \<or> cid = []) False []
                  [(''onClick'', On IssueSubmit)]
                  [Text (if iss_busy l then ''Minting'' else (''Issue ''
                                                                @ (if eff = [] then [] else nat_text
                                                                     (length eff))
                                                                @ '' code''
                                                                @ plural (length eff)))]]]
              @ (if iss_error l \<noteq> None then (ErrorPanel (iss_error l) (Some IssueCloseError))
                   else [])
              @
              (if iss_result l \<noteq> None then
                 [ResultPanel (nat_text (length ids)
                                 @ '' token''
                                 @ (if 1 < length ids then ''s'' else [])
                                 @ '' minted'') (Some IssueCloseResult)
                    [KV ''token_ids''
                       [El ''div'' [(''className'', Val ''chips'')]
                          (concat (map (\<lambda> (i, v) .
                                          [El ''span'' [(''className'', Val ''chip-tok'')]
                                             [El ''span'' [(''className'', Val ''tid'')]
                                                [Text ''#'',
                                                 Text (js_String v)],
                                              El ''CopyBare'' [(''value'',
                                                                Val (if i < length (is_codes r) then
                                                                       is_codes r ! i else []))] []]])
                                     (enumerate 0 ids)))],
                     KV ''transaction''
                       [El ''CopyValue'' [(''value'', Val (shown (is_tx r))),
                                          (''display'', Val (trunc 8 6 (shown (is_tx r)))),
                                          (''link'', Val (explorer ''tx'' (shown (is_tx r))))] []],
                     KV ''event''
                       [El ''span'' [(''className'', Val ''mono''),
                                     (''style'',
                                      Sty [(''fontSize'', ''12.5''), (''color'', ''var(--ink-2)'')])]
                          [Text (nat_text (length ids)),
                           Text ([CHR 0xD7] @ '' (coupon, issue)'')]]]] else [])))\<close>

end
