(* ===== verification/Cards_B.thy ===== *)
theory Cards_B
  imports Play_Card
begin

text \<open>
  The cards that redeem a code and look one up (\<open>web/src/cards-b.jsx\<close>). The commitment of the redeemer
  is computed by a promise that an effect starts when the reference or the nonce changes, and whose
  result counts only while the effect is live. A view can throw: \<open>fmtTs\<close> of a time that is no date.
\<close>

section \<open>Redeem\<close>

record redeem_state =
  rs_cid :: string
  rs_code :: string
  rs_ref :: string
  rs_nonce :: string
  rs_hash :: string
  rs_hashError :: "string option"
  rs_busy :: bool
  rs_result :: "jval option"
  rs_error :: "sd option"

definition makeNonce :: "byte list option \<Rightarrow> string" where
  "makeNonce random = (case randomNonce random of Inr s \<Rightarrow> s | Inl _ \<Rightarrow> [])"

definition redeem_init :: "byte list option \<Rightarrow> redeem_state" where
  "redeem_init random = \<lparr>rs_cid = ''1'', rs_code = ''DEMO0001'', rs_ref = ''order-8842'',
     rs_nonce = makeNonce random, rs_hash = ZERO32, rs_hashError = None, rs_busy = False,
     rs_result = None, rs_error = None\<rparr>"

datatype redeem_ev = RedeemTab string | RedeemConnect | RedeemCid string | RedeemCode string
  | RedeemRef string | RedeemSubmit | RedeemCloseError | RedeemCloseResult

fun redeem_set :: "redeem_ev \<Rightarrow> redeem_state \<Rightarrow> redeem_state" where
  "redeem_set (RedeemCid v) l = l\<lparr>rs_cid := v\<rparr>"
| "redeem_set (RedeemCode v) l = l\<lparr>rs_code := v\<rparr>"
| "redeem_set (RedeemRef v) l = l\<lparr>rs_ref := v\<rparr>"
| "redeem_set RedeemCloseError l = l\<lparr>rs_error := None\<rparr>"
| "redeem_set RedeemCloseResult l = l\<lparr>rs_result := None\<rparr>"
| "redeem_set _ l = l"

definition follow_highlight :: "jnum option \<Rightarrow> string \<Rightarrow> string" where
  \<comment> \<open>the effect that follows the campaign last created or issued\<close>
  "follow_highlight high cid =
     (case high of Some n \<Rightarrow> if truthy (JNum n) then num_str n else cid | None \<Rightarrow> cid)"

definition hash_start :: "redeem_state \<Rightarrow> redeem_state \<times> (string \<times> string) option" where
  \<comment> \<open>the body of the effect on \<open>[ref, nonce]\<close>, and the promise it starts\<close>
  "hash_start l =
     (let l1 = l\<lparr>rs_hashError := None\<rparr> in
      if trim (rs_ref l) = [] \<or> rs_nonce l = [] then (l1\<lparr>rs_hash := ZERO32\<rparr>, None)
      else (l1, Some (rs_ref l, rs_nonce l)))"

definition hash_done :: "bool \<Rightarrow> string js \<Rightarrow> redeem_state \<Rightarrow> redeem_state" where
  \<comment> \<open>its \<open>then\<close> and \<open>catch\<close>\<close>
  "hash_done live r l =
     (if live then
        (case r of
           Inr hx \<Rightarrow> l\<lparr>rs_hash := hx\<rparr>
         | Inl e \<Rightarrow> l\<lparr>rs_hash := ZERO32,
             rs_hashError := Some (or_text (e_message e) ''Could not compute the redeemer commitment.'')\<rparr>)
      else l)"

definition redeem_submit ::
  "'w host \<Rightarrow> string \<Rightarrow> string \<Rightarrow> string \<Rightarrow> (('w, redeem_state) card, unit) io" where
  "redeem_submit h cid code hash =
     bindIO (set_local (\<lambda>l. l\<lparr>rs_busy := True, rs_error := None, rs_result := None\<rparr>)) (\<lambda>_.
     finallyIO
       (catchIO
          (bindIO (in_app (redeem h (JStr cid) (upper code) hash)) (\<lambda>o'.
           bindIO (set_local (\<lambda>l. l\<lparr>rs_result := Some (o_result o')\<rparr>)) (\<lambda>_.
           bindIO (getIO (\<lambda>(((w, tr), s), l). h_random h w)) (\<lambda>random.
           bindIO (set_local (\<lambda>l. l\<lparr>rs_nonce := makeNonce random\<rparr>)) (\<lambda>_.
           in_app (toast ''success'' ''Coupon redeemed''
             (toUpperCase code @ '' burned at ledger ''
              @ localised h (res (o_result o') ''ledger_seq'') @ ''.'')))))))
          (show_error (\<lambda>e l. l\<lparr>rs_error := e\<rparr>)))
       (set_local (\<lambda>l. l\<lparr>rs_busy := False\<rparr>)))"

definition hash_failed :: "redeem_state \<Rightarrow> bool" where \<comment> \<open>\<open>!!hashError\<close>\<close>
  "hash_failed l \<longleftrightarrow> (case rs_hashError l of Some m \<Rightarrow> m \<noteq> [] | None \<Rightarrow> False)"

definition redeem_blocked :: "redeem_state \<Rightarrow> bool" where \<comment> \<open>\<open>disabled\<close> of the button\<close>
  "redeem_blocked l \<longleftrightarrow> trim (rs_code l) = [] \<or> rs_cid l = [] \<or>
     hash_failed l \<or> rs_hash l = ZERO32"

definition redeem_view :: \<open>'w host \<Rightarrow> store \<Rightarrow> string \<Rightarrow> redeem_state \<Rightarrow> redeem_ev html js\<close> where
  \<open>redeem_view h st tab l =
     (let r = the (rs_result l) in bindR (if rs_result l = None then Inr [] else ts_of
                                            (res r ''burned_at''))
        (\<lambda>burned. Inr
           (ActionCard tab RedeemTab (s_connecting st) RedeemConnect ''04'' ''redeem'' ''Redeem''
              (''Burn a unique code ''
                 @ [CHR 0x97]
                 @
                 '' the synchronous Burn path. Irreversible and single-use: a second redemption fails with AlreadyRedeemed. Authorized by the campaign owner or a delegate.'')
              ''delegate'' (s_wallet st = None) [] (snippet_texts (snip_redeem_unique (rs_cid l)
                                                                     (toUpperCase (rs_code l))
                                                                     (rs_hash l))) ''Redeem''
              ([El ''div'' [(''className'', Val ''form-grid'')]
                  [El ''div'' [(''className'', Val ''field'')]
                     [El ''label'' []
                        [Text ''Campaign ID '',
                         El ''span'' [(''className'', Val ''req'')] [Text ''*'']],
                      El ''input'' [(''className'', Val ''input mono''), (''type'', Val ''number''),
                                    (''min'', Val ''1''), (''value'', Val (rs_cid l)),
                                    (''onChange'', OnV RedeemCid), (''placeholder'', Val ''1'')] [],
                      El ''span'' [(''className'', Val ''help'')]
                        [Text (''Codes are scoped per campaign ''
                                 @ [CHR 0x97]
                                 @ '' a QR/link carries this.'')]],
                   El ''div'' [(''className'', Val ''field'')]
                     [El ''label'' []
                        [Text ''Code '',
                         El ''span'' [(''className'', Val ''req'')] [Text ''*'']],
                      El ''input'' [(''className'', Val ''input mono''), (''value'', Val (rs_code l)),
                                    (''onChange'', OnV RedeemCode), (''placeholder'', Val ''DEMO0001'')]
                        [],
                      El ''span'' [(''className'', Val ''help'')]
                        [Text ''A code issued under this campaign'']],
                   El ''div'' [(''className'', Val ''field span2'')]
                     [El ''label'' [] [Text ''Redeemer reference''],
                      El ''input'' [(''className'', Val ''input mono''), (''value'', Val (rs_ref l)),
                                    (''onChange'', OnV RedeemRef),
                                    (''placeholder'', Val ''order-8842 / phone / email'')] [],
                      El ''span'' [(''className'', Val ''help'')]
                        [Text ''Any identifier you use off-chain (order #, phone, email)'']],
                   El ''div'' [(''className'', Val ''field span2'')]
                     ([El ''label'' []
                         [Ic ''shield'' [(''style'',
                                          Sty [(''width'', ''13''), (''height'', ''13''),
                                               (''opacity'', ''.6'')])],
                          Text '' redeemer_ref_hash '',
                          El ''span'' [(''className'', Val ''authtag''),
                                       (''style'',
                                        Sty [(''fontSize'', ''10''), (''padding'', ''1px 6px'')])]
                            [Text ''committed in your browser'']],
                       El ''div'' [(''className'', Val ''copy''),
                                   (''style'',
                                    Sty [(''width'', ''100%''), (''padding'', ''10px 12px'')])]
                         [El ''span'' [(''className'', Val ''val mono''),
                                       (''style'',
                                        Sty [(''fontSize'', ''12.5''),
                                             (''color'',
                                              (if rs_hash l = ZERO32 then ''var(--ink-3)'' else
                                                 ''var(--ink)''))])] [Text (rs_hash l)],
                          El ''CopyBare'' [(''value'', Val (rs_hash l)), (''display'', Val [])] []],
                       El ''span'' [(''className'', Val ''help'')]
                         [Text (''SHA-256(random nonce ''
                                  @ [CHR 0x81]
                                  @ '' reference) ''
                                  @ [CHR 0x97]
                                  @ '' an opaque, non-reversible commitment. The nonce (''),
                          El ''span'' [(''className'', Val ''mono'')] [Text (trunc 6 4 (rs_nonce l))],
                          Text
                            '') stays off-chain; only this hash is sent. No plaintext PII ever goes on-chain.'']]
                        @
                        (if hash_failed l then
                           [El ''span'' [(''className'', Val ''help''),
                                         (''style'', Sty [(''color'', ''var(--burned)'')])]
                              [Text (the (rs_hashError l))]] else []))],
                El ''div'' [(''className'', Val ''form-actions'')]
                  [Btn ''primary'' (rs_busy l) (redeem_blocked l) False
                     [Ic ''fire'' [(''style'', Sty [(''width'', ''15''), (''height'', ''15'')])]]
                     [(''onClick'', On RedeemSubmit)]
                     [Text (if rs_busy l then ''Burning'' else ''Redeem & burn'')],
                   El ''span'' [(''className'', Val ''help'')]
                     [Text (''Irreversible '' @ [CHR 0x97] @ '' this permanently burns the token'')]]]
                 @ (if rs_error l \<noteq> None then (ErrorPanel (rs_error l) (Some RedeemCloseError))
                      else [])
                 @
                 (if rs_result l \<noteq> None then
                    [ResultPanel ''Redemption receipt'' (Some RedeemCloseResult)
                       [El ''div'' [(''style'',
                                     Sty [(''display'', ''flex''), (''alignItems'', ''center''),
                                          (''gap'', ''12''), (''flexWrap'', ''wrap''),
                                          (''marginBottom'', ''4'')])]
                          [Pill ''burned''
                             [Ic ''fire'' [(''style'',
                                            Sty [(''width'', ''12''), (''height'', ''12'')])],
                              Text '' Burned''],
                           El ''span'' [(''className'', Val ''mono''),
                                        (''style'',
                                         Sty [(''fontSize'', ''14''), (''fontWeight'', ''600'')])]
                             [Text (shown (res r ''code''))],
                           El ''span'' [(''className'', Val ''faint mono''),
                                        (''style'', Sty [(''fontSize'', ''12'')])]
                             [Text ''token #'',
                              Text (shown (res r ''token_id''))]],
                        KV ''campaign''
                          [El ''span'' [(''style'', Sty [(''fontWeight'', ''600'')])]
                             [Text (shown (res r ''campaign_name''))],
                           Text '' '',
                           El ''span'' [(''className'', Val ''faint mono''),
                                        (''style'', Sty [(''fontSize'', ''12'')])]
                             [Text ''#'',
                              Text (shown (res r ''campaign_id''))]],
                        KV ''discount''
                          [El ''span'' [(''style'', Sty [(''fontWeight'', ''600'')])]
                             [Text (fmtDiscount (js_String (res r ''discount_type''))
                                      (res r ''discount_value''))],
                           Text '' '',
                           El ''span'' [(''className'', Val ''faint''),
                                        (''style'', Sty [(''fontSize'', ''12.5'')])]
                             [Text ([CHR 0xB7] @ '' ''),
                              Text (discount_label (res r ''discount_type''))]],
                        KV ''redeemer_ref''
                          [El ''CopyValue'' [(''value'', Val (shown (res r ''redeemer_ref''))),
                                             (''display'',
                                              Val (trunc 10 8 (shown (res r ''redeemer_ref''))))] []],
                        KV ''burned_at''
                          [El ''span'' [(''className'', Val ''mono''),
                                        (''style'', Sty [(''fontSize'', ''13'')])] [Text burned]],
                        KV ''ledger_seq''
                          [El ''span'' [(''className'', Val ''mono''),
                                        (''style'', Sty [(''fontSize'', ''13'')])]
                             [Text (localised h (res r ''ledger_seq''))],
                           Text '' '',
                           El ''span'' [(''className'', Val ''faint''),
                                        (''style'', Sty [(''fontSize'', ''12'')])]
                             [Text ([CHR 0xB7] @ '' the on-chain anchor'')]]]] else [])))))\<close>

section \<open>Verify\<close>

record looked_up = \<comment> \<open>\<open>{ ...r, stats }\<close>\<close>
  lk_result :: jval
  lk_stats :: "mirror_stats option"

record verify_state =
  vs_cid :: string
  vs_code :: string
  vs_busy :: bool
  vs_data :: "looked_up option"
  vs_error :: "sd option"

definition verify_init :: verify_state where
  "verify_init = \<lparr>vs_cid = ''1'', vs_code = ''DEMO0001'', vs_busy = False, vs_data = None,
     vs_error = None\<rparr>"

datatype verify_ev = VerifyTab string | VerifyConnect | VerifyCid string | VerifyCode string
  | VerifyKey string | VerifyLookup | VerifyCloseError | VerifyCloseData

fun verify_set :: "verify_ev \<Rightarrow> verify_state \<Rightarrow> verify_state" where
  "verify_set (VerifyCid v) l = l\<lparr>vs_cid := v\<rparr>"
| "verify_set (VerifyCode v) l = l\<lparr>vs_code := v\<rparr>"
| "verify_set VerifyCloseError l = l\<lparr>vs_error := None\<rparr>"
| "verify_set VerifyCloseData l = l\<lparr>vs_data := None\<rparr>"
| "verify_set _ l = l"

fun verify_runs :: "verify_ev \<Rightarrow> bool" where \<comment> \<open>the events that start a lookup\<close>
  "verify_runs VerifyLookup = True"
| "verify_runs (VerifyKey k) = (k = ''Enter'')"
| "verify_runs _ = False"

definition lookup ::
  "'w host \<Rightarrow> mirror \<Rightarrow> string \<Rightarrow> string \<Rightarrow> (('w, verify_state) card, unit) io" where
  \<comment> \<open>\<open>campaignStats\<close> reads the mirror of the render the lookup was started in\<close>
  "lookup h state cid code =
     bindIO (set_local (\<lambda>l. l\<lparr>vs_busy := True, vs_error := None, vs_data := None\<rparr>)) (\<lambda>_.
     finallyIO
       (catchIO
          (bindIO (in_app (verify h (JStr cid) (upper code))) (\<lambda>o'.
           bindIO (liftIO (bindR (field (o_result o') ''token'') (\<lambda>t. field t ''campaign_id''))) (\<lambda>k.
           bindIO (in_app (clock h)) (\<lambda>now.
           set_local (\<lambda>l. l\<lparr>vs_data := Some \<lparr>lk_result = o_result o',
             lk_stats = campaignStats (nowUnix now) k state\<rparr>\<rparr>)))))
          (\<lambda>err. set_local (\<lambda>l. l\<lparr>vs_error := e_sd err\<rparr>)))
       (set_local (\<lambda>l. l\<lparr>vs_busy := False\<rparr>)))"

definition statusPill :: \<open>string \<Rightarrow> 'e html list\<close> where
  \<open>statusPill status =
     (if status = ''valid'' then
        [Pill ''valid''
           [Ic ''ok'' [(''style'', Sty [(''width'', ''12''), (''height'', ''12'')])],
            Text '' Valid'']] else
        (if status = ''burned'' then
           [Pill ''burned''
              [Ic ''fire'' [(''style'', Sty [(''width'', ''12''), (''height'', ''12'')])],
               Text '' Burned'']] else
           [Pill ''pending''
              [Ic ''alert'' [(''style'', Sty [(''width'', ''12''), (''height'', ''12'')])],
               Text '' Expired'']]))\<close>

definition verify_view :: \<open>store \<Rightarrow> string \<Rightarrow> verify_state \<Rightarrow> verify_ev html js\<close> where
  \<open>verify_view st tab l =
     (let r = lk_result (the (vs_data l));
          stats = lk_stats (the (vs_data l));
          t = res r ''token''
      in bindR (if vs_data l = None then Inr [] else ts_of (res t ''minted_at''))
           (\<lambda>minted. bindR (if vs_data l = None then Inr [] else if truthy (res t ''is_burned'')
                                      then ts_of (res t ''burned_at'') else Inr [CHR 0x97])
              (\<lambda>burned. Inr
                 (ActionCard tab VerifyTab (s_connecting st) VerifyConnect ''05'' ''verify''
                    ''Verify / Inspect'' (''Look up any code''
                                            @ [CHR 0x27]
                                            @ ''s live status ''
                                            @ [CHR 0x97]
                                            @
                                            '' no wallet required. Anyone can independently verify a coupon against the contract; this is what makes the protocol auditable.'')
                    ''public'' False [] (snippet_texts (snip_verify (vs_cid l)
                                                          (toUpperCase (vs_code l))))
                    ''Verify / Inspect''
                    ([El ''div'' [(''className'', Val ''form-grid'')]
                        [El ''div'' [(''className'', Val ''field'')]
                           [El ''label'' [] [Text ''Campaign ID''],
                            El ''input'' [(''className'', Val ''input mono''),
                                          (''type'', Val ''number''), (''min'', Val ''1''),
                                          (''value'', Val (vs_cid l)), (''onChange'', OnV VerifyCid),
                                          (''onKeyDown'', OnV VerifyKey), (''placeholder'', Val ''1'')]
                              []],
                         El ''div'' [(''className'', Val ''field'')]
                           [El ''label'' [] [Text ''Code''],
                            El ''div'' [(''style'', Sty [(''display'', ''flex''), (''gap'', ''10'')])]
                              [El ''input'' [(''className'', Val ''input mono''),
                                             (''value'', Val (vs_code l)),
                                             (''onChange'', OnV VerifyCode),
                                             (''onKeyDown'', OnV VerifyKey),
                                             (''placeholder'', Val ''DEMO0001''),
                                             (''style'', Sty [(''flex'', ''1'')])] [],
                               Btn ''primary'' (vs_busy l) False False [] [(''onClick'',
                                                                            On VerifyLookup)]
                                 [Text (if vs_busy l then ''Reading'' else ''Verify'')]]],
                         El ''div'' [(''className'', Val ''field span2'')]
                           [El ''span'' [(''className'', Val ''help'')]
                              [Text (''Public read ''
                                       @ [CHR 0x97]
                                       @
                                       '' a simulation, costs nothing, needs no signature. Codes are scoped per campaign: try campaign ''),
                               El ''CopyBare'' [(''value'', Val ''1'')] [],
                               Text '' with '',
                               El ''CopyBare'' [(''value'', Val ''DEMO0001'')] [],
                               Text '' or '',
                               El ''CopyBare'' [(''value'', Val ''DEMO0002'')] [],
                               Text ''.'']]]]
                       @ (if vs_error l \<noteq> None then (ErrorPanel (vs_error l)
                                                              (Some VerifyCloseError)) else [])
                       @
                       (if vs_data l \<noteq> None then
                          [El ''div'' [(''className'', Val ''result''),
                                       (''style'', Sty [(''background'', ''var(--surface)'')])]
                             [El ''div'' [(''className'', Val ''result-head''),
                                          (''style'', Sty [(''color'', ''var(--ink-2)'')])]
                                [Ic ''hash'' [(''style'',
                                               Sty [(''width'', ''15''), (''height'', ''15'')])],
                                 El ''span'' [(''style'', Sty [(''flex'', ''1'')])]
                                   [Text ''Coupon status''],
                                 El ''button'' [(''onClick'', On VerifyCloseData),
                                                (''className'', Val ''faint''),
                                                (''style'',
                                                 Sty [(''display'', ''grid''),
                                                      (''placeItems'', ''center'')])]
                                   [Ic ''x'' [(''style'',
                                               Sty [(''width'', ''15''), (''height'', ''15'')])]]],
                              El ''div'' [(''className'', Val ''result-body'')]
                                ([El ''div'' [(''style'',
                                               Sty [(''display'', ''flex''),
                                                    (''alignItems'', ''center''), (''gap'', ''12''),
                                                    (''flexWrap'', ''wrap'')])]
                                    (statusPill (js_String (res r ''status''))
                                       @
                                       [El ''span'' [(''className'', Val ''mono''),
                                                     (''style'',
                                                      Sty [(''fontSize'', ''15''),
                                                           (''fontWeight'', ''600'')])]
                                          [Text (shown (res t ''code''))],
                                        El ''span'' [(''className'', Val ''faint mono''),
                                                     (''style'', Sty [(''fontSize'', ''12'')])]
                                          [Text ''token #'',
                                           Text (shown (res t ''token_id''))]]),
                                  El ''div'' [(''className'', Val ''divider''),
                                              (''style'', Sty [(''margin'', ''4px 0'')])] [],
                                  KV ''campaign''
                                    [El ''span'' [(''style'', Sty [(''fontWeight'', ''600'')])]
                                       [Text (shown (res (res r ''campaign'') ''name''))],
                                     Text '' '',
                                     El ''span'' [(''className'', Val ''faint mono''),
                                                  (''style'', Sty [(''fontSize'', ''12'')])]
                                       [Text ''#'',
                                        Text (shown (res t ''campaign_id''))]],
                                  KV ''minted_at''
                                    [El ''span'' [(''className'', Val ''mono''),
                                                  (''style'', Sty [(''fontSize'', ''13'')])]
                                       [Text minted]],
                                  KV ''burned_at''
                                    [El ''span'' [(''className'', Val ''mono''),
                                                  (''style'', Sty [(''fontSize'', ''13'')])]
                                       [Text burned]]]
                                   @
                                   (if truthy (res t ''is_burned'') then
                                      [KV ''redeemer_ref''
                                         [El ''CopyValue'' [(''value'',
                                                             Val (shown (res t ''redeemer_ref''))),
                                                            (''display'',
                                                             Val (trunc 10 8
                                                                    (shown (res t ''redeemer_ref''))))]
                                            []]] else [])
                                   @
                                   (if stats \<noteq> None then
                                      [El ''div'' [(''className'', Val ''divider''),
                                                   (''style'', Sty [(''margin'', ''6px 0 2px'')])] [],
                                       El ''div'' [(''className'', Val ''kv-k''),
                                                   (''style'', Sty [(''marginBottom'', ''2'')])]
                                         [Text ''Campaign stats''],
                                       El ''div'' [(''className'', Val ''stat-grid'')]
                                         [El ''div'' [(''className'', Val ''stat'')]
                                            [El ''div'' [(''className'', Val ''sv'')]
                                               [Text (num_str (ms_total_supply (the stats)))],
                                             El ''div'' [(''className'', Val ''sk'')]
                                               [Text ''Supply'']],
                                          El ''div'' [(''className'', Val ''stat'')]
                                            [El ''div'' [(''className'', Val ''sv'')]
                                               [Text (num_str (ms_minted (the stats)))],
                                             El ''div'' [(''className'', Val ''sk'')]
                                               [Text ''Minted'']],
                                          El ''div'' [(''className'', Val ''stat'')]
                                            [El ''div'' [(''className'', Val ''sv''),
                                                         (''style'',
                                                          Sty [(''color'', ''var(--burned)'')])]
                                               [Text (num_str (ms_burned (the stats)))],
                                             El ''div'' [(''className'', Val ''sk'')]
                                               [Text ''Burned'']],
                                          El ''div'' [(''className'', Val ''stat'')]
                                            [El ''div'' [(''className'', Val ''sv''),
                                                         (''style'',
                                                          Sty [(''color'', ''var(--valid)'')])]
                                               [Text (num_str (ms_available (the stats)))],
                                             El ''div'' [(''className'', Val ''sk'')]
                                               [Text ''Available'']],
                                          El ''div'' [(''className'', Val ''stat'')]
                                            [El ''div'' [(''className'', Val ''sv'')]
                                               [Text (num_str (ms_expired (the stats)))],
                                             El ''div'' [(''className'', Val ''sk'')]
                                               [Text ''Expired'']]]] else []))]] else []))))))\<close>

end
