(* ===== verification/Cards_C.thy ===== *)
theory Cards_C
  imports Cards_A
begin

text \<open>
  The card that manages the delegates of a campaign (\<open>web/src/cards-c.jsx\<close>). The effect that keeps
  its selection valid is the one of the issuing card.
\<close>

record delegates_state =
  ds_cid :: string
  ds_addr :: string
  ds_busy :: string
  ds_check :: "bool option"
  ds_error :: "sd option"

definition delegates_init :: delegates_state where
  "delegates_init = \<lparr>ds_cid = [],
     ds_addr = ''GDELEGATE7XMPLZ4K2J3QF5VWN6YH8R9TCBA1SDLPUEMXKO2WQZ3RV5T'', ds_busy = [],
     ds_check = None, ds_error = None\<rparr>"

datatype delegates_ev = DelegTab string | DelegConnect | DelegCampaign string | DelegAddr string
  | DelegRun string | DelegCloseError

fun delegates_set :: "delegates_ev \<Rightarrow> delegates_state \<Rightarrow> delegates_state" where
  "delegates_set (DelegCampaign v) l = l\<lparr>ds_cid := v, ds_check := None\<rparr>"
| "delegates_set (DelegAddr v) l = l\<lparr>ds_addr := v, ds_check := None\<rparr>"
| "delegates_set DelegCloseError l = l\<lparr>ds_error := None\<rparr>"
| "delegates_set _ l = l"

definition second_part :: "string \<Rightarrow> string" where \<comment> \<open>\<open>k.split(":")[1]\<close> of a key with a colon\<close>
  "second_part k = (case split_on (CHR '':'') k of _ # p # _ \<Rightarrow> p | _ \<Rightarrow> ''undefined'')"

definition current_delegates :: "mirror \<Rightarrow> string \<Rightarrow> string list" where
  "current_delegates m cid =
     map (\<lambda>(k, v). second_part k)
       (filter (\<lambda>(k, v). startsWith k (cid @ '':'') \<and> v) (m_delegates m))"

definition delegates_run ::
  "'w host \<Rightarrow> string \<Rightarrow> string \<Rightarrow> string \<Rightarrow> (('w, delegates_state) card, unit) io" where
  "delegates_run h cid addr kind =
     bindIO (set_local (\<lambda>l. l\<lparr>ds_busy := kind, ds_error := None, ds_check := None\<rparr>)) (\<lambda>_.
     finallyIO
       (catchIO
          (if kind = ''add'' then
             bindIO (in_app (addDelegate h (JStr cid) (trim addr))) (\<lambda>_.
             in_app (toast ''success'' ''Delegate added''
               (trunc 4 4 (trim addr) @ '' can now redeem codes for campaign #'' @ cid @ ''.'')))
           else if kind = ''remove'' then
             bindIO (in_app (removeDelegate h (JStr cid) (trim addr))) (\<lambda>_.
             in_app (toast ''info'' ''Delegate removed''
               (trunc 4 4 (trim addr) @ '' can no longer redeem.'')))
           else
             bindIO (in_app (isDelegate h (JStr cid) (trim addr))) (\<lambda>o'.
             set_local (\<lambda>l. l\<lparr>ds_check := Some (truthy (res (o_result o') ''is_delegate''))\<rparr>)))
          (show_error (\<lambda>e l. l\<lparr>ds_error := e\<rparr>)))
       (set_local (\<lambda>l. l\<lparr>ds_busy := []\<rparr>)))"

definition delegates_view :: \<open>store \<Rightarrow> string \<Rightarrow> delegates_state \<Rightarrow> delegates_ev html\<close> where
  \<open>delegates_view st tab l =
     ActionCard tab DelegTab (s_connecting st) DelegConnect ''06'' ''delegates'' ''Delegates''
       (''Grant other accounts the right to redeem your campaign''
          @ [CHR 0x27]
          @ ''s codes ''
          @ [CHR 0x97]
          @
          '' useful for staff at the point of redemption. Delegates can redeem codes but cannot issue supply.'')
       ''owner'' (s_wallet st = None) [] (snippet_texts (snip_add_delegate (ds_cid l) (ds_addr l)))
       ''Delegates''
       ([El ''div'' [(''className'', Val ''form-grid'')]
           [El ''div'' [(''className'', Val ''field'')]
              [El ''label'' [] [Text ''Campaign ID''],
               El ''select'' [(''className'', Val ''select mono''), (''value'', Val (ds_cid l)),
                              (''onChange'', OnV DelegCampaign),
                              (''disabled'', Flag (owned_ids st = []))]
                 (if owned_ids st \<noteq> [] then
                    (concat (map (\<lambda>k.
                                    [El ''option'' [(''value'', Val k)]
                                       [Text ''#'',
                                        Text k,
                                        Text ('' '' @ [CHR 0x97] @ '' ''),
                                        Text (shown (ci_name (the (camp_named st k))))]])
                               (owned_ids st))) else
                    [El ''option'' [(''value'', Val [])] [Text ''No campaigns you own yet'']])],
            El ''div'' [(''className'', Val ''field'')]
              [El ''label'' [] [Text ''Current delegates''],
               El ''div'' [(''style'',
                            Sty [(''display'', ''flex''), (''alignItems'', ''center''),
                                 (''minHeight'', ''44'')])]
                 (if current_delegates (s_state st) (ds_cid l) \<noteq> [] then
                    [El ''div'' [(''className'', Val ''chips'')]
                       (concat (map (\<lambda>a.
                                       [El ''span'' [(''className'', Val ''chip-tok'')]
                                          [El ''CopyBare'' [(''value'', Val a),
                                                            (''display'', Val (trunc 4 4 a))] []]])
                                  (current_delegates (s_state st) (ds_cid l))))] else
                    [El ''span'' [(''className'', Val ''faint''),
                                  (''style'', Sty [(''fontSize'', ''13'')])]
                       [Text ''None yet for this campaign'']])],
            El ''div'' [(''className'', Val ''field span2'')]
              [El ''label'' [] [Text ''Delegate address''],
               El ''input'' [(''className'', Val ''input mono''), (''value'', Val (ds_addr l)),
                             (''onChange'', OnV DelegAddr), (''placeholder'', Val (''G'' @ [CHR 0x85]))]
                 [],
               El ''span'' [(''className'', Val ''help'')]
                 [Text (''A Stellar account (G''
                          @ [CHR 0x85]
                          @ '') you authorize to call redeem_unique on this campaign.'')]]],
         El ''div'' [(''className'', Val ''form-actions'')]
           ([Btn ''primary'' (ds_busy l = ''add'') False True
               [Ic ''plus'' [(''style'', Sty [(''width'', ''13''), (''height'', ''13'')])]]
               [(''onClick'', On (DelegRun ''add''))] [Text ''Add delegate''],
             El ''button'' [(''className'', Val ''btn-plain''), (''onClick'', On (DelegRun ''remove'')),
                            (''disabled'', Flag (ds_busy l \<noteq> []))]
               ((if ds_busy l = ''remove'' then [Spinner ''14''] else
                   [Ic ''x'' [(''style'', Sty [(''width'', ''14''), (''height'', ''14'')])]])
                  @ [Text '' Remove'']),
             El ''button'' [(''className'', Val ''btn-plain''), (''onClick'', On (DelegRun ''check'')),
                            (''disabled'', Flag (ds_busy l \<noteq> []))]
               ((if ds_busy l = ''check'' then [Spinner ''14''] else
                   [Ic ''shield'' [(''style'', Sty [(''width'', ''14''), (''height'', ''14'')])]])
                  @ [Text '' is delegate?''])]
              @
              (if ds_check l \<noteq> None then
                 [El ''span'' [(''className'', Val ''pill''),
                               (''style'',
                                Sty [(''background'',
                                      (if ds_check l = Some True then ''var(--valid-bg)'' else
                                         ''var(--surface-inset)'')),
                                     (''color'',
                                      (if ds_check l = Some True then ''var(--valid)'' else
                                         ''var(--ink-2)'')), (''borderColor'', ''transparent'')])]
                    (if ds_check l = Some True then
                       [Ic ''check'' [(''style'', Sty [(''width'', ''13''), (''height'', ''13'')])],
                        Text '' authorized''] else
                       [Ic ''x'' [(''style'', Sty [(''width'', ''13''), (''height'', ''13'')])],
                        Text '' not a delegate''])] else []))]
          @ (if ds_error l \<noteq> None then (ErrorPanel (ds_error l) (Some DelegCloseError)) else []))\<close>

end
