(* ===== verification/Cards_Tally.thy ===== *)
theory Cards_Tally
  imports Play_Card
begin

text \<open>
  The cards of the tally profile (\<open>web/src/cards-tally.jsx\<close>): registering a shared code and committing a
  period, and reading, paying and extending a tally.
\<close>

definition tallyCli :: "string \<Rightarrow> string list \<Rightarrow> string" where
  "tallyCli meth lines = lines_of
     ([''stellar contract invoke '' @ [CHR 0x5C],
       ''  --id <CONTRACT> '' @ [CHR 0x5C],
       ''  --source owner '' @ [CHR 0x5C],
       ''  --network testnet '' @ [CHR 0x5C],
       ''  -- '' @ meth @ '' '' @ [CHR 0x5C]] @ lines)"

section \<open>Register a shared code, commit a tally\<close>

record register_state =
  rg_cid :: string
  rg_code :: string
  rg_attr :: string
  rg_token :: string
  rg_rate :: string
  rg_period :: string
  rg_count :: string
  rg_attrCount :: string
  rg_merkle :: string
  rg_busy :: string
  rg_error :: "sd option"
  rg_result :: "string option" \<comment> \<open>the \<open>kind\<close> of the result\<close>

definition register_init :: register_state where
  "register_init = \<lparr>rg_cid = ''1'', rg_code = ''ROBERTOX'', rg_attr = [], rg_token = [],
     rg_rate = ''50000'', rg_period = ''1'', rg_count = ''40'', rg_attrCount = ''40'', rg_merkle = [],
     rg_busy = [], rg_error = None, rg_result = None\<rparr>"

datatype register_ev = RegTab string | RegConnect | RegCid string | RegCode string | RegAttr string
  | RegToken string | RegRate string | RegPeriod string | RegCount string | RegAttrCount string
  | RegMerkle string | RegRun string | RegCloseError | RegCloseResult

fun register_set :: "register_ev \<Rightarrow> register_state \<Rightarrow> register_state" where
  "register_set (RegCid v) l = l\<lparr>rg_cid := v\<rparr>"
| "register_set (RegCode v) l = l\<lparr>rg_code := v\<rparr>"
| "register_set (RegAttr v) l = l\<lparr>rg_attr := v\<rparr>"
| "register_set (RegToken v) l = l\<lparr>rg_token := v\<rparr>"
| "register_set (RegRate v) l = l\<lparr>rg_rate := v\<rparr>"
| "register_set (RegPeriod v) l = l\<lparr>rg_period := v\<rparr>"
| "register_set (RegCount v) l = l\<lparr>rg_count := v\<rparr>"
| "register_set (RegAttrCount v) l = l\<lparr>rg_attrCount := v\<rparr>"
| "register_set (RegMerkle v) l = l\<lparr>rg_merkle := v\<rparr>"
| "register_set RegCloseError l = l\<lparr>rg_error := None\<rparr>"
| "register_set RegCloseResult l = l\<lparr>rg_result := None\<rparr>"
| "register_set _ l = l"

definition attr_effect :: "wallet option \<Rightarrow> register_state \<Rightarrow> register_state" where
  \<comment> \<open>a connected wallet is offered as the creator\<close>
  "attr_effect wallet l =
     (case wallet of
        Some w \<Rightarrow> if rg_attr l = [] then l\<lparr>rg_attr := js_String (wal_address w)\<rparr> else l
      | None \<Rightarrow> l)"

definition has_token :: "register_state \<Rightarrow> bool" where \<comment> \<open>\<open>tokenArg !== "null"\<close>\<close>
  "has_token l \<longleftrightarrow> trim (rg_attr l) \<noteq> [] \<and> trim (rg_token l) \<noteq> []"

definition shell_quoted :: "string \<Rightarrow> string" where
  "shell_quoted s = [CHR 0x27] @ [CHR 0x22] @ s @ [CHR 0x22] @ [CHR 0x27]"

definition attributedArg :: "register_state \<Rightarrow> string" where
  "attributedArg l = (if trim (rg_attr l) \<noteq> [] then shell_quoted (trim (rg_attr l)) else ''null'')"

definition tokenArg :: "register_state \<Rightarrow> string" where
  "tokenArg l = (if has_token l then shell_quoted (trim (rg_token l)) else ''null'')"

definition effectiveRate :: "register_state \<Rightarrow> string" where
  "effectiveRate l = (if tokenArg l = ''null'' then ''0'' else or_text (rg_rate l) ''0'')"

definition goRegister :: \<open>register_state \<Rightarrow> string\<close> where
  \<open>goRegister l =
     (let attr = trim (rg_attr l); token = trim (rg_token l); cid = rg_cid l;
          code = toUpperCase (rg_code l) in
      if attr \<noteq> [] then
        if token \<noteq> [] then
          ''creator := "'' @ attr @ ''"'' @ [CHR 0x0A] @ ''payoutToken := "'' @ token @ ''"'' @ [CHR 0x0A] @ ''rate, _ := new(big.Int).SetString("'' @ effectiveRate l @ ''", 10)'' @ [CHR 0x0A] @ ''err := client.RegisterShared(ctx, '' @ cid @ '', "'' @ code @ ''", &creator, &payoutToken, rate)''
        else
          ''creator := "'' @ attr @ ''"'' @ [CHR 0x0A] @ ''err := client.RegisterShared(ctx, '' @ cid @ '', "'' @ code @ ''", &creator, nil, big.NewInt(0))''
      else
        ''err := client.RegisterShared(ctx, '' @ cid @ '', "'' @ code @ ''", nil, nil, big.NewInt(0))'')\<close>

definition register_snippets :: \<open>store \<Rightarrow> register_state \<Rightarrow> snippet\<close> where
  \<open>register_snippets st l =
     \<lparr>sn_cli = tallyCli ''register_shared''
        [''  --owner '' @ (case s_wallet st of Some w \<Rightarrow> js_String (wal_address w)
                        | None \<Rightarrow> ''G'' @ [CHR 0x85]) @ '' '' @ [CHR 0x5C],
         ''  --campaign_id '' @ rg_cid l @ '' '' @ [CHR 0x5C],
         ''  --code "'' @ toUpperCase (rg_code l) @ ''" '' @ [CHR 0x5C],
         ''  --attributed_to '' @ attributedArg l @ '' '' @ [CHR 0x5C],
         ''  --payout_token '' @ tokenArg l @ '' '' @ [CHR 0x5C],
         ''  --payout_rate '' @ effectiveRate l],
      sn_ts = ''// Token + rate are FIXED at registration (immutable). Then commit'' @ [CHR 0x0A] @ ''// periodic tallies: commit_tally(campaign_id, code, period, count,'' @ [CHR 0x0A] @ ''// merkle_root, per_attribution) '' @ [CHR 0x97] @ '' Merkle root of the epoch'' @ [CHR 0x27] @ ''s signed receipts.'',
      sn_go = ''// import "math/big"'' @ nl @ goRegister l @ nl @ ''if err != nil { return err }''\<rparr>\<close>

definition form_error :: "string \<Rightarrow> string \<Rightarrow> sdcode \<Rightarrow> jserr" where
  "form_error title msg code = with_sd (Error msg) title msg code"

definition bad_root :: "register_state \<Rightarrow> bool" where
  "bad_root l \<longleftrightarrow> \<not> hex64 (trim (rg_merkle l))"

definition bad_split :: "register_state \<Rightarrow> bool" where
  \<comment> \<open>an attributed code whose counts differ, as Numbers\<close>
  "bad_split l \<longleftrightarrow> trim (rg_attr l) \<noteq> [] \<and>
     \<not> same_num (to_number (rg_attrCount l)) (to_number (rg_count l))"

definition register_call :: "'w host \<Rightarrow> register_state \<Rightarrow> (('w, register_state) card, unit) io" where
  \<comment> \<open>the first branch of \<open>run\<close>\<close>
  "register_call h l =
     (let attributed = (if trim (rg_attr l) \<noteq> [] then Some (trim (rg_attr l)) else None);
          tok = (if attributed \<noteq> None \<and> trim (rg_token l) \<noteq> [] then Some (trim (rg_token l)) else None);
          rt = (if tok \<noteq> None then rg_rate l else ''0'') in
      bindIO (in_app (registerShared h (JStr (rg_cid l)) (upper (rg_code l)) attributed tok (JStr rt))) (\<lambda>_.
      bindIO (in_app (toast ''success'' ''Shared code registered''
        (toUpperCase (rg_code l) @ '' is live under campaign #'' @ rg_cid l @ ''.''))) (\<lambda>_.
      set_local (\<lambda>x. x\<lparr>rg_result := Some ''register''\<rparr>))))"

definition commit_call :: "'w host \<Rightarrow> register_state \<Rightarrow> (('w, register_state) card, unit) io" where
  \<comment> \<open>the second branch\<close>
  "commit_call h l =
     (if bad_root l then throwIO (form_error ''Invalid Merkle root''
        ''A real 32-byte Merkle root is required.'' Dash)
      else if bad_split l then throwIO (form_error ''Invalid tally''
        ''For an attributed code, attributed count must equal total redemptions.'' (Num 17))
      else
        let per = (if trim (rg_attr l) \<noteq> [] then [(trim (rg_attr l), JNum (to_number (rg_attrCount l)))] else []);
            attributed = (if per \<noteq> [] then rg_attrCount l else ''0'') in
        bindIO (in_app (commitTally h (JStr (rg_cid l)) (upper (rg_code l)) (JStr (rg_period l))
                  (JStr (rg_count l)) (trim (rg_merkle l)) per)) (\<lambda>_.
        bindIO (in_app (toast ''success'' ''Tally committed''
          (''Period '' @ rg_period l @ '': '' @ rg_count l @ '' redemptions ('' @ attributed
           @ '' attributed).''))) (\<lambda>_.
        set_local (\<lambda>x. x\<lparr>rg_result := Some ''commit''\<rparr>))))"

definition register_run ::
  "'w host \<Rightarrow> register_state \<Rightarrow> string \<Rightarrow> (('w, register_state) card, unit) io" where
  \<comment> \<open>\<open>run(kind)\<close> of the render with the given state\<close>
  "register_run h l kind =
     bindIO (set_local (\<lambda>x. x\<lparr>rg_busy := kind, rg_error := None, rg_result := None\<rparr>)) (\<lambda>_.
     finallyIO
       (catchIO (if kind = ''register'' then register_call h l else commit_call h l)
          (show_error (\<lambda>e x. x\<lparr>rg_error := e\<rparr>)))
       (set_local (\<lambda>x. x\<lparr>rg_busy := []\<rparr>)))"

definition register_view :: \<open>store \<Rightarrow> string \<Rightarrow> register_state \<Rightarrow> register_ev html\<close> where
  \<open>register_view st tab l =
     ActionCard tab RegTab (s_connecting st) RegConnect ''07'' ''tally-register''
       ''Register shared code'' (
                                   ''Tally profile: register a shared, multi-use code (e.g. a creator code), crediting a creator/referrer and fixing the settlement token + rate up front (immutable). Then commit periodic on-chain tallies of off-chain redemptions ''
                                   @ [CHR 0x97]
                                   @ '' count + a Merkle root + per-attribution.'') ''owner''
       (s_wallet st = None) [] (snippet_texts (register_snippets st l)) ''Register shared code''
       ([El ''div'' [(''className'', Val ''form-grid'')]
           [El ''div'' [(''className'', Val ''field'')]
              [El ''label'' [] [Text ''Campaign ID''],
               El ''input'' [(''className'', Val ''input mono''), (''type'', Val ''number''),
                             (''min'', Val ''1''), (''value'', Val (rg_cid l)),
                             (''onChange'', OnV RegCid)] []],
            El ''div'' [(''className'', Val ''field'')]
              [El ''label'' [] [Text ''Shared code''],
               El ''input'' [(''className'', Val ''input mono''), (''value'', Val (rg_code l)),
                             (''onChange'', OnV RegCode), (''placeholder'', Val ''ROBERTOX'')] []],
            El ''div'' [(''className'', Val ''field span2'')]
              [El ''label'' []
                 [Text ''Attributed to '',
                  El ''span'' [(''className'', Val ''authtag''),
                               (''style'', Sty [(''fontSize'', ''10''), (''padding'', ''1px 6px'')])]
                    [Text ''creator / referrer'']],
               El ''input'' [(''className'', Val ''input mono''), (''value'', Val (rg_attr l)),
                             (''onChange'', OnV RegAttr),
                             (''placeholder'', Val (''G'' @ [CHR 0x85] @ '' (paid at settlement)''))]
                 [],
               El ''span'' [(''className'', Val ''help'')]
                 [Text
                    ''The only address this code can credit (binding). Blank = an unattributed promo.'']],
            El ''div'' [(''className'', Val ''field'')]
              [El ''label'' []
                 [Text ''Payout token '',
                  El ''span'' [(''className'', Val ''authtag''),
                               (''style'', Sty [(''fontSize'', ''10''), (''padding'', ''1px 6px'')])]
                    [Text ''optional'']],
               El ''input'' [(''className'', Val ''input mono''), (''value'', Val (rg_token l)),
                             (''onChange'', OnV RegToken),
                             (''placeholder'', Val (''C'' @ [CHR 0x85] @ '' (USDC / test SAC)''))] [],
               El ''span'' [(''className'', Val ''help'')]
                 [Text ''Fixed now, immutable. Blank = count-only (no settlement).'']],
            El ''div'' [(''className'', Val ''field'')]
              [El ''label'' [] [Text ''Payout rate''],
               El ''input'' [(''className'', Val ''input mono''), (''type'', Val ''number''),
                             (''min'', Val ''1''), (''value'', Val (rg_rate l)),
                             (''onChange'', OnV RegRate)] [],
               El ''span'' [(''className'', Val ''help'')]
                 [Text
                    ''Token base-units per attributed redemption (must be > 0 if a token is set).'']]],
         El ''div'' [(''className'', Val ''form-actions'')]
           [Btn ''primary'' (rg_busy l = ''register'') False True
              [Ic ''plus'' [(''style'', Sty [(''width'', ''13''), (''height'', ''13'')])]]
              [(''onClick'', On (RegRun ''register''))] [Text ''Register code'']],
         El ''div'' [(''className'', Val ''divider''), (''style'', Sty [(''margin'', ''8px 0'')])] [],
         El ''div'' [(''className'', Val ''kv-k''), (''style'', Sty [(''marginBottom'', ''8'')])]
           [Text ''Commit a period tally''],
         El ''div'' [(''className'', Val ''form-grid'')]
           [El ''div'' [(''className'', Val ''field'')]
              [El ''label'' [] [Text ''Period''],
               El ''input'' [(''className'', Val ''input mono''), (''type'', Val ''number''),
                             (''min'', Val ''1''), (''value'', Val (rg_period l)),
                             (''onChange'', OnV RegPeriod)] []],
            El ''div'' [(''className'', Val ''field'')]
              [El ''label'' [] [Text ''Total redemptions''],
               El ''input'' [(''className'', Val ''input mono''), (''type'', Val ''number''),
                             (''min'', Val ''0''), (''value'', Val (rg_count l)),
                             (''onChange'', OnV RegCount)] []],
            El ''div'' [(''className'', Val ''field'')]
              [El ''label'' [] [Text ''Attributed to creator''],
               El ''input'' [(''className'', Val ''input mono''), (''type'', Val ''number''),
                             (''min'', Val ''0''), (''value'', Val (rg_attrCount l)),
                             (''onChange'', OnV RegAttrCount)] [],
               El ''span'' [(''className'', Val ''help'')]
                 [Text
                    ''For an attributed code this must equal the total; partial attribution is rejected.'']],
            El ''div'' [(''className'', Val ''field'')]
              [El ''label'' []
                 [Text ''Merkle root '',
                  El ''span'' [(''className'', Val ''req'')] [Text ''*'']],
               El ''input'' [(''className'', Val ''input mono''), (''value'', Val (rg_merkle l)),
                             (''onChange'', OnV RegMerkle),
                             (''placeholder'', Val ''64 hex characters'')] [],
               El ''span'' [(''className'', Val ''help'')]
                 [Text (''SHA-256 Merkle root computed from the epoch''
                          @ [CHR 0x27]
                          @ ''s signed receipt payloads; no random/demo roots.'')]]],
         El ''div'' [(''className'', Val ''form-actions'')]
           [Btn ''primary'' (rg_busy l = ''commit'') (bad_root l \<or> bad_split l) False
              [Ic ''hash'' [(''style'', Sty [(''width'', ''15''), (''height'', ''15'')])]]
              [(''onClick'', On (RegRun ''commit''))] [Text ''Commit tally''],
            El ''span'' [(''className'', Val ''help'')]
              [Text (''Append-only '' @ [CHR 0x97] @ '' one commitment per period'')]]]
          @ (if rg_error l \<noteq> None then (ErrorPanel (rg_error l) (Some RegCloseError)) else [])
          @
          (if rg_result l \<noteq> None then
             [ResultPanel (if rg_result l = Some ''register'' then ''Shared code registered'' else
                             ''Tally committed'') (Some RegCloseResult)
                [El ''span'' [(''style'', Sty [(''fontSize'', ''14''), (''color'', ''var(--ink-2)'')])]
                   [Text (if rg_result l = Some ''register'' then toUpperCase (rg_code l)
                            @ '' registered under campaign #''
                            @ rg_cid l
                            @ ''.'' else ''Period ''
                            @ rg_period l
                            @ '' committed: ''
                            @ rg_count l
                            @ '' redemptions, ''
                            @ rg_attrCount l
                            @ '' attributed.'')]]] else []))\<close>

section \<open>Read, pay and extend a tally\<close>

record settle_state =
  ss_cid :: string
  ss_code :: string
  ss_period :: string
  ss_busy :: string
  ss_shared :: "jval option"
  ss_tally :: "jval option"
  ss_payouts :: "jval option"
  ss_error :: "sd option"

definition settle_init :: settle_state where
  "settle_init = \<lparr>ss_cid = ''1'', ss_code = ''ROBERTOX'', ss_period = ''1'', ss_busy = [],
     ss_shared = None, ss_tally = None, ss_payouts = None, ss_error = None\<rparr>"

datatype settle_ev = SettleTab string | SettleConnect | SettleCid string | SettleCode string
  | SettlePeriod string | SettleView | SettlePay | SettleBump | SettleCloseError | SettleCloseTally

fun settle_set :: "settle_ev \<Rightarrow> settle_state \<Rightarrow> settle_state" where
  "settle_set (SettleCid v) l = l\<lparr>ss_cid := v\<rparr>"
| "settle_set (SettleCode v) l = l\<lparr>ss_code := v\<rparr>"
| "settle_set (SettlePeriod v) l = l\<lparr>ss_period := v\<rparr>"
| "settle_set SettleCloseError l = l\<lparr>ss_error := None\<rparr>"
| "settle_set SettleCloseTally l = l\<lparr>ss_tally := None, ss_payouts := None, ss_shared := None\<rparr>"
| "settle_set _ l = l"

definition settle_read ::
  "'w host \<Rightarrow> string \<Rightarrow> string \<Rightarrow> string \<Rightarrow> (('w, settle_state) card, unit) io" where \<comment> \<open>\<open>view\<close>\<close>
  "settle_read h cid code period =
     bindIO (set_local (\<lambda>l. l\<lparr>ss_busy := ''view'', ss_error := None, ss_payouts := None,
                              ss_tally := None, ss_shared := None\<rparr>)) (\<lambda>_.
     finallyIO
       (catchIO
          (let c = upper code in
           bindIO (in_app (getShared h (JStr cid) c)) (\<lambda>sh.
           bindIO (in_app (getTally h (JStr cid) c (JStr period))) (\<lambda>t.
           bindIO (in_app (computePayouts h (JStr cid) c (JStr period))) (\<lambda>p.
           set_local (\<lambda>l. l\<lparr>ss_shared := Some (o_result sh), ss_tally := Some (o_result t),
                             ss_payouts := Some (o_result p)\<rparr>)))))
          (\<lambda>err. set_local (\<lambda>l. l\<lparr>ss_error := e_sd err\<rparr>)))
       (set_local (\<lambda>l. l\<lparr>ss_busy := []\<rparr>)))"

definition doSettle ::
  "'w host \<Rightarrow> string \<Rightarrow> string \<Rightarrow> string \<Rightarrow> (('w, settle_state) card, unit) io" where
  "doSettle h cid code period =
     bindIO (set_local (\<lambda>l. l\<lparr>ss_busy := ''settle'', ss_error := None\<rparr>)) (\<lambda>_.
     finallyIO
       (catchIO
          (bindIO (in_app (settle h (JStr cid) (upper code) (JStr period))) (\<lambda>o'.
           let ps = res (o_result o') ''payouts'' in
           bindIO (in_app (toast ''success'' ''Settled''
             (nat_text (length (elems ps)) @ '' payout(s) sent.''))) (\<lambda>_.
           set_local (\<lambda>l. l\<lparr>ss_payouts := Some ps\<rparr>))))
          (show_error (\<lambda>e l. l\<lparr>ss_error := e\<rparr>)))
       (set_local (\<lambda>l. l\<lparr>ss_busy := []\<rparr>)))"

definition doBump ::
  "'w host \<Rightarrow> string \<Rightarrow> string \<Rightarrow> string \<Rightarrow> (('w, settle_state) card, unit) io" where
  "doBump h cid code period =
     bindIO (set_local (\<lambda>l. l\<lparr>ss_busy := ''bump'', ss_error := None\<rparr>)) (\<lambda>_.
     finallyIO
       (catchIO
          (bindIO (in_app (bumpTally h (JStr cid) (upper code) (JStr period))) (\<lambda>_.
           in_app (toast ''success'' ''TTL extended''
             (''Storage for '' @ toUpperCase code @ '' (period '' @ period @ '') re-extended.''))))
          (show_error (\<lambda>e l. l\<lparr>ss_error := e\<rparr>)))
       (set_local (\<lambda>l. l\<lparr>ss_busy := []\<rparr>)))"

definition settle_snippets :: \<open>settle_state \<Rightarrow> snippet\<close> where
  \<open>settle_snippets l =
     \<lparr>sn_cli = tallyCli ''get_tally''
        [''  --campaign_id '' @ ss_cid l @ '' '' @ [CHR 0x5C],
         ''  --code "'' @ toUpperCase (ss_code l) @ ''" '' @ [CHR 0x5C],
         ''  --period '' @ ss_period l],
      sn_ts = ''// Public reads expose the root and payout preview. A complete audit also'' @ [CHR 0x0A] @ ''// needs the signed receipts and Merkle inclusion proofs. Contract v0.2 lets any'' @ [CHR 0x0A] @ ''// fee payer settle after the owner approves a bounded token allowance.'',
      sn_go = ''tally, _ := client.GetTally(ctx, '' @ ss_cid l @ '', "'' @ toUpperCase (ss_code l) @ ''", ''
        @ ss_period l @ '')''\<rparr>\<close>

definition settle_view :: \<open>store \<Rightarrow> string \<Rightarrow> settle_state \<Rightarrow> settle_ev html\<close> where
  \<open>settle_view st tab l =
     (let t = the (ss_tally l);
          sh = the (ss_shared l);
          ps = the (ss_payouts l)
      in ActionCard tab SettleTab (s_connecting st) SettleConnect ''08'' ''tally-settle''
           ''Audit & settle''
           ''Read a committed tally and preview payouts. Verifying the root requires the signed receipt set and inclusion proofs; the signer remains the trust anchor for genuine off-chain events. On v0.2 settlement is permissionless once the owner has approved a token allowance.''
           ''public'' False [] (snippet_texts (settle_snippets l)) ''Audit & settle''
           ([El ''div'' [(''className'', Val ''form-grid'')]
               [El ''div'' [(''className'', Val ''field'')]
                  [El ''label'' [] [Text ''Campaign ID''],
                   El ''input'' [(''className'', Val ''input mono''), (''type'', Val ''number''),
                                 (''min'', Val ''1''), (''value'', Val (ss_cid l)),
                                 (''onChange'', OnV SettleCid)] []],
                El ''div'' [(''className'', Val ''field'')]
                  [El ''label'' [] [Text ''Shared code''],
                   El ''input'' [(''className'', Val ''input mono''), (''value'', Val (ss_code l)),
                                 (''onChange'', OnV SettleCode), (''placeholder'', Val ''ROBERTOX'')]
                     []],
                El ''div'' [(''className'', Val ''field'')]
                  [El ''label'' [] [Text ''Period''],
                   El ''input'' [(''className'', Val ''input mono''), (''type'', Val ''number''),
                                 (''min'', Val ''1''), (''value'', Val (ss_period l)),
                                 (''onChange'', OnV SettlePeriod)] []]],
             El ''div'' [(''className'', Val ''form-actions'')]
               [Btn ''primary'' (ss_busy l = ''view'') False False [] [(''onClick'', On SettleView)]
                  [Text (if ss_busy l = ''view'' then ''Reading'' else ''View tally & payouts'')],
                El ''span'' [(''className'', Val ''help'')]
                  [Text
                     ''Public read on the legacy seeded deployment; its 40/30 tally demonstrates the v0.1 underpayment flaw and is rejected by v0.2.'']]]
              @
              (if ss_tally l \<noteq> None then
                 [ResultPanel (''Tally '' @ [CHR 0x97] @ '' period '' @ js_String (res t ''period''))
                    (Some SettleCloseTally)
                    ([KV ''count''
                        [El ''span'' [(''className'', Val ''mono''),
                                      (''style'', Sty [(''fontWeight'', ''600'')])]
                           [Text (shown (res t ''count''))],
                         Text '' '',
                         El ''span'' [(''className'', Val ''faint''),
                                      (''style'', Sty [(''fontSize'', ''12'')])]
                           [Text ''redemptions committed'']],
                      KV ''merkle_root''
                        [El ''CopyValue'' [(''value'', Val (js_String (res t ''merkle_root''))),
                                           (''display'',
                                            Val (trunc 10 8 (js_String (res t ''merkle_root''))))] []]]
                       @
                       (if ss_shared l \<noteq> None then
                          [KV ''settlement''
                             (if truthy (res sh ''payout_token'') then
                                [El ''span'' []
                                   [El ''span'' [(''className'', Val ''mono''),
                                                 (''style'', Sty [(''fontWeight'', ''600'')])]
                                      [Text (shown (res sh ''payout_rate''))],
                                    Text '' '',
                                    El ''span'' [(''className'', Val ''faint''),
                                                 (''style'', Sty [(''fontSize'', ''12'')])]
                                      [Text (''per redemption '' @ [CHR 0xB7])],
                                    Text '' '',
                                    El ''CopyBare'' [(''value'',
                                                      Val (js_String (res sh ''payout_token''))),
                                                     (''display'',
                                                      Val (trunc 4 4 (js_String
                                                                        (res sh ''payout_token''))))]
                                      []]] else
                                [El ''span'' [(''className'', Val ''faint'')]
                                   [Text ''count-only (no payout token)'']])] else [])
                       @
                       [KV ''attribution''
                          (if elems (res t ''per_attribution'') \<noteq> [] then
                             [El ''div'' [(''className'', Val ''chips'')]
                                (concat (map (\<lambda>row.
                                                [El ''span'' [(''className'', Val ''chip-tok'')]
                                                   [El ''CopyBare'' [(''value'',
                                                                      Val (js_String (elems row ! 0))),
                                                                     (''display'',
                                                                      Val (trunc 4 4
                                                                             (js_String
                                                                                (elems row ! 0))))] [],
                                                    El ''span'' [(''className'', Val ''tid'')]
                                                      [Text [CHR 0xD7],
                                                       Text (shown (elems row ! 1))]]])
                                           (elems (res t ''per_attribution''))))] else
                             [El ''span'' [(''className'', Val ''faint'')] [Text ''none'']])]
                       @
                       (if ss_payouts l \<noteq> None then
                          [El ''div'' [(''className'', Val ''divider''),
                                       (''style'', Sty [(''margin'', ''6px 0 2px'')])] [],
                           El ''div'' [(''className'', Val ''kv-k''),
                                       (''style'', Sty [(''marginBottom'', ''6'')])]
                             [Text (''Payouts (at the code'' @ [CHR 0x27] @ ''s fixed rate)'')]]
                          @
                          (if elems ps \<noteq> [] then
                             (concat (map (\<lambda>p.
                                             [KV (trunc 6 6 (js_String (res p ''to'')))
                                                [El ''span'' [(''className'', Val ''mono''),
                                                              (''style'',
                                                               Sty [(''fontWeight'', ''600'')])]
                                                   [Text (shown (res p ''amount''))]]]) (elems ps)))
                             else
                             [El ''span'' [(''className'', Val ''faint''),
                                           (''style'', Sty [(''fontSize'', ''13'')])]
                                [Text ''No attributed payouts for this period.'']]) else []))] else [])
              @
              [El ''div'' [(''className'', Val ''divider''),
                           (''style'', Sty [(''margin'', ''10px 0 8px'')])] [],
               El ''div'' [(''className'', Val ''form-actions'')]
                 [El ''span'' [(''className'', Val ''authtag''),
                               (''style'', Sty [(''marginRight'', ''auto'')])]
                    [Ic ''lock'' [],
                     Text (''owner only '' @ [CHR 0xB7] @ '' token & rate from the registered code'')],
                  El ''button'' [(''className'', Val ''btn-plain''), (''onClick'', On SettleBump),
                                 (''disabled'', Flag (s_wallet st = None \<or> ss_busy l = ''bump''))]
                    ((if ss_busy l = ''bump'' then [Spinner ''14''] else
                        [Ic ''hash'' [(''style'', Sty [(''width'', ''14''), (''height'', ''14'')])]])
                       @ [Text '' Bump TTL'']),
                  Btn ''primary'' (ss_busy l = ''settle'') (s_wallet st = None) False
                    [Ic ''globe'' [(''style'', Sty [(''width'', ''15''), (''height'', ''15'')])]]
                    [(''onClick'', On SettlePay)]
                    [Text (if ss_busy l = ''settle'' then ''Settling'' else ''Settle & pay'')],
                  El ''span'' [(''className'', Val ''help'')]
                    [Text (if s_wallet st \<noteq> None then ''Transfers real tokens ''
                             @ [CHR 0x97]
                             @ '' once per period, irreversible'' else
                             ''Connect Freighter to settle'')]]]
              @ (if ss_error l \<noteq> None then (ErrorPanel (ss_error l) (Some SettleCloseError)) else
                   [])))\<close>

end
