(* ===== verification/Js_Json.thy ===== *)
theory Js_Json
  imports Js_Object
begin

text \<open>
  JSON as the console's API client uses it: \<open>JSON.stringify(v)\<close> without indentation and
  \<open>JSON.parse(text)\<close>. The parser is a recursive descent with a fuel that its texts cannot use up;
  \<open>None\<close> is its \<open>SyntaxError\<close>. A code unit that the characters of the model do not have
  is read as the substitute character. The main fact is the round trip of a plain value, one
  whose Numbers are safe integers and whose objects are in the order JavaScript keeps.
\<close>

section \<open>Writing\<close>

definition json_escape :: "char \<Rightarrow> string" where
  "json_escape c =
     (if c = CHR 0x22 \<or> c = CHR 0x5C then [CHR 0x5C, c]
      else if c = CHR 0x08 then [CHR 0x5C, CHR ''b'']
      else if c = CHR 0x0C then [CHR 0x5C, CHR ''f'']
      else if c = CHR 0x0A then [CHR 0x5C, CHR ''n'']
      else if c = CHR 0x0D then [CHR 0x5C, CHR ''r'']
      else if c = CHR 0x09 then [CHR 0x5C, CHR ''t'']
      else if char_code c < 32
      then [CHR 0x5C, CHR ''u'', CHR ''0'', CHR ''0'', dig (char_code c div 16), dig (char_code c mod 16)]
      else [c])"

definition json_text :: "string \<Rightarrow> string" where
  "json_text s = [CHR 0x22] @ concat (map json_escape s) @ [CHR 0x22]"

fun json_stringify :: "jval \<Rightarrow> string option js" where
  \<comment> \<open>absent for undefined, which an array writes as null and an object leaves out\<close>
  "json_stringify JUndef = Inr None"
| "json_stringify JNull = Inr (Some ''null'')"
| "json_stringify (JBool b) = Inr (Some (if b then ''true'' else ''false''))"
| "json_stringify (JNum n) = Inr (Some (case n of Fin r \<Rightarrow> num_str n | _ \<Rightarrow> ''null''))"
| "json_stringify (JBig i) = Inl (TypeError ''Do not know how to serialize a BigInt'')"
| "json_stringify (JStr s) = Inr (Some (json_text s))"
| "json_stringify (JBytes bs) = Inr (Some (''{'' @ join '',''
     (map (\<lambda>(i, b). json_text (dec (int i)) @ '':'' @ dec (uint b)) (enumerate 0 bs)) @ ''}''))"
| "json_stringify (JArr vs) =
     bindR (mapR json_stringify vs) (\<lambda>ts.
     Inr (Some (''['' @ join '','' (map (\<lambda>t. case t of None \<Rightarrow> ''null'' | Some x \<Rightarrow> x) ts) @ '']'')))"
| "json_stringify (JObj kvs) =
     bindR (mapR (\<lambda>kv. bindR (json_stringify (snd kv)) (\<lambda>t. Inr (fst kv, t))) kvs) (\<lambda>ts.
     Inr (Some (''{'' @ join '','' (concat (map (\<lambda>(k, t).
       case t of None \<Rightarrow> [] | Some x \<Rightarrow> [json_text k @ '':'' @ x]) ts)) @ ''}'')))"
| "json_stringify (JMap m) = Inr (Some ''{}'')"

text \<open>With an indentation of two blanks; big integers are written as text, as the callers' replacer does.\<close>

definition json_block :: "char \<Rightarrow> char \<Rightarrow> nat \<Rightarrow> string list \<Rightarrow> string" where
  \<comment> \<open>the parts of an array or an object, one to a line\<close>
  "json_block op cl ind parts =
     (if parts = [] then [op, cl]
      else [op] @ [CHR 0x0A] @ replicate (ind + 2) (CHR '' '')
           @ join ('','' @ [CHR 0x0A] @ replicate (ind + 2) (CHR '' '')) parts
           @ [CHR 0x0A] @ replicate ind (CHR '' '') @ [cl])"

definition json_num :: "jnum \<Rightarrow> string" where
  "json_num n = (case n of Fin r \<Rightarrow> num_str n | _ \<Rightarrow> ''null'')"

fun json_at :: "nat \<Rightarrow> jval \<Rightarrow> string option" where
  \<comment> \<open>absent for undefined; a typed array is an object of its indices, a \<open>Map\<close> an empty object\<close>
  "json_at ind JUndef = None"
| "json_at ind JNull = Some ''null''"
| "json_at ind (JBool b) = Some (if b then ''true'' else ''false'')"
| "json_at ind (JNum n) = Some (json_num n)"
| "json_at ind (JBig i) = Some (json_text (int_str i))"
| "json_at ind (JStr s) = Some (json_text s)"
| "json_at ind (JBytes bs) = Some (json_block (CHR ''{'') (CHR ''}'') ind
     (map (\<lambda>(i, b). json_text (dec (int i)) @ '': '' @ dec (uint b)) (enumerate 0 bs)))"
| "json_at ind (JArr vs) = Some (json_block (CHR ''['') (CHR '']'') ind
     (map (\<lambda>v. case json_at (ind + 2) v of None \<Rightarrow> ''null'' | Some t \<Rightarrow> t) vs))"
| "json_at ind (JObj kvs) = Some (json_block (CHR ''{'') (CHR ''}'') ind
     (concat (map (\<lambda>(k, v). case json_at (ind + 2) v of
        None \<Rightarrow> [] | Some t \<Rightarrow> [json_text k @ '': '' @ t]) kvs)))"
| "json_at ind (JMap m) = Some ''{}''"

section \<open>Reading\<close>

definition json_ws :: "char \<Rightarrow> bool" where
  "json_ws c \<longleftrightarrow> char_code c \<in> {9, 10, 13, 32}"

definition skip :: "string \<Rightarrow> string" where
  "skip s = dropWhile json_ws s"

definition unit_char :: "int \<Rightarrow> char" where
  "unit_char n = (if n < 128 \<or> 160 \<le> n \<and> n < 256 then char_of n else CHR 0x1A)"

definition json_unescape :: "char \<Rightarrow> char option" where
  "json_unescape e =
     map_of [(CHR 0x22, CHR 0x22), (CHR 0x5C, CHR 0x5C), (CHR ''/'', CHR ''/''), (CHR ''b'', CHR 0x08),
       (CHR ''f'', CHR 0x0C), (CHR ''n'', CHR 0x0A), (CHR ''r'', CHR 0x0D), (CHR ''t'', CHR 0x09)] e"

definition first_of :: "('a \<Rightarrow> 'b) \<Rightarrow> ('a \<times> string) option \<Rightarrow> ('b \<times> string) option" where
  "first_of f r = map_option (\<lambda>(x, s). (f x, s)) r"

fun json_chars :: "string \<Rightarrow> (string \<times> string) option" where \<comment> \<open>after the opening quote\<close>
  "json_chars [] = None"
| "json_chars (c # s) =
     (if c = CHR 0x22 then Some ([], s)
      else if c = CHR 0x5C then
        (case s of
           [] \<Rightarrow> None
         | e # t \<Rightarrow>
             if e = CHR ''u'' then
               (case t of
                  a # b # x # y # r \<Rightarrow>
                    if list_all hex_char [a, b, x, y]
                    then first_of (Cons (unit_char (hex_num [a, b, x, y]))) (json_chars r) else None
                | _ \<Rightarrow> None)
             else (case json_unescape e of
                     None \<Rightarrow> None
                   | Some d \<Rightarrow> first_of (Cons d) (json_chars t)))
      else if char_code c < 32 then None
      else first_of (Cons c) (json_chars s))"

definition json_frac :: "string \<Rightarrow> string option" where \<comment> \<open>the rest after an optional fraction\<close>
  "json_frac s =
     (case s of
        c # t \<Rightarrow> if c = CHR ''.'' then (if takeWhile digit t = [] then None else Some (dropWhile digit t))
                 else Some s
      | [] \<Rightarrow> Some s)"

definition json_exp :: "string \<Rightarrow> string option" where \<comment> \<open>and after an optional exponent\<close>
  "json_exp s =
     (case s of
        c # t \<Rightarrow>
          if c = CHR ''e'' \<or> c = CHR ''E'' then
            (let u = (case t of d # v \<Rightarrow> if d = CHR ''+'' \<or> d = CHR ''-'' then v else t | [] \<Rightarrow> t)
             in if takeWhile digit u = [] then None else Some (dropWhile digit u))
          else Some s
      | [] \<Rightarrow> Some s)"

definition json_unsigned :: "string \<Rightarrow> (jnum \<times> string) option" where
  "json_unsigned s =
     (let ip = takeWhile digit s in
      if ip = [] \<or> (hd ip = CHR ''0'' \<and> tl ip \<noteq> []) then None
      else case json_frac (dropWhile digit s) of
        None \<Rightarrow> None
      | Some t \<Rightarrow>
          (case json_exp t of
             None \<Rightarrow> None
           | Some r \<Rightarrow> Some (unsigned_literal (take (length s - length r) s), r)))"

definition json_number :: "string \<Rightarrow> (jnum \<times> string) option" where
  "json_number s =
     (case s of
        c # t \<Rightarrow> if c = CHR ''-'' then first_of neg_num (json_unsigned t) else json_unsigned s
      | [] \<Rightarrow> None)"

definition json_word :: "string \<Rightarrow> (jval \<times> string) option" where \<comment> \<open>a literal name or a number\<close>
  "json_word s =
     (if startsWith s ''null'' then Some (JNull, drop 4 s)
      else if startsWith s ''true'' then Some (JBool True, drop 4 s)
      else if startsWith s ''false'' then Some (JBool False, drop 5 s)
      else first_of JNum (json_number s))"

definition obj_of :: "(string \<times> jval) list \<Rightarrow> jval" where \<comment> \<open>a repeated key keeps its last value\<close>
  "obj_of kvs = JObj (foldl (\<lambda>ob (k, v). obj_put k v ob) [] kvs)"

fun json_val :: "nat \<Rightarrow> string \<Rightarrow> (jval \<times> string) option"
  and json_elems :: "nat \<Rightarrow> string \<Rightarrow> (jval list \<times> string) option"
  and json_members :: "nat \<Rightarrow> string \<Rightarrow> ((string \<times> jval) list \<times> string) option" where
  "json_val 0 s = None"
| "json_val (Suc f) s =
     (case skip s of
        [] \<Rightarrow> None
      | c # t \<Rightarrow>
          if c = CHR 0x22 then first_of JStr (json_chars t)
          else if c = CHR ''['' then
            (case skip t of
               [] \<Rightarrow> None
             | d # u \<Rightarrow> if d = CHR '']'' then Some (JArr [], u) else first_of JArr (json_elems f (d # u)))
          else if c = CHR ''{'' then
            (case skip t of
               [] \<Rightarrow> None
             | d # u \<Rightarrow> if d = CHR ''}'' then Some (JObj [], u) else first_of obj_of (json_members f (d # u)))
          else json_word (c # t))"
| "json_elems 0 s = None"
| "json_elems (Suc f) s =
     (case json_val f s of
        None \<Rightarrow> None
      | Some (v, r) \<Rightarrow>
          (case skip r of
             [] \<Rightarrow> None
           | d # u \<Rightarrow>
               if d = CHR '','' then first_of (Cons v) (json_elems f u)
               else if d = CHR '']'' then Some ([v], u) else None))"
| "json_members 0 s = None"
| "json_members (Suc f) s =
     (case skip s of
        [] \<Rightarrow> None
      | q # t \<Rightarrow>
          if q \<noteq> CHR 0x22 then None
          else case json_chars t of
            None \<Rightarrow> None
          | Some (k, r) \<Rightarrow>
              (case skip r of
                 [] \<Rightarrow> None
               | d # u \<Rightarrow>
                   if d \<noteq> CHR '':'' then None
                   else case json_val f u of
                     None \<Rightarrow> None
                   | Some (v, r2) \<Rightarrow>
                       (case skip r2 of
                          [] \<Rightarrow> None
                        | x # w \<Rightarrow>
                            if x = CHR '','' then first_of (Cons (k, v)) (json_members f w)
                            else if x = CHR ''}'' then Some ([(k, v)], w) else None)))"

definition json_fuel :: "string \<Rightarrow> nat" where
  "json_fuel s = 2 * length s + 1"

definition json_parse :: "string \<Rightarrow> jval option" where
  "json_parse s =
     (case json_val (json_fuel s) s of
        Some (v, r) \<Rightarrow> if skip r = [] then Some v else None
      | None \<Rightarrow> None)"

section \<open>The fuel is enough\<close>

lemma skip_le: "length (skip s) \<le> length s"
  by (simp add: skip_def length_dropWhile_le)

lemma skip_Cons_less: "skip s = c # t \<Longrightarrow> length t < length s"
  using skip_le [of s] by simp

lemma first_of_Some_iff [simp]:
  "first_of f z = Some (y, r) \<longleftrightarrow> (\<exists>x. z = Some (x, r) \<and> y = f x)"
  by (cases z) (auto simp: first_of_def)

lemma first_of_None_iff [simp]: "first_of f z = None \<longleftrightarrow> z = None"
  by (simp add: first_of_def)

lemma first_of_simps [simp]: "first_of f None = None" "first_of f (Some (x, r)) = Some (f x, r)"
  by (simp_all add: first_of_def)

lemma json_chars_less: "json_chars s = Some (x, r) \<Longrightarrow> length r < length s"
  by (induction s arbitrary: x rule: json_chars.induct)
    (fastforce split: if_splits list.splits option.splits)+

lemma json_frac_le: "json_frac s = Some r \<Longrightarrow> length r \<le> length s"
  by (auto simp: json_frac_def le_SucI length_dropWhile_le split: list.splits if_splits)

lemma json_exp_le: "json_exp s = Some r \<Longrightarrow> length r \<le> length s"
  by (auto simp: json_exp_def Let_def le_SucI length_dropWhile_le split: list.splits if_splits)

lemma dropWhile_less: "takeWhile P s \<noteq> [] \<Longrightarrow> length (dropWhile P s) < length s"
  by (cases s) (auto simp: less_Suc_eq_le length_dropWhile_le split: if_splits)

lemma json_unsigned_less: "json_unsigned s = Some (n, r) \<Longrightarrow> length r < length s"
  using dropWhile_less [of digit s] json_frac_le [of "dropWhile digit s"] json_exp_le
  by (fastforce simp: json_unsigned_def Let_def split: if_splits option.splits)

lemma json_word_less: "json_word s = Some (v, r) \<Longrightarrow> length r < length s"
proof -
  have "startsWith s p \<Longrightarrow> p \<noteq> [] \<Longrightarrow> s \<noteq> []" for p by (auto simp: startsWith_def)
  then show "json_word s = Some (v, r) \<Longrightarrow> length r < length s"
    by (auto simp: json_word_def json_number_def dest!: json_unsigned_less
        split: if_splits list.splits)
qed

lemma json_less:
  "json_val f s = Some (v, r) \<Longrightarrow> length r < length s"
  "json_elems f s = Some (vs, r) \<Longrightarrow> length r < length s"
  "json_members f s = Some (kvs, r) \<Longrightarrow> length r < length s"
  by (induction f s and f s and f s arbitrary: v r and vs r and kvs r
      rule: json_val_json_elems_json_members.induct)
    (fastforce split: list.splits option.splits prod.splits if_splits
      dest!: skip_Cons_less json_chars_less json_word_less)+

text \<open>One more unit changes nothing once the fuel is twice the length.\<close>

lemma json_fuel_Suc:
  "json_fuel s \<le> f \<Longrightarrow> json_val (Suc f) s = json_val f s"
  "json_fuel s < f \<Longrightarrow> json_elems (Suc f) s = json_elems f s"
  "json_fuel s < f \<Longrightarrow> json_members (Suc f) s = json_members f s"
proof (induction f arbitrary: s)
  case 0
  { case 1 then show ?case by (simp add: json_fuel_def)
  next case 2 then show ?case by simp
  next case 3 then show ?case by simp }
next
  case (Suc f)
  { case 1
    have fu: "json_fuel (d # u) < f" if "skip s = c # t" "skip t = d # u" for c t d u
      using 1 that skip_le [of s] skip_le [of t] by (simp add: json_fuel_def)
    show ?case
      unfolding json_val.simps(2) [of "Suc f" s] json_val.simps(2) [of f s]
      using Suc(2,3) [OF fu] by (auto split: list.split)
  next case 2
    have *: "json_val (Suc f) s = json_val f s" using Suc(1) [of s] 2 by simp
    have fu: "json_fuel u < f" if "json_val f s = Some (v, r)" "skip r = d # u" for v r d u
      using json_less(1) [OF that(1)] 2 skip_Cons_less [OF that(2)] by (simp add: json_fuel_def)
    show ?case
      unfolding json_elems.simps(2) [of "Suc f" s] json_elems.simps(2) [of f s] *
      using Suc(2) [OF fu] by (auto split: list.split option.split)
  next case 3
    have fv: "json_fuel u \<le> f" if "skip s = q # t" "json_chars t = Some (k, r)" "skip r = d # u" for q t k r d u
      using json_chars_less [OF that(2)] 3 skip_Cons_less [OF that(1)] skip_Cons_less [OF that(3)]
      by (simp add: json_fuel_def)
    have fm: "json_fuel w < f" if "skip s = q # t" "json_chars t = Some (k, r)" "skip r = d # u"
        "json_val f u = Some (v, r2)" "skip r2 = x # w" for q t k r d u v r2 x w
      using json_chars_less [OF that(2)] 3 skip_Cons_less [OF that(1)] skip_Cons_less [OF that(3)]
        json_less(1) [OF that(4)] skip_Cons_less [OF that(5)]
      by (simp add: json_fuel_def)
    show ?case
      unfolding json_members.simps(2) [of "Suc f" s] json_members.simps(2) [of f s]
      using Suc(1) [OF fv] Suc(3) [OF fm] by (auto split: list.split option.split)
  }
qed

lemma json_fuel_enough: "json_fuel s \<le> f \<Longrightarrow> json_val f s = json_val (json_fuel s) s"
  by (induction f rule: dec_induct) (simp_all add: json_fuel_Suc(1) del: json_val.simps)

lemma json_elems_enough: "json_fuel s < f \<Longrightarrow> json_elems f s = json_elems (Suc (json_fuel s)) s"
  unfolding Suc_le_eq [symmetric] by (induction f rule: dec_induct) (simp_all add: json_fuel_Suc(2) Suc_le_eq del: json_elems.simps json_members.simps)

lemma json_members_enough: "json_fuel s < f \<Longrightarrow> json_members f s = json_members (Suc (json_fuel s)) s"
  unfolding Suc_le_eq [symmetric] by (induction f rule: dec_induct) (simp_all add: json_fuel_Suc(3) Suc_le_eq del: json_elems.simps json_members.simps)

section \<open>The round trip\<close>

fun plain :: "jval \<Rightarrow> bool" where
  "plain JNull = True"
| "plain (JBool b) = True"
| "plain (JNum n) = isSafeInteger n"
| "plain (JStr s) = True"
| "plain (JArr vs) = list_all plain vs"
| "plain (JObj kvs) = (distinct (map fst kvs) \<and> list_all (\<lambda>kv. \<not> index_key (fst kv)) kvs \<and>
     list_all (\<lambda>kv. plain (snd kv)) kvs)"
| "plain _ = False"

definition ends :: "string \<Rightarrow> bool" where \<comment> \<open>what can follow a value inside a text\<close>
  "ends r \<longleftrightarrow> r = [] \<or> hd r = CHR '','' \<or> hd r = CHR '']'' \<or> hd r = CHR ''}''"

lemma ends_simps [simp]: "ends []" "ends (CHR '','' # r)" "ends (CHR '']'' # r)" "ends (CHR ''}'' # r)"
  by (simp_all add: ends_def)

lemma skip_simps [simp]: "skip [] = []" "skip (c # s) = (if json_ws c then skip s else c # s)"
  by (simp_all add: skip_def)

lemma json_ws_punct [simp]:
  "\<not> json_ws (CHR 0x22)" "\<not> json_ws (CHR '','')" "\<not> json_ws (CHR '':'')" "\<not> json_ws (CHR ''['')"
  "\<not> json_ws (CHR '']'')" "\<not> json_ws (CHR ''{'')" "\<not> json_ws (CHR ''}'')" "\<not> json_ws (CHR ''n'')"
  "\<not> json_ws (CHR ''t'')" "\<not> json_ws (CHR ''f'')" "\<not> json_ws (CHR ''-'')"
  by (simp_all add: json_ws_def char_code_def)

lemma digit_not_json_ws: "digit c \<Longrightarrow> \<not> json_ws c"
  by (auto simp: json_ws_def digit_def)

lemma control_unit:
  assumes "char_code c < 32"
  shows "hex_char (dig (char_code c div 16)) \<and> hex_char (dig (char_code c mod 16)) \<and>
    unit_char (hex_num [CHR ''0'', CHR ''0'', dig (char_code c div 16), dig (char_code c mod 16)]) = c"
proof -
  let ?n = "char_code c"
  have n: "0 \<le> ?n" by (simp add: char_code_def of_char_def horner_sum_nonnegative)
  with assms have d: "0 \<le> ?n div 16" "?n div 16 < 16" "0 \<le> ?n mod 16" "?n mod 16 < 16" by auto
  have "hex_val (CHR ''0'') = 0" by code_simp
  then have "hex_num [CHR ''0'', CHR ''0'', dig (?n div 16), dig (?n mod 16)] = ?n"
    using hex_dig [OF d(1,2)] hex_dig [OF d(3,4)] by (simp add: hex_num_def)
  moreover have "char_of ?n = c" by (simp add: char_code_def)
  ultimately show ?thesis
    using assms hex_dig [OF d(1,2)] hex_dig [OF d(3,4)] by (simp add: unit_char_def)
qed

lemma json_chars_escape: "json_chars (json_escape c @ s) = first_of (Cons c) (json_chars s)"
proof (cases "char_code c < 32")
  case True
  have z: "hex_char (CHR ''0'')" by code_simp
  show ?thesis using control_unit [OF True] True z
    by (simp add: json_escape_def json_unescape_def)
next
  case False
  then show ?thesis by (auto simp: json_escape_def json_unescape_def char_code_def)
qed

lemma json_chars_text: "json_chars (concat (map json_escape s) @ CHR 0x22 # r) = Some (s, r)"
  by (induction s) (simp_all add: json_chars_escape)

lemma dec_leading: "0 \<le> n \<Longrightarrow> hd (dec n) = CHR ''0'' \<Longrightarrow> tl (dec n) = []"
proof (induction n rule: digits_induct)
  case (small n)
  then show ?case by (simp add: dec_small)
next
  case (step n)
  then have "hd (dec (n div 10)) = CHR ''0''" by (simp add: dec_step)
  with step have "tl (dec (n div 10)) = []" by simp
  then obtain c where "dec (n div 10) = [c]"
    by (metis dec_not_Nil list.collapse)
  with \<open>hd (dec (n div 10)) = CHR ''0''\<close> have "dec (n div 10) = ''0''" by simp
  moreover have "dec_num ''0'' = 0" by code_simp
  moreover have "dec_num (dec (n div 10)) = n div 10" using step by simp
  ultimately have "n div 10 = 0" by simp
  with step show ?case by simp
qed

lemma json_unsigned_dec:
  assumes "0 \<le> n" "n < 2 ^ 53" "ends r"
  shows "json_unsigned (dec n @ r) = Some (num n, r)"
proof -
  have d: "\<forall>c\<in>set (dec n). digit c"
    using all_digits_dec [OF assms(1)] by (simp add: all_digits_def list_all_iff)
  have r: "r = [] \<or> \<not> digit (hd r)" using assms(3) by (auto simp: ends_def digit_def char_code_def)
  have tw: "takeWhile digit (dec n @ r) = dec n" "dropWhile digit (dec n @ r) = r"
    using takeWhile_hd_stop [of r digit] dropWhile_hd_stop [of r digit] d r
    by (auto simp: takeWhile_append dropWhile_append)
  have rest: "json_frac r = Some r" "json_exp r = Some r"
    using assms(3) by (auto simp: json_frac_def json_exp_def ends_def split: list.splits)
  have "unsigned_literal (dec n) = num n"
    using assms to_double_of_int [of n] by (simp add: unsigned_literal_digits)
  moreover have "hd (dec n) = CHR ''0'' \<longrightarrow> tl (dec n) = []" using dec_leading assms(1) by blast
  ultimately show ?thesis using rest by (simp add: json_unsigned_def Let_def tw)
qed

lemma json_word_int:
  assumes "\<bar>n\<bar> < 2 ^ 53" "ends r"
  shows "json_word (int_str n @ r) = Some (JNum (num n), r)"
    and "\<exists>c t. int_str n = c # t \<and> (digit c \<or> c = CHR ''-'')"
proof -
  have h: "\<exists>c t. dec m = c # t \<and> digit c" if "0 \<le> m" for m
    using all_digits_dec [OF that] by (cases "dec m") (simp_all add: all_digits_def)
  show c: "\<exists>c t. int_str n = c # t \<and> (digit c \<or> c = CHR ''-'')"
  proof (cases "n < 0")
    case True
    then show ?thesis by (simp add: int_str_def)
  next
    case False
    then have "0 \<le> n" by simp
    from h [OF this] False show ?thesis by (auto simp: int_str_def)
  qed
  then obtain c t where ct: "int_str n = c # t" "digit c \<or> c = CHR ''-''" by blast
  then have w: "c \<noteq> CHR ''n''" "c \<noteq> CHR ''t''" "c \<noteq> CHR ''f''"
    by (auto simp: digit_def char_code_def)
  have "json_number (int_str n @ r) = Some (num n, r)"
  proof (cases "n < 0")
    case True
    then show ?thesis
      using assms json_unsigned_dec [of "- n" r] by (simp add: json_number_def int_str_def)
  next
    case False
    then obtain d u where "dec n = d # u" "digit d" using h [of n] by auto
    then show ?thesis
      using False assms json_unsigned_dec [of n r] digit_not_minus [of d]
      by (simp add: json_number_def int_str_def)
  qed
  then show "json_word (int_str n @ r) = Some (JNum (num n), r)"
    using w by (simp add: json_word_def startsWith_def ct(1))
qed

text \<open>The text of a plain value, and how it starts.\<close>

definition opens :: "string \<Rightarrow> bool" where
  "opens t \<longleftrightarrow> (\<exists>c u. t = c # u \<and> \<not> json_ws c \<and> c \<noteq> CHR '']'' \<and> c \<noteq> CHR ''}'')"

lemma stringify_plain: "plain v \<Longrightarrow> \<exists>t. json_stringify v = Inr (Some t) \<and> opens t"
proof (induction v)
  case (JNum n)
  then obtain m where m: "n = num m" "\<bar>m\<bar> < 2 ^ 53" by (auto simp: isSafeInteger_iff)
  from json_word_int(2) [OF m(2) ends_simps(1)] m show ?case
    by (auto simp: opens_def digit_not_json_ws digit_def char_code_def)
next
  case (JArr vs)
  then have "\<forall>v\<in>set vs. \<exists>t. json_stringify v = Inr (Some t)" by (auto simp: list_all_iff)
  then obtain g where "\<forall>v\<in>set vs. json_stringify v = Inr (Some (g v))" by metis
  then have "mapR json_stringify vs = Inr (map (\<lambda>v. Some (g v)) vs)"
    by (intro mapR_total) simp
  then show ?case by (simp add: opens_def)
next
  case (JObj kvs)
  have "\<exists>t. json_stringify (snd kv) = Inr (Some t)" if "kv \<in> set kvs" for kv
  proof -
    from that JObj.prems have "plain (snd kv)" by (auto simp: list_all_iff)
    with JObj.IH [OF that, of "snd kv"] show ?thesis by (cases kv) auto
  qed
  then obtain g where "\<forall>kv\<in>set kvs. json_stringify (snd kv) = Inr (Some (g kv))" by metis
  then have "mapR (\<lambda>kv. bindR (json_stringify (snd kv)) (\<lambda>t. Inr (fst kv, t))) kvs =
      Inr (map (\<lambda>kv. (fst kv, Some (g kv))) kvs)"
    by (intro mapR_total) simp
  then show ?case by (simp add: opens_def)
qed (simp_all add: opens_def json_text_def)

definition reads :: "jval \<Rightarrow> bool" where \<comment> \<open>the text of \<open>v\<close> reads back as \<open>v\<close> inside any text\<close>
  "reads v \<longleftrightarrow> (\<forall>t r f. json_stringify v = Inr (Some t) \<longrightarrow> ends r \<longrightarrow> json_fuel (t @ r) \<le> f \<longrightarrow>
     json_val f (t @ r) = Some (v, r))"

lemma readsI:
  assumes "\<And>t r f. json_stringify v = Inr (Some t) \<Longrightarrow> ends r \<Longrightarrow> 2 * length (t @ r) \<le> f \<Longrightarrow>
     json_val (Suc f) (t @ r) = Some (v, r)"
  shows "reads v"
  unfolding reads_def
proof (intro allI impI)
  fix t r f
  assume "json_stringify v = Inr (Some t)" "ends r" "json_fuel (t @ r) \<le> f"
  then show "json_val f (t @ r) = Some (v, r)"
    using assms [of t r "f - 1"] by (simp add: json_fuel_def del: json_val.simps)
qed

lemma reads_elems:
  "list_all2 (\<lambda>v t. reads v \<and> json_stringify v = Inr (Some t) \<and> opens t) vs ts \<Longrightarrow> vs \<noteq> [] \<Longrightarrow>
   json_fuel (join '','' ts @ CHR '']'' # r) < f \<Longrightarrow>
   json_elems f (join '','' ts @ CHR '']'' # r) = Some (vs, r)"
proof (induction vs arbitrary: ts f)
  case (Cons v vs)
  from Cons.prems(1) obtain t us where ts: "ts = t # us" and v: "reads v" "json_stringify v = Inr (Some t)"
    and rest: "list_all2 (\<lambda>v t. reads v \<and> json_stringify v = Inr (Some t) \<and> opens t) vs us"
    by (auto simp: list_all2_Cons1)
  from Cons.prems(3) obtain g where f: "f = Suc g" by (cases f) auto
  show ?case
  proof (cases vs)
    case Nil
    with rest ts have "join '','' ts = t" by simp
    moreover have "json_val g (t @ CHR '']'' # r) = Some (v, CHR '']'' # r)"
      using v Cons.prems(3) ts f Nil rest by (simp add: reads_def json_fuel_def)
    ultimately show ?thesis using Nil by (simp add: f)
  next
    case (Cons w ws)
    with rest have j: "join '','' ts = t @ CHR '','' # join '','' us"
      unfolding ts by (cases us) auto
    have "json_val g (t @ CHR '','' # join '','' us @ CHR '']'' # r)
        = Some (v, CHR '','' # join '','' us @ CHR '']'' # r)"
      using v Cons.prems(3) j f by (simp add: reads_def json_fuel_def)
    moreover have "json_elems g (join '','' us @ CHR '']'' # r) = Some (vs, r)"
      by (rule Cons.IH [OF rest]) (use Cons.prems(3) j f Cons in \<open>auto simp: json_fuel_def\<close>)
    ultimately show ?thesis by (simp add: f j)
  qed
qed simp

lemma reads_members:
  "list_all2 (\<lambda>kv t. reads (snd kv) \<and> json_stringify (snd kv) = Inr (Some t) \<and> opens t) kvs ts \<Longrightarrow>
   kvs \<noteq> [] \<Longrightarrow> js = join '','' (map2 (\<lambda>kv t. json_text (fst kv) @ '':'' @ t) kvs ts) \<Longrightarrow>
   json_fuel (js @ CHR ''}'' # r) < f \<Longrightarrow> json_members f (js @ CHR ''}'' # r) = Some (kvs, r)"
proof (induction kvs arbitrary: ts f js)
  case (Cons kv kvs)
  obtain k v where kv: "kv = (k, v)" by (cases kv)
  from Cons.prems(1) kv obtain t us where ts: "ts = t # us"
    and v: "reads v" "json_stringify v = Inr (Some t)"
    and rest: "list_all2 (\<lambda>kv t. reads (snd kv) \<and> json_stringify (snd kv) = Inr (Some t) \<and> opens t) kvs us"
    by (auto simp: list_all2_Cons1)
  from Cons.prems(4) obtain g where f: "f = Suc g" by (cases f) auto
  let ?js = "join '','' (map2 (\<lambda>kv t. json_text (fst kv) @ '':'' @ t) kvs us)"
  have chars: "json_chars (concat (map json_escape k) @ CHR 0x22 # z) = Some (k, z)" for z
    by (rule json_chars_text)
  show ?case
  proof (cases kvs)
    case Nil
    with rest ts kv Cons.prems(3) have j: "js = json_text k @ '':'' @ t" by simp
    moreover have "json_val g (t @ CHR ''}'' # r) = Some (v, CHR ''}'' # r)"
      using v Cons.prems(4) f unfolding j by (simp add: reads_def json_fuel_def)
    ultimately show ?thesis using Nil kv by (simp add: f json_text_def chars)
  next
    case (Cons w ws)
    with rest obtain u us' where us: "us = u # us'" by (auto simp: list_all2_Cons1)
    with Cons ts kv Cons.prems(3) have j: "js = json_text k @ '':'' @ t @ CHR '','' # ?js" by simp
    have "json_val g (t @ CHR '','' # ?js @ CHR ''}'' # r) = Some (v, CHR '','' # ?js @ CHR ''}'' # r)"
      using v Cons.prems(4) f unfolding j by (simp add: reads_def json_fuel_def)
    moreover have "json_members g (?js @ CHR ''}'' # r) = Some (kvs, r)"
      by (rule Cons.IH [OF rest _ refl])
        (use Cons.prems(4) f Cons in \<open>auto simp: j json_fuel_def\<close>)
    ultimately show ?thesis using kv by (simp add: f j json_text_def chars)
  qed
qed simp

lemma obj_insert_new: "\<not> index_key k \<Longrightarrow> obj_insert k v ps = ps @ [(k, v)]"
  by (induction ps) auto

lemma obj_of_id:
  assumes "distinct (map fst kvs)" "list_all (\<lambda>kv. \<not> index_key (fst kv)) kvs"
  shows "obj_of kvs = JObj kvs"
proof -
  have "foldl (\<lambda>ob (k, v). obj_put k v ob) [] kvs = kvs"
    using assms
  proof (induction kvs rule: rev_induct)
    case (snoc kv kvs)
    then show ?case by (cases kv) (auto simp: obj_put_def obj_insert_new)
  qed simp
  then show ?thesis by (simp add: obj_of_def)
qed

lemma join_opens: "list_all2 (\<lambda>v t. P v t \<and> opens t) vs ts \<Longrightarrow> vs \<noteq> [] \<Longrightarrow>
   \<exists>c u. join '','' ts @ r = c # u \<and> \<not> json_ws c \<and> c \<noteq> CHR '']''"
proof (cases ts)
  case (Cons t us)
  moreover assume "list_all2 (\<lambda>v t. P v t \<and> opens t) vs ts" "vs \<noteq> []"
  ultimately have "opens t" by (cases vs) auto
  then show ?thesis unfolding Cons by (cases us) (auto simp: opens_def)
qed auto

lemma plain_reads: "plain v \<Longrightarrow> reads v"
proof (induction v)
  case JNull
  show ?case by (rule readsI) (auto simp: json_word_def startsWith_def)
next
  case (JBool b)
  show ?case by (rule readsI) (auto simp: json_word_def startsWith_def)
next
  case (JStr s)
  show ?case by (rule readsI) (auto simp: json_text_def json_chars_text)
next
  case (JNum n)
  then obtain m where m: "n = num m" "\<bar>m\<bar> < 2 ^ 53" by (auto simp: isSafeInteger_iff)
  show ?case
  proof (rule readsI)
    fix t r f
    assume t: "json_stringify (JNum n) = Inr (Some t)" and r: "ends r"
    from json_word_int(2) [OF m(2) r] obtain c u
      where cu: "int_str m = c # u" "digit c \<or> c = CHR ''-''" by blast
    then have "\<not> json_ws c" "c \<noteq> CHR 0x22" "c \<noteq> CHR ''[''" "c \<noteq> CHR ''{''"
      by (auto simp: digit_not_json_ws) (auto simp: digit_def char_code_def)
    moreover from t m cu(1) have "t = c # u" by (simp del: num_str.simps)
    ultimately show "json_val (Suc f) (t @ r) = Some (JNum n, r)"
      using m cu(1) json_word_int(1) [OF m(2) r] by simp
  qed
next
  case (JArr vs)
  from JArr.prems have p: "\<forall>v\<in>set vs. plain v" by (simp add: list_all_iff)
  then obtain g where g: "\<forall>v\<in>set vs. json_stringify v = Inr (Some (g v)) \<and> opens (g v)"
    using stringify_plain by metis
  then have st: "mapR json_stringify vs = Inr (map (\<lambda>v. Some (g v)) vs)"
    by (intro mapR_total) simp
  have all: "list_all2 (\<lambda>v t. (reads v \<and> json_stringify v = Inr (Some t)) \<and> opens t) vs (map g vs)"
    using JArr.IH p g by (auto simp: list_all2_conv_all_nth)
  show ?case
  proof (rule readsI)
    fix t r f
    assume t: "json_stringify (JArr vs) = Inr (Some t)" and f: "2 * length (t @ r) \<le> f"
    have tx: "t = ''['' @ join '','' (map g vs) @ '']''" using t st by (simp add: comp_def)
    show "json_val (Suc f) (t @ r) = Some (JArr vs, r)"
    proof (cases "vs = []")
      case False
      from join_opens [OF all False] obtain c u
        where cu: "join '','' (map g vs) @ CHR '']'' # r = c # u" "\<not> json_ws c" "c \<noteq> CHR '']''"
        by blast
      have "json_elems f (join '','' (map g vs) @ CHR '']'' # r) = Some (vs, r)"
        by (rule reads_elems) (use all False f tx in \<open>auto simp: json_fuel_def\<close>)
      with cu show ?thesis by (simp add: tx)
    qed (simp add: tx)
  qed
next
  case (JObj kvs)
  from JObj.prems have p: "\<forall>kv\<in>set kvs. plain (snd kv)" by (simp add: list_all_iff)
  then have "\<forall>kv\<in>set kvs. \<exists>t. json_stringify (snd kv) = Inr (Some t) \<and> opens t"
    using stringify_plain by blast
  from bchoice [OF this] obtain g
    where g: "\<forall>kv\<in>set kvs. json_stringify (snd kv) = Inr (Some (g kv)) \<and> opens (g kv)" by blast
  then have st: "mapR (\<lambda>kv. bindR (json_stringify (snd kv)) (\<lambda>t. Inr (fst kv, t))) kvs =
      Inr (map (\<lambda>kv. (fst kv, Some (g kv))) kvs)"
    by (intro mapR_total) simp
  have IH: "reads (snd kv)" if "kv \<in> set kvs" for kv
    using JObj.IH [OF that, of "snd kv"] p that by (cases kv) auto
  have all: "list_all2 (\<lambda>kv t. reads (snd kv) \<and> json_stringify (snd kv) = Inr (Some t) \<and> opens t)
      kvs (map g kvs)"
    using IH g by (auto simp: list_all2_conv_all_nth)
  let ?js = "join '','' (map2 (\<lambda>kv t. json_text (fst kv) @ '':'' @ t) kvs (map g kvs))"
  have m2: "map2 (\<lambda>kv t. json_text (fst kv) @ '':'' @ t) kvs (map g kvs) =
      map (\<lambda>kv. json_text (fst kv) @ '':'' @ g kv) kvs"
    by (simp add: zip_map2 zip_same_conv_map)
  show ?case
  proof (rule readsI)
    fix t r f
    assume t: "json_stringify (JObj kvs) = Inr (Some t)" and f: "2 * length (t @ r) \<le> f"
    have "concat (map ((\<lambda>(k, t). case t of None \<Rightarrow> [] | Some x \<Rightarrow> [json_text k @ '':'' @ x]) \<circ>
        (\<lambda>kv. (fst kv, Some (g kv)))) kvs) = map (\<lambda>kv. json_text (fst kv) @ '':'' @ g kv) kvs"
      by (induction kvs) auto
    then have tx: "t = ''{'' @ ?js @ ''}''" unfolding m2 using t st by (simp add: comp_def)
    show "json_val (Suc f) (t @ r) = Some (JObj kvs, r)"
    proof (cases kvs)
      case Nil
      then show ?thesis by (simp add: tx)
    next
      case (Cons kv ks)
      obtain u where u: "?js @ CHR ''}'' # r = CHR 0x22 # u"
        unfolding m2 Cons by (cases ks) (auto simp: json_text_def)
      have "json_members f (?js @ CHR ''}'' # r) = Some (kvs, r)"
        by (rule reads_members [OF all _ refl]) (use Cons f tx in \<open>auto simp: json_fuel_def\<close>)
      with u JObj.prems show ?thesis by (simp add: tx obj_of_id)
    qed
  qed
qed simp_all

lemma json_roundtrip: "plain v \<Longrightarrow> json_stringify v = Inr (Some t) \<Longrightarrow> json_parse t = Some v"
  using plain_reads [of v] by (auto simp: reads_def json_parse_def dest!: spec [of _ t] spec [of _ "[]"])

end
