(* ===== verification/Play_Console.thy ===== *)
theory Play_Console
  imports Js_Json Play_Card
begin

text \<open>
  The activity log and the toasts (\<open>web/src/console.jsx\<close>), with
  \<open>JSON.stringify\<close> as the log uses it: two blanks of indentation, big integers as text.
\<close>

section \<open>JSON\<close>

definition fmtJSON :: "jval \<Rightarrow> string option" where
  "fmtJSON v = json_at 0 v"

definition json_shown :: "jval \<Rightarrow> string" where \<comment> \<open>as a child\<close>
  "json_shown v = (case fmtJSON v of None \<Rightarrow> [] | Some t \<Rightarrow> t)"

section \<open>The activity log\<close>

definition StatusDot :: \<open>string \<Rightarrow> 'e html\<close> where
  \<open>StatusDot status =
     El ''span'' [(''className'', Val (''con-dot con-'' @ status))] []\<close>

datatype entry_ev = EntryToggle | EntryLink \<comment> \<open>of the link, which only stops the propagation\<close>

definition entry_set :: "entry_ev \<Rightarrow> bool \<Rightarrow> bool" where \<comment> \<open>on \<open>open\<close>; the arguments of an entry are never missing\<close>
  "entry_set e opened = (case e of EntryToggle \<Rightarrow> \<not> opened | EntryLink \<Rightarrow> opened)"

definition ConsoleEntry :: \<open>'w host \<Rightarrow> log_entry \<Rightarrow> bool \<Rightarrow> entry_ev html\<close> where
  \<open>ConsoleEntry h e opened =
     El ''div'' [(''className'', Val (''con-entry'' @ (if opened then '' open'' else [])))]
       ([El ''button'' [(''className'', Val ''con-row''), (''onClick'', On EntryToggle)]
           ([StatusDot (l_status e),
             El ''span'' [(''className'', Val ''con-method mono'')] [Text (l_method e)]]
              @
              (if l_read e then [El ''span'' [(''className'', Val ''con-badge'')] [Text ''read'']] else
                 [])
              @
              [El ''span'' [(''className'', Val ''con-status'')]
                 [Text (if l_status e = ''pending'' then ''pending''
                          @ [CHR 0x85] else if l_status e = ''ok'' then ''success'' else or_text
                          (case l_error e of Some d \<Rightarrow> sd_title d | None \<Rightarrow> [])
                          ''error'')],
               El ''span'' [(''className'', Val ''con-spacer'')] []]
              @
              (if truthy (l_tx e) then
                 [El ''a'' [(''href'', Val (explorer ''tx'' (js_String (l_tx e)))),
                            (''target'', Val ''_blank''), (''rel'', Val ''noopener''),
                            (''className'', Val ''con-tx mono''), (''onClick'', On EntryLink)]
                    [Text (trunc 6 4 (js_String (l_tx e))),
                     Ic ''ext'' [(''style'', Sty [(''width'', ''11''), (''height'', ''11'')])]]] else
                 [])
              @ [El ''span'' [(''className'', Val ''con-time mono'')] [Text (h_clock h (l_at e))]]
              @
              (if True then
                 [Ic ''chevron'' [(''className'', Val ''con-chev''),
                                  (''style'', Sty [(''width'', ''14''), (''height'', ''14'')])]] else
                 []))]
          @
          (if (opened \<and> True) then
             [El ''div'' [(''className'', Val ''con-detail'')]
                ((if True then
                    [El ''div'' [(''className'', Val ''con-json'')]
                       [El ''span'' [(''className'', Val ''con-jlabel'')] [Text ''args''],
                        El ''pre'' [(''className'', Val ''mono'')]
                          [Text (json_shown (JObj (l_args e)))]]] else [])
                   @
                   (if (l_status e = ''ok'' \<and> truthy (l_result e)) then
                      [El ''div'' [(''className'', Val ''con-json'')]
                         [El ''span'' [(''className'', Val ''con-jlabel'')] [Text ''result''],
                          El ''pre'' [(''className'', Val ''mono'')] [Text (json_shown (l_result e))]]]
                      else [])
                   @
                   (if (l_status e = ''err'' \<and> l_error e \<noteq> None) then
                      [El ''div'' [(''className'', Val ''con-json'')]
                         [El ''span'' [(''className'', Val ''con-jlabel''),
                                       (''style'', Sty [(''color'', ''var(--burned)'')])]
                            [Text ''error #'',
                             Text (code_text (sd_code (the (l_error e))))],
                          El ''pre'' [(''className'', Val ''mono''),
                                      (''style'', Sty [(''color'', ''#F0A89E'')])]
                            [Text (sd_title (the (l_error e))),
                             Text ('' '' @ [CHR 0x97] @ '' ''),
                             Text (sd_msg (the (l_error e)))]]] else []))] else []))\<close>

datatype console_ev = ConsoleToggle | ConsoleClear

definition console_set :: "console_ev \<Rightarrow> bool \<times> store \<Rightarrow> bool \<times> store" where
  "console_set e s = (case (e, s) of
     (ConsoleToggle, (opened, st)) \<Rightarrow> (\<not> opened, st) | (ConsoleClear, (opened, st)) \<Rightarrow> (opened, clearLog st))"

definition pending_calls :: "log_entry list \<Rightarrow> nat" where
  "pending_calls es = length (filter (\<lambda>e. l_status e = ''pending'') es)"

definition Console :: \<open>string \<Rightarrow> log_entry list \<Rightarrow> bool \<Rightarrow> console_ev html\<close> where
  \<open>Console placement es opened =
     (let pending = pending_calls es in El ''div'' [(''className'',
                                                     Val (''console console-''
                                                            @ placement
                                                            @ (if opened then '' open'' else [])))]
        ([El ''button'' [(''className'', Val ''con-head''), (''onClick'', On ConsoleToggle)]
            ([Ic ''terminal'' [(''style'', Sty [(''width'', ''16''), (''height'', ''16'')])],
              El ''span'' [(''className'', Val ''con-title'')] [Text ''Console''],
              El ''span'' [(''className'', Val ''con-count'')] [Text (nat_text (length es))]]
               @
               (if \<not> opened \<and> es \<noteq> [] then
                  [El ''span'' [(''className'', Val ''con-peek'')]
                     [StatusDot (l_status (hd es)),
                      El ''span'' [(''className'', Val ''mono'')] [Text (l_method (hd es))],
                      El ''span'' [(''className'', Val ''faint'')]
                        [Text (if l_status (hd es) = ''pending'' then ''pending''
                                 @ [CHR 0x85] else if l_status (hd es) = ''ok'' then ''ok'' else
                                 ''error'')]]] else [])
               @
               (if 0 < pending then
                  [El ''span'' [(''className'', Val ''con-live'')]
                     [El ''span'' [(''className'', Val ''con-dot con-pending'')] [],
                      Text (nat_text pending),
                      Text '' running'']] else [])
               @ [El ''span'' [(''className'', Val ''con-spacer'')] []]
               @
               (if (opened \<and> es \<noteq> []) then
                  [El ''span'' [(''className'', Val ''con-clear''), (''onClick'', On ConsoleClear)]
                     [Text ''Clear'']] else [])
               @
               [Ic ''chevron'' [(''className'', Val ''con-headchev''),
                                (''style'',
                                 Sty [(''width'', ''16''), (''height'', ''16''),
                                      (''transform'',
                                       (if opened then ''rotate(180deg)'' else ''none''))])]])]
           @
           (if opened then
              [El ''div'' [(''className'', Val ''con-list'')]
                 (if es = [] then
                    [El ''div'' [(''className'', Val ''con-empty'')]
                       [Ic ''terminal'' [(''style'',
                                          Sty [(''width'', ''22''), (''height'', ''22''),
                                               (''opacity'', ''.4'')])],
                        El ''span'' []
                          [Text (''No calls yet ''
                                   @ [CHR 0x97]
                                   @ '' connect Freighter and create your first campaign.'')]]] else
                    (concat (map (\<lambda>e.
                                    [El ''ConsoleEntry'' [(''entry'', Val (nat_text (l_id e)))] []])
                               es)))] else [])))\<close>

section \<open>Toasts\<close>

definition toast_icon :: "string \<Rightarrow> string" where
  "toast_icon kind = (case map_of [(''success'', ''ok''), (''error'', ''alert''), (''info'', ''info'')] kind of
     Some i \<Rightarrow> i | None \<Rightarrow> ''info'')"

definition Toasts :: \<open>toast list \<Rightarrow> nat html\<close> where \<comment> \<open>a click dismisses the toast with the number\<close>
  \<open>Toasts ts =
     El ''div'' [(''className'', Val ''toast-wrap'')]
       (concat (map (\<lambda>t.
                       [El ''div'' [(''className'', Val (''toast toast-'' @ to_kind t)),
                                    (''onClick'', On (to_id t))]
                          [Ic (toast_icon (to_kind t)) [(''className'', Val ''ic'')],
                           El ''div'' [(''style'', Sty [(''flex'', ''1'')])]
                             ([El ''div'' [(''className'', Val ''t-title'')] [Text (to_title t)]]
                                @
                                (if to_msg t \<noteq> [] then
                                   [El ''div'' [(''className'', Val ''t-msg'')] [Text (to_msg t)]] else
                                   []))]]) ts))\<close>

end
