(* ===== verification/Play_Page.thy ===== *)
theory Play_Page
  imports Play_Art Cards_A Cards_B Cards_C Cards_Tally Play_Console
begin

text \<open>
  The page around the cards: the bar with the wallet (\<open>web/src/topbar.jsx\<close>), the hero with its
  lifecycle diagram (\<open>web/src/hero.jsx\<close>), the closing sections of
  \<open>web/src/console.jsx\<close>, and the root that composes them (\<open>web/src/app.jsx\<close>).
\<close>

section \<open>The bar\<close>

definition Logo :: \<open>(string \<times> 'e attr) list \<Rightarrow> 'e html\<close> where
  \<open>Logo props =
     El ''svg'' ([(''viewBox'', Val ''0 0 32 32''), (''fill'', Val ''none'')] @ props)
       [El ''path'' [(''d'',
                      Val
                        ''M5 9.5A2.5 2.5 0 0 1 7.5 7h17A2.5 2.5 0 0 1 27 9.5v3a2.6 2.6 0 0 0 0 7v3a2.5 2.5 0 0 1-2.5 2.5h-17A2.5 2.5 0 0 1 5 22.5v-3a2.6 2.6 0 0 0 0-7z''),
                     (''fill'', Val ''var(--accent)''), (''stroke'', Val ''var(--ink)''),
                     (''strokeWidth'', Val ''1.6''), (''strokeLinejoin'', Val ''round'')] [],
        El ''path'' [(''d'', Val ''M16 10.5v11''), (''stroke'', Val ''var(--ink)''),
                     (''strokeWidth'', Val ''1.5''), (''strokeLinecap'', Val ''round''),
                     (''strokeDasharray'', Val ''1.4 2.6'')] [],
        El ''circle'' [(''cx'', Val ''11''), (''cy'', Val ''16''), (''r'', Val ''1.5''),
                       (''fill'', Val ''var(--ink)'')] []]\<close>

datatype bar_ev = BarConnect | BarMenu | BarOutside | BarDisconnect

fun bar_set :: "bar_ev \<Rightarrow> bool \<Rightarrow> bool" where \<comment> \<open>on \<open>menu\<close>; \<open>BarOutside\<close> is a press outside it\<close>
  "bar_set BarConnect menu = menu"
| "bar_set BarMenu menu = (\<not> menu)"
| "bar_set BarOutside menu = False"
| "bar_set BarDisconnect menu = False"

definition bar_run :: "'w host \<Rightarrow> bar_ev \<Rightarrow> ('w app, unit) io" where \<comment> \<open>the calls of the handlers\<close>
  "bar_run h e = (case e of BarConnect \<Rightarrow> connect h | BarDisconnect \<Rightarrow> disconnect | _ \<Rightarrow> returnIO ())"

definition TopBar :: \<open>store \<Rightarrow> bool \<Rightarrow> bar_ev html\<close> where
  \<open>TopBar st menu =
     El ''header'' [(''className'', Val ''topbar'')]
       [El ''div'' [(''className'', Val ''topbar-in'')]
          [El ''div'' [(''className'', Val ''brand'')]
             [El ''span'' [(''className'', Val ''mark'')]
                [Logo [(''className'', Val ''logo'')],
                 El ''span'' [(''className'', Val ''word'')] [Text ''Soroticket'']],
              El ''span'' [(''className'', Val ''sub'')] [Text ''Playground'']],
           El ''div'' [(''className'', Val ''tb-spacer'')] [],
           El ''div'' [(''className'', Val ''tb-right'')]
             ([El ''span'' [(''className'', Val ''net-pill tb-net'')]
                 [El ''span'' [(''className'', Val ''dot'')] [],
                  El ''span'' [(''className'', Val ''lbl'')] [Text (''Stellar'' @ [CHR 0xA0])],
                  Text ''Testnet''],
               El ''span'' [(''className'', Val ''tb-cid'')]
                 [El ''CopyValue'' [(''value'', Val net_contractId),
                                    (''display'', Val (trunc 4 3 net_contractId)),
                                    (''label'', Val ''Contract ID''),
                                    (''link'', Val (explorer ''contract'' net_contractId))] []]]
                @
                (if s_wallet st = None then
                   [Btn ''primary'' (s_connecting st) False True
                      [Ic ''wallet'' [(''style'', Sty [(''width'', ''15''), (''height'', ''15'')])]]
                      [(''onClick'', On BarConnect)]
                      [Text (if s_connecting st then ''Connecting'' else ''Connect Freighter'')]] else
                   [El ''div'' [(''className'', Val ''wallet-wrap''), (''ref'', Val ''wrap'')]
                      ([El ''button'' [(''className'', Val ''wallet-btn''), (''onClick'', On BarMenu)]
                          [El ''span'' [(''className'', Val ''av'')] [],
                           El ''span'' [(''className'', Val ''mono'')]
                             [Text (trunc 4 3 (wallet_text (s_wallet st)))],
                           Ic ''chevron'' [(''style'',
                                            Sty [(''width'', ''14''), (''height'', ''14''),
                                                 (''opacity'', ''.5''),
                                                 (''transform'',
                                                  (if menu then ''rotate(180deg)'' else ''none'')),
                                                 (''transition'', ''transform .18s'')])]]]
                         @
                         (if menu then
                            [El ''div'' [(''className'', Val ''wallet-menu'')]
                               [El ''div'' [(''className'', Val ''wm-head'')]
                                  [El ''div'' [(''className'', Val ''faint''),
                                               (''style'',
                                                Sty [(''fontSize'', ''11''), (''fontWeight'', ''600''),
                                                     (''letterSpacing'', ''.08em''),
                                                     (''textTransform'', ''uppercase''),
                                                     (''marginBottom'', ''8'')])]
                                     [Text ''Connected account''],
                                   El ''CopyValue'' [(''value'', Val (wallet_text (s_wallet st))),
                                                     (''display'',
                                                      Val (trunc 6 6 (wallet_text (s_wallet st)))),
                                                     (''label'', Val ''Address''),
                                                     (''link'',
                                                      Val (explorer ''account''
                                                             (wallet_text (s_wallet st))))] []],
                                El ''div'' [(''className'', Val ''divider'')] [],
                                El ''div'' [(''className'', Val ''wm-row'')]
                                  [El ''span'' [(''className'', Val ''muted'')] [Text ''XLM balance''],
                                   El ''span'' [(''className'', Val ''mono''),
                                                (''style'', Sty [(''fontWeight'', ''600'')])]
                                     [Text (wal_balance (the (s_wallet st))),
                                      Text '' XLM'']],
                                El ''div'' [(''className'', Val ''wm-row'')]
                                  [El ''span'' [(''className'', Val ''muted'')] [Text ''Network''],
                                   El ''span'' [(''style'', Sty [(''fontWeight'', ''600'')])]
                                     [Text ''Testnet'']],
                                El ''div'' [(''className'', Val ''divider'')] [],
                                El ''button'' [(''className'', Val ''wm-btn''),
                                               (''onClick'', On BarDisconnect)]
                                  [Ic ''x'' [(''style'',
                                              Sty [(''width'', ''15''), (''height'', ''15'')])],
                                   Text ''Disconnect'']]] else []))]))]]\<close>

section \<open>The hero\<close>

definition LC_STEPS :: "(string \<times> string \<times> string) list" where \<comment> \<open>title, text and icon\<close>
  "LC_STEPS =
     [(''Campaign'', ''Owner sets the terms'', ''spark''), (''Code'', ''Unique codes issued'', ''hash''),
      (''Redemption'', ''Burned, single-use'', ''fire''),
      (''Settlement'', ''Optional token payout '' @ [CHR 0xB7] @ '' v0.2'', ''globe'')]"

definition lit_tick :: "nat \<Rightarrow> nat" where \<comment> \<open>the timer of the diagram\<close>
  "lit_tick l = (l + 1) mod 4"

definition Lifecycle :: \<open>nat \<Rightarrow> nat html\<close> where \<comment> \<open>the events are the step pointed at\<close>
  \<open>Lifecycle lit =
     El ''div'' [(''className'', Val ''lifecycle'')]
       (concat (map (\<lambda> (n, t, d, i) .
                       [El ''div'' [(''className'',
                                     Val (''lc-step'' @ (if n = lit then '' lit'' else []))),
                                    (''onMouseEnter'', On n)]
                          ([El ''div'' [(''style'',
                                         Sty [(''display'', ''flex''),
                                              (''justifyContent'', ''space-between''),
                                              (''alignItems'', ''center'')])]
                              [El ''div'' [(''className'', Val ''lc-ic'')]
                                 [Ic i [(''style'', Sty [(''width'', ''18''), (''height'', ''18'')])]],
                               El ''span'' [(''className'', Val ''lc-num'')]
                                 [Text (padStart (nat_text (n + 1)) 2 (CHR ''0''))]],
                            El ''div'' []
                              [El ''div'' [(''className'', Val ''lc-t'')] [Text t],
                               El ''div'' [(''className'', Val ''lc-d'')] [Text d]]]
                             @
                             (if n < 3 then [Ic ''arrow'' [(''className'', Val ''lc-arrow'')]] else
                                []))]) (enumerate 0 LC_STEPS)))\<close>

datatype hero_ev = HeroConnect | HeroScroll string

definition Hero :: \<open>store \<Rightarrow> hero_ev html\<close> where
  \<open>Hero st =
     El ''section'' [(''className'', Val ''hero'')]
       [El ''div'' [(''className'', Val ''wrap'')]
          [El ''div'' [(''className'', Val ''hero-grid'')]
             [El ''div'' []
                [El ''span'' [(''className'', Val ''eyebrow'')]
                   [Text ''The open coupon protocol on Stellar''],
                 El ''h1'' [(''className'', Val ''display'')]
                   [Text ''Issue, redeem & verify coupons on-chain.''],
                 El ''p'' [(''className'', Val ''lede'')]
                   [Text (
                            ''Soroticket is a permissionless protocol for tokenized coupons and redeemable codes on Stellar Soroban. This playground calls the real v0.2.0 testnet deployment ''
                            @ [CHR 0x97]
                            @ '' a preview environment: testnet only, never real value.'')],
                 El ''div'' [(''className'', Val ''cta-row'')]
                   ((if s_wallet st = None then
                       [Btn ''primary'' (s_connecting st) False False
                          [Ic ''wallet'' [(''style'', Sty [(''width'', ''15''), (''height'', ''15'')])]]
                          [(''onClick'', On HeroConnect)]
                          [Text (if s_connecting st then ''Connecting Freighter'' else
                                   ''Connect Freighter'')]] else
                       [Btn ''primary'' False False False [] [(''onClick'', On (HeroScroll ''create''))]
                          [Text ''Create a campaign'']])
                      @
                      [El ''a'' [(''className'', Val ''btn btn-ghost''), (''href'', Val ''#verify''),
                                 (''onClick'', On (HeroScroll ''verify''))]
                         [El ''span'' [] [Text ''Verify a code''],
                          El ''span'' [(''className'', Val ''chip'')]
                            [Ic ''arrow'' [(''style'',
                                            Sty [(''width'', ''15''), (''height'', ''15'')])]]]]),
                 El ''div'' [(''className'', Val ''meta-row'')]
                   [El ''div'' [(''className'', Val ''meta-item'')]
                      [El ''span'' [(''className'', Val ''k'')] [Text ''Network''],
                       El ''span'' [(''className'', Val ''net-pill''),
                                    (''style'', Sty [(''alignSelf'', ''flex-start'')])]
                         [El ''span'' [(''className'', Val ''dot'')] [],
                          Text (''Testnet '' @ [CHR 0xB7] @ '' v0.2.0'')]],
                    El ''div'' [(''className'', Val ''meta-item'')]
                      [El ''span'' [(''className'', Val ''k'')] [Text ''Contract''],
                       El ''CopyValue'' [(''value'', Val net_contractId),
                                         (''display'', Val (trunc 6 4 net_contractId)),
                                         (''link'', Val (explorer ''contract'' net_contractId))] []],
                    El ''div'' [(''className'', Val ''meta-item'')]
                      [El ''span'' [(''className'', Val ''k'')] [Text ''Profile''],
                       El ''span'' [(''style'',
                                     Sty [(''fontWeight'', ''600''), (''fontSize'', ''14'')])]
                         [Text (''Burn '' @ [CHR 0xB7] @ '' synchronous'')]]]],
              HeroArt],
           El ''Lifecycle'' [] []]]\<close>

section \<open>Benefits and footer\<close>

definition BENEFITS :: \<open>(string \<times> string \<times> string) list\<close> where
  \<open>BENEFITS =
    [(''lock'', ''Single-use, enforced on-chain'',
      (
         ''The Burn profile guarantees each unique code can be redeemed exactly once. Double-spend is rejected by the contract itself ''
         @ [CHR 0x97]
         @ '' not your backend.'')),
     (''shield'', ''No plaintext PII on-chain'',
      
        ''Redeemer identity can be committed as an opaque 32-byte value computed with a random nonce. Keep the nonce and source reference off-chain.''),
     (''globe'', ''Permissionless ownership'',
      (''Anyone can create a campaign from their own keypair. Each campaign is owned by its creator ''
         @ [CHR 0x97]
         @ '' there is no global admin.'')),
     (''users'', ''Delegated redemption'',
      
        ''Owners grant explicit delegates the right to redeem at the point of sale, while keeping supply issuance owner-only.''),
     (''spark'', ''Token settlement primitive'',
      (''Contract v0.2 settles a configured Stellar Asset Contract from an owner-approved allowance ''
         @ [CHR 0x97]
         @ '' any keeper can trigger it. Network fees and asset choice remain deployment decisions.'')),
     (''terminal'', ''Generated integration examples'',
      
        ''Actions produce Stellar CLI, TypeScript and Go examples from your inputs. Review deployment IDs, addresses and signer handling before running them.'')]\<close>

definition Benefits :: \<open>'e html\<close> where
  \<open>Benefits =
     El ''section'' [(''className'', Val ''band-dark''), (''style'', Sty [(''padding'', ''84px 0'')])]
       [El ''div'' [(''className'', Val ''wrap'')]
          [El ''div'' [(''className'', Val ''section-head'')]
             [El ''div'' [(''className'', Val ''eyebrow'')] [Text ''Why Soroticket''],
              El ''h2'' [(''className'', Val ''display'')] [Text ''A standard, not a silo'']],
           El ''div'' [(''className'', Val ''ben-grid'')]
             (concat (map (\<lambda> (i, t, p) .
                             [El ''div'' [(''className'', Val ''ben'')]
                                [Ic i [(''className'', Val ''ben-ic'')],
                                 El ''h4'' [] [Text t],
                                 El ''p'' [] [Text p]]]) BENEFITS))]]\<close>

definition footer_links :: "(string \<times> string option) list" where
  "footer_links =
     [(''Protocol Spec '' @ [CHR 0xB7] @ '' docs/SPEC.md'', None),
      (''Candidate SEP '' @ [CHR 0xB7] @ '' docs/SEP.md'', None),
      (''Contract on stellar.expert'', Some (explorer ''contract'' net_contractId))]"

definition Footer :: \<open>'e html\<close> where
  \<open>Footer =
     El ''footer'' [(''style'',
                     Sty [(''padding'', ''56px 0 120px''), (''borderTop'', ''1px solid var(--line)'')])]
       [El ''div'' [(''className'', Val ''wrap'')]
          [El ''div'' [(''style'',
                        Sty [(''display'', ''flex''), (''gap'', ''32''), (''flexWrap'', ''wrap''),
                             (''alignItems'', ''flex-start''),
                             (''justifyContent'', ''space-between'')])]
             [El ''div'' [(''style'', Sty [(''maxWidth'', ''320'')])]
                [El ''div'' [(''className'', Val ''brand''),
                             (''style'', Sty [(''marginBottom'', ''12'')])]
                   [El ''span'' [(''className'', Val ''mark'')]
                      [Logo [(''className'', Val ''logo'')],
                       El ''span'' [(''className'', Val ''word'')] [Text ''Soroticket'']]],
                 El ''p'' [(''className'', Val ''muted''),
                           (''style'', Sty [(''fontSize'', ''13.5''), (''lineHeight'', ''1.55'')])]
                   [Text (''The open coupon protocol on Stellar ''
                            @ [CHR 0x97]
                            @ '' v0.2.0 testnet preview.'')]],
              El ''div'' [(''style'',
                           Sty [(''display'', ''flex''), (''gap'', ''40''), (''flexWrap'', ''wrap'')])]
                [El ''div'' [(''style'',
                              Sty [(''display'', ''flex''), (''flexDirection'', ''column''),
                                   (''gap'', ''11'')])]
                   ([El ''span'' [(''className'', Val ''eyebrow''),
                                  (''style'', Sty [(''marginBottom'', ''4'')])] [Text ''Protocol'']]
                      @
                      (concat (map (\<lambda> (t, u) .
                                      (if u \<noteq> None then
                                         [El ''a'' [(''href'', Val (the u)),
                                                    (''target'', Val ''_blank''),
                                                    (''rel'', Val ''noopener''),
                                                    (''style'',
                                                     Sty [(''fontSize'', ''14''),
                                                          (''fontWeight'', ''500''),
                                                          (''display'', ''inline-flex''),
                                                          (''alignItems'', ''center''),
                                                          (''gap'', ''6'')]),
                                                    (''className'', Val ''footer-link'')]
                                            [Text t,
                                             Ic ''arrowUR'' [(''style'',
                                                              Sty [(''width'', ''13''),
                                                                   (''height'', ''13''),
                                                                   (''opacity'', ''.45'')])]]] else
                                         [El ''span'' [(''className'', Val ''mono''),
                                                       (''style'',
                                                        Sty [(''fontSize'', ''12''),
                                                             (''color'', ''var(--ink-3)'')])]
                                            [Text t]])) footer_links)))]],
           El ''div'' [(''className'', Val ''divider''),
                       (''style'', Sty [(''margin'', ''36px 0 20px'')])] [],
           El ''div'' [(''style'',
                        Sty [(''display'', ''flex''), (''justifyContent'', ''space-between''),
                             (''gap'', ''16''), (''flexWrap'', ''wrap''),
                             (''alignItems'', ''center'')])]
             [El ''span'' [(''className'', Val ''faint''), (''style'', Sty [(''fontSize'', ''12.5'')])]
                [Text (''Public-good protocol. Testnet only '' @ [CHR 0x97] @ '' no real value.'')],
              El ''span'' [(''className'', Val ''net-pill'')]
                [El ''span'' [(''className'', Val ''dot'')] [],
                 Text ''Stellar Testnet'']]]]\<close>

section \<open>The root\<close>

text \<open>The toggle of the panel passes the negated value.\<close>

record tweaks =
  tw_theme :: string
  tw_accent :: string
  tw_console :: string
  tw_serif :: bool

definition TWEAK_DEFAULTS :: tweaks where
  "TWEAK_DEFAULTS = \<lparr>tw_theme = ''light'', tw_accent = ''yellow'', tw_console = ''bottom'', tw_serif = True\<rparr>"

record document =
  doc_theme :: string
  doc_accent :: string
  doc_display :: string
  doc_classes :: "string list" \<comment> \<open>of the body\<close>

definition tweak_effect :: "tweaks \<Rightarrow> document \<Rightarrow> document" where
  "tweak_effect t d = d\<lparr>doc_theme := tw_theme t, doc_accent := tw_accent t,
     doc_display := (if tw_serif t then ''serif'' else ''sans''),
     doc_classes := (if tw_console t = ''bottom''
        then (if ''dock-bottom'' \<in> set (doc_classes d) then doc_classes d else doc_classes d @ [''dock-bottom''])
        else filter (\<lambda>c. c \<noteq> ''dock-bottom'') (doc_classes d))\<rparr>"

datatype tweak_ev = TweakTheme string | TweakAccent string | TweakSerif bool | TweakConsole string

fun tweak_set :: "tweak_ev \<Rightarrow> tweaks \<Rightarrow> tweaks" where
  "tweak_set (TweakTheme v) t = t\<lparr>tw_theme := v\<rparr>"
| "tweak_set (TweakAccent v) t = t\<lparr>tw_accent := v\<rparr>"
| "tweak_set (TweakSerif v) t = t\<lparr>tw_serif := v\<rparr>"
| "tweak_set (TweakConsole v) t = t\<lparr>tw_console := v\<rparr>"

definition Root :: \<open>tweaks \<Rightarrow> tweak_ev html\<close> where
  \<open>Root t =
     El ''AppProvider'' []
       [El ''TopBar'' [] [],
        El ''main'' []
          [El ''Hero'' [] [],
           El ''section'' [(''className'', Val ''band-gray''),
                           (''style'', Sty [(''padding'', ''8px 0 48px'')])]
             [El ''div'' [(''className'', Val ''wrap'')]
                [El ''div'' [(''className'', Val ''section-head''),
                             (''style'', Sty [(''paddingTop'', ''56''), (''marginBottom'', ''18'')])]
                   [El ''div'' [(''className'', Val ''eyebrow'')] [Text ''The protocol lifecycle''],
                    El ''h2'' [(''className'', Val ''display''),
                               (''style'', Sty [(''fontSize'', ''clamp(30px,4.4vw,46px)'')])]
                      [Text ''Call the contract, step by step'']],
                 El ''div'' [(''className'', Val ''actions'')]
                   [El ''CreateCampaign'' [] [],
                    El ''IssueCodes'' [] [],
                    El ''Redeem'' [] [],
                    El ''Verify'' [] [],
                    El ''Delegates'' [] [],
                    El ''TallyRegister'' [] [],
                    El ''TallySettle'' [] []]]],
           El ''Benefits'' [] [],
           El ''Footer'' [] []],
        El ''Console'' [(''placement'', Val (tw_console t))] [],
        El ''Toasts'' [] [],
        El ''TweaksPanel'' []
          [El ''TweakSection'' [(''label'', Val ''Theme direction'')] [],
           El ''TweakRadio'' [(''label'', Val ''Mode''), (''value'', Val (tw_theme t)),
                              (''options'', Elts [Text ''light'', Text ''dark'']),
                              (''onChange'', OnV TweakTheme)] [],
           El ''TweakRadio'' [(''label'', Val ''Accent''), (''value'', Val (tw_accent t)),
                              (''options'', Elts [Text ''yellow'', Text ''cyan'']),
                              (''onChange'', OnV TweakAccent)] [],
           El ''TweakToggle'' [(''label'', Val ''Serif display headings''),
                               (''value'', Flag (tw_serif t)), (''onChange'', On (TweakSerif (\<not> tw_serif t)))] [],
           El ''TweakSection'' [(''label'', Val ''Console'')] [],
           El ''TweakRadio'' [(''label'', Val ''Placement''), (''value'', Val (tw_console t)),
                              (''options'', Elts [Text ''bottom'', Text ''right'']),
                              (''onChange'', OnV TweakConsole)] []]]\<close>

end
