(* ===== verification/Play_Shape.thy ===== *)
theory Play_Shape
  imports Play_Props
begin

text \<open>
  The types of the results: the playground's calls return plain objects, and the cards read their
  fields without a check. \<open>shaped\<close> gives the fields and their types for every call of the context;
  the property at the end shows that every call that returns gives its shape, whatever the outside
  answered.
\<close>

fun is_num :: "jval \<Rightarrow> bool" where "is_num (JNum n) = True" | "is_num _ = False"
fun is_str :: "jval \<Rightarrow> bool" where "is_str (JStr s) = True" | "is_str _ = False"
fun is_bool :: "jval \<Rightarrow> bool" where "is_bool (JBool b) = True" | "is_bool _ = False"

definition is_any :: "jval \<Rightarrow> bool" where "is_any v = True"

definition str_or_null :: "jval \<Rightarrow> bool" where "str_or_null v \<longleftrightarrow> v = JNull \<or> is_str v"

fun list_of :: "(jval \<Rightarrow> bool) \<Rightarrow> jval \<Rightarrow> bool" where
  "list_of p (JArr vs) = list_all p vs"
| "list_of p _ = False"

fun fields_of :: "(string \<times> (jval \<Rightarrow> bool)) list \<Rightarrow> (string \<times> jval) list \<Rightarrow> bool" where
  "fields_of [] kvs = (kvs = [])"
| "fields_of (f # fs) kvs = (case kvs of [] \<Rightarrow> False
     | kv # rest \<Rightarrow> fst kv = fst f \<and> snd f (snd kv) \<and> fields_of fs rest)"

fun object_of :: "(string \<times> (jval \<Rightarrow> bool)) list \<Rightarrow> jval \<Rightarrow> bool" where
  "object_of fs (JObj kvs) = fields_of fs kvs"
| "object_of fs _ = False"

definition is_payout :: "jval \<Rightarrow> bool" where
  "is_payout = object_of [(''to'', is_str), (''amount'', is_str)]"

fun is_row :: "jval \<Rightarrow> bool" where \<comment> \<open>a pair of an address and a count\<close>
  "is_row (JArr [a, n]) = (is_str a \<and> is_num n)"
| "is_row _ = False"

definition token_fields :: "(string \<times> (jval \<Rightarrow> bool)) list" where
  "token_fields = [(''token_id'', is_num), (''campaign_id'', is_num), (''code'', is_any),
     (''is_burned'', is_bool), (''minted_at'', is_num), (''redeemer_ref'', is_str),
     (''burned_at'', is_num)]"

definition campaign_fields :: "(string \<times> (jval \<Rightarrow> bool)) list" where
  "campaign_fields = [(''id'', is_num), (''owner'', is_any), (''name'', is_any),
     (''discount_type'', is_any), (''discount_value'', is_num), (''total_supply'', is_num),
     (''minted'', is_num), (''burned'', is_num), (''valid_until'', is_num)]"

definition receipt_fields :: "(string \<times> (jval \<Rightarrow> bool)) list" where
  "receipt_fields = [(''token_id'', is_num), (''code'', is_any), (''campaign_id'', is_num),
     (''campaign_name'', is_any), (''discount_type'', is_any), (''discount_value'', is_num),
     (''redeemer_ref'', is_str), (''burned_at'', is_num), (''ledger_seq'', is_num)]"

definition is_status :: "jval \<Rightarrow> bool" where
  "is_status v \<longleftrightarrow> v = JStr ''valid'' \<or> v = JStr ''burned'' \<or> v = JStr ''expired''"

definition is_ok :: "jval \<Rightarrow> bool" where
  "is_ok = object_of [(''ok'', \<lambda>v. v = JBool True)]"

fun shaped :: "request \<Rightarrow> jval \<Rightarrow> bool" where
  "shaped (CreateCampaign f) = object_of [(''campaign_id'', is_num)]"
| "shaped (IssueCodes c codes) = object_of [(''token_ids'', list_of is_num)]"
| "shaped (Redeem c code hash) = object_of receipt_fields"
| "shaped (Verify c code) = object_of [(''token'', object_of token_fields),
     (''campaign'', \<lambda>v. v = JNull \<or> object_of campaign_fields v), (''status'', is_status)]"
| "shaped (IsDelegate c d) = object_of [(''is_delegate'', is_bool)]"
| "shaped (GetShared c code) = object_of [(''attributed_to'', str_or_null),
     (''payout_token'', str_or_null), (''payout_rate'', is_str)]"
| "shaped (GetTally c code p) = object_of [(''period'', is_num), (''count'', is_num),
     (''merkle_root'', is_str), (''per_attribution'', list_of is_row)]"
| "shaped (ComputePayouts c code p) = list_of is_payout"
| "shaped (Settle c code p) = object_of [(''payouts'', list_of is_payout)]"
| "shaped q = is_ok"

section \<open>What a computation gives\<close>

definition gives :: "('s, 'a) io \<Rightarrow> ('a \<Rightarrow> bool) \<Rightarrow> bool" where
  "gives m P \<longleftrightarrow> (\<forall>z x z'. m z = (Inr x, z') \<longrightarrow> P x)"

lemma givesD: "gives m P \<Longrightarrow> m z = (Inr x, z') \<Longrightarrow> P x"
  unfolding gives_def by blast

lemma gives_return: "P x \<Longrightarrow> gives (returnIO x) P"
  by (simp add: gives_def)

lemma gives_lift: "(\<And>x. q = Inr x \<Longrightarrow> P x) \<Longrightarrow> gives (liftIO q) P"
  by (simp add: gives_def)

lemma gives_any: "gives m (\<lambda>x. True)"
  by (simp add: gives_def)

lemma gives_bind: "gives m Q \<Longrightarrow> (\<And>x. Q x \<Longrightarrow> gives (f x) P) \<Longrightarrow> gives (bindIO m f) P"
  unfolding gives_def by (fastforce simp: bindIO_eq_iff)

lemma gives_then: "(\<And>x. gives (f x) P) \<Longrightarrow> gives (bindIO m f) P"
  by (rule gives_bind [OF gives_any])

lemma gives_wallet: "(\<And>w. gives (f w) P) \<Longrightarrow> gives (closed_wallet f) P"
  unfolding closed_wallet_def by (rule gives_then)

lemma gives_invoke:
  assumes "gives fn (\<lambda>out. P (o_result out))"
  shows "gives (invoke H meth auth args rd fn) (\<lambda>out. P (o_result out))"
proof -
  have "P (o_result x)" if run: "invoke H meth auth args rd fn z = (Inr x, z')" for z x z'
  proof -
    obtain w tr s where z: "z = ((w, tr), s)" by (metis prod.exhaust)
    obtain q t where fn: "fn ((w, tr), push_log (pending_entry (s_uuid s) (h_now H w) meth auth args rd)
        (s\<lparr>s_uuid := s_uuid s + 1\<rparr>)) = (q, t)" by (rule prod.exhaust)
    have start: "invoke H meth auth args rd fn z =
       catchIO (bindIO fn (\<lambda>out. bindIO (on_store (set_log (s_uuid s) (log_ok out))) (\<lambda>_.
          returnIO \<lparr>o_result = o_result out, o_tx = nullish_or (o_tx out) JNull,
                    o_seq = nullish_or (o_seq out) JNull\<rparr>)))
         (\<lambda>raw. let err = toFriendly raw in
          bindIO (on_store (set_log (s_uuid s) (log_err err))) (\<lambda>_. throwIO err))
         ((w, tr), push_log (pending_entry (s_uuid s) (h_now H w) meth auth args rd)
           (s\<lparr>s_uuid := s_uuid s + 1\<rparr>))"
      by (simp add: z invoke_def randomUUID_def clock_def on_store_def bindIO_run)
    obtain p s2 where t: "t = (p, s2)" by (cases t)
    show ?thesis
    proof (cases q)
      case (Inl e)
      with run fn t show ?thesis unfolding start
        by (simp add: catchIO_run bindIO_run on_store_def Let_def)
    next
      case (Inr out)
      with run fn t have "x = \<lparr>o_result = o_result out, o_tx = nullish_or (o_tx out) JNull,
                    o_seq = nullish_or (o_seq out) JNull\<rparr>" unfolding start
        by (simp add: catchIO_run bindIO_run on_store_def)
      with givesD [OF assms fn [unfolded Inr]] show ?thesis by simp
    qed
  qed
  then show ?thesis by (simp add: gives_def)
qed

section \<open>The fourteen results\<close>

definition gives_shape :: "('w app, outcome) io \<Rightarrow> (jval \<Rightarrow> bool) \<Rightarrow> bool" where
  "gives_shape m P \<longleftrightarrow> gives m (\<lambda>out. P (o_result out))"

lemma shape_wallet: "(\<And>w. gives_shape (f w) P) \<Longrightarrow> gives_shape (closed_wallet f) P"
  unfolding gives_shape_def by (rule gives_wallet)

lemma shape_invoke: "gives_shape fn P \<Longrightarrow> gives_shape (invoke H meth auth args rd fn) P"
  unfolding gives_shape_def by (rule gives_invoke)

lemma shape_then: "(\<And>x. gives_shape (f x) P) \<Longrightarrow> gives_shape (bindIO m f) P"
  unfolding gives_shape_def by (rule gives_then)

lemma shape_bind: "gives m Q \<Longrightarrow> (\<And>x. Q x \<Longrightarrow> gives_shape (f x) P) \<Longrightarrow> gives_shape (bindIO m f) P"
  unfolding gives_shape_def by (rule gives_bind)

lemma shape_return: "P (o_result out) \<Longrightarrow> gives_shape (returnIO out) P"
  unfolding gives_shape_def by (rule gives_return)

lemmas shape_intros = shape_wallet shape_invoke shape_then shape_return
lemmas shape_defs = sent_outcome_def read_outcome_def ok_true_def is_ok_def

lemma shape_ok: "object_of [(''ok'', \<lambda>v. v = JBool True)] (JObj [(''ok'', JBool True)])"
  by simp

lemma writes_shape:
  "gives_shape (createCampaign H f) (shaped (CreateCampaign f))"
  "gives_shape (issueCodes H c codes) (shaped (IssueCodes c codes))"
  "gives_shape (addDelegate H c d) (shaped (AddDelegate c d))"
  "gives_shape (removeDelegate H c d) (shaped (RemoveDelegate c d))"
  "gives_shape (isDelegate H c d) (shaped (IsDelegate c d))"
  unfolding createCampaign_def issueCodes_def addDelegate_def removeDelegate_def isDelegate_def Let_def
  by ((intro shape_intros)+, simp add: shape_defs list_all_iff)+

lemma plain_shape: "gives_shape (plain_write H meth auth args w send) is_ok"
  unfolding plain_write_def by (intro shape_intros) (simp add: shape_defs)

lemma tally_writes_shape:
  "gives_shape (registerShared H c code a t r) (shaped (RegisterShared c code a t r))"
  "gives_shape (commitTally H c code p n mroot per) (shaped (CommitTally c code p n mroot per))"
  "gives_shape (bumpTally H c code p) (shaped (BumpTally c code p))"
  unfolding registerShared_def commitTally_def bumpTally_def Let_def shaped.simps
  by (intro shape_wallet plain_shape)+

lemma redeem_shape: "gives_shape (redeem H c code hash) (shaped (Redeem c code hash))"
  unfolding redeem_def Let_def
  by (intro shape_intros) (simp add: receipt_obj_def receipt_fields_def is_any_def)

lemma mapR_all:
  assumes "mapR f xs = Inr ys" and "\<And>x y. f x = Inr y \<Longrightarrow> P y"
  shows "list_all P ys"
proof -
  have "P y" if "y \<in> set ys" for y
    using assms that by (auto simp: throw_simps list_all2_conv_all_nth in_set_conv_nth)
  then show ?thesis by (simp add: list_all_iff)
qed

lemma payout_rows_shape:
  assumes "payout_rows v = Inr rows"
  shows "list_of is_payout rows"
proof -
  from assms obtain ps vs where m: "mapR (\<lambda>p. bindR (field p ''to'') (\<lambda>t. bindR (field p ''amount'') (\<lambda>a.
      Inr (JObj [(''to'', JStr (js_String t)), (''amount'', JStr (js_String a))])))) ps = Inr vs"
    and rows: "rows = JArr vs"
    by (auto simp: payout_rows_def bindR_Inr_iff)
  have "list_all is_payout vs" by (rule mapR_all [OF m]) (auto simp: throw_simps is_payout_def)
  with rows show ?thesis by simp
qed

lemma pays_shape:
  "gives_shape (computePayouts H c code p) (shaped (ComputePayouts c code p))"
  "gives_shape (settle H c code p) (shaped (Settle c code p))"
  unfolding computePayouts_def settle_def Let_def
  by ((intro shape_wallet shape_invoke shape_then shape_bind [OF gives_lift [OF payout_rows_shape]]
        shape_return, assumption?, simp add: shape_defs)+)

lemma token_shape: "token_of_native tn = Inr t \<Longrightarrow> object_of token_fields (token_obj t)"
  by (auto simp: token_of_native_def throw_simps token_obj_def token_fields_def numeric_def is_any_def)

lemma campaign_shape: "object_of campaign_fields (campaign_obj c)"
  by (simp add: campaign_obj_def campaign_fields_def is_any_def)

lemma status_shape: "is_status (JStr (coupon_status t c now))"
  by (simp add: coupon_status_def is_status_def)

lemma verify_shape: "gives_shape (verify H c code) (shaped (Verify c code))"
  unfolding verify_def Let_def
  by (rule shape_invoke, rule shape_then, rule shape_bind [OF gives_lift [OF token_shape]], assumption,
      intro shape_intros) (simp add: shape_defs campaign_shape status_shape split: option.split)

lemma shared_result_shape:
  "shared_result v = Inr r \<Longrightarrow> object_of [(''attributed_to'', str_or_null),
     (''payout_token'', str_or_null), (''payout_rate'', is_str)] r"
  by (auto simp: shared_result_def throw_simps text_or_null_def str_or_null_def)

lemma tally_result_shape:
  "tally_result v = Inr r \<Longrightarrow> object_of [(''period'', is_num), (''count'', is_num),
     (''merkle_root'', is_str), (''per_attribution'', list_of is_row)] r"
  by (auto simp: tally_result_def throw_simps numeric_def list_all_iff)

lemma getShared_shape: "gives_shape (getShared H c code) (shaped (GetShared c code))"
  unfolding getShared_def
  by (rule shape_invoke, rule shape_then, rule shape_bind [OF gives_lift [OF shared_result_shape]],
      assumption, rule shape_return) (simp add: shape_defs)

lemma getTally_shape: "gives_shape (getTally H c code p) (shaped (GetTally c code p))"
  unfolding getTally_def
  by (rule shape_invoke, rule shape_then, rule shape_bind [OF gives_lift [OF tally_result_shape]],
      assumption, rule shape_return) (simp add: shape_defs)

lemma call_gives_shape: "gives_shape (call_app H q) (shaped q)"
  by (cases q) (simp_all only: call_app.simps writes_shape tally_writes_shape redeem_shape pays_shape
      verify_shape getShared_shape getTally_shape)

section \<open>Property\<close>

text \<open>
  C23 (type). Every call that returns gives a result of its type: the object has the fields the
  cards read, in that order, with numbers where they format numbers, text where they shorten text
  and lists where they count elements, whatever values the contract or the SDK handed back.
\<close>

theorem call_result_type:
  "call_app H q z = (Inr out, z') \<Longrightarrow> shaped q (o_result out)"
  using call_gives_shape [of H q] by (auto simp: gives_shape_def dest: givesD)

theorem call_result_type_witness:
  "\<exists>out p' s'. call_app (sample_host None) (IsDelegate (JNum (Fin 1)) ''GD'') ((0, []), init_store) =
     (Inr out, (p', s')) \<and> object_of [(''is_delegate'', is_bool)] (o_result out)"
proof -
  have one: "js_integer (JNum (Fin 1)) ''u64'' = Inr 1" using js_integer_num [of 1] by simp
  have "\<exists>out p' s'. call_app (sample_host None) (IsDelegate (JNum (Fin 1)) ''GD'') ((0, []), init_store) =
     (Inr out, (p', s'))"
    by (simp add: isDelegate_def app_run_simps native_read_def sdk_read_def readAt_def sample_simps
        args_of_def scU64_def scAddr_def numeric_def one U64_MAX_def toNative_def ask_def Let_def)
  then obtain out p' s' where run: "call_app (sample_host None) (IsDelegate (JNum (Fin 1)) ''GD'')
      ((0, []), init_store) = (Inr out, (p', s'))" by blast
  with call_result_type [OF run] show ?thesis by (simp del: call_app.simps)
qed

end
