(* ===== verification/Cards_Calc.thy ===== *)
theory Cards_Calc
  imports Play_Shape Cards_A Cards_B Cards_C Cards_Tally
begin

text \<open>
  How the handlers of the cards end. \<open>friendly\<close> is what every call of the context promises about its
  errors; \<open>answers\<close> follows it through the code between \<open>try\<close> and \<open>catch\<close>, and \<open>click_toast\<close> and
  \<open>click_quiet\<close> are what the two kinds of handler make of it: the promise of a click resolves, and
  the card is left in the state its \<open>finally\<close> sets, after either the result or the error was set.
\<close>

definition friendly :: "('w app, 'a) io \<Rightarrow> bool" where
  "friendly m \<longleftrightarrow> (\<forall>z e z'. m z = (Inl e, z') \<longrightarrow> e_sd e \<noteq> None)"

named_theorems friendly_intros

lemma invoke_friendly [friendly_intros]: "friendly (invoke H meth auth args rd fn)"
proof -
  have "e_sd e \<noteq> None" if "invoke H meth auth args rd fn z = (Inl e, z')" for z e z'
    using that unfolding invoke_def Let_def on_store_def randomUUID_def clock_def
    by (auto simp: bindIO_run catchIO_run intro: toFriendly_sd [simplified]
        split: prod.splits sum.splits)
  then show ?thesis by (auto simp: friendly_def)
qed

lemma friendly_get [friendly_intros]: "(\<And>x. friendly (f x)) \<Longrightarrow> friendly (bindIO (getIO g) f)"
  unfolding friendly_def by (simp add: bindIO_run)

lemma friendly_wallet [friendly_intros]: "(\<And>w. friendly (f w)) \<Longrightarrow> friendly (closed_wallet f)"
  unfolding closed_wallet_def by (rule friendly_get)

lemma calls_friendly [friendly_intros]:
  "friendly (createCampaign H f)" "friendly (issueCodes H c codes)" "friendly (redeem H c code hash)"
  "friendly (verify H c code)" "friendly (addDelegate H c d)" "friendly (removeDelegate H c d)"
  "friendly (isDelegate H c d)" "friendly (registerShared H c code a t r)"
  "friendly (getShared H c code)" "friendly (commitTally H c code p n mroot per)"
  "friendly (getTally H c code p)" "friendly (computePayouts H c code p)"
  "friendly (settle H c code p)" "friendly (bumpTally H c code p)"
  unfolding createCampaign_def issueCodes_def redeem_def verify_def addDelegate_def
    removeDelegate_def isDelegate_def registerShared_def getShared_def commitTally_def getTally_def
    computePayouts_def settle_def bumpTally_def plain_write_def Let_def
  by (intro friendly_intros)+

text \<open>The code of a handler between \<open>try\<close> and \<open>catch\<close>: what it did to the card when it threw, or returned.\<close>

definition answers ::
  "(('w, 'l) card, 'a) io \<Rightarrow> ('a \<Rightarrow> 'l \<Rightarrow> 'l \<Rightarrow> bool) \<Rightarrow> bool" where
  "answers m ok \<longleftrightarrow> (\<forall>z l r z' l'. m (z, l) = (r, (z', l')) \<longrightarrow>
     (case r of Inl e \<Rightarrow> e_sd e \<noteq> None \<and> l' = l | Inr x \<Rightarrow> ok x l l'))"

definition quiet :: "(('w, 'l) card, 'a) io \<Rightarrow> ('l \<Rightarrow> 'l \<Rightarrow> bool) \<Rightarrow> bool" where
  \<comment> \<open>code that cannot throw\<close>
  "quiet m P \<longleftrightarrow> (\<forall>z l r z' l'. m (z, l) = (r, (z', l')) \<longrightarrow> (\<exists>x. r = Inr x) \<and> P l l')"

named_theorems answer_intros

lemma answers_in_app [answer_intros]: "friendly m \<Longrightarrow> answers (in_app m) (\<lambda>x l l'. l' = l)"
  by (fastforce simp: answers_def friendly_def in_app_def split: prod.splits sum.splits)

lemma answers_bind_given:
  assumes "friendly m" and "gives m Q" and "\<And>x. Q x \<Longrightarrow> answers (f x) ok"
  shows "answers (bindIO (in_app m) f) ok"
  unfolding answers_def
proof (intro allI impI)
  fix z l r z' l'
  assume run: "bindIO (in_app m) f (z, l) = (r, (z', l'))"
  obtain q t where m: "m z = (q, t)" by (cases "m z")
  show "case r of Inl e \<Rightarrow> e_sd e \<noteq> None \<and> l' = l | Inr x \<Rightarrow> ok x l l'"
  proof (cases q)
    case (Inl e)
    with assms(1) m have "e_sd e \<noteq> None" unfolding friendly_def by blast
    with Inl run m show ?thesis by (auto simp: bindIO_run in_app_def)
  next
    case (Inr x)
    with run m have "f x (t, l) = (r, (z', l'))" by (simp add: bindIO_run in_app_def)
    with assms(3) [OF givesD [OF assms(2) m [unfolded Inr]]] show ?thesis unfolding answers_def by blast
  qed
qed

lemma answers_bind_app: "friendly m \<Longrightarrow> (\<And>x. answers (f x) ok) \<Longrightarrow> answers (bindIO (in_app m) f) ok"
  by (rule answers_bind_given [OF _ gives_any])

lemma answers_quiet: "quiet m P \<Longrightarrow> (\<And>l l'. P l l' \<Longrightarrow> Q l l') \<Longrightarrow> answers m (\<lambda>x l l'. Q l l')"
  by (fastforce simp: answers_def quiet_def)

lemma answers_throw: "e_sd e \<noteq> None \<Longrightarrow> answers (throwIO e) ok"
  by (simp add: answers_def)

lemma answers_if: "(c \<Longrightarrow> answers m ok) \<Longrightarrow> (\<not> c \<Longrightarrow> answers n ok) \<Longrightarrow> answers (if c then m else n) ok"
  by simp

lemma quiet_set: "quiet (set_local f) (\<lambda>l l'. l' = f l)"
  by (auto simp: quiet_def set_local_def)

lemma quiet_toast: "quiet (in_app (toast k t m)) (\<lambda>l l'. l' = l)"
  by (auto simp: quiet_def in_app_def toast_def randomUUID_def on_store_def bindIO_run split: prod.splits)

lemma quiet_get: "quiet (getIO g) (\<lambda>l l'. l' = l)"
  by (auto simp: quiet_def)

lemma quiet_lift: "quiet (liftIO (Inr x)) (\<lambda>l l'. l' = l)"
  by (auto simp: quiet_def)

lemma quiet_clock: "quiet (in_app (clock h)) (\<lambda>l l'. l' = l)"
  by (auto simp: quiet_def in_app_def clock_def split: prod.splits)

lemma quiet_bind:
  "quiet m P \<Longrightarrow> (\<And>x. quiet (f x) (Q x)) \<Longrightarrow> quiet (bindIO m f) (\<lambda>l l'. \<exists>x t. P l t \<and> Q x t l')"
  unfolding quiet_def by (fastforce simp: bindIO_eq_iff)

lemma answers_mono: "answers m ok \<Longrightarrow> (\<And>x l l'. ok x l l' \<Longrightarrow> ok' x l l') \<Longrightarrow> answers m ok'"
  unfolding answers_def by (fastforce split: sum.splits)

lemmas quiet_intros = quiet_bind quiet_set quiet_toast quiet_get quiet_clock quiet_lift

section \<open>A click\<close>

lemma show_error_run:
  "e_sd e \<noteq> None \<Longrightarrow> \<exists>z'. show_error b e (z, l) = (Inr (), (z', b (e_sd e) l))"
  by (cases z) (auto simp: show_error_def set_local_def in_app_def toast_def randomUUID_def
      on_store_def bindIO_run)

definition settled :: "('l \<Rightarrow> 'l) \<Rightarrow> ('l \<Rightarrow> 'l \<Rightarrow> bool) \<Rightarrow> (sd option \<Rightarrow> 'l \<Rightarrow> 'l) \<Rightarrow> ('l \<Rightarrow> 'l)
    \<Rightarrow> unit js \<Rightarrow> 'l \<Rightarrow> 'l \<Rightarrow> bool" where
  "settled a ok b c r l l' \<longleftrightarrow> r = Inr () \<and>
     ((\<exists>t. ok (a l) t \<and> l' = c t) \<or> (\<exists>d. l' = c (b (Some d) (a l))))"

lemma click_settles:
  assumes "answers m (\<lambda>x. ok)"
    and "\<And>e z l. e_sd e \<noteq> None \<Longrightarrow> \<exists>z'. k e (z, l) = (Inr (), (z', b (e_sd e) l))"
    and "bindIO (set_local a) (\<lambda>_. finallyIO (catchIO m k) (set_local c)) (z, l) = (r, (z', l'))"
  shows "settled a ok b c r l l'"
proof -
  obtain q z1 t where m: "m (z, a l) = (q, (z1, t))" by (metis prod_cases3)
  have ans: "case q of Inl e \<Rightarrow> e_sd e \<noteq> None \<and> t = a l | Inr x \<Rightarrow> ok (a l) t"
    using assms(1) m unfolding answers_def by blast
  show ?thesis
  proof (cases q)
    case (Inl e)
    with ans obtain d where d: "e_sd e = Some d" and t: "t = a l" by auto
    with assms(2) [of e z1 t] obtain z2 where "k e (z1, t) = (Inr (), (z2, b (Some d) t))" by auto
    with assms(3) m Inl t show ?thesis
      by (auto simp: settled_def finallyIO_def set_local_def bindIO_run catchIO_run)
  next
    case (Inr u)
    with assms(3) m ans show ?thesis
      by (auto simp: settled_def finallyIO_def set_local_def bindIO_run catchIO_run)
  qed
qed

lemma click_toast:
  assumes "answers m (\<lambda>x. ok)"
    and "bindIO (set_local a) (\<lambda>_. finallyIO (catchIO m (show_error b)) (set_local c)) (z, l) = (r, (z', l'))"
  shows "settled a ok b c r l l'"
  by (rule click_settles [where k = "show_error b" and b = b, OF assms(1) _ assms(2)]) (rule show_error_run)

lemma click_quiet:
  assumes "answers m (\<lambda>x. ok)"
    and "bindIO (set_local a) (\<lambda>_. finallyIO (catchIO m (\<lambda>e. set_local (b (e_sd e)))) (set_local c)) (z, l)
      = (r, (z', l'))"
  shows "settled a ok b c r l l'"
  by (rule click_settles [where k = "\<lambda>e. set_local (b (e_sd e))" and b = b, OF assms(1) _ assms(2)])
    (simp add: set_local_def)

end
