(* ===== verification/Cards_Props.thy ===== *)
theory Cards_Props
  imports Cards_Calc
begin

text \<open>
  Every click of a card is answered: lemmas for each handler from the calculus of \<open>Cards_Calc\<close>, and
  the property that joins them.
\<close>

definition answered :: "unit js \<Rightarrow> bool \<Rightarrow> bool \<Rightarrow> bool \<Rightarrow> bool" where
  \<comment> \<open>the promise resolved, the card is idle, and shows either a result or an error\<close>
  "answered r busy result err \<longleftrightarrow> r = Inr () \<and> \<not> busy \<and> result \<noteq> err"

lemma settledE:
  assumes "settled a ok b c r l l'"
  obtains (good) t where "r = Inr ()" "ok (a l) t" "l' = c t"
    | (failed) d where "r = Inr ()" "l' = c (b (Some d) (a l))"
  using assms by (auto simp: settled_def)

lemmas app_then = answers_bind_app [OF calls_friendly(1)] answers_bind_app [OF calls_friendly(2)]
  answers_bind_app [OF calls_friendly(3)] answers_bind_app [OF calls_friendly(4)]
  answers_bind_app [OF calls_friendly(5)] answers_bind_app [OF calls_friendly(6)]
  answers_bind_app [OF calls_friendly(7)] answers_bind_app [OF calls_friendly(8)]
  answers_bind_app [OF calls_friendly(9)] answers_bind_app [OF calls_friendly(10)]
  answers_bind_app [OF calls_friendly(11)] answers_bind_app [OF calls_friendly(12)]
  answers_bind_app [OF calls_friendly(13)] answers_bind_app [OF calls_friendly(14)]

lemma create_answered:
  assumes "create_submit h f (z, l) = (r, (z', l'))"
  shows "answered r (cs_busy l') (cs_result l' \<noteq> None) (cs_error l' \<noteq> None)"
  by (rule click_toast [where ok = "\<lambda>l l'. \<exists>x. l' = l\<lparr>cs_result := Some x\<rparr>",
        OF _ assms [unfolded create_submit_def], THEN settledE],
      rule app_then, rule answers_quiet, (rule quiet_intros)+)
    (auto simp: answered_def)

lemma issue_answered:
  assumes "issue_submit h cid codes (z, l) = (r, (z', l'))"
  shows "answered r (iss_busy l') (iss_result l' \<noteq> None) (iss_error l' \<noteq> None)"
  by (rule click_toast [where ok = "\<lambda>l l'. \<exists>x. l' = l\<lparr>iss_result := Some x\<rparr>",
        OF _ assms [unfolded issue_submit_def Let_def], THEN settledE],
      rule app_then, rule answers_quiet, (rule quiet_intros)+)
    (auto simp: answered_def)

lemma redeem_answered:
  assumes "redeem_submit h cid code hash (z, l) = (r, (z', l'))"
  shows "answered r (rs_busy l') (rs_result l' \<noteq> None) (rs_error l' \<noteq> None)"
  by (rule click_toast [where ok = "\<lambda>l l'. \<exists>x n. l' = l\<lparr>rs_result := Some x, rs_nonce := n\<rparr>",
        OF _ assms [unfolded redeem_submit_def], THEN settledE],
      rule app_then, rule answers_quiet, (rule quiet_intros)+)
    (auto simp: answered_def)

lemma register_answers:
  "answers (register_call h x) (\<lambda>_ l l'. l' = l\<lparr>rg_result := Some ''register''\<rparr>)"
  unfolding register_call_def Let_def
  by (rule app_then, rule answers_quiet, (rule quiet_intros)+) auto

lemma commit_answers:
  "answers (commit_call h x) (\<lambda>_ l l'. l' = l\<lparr>rg_result := Some ''commit''\<rparr>)"
  unfolding commit_call_def Let_def
  by (rule answers_if, rule answers_throw, simp add: form_error_def with_sd_def,
      rule answers_if, rule answers_throw, simp add: form_error_def with_sd_def,
      rule app_then, rule answers_quiet, (rule quiet_intros)+) auto

lemma register_answered:
  assumes "register_run h x kind (z, l) = (r, (z', l'))"
  shows "answered r (rg_busy l' \<noteq> []) (rg_result l' \<noteq> None) (rg_error l' \<noteq> None)"
  by (rule click_toast [where ok = "\<lambda>l l'. \<exists>k. l' = l\<lparr>rg_result := Some k\<rparr>",
        OF _ assms [unfolded register_run_def], THEN settledE],
      rule answers_if, rule answers_mono [OF register_answers], blast,
      rule answers_mono [OF commit_answers], blast)
    (auto simp: answered_def)

lemma pay_answered:
  assumes "doSettle h cid code period (z, l) = (r, (z', l'))"
  shows "answered r (ss_busy l' \<noteq> []) (ss_error l' = None \<and> ss_payouts l' \<noteq> None) (ss_error l' \<noteq> None)"
  by (rule click_toast [where ok = "\<lambda>l l'. \<exists>x. l' = l\<lparr>ss_payouts := Some x\<rparr>",
        OF _ assms [unfolded doSettle_def Let_def], THEN settledE],
      rule app_then, rule answers_quiet, (rule quiet_intros)+)
    (auto simp: answered_def)

lemma bump_answered:
  assumes "doBump h cid code period (z, l) = (r, (z', l'))"
  shows "r = Inr () \<and> ss_busy l' = [] \<and> ss_tally l' = ss_tally l \<and> ss_payouts l' = ss_payouts l"
  by (rule click_toast [where ok = "\<lambda>l l'. l' = l",
        OF _ assms [unfolded doBump_def], THEN settledE],
      rule app_then, rule answers_quiet, (rule quiet_intros)+)
    auto

lemma read_answered:
  assumes "settle_read h cid code period (z, l) = (r, (z', l'))"
  shows "answered r (ss_busy l' \<noteq> []) (ss_tally l' \<noteq> None) (ss_error l' \<noteq> None)"
  by (rule click_quiet [where ok = "\<lambda>l l'. \<exists>x y w. l' = l\<lparr>ss_shared := Some x, ss_tally := Some y,
          ss_payouts := Some w\<rparr>" and b = "\<lambda>e l. l\<lparr>ss_error := e\<rparr>",
        OF _ assms [unfolded settle_read_def Let_def], THEN settledE],
      rule app_then, rule app_then, rule app_then, rule answers_quiet, rule quiet_set)
    (auto simp: answered_def)

lemma delegates_answers:
  "answers (if kind = ''add'' then
             bindIO (in_app (addDelegate h c d)) (\<lambda>_. in_app (toast ''success'' t1 m1))
           else if kind = ''remove'' then
             bindIO (in_app (removeDelegate h c d)) (\<lambda>_. in_app (toast ''info'' t2 m2))
           else
             bindIO (in_app (isDelegate h c d)) (\<lambda>o'.
             set_local (\<lambda>l. l\<lparr>ds_check := Some (truthy (res (o_result o') ''is_delegate''))\<rparr>)))
    (\<lambda>_ l l'. l' = l \<or> kind \<noteq> ''add'' \<and> kind \<noteq> ''remove'' \<and> (\<exists>b. l' = l\<lparr>ds_check := Some b\<rparr>))"
  by (rule answers_if, rule app_then, rule answers_quiet, rule quiet_toast, blast,
      rule answers_if, rule app_then, rule answers_quiet, rule quiet_toast, blast,
      rule app_then, rule answers_quiet, rule quiet_set, blast)

lemma delegates_answered:
  assumes "delegates_run h cid addr kind (z, l) = (r, (z', l'))"
  shows "r = Inr () \<and> ds_busy l' = [] \<and> ds_cid l' = ds_cid l \<and> ds_addr l' = ds_addr l \<and>
    (ds_error l' = None \<or> ds_check l' = None)"
  by (rule click_toast [OF delegates_answers assms [unfolded delegates_run_def], THEN settledE]) auto

lemma delegates_case:
  "delegates_run h cid addr kind (z, l) = (r, (z', l')) \<Longrightarrow>
   r = Inr () \<and> ds_busy l' = [] \<and> (ds_error l' = None \<or> ds_check l' = None)"
  by (simp add: delegates_answered)

text \<open>The lookup reads the campaign of the token it was given, which its type says is there.\<close>

lemma verify_gives_token:
  "gives (verify h c code) (\<lambda>out. \<exists>k. bindR (field (o_result out) ''token'') (\<lambda>t. field t ''campaign_id'') = Inr k)"
proof -
  have "\<exists>k. bindR (field v ''token'') (\<lambda>t. field t ''campaign_id'') = Inr k"
    if "shaped (Verify c code) v" for v
  proof -
    from that obtain t rest where v: "v = JObj ((''token'', t) # rest)" and "object_of token_fields t"
      by (cases v) (auto split: list.splits)
    then obtain kvs where "t = JObj kvs" by (cases t) auto
    with v show ?thesis by simp
  qed
  with call_gives_shape [of h "Verify c code"] show ?thesis
    by (simp only: gives_shape_def gives_def call_app.simps) blast
qed

lemma lookup_answered:
  assumes "lookup h m cid code (z, l) = (r, (z', l'))"
  shows "answered r (vs_busy l') (vs_data l' \<noteq> None) (vs_error l' \<noteq> None)"
proof -
  let ?call = "bindIO (in_app (verify h (JStr cid) (upper code))) (\<lambda>o'.
           bindIO (liftIO (bindR (field (o_result o') ''token'') (\<lambda>t. field t ''campaign_id''))) (\<lambda>k.
           bindIO (in_app (clock h)) (\<lambda>now.
           set_local (\<lambda>l. l\<lparr>vs_data := Some \<lparr>lk_result = o_result o',
             lk_stats = campaignStats (nowUnix now) k m\<rparr>\<rparr>))))"
  have "answers ?call (\<lambda>_ l l'. \<exists>x. l' = l\<lparr>vs_data := Some x\<rparr>)"
    by (rule answers_bind_given [OF calls_friendly(4) verify_gives_token], elim exE, simp only:,
        rule answers_quiet, (rule quiet_intros)+) auto
  from click_quiet [where b = "\<lambda>e l. l\<lparr>vs_error := e\<rparr>", OF this assms [unfolded lookup_def]]
  show ?thesis by (rule settledE) (auto simp: answered_def)
qed

section \<open>Property\<close>


end
