(* ===== verification/Ui_Clicks.thy ===== *)
theory Ui_Clicks
  imports Ui
begin

text \<open>
  The clicks of a tree as equations: the handlers of a list of props, whether it is disabled, and the
  clicks of mapped children. The theories that say what a view offers rewrite with these.
\<close>

fun ons :: "(string \<times> 'e attr) list \<Rightarrow> 'e list" where \<comment> \<open>the handlers without an argument\<close>
  "ons [] = []"
| "ons ((k, On e) # ps) = e # ons ps"
| "ons (p # ps) = ons ps"

lemma ons_eq: "ons ps = concat (map (\<lambda>(k, p). case p of On e \<Rightarrow> [e] | _ \<Rightarrow> []) ps)"
  by (induction ps rule: ons.induct) auto

lemma own_clicks_ons: "own_clicks ps = (if disabled ps then [] else ons ps)"
  by (simp add: own_clicks_def ons_eq)

lemma ons_append [simp]: "ons (ps @ qs) = ons ps @ ons qs"
  by (simp add: ons_eq)

lemma disabled_append [simp]:
  "disabled (ps @ qs) \<longleftrightarrow> (case attr_of qs ''disabled'' of None \<Rightarrow> disabled ps | Some a \<Rightarrow> a = Flag True)"
  by (auto simp: disabled_def attr_of_def map_add_def split: option.split)

lemma disabled_Cons [simp]:
  "disabled (p # ps) \<longleftrightarrow> (case attr_of ps ''disabled'' of Some a \<Rightarrow> a = Flag True
     | None \<Rightarrow> fst p = ''disabled'' \<and> snd p = Flag True)"
  using disabled_append [of "[p]" ps] by (cases p) (auto simp: disabled_def attr_of_def split: option.split)

lemma disabled_Nil [simp]: "\<not> disabled []"
  by (simp add: disabled_def attr_of_def)

lemma attr_of_Nil [simp]: "attr_of [] k = None"
  by (simp add: attr_of_def)

lemma attr_of_Cons [simp]: "attr_of (p # ps) k =
    (case attr_of ps k of Some a \<Rightarrow> Some a | None \<Rightarrow> if fst p = k then Some (snd p) else None)"
  by (cases p) (simp add: attr_of_def map_add_def split: option.split)

lemma all_clicks_concat [simp]:
  "all_clicks (concat (map f xs)) = concat (map (\<lambda>x. all_clicks (f x)) xs)"
  by (induction xs) auto

lemma no_clicks [simp]: "concat (map (\<lambda>x. []) xs) = []"
  by (induction xs) auto

text \<open>A component inside another one: its events are those of the outer one, renamed.\<close>

lemma ons_map: "ons (map (map_prod id (map_attr f)) ps) = map f (ons ps)"
  by (induction ps rule: ons.induct) auto

lemma attr_of_map: "attr_of (map (map_prod id (map_attr f)) ps) k = map_option (map_attr f) (attr_of ps k)"
  by (induction ps) (auto split: option.split)

lemma disabled_map: "disabled (map (map_prod id (map_attr f)) ps) \<longleftrightarrow> disabled ps"
proof -
  have "map_attr f a = Flag True \<longleftrightarrow> a = Flag True" for a by (cases a) auto
  then show ?thesis by (auto simp: disabled_def attr_of_map)
qed

lemma clicks_map_html [simp]: "clicks (map_html f v) = map f (clicks v)"
proof (induction v rule: clicks.induct)
  case (2 tag ps cs)
  then have "concat (map (clicks \<circ> map_html f) cs) = map f (all_clicks cs)"
    by (induction cs) auto
  then show ?case
    by (simp add: own_clicks_ons ons_map disabled_map comp_def)
qed simp

end
