(* ===== verification/Cards_Views.thy ===== *)
theory Cards_Views
  imports Ui_Clicks Play_Props Cards_A Cards_B Cards_C Cards_Tally
begin

text \<open>
  Which events the cards offer: the clicks of the shared elements as equations, then the exact list of
  each card, and the property that a call can be started only from an unlocked, idle card.
\<close>

section \<open>Shared elements\<close>

lemma Ic_icon: "list_all (\<lambda>(n, ps, cs). ons ps = [] \<and> all_clicks cs = []) Ic_table"
  by (simp add: Ic_table_def own_clicks_ons)

lemma clicks_Ic [simp]: "ons p = [] \<Longrightarrow> clicks (Ic n p) = []"
proof -
  assume p: "ons p = []"
  show ?thesis
  proof (cases "map_of Ic_table n :: ((string \<times> 'a attr) list \<times> 'a html list) option")
    case None
    with p show ?thesis by (simp add: Ic_def own_clicks_ons)
  next
    case (Some x)
    then have "(n, x) \<in> set Ic_table" by (rule map_of_SomeD)
    with Ic_icon have "ons (fst x) = [] \<and> all_clicks (snd x) = []"
      by (auto simp: list_all_iff)
    with p Some show ?thesis by (cases x) (simp add: Ic_def own_clicks_ons)
  qed
qed

lemma clicks_Pill [simp]: "clicks (Pill k cs) = all_clicks cs"
  by (simp add: Pill_def own_clicks_ons)

lemma clicks_AuthTag [simp]: "clicks (AuthTag a) = []"
  by (simp add: AuthTag_def own_clicks_ons Let_def split: prod.split option.split)

lemma clicks_Spinner [simp]: "clicks (Spinner sz) = []"
  by (simp add: Spinner_def)

lemma clicks_KV [simp]: "clicks (KV k cs) = all_clicks cs"
  by (simp add: KV_def own_clicks_ons)

lemma clicks_Btn [simp]:
  "clicks (Btn v loading dis small icon [(''onClick'', On e)] cs) =
     (if dis \<or> loading then [] else [e]) @ all_clicks cs @ (if loading then [] else all_clicks icon)"
  by (simp add: Btn_def own_clicks_ons)

lemma clicks_RunCodeTabs [simp]: "clicks (RunCodeTabs tab f) = [f ''run'', f ''code'']"
  by (simp add: RunCodeTabs_def own_clicks_ons)

lemma clicks_LockNotice [simp]: "clicks (LockNotice c e m) = (if c then [] else [e])"
  by (simp add: LockNotice_def own_clicks_ons)

lemma clicks_ErrorPanel [simp]:
  "all_clicks (ErrorPanel err (Some e)) = (if err = None then [] else [e])"
  by (simp add: ErrorPanel_def own_clicks_ons split: option.split)

lemma clicks_ResultPanel [simp]: "clicks (ResultPanel t (Some e) cs) = e # all_clicks cs"
  by (simp add: ResultPanel_def own_clicks_ons)

definition framed :: "string \<Rightarrow> (string \<Rightarrow> 'e) \<Rightarrow> bool \<Rightarrow> bool \<Rightarrow> 'e \<Rightarrow> 'e list \<Rightarrow> 'e list" where
  \<comment> \<open>the events of a card: its tabs, and what the open one offers\<close>
  "framed tab f locked connecting c inner =
     [f ''run'', f ''code''] @
     (if tab = ''run'' then (if locked then (if connecting then [] else [c]) else inner) else [])"

lemma clicks_ActionCard [simp]:
  "clicks (ActionCard tab f connecting c no i t d a locked m sn lb cs) =
     framed tab f locked connecting c (all_clicks cs)"
  by (simp add: ActionCard_def own_clicks_ons framed_def)

section \<open>The cards\<close>

lemma create_clicks:
  "clicks (create_view h st tab l) = framed tab CreateTab (s_wallet st = None) (s_connecting st) CreateConnect
     ((if cs_busy l then [] else [CreateSubmit]) @ (if cs_error l = None then [] else [CreateCloseError]) @
      (if cs_result l = None then [] else [CreateCloseResult]))"
  by (simp add: create_view_def Let_def own_clicks_ons)

lemma redeem_clicks:
  "redeem_view h st tab l = Inr v \<Longrightarrow>
   clicks v = framed tab RedeemTab (s_wallet st = None) (s_connecting st) RedeemConnect
     ((if redeem_blocked l \<or> rs_busy l then [] else [RedeemSubmit]) @
      (if rs_error l = None then [] else [RedeemCloseError]) @
      (if rs_result l = None then [] else [RedeemCloseResult]))"
  unfolding redeem_view_def Let_def bindR_Inr_iff sum.inject
  by (elim exE conjE, hypsubst, simp add: own_clicks_ons all_clicks_if cong: if_cong split del: if_split)
    simp

lemma clicks_statusPill [simp]: "all_clicks (statusPill s) = []"
  by (simp add: statusPill_def)

lemma verify_clicks:
  "verify_view st tab l = Inr v \<Longrightarrow>
   clicks v = framed tab VerifyTab False (s_connecting st) VerifyConnect
     ((if vs_busy l then [] else [VerifyLookup]) @
      (if vs_error l = None then [] else [VerifyCloseError]) @
      (if vs_data l = None then [] else [VerifyCloseData]))"
  unfolding verify_view_def Let_def bindR_Inr_iff sum.inject
  by (elim exE conjE, hypsubst, simp add: own_clicks_ons all_clicks_if cong: if_cong split del: if_split)
    simp

lemma delegates_clicks:
  "clicks (delegates_view st tab l) =
     framed tab DelegTab (s_wallet st = None) (s_connecting st) DelegConnect
      ((if ds_busy l = ''add'' then [] else [DelegRun ''add'']) @
       (if ds_busy l = [] then [DelegRun ''remove'', DelegRun ''check''] else []) @
       (if ds_error l = None then [] else [DelegCloseError]))"
  by (simp add: delegates_view_def Let_def own_clicks_ons comp_def all_clicks_if cong: if_cong split del: if_split)
    simp

lemma register_clicks:
  "clicks (register_view st tab l) =
     framed tab RegTab (s_wallet st = None) (s_connecting st) RegConnect
      ((if rg_busy l = ''register'' then [] else [RegRun ''register'']) @
       (if bad_root l \<or> bad_split l \<or> rg_busy l = ''commit'' then [] else [RegRun ''commit'']) @
       (if rg_error l = None then [] else [RegCloseError]) @
       (if rg_result l = None then [] else [RegCloseResult]))"
  by (simp add: register_view_def Let_def own_clicks_ons comp_def all_clicks_if cong: if_cong split del: if_split)
    simp

lemma settle_clicks:
  "clicks (settle_view st tab l) =
     framed tab SettleTab False (s_connecting st) SettleConnect
      ((if ss_busy l = ''view'' then [] else [SettleView]) @
       (if ss_tally l = None then [] else [SettleCloseTally]) @
       (if s_wallet st = None \<or> ss_busy l = ''bump'' then [] else [SettleBump]) @
       (if s_wallet st = None \<or> ss_busy l = ''settle'' then [] else [SettlePay]) @
       (if ss_error l = None then [] else [SettleCloseError]))"
  by (simp add: settle_view_def Let_def own_clicks_ons comp_def all_clicks_if cong: if_cong split del: if_split)
    simp

text \<open>The chip input raises its own events inside the issuing card.\<close>

lemma chip_clicks: "clicks (ChipInput codes draft) = ChipFocus # map ChipRemove codes @ [ChipBlur]"
proof -
  have "concat (map (\<lambda>c. [ChipRemove c]) codes) = map ChipRemove codes"
    by (induction codes) auto
  then show ?thesis by (simp add: ChipInput_def own_clicks_ons comp_def)
qed

lemma issue_clicks:
  "clicks (issue_view h st tab l) =
     framed tab IssueTab (s_wallet st = None) (s_connecting st) IssueConnect
      ([IssueMode ''chips'', IssueMode ''bulk''] @
       (if iss_mode l = ''chips'' then map IssueChip (ChipFocus # map ChipRemove (iss_codes l) @ [ChipBlur]) else []) @
       (if effCodes l = [] \<or> iss_cid l = [] \<or> iss_busy l then [] else [IssueSubmit]) @
       (if iss_error l = None then [] else [IssueCloseError]) @
       (if iss_result l = None then [] else [IssueCloseResult]))"
  by (simp add: issue_view_def Let_def own_clicks_ons comp_def all_clicks_if chip_clicks case_prod_unfold
      cong: if_cong split del: if_split) simp

section \<open>Properties\<close>

definition unlocked :: "store \<Rightarrow> string \<Rightarrow> bool" where \<comment> \<open>the Run tab, with a wallet\<close>
  "unlocked st tab \<longleftrightarrow> tab = ''run'' \<and> s_wallet st \<noteq> None"


text \<open>
  C25 (error). The handler that commits a tally checks again what its button checks: a root that is not
  64 hexadecimal digits, or unequal counts of an attributed code, is refused before anything is asked
  of the wallet or the network; the world, the mirror and the log are those of before the click, and
  the card shows which of the two it was, with the contract's number for the second.
\<close>

theorem commit_refused:
  "bad_root x \<or> bad_split x \<Longrightarrow>
   \<exists>s'. register_run h x ''commit'' ((p, s), l) = (Inr (), ((p, s'), l\<lparr>rg_busy := [], rg_result := None,
      rg_error := Some (if bad_root x
        then \<lparr>sd_title = ''Invalid Merkle root'', sd_msg = ''A real 32-byte Merkle root is required.'',
              sd_code = Dash\<rparr>
        else \<lparr>sd_title = ''Invalid tally'',
              sd_msg = ''For an attributed code, attributed count must equal total redemptions.'',
              sd_code = Num 17\<rparr>)\<rparr>)) \<and>
      s_state s' = s_state s \<and> s_log s' = s_log s"
  by (auto simp: register_run_def commit_call_def set_local_def finallyIO_def bindIO_run catchIO_run
      form_error_def with_sd_def Error_def show_error_def in_app_def toast_def randomUUID_def on_store_def)

theorem commit_refused_witness:
  "\<exists>s'. register_run (sample_host None) (register_init\<lparr>rg_merkle := replicate 64 (CHR ''a''), rg_attr := ''GME'', rg_count := ''40'',
      rg_attrCount := ''30''\<rparr>) ''commit'' (((0, []), init_store), register_init) = (Inr (), (((0, []), s'),
        register_init\<lparr>rg_error := Some \<lparr>sd_title = ''Invalid tally'',
              sd_msg = ''For an attributed code, attributed count must equal total redemptions.'',
              sd_code = Num 17\<rparr>\<rparr>)) \<and> s_log s' = []"
proof -
  let ?x = "register_init\<lparr>rg_merkle := replicate 64 (CHR ''a''), rg_attr := ''GME'', rg_count := ''40'',
      rg_attrCount := ''30''\<rparr>"
  have root: "\<not> bad_root ?x" unfolding bad_root_def by code_simp
  have split: "bad_split ?x" unfolding bad_split_def by code_simp
  from commit_refused [of ?x "sample_host None" "(0, [])" init_store register_init] root split
  show ?thesis by (auto simp: init_store_def register_init_def)
qed

end
