(* ===== verification/Redeem_Commit.thy ===== *)
theory Redeem_Commit
  imports Machine Play_Props Cards_B
begin

text \<open>
  The commitment of the redeeming card as a state machine: the card's state, the promise whose
  result still counts, and the promises that were overtaken and may resolve at any time. Every change
  of the reference or of the nonce runs the clean-up of the effect and the effect again.
\<close>

definition commitment :: "'w host \<Rightarrow> string \<Rightarrow> string \<Rightarrow> string js" where
  \<comment> \<open>the promise of \<open>SD.redeemerHash(ref, nonce)\<close>, for a nonce that is not empty\<close>
  "commitment h ref nonce = redeemerHash (fst (h_sha256 h)) (snd (h_sha256 h)) None ref nonce"

type_synonym commit_card = "redeem_state \<times> (string \<times> string) option \<times> (string \<times> string) list"

definition overtaken :: "(string \<times> string) option \<Rightarrow> (string \<times> string) list \<Rightarrow> (string \<times> string) list"
  where "overtaken live old = (case live of None \<Rightarrow> old | Some p \<Rightarrow> p # old)"

definition run_effect :: "redeem_state \<Rightarrow> (string \<times> string) option \<Rightarrow> (string \<times> string) list \<Rightarrow> commit_card"
  where
  "run_effect l live old = (case hash_start l of (l', started) \<Rightarrow> (l', started, overtaken live old))"

inductive commit_step :: "'w host \<Rightarrow> commit_card \<Rightarrow> commit_card \<Rightarrow> bool" for h where
  typed: "v \<noteq> rs_ref l \<Longrightarrow> commit_step h (l, live, old) (run_effect (redeem_set (RedeemRef v) l) live old)"
| nonce: "n \<noteq> rs_nonce l \<Longrightarrow> commit_step h (l, live, old) (run_effect (l\<lparr>rs_nonce := n\<rparr>) live old)"
| resolved: "commit_step h (l, Some (r, n), old) (hash_done True (commitment h r n) l, None, old)"
| stale: "p \<in> set old \<Longrightarrow>
    commit_step h (l, live, old) (hash_done False (commitment h (fst p) (snd p)) l, live, remove1 p old)"
| other: "rs_ref l' = rs_ref l \<Longrightarrow> rs_nonce l' = rs_nonce l \<Longrightarrow> rs_hash l' = rs_hash l \<Longrightarrow>
    rs_hashError l' = rs_hashError l \<Longrightarrow> commit_step h (l, live, old) (l', live, old)"

definition mounted :: "byte list option \<Rightarrow> commit_card" where
  "mounted random = run_effect (redeem_init random) None []"

definition nothing_to_hash :: "redeem_state \<Rightarrow> bool" where
  "nothing_to_hash l \<longleftrightarrow> trim (rs_ref l) = [] \<or> rs_nonce l = []"

definition commit_inv :: "'w host \<Rightarrow> commit_card \<Rightarrow> bool" where
  "commit_inv h z = (case z of (l, live, old) \<Rightarrow>
     (case live of
        Some (r, n) \<Rightarrow> r = rs_ref l \<and> n = rs_nonce l \<and> \<not> nothing_to_hash l \<and> rs_hashError l = None
      | None \<Rightarrow>
          if nothing_to_hash l then rs_hash l = ZERO32 \<and> rs_hashError l = None
          else (case commitment h (rs_ref l) (rs_nonce l) of
                  Inr x \<Rightarrow> rs_hash l = x \<and> rs_hashError l = None
                | Inl e \<Rightarrow> rs_hash l = ZERO32 \<and> rs_hashError l \<noteq> None)))"

lemma run_effect_inv: "commit_inv h (run_effect l live old)"
  by (simp add: run_effect_def hash_start_def Let_def commit_inv_def nothing_to_hash_def)

lemma commit_step_inv: "commit_step h z z' \<Longrightarrow> commit_inv h z \<Longrightarrow> commit_inv h z'"
proof (induction rule: commit_step.induct)
  case (resolved l r n old)
  then show ?case
    by (auto simp: commit_inv_def hash_done_def nothing_to_hash_def split: sum.split)
next
  case (stale p old l live)
  then show ?case by (simp add: commit_inv_def hash_done_def)
next
  case (other l' l live old)
  then show ?case by (auto simp: commit_inv_def nothing_to_hash_def split: option.splits sum.splits)
qed (rule run_effect_inv)+

interpretation cm: invariant_machine "commit_step h" "commit_inv h" for h :: "'w host"
  by unfold_locales (rule commit_step_inv)

inductive_simps commit_step_iff: "commit_step h (l, live, old) z"

section \<open>Properties\<close>

text \<open>
  C22 (invariant). The hash sent is the commitment of what is on the screen: in every run of the card
  (typing, new nonces, promises that resolve in any order, overtaken ones included), once no
  promise is in flight a card that lets the user redeem holds the SHA-256 commitment of its own
  reference and nonce, and never the zero placeholder.
\<close>

theorem commitment_current:
  "(commit_step h)\<^sup>*\<^sup>* (mounted random) (l, None, old) \<Longrightarrow> \<not> redeem_blocked l \<Longrightarrow>
   commitment h (rs_ref l) (rs_nonce l) = Inr (rs_hash l) \<and> rs_hash l \<noteq> ZERO32"
proof -
  assume run: "(commit_step h)\<^sup>*\<^sup>* (mounted random) (l, None, old)" and free: "\<not> redeem_blocked l"
  have "commit_inv h (mounted random)" unfolding mounted_def by (rule run_effect_inv)
  with cm.run_inv [OF run] have "commit_inv h (l, None, old)" .
  then show ?thesis using free
    by (auto simp: commit_inv_def redeem_blocked_def split: if_splits sum.splits)
qed

text \<open>A concrete run: mounting the card, and its first promise resolving.\<close>

definition demo_host :: "nat host" where \<comment> \<open>a digest that depends on the length of its input\<close>
  "demo_host = (sample_host None)\<lparr>h_sha256 :=
     (map (\<lambda>c. word_of_int (char_code c)), Some (\<lambda>bs. replicate 32 (word_of_nat (length bs))))\<rparr>"

definition demo_random :: "byte list option" where "demo_random = Some (replicate 16 7)"

definition demo_card :: redeem_state where
  "demo_card = (redeem_init demo_random)\<lparr>rs_hash := concat (replicate 32 ''2b'')\<rparr>"

lemma demo_run: "(commit_step demo_host)\<^sup>*\<^sup>* (mounted demo_random) (demo_card, None, [])"
proof -
  have m: "mounted demo_random = (redeem_init demo_random, Some (''order-8842'', rs_nonce (redeem_init demo_random)), [])"
    by code_simp
  have "hash_done True (commitment demo_host ''order-8842'' (rs_nonce (redeem_init demo_random)))
      (redeem_init demo_random) = demo_card"
    by code_simp
  with commit_step.resolved [of demo_host "redeem_init demo_random" "''order-8842''"
      "rs_nonce (redeem_init demo_random)" "[]"] show ?thesis
    unfolding m by (simp add: r_into_rtranclp)
qed

theorem commitment_current_witness:
  "commitment demo_host ''order-8842'' (rs_nonce demo_card) = Inr (rs_hash demo_card)"
proof -
  have "\<not> redeem_blocked demo_card" by code_simp
  from commitment_current [OF demo_run this] show ?thesis by (simp add: demo_card_def redeem_init_def)
qed

text \<open>
  The window before the promise resolves: after the reference was edited the card still holds the
  commitment of the old one, and its button is enabled.
\<close>

lemma stale_commitment:
  "\<exists>l p. (commit_step demo_host)\<^sup>*\<^sup>* (mounted demo_random) (l, Some p, []) \<and> \<not> redeem_blocked l \<and>
     commitment demo_host (rs_ref l) (rs_nonce l) \<noteq> Inr (rs_hash l)"
proof -
  let ?l = "demo_card\<lparr>rs_ref := ''me''\<rparr>"
  have "commit_step demo_host (demo_card, None, []) (run_effect (redeem_set (RedeemRef ''me'') demo_card) None [])"
    by (rule commit_step.typed) (simp add: demo_card_def redeem_init_def)
  moreover have "run_effect (redeem_set (RedeemRef ''me'') demo_card) None [] =
      (?l, Some (''me'', rs_nonce demo_card), [])" by code_simp
  ultimately have "(commit_step demo_host)\<^sup>*\<^sup>* (mounted demo_random) (?l, Some (''me'', rs_nonce demo_card), [])"
    using demo_run by (metis rtranclp.rtrancl_into_rtrancl)
  moreover have "\<not> redeem_blocked ?l" by code_simp
  moreover have "commitment demo_host (rs_ref ?l) (rs_nonce ?l) \<noteq> Inr (rs_hash ?l)" by code_simp
  ultimately show ?thesis by blast
qed

end
