(* ===== verification/Ui_Props.thy ===== *)
theory Ui_Props
  imports "HOL-Library.Sublist" Machine Cards_A
begin

text \<open>
  The highlighter shows no character that the code does not have, in its order, and loses none where
  no quote and no digit occurs; what it loses elsewhere is in the examples. The chip input keeps codes
  that are clean, whatever is typed, pasted or removed.
\<close>

section \<open>The highlighter\<close>

lemma token_at_take:
  assumes "token_at p s = Some k"
  shows "\<exists>m. token_text k = take m s"
proof -
  obtain c t where s: "s = c # t" using assms by (cases s) (auto simp: token_at_def)
  consider (str) n where "k = Str (take (n + 1) s)" | (numb) "k = Numb (take (number_len s) s)"
    | (word) P where "k = Word (c # takeWhile P t)" | (blank) "k = Blank (takeWhile ws s)" | (other) "k = Other c"
    using assms unfolding s token_at_def by (auto split: if_splits simp del: take_Suc_Cons)
  then show ?thesis
  proof cases
    case word
    then have "token_text k = take (Suc (length (takeWhile P t))) s"
      by (simp add: s takeWhile_eq_take [symmetric])
    then show ?thesis ..
  next
    case blank
    then have "token_text k = take (length (takeWhile ws s)) s"
      by (simp add: takeWhile_eq_take [symmetric])
    then show ?thesis ..
  next
    case other
    then have "token_text k = take 1 s" by (simp add: s)
    then show ?thesis ..
  qed (simp_all only: token_text.simps, blast+)
qed

lemma token_at_prefix: "token_at p s = Some k \<Longrightarrow> token_text k = take (length (token_text k)) s"
  using token_at_take [of p s k] by (auto simp: min_def)

lemma tokens_subseq: "subseq (concat (map token_text (tokenize p s))) s"
proof (induction p s rule: tokenize.induct)
  case (2 prev c s)
  show ?case
  proof (cases "token_at prev (c # s)")
    case None
    with 2(1) show ?thesis by (simp add: list_emb_Cons)
  next
    case (Some k)
    let ?n = "length (token_text k)"
    have "subseq (token_text k @ concat (map token_text (tokenize (Some (last (token_text k))) (drop ?n (c # s)))))
        (take ?n (c # s) @ drop ?n (c # s))"
      using 2(2) [OF Some] token_at_prefix [OF Some] by (metis list_emb_append_mono subseq_order.order_refl)
    with Some show ?thesis by simp
  qed
qed simp

lemma token_html_text [simp]: "text_of (token_html k) = token_text k"
  by (cases k) auto

definition line_shown :: "string \<Rightarrow> string" where \<comment> \<open>the text of a highlighted line\<close>
  "line_shown line = text_of (highlight_line line :: unit html)"

definition parts_of :: "string \<Rightarrow> string \<times> string" where
  "parts_of line = (case comment_at line None 0 of Some k \<Rightarrow> (take k line, drop k line) | None \<Rightarrow> (line, []))"

lemma parts_of_line: "parts_of line = (a, b) \<Longrightarrow> line = a @ b"
  by (auto simp: parts_of_def split: option.splits)

lemma line_shown_parts:
  assumes "parts_of line = (a, b)"
  shows "line_shown line = (let t = concat (map token_text (tokenize None a)) @ b in
    if tokenize None a = [] \<and> b = [] then [CHR 0xA0] else t)"
proof -
  have "text_of \<circ> (token_html :: token \<Rightarrow> unit html) = token_text" by (rule ext) simp
  with assms show ?thesis
    by (cases "b = []") (simp_all add: line_shown_def highlight_line_def parts_of_def [symmetric] Let_def)
qed

lemma plain_token:
  assumes "\<not> quote_char c" "\<not> digit c"
  shows "token_at p (c # s) \<noteq> None"
  using assms by (simp add: token_at_def)

lemma plain_tokens:
  "\<forall>c\<in>set s. \<not> quote_char c \<and> \<not> digit c \<Longrightarrow> concat (map token_text (tokenize p s)) = s"
proof (induction p s rule: tokenize.induct)
  case (2 prev c s)
  obtain k where k: "token_at prev (c # s) = Some k"
    using plain_token [of c prev s] 2(3) by auto
  let ?n = "length (token_text k)"
  have "\<forall>c\<in>set (drop ?n (c # s)). \<not> quote_char c \<and> \<not> digit c"
    using 2(3) set_drop_subset [of ?n "c # s"] by blast
  from 2(2) [OF k this] token_at_prefix [OF k] k show ?case
    by simp (metis append_take_drop_id)
qed simp

section \<open>The chip input\<close>

definition chip_code :: "string \<Rightarrow> bool" where
  \<comment> \<open>not empty, no blank, no comma, in capitals\<close>
  "chip_code c \<longleftrightarrow> c \<noteq> [] \<and> list_all (\<lambda>x. \<not> ws x \<and> x \<noteq> CHR '','' \<and> upper_char x = [x]) c"

lemma code_of_char [simp]: "0 \<le> n \<Longrightarrow> n < 256 \<Longrightarrow> char_code (char_of n) = n"
  by (simp add: char_code_def take_bit_eq_mod)

lemma not_comma [simp]:
  assumes "0 \<le> (n::int)" "n < 256" "n \<noteq> 44"
  shows "char_of n \<noteq> CHR '',''"
proof
  assume "char_of n = CHR '',''"
  then have "char_code (char_of n) = 44" by (simp add: char_code_def)
  with assms show False by simp
qed

lemma upper_char_all:
  "list_all (\<lambda>y. upper_char y = [y] \<and> (ws y \<longrightarrow> ws c) \<and> (y = CHR '','' \<longrightarrow> c = CHR '','')) (upper_char c)
   \<and> upper_char c \<noteq> []"
proof -
  define n where "n = char_code c"
  consider "97 \<le> n \<and> n \<le> 122 \<or> 224 \<le> n \<and> n \<le> 254 \<and> n \<noteq> 247" | "n = 223" | "n = 255"
    | "n = 154 \<or> n = 156 \<or> n = 158"
    | "\<not> (97 \<le> n \<and> n \<le> 122 \<or> 224 \<le> n \<and> n \<le> 254 \<and> n \<noteq> 247)" "n \<noteq> 223" "n \<noteq> 255"
      "\<not> (n = 154 \<or> n = 156 \<or> n = 158)" by blast
  then show ?thesis
  proof cases
    case 1
    then have u: "upper_char c = [char_of (n - 32)]" by (simp add: upper_char_def Let_def n_def)
    have m: "char_code (char_of (n - 32)) = n - 32" using 1 by auto
    have "char_of (n - 32) \<noteq> CHR '',''" using 1 by auto
    with 1 u m show ?thesis by (auto simp: upper_char_def Let_def ws_def)
  next
    case 2
    then show ?thesis by (simp add: upper_char_def Let_def n_def ws_def char_code_def)
  next
    case 3
    then show ?thesis by (simp add: upper_char_def Let_def n_def ws_def char_code_def)
  next
    case 4
    then show ?thesis by (elim disjE) (simp_all add: upper_char_def Let_def n_def ws_def char_code_def)
  next
    case 5
    then have "upper_char c = [c]" unfolding upper_char_def Let_def n_def [symmetric] by auto
    then show ?thesis by simp
  qed
qed

lemma chip_code_clean:
  assumes "\<forall>x\<in>set s. \<not> ws x \<and> x \<noteq> CHR '',''" and "clean_code s \<noteq> []"
  shows "chip_code (clean_code s)"
proof -
  from assms(1) have t: "trim s = s" by (simp add: trim_id)
  have "list_all (\<lambda>x. \<not> ws x \<and> x \<noteq> CHR '','' \<and> upper_char x = [x]) (upper_char c)" if "c \<in> set s" for c
    using that assms(1) upper_char_all [of c] by (auto simp: list_all_iff)
  then show ?thesis using assms(2) by (auto simp: chip_code_def clean_code_def t toUpperCase_def list_all_iff)
qed

lemma chip_commit_clean:
  assumes "\<forall>c\<in>set codes. chip_code c" and "c \<in> set (fst (chip_commit raw codes))"
  shows "chip_code c"
proof -
  let ?sep = "\<lambda>c. ws c \<or> c = CHR '',''"
  have "chip_code (clean_code w)" if "w \<in> set (split_runs ?sep raw)" "clean_code w \<noteq> []" for w
    using that split_runs_no_sep [OF that(1)] by (intro chip_code_clean) auto
  with assms show ?thesis by (auto simp: chip_commit_def Let_def split: if_splits)
qed

definition chips_ok :: "string list \<times> string \<Rightarrow> bool" where
  "chips_ok z \<longleftrightarrow> (\<forall>c\<in>set (fst z). chip_code c)"

definition chip_step :: "string list \<times> string \<Rightarrow> string list \<times> string \<Rightarrow> bool" where
  "chip_step z z' \<longleftrightarrow> (\<exists>e. z' = chip_set e z)"

lemma chip_set_ok: "chips_ok z \<Longrightarrow> chips_ok (chip_set e z)"
  by (cases z; cases e)
    (auto simp: chips_ok_def dest: chip_commit_clean in_set_butlastD)

interpretation ch: invariant_machine chip_step chips_ok
  by unfold_locales (auto simp: chip_step_def chip_set_ok)

section \<open>Properties\<close>

text \<open>
  What a code block shows of a line is part of it: the characters shown are a
  subsequence of the line, or the single blank of an empty one, and a line without quotes and digits
  is shown whole.
\<close>

theorem highlight_shows_code:
  "(subseq (line_shown line) line \<or> line_shown line = [CHR 0xA0]) \<and>
   (line \<noteq> [] \<longrightarrow> (\<forall>c\<in>set line. \<not> quote_char c \<and> \<not> digit c) \<longrightarrow> line_shown line = line)"
proof -
  obtain a b where p: "parts_of line = (a, b)" by (cases "parts_of line")
  note line = parts_of_line [OF p] and shown = line_shown_parts [OF p]
  have "subseq (concat (map token_text (tokenize None a)) @ b) line"
    unfolding line by (intro list_emb_append_mono tokens_subseq) simp
  with shown have one: "subseq (line_shown line) line \<or> line_shown line = [CHR 0xA0]"
    by (simp add: Let_def)
  have "line_shown line = line" if "line \<noteq> []" "\<forall>c\<in>set line. \<not> quote_char c \<and> \<not> digit c"
  proof -
    from that(2) line have t: "concat (map token_text (tokenize None a)) = a" by (intro plain_tokens) auto
    have "\<not> (tokenize None a = [] \<and> b = [])" using that(1) t line by auto
    with shown t line show ?thesis by (auto simp: Let_def)
  qed
  with one show ?thesis by blast
qed

theorem highlight_shows_code_witness:
  "subseq (line_shown ''ctx, err := client.Verify(ctx)'') ''ctx, err := client.Verify(ctx)'' \<and>
   line_shown ''ctx, err := client.Verify(ctx)'' = ''ctx, err := client.Verify(ctx)''"
proof -
  let ?l = "''ctx, err := client.Verify(ctx)''"
  have "\<forall>c\<in>set ?l. \<not> quote_char c \<and> \<not> digit c" by code_simp
  with highlight_shows_code [of ?l] have "line_shown ?l = ?l" by blast
  then show ?thesis by simp
qed

text \<open>
  What it loses: a digit glued to letters, as at the start of many commitments, and a quote that is not
  closed. The copied text is the code itself.
\<close>

lemma highlight_loses:
  "line_shown ''--redeemer_ref_hash 9f86d081'' = ''--redeemer_ref_hash f86d081''"
  "line_shown ([CHR 0x27] @ ''Joe'' @ [CHR 0x27] @ ''s'' @ [CHR 0x27]) = [CHR 0x27] @ ''Joe'' @ [CHR 0x27] @ ''s''"
  by code_simp+

text \<open>
  The codes of the chip input are clean: starting from the codes of the card, whatever
  is typed, pasted, entered or removed, every code is not empty, has no blank and no comma and is in
  capitals, so the codes sent are the ones shown.
\<close>

theorem chips_clean:
  "chip_step\<^sup>*\<^sup>* (iss_codes issue_init, []) (codes, draft) \<Longrightarrow> c \<in> set codes \<Longrightarrow>
   chip_code c \<and> clean_code c = c"
proof -
  assume run: "chip_step\<^sup>*\<^sup>* (iss_codes issue_init, []) (codes, draft)" and c: "c \<in> set codes"
  have "list_all chip_code (iss_codes issue_init)" by code_simp
  then have "chips_ok (iss_codes issue_init, [])" by (simp add: chips_ok_def list_all_iff)
  with ch.run_inv [OF run] c have ok: "chip_code c" by (simp add: chips_ok_def)
  then have t: "trim c = c" by (intro trim_id) (simp add: chip_code_def list_all_iff)
  have "concat (map upper_char xs) = xs" if "list_all (\<lambda>x. upper_char x = [x]) xs" for xs
    using that by (induction xs) auto
  with ok t show ?thesis by (simp add: clean_code_def toUpperCase_def chip_code_def list_all_iff)
qed

theorem chips_clean_witness:
  "chip_code ''G7'' \<and> clean_code ''G7'' = ''G7''"
proof -
  let ?z = "(iss_codes issue_init, [])"
  have paste: "chip_set (ChipPaste ''g7,x'') ?z = ([''DEMO0003'', ''DEMO0004'', ''G7'', ''X''], [])"
    by code_simp
  then have "chip_step ?z ([''DEMO0003'', ''DEMO0004'', ''G7'', ''X''], [])"
    unfolding chip_step_def by (intro exI [of _ "ChipPaste ''g7,x''"]) (rule paste [symmetric])
  then have "chip_step\<^sup>*\<^sup>* ?z ([''DEMO0003'', ''DEMO0004'', ''G7'', ''X''], [])" by (rule r_into_rtranclp)
  from chips_clean [OF this, of "''G7''"] show ?thesis by simp
qed

text \<open>A code pasted twice at once is kept twice: only the codes already there are compared.\<close>

lemma chips_repeat: "chip_set (ChipPaste ''a,a'') ([], []) = ([''A'', ''A''], [])"
  by code_simp

end
