(* ===== verification/Console_Api.thy ===== *)
theory Console_Api
  imports Js_Json Js_Io
begin

text \<open>
  The console's client of the cloud service (\<open>cloud/console/src/api.js\<close>). The service is a
  parameter: \<open>c_fetch\<close> answers a request or rejects, as the network does. The requests sent are kept in
  the state, with the environment the client is in, what \<open>localStorage\<close> holds of it, and how many
  identifiers \<open>crypto.randomUUID\<close> has given. The texts a locale decides are parameters too.

  \<open>get\<close> reads a property of an object the service answered and of nothing else; the lists in its
  answers hold objects, and what it shows as addresses, roots and hashes are strings.
\<close>

section \<open>The service and the state\<close>

record request =
  rq_method :: string
  rq_path :: string
  rq_headers :: "(string \<times> string) list"
  rq_body :: "string option"

record reply =
  rp_ok :: bool
  rp_status :: int
  rp_text :: "string js"

record 'w console =
  c_fetch :: "request \<Rightarrow> 'w \<Rightarrow> reply js \<times> 'w"
  c_uuid :: "nat \<Rightarrow> string"
  c_number :: "nat \<Rightarrow> jnum \<Rightarrow> string" \<comment> \<open>\<open>toLocaleString\<close> with at most so many decimals\<close>
  c_big :: "int \<Rightarrow> string" \<comment> \<open>\<open>toLocaleString\<close> of a big integer\<close>
  c_time :: "jnum \<Rightarrow> string" \<comment> \<open>of milliseconds: hour and minute\<close>
  c_date :: "jnum \<Rightarrow> string" \<comment> \<open>month and day\<close>
  c_date_time :: "jnum \<Rightarrow> string"

record 'w client =
  cl_world :: 'w
  cl_env :: string \<comment> \<open>\<open>currentEnv\<close>\<close>
  cl_saved :: "string option" \<comment> \<open>\<open>sd_env\<close> of the local storage\<close>
  cl_sent :: "request list"
  cl_uuids :: nat

type_synonym ('w, 'a) api = "('w client, 'a) io"

definition stored_env :: "string option \<Rightarrow> string" where
  "stored_env saved = (case saved of Some e \<Rightarrow> if e = [] then ''test'' else e | None \<Rightarrow> ''test'')"

definition getEnv :: "('w, string) api" where
  "getEnv = getIO cl_env"

definition setEnv :: "string \<Rightarrow> ('w, unit) api" where
  "setEnv e = modifyIO (\<lambda>s. s\<lparr>cl_env := e, cl_saved := Some e\<rparr>)"

definition fetch :: "'w console \<Rightarrow> request \<Rightarrow> ('w, reply) api" where
  "fetch h q = (\<lambda>s. case c_fetch h q (cl_world s) of
     (r, w) \<Rightarrow> (r, s\<lparr>cl_world := w, cl_sent := cl_sent s @ [q]\<rparr>))"

section \<open>Errors\<close>

definition api_error :: "jval \<Rightarrow> int \<Rightarrow> jserr" where
  \<comment> \<open>the error that \<open>throw new ApiError(problem, status)\<close> throws: reading from null throws first\<close>
  "api_error problem status =
     (case field problem ''message'' of
        Inl e \<Rightarrow> e
      | Inr m \<Rightarrow>
          (let prob = (\<lambda>k. case field problem k of Inr v \<Rightarrow> v | Inl _ \<Rightarrow> JUndef) in
           (Error (js_String (js_or m (JStr (''HTTP '' @ int_str status)))))
             \<lparr>e_api := Some \<lparr>ap_status = JNum (num status), ap_code = js_or (prob ''code'') (JNum (Fin 0)),
                             ap_name = js_or (prob ''name'') (JStr ''ApiError'')\<rparr>\<rparr>))"

definition err_code :: "jserr \<Rightarrow> jval" where \<comment> \<open>\<open>e.code\<close>\<close>
  "err_code e = (case e_api e of Some a \<Rightarrow> ap_code a | None \<Rightarrow> JUndef)"

definition err_name :: "jserr \<Rightarrow> jval" where \<comment> \<open>\<open>e.name\<close>\<close>
  "err_name e = (case e_api e of Some a \<Rightarrow> ap_name a | None \<Rightarrow> JStr (e_class e))"

section \<open>Requests\<close>

definition reply_data :: "string \<Rightarrow> jval" where
  "reply_data t =
     (if t = [] then JObj []
      else case json_parse t of Some v \<Rightarrow> v | None \<Rightarrow> JObj [(''message'', JStr t)])"

definition spread :: "(string \<times> 'v) list \<Rightarrow> (string \<times> 'v) list \<Rightarrow> (string \<times> 'v) list" where
  "spread o1 o2 = foldl (\<lambda>ob (k, v). obj_put k v ob) o1 o2"

definition headers_of :: "string \<Rightarrow> (string \<times> string) list \<Rightarrow> jval \<Rightarrow> (string \<times> string) list" where
  "headers_of env extra body =
     (let hs = spread [(''X-Env'', env)] extra in
      if body \<noteq> JUndef then obj_put ''Content-Type'' ''application/json'' hs else hs)"

definition req ::
  "'w console \<Rightarrow> string \<Rightarrow> string \<Rightarrow> jval \<Rightarrow> (string \<times> string) list \<Rightarrow> ('w, jval) api" where
  "req h method path body extra =
     bindIO (getIO (\<lambda>s. headers_of (cl_env s) extra body)) (\<lambda>headers.
     bindIO (liftIO (if body = JUndef then Inr None else json_stringify body)) (\<lambda>text.
     bindIO (fetch h \<lparr>rq_method = method, rq_path = ''/api'' @ path, rq_headers = headers,
                      rq_body = text\<rparr>) (\<lambda>res.
     bindIO (liftIO (rp_text res)) (\<lambda>t.
     let data = reply_data t in
     if \<not> rp_ok res then throwIO (api_error data (rp_status res)) else returnIO data))))"

definition api_get :: "'w console \<Rightarrow> string \<Rightarrow> ('w, jval) api" where
  "api_get h p = req h ''GET'' p JUndef []"

definition api_post :: "'w console \<Rightarrow> string \<Rightarrow> jval \<Rightarrow> ('w, jval) api" where
  "api_post h p body = req h ''POST'' p (nullish_or body (JObj [])) []"

definition postIdem :: "'w console \<Rightarrow> string \<Rightarrow> jval \<Rightarrow> string \<Rightarrow> ('w, jval) api" where
  "postIdem h p body key = req h ''POST'' p (nullish_or body (JObj [])) [(''Idempotency-Key'', key)]"

definition idemKey :: "'w console \<Rightarrow> ('w, string) api" where
  "idemKey h = (\<lambda>s. (Inr (c_uuid h (cl_uuids s)), s\<lparr>cl_uuids := Suc (cl_uuids s)\<rparr>))"

section \<open>Formatting\<close>

definition get :: "jval \<Rightarrow> string \<Rightarrow> jval" where \<comment> \<open>\<open>v.k\<close> of an object, \<open>v?.k\<close>\<close>
  "get v k = (case v of JObj kvs \<Rightarrow> (case map_of kvs k of Some x \<Rightarrow> x | None \<Rightarrow> JUndef) | _ \<Rightarrow> JUndef)"

definition items :: "jval \<Rightarrow> jval list" where \<comment> \<open>of \<open>v || []\<close>\<close>
  "items v = (case v of JArr vs \<Rightarrow> vs | _ \<Rightarrow> [])"

definition trunc_c :: "nat \<Rightarrow> nat \<Rightarrow> jval \<Rightarrow> string" where
  "trunc_c a b v =
     (case v of
        JStr s \<Rightarrow> if length s \<le> a + b + 1 then s else take a s @ [CHR 0x85] @ slice_last s b
      | _ \<Rightarrow> [])"

definition over :: "jnum \<Rightarrow> int \<Rightarrow> jnum" where \<comment> \<open>\<open>n / k\<close>, for a positive constant \<open>k\<close>\<close>
  "over n k = (case n of Fin a \<Rightarrow> to_double (a / of_int k) | _ \<Rightarrow> n)"

definition times :: "jnum \<Rightarrow> int \<Rightarrow> jnum" where \<comment> \<open>\<open>n * k\<close>, for a positive constant \<open>k\<close>\<close>
  "times n k = (case n of Fin a \<Rightarrow> to_double (a * of_int k) | _ \<Rightarrow> n)"

definition fmtCr :: "'w console \<Rightarrow> jval \<Rightarrow> string" where
  "fmtCr h mcr =
     (let cr = over (js_Number mcr) 1000 in c_number h (if jless cr (Fin 10) then 1 else 0) cr)"

definition decimal_parts :: "string \<Rightarrow> (string \<times> string) option" where
  \<comment> \<open>the groups of \<open>/^(\d+)(?:\.(\d+))?$/\<close>, the second one empty when it is missing\<close>
  "decimal_parts s =
     (if takeWhile digit s = [] then None
      else case dropWhile digit s of
        [] \<Rightarrow> Some (takeWhile digit s, [])
      | c # f \<Rightarrow> if c = CHR ''.'' \<and> all_digits f then Some (takeWhile digit s, f) else None)"

definition decimalToBaseUnits :: "jval \<Rightarrow> int \<Rightarrow> string js" where
  "decimalToBaseUnits v decimals =
     (case decimal_parts (trim (js_String (nullish_or v (JStr [])))) of
        None \<Rightarrow> Inl (RangeError ''Enter a non-negative decimal amount.'')
      | Some (w, f) \<Rightarrow>
          if decimals < 0 \<or> 18 < decimals then Inl (RangeError ''Enter a non-negative decimal amount.'')
          else if decimals < int (length f)
          then Inl (RangeError (''Amount supports at most '' @ int_str decimals @ '' decimal places.''))
          else
            let fr = padEnd f (nat decimals) (CHR ''0'') in
            Inr (dec (dec_num w * 10 ^ nat decimals + dec_num (if fr = [] then ''0'' else fr))))"

definition big_lit :: "string \<Rightarrow> int option" where \<comment> \<open>a text as a big integer\<close>
  "big_lit s0 =
     (case trim s0 of
        [] \<Rightarrow> Some 0
      | c # s \<Rightarrow>
          if c = CHR ''-'' then (if all_digits s then Some (- dec_num s) else None)
          else if c = CHR ''+'' then (if all_digits s then Some (dec_num s) else None)
          else if all_digits (c # s) then Some (dec_num (c # s))
          else map_option floor (radix_literal (c # s)))"

definition js_BigInt :: "jval \<Rightarrow> int js" where
  "js_BigInt v =
     (case v of
        JBig i \<Rightarrow> Inr i
      | JBool b \<Rightarrow> Inr (if b then 1 else 0)
      | JNum (Fin r) \<Rightarrow> if integral r then Inr \<lfloor>r\<rfloor> else Inl (RangeError ''not an integer'')
      | JNum _ \<Rightarrow> Inl (RangeError ''not an integer'')
      | JUndef \<Rightarrow> Inl (TypeError ''Cannot convert undefined to a BigInt'')
      | JNull \<Rightarrow> Inl (TypeError ''Cannot convert null to a BigInt'')
      | _ \<Rightarrow> (case big_lit (js_String v) of
                Some i \<Rightarrow> Inr i
              | None \<Rightarrow> Inl (Error (''Cannot convert '' @ js_String v @ '' to a BigInt''))))"

definition fmtUnits :: "'w console \<Rightarrow> jval \<Rightarrow> string" where
  "fmtUnits h base =
     (case js_BigInt (nullish_or base (JNum (Fin 0))) of
        Inl _ \<Rightarrow> [CHR 0x97]
      | Inr value \<Rightarrow>
          (let negative = value < 0; absolute = (if negative then - value else value);
               hundredths = (absolute + 50000) div 100000; whole = hundredths div 100;
               fraction = padStart (dec (hundredths mod 100)) 2 (CHR ''0'')
           in (if negative then ''-'' else []) @ c_big h whole @ ''.'' @ fraction))"

definition fmtTime :: "'w console \<Rightarrow> jval \<Rightarrow> string" where
  "fmtTime h ts = c_time h (times (js_Number ts) 1000)"

definition fmtDate :: "'w console \<Rightarrow> jval \<Rightarrow> string" where
  "fmtDate h ts = c_date h (times (js_Number ts) 1000)"

definition fmtDateTime :: "'w console \<Rightarrow> jval \<Rightarrow> string" where
  "fmtDateTime h ts = c_date_time h (times (js_Number ts) 1000)"

definition expertTx :: "string \<Rightarrow> string" where
  "expertTx hash = ''https://stellar.expert/explorer/testnet/tx/'' @ hash"

definition expertAccount :: "string \<Rightarrow> string" where
  "expertAccount addr = ''https://stellar.expert/explorer/testnet/account/'' @ addr"

section \<open>Amounts\<close>

lemma decimal_parts_Some:
  assumes "decimal_parts s = Some (w, f)"
  shows "all_digits w" "f = [] \<or> all_digits f" "s = w @ (if f = [] then [] else CHR ''.'' # f)"
proof -
  have s: "w = takeWhile digit s" "dropWhile digit s = (if f = [] then [] else CHR ''.'' # f)"
    using assms by (auto simp: decimal_parts_def all_digits_def split: list.splits if_splits)
  have d: "list_all digit (takeWhile digit s)" by (auto simp: list_all_iff dest: set_takeWhileD)
  from assms d show "all_digits w" "f = [] \<or> all_digits f"
    by (auto simp: decimal_parts_def all_digits_def split: list.splits if_splits)
  from s takeWhile_dropWhile_id [of digit s] show "s = w @ (if f = [] then [] else CHR ''.'' # f)"
    by simp
qed

lemma not_digit_dot [simp]: "\<not> digit (CHR ''.'')"
  by (simp add: digit_def char_code_def)

lemma decimal_parts_intro:
  assumes "all_digits w" "f = [] \<or> all_digits f"
  shows "decimal_parts (w @ (if f = [] then [] else CHR ''.'' # f)) = Some (w, f)"
proof -
  have d: "\<forall>c\<in>set w. digit c" "w \<noteq> []" using assms(1) by (auto simp: all_digits_def list_all_iff)
  then show ?thesis using assms(2)
    by (auto simp: decimal_parts_def takeWhile_append dropWhile_append)
qed

lemma dec_num_append: "dec_num (a @ b) = dec_num a * 10 ^ length b + dec_num b"
proof (induction b rule: rev_induct)
  case Nil
  then show ?case by (simp add: dec_num_def)
next
  case (snoc c b)
  have "dec_num (a @ b @ [c]) = 10 * dec_num (a @ b) + dec_val c"
    using dec_num_snoc [of "a @ b" c] by simp
  then show ?case using snoc by (simp add: dec_num_snoc algebra_simps)
qed

lemma dec_num_zeros: "dec_num (replicate n (CHR ''0'')) = 0"
proof (induction n)
  case (Suc n)
  have "dec_val (CHR ''0'') = 0" by code_simp
  with Suc show ?case by (simp add: replicate_append_same [symmetric] dec_num_snoc)
qed (simp add: dec_num_def)

lemma dec_num_padEnd:
  "length f \<le> d \<Longrightarrow> dec_num (padEnd f d (CHR ''0'')) = dec_num f * 10 ^ (d - length f)"
  by (simp add: padEnd_def dec_num_append dec_num_zeros)

lemma dec_num_nonneg: "list_all digit s \<Longrightarrow> 0 \<le> dec_num s"
proof (induction s rule: rev_induct)
  case (snoc c s)
  then show ?case by (simp add: dec_num_snoc dec_val_def digit_def)
qed (simp add: dec_num_def)

lemma dec_literal_parts:
  assumes "decimal_parts s = Some (w, f)"
  shows "dec_literal s = Some (of_int (dec_num (w @ f)) / 10 ^ length f)"
proof -
  note p = decimal_parts_Some [OF assms]
  have d: "\<forall>c\<in>set w. digit c" "w \<noteq> []" using p(1) by (auto simp: all_digits_def list_all_iff)
  have f: "takeWhile digit f = f" "dropWhile digit f = []"
    using p(2) all_digits_takeWhile [of f] by auto
  have tw: "takeWhile digit s = w" "dropWhile digit s = (if f = [] then [] else CHR ''.'' # f)"
    using d unfolding p(3) by (auto simp: takeWhile_append dropWhile_append)
  show ?thesis
    unfolding dec_literal_def tw using d by (simp add: pow10_def f)
qed

text \<open>What the conversion computes, over the parts of the text.\<close>

lemma base_units_parts:
  "decimalToBaseUnits v d = Inr t \<longleftrightarrow>
     0 \<le> d \<and> d \<le> 18 \<and> (\<exists>w f. decimal_parts (trim (js_String (nullish_or v (JStr [])))) = Some (w, f) \<and>
       int (length f) \<le> d \<and>
       t = dec (dec_num (w @ f) * 10 ^ (nat d - length f)))"
proof -
  have z: "dec_num ''0'' = 0" by code_simp
  have e: "dec_num w * 10 ^ nat d + dec_num (if padEnd f (nat d) (CHR ''0'') = [] then ''0''
        else padEnd f (nat d) (CHR ''0'')) = dec_num (w @ f) * 10 ^ (nat d - length f)"
    if "int (length f) \<le> d" for w f
  proof -
    have "length f \<le> nat d" using that by simp
    moreover have "dec_num (if padEnd f (nat d) (CHR ''0'') = [] then ''0'' else padEnd f (nat d) (CHR ''0''))
        = dec_num (padEnd f (nat d) (CHR ''0''))"
      using z by (simp add: dec_num_def)
    ultimately show ?thesis
      by (simp add: dec_num_padEnd dec_num_append algebra_simps flip: power_add)
  qed
  show ?thesis
    using e by (auto simp: decimalToBaseUnits_def Let_def split: option.splits)
qed

end
