(* ===== verification/Console_Api_Props.thy ===== *)
theory Console_Api_Props
  imports Console_Api
begin

text \<open>
  What the console's client promises: what it sends, what its callers get of an error of the service,
  and that amounts are converted exactly and shown with a rounding of half a cent at most.
\<close>

section \<open>Requests\<close>

lemma map_of_spread [simp]:
  "map_of (spread o1 o2) k = (case map_of (rev o2) k of Some v \<Rightarrow> Some v | None \<Rightarrow> map_of o1 k)"
  unfolding spread_def
  by (induction o2 arbitrary: o1) (auto simp: map_add_def split: option.splits)

lemma fetch_run:
  "fetch h q s = (fst (c_fetch h q (cl_world s)),
     s\<lparr>cl_world := snd (c_fetch h q (cl_world s)), cl_sent := cl_sent s @ [q]\<rparr>)"
  by (simp add: fetch_def split: prod.split)

text \<open>A call sends one request and leaves the environment, or fails before it sends anything.\<close>

lemma req_sends:
  assumes "req h m p body extra s = (r, s')"
  shows "cl_env s' = cl_env s \<and> cl_saved s' = cl_saved s \<and> cl_uuids s' = cl_uuids s \<and>
    (if body = JUndef then True else \<exists>t. json_stringify body = Inr t) = (cl_sent s' \<noteq> cl_sent s) \<and>
    (\<forall>t. (if body = JUndef then Inr None else json_stringify body) = Inr t \<longrightarrow>
      cl_sent s' = cl_sent s @ [\<lparr>rq_method = m, rq_path = ''/api'' @ p,
        rq_headers = headers_of (cl_env s) extra body, rq_body = t\<rparr>])"
  using assms
  by (auto simp: req_def throw_simps fetch_run Let_def split: if_splits)

text \<open>A service that keeps what it is sent and answers every request with the same reply.\<close>

definition fixed_service :: "reply js \<Rightarrow> nat console" where
  "fixed_service r = \<lparr>c_fetch = (\<lambda>q w. (r, Suc w)), c_uuid = (\<lambda>n. dec (int n)),
     c_number = (\<lambda>n x. num_str x), c_big = int_str, c_time = num_str, c_date = num_str,
     c_date_time = num_str\<rparr>"

definition fresh_client :: "nat client" where
  "fresh_client = \<lparr>cl_world = 0, cl_env = stored_env None, cl_saved = None, cl_sent = [], cl_uuids = 0\<rparr>"

definition sample_body :: "(string \<times> jval) list" where
  "sample_body = [(''code'', JStr ''A''), (''period'', JNum (Fin 3))]"

text \<open>
  C38 (roundtrip). What a page posts is what the service reads: an object of plain values goes out in
  exactly one request, to the path under \<open>/api\<close>, as a text that parses back to that object, with the
  caller's idempotency key and the environment the client is in.
\<close>

theorem post_arrives:
  assumes "plain (JObj kvs)" and "postIdem h p (JObj kvs) key s = (r, s')"
  shows "\<exists>q t. cl_sent s' = cl_sent s @ [q] \<and> rq_method q = ''POST'' \<and> rq_path q = ''/api'' @ p \<and>
    rq_body q = Some t \<and> json_parse t = Some (JObj kvs) \<and>
    map_of (rq_headers q) ''Idempotency-Key'' = Some key \<and> map_of (rq_headers q) ''X-Env'' = Some (cl_env s)"
proof -
  from stringify_plain [OF assms(1)] obtain t where t: "json_stringify (JObj kvs) = Inr (Some t)" by blast
  from assms(2) have "req h ''POST'' p (JObj kvs) [(''Idempotency-Key'', key)] s = (r, s')"
    by (simp add: postIdem_def)
  from req_sends [OF this] t
  have "cl_sent s' = cl_sent s @ [\<lparr>rq_method = ''POST'', rq_path = ''/api'' @ p,
      rq_headers = headers_of (cl_env s) [(''Idempotency-Key'', key)] (JObj kvs), rq_body = Some t\<rparr>]"
    by (simp del: json_stringify.simps)
  with json_roundtrip [OF assms(1) t] show ?thesis
    by (simp add: headers_of_def)
qed

theorem post_arrives_witness:
  "\<exists>q t. cl_sent (snd (postIdem (fixed_service (Inl (TypeError ''Failed to fetch''))) ''/v1/settlements''
       (JObj sample_body) ''7'' fresh_client)) = [q] \<and>
     rq_body q = Some t \<and> json_parse t = Some (JObj sample_body)"
proof -
  have p: "plain (JObj sample_body)" by code_simp
  from post_arrives [OF p, of "fixed_service (Inl (TypeError ''Failed to fetch''))" "''/v1/settlements''" "''7''"
      fresh_client, OF surjective_pairing]
  show ?thesis by (auto simp: fresh_client_def)
qed

text \<open>
  C39 (error). An error of the service reaches the page as the service described it: when the
  reply is not ok and its text is the JSON of a problem with a number, a name and a message, the call
  rejects with an error that has that number, name and message. Nothing else happens: one request
  is sent, and the client's environment is untouched.
\<close>

theorem problem_reaches_caller:
  assumes "json_stringify (JObj [(''status'', JNum (num st)), (''code'', JNum (num n)), (''name'', JStr nm),
      (''message'', JStr msg)]) = Inr (Some t)"
    and "\<bar>n\<bar> < 2 ^ 53" "n \<noteq> 0" "\<bar>st\<bar> < 2 ^ 53" "nm \<noteq> []" "msg \<noteq> []"
    and "plain body \<or> body = JUndef"
    and "\<And>q. fst (c_fetch h q (cl_world s)) = Inr \<lparr>rp_ok = False, rp_status = st, rp_text = Inr t\<rparr>"
    and "req h m p body extra s = (r, s')"
  shows "\<exists>e. r = Inl e \<and> err_code e = JNum (num n) \<and> err_name e = JStr nm \<and> e_message e = msg \<and>
    length (cl_sent s') = Suc (length (cl_sent s)) \<and> cl_env s' = cl_env s"
proof -
  let ?kvs = "[(''status'', JNum (num st)), (''code'', JNum (num n)), (''name'', JStr nm), (''message'', JStr msg)]"
  have "plain (JObj ?kvs)"
  proof -
    have "\<not> index_key ''status''" "\<not> index_key ''code''" "\<not> index_key ''name''" "\<not> index_key ''message''"
      by code_simp+
    then show ?thesis using assms by (simp add: isSafeInteger_of_int del: isSafeInteger.simps)
  qed
  from json_roundtrip [OF this assms(1)] have parsed: "json_parse t = Some (JObj ?kvs)" .
  have "t \<noteq> []" using assms(1) by (auto simp: throw_simps)
  with parsed have d: "reply_data t = JObj ?kvs" by (simp add: reply_data_def)
  from assms(7) obtain b where b: "(if body = JUndef then Inr None else json_stringify body) = Inr b"
    using stringify_plain by (cases "body = JUndef") auto
  have "r = Inl (api_error (JObj ?kvs) st)"
    using assms(9) b assms(8)
    by (auto simp: req_def throw_simps fetch_run Let_def d split: if_splits)
  moreover have "length (cl_sent s') = Suc (length (cl_sent s))" "cl_env s' = cl_env s"
    using req_sends [OF assms(9)] b by auto
  ultimately show ?thesis
    using assms by (simp add: api_error_def err_code_def err_name_def js_or_def Error_def)
qed

theorem problem_reaches_caller_witness:
  "\<exists>e t. json_stringify (JObj [(''status'', JNum (num 409)), (''code'', JNum (num 15)),
        (''name'', JStr ''Settled''), (''message'', JStr ''no'')]) = Inr (Some t) \<and>
     fst (postIdem (fixed_service (Inr \<lparr>rp_ok = False, rp_status = 409, rp_text = Inr t\<rparr>)) ''/v1/settlements''
       (JObj sample_body) ''7'' fresh_client) = Inl e \<and> err_code e = JNum (num 15)"
proof -
  obtain t where t: "json_stringify (JObj [(''status'', JNum (num 409)), (''code'', JNum (num 15)),
      (''name'', JStr ''Settled''), (''message'', JStr ''no'')]) = Inr (Some t)"
    by simp
  have p: "plain (JObj sample_body) \<or> JObj sample_body = JUndef" by code_simp
  let ?h = "fixed_service (Inr \<lparr>rp_ok = False, rp_status = 409, rp_text = Inr t\<rparr>)"
  have f: "\<And>q. fst (c_fetch ?h q (cl_world fresh_client)) = Inr \<lparr>rp_ok = False, rp_status = 409, rp_text = Inr t\<rparr>"
    by (simp add: fixed_service_def)
  from problem_reaches_caller [OF t _ _ _ _ _ p f surjective_pairing,
      of "''POST''" "''/v1/settlements''" "[(''Idempotency-Key'', ''7'')]"]
  have "\<exists>e. fst (req ?h ''POST'' ''/v1/settlements'' (JObj sample_body) [(''Idempotency-Key'', ''7'')] fresh_client)
      = Inl e \<and> err_code e = JNum (num 15)"
    by (auto simp del: of_int_numeral)
  then show ?thesis using t by (auto simp: postIdem_def)
qed

text \<open>
  A service that answers an error with the JSON text \<open>null\<close> is not reported as an \<open>ApiError\<close>: the
  constructor reads from null.
\<close>

lemma null_problem: "e_class (api_error (reply_data ''null'') 500) = ''TypeError''"
  by code_simp

section \<open>Amounts\<close>

lemma base_units_value:
  assumes "decimalToBaseUnits v d = Inr t"
  shows "\<exists>r. dec_literal (trim (js_String (nullish_or v (JStr [])))) = Some r \<and> all_digits t \<and>
    rat_of_int (dec_num t) = r * 10 ^ nat d"
proof -
  let ?s = "trim (js_String (nullish_or v (JStr [])))"
  from assms [unfolded base_units_parts] obtain w f where
    d: "0 \<le> d" and p: "decimal_parts ?s = Some (w, f)" and l: "int (length f) \<le> d"
    and t: "t = dec (dec_num (w @ f) * 10 ^ (nat d - length f))" by blast
  have "0 \<le> dec_num (w @ f)"
    by (rule dec_num_nonneg) (use decimal_parts_Some [OF p] in \<open>auto simp: all_digits_def\<close>)
  then have n: "0 \<le> dec_num (w @ f) * 10 ^ (nat d - length f)" by simp
  have "(10::rat) ^ nat d = 10 ^ (nat d - length f) * 10 ^ length f"
    using l d by (simp flip: power_add)
  then have "rat_of_int (dec_num t) = of_int (dec_num (w @ f)) / 10 ^ length f * 10 ^ nat d"
    using n by (simp add: t)
  with dec_literal_parts [OF p] n show ?thesis by (auto simp: t)
qed



text \<open>
  C40 (bounds). Amounts are shown to the hundredth, rounded half up, for integers of any size: the
  text is the sign, the whole units and two digits, and what they say differs from the amount by
  at most half a hundredth, the tie going up in absolute value.
\<close>

theorem units_rounded:
  assumes "js_BigInt (nullish_or v (JNum (Fin 0))) = Inr n"
  shows "\<exists>c. fmtUnits h v = (if n < 0 then ''-'' else []) @ c_big h (c div 100) @ ''.'' @
        padStart (dec (c mod 100)) 2 (CHR ''0'') \<and>
     0 \<le> c \<and> c * 100000 - \<bar>n\<bar> \<le> 50000 \<and> \<bar>n\<bar> - c * 100000 < 50000 \<and>
     length (padStart (dec (c mod 100)) 2 (CHR ''0'')) = 2"
proof -
  define c where "c = (\<bar>n\<bar> + 50000) div 100000"
  have "fmtUnits h v = (if n < 0 then ''-'' else []) @ c_big h (c div 100) @ ''.'' @
      padStart (dec (c mod 100)) 2 (CHR ''0'')"
    using assms by (simp add: fmtUnits_def Let_def c_def abs_if)
  moreover have "c * 100000 - \<bar>n\<bar> \<le> 50000" "\<bar>n\<bar> - c * 100000 < 50000"
  proof -
    have "(\<bar>n\<bar> + 50000) div 100000 * 100000 + (\<bar>n\<bar> + 50000) mod 100000 = \<bar>n\<bar> + 50000" by simp
    moreover have "0 \<le> (\<bar>n\<bar> + 50000) mod 100000" "(\<bar>n\<bar> + 50000) mod 100000 < 100000" by simp_all
    ultimately show "c * 100000 - \<bar>n\<bar> \<le> 50000" "\<bar>n\<bar> - c * 100000 < 50000" by (simp_all add: c_def)
  qed
  moreover have "0 \<le> c" by (simp add: c_def)
  moreover have "length (dec m) \<le> 2" if "0 \<le> m" "m < 100" for m
    using that by (cases "m < 10") (simp_all add: dec_small dec_step)
  then have "length (padStart (dec (c mod 100)) 2 (CHR ''0'')) = 2"
    using \<open>0 \<le> c\<close> by (simp add: padStart_def)
  ultimately show ?thesis by blast
qed

theorem units_rounded_witness:
  "\<exists>c. fmtUnits (fixed_service (Inl (Error []))) (JStr ''-123450000'') =
       ''-'' @ int_str (c div 100) @ ''.'' @ padStart (dec (c mod 100)) 2 (CHR ''0'') \<and> c * 100000 - 123450000 \<le> 50000"
proof -
  have "js_BigInt (nullish_or (JStr ''-123450000'') (JNum (Fin 0))) = Inr (-123450000)" by code_simp
  from units_rounded [OF this, of "fixed_service (Inl (Error []))"] show ?thesis
    by (auto simp: fixed_service_def)
qed

text \<open>
  An amount typed with two decimals is shown as it was typed: converted to the seven
  decimals of the token and shown again, it is the same whole and the same hundredths.
\<close>

lemma amount_roundtrip:
  assumes "0 \<le> n" "0 \<le> c" "c < 100"
  shows "\<exists>t. decimalToBaseUnits (JStr (dec n @ ''.'' @ padStart (dec c) 2 (CHR ''0''))) 7 = Inr t \<and>
     fmtUnits h (JStr t) = c_big h n @ ''.'' @ padStart (dec c) 2 (CHR ''0'')"
proof -
  let ?f = "padStart (dec c) 2 (CHR ''0'')"
  have z: "digit (CHR ''0'')" "dec_val (CHR ''0'') = 0" by code_simp+
  have f: "?f = (if c < 10 then [CHR ''0'', dig c] else [dig (c div 10), dig (c mod 10)])"
    using assms by (simp add: padStart_def dec_small dec_step)
  have dc: "0 \<le> c div 10" "c div 10 < 10" "0 \<le> c mod 10" "c mod 10 < 10" using assms by auto
  have af: "all_digits ?f" "length ?f = 2"
    using assms dc by (auto simp: f all_digits_def z digit_dig)
  have vf: "dec_num ?f = c"
    using assms dc by (auto simp: f dec_num_def z dec_val_dig)
  have ad: "all_digits (dec n)" using assms by simp
  from decimal_parts_intro [OF ad, of ?f] af
  have p: "decimal_parts (dec n @ CHR ''.'' # ?f) = Some (dec n, ?f)"
    by (auto simp: all_digits_def)
  have nw: "\<forall>x\<in>set (dec n @ CHR ''.'' # ?f). \<not> ws x"
    using ad af by (auto simp: all_digits_def list_all_iff digit_not_ws) (simp add: char_classes)
  have t: "trim (dec n @ CHR ''.'' # ?f) = dec n @ CHR ''.'' # ?f"
    using nw by (intro trim_id) blast
  let ?m = "(n * 100 + c) * 100000"
  have "decimalToBaseUnits (JStr (dec n @ CHR ''.'' # ?f)) 7 = Inr (dec ?m)"
    using p af assms(1) vf by (simp add: base_units_parts t dec_num_append algebra_simps)
  moreover have m: "0 \<le> ?m" using assms by simp
  have "big_lit (dec ?m) = Some ?m"
  proof -
    have a: "all_digits (dec ?m)" by (rule all_digits_dec [OF m])
    then obtain x xs where x: "dec ?m = x # xs" "digit x" by (cases "dec ?m") (auto simp: all_digits_def)
    then have "x \<noteq> CHR ''-''" "x \<noteq> CHR ''+''" by (auto simp: char_classes)
    with a x(1) show ?thesis
      using all_digits_trim [OF a] dec_num_dec [OF m] by (simp add: big_lit_def)
  qed
  moreover have "(?m + 50000) div 100000 = n * 100 + c" by simp
  moreover have "(n * 100 + c) div 100 = n" "(n * 100 + c) mod 100 = c" using assms by auto
  ultimately show ?thesis
    using m by (simp add: fmtUnits_def js_BigInt_def Let_def)
qed

lemma amount_roundtrip_example:
  "\<exists>t. decimalToBaseUnits (JStr ''12.50'') 7 = Inr t \<and>
     fmtUnits (fixed_service (Inl (Error []))) (JStr t) = ''12.50''"
proof -
  have e: "dec 12 @ CHR ''.'' # padStart (dec 50) 2 (CHR ''0'') = ''12.50''" "int_str 12 = dec 12" by code_simp+
  from amount_roundtrip [of 12 50 "fixed_service (Inl (Error []))"] show ?thesis
    by (simp add: e) (simp add: fixed_service_def e)
qed

end
