(* ===== verification/Console_Store.thy ===== *)
theory Console_Store
  imports Console_Api
begin

text \<open>
  The console's provider (\<open>cloud/console/src/store.jsx\<close>) and its router
  (\<open>main.jsx\<close>): the session, the environment, the route, the toasts, and which page is shown.
  The fragment of the address is kept as the browser keeps it; \<open>hashchange\<close> is its event.
\<close>

record toast_row =
  tr_id :: string
  tr_title :: string
  tr_msg :: string
  tr_type :: string

record session =
  se_booting :: bool
  se_user :: jval
  se_org :: jval
  se_env :: string
  se_route :: string
  se_toasts :: "toast_row list"
  se_hash :: string \<comment> \<open>\<open>location.hash\<close>\<close>

type_synonym 'w visit = "'w client \<times> session"

definition route_of :: "string \<Rightarrow> string" where \<comment> \<open>\<open>location.hash.slice(1) || "/overview"\<close>\<close>
  "route_of hash = (if drop 1 hash = [] then ''/overview'' else drop 1 hash)"

definition session_init :: "string \<Rightarrow> string \<Rightarrow> session" where
  "session_init env hash = \<lparr>se_booting = True, se_user = JNull, se_org = JNull, se_env = env,
     se_route = route_of hash, se_toasts = [], se_hash = hash\<rparr>"

definition in_api :: "('w, 'a) api \<Rightarrow> ('w visit, 'a) io" where
  "in_api m = (\<lambda>(c, s). case m c of (r, c') \<Rightarrow> (r, (c', s)))"

definition on_session :: "(session \<Rightarrow> session) \<Rightarrow> ('w visit, unit) io" where
  "on_session f = modifyIO (\<lambda>(c, s). (c, f s))"

definition hash_text :: "string \<Rightarrow> string" where \<comment> \<open>what \<open>location.hash = r\<close> leaves in it\<close>
  "hash_text r = (if r = [] \<or> r = ''#'' then [] else if hd r = CHR ''#'' then r else CHR ''#'' # r)"

definition nav :: "string \<Rightarrow> ('w visit, unit) io" where
  "nav r = on_session (\<lambda>s. s\<lparr>se_hash := hash_text r\<rparr>)"

definition onHash :: "('w visit, unit) io" where
  "onHash = on_session (\<lambda>s. s\<lparr>se_route := route_of (se_hash s)\<rparr>)"

definition switch_env :: "string \<Rightarrow> ('w visit, unit) io" where \<comment> \<open>\<open>setEnv\<close> of the context\<close>
  "switch_env e = bindIO (in_api (setEnv e)) (\<lambda>_. on_session (\<lambda>s. s\<lparr>se_env := e\<rparr>))"

definition toast_c :: "'w console \<Rightarrow> string \<Rightarrow> string \<Rightarrow> string \<Rightarrow> ('w visit, unit) io" where
  "toast_c h title msg typ =
     bindIO (in_api (idemKey h)) (\<lambda>i. \<comment> \<open>\<open>crypto.randomUUID()\<close>\<close>
     on_session (\<lambda>s. s\<lparr>se_toasts := se_toasts s @
       [\<lparr>tr_id = i, tr_title = title, tr_msg = msg, tr_type = typ\<rparr>]\<rparr>))"

definition toast_expired :: "string \<Rightarrow> session \<Rightarrow> session" where \<comment> \<open>the timer of a toast\<close>
  "toast_expired i s = s\<lparr>se_toasts := filter (\<lambda>t. tr_id t \<noteq> i) (se_toasts s)\<rparr>"

definition error_title :: "jserr \<Rightarrow> string \<Rightarrow> string" where
  "error_title e otherwise =
     (if truthy (err_code e) then ''#'' @ js_String (err_code e) @ '' '' @ js_String (err_name e)
      else otherwise)"

definition toastErr :: "'w console \<Rightarrow> jserr \<Rightarrow> ('w visit, unit) io" where
  "toastErr h e = toast_c h (error_title e ''Something went wrong'') (e_message e) ''error''"

definition refreshMe :: "'w console \<Rightarrow> ('w visit, jval) io" where
  "refreshMe h =
     catchIO
       (bindIO (in_api (api_get h ''/auth/me'')) (\<lambda>me.
        bindIO (liftIO (field me ''user'')) (\<lambda>u.
        bindIO (on_session (\<lambda>s. s\<lparr>se_user := u\<rparr>)) (\<lambda>_.
        bindIO (liftIO (field me ''org'')) (\<lambda>g.
        bindIO (on_session (\<lambda>s. s\<lparr>se_org := js_or g JNull\<rparr>)) (\<lambda>_.
        returnIO me))))))
       (\<lambda>_. bindIO (on_session (\<lambda>s. s\<lparr>se_user := JNull, se_org := JNull\<rparr>)) (\<lambda>_. returnIO JNull))"

definition boot :: "'w console \<Rightarrow> ('w visit, unit) io" where \<comment> \<open>the effect of the provider\<close>
  "boot h = bindIO (refreshMe h) (\<lambda>_. on_session (\<lambda>s. s\<lparr>se_booting := False\<rparr>))"

section \<open>The router\<close>

datatype page = BootPage | AuthPage | CreateOrgPage | CampaignDetailPage jnum | LoyaltyDetailPage jnum
  | CampaignsPage | RedemptionsPage | SettlementsPage | LoyaltyPage | ApiKeysPage | UsagePage
  | WebhooksPage | SettingsPage | OverviewPage

definition detail_id :: "string \<Rightarrow> string \<Rightarrow> jnum option" where
  \<comment> \<open>the group of a route that starts with the prefix and a run of digits, as a Number\<close>
  "detail_id prefix route =
     (if startsWith route prefix \<and> takeWhile digit (drop (length prefix) route) \<noteq> []
      then Some (to_number (takeWhile digit (drop (length prefix) route))) else None)"

definition page_of :: "string \<Rightarrow> page" where
  "page_of route =
     (case (detail_id ''/campaigns/'' route, detail_id ''/loyalty/'' route) of
        (Some i, _) \<Rightarrow> CampaignDetailPage i
      | (None, Some i) \<Rightarrow> LoyaltyDetailPage i
      | _ \<Rightarrow>
         if startsWith route ''/campaigns'' then CampaignsPage
         else if startsWith route ''/redemptions'' then RedemptionsPage
         else if startsWith route ''/settlements'' then SettlementsPage
         else if startsWith route ''/loyalty'' then LoyaltyPage
         else if startsWith route ''/keys'' then ApiKeysPage
         else if startsWith route ''/usage'' then UsagePage
         else if startsWith route ''/webhooks'' then WebhooksPage
         else if startsWith route ''/settings'' then SettingsPage
         else OverviewPage)"

definition Router :: "session \<Rightarrow> page" where
  "Router s =
     (if se_booting s then BootPage
      else if \<not> truthy (se_user s) then AuthPage
      else if \<not> truthy (se_org s) then CreateOrgPage
      else page_of (se_route s))"

end
