(* ===== verification/Console_Ui.thy ===== *)
theory Console_Ui
  imports Ui Console_Store
begin

text \<open>
  The shared elements of the console (\<open>cloud/console/src/ui.jsx\<close>), element by element, and how values
  of the service are shown. \<open>copied\<close>, the state of a copy button, is an argument. A style that is
  undefined is written with the empty text.
\<close>

section \<open>Icons\<close>

definition S_props :: \<open>string \<Rightarrow> (string \<times> 'e attr) list\<close> where \<comment> \<open>\<open>S\<close>, with the width of the stroke\<close>
  \<open>S_props w =
    [(''viewBox'', Val ''0 0 24 24''), (''fill'', Val ''none''), (''stroke'', Val ''currentColor''),
     (''strokeWidth'', Val w), (''strokeLinecap'', Val ''round''), (''strokeLinejoin'', Val ''round''),
     (''width'', Val ''16''), (''height'', Val ''16'')]\<close>

definition Ic_c_table :: \<open>(string \<times> string \<times> 'e html list) list\<close> where
  \<open>Ic_c_table =
    [(''coupon'', ''1.8'',
      [El ''path'' [(''d'',
                     Val ''M3.5 6.5h17v3.1a2.4 2.4 0 0 0 0 4.8v3.1h-17v-3.1a2.4 2.4 0 0 0 0-4.8z'')] [],
       El ''path'' [(''d'', Val ''M15 7.5v1.4M15 11.3v1.4M15 15.1v1.4'')] []]),
     (''overview'', ''1.8'',
      [El ''path'' [(''d'',
                     Val
                       ''M12 3v4M12 17v4M3 12h4M17 12h4M5.6 5.6l2.8 2.8M15.6 15.6l2.8 2.8M18.4 5.6l-2.8 2.8M8.4 15.6l-2.8 2.8'')]
         []]),
     (''check'', ''2.2'', [El ''polyline'' [(''points'', Val ''4 12.5 9.5 18 20 6'')] []]),
     (''bank'', ''1.7'',
      [El ''path'' [(''d'', Val ''M4 10l8-5 8 5'')] [],
       El ''path'' [(''d'', Val ''M5 10v8M9 10v8M15 10v8M19 10v8'')] [],
       El ''path'' [(''d'', Val ''M3 21h18'')] []]),
     (''users'', ''1.8'',
      [El ''circle'' [(''cx'', Val ''9''), (''cy'', Val ''8''), (''r'', Val ''3.2'')] [],
       El ''path'' [(''d'', Val ''M3.5 19a5.5 5.5 0 0 1 11 0'')] [],
       El ''path'' [(''d'', Val ''M16 6.2a3 3 0 0 1 0 5.6M17.5 19a5.5 5.5 0 0 0-3-4.9'')] []]),
     (''lock'', ''1.8'',
      [El ''rect'' [(''x'', Val ''5''), (''y'', Val ''11''), (''width'', Val ''14''),
                    (''height'', Val ''9''), (''rx'', Val ''2'')] [],
       El ''path'' [(''d'', Val ''M8 11V8a4 4 0 0 1 8 0v3'')] []]),
     (''coins'', ''1.7'',
      [El ''ellipse'' [(''cx'', Val ''9''), (''cy'', Val ''7''), (''rx'', Val ''6''),
                       (''ry'', Val ''3'')] [],
       El ''path'' [(''d'', Val ''M3 7v5c0 1.7 2.7 3 6 3s6-1.3 6-3V7'')] [],
       El ''path'' [(''d'', Val ''M9 12v5c0 1.7 2.7 3 6 3s6-1.3 6-3v-5c0-1.7-2.7-3-6-3'')] []]),
     (''zap'', ''1.8'', [El ''path'' [(''d'', Val ''M13 2L4 13.5h6L11 22l9-11.5h-6z'')] []]),
     (''sliders'', ''1.8'',
      [El ''path'' [(''d'', Val ''M4 7h16M4 12h16M4 17h16'')] [],
       El ''circle'' [(''cx'', Val ''15''), (''cy'', Val ''7''), (''r'', Val ''2.1''),
                      (''fill'', Val ''var(--bg)'')] [],
       El ''circle'' [(''cx'', Val ''9''), (''cy'', Val ''12''), (''r'', Val ''2.1''),
                      (''fill'', Val ''var(--bg)'')] [],
       El ''circle'' [(''cx'', Val ''16''), (''cy'', Val ''17''), (''r'', Val ''2.1''),
                      (''fill'', Val ''var(--bg)'')] []]),
     (''doc'', ''1.8'',
      [El ''path'' [(''d'', Val ''M14 3H7a2 2 0 0 0-2 2v14a2 2 0 0 0 2 2h10a2 2 0 0 0 2-2V8z'')] [],
       El ''path'' [(''d'', Val ''M14 3v5h5'')] []]),
     (''arrow'', ''2.1'',
      [El ''line'' [(''x1'', Val ''5''), (''y1'', Val ''12''), (''x2'', Val ''19''),
                    (''y2'', Val ''12'')] [],
       El ''polyline'' [(''points'', Val ''13 6 19 12 13 18'')] []]),
     (''plus'', ''2.1'',
      [El ''line'' [(''x1'', Val ''12''), (''y1'', Val ''5''), (''x2'', Val ''12''),
                    (''y2'', Val ''19'')] [],
       El ''line'' [(''x1'', Val ''5''), (''y1'', Val ''12''), (''x2'', Val ''19''),
                    (''y2'', Val ''12'')] []]),
     (''chevron'', ''2.1'', [El ''polyline'' [(''points'', Val ''6 9 12 15 18 9'')] []]),
     (''x'', ''2'',
      [El ''line'' [(''x1'', Val ''6''), (''y1'', Val ''6''), (''x2'', Val ''18''),
                    (''y2'', Val ''18'')] [],
       El ''line'' [(''x1'', Val ''18''), (''y1'', Val ''6''), (''x2'', Val ''6''),
                    (''y2'', Val ''18'')] []]),
     (''copy'', ''1.8'',
      [El ''rect'' [(''x'', Val ''9''), (''y'', Val ''9''), (''width'', Val ''11''),
                    (''height'', Val ''11''), (''rx'', Val ''2'')] [],
       El ''path'' [(''d'', Val ''M5 15V5a2 2 0 0 1 2-2h10'')] []]),
     (''info'', ''1.9'',
      [El ''circle'' [(''cx'', Val ''12''), (''cy'', Val ''12''), (''r'', Val ''9'')] [],
       El ''line'' [(''x1'', Val ''12''), (''y1'', Val ''11''), (''x2'', Val ''12''),
                    (''y2'', Val ''16'')] [],
       El ''circle'' [(''cx'', Val ''12''), (''cy'', Val ''8''), (''r'', Val ''0.6''),
                      (''fill'', Val ''currentColor''), (''stroke'', Val ''currentColor'')] []]),
     (''spark'', ''1.8'',
      [El ''path'' [(''d'', Val ''M12 3l1.9 5.6L19.5 10l-5.6 1.9L12 17.5l-1.9-5.6L4.5 10l5.6-1.4z'')]
         []]),
     (''ticket'', ''1.8'',
      [El ''path'' [(''d'',
                     Val
                       ''M3.5 8.5v-2a1 1 0 0 1 1-1h15a1 1 0 0 1 1 1v2a2.5 2.5 0 0 0 0 7v2a1 1 0 0 1-1 1h-15a1 1 0 0 1-1-1v-2a2.5 2.5 0 0 0 0-7z'')]
         [],
       El ''path'' [(''d'', Val ''M14 6v2M14 11v2M14 16v2'')] []]),
     (''gift'', ''1.8'',
      [El ''rect'' [(''x'', Val ''4''), (''y'', Val ''10''), (''width'', Val ''16''),
                    (''height'', Val ''10''), (''rx'', Val ''1.5'')] [],
       El ''path'' [(''d'', Val ''M4 10h16M12 10v10'')] [],
       El ''path'' [(''d'',
                     Val
                       ''M12 10s-4.2.2-5.4-1.3a2 2 0 0 1 2.8-2.8C10.9 7.1 12 10 12 10zM12 10s4.2.2 5.4-1.3a2 2 0 0 0-2.8-2.8C13.1 7.1 12 10 12 10z'')]
         []]),
     (''pin'', ''1.8'',
      [El ''path'' [(''d'', Val ''M12 21s-6.5-5.4-6.5-10.2a6.5 6.5 0 0 1 13 0C18.5 15.6 12 21 12 21z'')]
         [],
       El ''circle'' [(''cx'', Val ''12''), (''cy'', Val ''10.5''), (''r'', Val ''2.3'')] []]),
     (''ext'', ''2'',
      [El ''path'' [(''d'', Val ''M8 6h10v10'')] [], El ''path'' [(''d'', Val ''M18 6L6 18'')] []]),
     (''ok'', ''2'',
      [El ''circle'' [(''cx'', Val ''12''), (''cy'', Val ''12''), (''r'', Val ''9'')] [],
       El ''polyline'' [(''points'', Val ''8 12.5 11 15.5 16 9.5'')] []]),
     (''alert'', ''2'',
      [El ''circle'' [(''cx'', Val ''12''), (''cy'', Val ''12''), (''r'', Val ''9'')] [],
       El ''line'' [(''x1'', Val ''12''), (''y1'', Val ''8''), (''x2'', Val ''12''),
                    (''y2'', Val ''13'')] [],
       El ''circle'' [(''cx'', Val ''12''), (''cy'', Val ''16.4''), (''r'', Val ''0.6''),
                      (''fill'', Val ''currentColor''), (''stroke'', Val ''currentColor'')] []]),
     (''spinner'', ''2.2'', [El ''path'' [(''d'', Val ''M12 3a9 9 0 1 0 9 9'')] []])]\<close>

definition Ic_c :: "string \<Rightarrow> (string \<times> 'e attr) list \<Rightarrow> 'e html" where
  "Ic_c name p =
     (case map_of Ic_c_table name of
        Some (w, cs) \<Rightarrow>
          El ''svg'' (S_props w @ p @
            (if name = ''spinner''
             then [(''className'', Val (''spin '' @ (case attr_of p ''className'' of Some (Val c) \<Rightarrow> c | _ \<Rightarrow> [])))]
             else [])) cs
      | None \<Rightarrow> El name p [])"

section \<open>Elements\<close>

definition Toast :: \<open>toast_row \<Rightarrow> 'e html\<close> where
  \<open>Toast t =
     El ''div'' [(''className'', Val (''toast toast-'' @ (if tr_type t = [] then ''success'' else tr_type t)))]
       [El ''span'' [(''className'', Val ''ic'')]
          [Ic_c (if tr_type t = ''error'' then ''alert'' else if tr_type t = ''info'' then ''info'' else
                 ''ok'') [(''width'', Val ''20''), (''height'', Val ''20'')]],
        El ''div'' []
          ([El ''div'' [(''className'', Val ''t-title'')] [Text (tr_title t)]]
             @
             (if tr_msg t \<noteq> [] then [El ''div'' [(''className'', Val ''t-msg'')] [Text (tr_msg t)]] else
                []))]\<close>

definition Modal :: \<open>'e \<Rightarrow> string \<Rightarrow> 'e html list \<Rightarrow> 'e html\<close> where \<comment> \<open>a press on the backdrop closes it\<close>
  \<open>Modal onClose wd children =
     El ''div'' [(''className'', Val ''overlay''), (''onMouseDown'', On onClose)]
       [El ''div'' [(''className'', Val ''modal''), (''style'', Sty [(''width'', wd)])]
          ([El ''button'' [(''className'', Val ''modal-x''), (''onClick'', On onClose)]
              [Ic_c ''x'' [(''width'', Val ''16''), (''height'', Val ''16'')]]]
             @ children)]\<close>

definition Kpi :: \<open>string \<Rightarrow> 'e html list \<Rightarrow> string \<Rightarrow> bool \<Rightarrow> string \<Rightarrow> 'e html\<close> where
  \<open>Kpi label value sub isMono subColor =
     El ''div'' [(''className'', Val ''card''), (''style'', Sty [(''padding'', ''16px 18px 14px'')])]
       ([El ''div'' [(''style'',
                      Sty [(''fontSize'', ''12.5''), (''fontWeight'', ''600''),
                           (''color'', ''var(--ink-2)'')])] [Text label]]
          @
          (if isMono then
             [El ''div'' [(''className'', Val ''mono''),
                          (''style'',
                           Sty [(''fontSize'', ''28''), (''fontWeight'', ''600''),
                                (''marginTop'', ''9'')])] value] else
             [El ''div'' [(''className'', Val ''display''),
                          (''style'', Sty [(''fontSize'', ''36''), (''marginTop'', ''6'')])] value])
          @
          (if sub \<noteq> [] then
             [El ''div'' [(''style'',
                           Sty [(''fontSize'', ''12''),
                                (''color'', (if subColor = [] then ''var(--ink-3)'' else subColor)),
                                (''marginTop'', ''2''),
                                (''fontWeight'', (if subColor = [] then ''400'' else ''600''))])]
                [Text sub]] else []))\<close>

definition CopyMono :: \<open>bool \<Rightarrow> (string \<Rightarrow> 'e) \<Rightarrow> string \<Rightarrow> string \<Rightarrow> string \<Rightarrow> 'e html\<close> where
  \<open>CopyMono copied copy value display sz =
     El ''button'' [(''className'', Val (''copy-bare'' @ (if copied then '' copied'' else []))),
                    (''style'', Sty [(''fontSize'', sz)]), (''onClick'', On (copy value))]
       [Text (if display = [] then value else display),
        El ''span'' [(''className'', Val ''ci'')]
          (if copied then [Ic_c ''check'' [(''width'', Val ''11''), (''height'', Val ''11'')]] else
             [Ic_c ''copy'' [(''width'', Val ''11''), (''height'', Val ''11'')]])]\<close>

definition TxLink :: \<open>jval \<Rightarrow> 'e html list \<Rightarrow> 'e html list\<close> where
  \<open>TxLink hash children =
     (if \<not> truthy hash then [] else
        [El ''a'' [(''className'', Val ''mono''),
                   (''style'',
                    Sty [(''fontSize'', ''11''), (''color'', ''var(--ink-3)''),
                         (''whiteSpace'', ''nowrap'')]), (''href'', Val (expertTx (js_String hash))),
                   (''target'', Val ''_blank''), (''rel'', Val ''noreferrer'')]
           (if children \<noteq> [] then children else
              [Text (take 4 (js_String hash)
                       @ [CHR 0x85]
                       @ slice_last (js_String hash) 2
                       @ '' ''
                       @ [CHR 0x9A])])])\<close>

definition Empty :: \<open>'e html list \<Rightarrow> string \<Rightarrow> 'e html list \<Rightarrow> 'e html list \<Rightarrow> 'e html\<close> where
  \<open>Empty icon title children cta =
     El ''div'' [(''className'', Val ''empty'')]
       ((if icon \<noteq> [] then
           [El ''div'' [(''className'', Val ''face-ic''),
                        (''style'', Sty [(''width'', ''46''), (''height'', ''46'')])] icon] else [])
          @
          (if title \<noteq> [] then
             [El ''h2'' [(''className'', Val ''display''),
                         (''style'', Sty [(''fontSize'', ''22''), (''margin'', ''0'')])] [Text title]]
             else [])
          @
          (if children \<noteq> [] then
             [El ''p'' [(''style'',
                         Sty [(''fontSize'', ''13.5''), (''color'', ''var(--ink-2)''),
                              (''maxWidth'', ''38em''), (''margin'', ''0''),
                              (''lineHeight'', ''1.55'')])] children] else [])
          @ cta)\<close>

definition BtnPrimary :: \<open>'e html list \<Rightarrow> 'e \<Rightarrow> bool \<Rightarrow> bool \<Rightarrow> 'e html list \<Rightarrow> bool \<Rightarrow> (string \<times> string) list \<Rightarrow> 'e html\<close> where
  \<open>BtnPrimary children onClick busy dis icon small sty =
     El ''button'' [(''className'',
                     Val (''btn btn-primary ''
                            @ (if small then ''btn-sm'' else [])
                            @ '' ''
                            @ (if busy then ''btn-busy'' else []))), (''style'', Sty sty),
                    (''disabled'', Flag (dis \<or> busy)), (''onClick'', On onClick)]
       (children
          @
          [El ''span'' [(''className'', Val ''chip'')]
             (if busy then [Ic_c ''spinner'' [(''width'', Val ''13''), (''height'', Val ''13'')]] else
                (if icon \<noteq> [] then icon else
                   [Ic_c ''arrow'' [(''width'', Val (if small then ''13'' else ''15'')),
                                  (''height'', Val (if small then ''13'' else ''15''))]]))])\<close>

definition Pill_c :: \<open>string \<Rightarrow> 'e html list \<Rightarrow> 'e html\<close> where
  \<open>Pill_c kind children =
     El ''span'' [(''className'',
                   Val (''pill '' @ (if kind \<noteq> [] then ''pill-'' @ kind else [])))]
       ([El ''span'' [(''className'', Val ''dot''),
                      (''style'',
                       Sty (if kind = [] then [(''background'', ''var(--accent)'')] else []))] []]
          @ children)\<close>

definition ErrText :: \<open>jserr option \<Rightarrow> 'e html list\<close> where
  \<open>ErrText err =
     (case err of None \<Rightarrow> [] | Some e \<Rightarrow>
        [El ''div'' [(''style'',
                      Sty [(''background'', ''var(--burned-bg)''), (''color'', ''var(--burned)''),
                           (''borderRadius'', ''10''), (''padding'', ''10px 13px''),
                           (''fontSize'', ''13''), (''fontWeight'', ''600'')])]
           [Text (if truthy (err_code e) then ''#''
                    @ js_String (err_code e)
                    @ '' ''
                    @ js_String (err_name e)
                    @ '' ''
                    @ [CHR 0x97]
                    @ '' '' else []),
            Text (e_message e)]])\<close>

end
