(* ===== verification/Console_Page.thy ===== *)
theory Console_Page
  imports Console_Ui
begin

text \<open>
  What the pages of the console share: a page runs on the visit (the client and the session) and its own
  React state. A call whose promise is not awaited is sent when it is started; the promise is kept
  with what it resolves to and the environment it was sent in until its handler runs, so that
  promises may be handled in any order.
\<close>

type_synonym ('w, 'p) on_visit = "'w visit \<times> 'p"

definition in_visit :: "('w visit, 'a) io \<Rightarrow> (('w, 'p) on_visit, 'a) io" where
  "in_visit m = (\<lambda>(v, p). case m v of (r, v') \<Rightarrow> (r, (v', p)))"

definition on_page :: "('p \<Rightarrow> 'p) \<Rightarrow> (('w, 'p) on_visit, unit) io" where \<comment> \<open>setters\<close>
  "on_page f = modifyIO (\<lambda>(v, p). (v, f p))"

definition page_get :: "('p \<Rightarrow> 'a) \<Rightarrow> (('w, 'p) on_visit, 'a) io" where
  "page_get f = getIO (\<lambda>(v, p). f p)"

definition read_field :: "jval \<Rightarrow> string \<Rightarrow> ('s, jval) io" where
  "read_field v k = liftIO (field v k)"

definition locale_text :: "'w console \<Rightarrow> jval \<Rightarrow> string" where \<comment> \<open>\<open>v.toLocaleString()\<close>\<close>
  "locale_text h v = (case v of JNum n \<Rightarrow> c_number h 3 n | _ \<Rightarrow> js_String v)"

definition localised_c :: "'w console \<Rightarrow> jval \<Rightarrow> string js" where
  "localised_c h v =
     (if nullish v then Inl (TypeError ''Cannot read properties of null or undefined'')
      else Inr (locale_text h v))"

type_synonym 'k promises = "('k \<times> string \<times> jval js) list"

definition launch ::
  "'w console \<Rightarrow> string \<Rightarrow> 'k \<Rightarrow> (('k promises \<Rightarrow> 'k promises) \<Rightarrow> 'p \<Rightarrow> 'p)
   \<Rightarrow> (('w, 'p) on_visit, unit) io" where
  "launch h path k upd = (\<lambda>((c, s), p).
     case api_get h path c of (r, c') \<Rightarrow> (Inr (), ((c', s), upd (\<lambda>l. l @ [(k, cl_env c, r)]) p)))"

definition api_call :: "('w, 'a) api \<Rightarrow> (('w, 'p) on_visit, 'a) io" where
  "api_call m = in_visit (in_api m)"

definition keyed_post :: "'w console \<Rightarrow> string \<Rightarrow> jval \<Rightarrow> (('w, 'p) on_visit, jval) io" where
  \<comment> \<open>\<open>api.postIdem(path, body, idemKey())\<close>, awaited\<close>
  "keyed_post h path body = bindIO (api_call (idemKey h)) (\<lambda>key. api_call (postIdem h path body key))"

definition pop_up :: "'w console \<Rightarrow> string \<Rightarrow> string \<Rightarrow> string \<Rightarrow> (('w, 'p) on_visit, unit) io" where
  "pop_up h title msg typ = in_visit (toast_c h title msg typ)"

definition pop_err :: "'w console \<Rightarrow> jserr \<Rightarrow> (('w, 'p) on_visit, unit) io" where
  "pop_err h e = in_visit (toastErr h e)"

definition guarded ::
  "(('w, 'p) on_visit, unit) io \<Rightarrow> (jserr \<Rightarrow> (('w, 'p) on_visit, unit) io)
   \<Rightarrow> (bool \<Rightarrow> 'p \<Rightarrow> 'p) \<Rightarrow> (('w, 'p) on_visit, unit) io" where
  \<comment> \<open>\<open>setBusy(true); try { \<dots> } catch (e) { \<dots> } finally { setBusy(false); }\<close>\<close>
  "guarded body handler busy =
     bindIO (on_page (busy True)) (\<lambda>_.
     bindIO (catchIO body handler) (\<lambda>_. on_page (busy False)))"

lemma on_visit_run [simp]:
  "on_page f (v, p) = (Inr (), (v, f p))"
  "page_get g (v, p) = (Inr (g p), (v, p))"
  by (simp_all add: on_page_def page_get_def)

lemma in_visit_run: "in_visit m (v, p) = (fst (m v), (snd (m v), p))"
  by (simp add: in_visit_def split: prod.splits)

lemma api_call_run: "api_call m ((c, s), p) = (fst (m c), ((snd (m c), s), p))"
  by (simp add: api_call_def in_visit_run in_api_def split: prod.splits)

lemma launch_run:
  obtains r c' where "launch h path k upd ((c, s), p) = (Inr (), ((c', s), upd (\<lambda>l. l @ [(k, cl_env c, r)]) p))"
    and "api_get h path c = (r, c')"
  by (cases "api_get h path c") (auto simp: launch_def)

end
