(* ===== verification/Console_Shell.thy ===== *)
theory Console_Shell
  imports Console_Page
begin

text \<open>
  The frame around the console's pages (\<open>cloud/console/src/shell.jsx\<close>): navigation, the switch of
  the environment, the credits and the menu of the user. Its state is the credits last read and
  whether the menu is open.
\<close>

definition NAV :: "(string \<times> string \<times> string) list" where \<comment> \<open>path, label, icon\<close>
  "NAV =
     [(''/overview'', ''Overview'', ''overview''), (''/campaigns'', ''Campaigns'', ''coupon''),
      (''/redemptions'', ''Redemptions'', ''check''), (''/settlements'', ''Settlements'', ''bank''),
      (''/loyalty'', ''Loyalty'', ''users''), (''/keys'', ''API keys'', ''lock''),
      (''/usage'', ''Usage & credits'', ''coins''), (''/webhooks'', ''Webhooks'', ''zap''),
      (''/settings'', ''Settings'', ''sliders'')]"

record shell =
  sh_credits :: jval
  sh_menu :: bool

datatype shell_ev = ShellNav string | ShellEnv string | ShellMenu | ShellMenuClose | ShellSignOut

definition initials :: "jval \<Rightarrow> string" where \<comment> \<open>of the organisation\<close>
  "initials name =
     toUpperCase (take 2 (concat (map (take 1)
       (split_runs ws (if truthy name then js_String name else ''??'')))))"

definition userInitials :: "jval \<Rightarrow> string" where
  "userInitials email = toUpperCase (take 2 (if truthy email then js_String email else ''?''))"

definition signOut :: "'w console \<Rightarrow> (('w, shell) on_visit, unit) io" where
  "signOut h =
     bindIO (on_page (\<lambda>sh. sh\<lparr>sh_menu := False\<rparr>)) (\<lambda>_.
     in_visit
       (bindIO (catchIO (in_api (api_post h ''/auth/logout'' JUndef)) (\<lambda>_. returnIO JUndef)) (\<lambda>_.
        bindIO (refreshMe h) (\<lambda>_. nav ''/overview''))))"

definition shell_run :: "'w console \<Rightarrow> shell_ev \<Rightarrow> (('w, shell) on_visit, unit) io" where
  "shell_run h e =
     (case e of
        ShellNav p \<Rightarrow> in_visit (nav p)
      | ShellEnv n \<Rightarrow> in_visit (switch_env n)
      | ShellMenu \<Rightarrow> on_page (\<lambda>sh. sh\<lparr>sh_menu := \<not> sh_menu sh\<rparr>)
      | ShellMenuClose \<Rightarrow> on_page (\<lambda>sh. sh\<lparr>sh_menu := False\<rparr>)
      | ShellSignOut \<Rightarrow> signOut h)"

text \<open>The effect of the environment and the route: it starts a read or forgets the credits.\<close>

definition credits_start :: "string \<Rightarrow> shell \<Rightarrow> shell \<times> bool" where
  "credits_start env sh = (if env = ''live'' then (sh, True) else (sh\<lparr>sh_credits := JNull\<rparr>, False))"

definition credits_read :: "'w console \<Rightarrow> ('w, jval) api" where
  "credits_read h = api_get h ''/v1/credits''"

definition credits_done :: "jval js \<Rightarrow> shell \<Rightarrow> shell" where
  \<comment> \<open>\<open>live\<close> is never set to false, so every answer counts\<close>
  "credits_done r sh =
     (case r of
        Inr d \<Rightarrow> (case field d ''balance_mcr'' of Inr b \<Rightarrow> sh\<lparr>sh_credits := b\<rparr> | Inl _ \<Rightarrow> sh)
      | Inl _ \<Rightarrow> sh)"

definition account_of :: "session \<Rightarrow> jval" where \<comment> \<open>\<open>org?.accounts?.[env]\<close>\<close>
  "account_of s = get (get (se_org s) ''accounts'') (se_env s)"

definition Shell :: \<open>'w console \<Rightarrow> session \<Rightarrow> shell \<Rightarrow> shell_ev html list \<Rightarrow> shell_ev html\<close> where
  \<open>Shell h s sh children =
     El ''div'' [(''className'', Val ''shell'')]
       [El ''aside'' [(''className'', Val ''sidebar'')]
          [El ''div'' [(''className'', Val ''side-brand'')]
             [El ''div'' [(''className'', Val ''side-logo'')] [Ic_c ''coupon'' []],
              El ''div'' []
                [El ''div'' [(''className'', Val ''side-word'')] [Text ''Soroticket''],
                 El ''div'' [(''className'', Val ''side-sub'')] [Text ''Console'']]],
           El ''nav'' [(''className'', Val ''side-nav'')]
             (concat (map (\<lambda> (path, label, icon) .
                             [El ''button'' [(''className'',
                                              Val (''side-link''
                                                     @ (if startsWith (se_route s) path then '' on''
                                                          else []))), (''onClick'', On (ShellNav path))]
                                [Ic_c icon [],
                                 Text label]]) NAV)),
           El ''div'' [(''className'', Val ''side-link''),
                       (''title'', Val ''Local repository: docs/CLOUD.md and docs/SPEC.md'')]
             [Ic_c ''doc'' [],
              Text ''Docs'',
              El ''span'' [(''className'', Val ''mono''),
                           (''style'',
                            Sty [(''marginLeft'', ''auto''), (''color'', ''var(--ink-3)''),
                                 (''fontSize'', ''10'')])] [Text ''repo'']]],
        El ''div'' [(''className'', Val ''main'')]
          ((if se_env s = ''test'' then
              [El ''div'' [(''className'', Val ''test-strip'')] [],
               El ''div'' [(''className'', Val ''test-banner'')]
                 [Text (''Test mode ''
                          @ [CHR 0x97]
                          @ '' v0.2.0 testnet contract, free. Nothing touches mainnet.'')]] else
              [El ''div'' [(''className'', Val ''test-strip'')] [],
               El ''div'' [(''className'', Val ''test-banner'')]
                 [Text (''Metered preview ''
                          @ [CHR 0x97]
                          @
                          '' v0.2.0 testnet contract. Mainnet and production billing are disabled.'')]])
             @
             [El ''div'' [(''className'', Val ''topbar2'')]
                [El ''div'' [(''className'', Val ''org-btn''),
                             (''style'', Sty [(''cursor'', ''default'')])]
                   ([El ''span'' [(''className'', Val ''org-avatar'')]
                       [Text (initials (get (se_org s) ''name''))],
                     El ''span'' [(''style'',
                                   Sty [(''fontSize'', ''13.5''), (''fontWeight'', ''650'')])]
                       [Text (shown (get (se_org s) ''name''))]]
                      @
                      (if truthy (account_of s) then
                         [El ''span'' [(''className'', Val ''mono''),
                                       (''style'',
                                        Sty [(''fontSize'', ''11.5''), (''color'', ''var(--ink-3)'')])]
                            [Text (trunc_c 4 4 (get (account_of s) ''public_key''))]] else [])),
                 El ''div'' [(''style'', Sty [(''flex'', ''1'')])] [],
                 El ''div'' [(''className'', Val ''env-toggle'')]
                   [El ''span'' [(''className'',
                                  Val (''env-opt''
                                         @ (if se_env s = ''test'' then '' on-test'' else []))),
                                 (''onClick'', On (ShellEnv ''test''))] [Text ''TEST''],
                    El ''span'' [(''className'',
                                  Val (''env-opt''
                                         @ (if se_env s = ''live'' then '' on-live'' else []))),
                                 (''onClick'', On (ShellEnv ''live''))] [Text ''METERED'']],
                 El ''span'' [(''className'', Val ''credits-chip mono''),
                              (''style'',
                               Sty (if se_env s = ''test'' then [(''color'', ''var(--ink-2)'')] else
                                      []))]
                   (if se_env s = ''test'' then [Text (''testnet '' @ [CHR 0xB7] @ '' free'')] else
                      [Ic_c ''coins'' [(''width'', Val ''13''), (''height'', Val ''13''),
                                     (''style'', Sty [(''color'', ''var(--ink-2)'')])],
                       Text (''testnet '' @ [CHR 0xB7] @ '' ''),
                       Text (if nullish (sh_credits sh) then [CHR 0x85] else fmtCr h (sh_credits sh)
                               @ '' cr'')]),
                 El ''div'' [(''style'', Sty [(''position'', ''relative'')])]
                   ([El ''button'' [(''className'', Val ''user-dot''),
                                    (''title'', Val (shown (get (se_user s) ''email''))),
                                    (''onClick'', On ShellMenu),
                                    (''style'',
                                     Sty [(''cursor'', ''pointer''), (''border'', ''none''),
                                          (''font'', ''inherit'')])]
                       [Text (userInitials (get (se_user s) ''email''))]]
                      @
                      (if sh_menu sh then
                         [El ''div'' [(''style'',
                                       Sty [(''position'', ''fixed''), (''inset'', ''0''),
                                            (''zIndex'', ''90'')]), (''onClick'', On ShellMenuClose)]
                            [],
                          El ''div'' [(''className'', Val ''card''),
                                      (''style'',
                                       Sty [(''position'', ''absolute''), (''right'', ''0''),
                                            (''top'', ''calc(100% + 8px)''), (''zIndex'', ''91''),
                                            (''minWidth'', ''230''), (''padding'', ''6''),
                                            (''boxShadow'', ''var(--shadow)'')])]
                            [El ''div'' [(''className'', Val ''mono''),
                                         (''style'',
                                          Sty [(''padding'', ''9px 12px''), (''fontSize'', ''12''),
                                               (''color'', ''var(--ink-3)''),
                                               (''borderBottom'', ''1px solid var(--line)''),
                                               (''overflow'', ''hidden''),
                                               (''textOverflow'', ''ellipsis'')])]
                               [Text (shown (get (se_user s) ''email''))],
                             El ''button'' [(''className'', Val ''btn-plain''),
                                            (''style'',
                                             Sty [(''width'', ''100%''), (''textAlign'', ''left''),
                                                  (''fontSize'', ''13.5''),
                                                  (''padding'', ''9px 12px'')]),
                                            (''onClick'', On ShellSignOut)] [Text ''Sign out'']]] else
                         []))]]
             @ children)]\<close>

end
