(* ===== verification/Console_Session.thy ===== *)
theory Console_Session
  imports Console_Api_Props Console_Shell
begin

text \<open>
  The session of the console: every step the provider and the frame can take, who is let in, and that
  the navigation marks the page that is shown.
\<close>

section \<open>Who is let in\<close>

definition outside :: "page \<Rightarrow> bool" where \<comment> \<open>the pages that need no organisation\<close>
  "outside g \<longleftrightarrow> g = BootPage \<or> g = AuthPage \<or> g = CreateOrgPage"

inductive visit_step :: "'w console \<Rightarrow> 'w visit \<Rightarrow> 'w visit \<Rightarrow> bool" for h where
  navigate: "visit_step h v (snd (nav r v))"
| hashed: "visit_step h v (snd (onHash v))"
| switched: "visit_step h v (snd (switch_env e v))"
| toasted: "visit_step h v (snd (toast_c h title msg k v))"
| expired: "visit_step h (c, s) (c, toast_expired i s)"
| refreshed: "visit_step h v (snd (refreshMe h v))"
| booted: "visit_step h v (snd (boot h v))"
| framed: "visit_step h v (fst (snd (shell_run h e (v, sh))))"
| called: "visit_step h (c, s) (c', s)" \<comment> \<open>a call of a page\<close>

lemma page_of_inside: "\<not> outside (page_of r)"
  by (simp add: page_of_def outside_def split: option.split)

lemma Router_outside: "outside (Router s) \<longleftrightarrow> se_booting s \<or> \<not> truthy (se_user s) \<or> \<not> truthy (se_org s)"
  by (simp add: Router_def page_of_inside) (auto simp: outside_def)

definition confirmed :: "'w console \<Rightarrow> bool" where \<comment> \<open>the service answered with a user and an organisation\<close>
  "confirmed h \<longleftrightarrow> (\<exists>c me c'. api_get h ''/auth/me'' c = (Inr me, c') \<and>
     truthy (get me ''user'') \<and> truthy (get me ''org''))"

lemma field_get: "field v k = Inr x \<Longrightarrow> x = get v k"
  by (cases v) (auto simp: get_def split: option.splits)

lemma truthy_js_or_null: "truthy (js_or g JNull) = truthy g"
  by (simp add: js_or_def)

lemma refreshMe_gate:
  assumes "refreshMe h (c, s) = (r, (c', s'))"
  shows "(\<exists>x. r = Inr x) \<and> se_booting s' = se_booting s \<and>
    (truthy (se_user s') \<and> truthy (se_org s') \<longrightarrow>
      (\<exists>me. api_get h ''/auth/me'' c = (Inr me, c') \<and> truthy (get me ''user'') \<and> truthy (get me ''org'')))"
proof -
  obtain a c1 where a: "api_get h ''/auth/me'' c = (a, c1)" by (cases "api_get h ''/auth/me'' c")
  show ?thesis
  proof (cases a)
    case (Inl e)
    with assms a show ?thesis
      by (auto simp: refreshMe_def catchIO_def bindIO_def in_api_def on_session_def)
  next
    case (Inr me)
    show ?thesis
    proof (cases "field me ''user''")
      case (Inl e)
      with assms a Inr show ?thesis
        by (auto simp: refreshMe_def catchIO_def bindIO_def in_api_def on_session_def)
    next
      case u: (Inr u)
      then obtain g where g: "field me ''org'' = Inr g" by (cases me) auto
      from assms a Inr u g show ?thesis
        by (auto simp: refreshMe_def catchIO_def bindIO_def in_api_def on_session_def truthy_js_or_null
            dest!: field_get)
    qed
  qed
qed

lemma refreshMe_lets_in:
  "refreshMe h (c, s) = (r, (c', s')) \<Longrightarrow> \<not> outside (Router s') \<Longrightarrow> confirmed h"
  using refreshMe_gate [of h c s r c' s'] by (auto simp: Router_outside confirmed_def)

definition same_gate :: "session \<Rightarrow> session \<Rightarrow> bool" where
  "same_gate s s' \<longleftrightarrow> se_booting s' = se_booting s \<and> se_user s' = se_user s \<and> se_org s' = se_org s"

lemma same_gate_outside: "same_gate s s' \<Longrightarrow> outside (Router s') = outside (Router s)"
  by (simp add: same_gate_def Router_outside)

lemma quiet_steps:
  "same_gate s (snd (snd (nav r (c, s))))" "same_gate s (snd (snd (onHash (c, s))))"
  "same_gate s (snd (snd (switch_env e (c, s))))" "same_gate s (snd (snd (toast_c h title msg k (c, s))))"
  "same_gate s (toast_expired i s)"
  by (simp_all add: same_gate_def nav_def onHash_def switch_env_def toast_c_def toast_expired_def
      on_session_def in_api_def bindIO_def setEnv_def idemKey_def)

lemma signOut_lets_in:
  assumes "\<not> outside (Router (snd (fst (snd (signOut h ((c, s), sh))))))"
  shows "confirmed h"
proof -
  obtain a c1 where a: "in_api (api_post h ''/auth/logout'' JUndef) (c, s) = (a, (c1, s))"
    by (cases "api_post h ''/auth/logout'' JUndef c") (simp add: in_api_def)
  obtain r c2 s2 where f: "refreshMe h (c1, s) = (r, (c2, s2))"
    by (metis surj_pair)
  from refreshMe_gate [OF f] obtain x where "r = Inr x" by blast
  with a f have "snd (fst (snd (signOut h ((c, s), sh)))) = snd (snd (nav ''/overview'' (c2, s2)))"
    by (cases a) (simp_all add: signOut_def bindIO_def catchIO_def nav_def on_session_def in_visit_run)
  with assms same_gate_outside [OF quiet_steps(1)] have "\<not> outside (Router s2)" by metis
  with refreshMe_lets_in [OF f] show ?thesis .
qed


text \<open>A service that knows the user and the organisation, and the start of the console on it.\<close>

lemma answer_text:
  "plain v \<Longrightarrow> \<exists>t. json_stringify v = Inr (Some t) \<and> reply_data t = v"
  using stringify_plain [of v] json_roundtrip [of v] by (auto simp: reply_data_def opens_def)

definition member :: jval where
  "member = JObj [(''user'', JNum (Fin 1)), (''org'', JNum (Fin 1))]"

definition member_service :: "nat console" where
  "member_service = fixed_service
     (Inr \<lparr>rp_ok = True, rp_status = 200, rp_text = bindR (json_stringify member) (\<lambda>t. Inr (the t))\<rparr>)"

lemma member_answer: "fst (api_get member_service p c) = Inr member"
proof -
  have "plain member" by code_simp
  from answer_text [OF this] obtain t where "json_stringify member = Inr (Some t)" "reply_data t = member"
    by blast
  then show ?thesis
    by (simp add: api_get_def req_def bindIO_def fetch_run member_service_def fixed_service_def Let_def)
qed


section \<open>The navigation\<close>

fun page_path :: "page \<Rightarrow> string" where \<comment> \<open>the section of the navigation a page belongs to\<close>
  "page_path (CampaignDetailPage i) = ''/campaigns''"
| "page_path (LoyaltyDetailPage i) = ''/loyalty''"
| "page_path CampaignsPage = ''/campaigns''"
| "page_path RedemptionsPage = ''/redemptions''"
| "page_path SettlementsPage = ''/settlements''"
| "page_path LoyaltyPage = ''/loyalty''"
| "page_path ApiKeysPage = ''/keys''"
| "page_path UsagePage = ''/usage''"
| "page_path WebhooksPage = ''/webhooks''"
| "page_path SettingsPage = ''/settings''"
| "page_path OverviewPage = ''/overview''"
| "page_path _ = []"

lemma startsWith_both: "startsWith r p \<Longrightarrow> startsWith r q \<Longrightarrow> startsWith p q \<or> startsWith q p"
proof -
  assume "startsWith r p" "startsWith r q"
  then have p: "take (length p) r = p" and q: "take (length q) r = q" by (simp_all add: startsWith_def)
  show ?thesis
  proof (cases "length q \<le> length p")
    case True
    then have "take (length q) p = q" using p q by (metis min.absorb1 take_take)
    then show ?thesis by (simp add: startsWith_def)
  next
    case False
    then have "take (length p) q = p" using p q by (metis min.absorb1 nle_le take_take)
    then show ?thesis by (simp add: startsWith_def)
  qed
qed

lemma startsWith_trans: "startsWith r p \<Longrightarrow> startsWith p q \<Longrightarrow> startsWith r q"
  unfolding startsWith_def by (metis min_def nle_le take_all_iff take_take)

lemma detail_id_prefix: "detail_id p r = Some i \<Longrightarrow> startsWith r p"
  by (simp add: detail_id_def split: if_splits)

lemma nav_exclusive:
  assumes "p \<in> fst ` set NAV" "q \<in> fst ` set NAV" "startsWith r p" "startsWith r q"
  shows "p = q"
proof -
  have "\<forall>p\<in>set (map fst NAV). \<forall>q\<in>set (map fst NAV). startsWith p q \<longrightarrow> p = q" by code_simp
  with assms startsWith_both [OF assms(3,4)] show ?thesis by (metis image_set)
qed

definition fits :: "string \<Rightarrow> page \<Rightarrow> bool" where \<comment> \<open>the page is of the section the route names\<close>
  "fits r g \<longleftrightarrow> page_path g = ''/overview'' \<or> page_path g \<in> fst ` set NAV \<and> startsWith r (page_path g)"

lemma fits_simps:
  "startsWith r ''/campaigns'' \<Longrightarrow> fits r (CampaignDetailPage n)" "startsWith r ''/loyalty'' \<Longrightarrow> fits r (LoyaltyDetailPage n)"
  "startsWith r ''/campaigns'' \<Longrightarrow> fits r CampaignsPage" "startsWith r ''/redemptions'' \<Longrightarrow> fits r RedemptionsPage"
  "startsWith r ''/settlements'' \<Longrightarrow> fits r SettlementsPage" "startsWith r ''/loyalty'' \<Longrightarrow> fits r LoyaltyPage"
  "startsWith r ''/keys'' \<Longrightarrow> fits r ApiKeysPage" "startsWith r ''/usage'' \<Longrightarrow> fits r UsagePage"
  "startsWith r ''/webhooks'' \<Longrightarrow> fits r WebhooksPage" "startsWith r ''/settings'' \<Longrightarrow> fits r SettingsPage"
  "fits r OverviewPage"
  by (simp_all add: fits_def NAV_def)

lemma page_of_fits: "fits r (page_of r)"
proof -
  have "startsWith ''/campaigns/'' ''/campaigns''" "startsWith ''/loyalty/'' ''/loyalty''" by code_simp+
  then have c: "startsWith r ''/campaigns''" if "detail_id ''/campaigns/'' r = Some i" for i
    using detail_id_prefix [OF that] startsWith_trans by blast
  have l: "startsWith r ''/loyalty''" if "detail_id ''/loyalty/'' r = Some i" for i
    using detail_id_prefix [OF that] startsWith_trans \<open>startsWith ''/loyalty/'' ''/loyalty''\<close> by blast
  show ?thesis
    unfolding page_of_def using c l
    by (cases "detail_id ''/campaigns/'' r"; cases "detail_id ''/loyalty/'' r") (simp_all add: fits_simps)
qed

lemma page_path_default:
  assumes "q \<in> fst ` set NAV" "q \<noteq> ''/overview''" "startsWith r q"
  shows "page_path (page_of r) \<noteq> ''/overview''"
proof -
  have "page_of r \<noteq> OverviewPage"
    using assms by (auto simp: page_of_def NAV_def split: option.split)
  then show ?thesis by (cases "page_of r") simp_all
qed

text \<open>
  The navigation marks the page that is shown: inside an organisation, an entry
  of the navigation other than the overview is marked exactly when the page shown is of its
  section (a detail page of its list's), for every address; the overview is marked only when it
  is shown, and no two entries are marked at once.
\<close>

theorem nav_marks_page:
  assumes "\<not> outside (Router s)" and "(p, l, i) \<in> set NAV"
  shows "(startsWith (se_route s) p \<longleftrightarrow>
      page_path (Router s) = p \<and> (p = ''/overview'' \<longrightarrow> startsWith (se_route s) p)) \<and>
    (\<forall>(q, l', i') \<in> set NAV. startsWith (se_route s) p \<and> startsWith (se_route s) q \<longrightarrow> p = q)"
proof -
  let ?r = "se_route s"
  have g: "Router s = page_of ?r" using assms(1) by (auto simp: Router_def outside_def)
  have p: "p \<in> fst ` set NAV" using assms(2) by force
  have "page_path (page_of ?r) = p" if r: "startsWith ?r p"
  proof (cases "page_path (page_of ?r) = ''/overview''")
    case True
    with page_path_default [OF p _ r] show ?thesis by auto
  next
    case False
    with page_of_fits [of ?r, unfolded fits_def] have "page_path (page_of ?r) \<in> fst ` set NAV"
      "startsWith ?r (page_path (page_of ?r))" by blast+
    from nav_exclusive [OF this(1) p this(2) r] show ?thesis .
  qed
  moreover have "startsWith ?r p" if "page_path (page_of ?r) = p" "p \<noteq> ''/overview''"
    using page_of_fits [of ?r, unfolded fits_def] that by auto
  ultimately have "startsWith ?r p \<longleftrightarrow>
      page_path (page_of ?r) = p \<and> (p = ''/overview'' \<longrightarrow> startsWith ?r p)" by blast
  moreover have "q \<in> fst ` set NAV" if "(q, l', i') \<in> set NAV" for q l' i' using that by force
  then have "\<forall>(q, l', i') \<in> set NAV. startsWith ?r p \<and> startsWith ?r q \<longrightarrow> p = q"
    using nav_exclusive [OF p] by blast
  ultimately show ?thesis by (simp add: g)
qed

theorem nav_marks_page_witness:
  "page_path (Router (session_init ''test'' ''#/campaigns/12''
     \<lparr>se_booting := False, se_user := JNum (Fin 1), se_org := JNum (Fin 1)\<rparr>)) = ''/campaigns''"
proof -
  let ?s = "session_init ''test'' ''#/campaigns/12''
    \<lparr>se_booting := False, se_user := JNum (Fin 1), se_org := JNum (Fin 1)\<rparr>"
  have i: "\<not> outside (Router ?s)" by (simp add: Router_outside)
  have n: "(''/campaigns'', ''Campaigns'', ''coupon'') \<in> set NAV" by (simp add: NAV_def)
  have m: "startsWith (se_route ?s) ''/campaigns''" by code_simp
  from nav_marks_page [OF i n] m show ?thesis by blast
qed

end
