(* ===== verification/Console_Sends.thy ===== *)
theory Console_Sends
  imports Console_Api_Props Console_Page
begin

text \<open>
  What every page of the console keeps to when it talks to the service. An order is a post under
  \<open>/api/v1\<close>. \<open>sends\<close> relates the client before and after: the requests in between are of the
  environment the client is in, and their orders carry idempotency keys that are identifiers of
  this client, each used once. The relation passes through the program's sequencing, so that a
  page has it when its calls have it; the locale \<open>page\<close> is the contract of a page.
\<close>

definition is_order :: "request \<Rightarrow> bool" where
  "is_order q \<longleftrightarrow> rq_method q = ''POST'' \<and> startsWith (rq_path q) ''/api/v1/''"

definition key_of :: "request \<Rightarrow> string option" where
  "key_of q = map_of (rq_headers q) ''Idempotency-Key''"

definition env_of :: "request \<Rightarrow> string option" where
  "env_of q = map_of (rq_headers q) ''X-Env''"

definition keyed :: "'w console \<Rightarrow> nat \<Rightarrow> nat \<Rightarrow> request list \<Rightarrow> bool" where
  \<comment> \<open>the orders carry identifiers given between the two counts, in the order they were given\<close>
  "keyed h m n qs \<longleftrightarrow>
     (\<exists>js. map key_of (filter is_order qs) = map (\<lambda>j. Some (c_uuid h j)) js \<and> sorted_wrt (<) js
        \<and> set js \<subseteq> {m..<n})"

definition orders :: "'w console \<Rightarrow> 'w client \<Rightarrow> 'w client \<Rightarrow> bool" where
  "orders h c c' \<longleftrightarrow> cl_uuids c \<le> cl_uuids c' \<and>
     (\<exists>qs. cl_sent c' = cl_sent c @ qs \<and> keyed h (cl_uuids c) (cl_uuids c') qs)"

definition sends :: "'w console \<Rightarrow> 'w client \<Rightarrow> 'w client \<Rightarrow> bool" where
  "sends h c c' \<longleftrightarrow> cl_env c' = cl_env c \<and> cl_uuids c \<le> cl_uuids c' \<and>
     (\<exists>qs. cl_sent c' = cl_sent c @ qs \<and> keyed h (cl_uuids c) (cl_uuids c') qs
        \<and> (\<forall>q \<in> set qs. env_of q = Some (cl_env c)))"

lemma sends_orders: "sends h c c' \<Longrightarrow> orders h c c'"
  by (auto simp: sends_def orders_def)

lemma keyed_Nil [simp]: "keyed h m n []"
  by (auto simp: keyed_def)

lemma keyed_append:
  assumes "keyed h l m qs" and "keyed h m n rs" and "l \<le> m" and "m \<le> n"
  shows "keyed h l n (qs @ rs)"
proof -
  from assms obtain js ks where
    "map key_of (filter is_order qs) = map (\<lambda>j. Some (c_uuid h j)) js" "sorted_wrt (<) js" "set js \<subseteq> {l..<m}"
    "map key_of (filter is_order rs) = map (\<lambda>j. Some (c_uuid h j)) ks" "sorted_wrt (<) ks" "set ks \<subseteq> {m..<n}"
    by (auto simp: keyed_def)
  then show ?thesis unfolding keyed_def
    by (intro exI [of _ "js @ ks"]) (use assms(3,4) in \<open>force simp: sorted_wrt_append\<close>)
qed

lemma orders_refl: "orders h c c"
  by (simp add: orders_def)

lemma orders_trans: "orders h a b \<Longrightarrow> orders h b c \<Longrightarrow> orders h a c"
  by (auto simp: orders_def intro: keyed_append)

lemma sends_refl: "sends h c c"
  by (simp add: sends_def)

lemma sends_trans: "sends h a b \<Longrightarrow> sends h b c \<Longrightarrow> sends h a c"
  by (auto simp: sends_def intro: keyed_append)

text \<open>With identifiers that never repeat, the keys of the orders are there and differ.\<close>

lemma keyed_distinct:
  assumes "keyed h m n qs" and "inj (c_uuid h)"
  shows "None \<notin> key_of ` set (filter is_order qs) \<and> distinct (map key_of (filter is_order qs))"
proof -
  from assms(1) obtain js where
    js: "map key_of (filter is_order qs) = map (\<lambda>j. Some (c_uuid h j)) js" "sorted_wrt (<) js"
    by (auto simp: keyed_def)
  from js(2) have "distinct js" by (simp add: strict_sorted_iff)
  moreover have "inj_on (\<lambda>j. Some (c_uuid h j)) (set js)"
    using assms(2) by (auto simp: inj_on_def)
  ultimately have "distinct (map key_of (filter is_order qs))"
    unfolding js(1) by (simp add: distinct_map)
  moreover have "None \<notin> set (map key_of (filter is_order qs))" unfolding js(1) by auto
  ultimately show ?thesis by auto
qed

section \<open>Through the program\<close>

definition client_of :: "('w, 'p) on_visit \<Rightarrow> 'w client" where
  "client_of z = fst (fst z)"

abbreviation disciplined :: "'w console \<Rightarrow> (('w, 'p) on_visit, 'a) io \<Rightarrow> bool" where
  "disciplined h m \<equiv> frame (\<lambda>z z'. sends h (client_of z) (client_of z')) m"

abbreviation disciplined_visit :: "'w console \<Rightarrow> ('w visit, 'a) io \<Rightarrow> bool" where
  "disciplined_visit h m \<equiv> frame (\<lambda>v v'. sends h (fst v) (fst v')) m"

abbreviation disciplined_api :: "'w console \<Rightarrow> ('w, 'a) api \<Rightarrow> bool" where
  "disciplined_api h m \<equiv> frame (sends h) m"

lemma sends_rel:
  "reflp (sends h)" "transp (sends h)"
  "reflp (\<lambda>v v'. sends h (fst v) (fst v'))" "transp (\<lambda>v v'. sends h (fst v) (fst v'))"
  "reflp (\<lambda>z z'. sends h (client_of z) (client_of z'))"
  "transp (\<lambda>z z'. sends h (client_of z) (client_of z'))"
  by (auto intro!: reflpI transpI sends_refl intro: sends_trans)

lemmas sends_pure = frame_pure [OF sends_rel(1)] frame_pure [OF sends_rel(3)] frame_pure [OF sends_rel(5)]
lemmas sends_bind = frame_bind [OF sends_rel(2)] frame_bind [OF sends_rel(4)] frame_bind [OF sends_rel(6)]
lemmas sends_catch = frame_catch [OF sends_rel(2)] frame_catch [OF sends_rel(4)] frame_catch [OF sends_rel(6)]

lemma map_of_rev_None: "k \<notin> fst ` set xs \<Longrightarrow> map_of (rev xs) k = None"
  by (simp add: map_of_eq_None_iff)

lemma sends_req:
  assumes "m = ''POST'' \<Longrightarrow> \<not> startsWith p ''/v1/''" and "map_of extra ''X-Env'' = None"
  shows "disciplined_api h (req h m p body extra)"
proof (rule frameI)
  fix c r c'
  assume run: "req h m p body extra c = (r, c')"
  show "sends h c c'"
  proof (cases "cl_sent c' = cl_sent c")
    case True
    with req_sends [OF run] show ?thesis by (simp add: sends_def)
  next
    case False
    with req_sends [OF run] obtain t where
      "cl_sent c' = cl_sent c @ [\<lparr>rq_method = m, rq_path = ''/api'' @ p,
        rq_headers = headers_of (cl_env c) extra body, rq_body = t\<rparr>]"
      by (auto split: if_splits)
    moreover have "\<not> is_order \<lparr>rq_method = m, rq_path = ''/api'' @ p,
        rq_headers = headers_of (cl_env c) extra body, rq_body = t\<rparr>"
      using assms(1) by (auto simp: is_order_def startsWith_def)
    moreover have "map_of (headers_of (cl_env c) extra body) ''X-Env'' = Some (cl_env c)"
      using assms(2) by (simp add: headers_of_def Let_def map_of_eq_None_iff map_of_rev_None)
    ultimately show ?thesis using req_sends [OF run] by (simp add: sends_def env_of_def keyed_def)
  qed
qed

lemma sends_get: "disciplined_api h (api_get h p)"
  unfolding api_get_def by (rule sends_req) simp_all

lemma sends_post: "\<not> startsWith p ''/v1/'' \<Longrightarrow> disciplined_api h (api_post h p b)"
  unfolding api_post_def by (rule sends_req) simp_all

lemma sends_in_api: "disciplined_api h m \<Longrightarrow> disciplined_visit h (in_api m)"
  by (auto simp: frame_def in_api_def split: prod.splits)

lemma sends_on_session: "disciplined_visit h (on_session f)"
  by (auto simp: frame_def on_session_def sends_refl)

lemma sends_in_visit: "disciplined_visit h m \<Longrightarrow> disciplined h (in_visit m)"
  by (auto simp: frame_def in_visit_def client_of_def split: prod.splits)

lemma sends_on_page: "disciplined h (on_page f)"
  by (auto simp: frame_def client_of_def sends_refl)

lemma sends_page_get: "disciplined h (page_get f)"
  by (auto simp: frame_def client_of_def sends_refl)

lemma sends_read_field: "disciplined h (read_field v k)"
  by (auto simp: frame_def read_field_def sends_refl)

lemma sends_idemKey: "disciplined_api h (idemKey h)"
  by (auto simp: frame_def idemKey_def sends_def keyed_def)

lemma sends_toast: "disciplined_visit h (toast_c h t m k)" "disciplined_visit h (toastErr h e)"
  unfolding toastErr_def toast_c_def
  by (intro sends_bind sends_in_api sends_idemKey sends_on_session)+

lemma sends_pop: "disciplined h (pop_up h t m k)" "disciplined h (pop_err h e)"
  unfolding pop_up_def pop_err_def by (intro sends_in_visit sends_toast)+

lemma sends_refresh: "disciplined_visit h (refreshMe h)"
  unfolding refreshMe_def
  by (intro sends_catch sends_bind sends_in_api sends_get sends_on_session sends_pure)

lemma sends_nav: "disciplined_visit h (nav r)"
  unfolding nav_def by (rule sends_on_session)

lemma sends_launch: "disciplined h (launch h p k upd)"
  by (auto simp: frame_def launch_def client_of_def dest: frameD [OF sends_get] split: prod.splits)

lemma sends_call_get: "disciplined h (api_call (api_get h p))"
  unfolding api_call_def by (intro sends_in_visit sends_in_api sends_get)

lemma sends_call_post: "\<not> startsWith p ''/v1/'' \<Longrightarrow> disciplined h (api_call (api_post h p b))"
  unfolding api_call_def by (intro sends_in_visit sends_in_api sends_post)

text \<open>An order takes an identifier and is sent under it.\<close>

lemma sends_order: "disciplined h (keyed_post h p b)"
proof (rule frameI)
  fix z r z'
  assume run: "keyed_post h p b z = (r, z')"
  obtain c s q where z: "z = ((c, s), q)" by (metis surj_pair)
  let ?c = "c\<lparr>cl_uuids := Suc (cl_uuids c)\<rparr>" and ?key = "c_uuid h (cl_uuids c)"
  obtain a c1 where post: "postIdem h p b ?key ?c = (a, c1)" by (metis surj_pair)
  with run z have c': "client_of z' = c1"
    by (auto simp: keyed_post_def bindIO_def api_call_def in_visit_def in_api_def idemKey_def client_of_def
        split: sum.splits)
  note sent = req_sends [OF post [unfolded postIdem_def]]
  have "sends h c c1"
  proof (cases "cl_sent c1 = cl_sent c")
    case True
    with sent show ?thesis by (simp add: sends_def)
  next
    case False
    with sent obtain t where new: "cl_sent c1 = cl_sent c @ [\<lparr>rq_method = ''POST'', rq_path = ''/api'' @ p,
        rq_headers = headers_of (cl_env c) [(''Idempotency-Key'', ?key)] (nullish_or b (JObj [])), rq_body = t\<rparr>]"
      (is "_ = _ @ [?q]") by (auto split: if_splits)
    have "key_of ?q = Some ?key" "env_of ?q = Some (cl_env c)"
      by (simp_all add: key_of_def env_of_def headers_of_def Let_def)
    then have "keyed h (cl_uuids c) (Suc (cl_uuids c)) [?q]"
      unfolding keyed_def by (intro exI [of _ "if is_order ?q then [cl_uuids c] else []"]) simp
    with new sent \<open>env_of ?q = _\<close> show ?thesis by (auto simp: sends_def)
  qed
  with c' z show "sends h (client_of z) (client_of z')" by (simp add: client_of_def)
qed

lemma sends_guarded:
  "disciplined h body \<Longrightarrow> (\<And>e. disciplined h (handler e)) \<Longrightarrow> disciplined h (guarded body handler busy)"
  unfolding guarded_def by (intro sends_bind sends_on_page sends_catch)

lemmas sends_intros = sends_pure sends_bind sends_catch sends_on_page sends_page_get sends_read_field
  sends_pop sends_launch sends_call_get sends_order sends_guarded sends_in_visit sends_refresh sends_toast sends_nav

section \<open>What is posted\<close>

definition posts :: "'w client \<Rightarrow> request list" where
  "posts c = filter (\<lambda>q. rq_method q = ''POST'') (cl_sent c)"

lemma api_get_posts:
  assumes "api_get h p c = (r, c')"
  shows "posts c' = posts c \<and> cl_env c' = cl_env c \<and> cl_uuids c' = cl_uuids c"
  using req_sends [OF assms [unfolded api_get_def]] by (simp add: posts_def)

lemma toast_c_run:
  "toast_c h t m k (c, ss) = (Inr (), (c\<lparr>cl_uuids := Suc (cl_uuids c)\<rparr>,
     ss\<lparr>se_toasts := se_toasts ss @ [\<lparr>tr_id = c_uuid h (cl_uuids c), tr_title = t, tr_msg = m, tr_type = k\<rparr>]\<rparr>))"
  by (simp add: toast_c_def bindIO_def in_api_def on_session_def idemKey_def)

lemma pop_up_run:
  "pop_up h t m k ((c, ss), p) = (Inr (), ((c\<lparr>cl_uuids := Suc (cl_uuids c)\<rparr>,
     ss\<lparr>se_toasts := se_toasts ss @ [\<lparr>tr_id = c_uuid h (cl_uuids c), tr_title = t, tr_msg = m, tr_type = k\<rparr>]\<rparr>), p))"
  by (simp add: pop_up_def in_visit_run toast_c_run)

text \<open>An awaited order: one post, under a fresh key, of the text of the body, unless it has none.\<close>

lemma keyed_post_run:
  assumes "\<not> nullish b" and "json_stringify b = Inr (Some t)"
  obtains ans c1 where "keyed_post h path b ((c, s), p) = (ans, ((c1, s), p))"
    "cl_env c1 = cl_env c" "cl_uuids c1 = Suc (cl_uuids c)"
    "cl_sent c1 = cl_sent c @ [\<lparr>rq_method = ''POST'', rq_path = ''/api'' @ path,
       rq_headers = headers_of (cl_env c) [(''Idempotency-Key'', c_uuid h (cl_uuids c))] b, rq_body = Some t\<rparr>]"
proof -
  let ?c = "c\<lparr>cl_uuids := Suc (cl_uuids c)\<rparr>" and ?key = "c_uuid h (cl_uuids c)"
  obtain ans c1 where post: "postIdem h path b ?key ?c = (ans, c1)" by (metis surj_pair)
  have b: "nullish_or b (JObj []) = b" "b \<noteq> JUndef" using assms(1) by auto
  have "keyed_post h path b ((c, s), p) = (ans, ((c1, s), p))"
    using post by (simp add: keyed_post_def bindIO_def api_call_def in_visit_def in_api_def idemKey_def)
  with req_sends [OF post [unfolded postIdem_def b(1)]] assms(2) b(2) that show thesis by auto
qed

section \<open>Pages\<close>

locale page =
  fixes h :: "'w console"
    and run :: "'e \<Rightarrow> (('w, 'p) on_visit, unit) io" \<comment> \<open>what an event does\<close>
    and mount :: "(('w, 'p) on_visit, unit) io" \<comment> \<open>the effects\<close>
  assumes run_sends: "disciplined h (run e)"
    and mount_sends: "disciplined h mount"
begin

lemma run_orders: "run e (v, p) = (r, (v', p')) \<Longrightarrow> orders h (fst v) (fst v')"
  using frameD [OF run_sends] by (fastforce simp: client_of_def intro: sends_orders)

lemma mount_orders: "mount (v, p) = (r, (v', p')) \<Longrightarrow> orders h (fst v) (fst v')"
  using frameD [OF mount_sends] by (fastforce simp: client_of_def intro: sends_orders)

end

end
