(* ===== verification/Console_Settle.thy ===== *)
theory Console_Settle
  imports Console_Sends
begin

text \<open>
  The settlements page of the console (\<open>cloud/console/src/pages/Settlements.jsx\<close>): what it loads, which
  code and rows it shows, and its two writes, committing a period and settling one. A promise
  of \<open>load\<close> that is not handled yet is kept with what it resolves to and the environment it was
  sent in; the promises are handled one by one, in any order. A handler that awaits a write runs
  to its end before another one starts.
\<close>

section \<open>State\<close>

datatype load_kind = LoadSettlements | LoadCampaigns

record confirm =
  cf_row :: jval
  cf_busy :: bool
  cf_err :: "jserr option"

record settlements =
  sp_data :: jval
  sp_campaigns :: "jval list"
  sp_sel :: string
  sp_confirm :: "confirm option"
  sp_commitBusy :: bool
  sp_loads :: "load_kind promises"

definition settlements_init :: settlements where
  "settlements_init = \<lparr>sp_data = JNull, sp_campaigns = [], sp_sel = [], sp_confirm = None,
     sp_commitBusy = False, sp_loads = []\<rparr>"

datatype settle_page_ev = SpSelect string | SpCommit | SpAsk jval | SpCancel | SpSettle

section \<open>What is shown\<close>

definition code_key_c :: "jval \<Rightarrow> string" where
  "code_key_c c = js_String (get c ''id'') @ '':'' @ js_String (get c ''shared_code'')"

definition settle_codes :: "settlements \<Rightarrow> jval list" where \<comment> \<open>\<open>codes\<close>: the last campaign of each key\<close>
  "settle_codes p = map snd (foldl (\<lambda>seen c. put (code_key_c c) c seen) [] (sp_campaigns p))"

definition settle_current :: "settlements \<Rightarrow> jval option" where
  "settle_current p =
     (case find (\<lambda>c. code_key_c c = sp_sel p) (settle_codes p) of
        Some c \<Rightarrow> Some c
      | None \<Rightarrow> (case settle_codes p of c # _ \<Rightarrow> Some c | [] \<Rightarrow> None))"

definition settle_rows :: "settlements \<Rightarrow> jval list" where
  "settle_rows p =
     filter (\<lambda>s. case settle_current p of
         None \<Rightarrow> True
       | Some c \<Rightarrow> get s ''campaign_id'' = get c ''id'' \<and> get s ''code'' = get c ''shared_code'')
       (items (get (sp_data p) ''settlements''))"

definition positive :: "jval \<Rightarrow> bool" where \<comment> \<open>\<open>v > 0\<close>\<close>
  "positive v \<longleftrightarrow> jless (Fin 0) (js_Number v)"

definition is_payable :: "jval \<Rightarrow> bool" where
  "is_payable s \<longleftrightarrow> \<not> truthy (get s ''settled'') \<and> positive (get s ''attributed_count'')"

definition payable :: "settlements \<Rightarrow> jval list" where
  "payable p = filter is_payable (settle_rows p)"

definition settledTotal :: "jval list \<Rightarrow> int js" where
  "settledTotal rows =
     foldl (\<lambda>acc s. bindR acc (\<lambda>a. bindR (js_BigInt (js_or (get s ''payout_amount'') (JNum (Fin 0)))) (\<lambda>b.
       Inr (a + b)))) (Inr 0) (filter (\<lambda>s. truthy (get s ''settled'')) rows)"

definition pendingEvents :: "settlements \<Rightarrow> jval" where
  "pendingEvents p =
     js_or (case settle_current p of Some c \<Rightarrow> get c ''pending_events'' | None \<Rightarrow> JUndef) (JNum (Fin 0))"

section \<open>Loading\<close>

type_synonym 'w settle_run = "('w, settlements) on_visit"

definition start_load :: "'w console \<Rightarrow> load_kind \<Rightarrow> ('w settle_run, unit) io" where
  "start_load h k =
     launch h (case k of LoadSettlements \<Rightarrow> ''/v1/settlements'' | LoadCampaigns \<Rightarrow> ''/v1/campaigns'') k
       sp_loads_update"

definition settle_load :: "'w console \<Rightarrow> ('w settle_run, unit) io" where
  "settle_load h = bindIO (start_load h LoadSettlements) (\<lambda>_. start_load h LoadCampaigns)"

definition loaded :: "load_kind \<Rightarrow> jval js \<Rightarrow> settlements \<Rightarrow> settlements" where
  \<comment> \<open>the \<open>then\<close> of a promise; a rejection and a throw of the handler are dropped\<close>
  "loaded k r p =
     (case (k, r) of
        (LoadSettlements, Inr d) \<Rightarrow> p\<lparr>sp_data := d\<rparr>
      | (LoadCampaigns, Inr d) \<Rightarrow>
          (case field d ''campaigns'' of
             Inr (JArr cs) \<Rightarrow> p\<lparr>sp_campaigns := filter (\<lambda>c. truthy (get c ''attributed_to'')) cs\<rparr>
           | _ \<Rightarrow> p)
      | _ \<Rightarrow> p)"

definition settle_effect :: "'w console \<Rightarrow> ('w settle_run, unit) io" where
  \<comment> \<open>on mounting and whenever the environment changes\<close>
  "settle_effect h =
     bindIO (on_page (\<lambda>p. p\<lparr>sp_data := JNull, sp_sel := []\<rparr>)) (\<lambda>_. settle_load h)"

section \<open>Handlers\<close>

definition commit_path :: "jval \<Rightarrow> string" where
  "commit_path c = ''/v1/shared-codes/'' @ js_String (get c ''id'') @ ''/''
     @ js_String (get c ''shared_code'') @ ''/commits''"

definition commit_toast :: "'w console \<Rightarrow> jval \<Rightarrow> ('w settle_run, unit) io" where
  "commit_toast h r =
     bindIO (read_field r ''remaining_receipts'') (\<lambda>rest.
     in_visit (toast_c h (if positive rest then ''Tally batch committed'' else ''Tally committed'')
       (js_String (get r ''period_label'') @ '' '' @ [CHR 0xB7] @ '' '' @ js_String (get r ''count'')
        @ '' conversions from '' @ js_String (get r ''receipt_count'')
        @ '' signed receipts anchored with Merkle root '' @ trunc_c 6 6 (get r ''merkle_root'') @ ''.''
        @ (if positive rest
           then '' '' @ js_String rest @ '' signed receipts remain for another period.'' else []))
       ''success''))"

definition commitNow :: "'w console \<Rightarrow> ('w settle_run, unit) io" where
  "commitNow h =
     bindIO (getIO (\<lambda>(v, p). settle_current p)) (\<lambda>cur.
     case cur of
       None \<Rightarrow> returnIO ()
     | Some c \<Rightarrow>
         bindIO (on_page (\<lambda>p. p\<lparr>sp_commitBusy := True\<rparr>)) (\<lambda>_.
         bindIO
           (catchIO
             (bindIO (keyed_post h (commit_path c) (JObj [])) (\<lambda>r.
              bindIO (commit_toast h r) (\<lambda>_. settle_load h)))
             (\<lambda>e. in_visit (toast_c h (error_title e ''Commit failed'') (e_message e) ''error'')))
           (\<lambda>_. on_page (\<lambda>p. p\<lparr>sp_commitBusy := False\<rparr>))))"

definition set_confirm :: "(confirm \<Rightarrow> confirm) \<Rightarrow> ('w settle_run, unit) io" where
  "set_confirm f = on_page (\<lambda>p. p\<lparr>sp_confirm := map_option f (sp_confirm p)\<rparr>)"

definition settle_body :: "jval \<Rightarrow> jval" where
  "settle_body s = JObj [(''campaign_id'', get s ''campaign_id''), (''code'', get s ''code''),
     (''period'', get s ''period'')]"

definition settle_toast :: "'w console \<Rightarrow> jval \<Rightarrow> jval \<Rightarrow> ('w settle_run, unit) io" where
  "settle_toast h s r =
     bindIO (read_field r ''total'') (\<lambda>total.
     in_visit (toast_c h (''Settled '' @ [CHR 0x8D])
       (fmtUnits h total @ '' '' @ js_String (get r ''unit'') @ '' paid on-chain to ''
        @ trunc_c 4 4 (get s ''attributed_to'') @ ''.'') ''success''))"

definition settle_now :: "'w console \<Rightarrow> jval \<Rightarrow> ('w settle_run, unit) io" where
  \<comment> \<open>\<open>settle\<close> of the dialog for the row \<open>s\<close>\<close>
  "settle_now h s =
     bindIO (set_confirm (\<lambda>c. c\<lparr>cf_busy := True, cf_err := None\<rparr>)) (\<lambda>_.
     catchIO
       (bindIO (keyed_post h ''/v1/settlements'' (settle_body s)) (\<lambda>r.
        bindIO (settle_toast h s r) (\<lambda>_.
        bindIO (on_page (\<lambda>p. p\<lparr>sp_confirm := None\<rparr>)) (\<lambda>_. settle_load h))))
       (\<lambda>e. set_confirm (\<lambda>c. c\<lparr>cf_err := Some e, cf_busy := False\<rparr>)))"

definition settle_page_run :: "'w console \<Rightarrow> settle_page_ev \<Rightarrow> ('w settle_run, unit) io" where
  "settle_page_run h e =
     (case e of
        SpSelect v \<Rightarrow> on_page (\<lambda>p. p\<lparr>sp_sel := v\<rparr>)
      | SpCommit \<Rightarrow> commitNow h
      | SpAsk s \<Rightarrow> on_page (\<lambda>p. p\<lparr>sp_confirm := Some \<lparr>cf_row = s, cf_busy = False, cf_err = None\<rparr>\<rparr>)
      | SpCancel \<Rightarrow> on_page (\<lambda>p. p\<lparr>sp_confirm := None\<rparr>)
      | SpSettle \<Rightarrow>
          bindIO (getIO (\<lambda>(v, p). sp_confirm p)) (\<lambda>c.
          case c of None \<Rightarrow> returnIO () | Some f \<Rightarrow> settle_now h (cf_row f)))"

section \<open>Elements\<close>

definition row_amount :: "'w console \<Rightarrow> jval \<Rightarrow> string" where
  "row_amount h s =
     (if truthy (get s ''settled'') then fmtUnits h (get s ''payout_amount'') @ '' XLM''
      else if positive (get s ''attributed_count'') then fmtUnits h (get s ''payout_preview'') @ '' XLM''
      else [CHR 0x97])"

definition payout_unit :: "settlements \<Rightarrow> string" where
  "payout_unit p =
     (case items (get (sp_data p) ''settlements'') of
        s # _ \<Rightarrow> if truthy (get s ''payout_unit'') then js_String (get s ''payout_unit'') else ''XLM''
      | [] \<Rightarrow> ''XLM'')"

definition confirm_lines :: "string \<Rightarrow> jval \<Rightarrow> jval \<Rightarrow> (string \<times> string) list" where
  "confirm_lines env account s =
     [(''From'', trunc_c 4 4 (get account ''public_key'') @ '' '' @ [CHR 0xB7] @ '' your org account''),
      (''To'', trunc_c 4 4 (get s ''attributed_to'') @ '' '' @ [CHR 0xB7] @ '' creator''),
      (''Fee'', if env = ''test'' then ''free (test)'' else ''25 cr'')]"

definition SettleConfirm :: \<open>'w console \<Rightarrow> session \<Rightarrow> confirm \<Rightarrow> settle_page_ev html\<close> where
  \<open>SettleConfirm h ss c =
     (let s = cf_row c;
          account = get (get (se_org ss) ''accounts'') (se_env ss)
      in Modal SpCancel ''460''
           [El ''div'' [(''className'', Val ''ticket-perf''),
                        (''style'',
                         Sty [(''borderRadius'', ''18px 18px 0 0''), (''margin'', ''-26px -28px 0''),
                              (''position'', ''relative''), (''inset'', ''auto'')])] [],
            El ''div'' [(''style'',
                         Sty [(''display'', ''flex''), (''flexDirection'', ''column''),
                              (''gap'', ''12''), (''paddingTop'', ''14'')])]
              ([El ''div'' []
                  [El ''div'' [(''style'', Sty [(''fontSize'', ''16''), (''fontWeight'', ''650'')])]
                     [Text ''Settle '',
                      Text (shown (get s ''period_label''))],
                   El ''div'' [(''className'', Val ''mono''),
                               (''style'',
                                Sty [(''fontSize'', ''12''), (''color'', ''var(--ink-3)''),
                                     (''marginTop'', ''2'')])]
                     [Text (shown (get s ''code'')),
                      Text ('' '' @ [CHR 0xB7] @ '' ''),
                      Text (shown (get s ''campaign_name''))]],
                El ''div'' [(''style'',
                             Sty [(''textAlign'', ''center''), (''padding'', ''14px 0 10px'')])]
                  [El ''div'' [(''className'', Val ''display''),
                               (''style'', Sty [(''fontSize'', ''44'')])]
                     [Text (fmtUnits h (get s ''payout_preview'')),
                      Text '' '',
                      El ''span'' [(''style'',
                                    Sty [(''fontSize'', ''20''), (''color'', ''var(--ink-2)'')])]
                        [Text ''XLM'']],
                   El ''div'' [(''className'', Val ''mono''),
                               (''style'',
                                Sty [(''fontSize'', ''12''), (''color'', ''var(--ink-3)''),
                                     (''marginTop'', ''4'')])]
                     [Text (shown (get s ''attributed_count'')),
                      Text ('' redemptions '' @ [CHR 0xD7] @ '' ''),
                      Text (fmtUnits h (get s ''payout_rate'')),
                      Text '' XLM'']]]
                 @
                 (concat (map (\<lambda> (k, v) .
                                 [El ''div'' [(''style'',
                                               Sty [(''display'', ''flex''),
                                                    (''justifyContent'', ''space-between''),
                                                    (''borderTop'', ''1px solid var(--line)''),
                                                    (''paddingTop'', ''10''), (''fontSize'', ''13'')])]
                                    [El ''span'' [(''style'', Sty [(''color'', ''var(--ink-3)'')])]
                                       [Text k],
                                     El ''span'' [(''className'', Val ''mono''),
                                                  (''style'', Sty [(''fontSize'', ''12'')])] [Text v]]])
                            (confirm_lines (se_env ss) account s)))
                 @
                 [El ''div'' [(''style'',
                               Sty [(''background'', ''var(--surface-inset)''),
                                    (''border'', ''1px solid var(--line)''), (''borderRadius'', ''10''),
                                    (''padding'', ''10px 13px''), (''fontSize'', ''12.5''),
                                    (''color'', ''var(--ink-2)''), (''lineHeight'', ''1.5'')])]
                    [Text (''Settlement happens on-chain and is final ''
                             @ [CHR 0x97]
                             @ '' this period can''
                             @ [CHR 0x27]
                             @ ''t be paid twice (''),
                     El ''span'' [(''className'', Val ''mono''),
                                  (''style'', Sty [(''fontSize'', ''11.5'')])]
                       [Text ''AlreadySettled''],
                     Text '' guards it).'']]
                 @ (ErrText (cf_err c))
                 @
                 [El ''div'' [(''style'',
                               Sty [(''display'', ''flex''), (''justifyContent'', ''flex-end''),
                                    (''gap'', ''9'')])]
                    [El ''button'' [(''className'', Val ''btn-plain''), (''onClick'', On SpCancel)]
                       [Text ''Cancel''],
                     BtnPrimary
                       [Text ''Settle '',
                        Text (fmtUnits h (get s ''payout_preview'')),
                        Text '' XLM''] SpSettle (cf_busy c) False
                       [Ic_c ''coins'' [(''width'', Val ''13''), (''height'', Val ''13'')]] True []]])])\<close>

definition no_codes :: \<open>'e html\<close> where
  \<open>no_codes =
     El ''div'' [(''className'', Val ''page'')]
       [El ''div'' [(''className'', Val ''page-head'')]
          [El ''div'' []
             [El ''h1'' [(''className'', Val ''display''),
                         (''style'', Sty [(''fontSize'', ''27''), (''margin'', ''0'')])]
                [Text ''Settlements''],
              El ''p'' [(''className'', Val ''page-sub'')]
                [Text (''Creator & referral codes '' @ [CHR 0xB7] @ '' pay per conversion'')]]],
        El ''div'' [(''className'', Val ''empty'')]
          [El ''h2'' [(''className'', Val ''display''),
                      (''style'', Sty [(''fontSize'', ''22''), (''margin'', ''0'')])]
             [Text ''No creator codes yet''],
           El ''p'' [(''style'',
                      Sty [(''fontSize'', ''13.5''), (''color'', ''var(--ink-2)''), (''margin'', ''0''),
                           (''maxWidth'', ''36em'')])]
             [Text ''Create a '',
              El ''strong'' [] [Text ''Creator / referral code''],
              Text ('' campaign ''
                      @ [CHR 0x97]
                      @
                      '' every conversion credits the creator on-chain, and each committed period settles here with one click.'')]]]\<close>

definition settlements_view :: \<open>'w console \<Rightarrow> session \<Rightarrow> settlements \<Rightarrow> settle_page_ev html js\<close> where
  \<open>settlements_view h ss p =
     bindR (settledTotal (settle_rows p))
       (\<lambda>total. case settle_current p of None \<Rightarrow> Inr no_codes | Some cur
          \<Rightarrow> Inr
          (El ''div'' [(''className'', Val ''page'')]
             ([El ''div'' [(''className'', Val ''page-head'')]
                 [El ''div'' []
                    [El ''h1'' [(''className'', Val ''display''),
                                (''style'', Sty [(''fontSize'', ''27''), (''margin'', ''0'')])]
                       [Text ''Settlements''],
                     El ''p'' [(''className'', Val ''page-sub'')]
                       [Text (''Creator & referral codes '' @ [CHR 0xB7] @ '' pay per conversion in ''),
                        Text (payout_unit p)]],
                  El ''select'' [(''className'', Val ''select mono''),
                                 (''style'',
                                  Sty [(''width'', ''260''), (''fontSize'', ''12.5''),
                                       (''paddingTop'', ''9''), (''paddingBottom'', ''9'')]),
                                 (''value'',
                                  Val (if sp_sel p \<noteq> [] then sp_sel p else code_key_c cur)),
                                 (''onChange'', OnV SpSelect)]
                    (concat (map (\<lambda>c.
                                    [El ''option'' [(''value'', Val (code_key_c c))]
                                       [Text (shown (get c ''shared_code'')),
                                        Text ('' '' @ [CHR 0x97] @ '' ''),
                                        Text (shown (get c ''name''))]]) (settle_codes p)))]]
                @
                (if True then
                   [El ''div'' [(''className'', Val ''card''),
                                (''style'',
                                 Sty [(''padding'', ''20px 24px''), (''display'', ''flex''),
                                      (''alignItems'', ''center''), (''gap'', ''28''),
                                      (''flexWrap'', ''wrap'')])]
                      ([El ''div'' [(''style'',
                                     Sty [(''display'', ''flex''), (''flexDirection'', ''column''),
                                          (''gap'', ''3'')])]
                          [El ''span'' [(''style'',
                                         Sty [(''fontSize'', ''12''), (''fontWeight'', ''600''),
                                              (''color'', ''var(--ink-2)'')])] [Text ''Creator''],
                           El ''span'' [(''className'', Val ''mono''),
                                        (''style'',
                                         Sty [(''fontSize'', ''12.5''),
                                              (''background'', ''var(--surface-inset)''),
                                              (''border'', ''1px solid var(--line)''),
                                              (''borderRadius'', ''8''), (''padding'', ''4px 10px'')])]
                             [Text (trunc_c 8 5 (get cur ''attributed_to''))]],
                        El ''div'' [(''style'',
                                     Sty [(''display'', ''flex''), (''flexDirection'', ''column''),
                                          (''gap'', ''3'')])]
                          [El ''span'' [(''style'',
                                         Sty [(''fontSize'', ''12''), (''fontWeight'', ''600''),
                                              (''color'', ''var(--ink-2)'')])] [Text ''Rate''],
                           El ''span'' [(''style'',
                                         Sty [(''display'', ''flex''), (''alignItems'', ''center''),
                                              (''gap'', ''7'')])]
                             [El ''span'' [(''className'', Val ''mono''),
                                           (''style'',
                                            Sty [(''fontSize'', ''14''), (''fontWeight'', ''600'')])]
                                [Text (fmtUnits h (get cur ''payout_rate'')),
                                 Text '' XLM''],
                              El ''span'' [(''style'',
                                            Sty [(''fontSize'', ''12''),
                                                 (''color'', ''var(--ink-3)'')])]
                                [Text ''/ redemption''],
                              El ''span'' [(''className'', Val ''authtag'')]
                                [Ic_c ''lock'' [(''width'', Val ''11''), (''height'', Val ''11'')],
                                 Text ''immutable'']]],
                        El ''div'' [(''style'',
                                     Sty [(''display'', ''flex''), (''flexDirection'', ''column''),
                                          (''gap'', ''3'')])]
                          [El ''span'' [(''style'',
                                         Sty [(''fontSize'', ''12''), (''fontWeight'', ''600''),
                                              (''color'', ''var(--ink-2)'')])]
                             [Text ''Settled to date''],
                           El ''span'' [(''className'', Val ''mono''),
                                        (''style'',
                                         Sty [(''fontSize'', ''14''), (''fontWeight'', ''600'')])]
                             [Text (fmtUnits h (JBig total)),
                              Text '' XLM'']],
                        El ''div'' [(''style'', Sty [(''flex'', ''1'')])] []]
                         @
                         (if payable p \<noteq> [] then
                            [El ''div'' [(''style'',
                                          Sty [(''textAlign'', ''right''),
                                               (''background'', ''var(--accent-wash)''),
                                               (''border'', ''1px dashed var(--accent-2)''),
                                               (''borderRadius'', ''12''),
                                               (''padding'', ''10px 16px'')])]
                               [El ''div'' [(''style'',
                                             Sty [(''fontSize'', ''11.5''), (''fontWeight'', ''600''),
                                                  (''color'', ''var(--ink-2)'')])]
                                  [Text (''Payable now '' @ [CHR 0xB7] @ '' ''),
                                   Text (shown (get (hd (payable p)) ''period_label''))],
                                El ''div'' [(''className'', Val ''display''),
                                            (''style'', Sty [(''fontSize'', ''24'')])]
                                  [Text (fmtUnits h (get (hd (payable p)) ''payout_preview'')),
                                   Text '' '',
                                   El ''span'' [(''style'',
                                                 Sty [(''fontSize'', ''14''),
                                                      (''color'', ''var(--ink-2)'')])] [Text ''XLM'']]]]
                            else
                            [El ''button'' [(''className'', Val ''btn-plain''),
                                            (''style'', Sty [(''fontSize'', ''13'')]),
                                            (''disabled'', Flag (sp_commitBusy p)),
                                            (''onClick'', On SpCommit)]
                               [Text (if sp_commitBusy p then ''Committing''
                                        @ [CHR 0x85] else ''Commit current period'')]]))] else [])
                @
                [El ''div'' [(''className'', Val ''card''),
                             (''style'', Sty [(''overflow'', ''hidden'')])]
                   ([El ''div'' [(''style'',
                                  Sty [(''display'', ''grid''),
                                       (''gridTemplateColumns'', ''1fr 1fr 1fr 1.3fr 1.1fr 1fr 1.3fr''),
                                       (''gap'', ''12''), (''padding'', ''11px 20px''),
                                       (''borderBottom'', ''1px solid var(--line)''),
                                       (''background'', ''var(--surface-inset)'')])]
                       (concat (map (\<lambda>t.
                                       [El ''span'' [(''className'', Val ''eyebrow''),
                                                     (''style'', Sty [(''fontSize'', ''11'')])]
                                          [Text t]]) [''Period'', ''Count'', ''Creator count'',
                                                      ''Merkle root'', ''Status'', ''Amount'', []]))]
                      @
                      (if (True \<and> positive (pendingEvents p)) then
                         [El ''div'' [(''style'',
                                       Sty [(''display'', ''grid''),
                                            (''gridTemplateColumns'',
                                             ''1fr 1fr 1fr 1.3fr 1.1fr 1fr 1.3fr''), (''gap'', ''12''),
                                            (''padding'', ''13px 20px''),
                                            (''borderBottom'', ''1px solid var(--line)''),
                                            (''alignItems'', ''center''), (''opacity'', ''0.75'')])]
                            [El ''span'' [(''className'', Val ''mono''),
                                          (''style'', Sty [(''fontSize'', ''12.5'')])]
                               [Text ''current''],
                             El ''span'' [(''className'', Val ''mono''),
                                          (''style'', Sty [(''fontSize'', ''12.5'')])]
                               [Text (shown (pendingEvents p)),
                                Text '' '',
                                El ''span'' [(''style'',
                                              Sty [(''color'', ''var(--ink-3)''),
                                                   (''fontSize'', ''11'')])] [Text ''so far'']],
                             El ''span'' [(''className'', Val ''mono''),
                                          (''style'',
                                           Sty [(''fontSize'', ''12.5''),
                                                (''color'', ''var(--ink-3)'')])] [Text [CHR 0x97]],
                             El ''span'' [(''className'', Val ''mono''),
                                          (''style'',
                                           Sty [(''fontSize'', ''11.5''),
                                                (''color'', ''var(--ink-3)'')])]
                               [Text ''commit anytime''],
                             Pill_c [] [Text ''Accruing''],
                             El ''span'' [(''className'', Val ''mono''),
                                          (''style'',
                                           Sty [(''fontSize'', ''12.5''),
                                                (''color'', ''var(--ink-3)'')])] [Text [CHR 0x97]],
                             El ''button'' [(''className'', Val ''btn-plain''),
                                            (''style'',
                                             Sty [(''fontSize'', ''12''), (''padding'', ''5px 13px''),
                                                  (''justifySelf'', ''end'')]),
                                            (''disabled'', Flag (sp_commitBusy p)),
                                            (''onClick'', On SpCommit)] [Text ''Commit now'']]] else [])
                      @
                      (concat (map (\<lambda>s.
                                      [El ''div'' [(''style'',
                                                    Sty [(''display'', ''grid''),
                                                         (''gridTemplateColumns'',
                                                          ''1fr 1fr 1fr 1.3fr 1.1fr 1fr 1.3fr''),
                                                         (''gap'', ''12''),
                                                         (''padding'', ''13px 20px''),
                                                         (''borderBottom'', ''1px solid var(--line)''),
                                                         (''alignItems'', ''center''),
                                                         (''background'',
                                                          (if is_payable s then
                                                             ''color-mix(in oklch, var(--accent-wash) 34%, var(--surface))''
                                                             else []))])]
                                         ([El ''span'' [(''className'', Val ''mono''),
                                                        (''style'',
                                                         Sty [(''fontSize'', ''12.5''),
                                                              (''fontWeight'',
                                                               (if truthy (get s ''settled'') then
                                                                  ''400'' else ''600''))])]
                                             [Text (shown (get s ''period_label''))],
                                           El ''span'' [(''className'', Val ''mono''),
                                                        (''style'', Sty [(''fontSize'', ''12.5'')])]
                                             [Text (shown (get s ''count''))],
                                           El ''span'' [(''className'', Val ''mono''),
                                                        (''style'', Sty [(''fontSize'', ''12.5'')])]
                                             [Text (shown (get s ''attributed_count''))],
                                           El ''span'' [(''className'', Val ''mono''),
                                                        (''style'',
                                                         Sty [(''fontSize'', ''11.5''),
                                                              (''color'', ''var(--ink-2)'')])]
                                             [Text (trunc_c 4 4 (get s ''merkle_root''))]]
                                            @
                                            (if truthy (get s ''settled'') then
                                               [Pill_c ''valid'' [Text ''Settled'']] else
                                               (if positive (get s ''attributed_count'') then
                                                  [Pill_c ''pending'' [Text ''Payable'']] else
                                                  [Pill_c [] [Text ''Committed'']]))
                                            @
                                            [El ''span'' [(''className'', Val ''mono''),
                                                          (''style'',
                                                           Sty [(''fontSize'', ''12.5''),
                                                                (''fontWeight'',
                                                                 (if is_payable s then ''600'' else
                                                                    ''400''))])]
                                               [Text (row_amount h s)]]
                                            @
                                            (if is_payable s then
                                               [BtnPrimary [Text ''Settle''] (SpAsk s) False False []
                                                  True [(''justifySelf'', ''end'')]] else
                                               [El ''span'' [(''style'',
                                                              Sty [(''justifySelf'', ''end'')])]
                                                  (TxLink (js_or (get s ''settle_tx'')
                                                             (get s ''commit_tx'')) [])]))])
                                 (settle_rows p)))
                      @
                      (if (settle_rows p = [] \<and> \<not> truthy (pendingEvents p)) then
                         [El ''div'' [(''style'',
                                       Sty [(''padding'', ''26px 20px''), (''textAlign'', ''center'')])]
                            [El ''span'' [(''className'', Val ''mono''),
                                          (''style'',
                                           Sty [(''fontSize'', ''12''), (''color'', ''var(--ink-3)'')])]
                               [Text (''No committed periods yet ''
                                        @ [CHR 0x97]
                                        @
                                        '' record events, then commit the period to anchor it on-chain.'')]]]
                         else [])),
                 El ''p'' [(''className'', Val ''mono''),
                           (''style'',
                            Sty [(''fontSize'', ''11.5''), (''color'', ''var(--ink-3)''),
                                 (''margin'', ''0'')])]
                   [Text
                      ''The public audit endpoint publishes signed receipts and proofs for the committed root. It detects changes to the receipt set; the merchant signer still attests that each off-chain event was genuine.'']]
                @ (case sp_confirm p of None \<Rightarrow> [] | Some c \<Rightarrow>
                     [SettleConfirm h ss c]))))\<close>

section \<open>The contract of a page\<close>

lemma settle_load_sends: "disciplined h (settle_load h)"
  unfolding settle_load_def start_load_def by (intro sends_intros)

lemma settle_runs_send: "disciplined h (settle_page_run h e)" "disciplined h (settle_effect h)"
proof -
  have "disciplined h (commitNow h)"
    unfolding commitNow_def commit_toast_def
    by (intro sends_intros settle_load_sends, simp split: option.split)
      (intro allI impI conjI sends_intros settle_load_sends)
  moreover have "disciplined h (settle_now h s)" for s
    unfolding settle_now_def settle_toast_def set_confirm_def by (intro sends_intros settle_load_sends)
  ultimately show "disciplined h (settle_page_run h e)"
    by (cases e) (auto simp: settle_page_run_def intro!: sends_intros split: option.split)
  show "disciplined h (settle_effect h)"
    unfolding settle_effect_def by (intro sends_intros settle_load_sends)
qed

interpretation settle_page: page h "settle_page_run h" "settle_effect h" for h
  by unfold_locales (rule settle_runs_send)+

end
