(* ===== verification/Console_Clicks.thy ===== *)
theory Console_Clicks
  imports Ui_Clicks Console_Settle
begin

text \<open>What the shared elements of the console and its settlements page can raise.\<close>

lemma Ic_c_icon: "list_all (\<lambda>(n, w, cs). all_clicks cs = []) Ic_c_table"
  by (simp add: Ic_c_table_def own_clicks_ons)

lemma ons_S_props [simp]: "ons (S_props w) = []"
  by (simp add: S_props_def)

lemma clicks_Ic_c [simp]: "ons p = [] \<Longrightarrow> clicks (Ic_c n p) = []"
proof -
  assume p: "ons p = []"
  show ?thesis
  proof (cases "map_of Ic_c_table n :: (string \<times> 'a html list) option")
    case None
    with p show ?thesis by (simp add: Ic_c_def own_clicks_ons)
  next
    case (Some x)
    then have "(n, x) \<in> set Ic_c_table" by (rule map_of_SomeD)
    with Ic_c_icon have "all_clicks (snd x) = []" by (auto simp: list_all_iff)
    with p Some show ?thesis by (cases x) (simp add: Ic_c_def own_clicks_ons)
  qed
qed

lemma clicks_Modal [simp]: "clicks (Modal e wd cs) = [e, e] @ all_clicks cs"
  by (simp add: Modal_def own_clicks_ons)

lemma clicks_Pill_c [simp]: "clicks (Pill_c k cs) = all_clicks cs"
  by (simp add: Pill_c_def own_clicks_ons)

lemma clicks_TxLink [simp]: "all_clicks (TxLink v cs) = (if truthy v then all_clicks cs else [])"
  by (simp add: TxLink_def own_clicks_ons)

lemma clicks_ErrText [simp]: "all_clicks (ErrText e) = []"
  by (cases e) (simp_all add: ErrText_def own_clicks_ons)

lemma clicks_BtnPrimary [simp]:
  "clicks (BtnPrimary cs e busy dis icon small sty) =
     (if dis \<or> busy then [] else [e]) @ all_clicks cs @ (if busy then [] else all_clicks icon)"
  by (simp add: BtnPrimary_def own_clicks_ons)

lemma clicks_SettleConfirm [simp]:
  "clicks (SettleConfirm h ss c) = [SpCancel, SpCancel, SpCancel] @ (if cf_busy c then [] else [SpSettle])"
  by (simp add: SettleConfirm_def Let_def own_clicks_ons confirm_lines_def)

lemma clicks_no_codes [simp]: "clicks no_codes = []"
  by (simp add: no_codes_def own_clicks_ons)

lemma settlements_clicks:
  assumes "settlements_view h ss p = Inr v" and "settle_current p = Some cur"
  shows "clicks v =
    (if payable p = [] \<and> \<not> sp_commitBusy p then [SpCommit] else []) @
    (if positive (pendingEvents p) \<and> \<not> sp_commitBusy p then [SpCommit] else []) @
    concat (map (\<lambda>s. if is_payable s then [SpAsk s] else []) (settle_rows p)) @
    (case sp_confirm p of None \<Rightarrow> [] | Some c \<Rightarrow> [SpCancel, SpCancel, SpCancel] @ (if cf_busy c then [] else [SpSettle]))"
  using assms unfolding settlements_view_def bindR_Inr_iff
  by (elim exE conjE, simp only: option.case sum.inject)
    (hypsubst, simp add: own_clicks_ons comp_def all_clicks_if cong: if_cong split del: if_split,
     simp split: option.split)

end
