(* ===== verification/Console_Settle_Props.thy ===== *)
theory Console_Settle_Props
  imports Machine Console_Api_Props Console_Clicks
begin

text \<open>
  What the settlements page promises: which rows it offers to settle, what one click on the dialog's
  button sends and leaves, and where the rows it shows come from.
\<close>

section \<open>What is offered\<close>

text \<open>
  C26 (safety). Only what is due can be settled: whatever the page has loaded, it offers to settle
  exactly the rows of the selected code that are not settled and have attributed redemptions, and
  the button that pays is there only while the dialog is open and not already paying.
\<close>

theorem settle_offered:
  assumes "settlements_view h ss p = Inr v"
  shows "(SpAsk s \<in> set (clicks v) \<longleftrightarrow> (\<exists>c. settle_current p = Some c \<and> s \<in> set (settle_rows p) \<and>
      get s ''campaign_id'' = get c ''id'' \<and> get s ''code'' = get c ''shared_code'' \<and>
      \<not> truthy (get s ''settled'') \<and> positive (get s ''attributed_count''))) \<and>
    (SpSettle \<in> set (clicks v) \<longleftrightarrow>
      settle_current p \<noteq> None \<and> (\<exists>c. sp_confirm p = Some c \<and> \<not> cf_busy c))"
proof (cases "settle_current p")
  case None
  with assms have "v = no_codes" by (auto simp: settlements_view_def bindR_Inr_iff)
  with None show ?thesis by simp
next
  case (Some c)
  from settlements_clicks [OF assms Some] Some show ?thesis
    by (auto simp: is_payable_def settle_rows_def split: option.splits if_splits)
qed

text \<open>The total shown is the sum of what the settled rows paid, rounded once.\<close>

lemma settledTotal_sum:
  "settledTotal rows = Inr t \<Longrightarrow>
   \<exists>bs. list_all2 (\<lambda>s b. js_BigInt (js_or (get s ''payout_amount'') (JNum (Fin 0))) = Inr b)
      (filter (\<lambda>s. truthy (get s ''settled'')) rows) bs \<and> t = sum_list bs"
proof -
  let ?f = "\<lambda>acc s. bindR acc (\<lambda>a. bindR (js_BigInt (js_or (get s ''payout_amount'') (JNum (Fin 0)))) (\<lambda>b. Inr (a + b)))"
  have stuck: "foldl ?f (Inl e) xs = Inl e" for e xs by (induction xs) auto
  have "\<exists>bs. list_all2 (\<lambda>s b. js_BigInt (js_or (get s ''payout_amount'') (JNum (Fin 0))) = Inr b) xs bs \<and>
      t = a + sum_list bs" if "foldl ?f (Inr a) xs = Inr t" for a xs
    using that
  proof (induction xs arbitrary: a)
    case (Cons x xs)
    then obtain b where b: "js_BigInt (js_or (get x ''payout_amount'') (JNum (Fin 0))) = Inr b"
      using stuck by (cases "js_BigInt (js_or (get x ''payout_amount'') (JNum (Fin 0)))") auto
    with Cons.prems have "foldl ?f (Inr (a + b)) xs = Inr t" by simp
    from Cons.IH [OF this] obtain bs where
      "list_all2 (\<lambda>s b. js_BigInt (js_or (get s ''payout_amount'') (JNum (Fin 0))) = Inr b) xs bs"
      "t = a + b + sum_list bs" by blast
    with b show ?case by (intro exI [of _ "b # bs"]) simp
  qed simp
  from this [of 0] show "settledTotal rows = Inr t \<Longrightarrow> ?thesis" by (simp add: settledTotal_def)
qed

section \<open>What a click sends\<close>

lemma start_load_run:
  obtains r c' where "start_load h k ((c, ss), p) =
    (Inr (), ((c', ss), p\<lparr>sp_loads := sp_loads p @ [(k, cl_env c, r)]\<rparr>))"
    "posts c' = posts c" "cl_env c' = cl_env c" "cl_uuids c' = cl_uuids c"
    "api_get h (case k of LoadSettlements \<Rightarrow> ''/v1/settlements'' | LoadCampaigns \<Rightarrow> ''/v1/campaigns'') c = (r, c')"
proof -
  obtain r c' where "api_get h (case k of LoadSettlements \<Rightarrow> ''/v1/settlements'' | LoadCampaigns \<Rightarrow> ''/v1/campaigns'') c
      = (r, c')" by (metis surj_pair)
  with api_get_posts [OF this] that [of c' r] show thesis by (simp add: start_load_def launch_def)
qed

lemma settle_load_run:
  obtains r1 r2 c' where "settle_load h ((c, ss), p) = (Inr (), ((c', ss), p\<lparr>sp_loads := sp_loads p @
      [(LoadSettlements, cl_env c, r1), (LoadCampaigns, cl_env c, r2)]\<rparr>))"
    "posts c' = posts c" "cl_env c' = cl_env c" "cl_uuids c' = cl_uuids c"
    "fst (api_get h ''/v1/settlements'' c) = r1"
proof -
  obtain r1 c1 where 1: "start_load h LoadSettlements ((c, ss), p) =
      (Inr (), ((c1, ss), p\<lparr>sp_loads := sp_loads p @ [(LoadSettlements, cl_env c, r1)]\<rparr>))"
    "posts c1 = posts c" "cl_env c1 = cl_env c" "cl_uuids c1 = cl_uuids c"
    "api_get h ''/v1/settlements'' c = (r1, c1)"
    by (rule start_load_run [of h LoadSettlements c ss p]) auto
  obtain r2 c2 where 2: "start_load h LoadCampaigns ((c1, ss), p\<lparr>sp_loads := sp_loads p @ [(LoadSettlements, cl_env c, r1)]\<rparr>) =
      (Inr (), ((c2, ss), p\<lparr>sp_loads := sp_loads p @ [(LoadSettlements, cl_env c, r1), (LoadCampaigns, cl_env c1, r2)]\<rparr>))"
    "posts c2 = posts c1" "cl_env c2 = cl_env c1" "cl_uuids c2 = cl_uuids c1"
    by (rule start_load_run [of h LoadCampaigns c1 ss "p\<lparr>sp_loads := sp_loads p @ [(LoadSettlements, cl_env c, r1)]\<rparr>"]) auto
  show thesis
    by (rule that [of c2 r1 r2]) (use 1 2 in \<open>simp_all add: settle_load_def bindIO_def\<close>)
qed

lemma settle_toast_run:
  "settle_toast h s d ((c, ss), p) =
     (case field d ''total'' of
        Inl e \<Rightarrow> (Inl e, ((c, ss), p))
      | Inr _ \<Rightarrow> (Inr (), ((c\<lparr>cl_uuids := Suc (cl_uuids c)\<rparr>, ss\<lparr>se_toasts := se_toasts ss @
          [\<lparr>tr_id = c_uuid h (cl_uuids c), tr_title = ''Settled '' @ [CHR 0x8D],
            tr_msg = fmtUnits h (get d ''total'') @ '' '' @ js_String (get d ''unit'') @ '' paid on-chain to ''
              @ trunc_c 4 4 (get s ''attributed_to'') @ ''.'', tr_type = ''success''\<rparr>]\<rparr>), p)))"
  by (auto simp: settle_toast_def bindIO_def read_field_def in_visit_def toast_c_run get_def
      split: sum.split) (cases d; auto)

lemma settle_now_run:
  fixes c :: "'w client"
  assumes post: "postIdem h ''/v1/settlements'' (settle_body s) (c_uuid h (cl_uuids c))
      (c\<lparr>cl_uuids := Suc (cl_uuids c)\<rparr>) = (ans, c1)"
    and "settle_now h s ((c, ss), p) = (r, ((c', ss'), p'))" and f: "sp_confirm p = Some f"
  shows "r = Inr () \<and> posts c' = posts c1 \<and> cl_uuids c1 \<le> cl_uuids c' \<and>
    (case sp_confirm p' of
       None \<Rightarrow> (\<exists>r1 r2. sp_loads p' = sp_loads p @ [(LoadSettlements, cl_env c1, r1), (LoadCampaigns, cl_env c1, r2)]) \<and>
         length (se_toasts ss') = Suc (length (se_toasts ss)) \<and> (\<exists>d. ans = Inr d)
     | Some f' \<Rightarrow> cf_row f' = cf_row f \<and> \<not> cf_busy f' \<and> cf_err f' \<noteq> None \<and> sp_loads p' = sp_loads p \<and>
         se_toasts ss' = se_toasts ss)"
proof -
  let ?p = "p\<lparr>sp_confirm := Some (f\<lparr>cf_busy := True, cf_err := None\<rparr>)\<rparr>"
  let ?fail = "\<lambda>e. ((c1, ss), p\<lparr>sp_confirm := Some (f\<lparr>cf_busy := False, cf_err := Some e\<rparr>)\<rparr>)"
  have run: "settle_now h s ((c, ss), p) =
      catchIO (bindIO (in_visit (in_api (postIdem h ''/v1/settlements'' (settle_body s) (c_uuid h (cl_uuids c)))))
        (\<lambda>r. bindIO (settle_toast h s r) (\<lambda>_. bindIO (on_page (\<lambda>p. p\<lparr>sp_confirm := None\<rparr>)) (\<lambda>_. settle_load h))))
       (\<lambda>e. set_confirm (\<lambda>c. c\<lparr>cf_err := Some e, cf_busy := False\<rparr>)) ((c\<lparr>cl_uuids := Suc (cl_uuids c)\<rparr>, ss), ?p)"
    using f by (simp add: settle_now_def set_confirm_def on_page_def bindIO_def catchIO_def keyed_post_def api_call_def
        in_visit_def in_api_def idemKey_def)
  show ?thesis
  proof (cases ans)
    case (Inl e)
    with post have "settle_now h s ((c, ss), p) = (Inr (), ?fail e)"
      unfolding run by (simp add: catchIO_def bindIO_def in_visit_def in_api_def set_confirm_def on_page_def)
    with assms(2) show ?thesis by auto
  next
    case (Inr d)
    show ?thesis
    proof (cases "field d ''total''")
      case (Inl e)
      with post Inr have "settle_now h s ((c, ss), p) = (Inr (), ?fail e)"
        unfolding run by (simp add: catchIO_def bindIO_def in_visit_def in_api_def set_confirm_def on_page_def
            settle_toast_run)
      with assms(2) show ?thesis by auto
    next
      case t: (Inr x)
      let ?c1 = "c1\<lparr>cl_uuids := Suc (cl_uuids c1)\<rparr>"
      obtain ss1 where tr: "settle_toast h s d ((c1, ss), ?p) = (Inr (), ((?c1, ss1), ?p))"
        and len: "length (se_toasts ss1) = Suc (length (se_toasts ss))"
        using t by (simp add: settle_toast_run)
      obtain r1 r2 c2 where ld: "settle_load h ((?c1, ss1), ?p\<lparr>sp_confirm := None\<rparr>) =
          (Inr (), ((c2, ss1), ?p\<lparr>sp_confirm := None, sp_loads := sp_loads p @
            [(LoadSettlements, cl_env ?c1, r1), (LoadCampaigns, cl_env ?c1, r2)]\<rparr>))"
        and ps: "posts c2 = posts ?c1" "cl_uuids c2 = cl_uuids ?c1"
        by (rule settle_load_run [of h ?c1 ss1 "?p\<lparr>sp_confirm := None\<rparr>"]) auto
      from post Inr tr ld have "settle_now h s ((c, ss), p) = (Inr (), ((c2, ss1), ?p\<lparr>sp_confirm := None,
          sp_loads := sp_loads p @ [(LoadSettlements, cl_env ?c1, r1), (LoadCampaigns, cl_env ?c1, r2)]\<rparr>))"
        unfolding run by (simp add: catchIO_def bindIO_def in_visit_def in_api_def on_page_def)
      with assms(2) len ps Inr show ?thesis by (auto simp: posts_def)
    qed
  qed
qed

lemma order_posted:
  assumes "plain (settle_body s)"
    and "postIdem h ''/v1/settlements'' (settle_body s) key c = (ans, c1)"
  shows "cl_env c1 = cl_env c \<and> cl_uuids c1 = cl_uuids c \<and>
    (\<exists>q t. posts c1 = posts c @ [q] \<and> rq_path q = ''/api/v1/settlements'' \<and> rq_body q = Some t \<and>
      json_parse t = Some (settle_body s) \<and> map_of (rq_headers q) ''Idempotency-Key'' = Some key \<and>
      map_of (rq_headers q) ''X-Env'' = Some (cl_env c))"
proof -
  from stringify_plain [OF assms(1)] obtain t where t: "json_stringify (settle_body s) = Inr (Some t)" by blast
  have o: "nullish_or (settle_body s) (JObj []) = settle_body s" "settle_body s \<noteq> JUndef"
    by (simp_all add: settle_body_def)
  from req_sends [OF assms(2) [unfolded postIdem_def o(1)]] t o(2)
  have "cl_env c1 = cl_env c" "cl_uuids c1 = cl_uuids c"
    "cl_sent c1 = cl_sent c @ [\<lparr>rq_method = ''POST'', rq_path = ''/api'' @ ''/v1/settlements'',
      rq_headers = headers_of (cl_env c) [(''Idempotency-Key'', key)] (settle_body s), rq_body = Some t\<rparr>]"
    by (simp_all del: json_stringify.simps)
  with json_roundtrip [OF assms(1) t] o(2) show ?thesis
    by (simp add: headers_of_def posts_def)
qed

text \<open>
  One click on the button that pays sends one payment order and is always answered: the
  only write is a post of the row's campaign, code and period, under a key of this attempt and in
  the environment of the client; the click never ends in an error of its own, and either the
  dialog is closed, a toast is shown and the page reloads, or the dialog stays open on the same
  row, no longer busy, with the error, and nothing is reloaded.
\<close>

lemma settle_sends:
  fixes c :: "'w client"
  assumes "plain (settle_body s)" and "sp_confirm p = Some f"
    and "settle_now h s ((c, ss), p) = (r, ((c', ss'), p'))"
  shows "r = Inr () \<and>
    (\<exists>q t. posts c' = posts c @ [q] \<and> rq_path q = ''/api/v1/settlements'' \<and>
      rq_body q = Some t \<and> json_parse t = Some (settle_body s) \<and>
      map_of (rq_headers q) ''Idempotency-Key'' = Some (c_uuid h (cl_uuids c)) \<and>
      map_of (rq_headers q) ''X-Env'' = Some (cl_env c)) \<and>
    (case sp_confirm p' of
       None \<Rightarrow> (\<exists>r1 r2. sp_loads p' = sp_loads p @ [(LoadSettlements, cl_env c, r1), (LoadCampaigns, cl_env c, r2)]) \<and>
         length (se_toasts ss') = Suc (length (se_toasts ss))
     | Some f' \<Rightarrow> cf_row f' = cf_row f \<and> \<not> cf_busy f' \<and> cf_err f' \<noteq> None \<and> sp_loads p' = sp_loads p \<and>
         se_toasts ss' = se_toasts ss)"
proof -
  let ?c = "c\<lparr>cl_uuids := Suc (cl_uuids c)\<rparr>"
  obtain ans c1 where post: "postIdem h ''/v1/settlements'' (settle_body s) (c_uuid h (cl_uuids c)) ?c = (ans, c1)"
    by (metis surj_pair)
  from order_posted [OF assms(1) post] settle_now_run [OF post assms(3,2)] show ?thesis
    by (auto simp: posts_def split: option.splits)
qed

definition due_row :: jval where
  "due_row = JObj [(''campaign_id'', JNum (Fin 4)), (''code'', JStr ''A''), (''period'', JNum (Fin 3)),
     (''attributed_count'', JNum (Fin 2))]"

definition asked :: settlements where
  "asked = settlements_init\<lparr>sp_confirm := Some \<lparr>cf_row = due_row, cf_busy = False, cf_err = None\<rparr>\<rparr>"

lemma settle_sends_example:
  "\<exists>q. posts (fst (fst (snd (settle_now (fixed_service (Inl (TypeError ''Failed to fetch''))) due_row
      ((fresh_client, session_init ''test'' []), asked))))) = [q] \<and> rq_path q = ''/api/v1/settlements''"
proof -
  let ?h = "fixed_service (Inl (TypeError ''Failed to fetch''))"
  let ?z = "((fresh_client, session_init ''test'' []), asked)"
  obtain r c' ss' p' where run: "settle_now ?h due_row ?z = (r, ((c', ss'), p'))" by (metis surj_pair)
  have "plain (settle_body due_row)" by code_simp
  moreover have "sp_confirm asked = Some \<lparr>cf_row = due_row, cf_busy = False, cf_err = None\<rparr>"
    by (simp add: asked_def)
  ultimately have "\<exists>q. posts c' = posts fresh_client @ [q] \<and> rq_path q = ''/api/v1/settlements''"
    using settle_sends [OF _ _ run] by blast
  moreover have "posts fresh_client = []" by (simp add: posts_def fresh_client_def)
  ultimately show ?thesis by (simp add: run)
qed

theorem settle_offered_witness:
  "\<exists>v. settlements_view (fixed_service (Inl (Error []))) (session_init ''test'' []) settlements_init = Inr v \<and>
     SpSettle \<notin> set (clicks v)"
proof -
  have "settlements_view (fixed_service (Inl (Error []))) (session_init ''test'' []) settlements_init = Inr no_codes"
    by (simp add: settlements_view_def settlements_init_def settle_rows_def settle_current_def settle_codes_def
        settledTotal_def get_def items_def)
  from settle_offered [OF this, of JNull] this show ?thesis
    by (auto simp: settlements_init_def)
qed

section \<open>Where the rows come from\<close>

text \<open>
  The page while the environment stays as it is: an event of the page, a promise handled (any of those
  outstanding), or anything else that does not switch the environment.
\<close>

inductive settle_step :: "'w console \<Rightarrow> 'w settle_run \<Rightarrow> 'w settle_run \<Rightarrow> bool" for h where
  event: "settle_step h z (snd (settle_page_run h e z))"
| handled: "i < length (sp_loads p) \<Longrightarrow> sp_loads p ! i = (k, env, r) \<Longrightarrow>
    settle_step h (v, p) (v, (loaded k r p)\<lparr>sp_loads := take i (sp_loads p) @ drop (Suc i) (sp_loads p)\<rparr>)"
| elsewhere: "cl_env c' = cl_env c \<Longrightarrow> settle_step h ((c, ss), p) ((c', ss'), p)"

definition answer_in :: "'w console \<Rightarrow> string \<Rightarrow> jval js \<Rightarrow> bool" where
  \<comment> \<open>an answer to the request for the settlements, sent in the environment\<close>
  "answer_in h e r \<longleftrightarrow> (\<exists>c0 c1. cl_env c0 = e \<and> api_get h ''/v1/settlements'' c0 = (r, c1))"

definition settle_inv :: "'w console \<Rightarrow> string \<Rightarrow> 'w settle_run \<Rightarrow> bool" where
  "settle_inv h e z = (case z of ((c, ss), p) \<Rightarrow>
     cl_env c = e \<and> (\<forall>(k, env, r) \<in> set (sp_loads p). k = LoadSettlements \<longrightarrow> answer_in h e r) \<and>
     (sp_data p = JNull \<or> answer_in h e (Inr (sp_data p))))"

abbreviation keeps_inv :: "'w console \<Rightarrow> string \<Rightarrow> ('w settle_run, 'a) io \<Rightarrow> bool" where
  "keeps_inv h e \<equiv> frame (\<lambda>z z'. settle_inv h e z \<longrightarrow> settle_inv h e z')"

lemma keeps_order: "reflp (\<lambda>z z'. settle_inv h e z \<longrightarrow> settle_inv h e z')"
  "transp (\<lambda>z z'. settle_inv h e z \<longrightarrow> settle_inv h e z')"
  by (auto simp: reflp_def transp_def)

lemmas keeps_pure = frame_pure [OF keeps_order(1)]
lemmas keeps_bind = frame_bind [OF keeps_order(2)]
lemmas keeps_catch = frame_catch [OF keeps_order(2)]

lemma keeps_on_page:
  "(\<And>p. sp_data (f p) = sp_data p \<and> sp_loads (f p) = sp_loads p) \<Longrightarrow> keeps_inv h e (on_page f)"
  by (auto simp: frame_def on_page_def settle_inv_def)

lemma keeps_in_visit:
  "(\<And>c ss r c' ss'. m (c, ss) = (r, (c', ss')) \<Longrightarrow> cl_env c' = cl_env c) \<Longrightarrow> keeps_inv h e (in_visit m)"
  by (fastforce simp: frame_def in_visit_def settle_inv_def split: prod.splits)

lemma keeps_toast: "keeps_inv h e (in_visit (toast_c h t m k))"
  by (rule keeps_in_visit) (auto simp: toast_c_run)

lemma keeps_key: "keeps_inv h e (in_visit (in_api (idemKey h)))"
  by (rule keeps_in_visit) (auto simp: in_api_def idemKey_def)

lemma keeps_post: "keeps_inv h e (keyed_post h p b)"
  unfolding keyed_post_def api_call_def
  by (intro keeps_bind keeps_key keeps_in_visit)
    (auto simp: in_api_def postIdem_def dest!: req_sends split: prod.splits)

lemma keeps_start_load: "keeps_inv h e (start_load h k)"
proof (rule frameI, intro impI)
  fix z :: "'a settle_run" and r z'
  assume run: "start_load h k z = (r, z')" and inv: "settle_inv h e z"
  obtain c ss p where z: "z = ((c, ss), p)" by (metis surj_pair)
  obtain r1 c1 where st: "start_load h k z =
      (Inr (), ((c1, ss), p\<lparr>sp_loads := sp_loads p @ [(k, cl_env c, r1)]\<rparr>))" "cl_env c1 = cl_env c"
    and a: "api_get h (case k of LoadSettlements \<Rightarrow> ''/v1/settlements'' | LoadCampaigns \<Rightarrow> ''/v1/campaigns'') c = (r1, c1)"
    unfolding z by (rule start_load_run [of h k c ss p]) auto
  have "answer_in h (cl_env c) r1" if "k = LoadSettlements" using a that by (auto simp: answer_in_def)
  with st run inv show "settle_inv h e z'" by (auto simp: z settle_inv_def)
qed

lemma keeps_load: "keeps_inv h e (settle_load h)"
  unfolding settle_load_def by (intro keeps_bind keeps_start_load)

lemmas keeps_intros = keeps_pure keeps_bind keeps_catch keeps_on_page keeps_toast keeps_post keeps_load

lemma keeps_run: "keeps_inv h e (settle_page_run h ev)"
proof -
  have c: "keeps_inv h e (commitNow h)"
    unfolding commitNow_def commit_toast_def read_field_def
    by (intro keeps_intros; simp split: option.split; intro conjI allI impI keeps_intros; simp)
  have s: "keeps_inv h e (settle_now h s)" for s
    unfolding settle_now_def settle_toast_def read_field_def set_confirm_def
    by (intro keeps_intros) simp_all
  show ?thesis
    unfolding settle_page_run_def
    by (cases ev; simp) (intro c keeps_intros; auto intro!: keeps_intros s split: option.split)+
qed

lemma loaded_data: "sp_loads (loaded k r p) = sp_loads p"
  "sp_data (loaded k r p) = (if k = LoadSettlements then (case r of Inr d \<Rightarrow> d | Inl _ \<Rightarrow> sp_data p) else sp_data p)"
  by (auto simp: loaded_def split: load_kind.split sum.split jval.split)

lemma settle_step_inv: "settle_step h z z' \<Longrightarrow> settle_inv h e z \<Longrightarrow> settle_inv h e z'"
proof (induction rule: settle_step.induct)
  case (event z ev)
  then show ?case using frameD [OF keeps_run, OF prod.collapse [symmetric]] by blast
next
  case (handled i p k env r v)
  then have "(k, env, r) \<in> set (sp_loads p)" by (metis nth_mem)
  then show ?case using handled.prems
    by (auto simp: settle_inv_def loaded_data split: sum.splits dest: in_set_takeD in_set_dropD)
next
  case (elsewhere c' c ss p ss')
  then show ?case by (simp add: settle_inv_def)
qed

interpretation sp: invariant_machine "settle_step h" "settle_inv h e" for h :: "'w console" and e
  by unfold_locales (rule settle_step_inv)

lemma settle_mounted: "settle_inv h (cl_env c) (snd (settle_effect h ((c, ss), settlements_init)))"
proof -
  let ?p = "settlements_init\<lparr>sp_data := JNull, sp_sel := []\<rparr>"
  have "settle_inv h (cl_env c) ((c, ss), ?p)" by (simp add: settle_inv_def settlements_init_def)
  moreover have "settle_effect h ((c, ss), settlements_init) = settle_load h ((c, ss), ?p)"
    by (simp add: settle_effect_def on_page_def bindIO_def)
  ultimately show ?thesis using frameD [OF keeps_load, OF prod.collapse [symmetric]] by metis
qed

text \<open>
  The rows are of the environment on the screen: as long as the environment is not
  switched, in every run of the page (selections, commits, settlements, reloads, promises handled in
  any order) what it shows is nothing or what the service answered to the request for the
  settlements in this environment.
\<close>

lemma settle_data_env:
  assumes "(settle_step h)\<^sup>*\<^sup>* (snd (settle_effect h ((c, ss), settlements_init))) ((c', ss'), p')"
  shows "cl_env c' = cl_env c \<and> (sp_data p' = JNull \<or>
    (\<exists>c0 c1. cl_env c0 = cl_env c \<and> api_get h ''/v1/settlements'' c0 = (Inr (sp_data p'), c1)))"
  using sp.run_inv [OF assms settle_mounted] by (simp add: settle_inv_def answer_in_def)

text \<open>A service that answers 2 in the metered environment and 1 in the other.\<close>

definition two_services :: "nat console" where
  "two_services = (fixed_service (Inl (Error [])))\<lparr>c_fetch := (\<lambda>q w. (Inr \<lparr>rp_ok = True, rp_status = 200,
     rp_text = Inr (if map_of (rq_headers q) ''X-Env'' = Some ''live'' then ''2'' else ''1'')\<rparr>, Suc w))\<rparr>"

definition live_start :: "nat visit" where
  "live_start = (fresh_client\<lparr>cl_env := ''live''\<rparr>, session_init ''live'' [])"

definition handle_load :: "nat \<Rightarrow> 'w settle_run \<Rightarrow> 'w settle_run" where
  "handle_load i z = (case z of (v, p) \<Rightarrow> (case sp_loads p ! i of (k, env, r) \<Rightarrow>
     (v, (loaded k r p)\<lparr>sp_loads := take i (sp_loads p) @ drop (Suc i) (sp_loads p)\<rparr>)))"

lemma handle_load_step: "i < length (sp_loads (snd z)) \<Longrightarrow> settle_step h z (handle_load i z)"
  unfolding handle_load_def
  by (cases z; cases "sp_loads (snd z) ! i") (auto intro: settle_step.handled)

lemma settle_data_env_example:
  "\<exists>c0 c1. cl_env c0 = ''live'' \<and> api_get two_services ''/v1/settlements'' c0 = (Inr (JNum (Fin 2)), c1)"
proof -
  let ?z = "snd (settle_effect two_services (live_start, settlements_init))"
  have n: "0 < length (sp_loads (snd ?z))" by code_simp
  obtain c' ss' p' where z: "handle_load 0 ?z = ((c', ss'), p')" by (metis surj_pair)
  have "(settle_step two_services)\<^sup>*\<^sup>* ?z ((c', ss'), p')"
    using handle_load_step [OF n] z by (metis r_into_rtranclp)
  from settle_data_env [OF this [unfolded live_start_def]]
  have "sp_data p' = JNull \<or> (\<exists>c0 c1. cl_env c0 = ''live'' \<and>
      api_get two_services ''/v1/settlements'' c0 = (Inr (sp_data p'), c1))" by simp
  moreover have "sp_data (snd (handle_load 0 ?z)) = JNum (Fin 2)" by code_simp
  ultimately show ?thesis by (simp add: z)
qed

text \<open>
  Across a switch it does not hold: nothing tells the answers of the earlier environment from those of
  the new one. The page is mounted in the metered environment, switched to the test one before
  its answers are handled, and shows the metered rows, on which the button sends its order to
  the test environment.
\<close>

definition settle_switch :: "'w console \<Rightarrow> string \<Rightarrow> ('w settle_run, unit) io" where
  "settle_switch h e = bindIO (in_visit (switch_env e)) (\<lambda>_. settle_effect h)"

lemma stale_settlements:
  "case handle_load 0 (handle_load 2 (snd (settle_switch two_services ''test''
      (snd (settle_effect two_services (live_start, settlements_init)))))) of
     ((c, ss), p) \<Rightarrow> cl_env c = ''test'' \<and> se_env ss = ''test'' \<and> sp_data p = JNum (Fin 2)"
  by code_simp

text \<open>
  Each click has a key of its own: an order that is sent again after its answer was lost goes out under
  another idempotency key than the first one.
\<close>

lemma retry_key_differs:
  assumes "inj (c_uuid h)" and "plain (settle_body s)"
    and "settle_now h s ((c, ss), p) = (r, ((c1, ss1), p1))" "sp_confirm p = Some f"
    and "settle_now h s ((c1, ss1), p1) = (r2, ((c2, ss2), p2))" "sp_confirm p1 = Some f1"
  shows "\<exists>q1 q2 k1 k2. posts c2 = posts c @ [q1, q2] \<and> map_of (rq_headers q1) ''Idempotency-Key'' = Some k1 \<and>
    map_of (rq_headers q2) ''Idempotency-Key'' = Some k2 \<and> k1 \<noteq> k2"
proof -
  obtain a1 d1 where d1: "postIdem h ''/v1/settlements'' (settle_body s) (c_uuid h (cl_uuids c))
      (c\<lparr>cl_uuids := Suc (cl_uuids c)\<rparr>) = (a1, d1)" by (metis surj_pair)
  obtain a2 d2 where d2: "postIdem h ''/v1/settlements'' (settle_body s) (c_uuid h (cl_uuids c1))
      (c1\<lparr>cl_uuids := Suc (cl_uuids c1)\<rparr>) = (a2, d2)" by (metis surj_pair)
  note 1 = order_posted [OF assms(2) d1] settle_now_run [OF d1 assms(3,4)]
  note 2 = order_posted [OF assms(2) d2] settle_now_run [OF d2 assms(5,6)]
  from 1 have "cl_uuids c < cl_uuids c1" by auto
  then have "c_uuid h (cl_uuids c) \<noteq> c_uuid h (cl_uuids c1)" using assms(1) by (metis inj_eq less_irrefl)
  moreover from 1 obtain q1 where "posts c1 = posts c @ [q1]"
    "map_of (rq_headers q1) ''Idempotency-Key'' = Some (c_uuid h (cl_uuids c))"
    by (auto simp: posts_def)
  moreover from 2 obtain q2 where "posts c2 = posts c1 @ [q2]"
    "map_of (rq_headers q2) ''Idempotency-Key'' = Some (c_uuid h (cl_uuids c1))"
    by (auto simp: posts_def)
  ultimately show ?thesis by auto
qed

end
