(* ===== verification/Console_Auth.thy ===== *)
theory Console_Auth
  imports Console_Sends
begin

text \<open>
  The pages outside the frame (\<open>cloud/console/src/pages/Auth.jsx\<close>): signing in, signing up and naming
  the organisation. A handler that awaits the service runs to its end before another one starts.
\<close>

section \<open>Signing in and up\<close>

record auth =
  au_mode :: string
  au_email :: string
  au_password :: string
  au_busy :: bool
  au_err :: "jserr option"

definition auth_init :: auth where
  "auth_init = \<lparr>au_mode = ''signin'', au_email = [], au_password = [], au_busy = False, au_err = None\<rparr>"

datatype auth_ev = AuMode string | AuEmail string | AuPassword string | AuKey string | AuSubmit

definition auth_path :: "string \<Rightarrow> string" where
  "auth_path mode = (if mode = ''signin'' then ''/auth/login'' else ''/auth/signup'')"

definition credentials :: "auth \<Rightarrow> jval" where
  "credentials a = JObj [(''email'', JStr (au_email a)), (''password'', JStr (au_password a))]"

definition auth_submit :: "'w console \<Rightarrow> (('w, auth) on_visit, unit) io" where
  "auth_submit h =
     bindIO (page_get id) (\<lambda>a.
     bindIO (on_page (\<lambda>p. p\<lparr>au_err := None\<rparr>)) (\<lambda>_.
     guarded
       (bindIO (api_call (api_post h (auth_path (au_mode a)) (credentials a))) (\<lambda>_.
        bindIO (in_visit (refreshMe h)) (\<lambda>_. returnIO ())))
       (\<lambda>e. on_page (\<lambda>p. p\<lparr>au_err := Some e\<rparr>))
       (\<lambda>b p. p\<lparr>au_busy := b\<rparr>)))"

definition auth_run :: "'w console \<Rightarrow> auth_ev \<Rightarrow> (('w, auth) on_visit, unit) io" where
  "auth_run h e =
     (case e of
        AuMode m \<Rightarrow> on_page (\<lambda>p. p\<lparr>au_mode := m\<rparr>)
      | AuEmail t \<Rightarrow> on_page (\<lambda>p. p\<lparr>au_email := t\<rparr>)
      | AuPassword t \<Rightarrow> on_page (\<lambda>p. p\<lparr>au_password := t\<rparr>)
      | AuKey k \<Rightarrow> if k = ''Enter'' then auth_submit h else returnIO ()
      | AuSubmit \<Rightarrow> auth_submit h)"

section \<open>Naming the organisation\<close>

record create_org =
  co_name :: string
  co_busy :: bool

definition create_org_init :: create_org where
  "create_org_init = \<lparr>co_name = [], co_busy = False\<rparr>"

datatype org_ev = OrgName string | OrgKey string | OrgSubmit

definition org_submit :: "'w console \<Rightarrow> (('w, create_org) on_visit, unit) io" where
  "org_submit h =
     bindIO (page_get co_name) (\<lambda>name.
     if trim name = [] then returnIO ()
     else guarded
       (bindIO (api_call (api_post h ''/orgs'' (JObj [(''name'', JStr name)]))) (\<lambda>_.
        bindIO (in_visit (refreshMe h)) (\<lambda>_. returnIO ())))
       (pop_err h)
       (\<lambda>b p. p\<lparr>co_busy := b\<rparr>))"

definition org_run :: "'w console \<Rightarrow> org_ev \<Rightarrow> (('w, create_org) on_visit, unit) io" where
  "org_run h e =
     (case e of
        OrgName t \<Rightarrow> on_page (\<lambda>p. p\<lparr>co_name := t\<rparr>)
      | OrgKey k \<Rightarrow> if k = ''Enter'' then org_submit h else returnIO ()
      | OrgSubmit \<Rightarrow> org_submit h)"

section \<open>Elements\<close>

definition TicketArt :: \<open>'e html\<close> where
  \<open>TicketArt =
     El ''div'' [(''className'', Val ''ticket''), (''style'', Sty [(''width'', ''340'')])]
       [El ''div'' [(''className'', Val ''ticket-perf'')] [],
        El ''div'' [(''style'',
                     Sty [(''padding'', ''26px 24px 18px''), (''display'', ''flex''),
                          (''flexDirection'', ''column''), (''gap'', ''12'')])]
          [El ''div'' [(''style'',
                        Sty [(''display'', ''flex''), (''alignItems'', ''center''),
                             (''justifyContent'', ''space-between'')])]
             [El ''span'' [(''className'', Val ''mono''),
                           (''style'',
                            Sty [(''fontSize'', ''11''), (''color'', ''var(--ink-3)''),
                                 (''letterSpacing'', ''.1em'')])]
                [Text (''SOROTICKET '' @ [CHR 0xB7] @ '' ILLUSTRATION'')],
              Pill_c ''valid'' [Text ''Example'']],
           El ''div'' [(''className'', Val ''mono''),
                       (''style'',
                        Sty [(''fontSize'', ''36''), (''fontWeight'', ''600''),
                             (''letterSpacing'', ''.02em'')])] [Text ''10OFF''],
           El ''div'' [(''style'',
                        Sty [(''display'', ''flex''), (''gap'', ''16''), (''fontSize'', ''13''),
                             (''color'', ''var(--ink-2)'')])]
             [El ''span'' []
                [El ''strong'' [(''style'', Sty [(''color'', ''var(--ink)'')])] [Text ''10%''],
                 Text '' off''],
              El ''span'' [] [Text [CHR 0xB7]],
              El ''span'' []
                [El ''strong'' [(''style'', Sty [(''color'', ''var(--ink)'')])] [Text ''signed''],
                 Text '' receipts'']]],
        El ''div'' [(''className'', Val ''ticket-tear'')]
          [El ''i'' [(''className'', Val ''l'')] [],
           El ''i'' [(''className'', Val ''r'')] []],
        El ''div'' [(''style'',
                     Sty [(''padding'', ''14px 24px 18px''), (''display'', ''flex''),
                          (''alignItems'', ''center''), (''justifyContent'', ''space-between'')])]
          [El ''span'' [(''className'', Val ''mono''),
                        (''style'', Sty [(''fontSize'', ''12''), (''color'', ''var(--ink-2)'')])]
             [Text ''no live data''],
           El ''span'' [(''className'', Val ''mono''),
                        (''style'', Sty [(''fontSize'', ''12''), (''color'', ''var(--ink-2)'')])]
             [Text ''visual example'']]]\<close>

definition tab_style :: "bool \<Rightarrow> (string \<times> string) list" where
  "tab_style chosen =
     [(''padding'', ''6px 16px''), (''borderRadius'', ''999''), (''fontSize'', ''13''), (''fontWeight'', ''600''),
      (''cursor'', ''pointer'')]
     @ (if chosen then [(''background'', ''var(--surface)''), (''border'', ''1px solid var(--line-2)''),
          (''boxShadow'', ''var(--shadow-sm)'')]
        else [(''color'', ''var(--ink-3)'')])"

definition auth_view :: \<open>auth \<Rightarrow> auth_ev html\<close> where
  \<open>auth_view a =
     El ''div'' [(''className'', Val ''auth-wrap'')]
       [El ''div'' [(''className'', Val ''auth-left'')]
          [El ''div'' [(''style'',
                        Sty [(''display'', ''flex''), (''alignItems'', ''center''), (''gap'', ''9'')])]
             [El ''div'' [(''className'', Val ''side-logo'')] [Ic_c ''coupon'' []],
              El ''span'' [(''style'',
                            Sty [(''fontFamily'', ''var(--serif)''), (''fontWeight'', ''560''),
                                 (''fontSize'', ''21'')])] [Text ''Soroticket'']],
           El ''div'' [(''style'',
                        Sty [(''flex'', ''1''), (''display'', ''grid''), (''placeItems'', ''center'')])]
             [El ''div'' [(''style'',
                           Sty [(''display'', ''flex''), (''flexDirection'', ''column''),
                                (''gap'', ''26''), (''maxWidth'', ''380'')])]
                [TicketArt,
                 El ''div'' [(''style'',
                              Sty [(''display'', ''flex''), (''flexDirection'', ''column''),
                                   (''gap'', ''8'')])]
                   [El ''h2'' [(''className'', Val ''display''),
                               (''style'', Sty [(''fontSize'', ''30''), (''margin'', ''0'')])]
                      [Text ''Coupons with verifiable on-chain state.''],
                    El ''p'' [(''style'',
                               Sty [(''fontSize'', ''14''), (''color'', ''var(--ink-2)''),
                                    (''lineHeight'', ''1.55''), (''margin'', ''0'')])]
                      [Text
                         ''Unique-code burns are public on-chain. Shared-code receipts are signed off-chain and periodically anchored as an aggregate. This preview uses no mainnet funds.'']]]],
           El ''div'' [(''className'', Val ''mono''),
                       (''style'', Sty [(''fontSize'', ''11.5''), (''color'', ''var(--ink-3)'')])]
             [Text (''Testnet preview ''
                      @ [CHR 0xB7]
                      @ '' contract v0.2.0 ''
                      @ [CHR 0xB7]
                      @ '' no mainnet funds'')]],
        El ''div'' [(''className'', Val ''auth-right'')]
          [El ''div'' [(''style'',
                        Sty [(''width'', ''400''), (''display'', ''flex''),
                             (''flexDirection'', ''column''), (''gap'', ''18'')])]
             ([El ''div'' [(''style'',
                            Sty [(''display'', ''flex''), (''flexDirection'', ''column''),
                                 (''gap'', ''6'')])]
                 [El ''h2'' [(''className'', Val ''display''),
                             (''style'', Sty [(''fontSize'', ''27''), (''margin'', ''0'')])]
                    [Text (if (au_mode a = ''signin'') then ''Sign in'' else ''Create account'')],
                  El ''p'' [(''style'',
                             Sty [(''fontSize'', ''13.5''), (''color'', ''var(--ink-2)''),
                                  (''margin'', ''0'')])]
                    [Text (if (au_mode a = ''signin'') then ''Welcome back to your console.'' else
                             (''An email is all it takes ''
                                @ [CHR 0x97]
                                @ '' we handle the Stellar side.''))]],
               El ''div'' [(''style'',
                            Sty [(''display'', ''inline-flex''),
                                 (''background'', ''var(--surface-inset)''),
                                 (''border'', ''1px solid var(--line)''), (''borderRadius'', ''999''),
                                 (''padding'', ''3''), (''alignSelf'', ''flex-start'')])]
                 (concat (map (\<lambda>m.
                                 [El ''span'' [(''onClick'', On (AuMode m)),
                                               (''style'', Sty (tab_style (au_mode a = m)))]
                                    [Text (if (m = ''signin'') then ''Sign in'' else
                                             ''Create account'')]]) [''signin'', ''signup''])),
               El ''div'' [(''className'', Val ''field'')]
                 [El ''label'' [] [Text ''Email''],
                  El ''input'' [(''className'', Val ''input''), (''type'', Val ''email''),
                                (''value'', Val (au_email a)),
                                (''placeholder'', Val ''maria@caferosales.co''),
                                (''onChange'', OnV AuEmail), (''onKeyDown'', OnV AuKey)] []],
               El ''div'' [(''className'', Val ''field'')]
                 [El ''label'' [] [Text ''Password''],
                  El ''input'' [(''className'', Val ''input''), (''type'', Val ''password''),
                                (''value'', Val (au_password a)),
                                (''placeholder'',
                                 Val (if (au_mode a = ''signup'') then (''15''
                                                                          @ [CHR 0x96]
                                                                          @ ''72 bytes'') else
                                        ([CHR 0x95]
                                           @ [CHR 0x95]
                                           @ [CHR 0x95]
                                           @ [CHR 0x95]
                                           @ [CHR 0x95]
                                           @ [CHR 0x95]
                                           @ [CHR 0x95]
                                           @ [CHR 0x95]
                                           @ [CHR 0x95]
                                           @ [CHR 0x95]))), (''onChange'', OnV AuPassword),
                                (''onKeyDown'', OnV AuKey)] []]]
                @ (ErrText (au_err a))
                @
                [BtnPrimary
                   [Text (if (au_mode a = ''signin'') then ''Sign in'' else ''Create account'')]
                   AuSubmit (au_busy a) False [] False [(''justifyContent'', ''space-between''),
                                                        (''width'', ''100%'')],
                 El ''p'' [(''style'',
                            Sty [(''fontSize'', ''12.5''), (''color'', ''var(--ink-3)''),
                                 (''lineHeight'', ''1.5''), (''margin'', ''0'')])]
                   [Text (''New here? Create an account with just an email ''
                            @ [CHR 0x97]
                            @ '' we handle the Stellar side for you.'')]])]]\<close>

definition create_org_view :: \<open>create_org \<Rightarrow> org_ev html\<close> where
  \<open>create_org_view p =
     El ''div'' [(''style'',
                  Sty [(''minHeight'', ''100vh''), (''display'', ''grid''),
                       (''placeItems'', ''center''), (''padding'', ''40'')])]
       [El ''div'' [(''style'',
                     Sty [(''width'', ''460''), (''display'', ''flex''),
                          (''flexDirection'', ''column''), (''gap'', ''16'')])]
          [El ''span'' [(''className'', Val ''eyebrow'')] [Text ''One last step''],
           El ''h2'' [(''className'', Val ''display''),
                      (''style'', Sty [(''fontSize'', ''30''), (''margin'', ''0'')])]
             [Text ''Name your organization''],
           El ''div'' [(''className'', Val ''field'')]
             [El ''label'' [] [Text ''Organization name''],
              El ''input'' [(''className'', Val ''input''), (''value'', Val (co_name p)),
                            (''placeholder'', Val ''Cafe Rosales''), (''autoFocus'', Flag True),
                            (''onChange'', OnV OrgName), (''onKeyDown'', OnV OrgKey)] [],
              El ''span'' [(''className'', Val ''help'')]
                [Text
                   ''Used to identify the tenant. This preview supports one member per organization.'']],
           El ''div'' [(''style'',
                        Sty [(''background'', ''var(--surface-inset)''),
                             (''border'', ''1px solid var(--line)''), (''borderRadius'', ''12''),
                             (''padding'', ''14px 16px''), (''display'', ''flex''), (''gap'', ''11'')])]
             [Ic_c ''info'' [(''width'', Val ''18''), (''height'', Val ''18''),
                           (''style'',
                            Sty [(''flex'', ''none''), (''marginTop'', ''1''),
                                 (''color'', ''var(--ink-2)'')])],
              El ''p'' [(''style'',
                         Sty [(''fontSize'', ''13''), (''color'', ''var(--ink-2)''),
                              (''lineHeight'', ''1.55''), (''margin'', ''0'')])]
                [Text
                   ''We create a testnet Stellar account for your organization and hold the key locally. The METERED environment uses preview credits; payment recharges and mainnet are disabled.'']],
           BtnPrimary [Text ''Create organization''] OrgSubmit (co_busy p) False [] False
             [(''justifyContent'', ''space-between''), (''width'', ''100%'')],
           El ''p'' [(''className'', Val ''mono''),
                     (''style'',
                      Sty [(''fontSize'', ''11.5''), (''color'', ''var(--ink-3)''), (''margin'', ''0''),
                           (''textAlign'', ''center'')])]
             [Text (''starts in test mode ''
                      @ [CHR 0xB7]
                      @ '' friendbot funding may take a few seconds'')]]]\<close>

section \<open>The contract of a page\<close>

lemma auth_runs_send: "disciplined h (auth_run h e)" "disciplined h (org_run h o')"
proof -
  have p: "\<not> startsWith (auth_path m) ''/v1/''" "\<not> startsWith ''/orgs'' ''/v1/''" for m
    by (simp_all add: auth_path_def startsWith_def)
  have "disciplined h (auth_submit h)"
    unfolding auth_submit_def by (intro sends_intros sends_call_post p)
  then show "disciplined h (auth_run h e)"
    by (cases e) (auto simp: auth_run_def intro!: sends_intros)
  have "disciplined h (org_submit h)"
    unfolding org_submit_def by (intro sends_bind sends_page_get, split if_split)
      (intro conjI impI sends_intros sends_call_post p)
  then show "disciplined h (org_run h o')"
    by (cases o') (auto simp: org_run_def intro!: sends_intros)
qed

interpretation auth_page: page h "auth_run h" "returnIO ()" for h
  by unfold_locales (intro auth_runs_send sends_pure)+

interpretation org_page: page h "org_run h" "returnIO ()" for h
  by unfold_locales (intro auth_runs_send sends_pure)+

end
