(* ===== verification/Console_Auth_Props.thy ===== *)
theory Console_Auth_Props
  imports Console_Session Console_Auth
begin

text \<open>
  What signing in does: which page follows an answer of the service, and that a failed attempt leaves the
  session alone.
\<close>

lemma refreshMe_sets:
  assumes "refreshMe h (c, s) = (r, (c', s'))"
  shows "se_booting s' = se_booting s \<and> se_route s' = se_route s \<and> (\<exists>x. r = Inr x) \<and>
    (truthy (se_user s') \<longleftrightarrow> (\<exists>me. fst (api_get h ''/auth/me'' c) = Inr me \<and> truthy (get me ''user''))) \<and>
    (truthy (se_org s') \<longleftrightarrow> (\<exists>me. fst (api_get h ''/auth/me'' c) = Inr me \<and> truthy (get me ''org'')))"
proof -
  obtain a c1 where a: "api_get h ''/auth/me'' c = (a, c1)" by (metis surj_pair)
  show ?thesis
  proof (cases a)
    case (Inl e)
    with assms a show ?thesis
      by (auto simp: refreshMe_def catchIO_def bindIO_def in_api_def on_session_def)
  next
    case (Inr me)
    show ?thesis
    proof (cases "nullish me")
      case True
      with assms a Inr show ?thesis
        by (cases me) (auto simp: refreshMe_def catchIO_def bindIO_def in_api_def on_session_def get_def)
    next
      case False
      then obtain u g where f: "field me ''user'' = Inr u" "field me ''org'' = Inr g" by (cases me) auto
      with field_get have "u = get me ''user''" "g = get me ''org''" by blast+
      with assms a Inr f show ?thesis
        by (auto simp: refreshMe_def catchIO_def bindIO_def in_api_def on_session_def truthy_js_or_null)
    qed
  qed
qed

text \<open>
  C33 (error). Signing in is always answered, and the answer decides the page: the page is idle
  afterwards with what was typed; when the service refuses the credentials its error is shown and
  the session is the one before; when it accepts them no error is shown, and the visitor stays
  outside, is asked for an organisation, or enters exactly as the next answer to \<open>/auth/me\<close>
  names no user, a user without an organisation, or both.
\<close>

theorem sign_in_outcome:
  assumes "auth_submit h ((c, s), a) = (r, ((c', s'), a'))" and "\<not> se_booting s"
  shows "r = Inr () \<and> \<not> au_busy a' \<and> au_email a' = au_email a \<and> au_password a' = au_password a \<and>
    (case api_post h (auth_path (au_mode a)) (credentials a) c of
       (Inl e, c1) \<Rightarrow> au_err a' = Some e \<and> s' = s \<and> c' = c1
     | (Inr _, c1) \<Rightarrow> au_err a' = None \<and>
         (let me = fst (api_get h ''/auth/me'' c1);
              user = (\<exists>m. me = Inr m \<and> truthy (get m ''user''));
              org = (\<exists>m. me = Inr m \<and> truthy (get m ''org''))
          in Router s' = (if \<not> user then AuthPage else if \<not> org then CreateOrgPage else page_of (se_route s))))"
proof -
  obtain x c1 where post: "api_post h (auth_path (au_mode a)) (credentials a) c = (x, c1)" by (metis surj_pair)
  show ?thesis
  proof (cases x)
    case (Inl e)
    with assms(1) post show ?thesis
      by (auto simp: auth_submit_def guarded_def bindIO_def catchIO_def api_call_run)
  next
    case (Inr v)
    obtain q c2 s2 where me: "refreshMe h (c1, s) = (q, (c2, s2))" by (metis surj_pair)
    from refreshMe_sets [OF me] obtain y where y: "q = Inr y" by blast
    with assms(1) post Inr me have "r = Inr ()" "s' = s2" "a' = a\<lparr>au_busy := False, au_err := None\<rparr>"
      by (auto simp: auth_submit_def guarded_def bindIO_def catchIO_def api_call_run in_visit_run)
    with refreshMe_sets [OF me] assms(2) post Inr show ?thesis
      by (cases "fst (api_get h ''/auth/me'' c1)") (auto simp: Router_def Let_def)
  qed
qed

theorem sign_in_outcome_witness:
  "\<exists>c' s' a' e. auth_submit (fixed_service (Inl (TypeError ''Failed to fetch'')))
      ((fresh_client, (session_init ''test'' [])\<lparr>se_booting := False\<rparr>), auth_init) = (Inr (), ((c', s'), a')) \<and>
     au_err a' = Some e \<and> s' = (session_init ''test'' [])\<lparr>se_booting := False\<rparr>"
proof -
  let ?h = "fixed_service (Inl (TypeError ''Failed to fetch''))" and ?s = "(session_init ''test'' [])\<lparr>se_booting := False\<rparr>"
  obtain r c' s' a' where run: "auth_submit ?h ((fresh_client, ?s), auth_init) = (r, ((c', s'), a'))" by (metis surj_pair)
  have "\<not> isl (Inr () :: jserr + unit) \<and> isl (fst (api_post ?h (auth_path (au_mode auth_init)) (credentials auth_init) fresh_client))"
    by code_simp
  then obtain e c1 where "api_post ?h (auth_path (au_mode auth_init)) (credentials auth_init) fresh_client = (Inl e, c1)"
    by (metis isl_def prod.collapse)
  with sign_in_outcome [OF run] run show ?thesis by simp
qed

text \<open>The key Enter submits while an attempt is under way, so that it is sent again.\<close>

lemma enter_while_busy:
  "auth_run h (AuKey ''Enter'') = auth_submit h" "org_run h (OrgKey ''Enter'') = org_submit h"
  by (simp_all add: auth_run_def org_run_def)

end
