(* ===== verification/Console_Redeem.thy ===== *)
theory Console_Redeem
  imports Console_Sends
begin

text \<open>
  The redemptions page of the console (\<open>cloud/console/src/pages/Redemptions.jsx\<close>): the list with its
  filters and the row that is open, and the dialog that redeems a code. The dialog's state is
  made when it opens, from the campaigns known then.
\<close>

section \<open>State\<close>

datatype redeem_load = RdRedemptions | RdCampaigns

record redeem_dialog =
  rm_campID :: jval
  rm_code :: string
  rm_ref :: string
  rm_busy :: bool
  rm_err :: "jserr option"

record redemptions =
  rd_data :: jval
  rd_campaigns :: "jval list"
  rd_open :: jval
  rd_redeem :: "redeem_dialog option"
  rd_filterCamp :: string
  rd_filterResult :: string
  rd_loads :: "redeem_load promises"

datatype redemptions_ev = RdAsk | RdCamp string | RdResult string | RdRow jval | RdCopy "string option"
  | RmCamp string | RmCode string | RmRef string | RmSubmit | RmCancel

definition redeemable :: "jval list \<Rightarrow> jval list" where \<comment> \<open>\<open>unique\<close>\<close>
  "redeemable campaigns =
     filter (\<lambda>c. get c ''kind'' \<in> {JStr ''voucher'', JStr ''ticket'', JStr ''loyalty''}
       \<and> \<not> truthy (get c ''archived'')) campaigns"

definition redeem_dialog_init :: "jval list \<Rightarrow> redeem_dialog" where
  "redeem_dialog_init campaigns =
     \<lparr>rm_campID = (case redeemable campaigns of c # _ \<Rightarrow> js_or (get c ''id'') (JStr []) | [] \<Rightarrow> JStr []),
      rm_code = [], rm_ref = [], rm_busy = False, rm_err = None\<rparr>"

definition redemptions_init :: "string \<Rightarrow> redemptions" where \<comment> \<open>from the route\<close>
  "redemptions_init route =
     \<lparr>rd_data = JNull, rd_campaigns = [], rd_open = JNull,
      rd_redeem = (if str_includes route ''redeem=1'' then Some (redeem_dialog_init []) else None),
      rd_filterCamp = [], rd_filterResult = [], rd_loads = []\<rparr>"

definition redemption_shown :: "redemptions \<Rightarrow> jval \<Rightarrow> bool" where
  "redemption_shown p r \<longleftrightarrow>
     (rd_filterCamp p = [] \<or> js_String (get r ''campaign_id'') = rd_filterCamp p) \<and>
     (rd_filterResult p = [] \<or>
       (if rd_filterResult p = ''ok'' then truthy (get r ''ok'') else \<not> truthy (get r ''ok'')))"

definition redemption_list :: "redemptions \<Rightarrow> jval list" where \<comment> \<open>\<open>list\<close>\<close>
  "redemption_list p = filter (redemption_shown p) (items (get (rd_data p) ''redemptions''))"

section \<open>Loading\<close>

definition redeem_load :: "'w console \<Rightarrow> (('w, redemptions) on_visit, unit) io" where
  "redeem_load h =
     bindIO (launch h ''/v1/redemptions'' RdRedemptions rd_loads_update) (\<lambda>_.
     launch h ''/v1/campaigns'' RdCampaigns rd_loads_update)"

definition redeem_loaded :: "redeem_load \<Rightarrow> jval js \<Rightarrow> redemptions \<Rightarrow> redemptions" where
  "redeem_loaded k r p =
     (case (k, r) of
        (RdRedemptions, Inr d) \<Rightarrow> p\<lparr>rd_data := d\<rparr>
      | (RdCampaigns, Inr d) \<Rightarrow> p\<lparr>rd_campaigns := items (get d ''campaigns'')\<rparr>
      | _ \<Rightarrow> p)"

definition redeem_effect :: "'w console \<Rightarrow> (('w, redemptions) on_visit, unit) io" where
  "redeem_effect h = bindIO (on_page (\<lambda>p. p\<lparr>rd_data := JNull\<rparr>)) (\<lambda>_. redeem_load h)"

section \<open>Handlers\<close>

definition set_dialog :: "(redeem_dialog \<Rightarrow> redeem_dialog) \<Rightarrow> (('w, redemptions) on_visit, unit) io" where
  "set_dialog f = on_page (\<lambda>p. p\<lparr>rd_redeem := map_option f (rd_redeem p)\<rparr>)"

definition redemption_body :: "redeem_dialog \<Rightarrow> jval" where
  "redemption_body m = JObj [(''campaign_id'', JNum (js_Number (rm_campID m))), (''code'', JStr (rm_code m)),
     (''redeemer_ref'', JStr (rm_ref m))]"

definition redeem_toast :: "'w console \<Rightarrow> jval \<Rightarrow> (('w, redemptions) on_visit, unit) io" where
  "redeem_toast h r =
     bindIO (read_field r ''receipt'') (\<lambda>rc.
     bindIO (read_field rc ''code'') (\<lambda>code.
     bindIO (read_field rc ''campaign_name'') (\<lambda>name.
     bindIO (read_field rc ''ledger_seq'') (\<lambda>led.
     bindIO (liftIO (localised_c h led)) (\<lambda>ledger.
     pop_up h (''Redeemed '' @ [CHR 0x8D])
       (js_String code @ '' '' @ [CHR 0xB7] @ '' '' @ js_String name @ '' '' @ [CHR 0xB7] @ '' ledger '' @ ledger)
       ''success'')))))"

definition redeem_now :: "'w console \<Rightarrow> redeem_dialog \<Rightarrow> (('w, redemptions) on_visit, unit) io" where
  \<comment> \<open>\<open>submit\<close> of the dialog\<close>
  "redeem_now h m =
     bindIO (set_dialog (\<lambda>d. d\<lparr>rm_busy := True, rm_err := None\<rparr>)) (\<lambda>_.
     catchIO
       (bindIO (keyed_post h ''/v1/redemptions'' (redemption_body m)) (\<lambda>r.
        bindIO (redeem_toast h r) (\<lambda>_.
        bindIO (on_page (\<lambda>p. p\<lparr>rd_redeem := None\<rparr>)) (\<lambda>_. redeem_load h))))
       (\<lambda>e. set_dialog (\<lambda>d. d\<lparr>rm_err := Some e, rm_busy := False\<rparr>)))"

definition redemptions_run :: "'w console \<Rightarrow> redemptions_ev \<Rightarrow> (('w, redemptions) on_visit, unit) io" where
  "redemptions_run h e =
     (case e of
        RdAsk \<Rightarrow> on_page (\<lambda>p. p\<lparr>rd_redeem := (case rd_redeem p of None \<Rightarrow> Some (redeem_dialog_init (rd_campaigns p))
                                               | Some d \<Rightarrow> Some d)\<rparr>)
      | RdCamp v \<Rightarrow> on_page (\<lambda>p. p\<lparr>rd_filterCamp := v\<rparr>)
      | RdResult v \<Rightarrow> on_page (\<lambda>p. p\<lparr>rd_filterResult := v\<rparr>)
      | RdRow i \<Rightarrow> on_page (\<lambda>p. p\<lparr>rd_open := (if rd_open p = i then JNull else i)\<rparr>)
      | RdCopy t \<Rightarrow> returnIO () \<comment> \<open>the text goes to the clipboard\<close>
      | RmCamp v \<Rightarrow> set_dialog (\<lambda>d. d\<lparr>rm_campID := JStr v\<rparr>)
      | RmCode v \<Rightarrow> set_dialog (\<lambda>d. d\<lparr>rm_code := toUpperCase v\<rparr>)
      | RmRef v \<Rightarrow> set_dialog (\<lambda>d. d\<lparr>rm_ref := v\<rparr>)
      | RmSubmit \<Rightarrow>
          bindIO (page_get rd_redeem) (\<lambda>d. case d of None \<Rightarrow> returnIO () | Some m \<Rightarrow> redeem_now h m)
      | RmCancel \<Rightarrow> on_page (\<lambda>p. p\<lparr>rd_redeem := None\<rparr>))"

section \<open>Elements\<close>

definition rejected_label :: "jval \<Rightarrow> string" where
  "rejected_label r =
     (if get r ''error_name'' = JStr ''AlreadyRedeemed'' then ''Already redeemed''
      else if truthy (get r ''error_name'') then js_String (get r ''error_name'') else ''Rejected'')"

definition receipt_rows :: "'w console \<Rightarrow> jval \<Rightarrow> (string \<times> string) list" where
  "receipt_rows h r =
     [(''token_id'', shown (get r ''token_id'')), (''code'', shown (get r ''code'')),
      (''burned_at'', fmtDateTime h (get r ''created_at'')),
      (''ledger_seq'', locale_text h (get r ''ledger_seq''))]"

definition receipts_readable :: "redemptions \<Rightarrow> unit js" where
  \<comment> \<open>an open receipt without a ledger throws while it is rendered\<close>
  "receipts_readable p =
     (if \<exists>r \<in> set (redemption_list p). rd_open p = get r ''id'' \<and> truthy (get r ''ok'')
           \<and> nullish (get r ''ledger_seq'')
      then Inl (TypeError ''ledger_seq has no toLocaleString'') else Inr ())"

definition RedeemModal :: \<open>string \<Rightarrow> jval list \<Rightarrow> redeem_dialog \<Rightarrow> redemptions_ev html\<close> where
  \<open>RedeemModal env campaigns d =
     Modal RmCancel ''460''
       [El ''div'' [(''style'',
                     Sty [(''display'', ''flex''), (''flexDirection'', ''column''), (''gap'', ''16'')])]
          ([El ''div'' [(''style'', Sty [(''fontSize'', ''16''), (''fontWeight'', ''650'')])]
              [Text ''Redeem a code''],
            El ''div'' [(''className'', Val ''field'')]
              [El ''label'' [] [Text ''Campaign''],
               El ''select'' [(''className'', Val ''select''),
                              (''style'', Sty [(''fontSize'', ''13.5'')]),
                              (''value'', Val (js_String (rm_campID d))), (''onChange'', OnV RmCamp)]
                 (concat (map (\<lambda>c.
                                 [El ''option'' [(''value'', Val (js_String (get c ''id'')))]
                                    [Text (shown (get c ''name'')),
                                     Text ('' '' @ [CHR 0x97] @ '' ''),
                                     Text (shown (get c ''kind''))]]) (redeemable campaigns)))],
            El ''div'' [(''className'', Val ''field'')]
              [El ''label'' []
                 [Text ''Code '',
                  El ''span'' [(''className'', Val ''req'')] [Text ''*'']],
               El ''input'' [(''className'', Val ''input mono''), (''value'', Val (rm_code d)),
                             (''onChange'', OnV RmCode), (''placeholder'', Val ''BURN-9D4X''),
                             (''autoFocus'', Flag True)] []],
            El ''div'' [(''className'', Val ''field'')]
              [El ''label'' []
                 [Text ''Reference '',
                  El ''span'' [(''style'',
                                Sty [(''fontWeight'', ''500''), (''color'', ''var(--ink-3)'')])]
                    [Text ''optional'']],
               El ''input'' [(''className'', Val ''input''), (''value'', Val (rm_ref d)),
                             (''onChange'', OnV RmRef), (''placeholder'', Val ''order #58291'')] [],
               El ''span'' [(''className'', Val ''help'')]
                 [Text (''Hashed with a random nonce before it touches the chain ''
                          @ [CHR 0x97]
                          @ '' never stored raw.'')]]]
             @ (ErrText (rm_err d))
             @
             [El ''div'' [(''style'',
                           Sty [(''display'', ''flex''), (''justifyContent'', ''space-between''),
                                (''alignItems'', ''center'')])]
                [El ''span'' [(''className'', Val ''mono''),
                              (''style'',
                               Sty [(''fontSize'', ''11.5''), (''color'', ''var(--ink-3)'')])]
                   [Text (if env = ''test'' then ''free (test)'' else ''5 cr''),
                    Text ('' '' @ [CHR 0xB7] @ '' ~5s to finality'')],
                 BtnPrimary [Text ''Redeem''] RmSubmit (rm_busy d) (rm_code d = [] \<or> \<not> truthy
                                                                      (rm_campID d))
                   [Ic_c ''check'' [(''width'', Val ''13''), (''height'', Val ''13'')]] True []]])]\<close>

definition redemption_row :: \<open>'w console \<Rightarrow> bool \<Rightarrow> jval \<Rightarrow> redemptions_ev html list\<close> where
  \<open>redemption_row h expanded r =
     [El ''div'' [(''onClick'', On (RdRow (get r ''id''))),
                  (''style'',
                   Sty [(''display'', ''grid''),
                        (''gridTemplateColumns'', ''.9fr 1.3fr 1.3fr 1.3fr 1.2fr .9fr 30px''),
                        (''gap'', ''12''), (''padding'', ''12px 20px''),
                        (''borderBottom'', ''1px solid var(--line)''), (''alignItems'', ''center''),
                        (''cursor'', ''pointer''),
                        (''background'', (if expanded then ''var(--surface-inset)'' else []))])]
        ([El ''span'' [(''className'', Val ''mono''),
                       (''style'', Sty [(''fontSize'', ''11.5''), (''color'', ''var(--ink-2)'')])]
            [Text (fmtTime h (get r ''created_at''))],
          El ''span'' [(''className'', Val ''mono''),
                       (''style'', Sty [(''fontSize'', ''12.5''), (''fontWeight'', ''500'')])]
            [Text (shown (get r ''code''))],
          El ''span'' [(''style'',
                        Sty [(''fontSize'', ''13''), (''color'', ''var(--ink-2)''),
                             (''overflow'', ''hidden''), (''textOverflow'', ''ellipsis''),
                             (''whiteSpace'', ''nowrap'')])] [Text (shown (get r ''campaign_name''))]]
           @
           (if truthy (get r ''ok'') then [Pill_c ''valid'' [Text ''Redeemed'']] else
              [Pill_c ''burned'' [Text (rejected_label r)]])
           @
           [El ''span'' [(''className'', Val ''mono''),
                         (''title'',
                          Val (''Stored as a privacy-preserving commitment ''
                                 @ [CHR 0x97]
                                 @ '' no personal data on-chain.'')),
                         (''style'',
                          Sty [(''fontSize'', ''11.5''),
                               (''color'',
                                (if truthy (get r ''redeemer_ref'') then ''var(--ink-2)'' else
                                   ''var(--ink-3)'')),
                               (''borderBottom'',
                                (if truthy (get r ''redeemer_ref'') then ''1px dashed var(--ink-3)''
                                   else ''none'')), (''justifySelf'', ''start''),
                               (''cursor'', ''help'')])]
              [Text (if truthy (get r ''redeemer_ref'') then trunc_c 4 4 (get r ''redeemer_ref'') else
                       [CHR 0x97])],
            El ''span'' [(''className'', Val ''mono''),
                         (''style'',
                          Sty [(''fontSize'', ''11.5''),
                               (''color'',
                                (if truthy (get r ''ledger_seq'') then ''var(--ink-2)'' else
                                   ''var(--ink-3)''))])]
              [Text (if truthy (get r ''ledger_seq'') then locale_text h (get r ''ledger_seq'') else
                       ''#''
                       @ js_String (get r ''error_code''))],
            Ic_c ''chevron'' [(''width'', Val ''14''), (''height'', Val ''14''),
                            (''style'',
                             Sty [(''color'', ''var(--ink-3)''), (''justifySelf'', ''end''),
                                  (''transform'', (if expanded then ''rotate(180deg)'' else []))])]])]
       @
       (if expanded then
          [El ''div'' [(''style'',
                        Sty [(''padding'', ''18px 20px 20px''),
                             (''borderBottom'', ''1px solid var(--line)''),
                             (''background'', ''var(--surface-inset)'')])]
             (if truthy (get r ''ok'') then
                [El ''div'' [(''style'',
                              Sty [(''background'', ''var(--surface)''),
                                   (''border'', ''1px solid var(--line)''), (''borderRadius'', ''14''),
                                   (''padding'', ''18px 20px''), (''display'', ''flex''),
                                   (''flexDirection'', ''column''), (''gap'', ''14''),
                                   (''boxShadow'',
                                    
                                      ''inset 0 0 0 1px color-mix(in oklch, var(--valid) 18%, transparent)'')])]
                   [El ''div'' [(''style'',
                                 Sty [(''display'', ''flex''), (''alignItems'', ''center''),
                                      (''justifyContent'', ''space-between'')])]
                      [El ''span'' [(''className'', Val ''eyebrow''),
                                    (''style'',
                                     Sty [(''fontSize'', ''11''), (''color'', ''var(--valid)'')])]
                         [Text ([CHR 0x8D] @ '' Redemption receipt'')],
                       El ''div'' [(''style'',
                                    Sty [(''display'', ''flex''), (''alignItems'', ''center''),
                                         (''gap'', ''10'')])]
                         ((TxLink (get r ''tx_hash'') [])
                            @
                            [El ''button'' [(''className'', Val ''btn-plain''),
                                            (''style'',
                                             Sty [(''fontSize'', ''12''), (''padding'', ''6px 13px'')]),
                                            (''onClick'', On (RdCopy (json_at 0 r)))]
                               [Text ''Copy receipt JSON'']])],
                    El ''div'' [(''style'',
                                 Sty [(''display'', ''grid''),
                                      (''gridTemplateColumns'', ''repeat(4, 1fr)''),
                                      (''gap'', ''12px 20px''), (''fontSize'', ''13'')])]
                      (concat (map (\<lambda> (k, v) .
                                      [El ''div'' []
                                         [El ''div'' [(''style'',
                                                       Sty [(''fontSize'', ''11''),
                                                            (''fontWeight'', ''600''),
                                                            (''color'', ''var(--ink-3)''),
                                                            (''textTransform'', ''uppercase''),
                                                            (''letterSpacing'', ''.08em'')])] [Text k],
                                          El ''div'' [(''className'', Val ''mono''),
                                                      (''style'',
                                                       Sty [(''fontSize'', ''13''),
                                                            (''marginTop'', ''3'')])] [Text v]]])
                                 (receipt_rows h r))),
                    El ''div'' [(''style'',
                                 Sty [(''borderTop'', ''1px dashed var(--line-2)''),
                                      (''paddingTop'', ''12''), (''display'', ''flex''),
                                      (''flexDirection'', ''column''), (''gap'', ''8'')])]
                      [El ''div'' [(''style'',
                                    Sty [(''display'', ''flex''), (''alignItems'', ''center''),
                                         (''gap'', ''9'')])]
                         [El ''span'' [(''style'',
                                        Sty [(''fontSize'', ''11''), (''fontWeight'', ''600''),
                                             (''color'', ''var(--ink-3)''),
                                             (''textTransform'', ''uppercase''),
                                             (''letterSpacing'', ''.08em''), (''width'', ''170''),
                                             (''flex'', ''none'')])] [Text ''redeemer commitment''],
                          El ''span'' [(''className'', Val ''mono''),
                                       (''style'',
                                        Sty [(''fontSize'', ''11.5''), (''color'', ''var(--ink-2)''),
                                             (''wordBreak'', ''break-all'')])]
                            [Text (if truthy (get r ''redeemer_ref'') then js_String
                                     (get r ''redeemer_ref'') else ''(random)'')]],
                       El ''p'' [(''style'',
                                  Sty [(''fontSize'', ''12''), (''color'', ''var(--ink-3)''),
                                       (''margin'', ''2px 0 0''), (''lineHeight'', ''1.5'')])]
                         [Text (
                                  ''The reference you passed was hashed with a random nonce before it touched the chain ''
                                  @ [CHR 0x97]
                                  @ '' ''),
                          El ''strong'' [(''style'', Sty [(''color'', ''var(--ink-2)'')])]
                            [Text ''no personal data on-chain, ever''],
                          Text ''.'']]]] else
                [El ''div'' [(''style'',
                              Sty [(''background'', ''var(--surface)''),
                                   (''border'', ''1px solid var(--line)''), (''borderRadius'', ''14''),
                                   (''padding'', ''16px 18px''),
                                   (''boxShadow'',
                                    
                                      ''inset 0 0 0 1px color-mix(in oklch, var(--burned) 22%, transparent)'')])]
                   [El ''div'' [(''style'',
                                 Sty [(''display'', ''flex''), (''alignItems'', ''center''),
                                      (''gap'', ''9'')])]
                      [El ''span'' [(''style'',
                                     Sty [(''width'', ''26''), (''height'', ''26''),
                                          (''borderRadius'', ''999''),
                                          (''background'', ''var(--burned-bg)''),
                                          (''color'', ''var(--burned)''), (''display'', ''grid''),
                                          (''placeItems'', ''center''), (''fontSize'', ''13''),
                                          (''fontWeight'', ''700'')])] [Text [CHR 0x9E]],
                       El ''div'' []
                         [El ''div'' [(''style'',
                                       Sty [(''fontSize'', ''14''), (''fontWeight'', ''650''),
                                            (''color'', ''var(--burned)'')])]
                            [Text (if get r ''error_name'' = JStr ''AlreadyRedeemed'' then
                                     ''Already redeemed'' else shown (get r ''error_name''))],
                          El ''div'' [(''className'', Val ''mono''),
                                      (''style'',
                                       Sty [(''fontSize'', ''11.5''), (''color'', ''var(--ink-3)'')])]
                            [Text (shown (get r ''code'')),
                             Text ('' '' @ [CHR 0xB7] @ '' ''),
                             Text (fmtDateTime h (get r ''created_at''))]],
                       El ''span'' [(''className'', Val ''authtag''),
                                    (''style'', Sty [(''marginLeft'', ''auto'')])]
                         [Text (shown (get r ''error_name'')),
                          Text ('' '' @ [CHR 0xB7] @ '' #''),
                          Text (shown (get r ''error_code''))]],
                    El ''p'' [(''style'',
                               Sty [(''fontSize'', ''12.5''), (''color'', ''var(--ink-2)''),
                                    (''margin'', ''10px 0 0''), (''lineHeight'', ''1.5'')])]
                      [Text (if get r ''error_name'' = JStr ''AlreadyRedeemed'' then
                               (
                                  ''Single-use codes burn once. Nothing was written, nothing was charged ''
                                  @ [CHR 0x97]
                                  @ '' show the customer the first receipt.'') else
                               ''The contract rejected this at simulation. Nothing was written, nothing was charged.'')]]])]
          else [])\<close>

definition redemptions_view :: \<open>'w console \<Rightarrow> session \<Rightarrow> redemptions \<Rightarrow> redemptions_ev html js\<close> where
  \<open>redemptions_view h ss p =
     bindR (receipts_readable p)
       (\<lambda>_. Inr
          (El ''div'' [(''className'', Val ''page'')]
             ([El ''div'' [(''className'', Val ''page-head'')]
                 [El ''div'' []
                    [El ''h1'' [(''className'', Val ''display''),
                                (''style'', Sty [(''fontSize'', ''27''), (''margin'', ''0'')])]
                       [Text ''Redemptions''],
                     El ''p'' [(''className'', Val ''page-sub'')]
                       [Text (''Every burn and rejection, across all campaigns ''
                                @ [CHR 0xB7]
                                @ '' updates live'')]],
                  BtnPrimary [Text ''Redeem a code''] RdAsk False False
                    [Ic_c ''check'' [(''width'', Val ''13''), (''height'', Val ''13'')]] True []],
               El ''div'' [(''style'',
                            Sty [(''display'', ''flex''), (''gap'', ''10''),
                                 (''alignItems'', ''center'')])]
                 [El ''select'' [(''className'', Val ''select''),
                                 (''style'',
                                  Sty [(''width'', ''200''), (''fontSize'', ''13.5''),
                                       (''paddingTop'', ''9''), (''paddingBottom'', ''9'')]),
                                 (''value'', Val (rd_filterCamp p)), (''onChange'', OnV RdCamp)]
                    ([El ''option'' [(''value'', Val [])] [Text ''All campaigns'']]
                       @
                       (concat (map (\<lambda>c.
                                       [El ''option'' [(''value'', Val (js_String (get c ''id'')))]
                                          [Text (shown (get c ''name''))]]) (rd_campaigns p)))),
                  El ''select'' [(''className'', Val ''select''),
                                 (''style'',
                                  Sty [(''width'', ''150''), (''fontSize'', ''13.5''),
                                       (''paddingTop'', ''9''), (''paddingBottom'', ''9'')]),
                                 (''value'', Val (rd_filterResult p)), (''onChange'', OnV RdResult)]
                    [El ''option'' [(''value'', Val [])] [Text ''Any result''],
                     El ''option'' [(''value'', Val ''ok'')] [Text ''Redeemed''],
                     El ''option'' [(''value'', Val ''rejected'')] [Text ''Rejected'']],
                  El ''div'' [(''style'', Sty [(''flex'', ''1'')])] []]]
                @
                (if truthy (rd_data p) \<and> redemption_list p = [] then
                   [El ''div'' [(''className'', Val ''empty'')]
                      [El ''p'' [(''style'',
                                  Sty [(''fontSize'', ''13.5''), (''color'', ''var(--ink-2)''),
                                       (''margin'', ''0'')])]
                         [Text (''No redemptions yet ''
                                  @ [CHR 0x97]
                                  @ '' redeem a code from the console or with one curl.'')],
                       BtnPrimary [Text ''Redeem a code''] RdAsk False False
                         [Ic_c ''check'' [(''width'', Val ''13''), (''height'', Val ''13'')]] True []]]
                   else
                   [El ''div'' [(''className'', Val ''card''),
                                (''style'', Sty [(''overflow'', ''hidden'')])]
                      ([El ''div'' [(''style'',
                                     Sty [(''display'', ''grid''),
                                          (''gridTemplateColumns'',
                                           ''.9fr 1.3fr 1.3fr 1.3fr 1.2fr .9fr 30px''),
                                          (''gap'', ''12''), (''padding'', ''11px 20px''),
                                          (''borderBottom'', ''1px solid var(--line)''),
                                          (''background'', ''var(--surface-inset)'')])]
                          (concat (map (\<lambda>t.
                                          [El ''span'' [(''className'', Val ''eyebrow''),
                                                        (''style'', Sty [(''fontSize'', ''11'')])]
                                             [Text t]]) [''Time'', ''Code'', ''Campaign'', ''Result'',
                                                         ''Redeemer ref'', ''Ledger'', []]))]
                         @ (concat (map (\<lambda>r. redemption_row h (rd_open p = get r ''id'') r)
                                      (redemption_list p))))])
                @ (case rd_redeem p of None \<Rightarrow> [] | Some d \<Rightarrow>
                     [RedeemModal (se_env ss) (rd_campaigns p) d]))))\<close>

section \<open>The contract of a page\<close>

lemma redeem_load_sends: "disciplined h (redeem_load h)"
  unfolding redeem_load_def by (intro sends_intros)

lemma redeem_runs_send: "disciplined h (redemptions_run h e)" "disciplined h (redeem_effect h)"
proof -
  have "disciplined h (redeem_now h d)" for d
    unfolding redeem_now_def redeem_toast_def set_dialog_def by (intro sends_intros redeem_load_sends)
  then show "disciplined h (redemptions_run h e)"
    by (cases e) (auto simp: redemptions_run_def set_dialog_def intro!: sends_intros split: option.split)
  show "disciplined h (redeem_effect h)"
    unfolding redeem_effect_def by (intro sends_intros redeem_load_sends)
qed

interpretation redeem_page: page h "redemptions_run h" "redeem_effect h" for h
  by unfold_locales (rule redeem_runs_send)+

end
