(* ===== verification/Console_Overview.thy ===== *)
theory Console_Overview
  imports Console_Sends
begin

text \<open>
  The overview of the console (\<open>cloud/console/src/pages/Overview.jsx\<close>): figures, the chart, the activity and
  the list of first steps, read again every eight seconds. An answer counts while the effect that
  asked for it is the current one; the effects are numbered.
\<close>

section \<open>State\<close>

record overview =
  ov_data :: jval
  ov_effect :: nat
  ov_loads :: "nat promises"

datatype overview_ev = OvNav string

definition overview_init :: overview where
  "overview_init = \<lparr>ov_data = JNull, ov_effect = 0, ov_loads = []\<rparr>"

definition overview_load :: "'w console \<Rightarrow> (('w, overview) on_visit, unit) io" where
  \<comment> \<open>when the effect runs, and on every tick of its interval\<close>
  "overview_load h =
     bindIO (page_get ov_effect) (\<lambda>n. launch h ''/v1/overview'' n ov_loads_update)"

definition overview_effect :: "'w console \<Rightarrow> (('w, overview) on_visit, unit) io" where
  \<comment> \<open>the cleanup of the effect before it, then the effect\<close>
  "overview_effect h =
     bindIO (on_page (\<lambda>p. p\<lparr>ov_effect := Suc (ov_effect p)\<rparr>)) (\<lambda>_. overview_load h)"

definition overview_loaded :: "nat \<Rightarrow> jval js \<Rightarrow> overview \<Rightarrow> overview" where
  "overview_loaded n r p =
     (case r of Inr d \<Rightarrow> if n = ov_effect p then p\<lparr>ov_data := d\<rparr> else p | Inl _ \<Rightarrow> p)"

definition overview_run :: "'w console \<Rightarrow> overview_ev \<Rightarrow> (('w, overview) on_visit, unit) io" where
  "overview_run h e = (case e of OvNav r \<Rightarrow> in_visit (nav r))"

section \<open>The chart\<close>

definition chart_max :: "jval list \<Rightarrow> jnum" where
  "chart_max series = foldl jmax (Fin 4) (map (\<lambda>s. js_Number (get s ''count'')) series)"

definition chart_points :: "jval list \<Rightarrow> (jnum \<times> jnum) list" where
  "chart_points series =
     map (\<lambda>(i, s).
       (jmul (jdiv (num (int i)) (num (max 1 (int (length series) - 1)))) (Fin 640),
        jsub (Fin 170) (jmul (jdiv (js_Number (get s ''count'')) (chart_max series)) (Fin 110))))
       (enumerate 0 series)"

definition chart_line :: "(jnum \<times> jnum) list \<Rightarrow> string" where
  "chart_line pts = join '' '' (map (\<lambda>(x, y). num_str x @ '','' @ num_str y) pts)"

definition date_at :: "jval list \<Rightarrow> nat \<Rightarrow> string" where \<comment> \<open>\<open>series[i]?.date\<close>\<close>
  "date_at series i = (if i < length series then shown (get (series ! i) ''date'') else [])"

definition Chart :: \<open>jval list \<Rightarrow> bool \<Rightarrow> 'e html js\<close> where
  \<open>Chart series test =
     (let pts = chart_points series;
          color = (if test then ''var(--pending)'' else ''var(--ink)'');
          fill = (if test then ''var(--pending-bg)'' else ''var(--accent-wash)'')
      in if series = [] then Inl (TypeError ''Cannot read properties of undefined (reading 0)'') else
           Inr
           (El ''svg'' [(''viewBox'', Val ''0 0 660 190''), (''width'', Val ''100%''),
                        (''style'', Sty [(''overflow'', ''visible'')])]
              [El ''line'' [(''x1'', Val ''0''), (''y1'', Val ''170''), (''x2'', Val ''660''),
                            (''y2'', Val ''170''), (''stroke'', Val ''var(--line)''),
                            (''strokeWidth'', Val ''1'')] [],
               El ''line'' [(''x1'', Val ''0''), (''y1'', Val ''115''), (''x2'', Val ''660''),
                            (''y2'', Val ''115''), (''stroke'', Val ''var(--line)''),
                            (''strokeWidth'', Val ''1''), (''strokeDasharray'', Val ''2 4'')] [],
               El ''line'' [(''x1'', Val ''0''), (''y1'', Val ''60''), (''x2'', Val ''660''),
                            (''y2'', Val ''60''), (''stroke'', Val ''var(--line)''),
                            (''strokeWidth'', Val ''1''), (''strokeDasharray'', Val ''2 4'')] [],
               El ''text'' [(''x'', Val ''654''), (''y'', Val ''164''),
                            (''fontFamily'', Val ''var(--mono)''), (''fontSize'', Val ''10''),
                            (''fill'', Val ''var(--ink-3)''), (''textAnchor'', Val ''end'')]
                 [Text ''0''],
               El ''text'' [(''x'', Val ''654''), (''y'', Val ''109''),
                            (''fontFamily'', Val ''var(--mono)''), (''fontSize'', Val ''10''),
                            (''fill'', Val ''var(--ink-3)''), (''textAnchor'', Val ''end'')]
                 [Text (num_str (jround (jdiv (chart_max series) (Fin 2))))],
               El ''text'' [(''x'', Val ''654''), (''y'', Val ''54''),
                            (''fontFamily'', Val ''var(--mono)''), (''fontSize'', Val ''10''),
                            (''fill'', Val ''var(--ink-3)''), (''textAnchor'', Val ''end'')]
                 [Text (num_str (chart_max series))],
               El ''polygon'' [(''points'',
                                Val (chart_line pts
                                       @ '' ''
                                       @ num_str (fst (last pts))
                                       @ '',170 0,170'')), (''fill'', Val fill),
                               (''opacity'', Val ''.8'')] [],
               El ''polyline'' [(''points'', Val (chart_line pts)), (''fill'', Val ''none''),
                                (''stroke'', Val color), (''strokeWidth'', Val ''1.8''),
                                (''strokeLinejoin'', Val ''round''), (''strokeLinecap'', Val ''round'')]
                 [],
               El ''circle'' [(''cx'', Val (num_str (fst (last pts)))),
                              (''cy'', Val (num_str (snd (last pts)))), (''r'', Val ''4''),
                              (''fill'',
                               Val (if test then ''var(--pending-bg)'' else ''var(--accent)'')),
                              (''stroke'', Val color), (''strokeWidth'', Val ''1.6'')] [],
               El ''text'' [(''x'', Val ''0''), (''y'', Val ''187''),
                            (''fontFamily'', Val ''var(--mono)''), (''fontSize'', Val ''10''),
                            (''fill'', Val ''var(--ink-3)'')] [Text (date_at series 0)],
               El ''text'' [(''x'', Val ''320''), (''y'', Val ''187''),
                            (''fontFamily'', Val ''var(--mono)''), (''fontSize'', Val ''10''),
                            (''fill'', Val ''var(--ink-3)''), (''textAnchor'', Val ''middle'')]
                 [Text (date_at series (length series div 2))],
               El ''text'' [(''x'', Val ''640''), (''y'', Val ''187''),
                            (''fontFamily'', Val ''var(--mono)''), (''fontSize'', Val ''10''),
                            (''fill'', Val ''var(--ink-3)''), (''textAnchor'', Val ''end'')]
                 [Text (date_at series (length series - 1))]]))\<close>

section \<open>The activity\<close>

definition ActivityRow :: \<open>'w console \<Rightarrow> jval \<Rightarrow> 'e html\<close> where
  \<open>ActivityRow h a =
     (let rejected = (get a ''kind'' = JStr ''rejected'')
      in El ''div'' [(''style'',
                      Sty [(''display'', ''flex''), (''alignItems'', ''center''), (''gap'', ''9''),
                           (''padding'', ''9px 22px''), (''borderTop'', ''1px solid var(--line)''),
                           (''fontSize'', ''12.5'')])]
           ([El ''span'' [(''className'', Val ''mono''),
                          (''style'',
                           Sty [(''fontSize'', ''11''), (''color'', ''var(--ink-3)''),
                                (''width'', ''38''), (''flex'', ''none'')])]
               [Text (fmtTime h (get a ''ts''))]]
              @
              (if truthy (get a ''code'') then
                 [El ''span'' [(''className'',
                                Val (''code-chip'' @ (if rejected then '' bad'' else [])))]
                    [Text (shown (get a ''code''))]] else [])
              @
              [El ''span'' [(''style'',
                             Sty [(''color'',
                                   (if rejected then ''var(--burned)'' else ''var(--ink-2)'')),
                                  (''overflow'', ''hidden''), (''textOverflow'', ''ellipsis''),
                                  (''whiteSpace'', ''nowrap'')])] [Text (shown (get a ''message''))],
               El ''span'' [(''style'', Sty [(''marginLeft'', ''auto''), (''flex'', ''none'')])]
                 (if rejected then
                    [El ''span'' [(''className'', Val ''mono''),
                                  (''style'',
                                   Sty [(''fontSize'', ''11''), (''color'', ''var(--ink-3)'')])]
                       [Text ''#'',
                        Text (shown (get a ''error_code''))]] else
                    (if truthy (get a ''tx_hash'') then (TxLink (get a ''tx_hash'') []) else
                       [El ''span'' [(''className'', Val ''mono''),
                                     (''style'',
                                      Sty [(''fontSize'', ''11''), (''color'', ''var(--ink-3)'')])]
                          [Text (if get a ''kind'' = JStr ''event'' then ''off-chain'' else [])]]))]))\<close>

section \<open>First steps\<close>

record setup_step =
  st_t :: string
  st_d :: string
  st_done :: bool
  st_go :: string

definition some_kind :: "jval \<Rightarrow> string \<Rightarrow> bool" where \<comment> \<open>\<open>data.activity?.some((a) => a.kind === k)\<close>\<close>
  "some_kind data k = list_ex (\<lambda>a. get a ''kind'' = JStr k) (items (get data ''activity''))"

definition exceeds_zero :: "jval \<Rightarrow> bool" where \<comment> \<open>\<open>v > 0\<close>\<close>
  "exceeds_zero v \<longleftrightarrow> jless (Fin 0) (js_Number v)"

definition setup_steps :: "jval \<Rightarrow> setup_step list" where
  "setup_steps data =
     [\<lparr>st_t = ''Create your first campaign'',
       st_d = ''A coupon, ticket batch or loyalty program '' @ [CHR 0x97] @ '' one primitive, six faces.'',
       st_done = exceeds_zero (get data ''active_campaigns''), st_go = ''/campaigns?new=1''\<rparr>,
      \<lparr>st_t = ''Issue codes'',
       st_d = ''Generate a batch or paste your own list '' @ [CHR 0x97] @ '' QR payloads included.'',
       st_done = some_kind data ''issue'', st_go = ''/campaigns''\<rparr>,
      \<lparr>st_t = ''Make a test redemption'',
       st_d = ''From the console or with one curl '' @ [CHR 0x97] @ '' see the receipt land on testnet.'',
       st_done = some_kind data ''redemption'', st_go = ''/redemptions?redeem=1''\<rparr>,
      \<lparr>st_t = ''Get your API key'', st_d = ''Wire redemptions into your POS, bot or backend.'',
       st_done = exceeds_zero (nullish_or (get data ''api_keys'') (JNum (Fin 0))), st_go = ''/keys''\<rparr>]"

definition first_open :: "setup_step list \<Rightarrow> nat option" where \<comment> \<open>\<open>findIndex\<close>, \<open>None\<close> for -1\<close>
  "first_open steps = (case dropWhile st_done steps of [] \<Rightarrow> None | _ \<Rightarrow> Some (length (takeWhile st_done steps)))"

definition Checklist :: \<open>jval \<Rightarrow> overview_ev html\<close> where
  \<open>Checklist data =
     (let steps = setup_steps data in El ''div'' [(''className'', Val ''card''),
                                                  (''style'',
                                                   Sty [(''padding'', ''22px 24px''),
                                                        (''display'', ''flex''),
                                                        (''flexDirection'', ''column''),
                                                        (''gap'', ''4'')])]
        ([El ''div'' [(''style'',
                       Sty [(''display'', ''flex''), (''alignItems'', ''center''),
                            (''justifyContent'', ''space-between''), (''marginBottom'', ''10'')])]
            [El ''h2'' [(''className'', Val ''display''),
                        (''style'', Sty [(''fontSize'', ''21''), (''margin'', ''0'')])]
               [Text ''Set up your organization''],
             Pill_c [] [Text (dec (int (length (filter st_done steps)))), Text '' of 4 done'']]]
           @
           (concat (map (\<lambda> (i, s) .
                           [El ''div'' [(''style'',
                                         Sty [(''display'', ''flex''), (''alignItems'', ''center''),
                                              (''gap'', ''14''), (''padding'', ''13px 0''),
                                              (''borderTop'', ''1px solid var(--line)'')])]
                              ([El ''span'' [(''className'', Val ''mono''),
                                             (''style'',
                                              Sty ([(''width'', ''28''), (''height'', ''28''),
                                                    (''flex'', ''none''), (''borderRadius'', ''999''),
                                                    (''display'', ''grid''),
                                                    (''placeItems'', ''center''),
                                                    (''fontSize'', ''12.5''), (''fontWeight'', ''600'')]
                                                     @ (if st_done s then [(''background'',
                                                                            ''var(--valid)''),
                                                                           (''color'', ''#fff'')] else
                                                          (if Some i = first_open steps then
                                                             [(''background'', ''var(--accent)''),
                                                              (''color'', ''var(--on-accent)'')] else
                                                             [(''border'',
                                                               ''1px dashed var(--line-2)''),
                                                              (''color'', ''var(--ink-3)'')]))))]
                                  [Text (if st_done s then [CHR 0x8D] else dec (int i + 1))],
                                El ''div'' [(''style'', Sty [(''flex'', ''1'')])]
                                  [El ''div'' [(''style'',
                                                Sty [(''fontSize'', ''14.5''),
                                                     (''fontWeight'', ''650''),
                                                     (''color'',
                                                      (if st_done s \<or> Some i = first_open steps then
                                                         ''var(--ink)'' else ''var(--ink-2)''))])]
                                     [Text (st_t s)],
                                   El ''div'' [(''style'',
                                                Sty [(''fontSize'', ''13''),
                                                     (''color'', ''var(--ink-3)'')])] [Text (st_d s)]]]
                                 @
                                 (if Some i = first_open steps then
                                    [BtnPrimary [Text (if i = 0 then ''New campaign'' else ''Go'')]
                                       (OvNav (st_go s)) False False
                                       [Ic_c ''plus'' [(''width'', Val ''13''), (''height'', Val ''13'')]]
                                       True []] else
                                    (if \<not> st_done s then
                                       [Ic_c ''chevron'' [(''width'', Val ''15''),
                                                        (''height'', Val ''15''),
                                                        (''style'',
                                                         Sty [(''color'', ''var(--ink-3)''),
                                                              (''transform'', ''rotate(-90deg)'')])]]
                                       else [])))]) (enumerate 0 steps)))))\<close>

section \<open>The page\<close>

definition is_first_run :: "jval \<Rightarrow> bool" where
  "is_first_run data \<longleftrightarrow> get data ''active_campaigns'' = JNum (Fin 0) \<and>
     (\<not> truthy (get data ''activity'') \<or> items (get data ''activity'') = [])"

definition overview_loading :: "'e html" where
  "overview_loading =
     El ''div'' [(''className'', Val ''page'')]
       [El ''div'' [(''className'', Val ''faint'')] [Text (''Loading'' @ [CHR 0x85])]]"

definition overview_view :: \<open>'w console \<Rightarrow> string \<Rightarrow> session \<Rightarrow> overview \<Rightarrow> overview_ev html js\<close> where \<comment> \<open>the text of today is of the host\<close>
  \<open>overview_view h today ss p =
     (let data = ov_data p in if \<not> truthy data then Inr overview_loading else bindR
        (localised_c h (get data ''redemptions_30d''))
        (\<lambda>_. bindR (if is_first_run data then Inr [] else bindR (Chart
                                                                           (items (get data ''series''))
                                                                           (se_env ss = ''test''))
                              (\<lambda>c. Inr [c]))
           (\<lambda>chart. Inr
              (El ''div'' [(''className'', Val ''page'')]
                 ((if \<not> truthy (get data ''account_funded'') then
                     [El ''div'' [(''style'',
                                   Sty [(''background'', ''var(--info-bg)''),
                                        (''color'', ''var(--info)''), (''borderRadius'', ''12''),
                                        (''padding'', ''11px 16px''), (''fontSize'', ''13''),
                                        (''fontWeight'', ''600''), (''display'', ''flex''),
                                        (''gap'', ''9''), (''alignItems'', ''center'')])]
                        [Ic_c ''spinner'' [(''width'', Val ''15''), (''height'', Val ''15'')],
                         Text ('' Setting up your Stellar account on testnet ''
                                 @ [CHR 0x97]
                                 @ '' on-chain actions unlock in a few seconds.'')]] else [])
                    @
                    [El ''div'' [(''className'', Val ''page-head'')]
                       [El ''div'' []
                          [El ''h1'' [(''className'', Val ''display''),
                                      (''style'', Sty [(''fontSize'', ''27''), (''margin'', ''0'')])]
                             [Text ''Overview''],
                           El ''p'' [(''className'', Val ''page-sub'')]
                             [Text (if se_env ss = ''test'' then ''TEST data is separate from METERED ''
                                      @ [CHR 0x97]
                                      @ '' experiments stay here.'' else today
                                      @ '' ''
                                      @ [CHR 0xB7]
                                      @ '' all campaigns'')]],
                        El ''div'' [(''style'', Sty [(''display'', ''flex''), (''gap'', ''9'')])]
                          [El ''button'' [(''className'', Val ''btn-plain''),
                                          (''style'', Sty [(''fontSize'', ''13.5'')]),
                                          (''onClick'', On (OvNav ''/campaigns''))]
                             [Text ''Issue codes''],
                           El ''button'' [(''className'', Val ''btn-plain''),
                                          (''style'', Sty [(''fontSize'', ''13.5'')]),
                                          (''onClick'', On (OvNav ''/keys''))]
                             [Text ''Create API key''],
                           BtnPrimary [Text ''New campaign''] (OvNav ''/campaigns?new=1'') False False
                             [Ic_c ''plus'' [(''width'', Val ''13''), (''height'', Val ''13'')]] True
                             []]],
                     El ''div'' [(''style'',
                                  Sty [(''display'', ''grid''),
                                       (''gridTemplateColumns'', ''repeat(4, 1fr)''),
                                       (''gap'', ''14'')])]
                       ([Kpi (''Redemptions '' @ [CHR 0xB7] @ '' 30d'')
                           [Text (locale_text h (get data ''redemptions_30d''))]
                           (if se_env ss = ''test'' then ''all on testnet'' else []) False [],
                         Kpi ''Active campaigns'' [Text (shown (get data ''active_campaigns''))]
                           (if se_env ss = ''test'' then ''test campaigns'' else []) False []]
                          @
                          (if se_env ss = ''test'' then
                             [El ''div'' [(''className'', Val ''card''),
                                          (''style'',
                                           Sty [(''padding'', ''16px 18px 14px''),
                                                (''borderColor'',
                                                 
                                                   ''color-mix(in oklch, var(--pending) 30%, var(--line))'')])]
                                [El ''div'' [(''style'',
                                              Sty [(''fontSize'', ''12.5''), (''fontWeight'', ''600''),
                                                   (''color'', ''var(--ink-2)'')])]
                                   [Text ''Credits balance''],
                                 El ''div'' [(''className'', Val ''mono''),
                                             (''style'',
                                              Sty [(''fontSize'', ''28''), (''fontWeight'', ''600''),
                                                   (''marginTop'', ''9''),
                                                   (''color'', ''var(--pending)'')])] [Text ''Free''],
                                 El ''div'' [(''style'',
                                              Sty [(''fontSize'', ''12''),
                                                   (''color'', ''var(--ink-3)''),
                                                   (''marginTop'', ''3'')])]
                                   [Text ''test mode is never metered'']]] else
                             [Kpi ''Credits balance''
                                [Text (fmtCr h (nullish_or (get data ''credits_mcr'') (JNum (Fin 0)))),
                                 Text '' '',
                                 El ''span'' [(''style'',
                                               Sty [(''fontSize'', ''14''),
                                                    (''color'', ''var(--ink-3)''),
                                                    (''fontWeight'', ''500'')])] [Text ''cr'']]
                                ''25,000 cr free each month'' True []])
                          @
                          [Kpi ''Settled to creators''
                             [Text (fmtUnits h (get data ''settled_total_base_units'')),
                              Text '' '',
                              El ''span'' [(''style'',
                                            Sty [(''fontSize'', ''17''),
                                                 (''color'', ''var(--ink-3)'')])]
                                [Text (shown (get data ''settled_unit''))]] [] False []])]
                    @
                    (if is_first_run data then
                       [Checklist data,
                        El ''div'' [(''className'', Val ''empty'')]
                          [El ''div'' [(''className'', Val ''mono''),
                                       (''style'',
                                        Sty [(''fontSize'', ''12.5''), (''color'', ''var(--ink-3)'')])]
                             [Text (''Activity will appear here in real time ''
                                      @ [CHR 0x97]
                                      @ '' every event with its transaction link.'')]]] else
                       [El ''div'' [(''style'',
                                     Sty [(''display'', ''grid''),
                                          (''gridTemplateColumns'', ''1.55fr 1fr''), (''gap'', ''14''),
                                          (''alignItems'', ''stretch'')])]
                          [El ''div'' [(''className'', Val ''card''),
                                       (''style'',
                                        Sty [(''padding'', ''20px 22px''), (''display'', ''flex''),
                                             (''flexDirection'', ''column''), (''gap'', ''14'')])]
                             ([El ''div'' [(''style'',
                                            Sty [(''display'', ''flex''),
                                                 (''alignItems'', ''baseline''),
                                                 (''justifyContent'', ''space-between'')])]
                                 [El ''div'' [(''style'',
                                               Sty [(''fontSize'', ''14''), (''fontWeight'', ''650'')])]
                                    [Text ''Redemptions over time''],
                                  El ''span'' [(''className'', Val ''mono''),
                                               (''style'',
                                                Sty [(''fontSize'', ''11.5''),
                                                     (''color'', ''var(--ink-3)'')])]
                                    [Text (date_at (items (get data ''series'')) 0),
                                     Text ('' '' @ [CHR 0x97] @ '' ''),
                                     Text (date_at (items (get data ''series''))
                                             (length (items (get data ''series'')) - 1))]]]
                                @ chart),
                           El ''div'' [(''className'', Val ''card''),
                                       (''style'',
                                        Sty [(''padding'', ''20px 0 8px''), (''display'', ''flex''),
                                             (''flexDirection'', ''column'')])]
                             ([El ''div'' [(''style'',
                                            Sty [(''display'', ''flex''),
                                                 (''alignItems'', ''baseline''),
                                                 (''justifyContent'', ''space-between''),
                                                 (''padding'', ''0 22px 12px'')])]
                                 [El ''div'' [(''style'',
                                               Sty [(''fontSize'', ''14''), (''fontWeight'', ''650'')])]
                                    [Text ''Activity''],
                                  El ''span'' [(''style'',
                                                Sty [(''fontSize'', ''12''), (''fontWeight'', ''600''),
                                                     (''color'', ''var(--ink-2)''),
                                                     (''cursor'', ''pointer'')]),
                                               (''onClick'', On (OvNav ''/redemptions''))]
                                    [Text ''View all'']]]
                                @ (map (ActivityRow h) (items (get data ''activity''))))]]))))))\<close>

section \<open>The contract of a page\<close>

lemma overview_sends: "disciplined h (overview_run h e)" "disciplined h (overview_effect h)" "disciplined h (overview_load h)"
  by (cases e; simp add: overview_run_def; intro sends_intros)
    (unfold overview_effect_def overview_load_def, (intro sends_intros)+)

interpretation overview_page: page h "overview_run h" "overview_effect h" for h
  by unfold_locales (rule overview_sends)+

end
