(* ===== verification/Console_Wizard.thy ===== *)
theory Console_Wizard
  imports Console_Sends
begin

text \<open>
  The three-step wizard that creates a campaign or a loyalty program
  (\<open>cloud/console/src/pages/Campaigns.jsx\<close>). The pages that show it keep its state; they give the wizard
  a way to set it and the callback \<open>onDone\<close>. The clock is an argument, in milliseconds.
\<close>

section \<open>The six faces\<close>

record face =
  fc_kind :: string
  fc_name :: string
  fc_desc :: string
  fc_example :: string

definition FACES :: "face list" where
  \<open>FACES =
     [\<lparr>fc_kind = ''coupon'', fc_name = ''General coupon'',
       fc_desc = (''One shared code, redeemed by many '' @ [CHR 0x97] @ '' signed events are anchored by period.''),
       fc_example = ''10OFF''\<rparr>,
      \<lparr>fc_kind = ''creator'', fc_name = ''Creator / referral code'',
       fc_desc = ''A shared code with an exact attributed period count and optional token payout.'',
       fc_example = ''PEDROPROMO10''\<rparr>,
      \<lparr>fc_kind = ''gift'', fc_name = ''Gift / delivery proof'',
       fc_desc = (''Prove a gifted product reached real customers '' @ [CHR 0x97] @ '' one code per venue, scan per serving, optional payout per verified event.''),
       fc_example = ''COPA-ROSALES''\<rparr>,
      \<lparr>fc_kind = ''voucher'', fc_name = ''Unique vouchers'',
       fc_desc = (''Issued in batches; each code works exactly once, then it'' @ [CHR 0x27] @ ''s gone.''),
       fc_example = ''A7K9-QX2M''\<rparr>,
      \<lparr>fc_kind = ''ticket'', fc_name = ''Event tickets'',
       fc_desc = (''Unique codes burned at the door '' @ [CHR 0x97] @ '' real-time single-use check-in.''),
       fc_example = ''TICKET-0042''\<rparr>,
      \<lparr>fc_kind = ''loyalty'', fc_name = ''Loyalty program'',
       fc_desc = ''Signed punches can be anchored by period; thresholds auto-issue a reward voucher.'',
       fc_example = (''10 '' @ [CHR 0x8F] @ '' 1 free'')\<rparr>]\<close>

definition face_icon :: \<open>string \<Rightarrow> (string \<times> 'e attr) list \<Rightarrow> 'e html\<close> where \<comment> \<open>the field \<open>icon\<close> of a face\<close>
  \<open>face_icon kind props =
     (if kind = ''coupon'' then El ''svg'' ([(''viewBox'', Val ''0 0 24 24''), (''fill'', Val ''none''),
                                             (''stroke'', Val ''currentColor''),
                                             (''strokeWidth'', Val ''1.8''),
                                             (''strokeLinecap'', Val ''round''),
                                             (''strokeLinejoin'', Val ''round''),
                                             (''width'', Val ''21''), (''height'', Val ''21'')]
                                              @ props)
        [El ''circle'' [(''cx'', Val ''12''), (''cy'', Val ''12''), (''r'', Val ''9'')] [],
         El ''path'' [(''d'', Val ''M3 12h18M12 3a14 14 0 0 1 0 18M12 3a14 14 0 0 0 0 18'')] []] else
        (if kind = ''creator'' then Ic_c ''users'' props else
           (if kind = ''gift'' then El ''svg'' ([(''viewBox'', Val ''0 0 24 24''),
                                                 (''fill'', Val ''none''),
                                                 (''stroke'', Val ''currentColor''),
                                                 (''strokeWidth'', Val ''1.8''),
                                                 (''strokeLinecap'', Val ''round''),
                                                 (''strokeLinejoin'', Val ''round''),
                                                 (''width'', Val ''21''), (''height'', Val ''21'')]
                                                  @ props)
              [El ''rect'' [(''x'', Val ''4''), (''y'', Val ''10''), (''width'', Val ''16''),
                            (''height'', Val ''10''), (''rx'', Val ''1.6'')] [],
               El ''path'' [(''d'', Val ''M4 14.2h16M12 10v10'')] [],
               El ''path'' [(''d'',
                             Val
                               ''M12 10c-4.1 0-4.7-4.5-1.6-4.5C12.4 5.5 12 10 12 10zm0 0c4.1 0 4.7-4.5 1.6-4.5C11.6 5.5 12 10 12 10z'')]
                 []] else
              (if kind = ''voucher'' then Ic_c ''coupon'' props else
                 (if kind = ''ticket'' then El ''svg'' ([(''viewBox'', Val ''0 0 24 24''),
                                                         (''fill'', Val ''none''),
                                                         (''stroke'', Val ''currentColor''),
                                                         (''strokeWidth'', Val ''1.8''),
                                                         (''strokeLinecap'', Val ''round''),
                                                         (''strokeLinejoin'', Val ''round''),
                                                         (''width'', Val ''21''),
                                                         (''height'', Val ''21'')]
                                                          @ props)
                    [El ''rect'' [(''x'', Val ''4''), (''y'', Val ''4''), (''width'', Val ''6''),
                                  (''height'', Val ''6''), (''rx'', Val ''1.2'')] [],
                     El ''rect'' [(''x'', Val ''14''), (''y'', Val ''4''), (''width'', Val ''6''),
                                  (''height'', Val ''6''), (''rx'', Val ''1.2'')] [],
                     El ''rect'' [(''x'', Val ''4''), (''y'', Val ''14''), (''width'', Val ''6''),
                                  (''height'', Val ''6''), (''rx'', Val ''1.2'')] [],
                     El ''path'' [(''d'', Val ''M14 14h2.6v2.6H14zM17.4 17.4H20V20h-2.6z'')] []] else El
                    ''svg'' ([(''viewBox'', Val ''0 0 24 24''), (''fill'', Val ''none''),
                              (''stroke'', Val ''currentColor''), (''strokeWidth'', Val ''1.8''),
                              (''strokeLinecap'', Val ''round''), (''strokeLinejoin'', Val ''round''),
                              (''width'', Val ''21''), (''height'', Val ''21'')]
                               @ props)
                    [El ''rect'' [(''x'', Val ''3.5''), (''y'', Val ''6''), (''width'', Val ''17''),
                                  (''height'', Val ''12''), (''rx'', Val ''2.5'')] [],
                     El ''circle'' [(''cx'', Val ''8''), (''cy'', Val ''12''), (''r'', Val ''1''),
                                    (''fill'', Val ''currentColor'')] [],
                     El ''circle'' [(''cx'', Val ''12''), (''cy'', Val ''12''), (''r'', Val ''1''),
                                    (''fill'', Val ''currentColor'')] [],
                     El ''circle'' [(''cx'', Val ''16''), (''cy'', Val ''12''), (''r'', Val ''1''),
                                    (''strokeDasharray'', Val ''1.5 1.5'')] []])))))\<close>

section \<open>State\<close>

datatype wfield = WfName | WfCode | WfAttributed | WfRate | WfDiscountType | WfDiscountValue | WfSupply
  | WfMonths | WfThreshold | WfRewardType | WfRewardValue

record wizard =
  wz_fixed :: "string option" \<comment> \<open>\<open>fixedKind\<close>\<close>
  wz_step :: nat
  wz_kind :: string
  wz_busy :: bool
  wz_err :: "jserr option"
  wz_f :: "wfield \<Rightarrow> string"

fun form_init :: "wfield \<Rightarrow> string" where
  "form_init WfName = []"
| "form_init WfCode = []"
| "form_init WfAttributed = []"
| "form_init WfRate = ''0.25''"
| "form_init WfDiscountType = ''percentage''"
| "form_init WfDiscountValue = ''10''"
| "form_init WfSupply = ''100''"
| "form_init WfMonths = ''12''"
| "form_init WfThreshold = ''10''"
| "form_init WfRewardType = ''free_item''"
| "form_init WfRewardValue = ''1''"

definition wizard_init :: "string option \<Rightarrow> wizard" where
  "wizard_init fixedKind =
     \<lparr>wz_fixed = fixedKind, wz_step = (case fixedKind of Some _ \<Rightarrow> 2 | None \<Rightarrow> 1),
      wz_kind = (case fixedKind of Some k \<Rightarrow> k | None \<Rightarrow> ''creator''), wz_busy = False, wz_err = None,
      wz_f = form_init\<rparr>"

datatype wizard_ev = WzKind string | WzStep nat | WzField wfield string | WzCode string | WzCreate | WzClose

definition face_of :: "string \<Rightarrow> face" where \<comment> \<open>\<open>FACES.find\<close>; the kind is always one of them\<close>
  "face_of kind = (case find (\<lambda>x. fc_kind x = kind) FACES of Some x \<Rightarrow> x | None \<Rightarrow> hd FACES)"

definition isShared :: "string \<Rightarrow> bool" where
  "isShared kind \<longleftrightarrow> kind = ''coupon'' \<or> kind = ''creator'' \<or> kind = ''gift''"

definition cost :: "string \<Rightarrow> int" where
  "cost kind =
     (if kind = ''creator'' \<or> kind = ''loyalty'' then 30
      else if kind = ''coupon'' \<or> kind = ''gift'' then 30 else 20)"

definition cost_lines :: "string \<Rightarrow> (string \<times> string) list" where \<comment> \<open>\<open>What this costs\<close>\<close>
  "cost_lines kind =
     [(''Create campaign'', ''20 cr'')]
     @ (if isShared kind
        then [(''Register shared code'', ''10 cr''), (''Recorded event'', ''0.2 cr''),
              (''Commit tally'', ''15 cr / period'')] else [])
     @ (if kind = ''creator'' \<or> kind = ''gift'' then [(''Settle period'', ''25 cr'')] else [])
     @ (if kind = ''loyalty''
        then [(''Register earn anchor'', ''10 cr''), (''Punch'', ''0.2 cr''), (''Reward voucher'', ''2 cr'')] else [])
     @ (if \<not> isShared kind \<and> kind \<noteq> ''loyalty''
        then [(''Issue unique code'', ''2 cr / code''), (''Redeem'', ''5 cr'')] else [])"

section \<open>Creating\<close>

definition safe_int :: "jnum \<Rightarrow> bool" where \<comment> \<open>\<open>Number.isSafeInteger\<close>\<close>
  "safe_int n = (case n of Fin r \<Rightarrow> integral r \<and> \<bar>r\<bar> < 2 ^ 53 | _ \<Rightarrow> False)"

definition program_name :: "wizard \<Rightarrow> string" where
  "program_name w = (if trim (wz_f w WfName) = [] then ''Loyalty program'' else trim (wz_f w WfName))"

definition program_body :: "wizard \<Rightarrow> jval js" where \<comment> \<open>what a loyalty program posts\<close>
  "program_body w =
     (let threshold = to_number (wz_f w WfThreshold); rewardValue = to_number (wz_f w WfRewardValue) in
      if \<not> safe_int threshold \<or> jless threshold (Fin 1) \<or> jless (Fin 1000000) threshold
      then Inl (RangeError ''Punch threshold must be an integer between 1 and 1,000,000.'')
      else if \<not> safe_int rewardValue \<or> jless rewardValue (Fin 0)
      then Inl (RangeError ''Reward value must be a non-negative safe integer.'')
      else Inr (JObj [(''name'', JStr (program_name w)), (''threshold'', JNum threshold),
             (''reward_discount_type'', JStr (wz_f w WfRewardType)),
             (''reward_discount_value'', JNum rewardValue)]))"

definition attributes :: "wizard \<Rightarrow> bool" where
  "attributes w \<longleftrightarrow> wz_kind w = ''creator'' \<or> wz_kind w = ''gift'' \<and> trim (wz_f w WfAttributed) \<noteq> []"

definition payout_rate :: "wizard \<Rightarrow> string js" where
  "payout_rate w =
     (if attributes w \<and> wz_f w WfRate \<noteq> [] then decimalToBaseUnits (JStr (wz_f w WfRate)) 7 else Inr ''0'')"

definition campaign_name :: "wizard \<Rightarrow> string" where
  "campaign_name w =
     (if wz_f w WfName \<noteq> [] then wz_f w WfName
      else if isShared (wz_kind w) then wz_f w WfCode else ''Campaign'')"

definition valid_until :: "int \<Rightarrow> wizard \<Rightarrow> jnum" where
  "valid_until now w =
     jadd (num (now div 1000)) (jmul (jmul (num_or (to_number (wz_f w WfMonths)) (Fin 12)) (Fin 30)) (Fin 86400))"

definition campaign_body :: "int \<Rightarrow> wizard \<Rightarrow> jval js" where \<comment> \<open>what a campaign posts\<close>
  "campaign_body now w =
     bindR (payout_rate w) (\<lambda>rate.
     Inr (JObj [(''kind'', JStr (wz_kind w)), (''name'', JStr (campaign_name w)),
       (''discount_type'', JStr (wz_f w WfDiscountType)),
       (''discount_value'', JNum (num_or (to_number (wz_f w WfDiscountValue)) (Fin 0))),
       (''total_supply'', JNum (if isShared (wz_kind w) then Fin 0 else num_or (to_number (wz_f w WfSupply)) (Fin 100))),
       (''valid_until'', JNum (valid_until now w)),
       (''shared'',
         if isShared (wz_kind w)
         then JObj [(''code'', JStr (wz_f w WfCode)),
                (''attributed_to'', JStr (if attributes w then trim (wz_f w WfAttributed) else [])),
                (''payout_rate'', JStr rate)]
         else JUndef)]))"

definition program_toast :: "'w console \<Rightarrow> wizard \<Rightarrow> jval \<Rightarrow> (('w, 'p) on_visit, unit) io" where
  "program_toast h w r =
     bindIO (read_field r ''program'') (\<lambda>p.
     bindIO (read_field p ''earn_code'') (\<lambda>code.
     pop_up h ''Program created'' (program_name w @ '' '' @ [CHR 0xB7] @ '' earn anchor '' @ js_String code
       @ '' registered on-chain.'') ''success''))"

definition campaign_toast :: "'w console \<Rightarrow> wizard \<Rightarrow> jval \<Rightarrow> (('w, 'p) on_visit, unit) io" where
  "campaign_toast h w c =
     bindIO (read_field c ''name'') (\<lambda>name.
     pop_up h ''Campaign created'' (js_String name @ '' was created on the testnet contract''
       @ (if isShared (wz_kind w) then '' '' @ [CHR 0xB7] @ '' '' @ js_String (get c ''shared_code'') @ '' registered'' else [])
       @ ''.'') ''success'')"

definition wizard_create ::
  "'w console \<Rightarrow> int \<Rightarrow> ((wizard \<Rightarrow> wizard) \<Rightarrow> 'p \<Rightarrow> 'p) \<Rightarrow> (jval \<Rightarrow> (('w, 'p) on_visit, unit) io)
   \<Rightarrow> wizard \<Rightarrow> (('w, 'p) on_visit, unit) io" where \<comment> \<open>\<open>create\<close>\<close>
  "wizard_create h now upd onDone w =
     bindIO (on_page (upd (\<lambda>x. x\<lparr>wz_busy := True, wz_err := None\<rparr>))) (\<lambda>_.
     catchIO
       (if wz_kind w = ''loyalty''
        then bindIO (liftIO (program_body w)) (\<lambda>body.
             bindIO (keyed_post h ''/v1/loyalty/programs'' body) (\<lambda>r.
             bindIO (program_toast h w r) (\<lambda>_.
             bindIO (onDone JNull) (\<lambda>_. in_visit (nav ''/loyalty'')))))
        else bindIO (liftIO (campaign_body now w)) (\<lambda>body.
             bindIO (keyed_post h ''/v1/campaigns'' body) (\<lambda>c.
             bindIO (campaign_toast h w c) (\<lambda>_. onDone c))))
       (\<lambda>e. on_page (upd (\<lambda>x. x\<lparr>wz_err := Some e, wz_busy := False\<rparr>))))"

definition wizard_run ::
  "'w console \<Rightarrow> int \<Rightarrow> ((wizard \<Rightarrow> wizard) \<Rightarrow> 'p \<Rightarrow> 'p) \<Rightarrow> (jval \<Rightarrow> (('w, 'p) on_visit, unit) io)
   \<Rightarrow> wizard option \<Rightarrow> wizard_ev \<Rightarrow> (('w, 'p) on_visit, unit) io" where
  "wizard_run h now upd onDone wz e =
     (case (e, wz) of
        (WzKind k, _) \<Rightarrow> on_page (upd (\<lambda>x. x\<lparr>wz_kind := k\<rparr>))
      | (WzStep n, _) \<Rightarrow> on_page (upd (\<lambda>x. x\<lparr>wz_step := n\<rparr>))
      | (WzField fd v, _) \<Rightarrow> on_page (upd (\<lambda>x. x\<lparr>wz_f := (wz_f x)(fd := v)\<rparr>))
      | (WzCode v, _) \<Rightarrow> on_page (upd (\<lambda>x. x\<lparr>wz_f := (wz_f x)(WfCode := toUpperCase v)\<rparr>))
      | (WzClose, Some w) \<Rightarrow> onDone JNull
      | (WzCreate, Some w) \<Rightarrow> wizard_create h now upd onDone w
      | _ \<Rightarrow> returnIO ())"

section \<open>Elements\<close>

definition stepDot :: \<open>nat \<Rightarrow> nat \<Rightarrow> string \<Rightarrow> 'e html\<close> where
  \<open>stepDot stp n label =
     (let dn = n < stp;
          act = (stp = n)
      in El ''span'' [(''style'',
                       Sty [(''display'', ''inline-flex''), (''alignItems'', ''center''),
                            (''gap'', ''8'')])]
           ((if dn then
               [El ''span'' [(''style'',
                              Sty [(''width'', ''22''), (''height'', ''22''),
                                   (''borderRadius'', ''999''), (''background'', ''var(--accent)''),
                                   (''color'', ''var(--on-accent)''), (''display'', ''grid''),
                                   (''placeItems'', ''center'')])]
                  [Ic_c ''check'' [(''width'', Val ''12''), (''height'', Val ''12'')]]] else
               [El ''span'' [(''className'', Val ''mono''),
                             (''style'',
                              Sty ([(''width'', ''22''), (''height'', ''22''),
                                    (''borderRadius'', ''999''), (''display'', ''grid''),
                                    (''placeItems'', ''center''), (''fontSize'', ''11''),
                                    (''fontWeight'', ''600'')]
                                     @ (if act then [(''background'', ''var(--ink)''),
                                                     (''color'', ''var(--bg)'')] else
                                          [(''border'', ''1px dashed var(--line-2)''),
                                           (''color'', ''var(--ink-3)'')])))] [Text (dec (int n))]])
              @
              [El ''span'' [(''style'',
                             Sty [(''fontSize'', ''13''),
                                  (''fontWeight'', (if act then ''650'' else ''600'')),
                                  (''color'',
                                   (if act then ''var(--ink)'' else if dn then ''var(--ink-2)'' else
                                      ''var(--ink-3)''))])] [Text label]]))\<close>

definition wizard_step1 :: \<open>wizard \<Rightarrow> wizard_ev html\<close> where
  \<open>wizard_step1 w =
     El ''div'' [(''style'',
                  Sty [(''width'', ''860''), (''maxWidth'', ''100%''), (''display'', ''flex''),
                       (''flexDirection'', ''column''), (''gap'', ''22'')])]
       [El ''div'' []
          [El ''h1'' [(''className'', Val ''display''),
                      (''style'', Sty [(''fontSize'', ''30''), (''margin'', ''0'')])]
             [Text ''What do you want to run?''],
           El ''p'' [(''style'',
                      Sty [(''fontSize'', ''14''), (''color'', ''var(--ink-2)''),
                           (''margin'', ''6px 0 0'')])]
             [Text (''One primitive under the hood ''
                      @ [CHR 0x97]
                      @ '' pick how it should behave. The kind can''
                      @ [CHR 0x27]
                      @ ''t change later.'')]],
        El ''div'' [(''style'',
                     Sty [(''display'', ''flex''), (''flexDirection'', ''column''), (''gap'', ''12'')])]
          (concat (map (\<lambda>fc.
                          [El ''button'' [(''onClick'', On (WzKind (fc_kind fc))),
                                          (''style'',
                                           Sty [(''display'', ''flex''), (''alignItems'', ''center''),
                                                (''textAlign'', ''left''),
                                                (''background'', ''var(--surface)''),
                                                (''border'',
                                                 (if wz_kind w = fc_kind fc then
                                                    ''1px solid var(--ink)'' else
                                                    ''1px solid var(--line)'')),
                                                (''borderRadius'', ''14''),
                                                (''boxShadow'',
                                                 (if wz_kind w = fc_kind fc then
                                                    ''0 0 0 3px color-mix(in oklch, var(--accent) 45%, transparent), var(--shadow)''
                                                    else ''var(--shadow-sm)'')),
                                                (''padding'', ''16px 20px''), (''gap'', ''18''),
                                                (''cursor'', ''pointer'')])]
                             [El ''div'' [(''style'',
                                           Sty [(''width'', ''44''), (''height'', ''44''),
                                                (''flex'', ''none''), (''borderRadius'', ''12''),
                                                (''background'',
                                                 (if wz_kind w = fc_kind fc then ''var(--accent)'' else
                                                    ''var(--surface-inset)'')), (''display'', ''grid''),
                                                (''placeItems'', ''center''),
                                                (''color'',
                                                 (if wz_kind w = fc_kind fc then ''var(--on-accent)''
                                                    else ''var(--ink-2)''))])]
                                [face_icon (fc_kind fc) [(''width'', Val ''21''),
                                                         (''height'', Val ''21'')]],
                              El ''div'' [(''style'', Sty [(''flex'', ''1'')])]
                                [El ''div'' [(''style'',
                                              Sty [(''fontSize'', ''15''), (''fontWeight'', ''650'')])]
                                   [Text (fc_name fc)],
                                 El ''div'' [(''style'',
                                              Sty [(''fontSize'', ''13''),
                                                   (''color'', ''var(--ink-2)'')])]
                                   [Text (fc_desc fc)]],
                              El ''span'' [(''className'', Val ''mono''),
                                           (''style'',
                                            Sty [(''fontSize'', ''12.5''),
                                                 (''background'',
                                                  (if wz_kind w = fc_kind fc then ''var(--accent-wash)''
                                                     else ''var(--surface-inset)'')),
                                                 (''border'',
                                                  (''1px dashed ''
                                                     @ (if wz_kind w = fc_kind fc then
                                                          ''var(--accent-2)'' else ''var(--line-2)''))),
                                                 (''borderRadius'', ''8''),
                                                 (''padding'', ''4px 10px'')])] [Text (fc_example fc)],
                              El ''span'' [(''style'',
                                            Sty ([(''width'', ''20''), (''height'', ''20''),
                                                  (''borderRadius'', ''999''), (''flex'', ''none'')]
                                                   @ (if wz_kind w = fc_kind fc then
                                                        [(''border'', ''6px solid var(--ink)''),
                                                         (''background'', ''var(--accent)'')] else
                                                        [(''border'',
                                                          ''1.5px solid var(--line-2)'')])))] []]])
                     FACES)),
        El ''div'' [(''style'',
                     Sty [(''display'', ''flex''), (''justifyContent'', ''space-between''),
                          (''alignItems'', ''center'')])]
          [El ''span'' [(''className'', Val ''mono''),
                        (''style'', Sty [(''fontSize'', ''11.5''), (''color'', ''var(--ink-3)'')])]
             [Text ''Step 1 of 3''],
           BtnPrimary [Text ''Continue''] (WzStep 2) False False [] False []]]\<close>

definition wizard_step2 :: \<open>string \<Rightarrow> wizard \<Rightarrow> wizard_ev html\<close> where
  \<open>wizard_step2 env w =
     (let fc = face_of (wz_kind w) in El ''div'' [(''style'',
                                                   Sty [(''width'', ''980''), (''maxWidth'', ''100%''),
                                                        (''display'', ''flex''), (''gap'', ''24''),
                                                        (''alignItems'', ''flex-start'')])]
        [El ''div'' [(''style'',
                      Sty [(''flex'', ''1''), (''display'', ''flex''), (''flexDirection'', ''column''),
                           (''gap'', ''20'')])]
           [El ''div'' []
              [El ''div'' [(''style'',
                            Sty [(''display'', ''flex''), (''alignItems'', ''center''),
                                 (''gap'', ''10'')])]
                 [El ''h1'' [(''className'', Val ''display''),
                             (''style'', Sty [(''fontSize'', ''30''), (''margin'', ''0'')])]
                    [Text (fc_name fc)],
                  El ''span'' [(''className'', Val ''authtag'')]
                    [Text (if isShared (wz_kind w) then (if wz_kind w = ''creator'' then ''shared ''
                                                           @ [CHR 0xB7]
                                                           @ '' attributed'' else if wz_kind w =
                                                           ''gift'' then ''shared ''
                                                           @ [CHR 0xB7]
                                                           @ '' delivery proof'' else ''shared'') else
                             if wz_kind w = ''loyalty'' then ''earn + reward'' else ''unique ''
                             @ [CHR 0xB7]
                             @ '' single-use'')]],
               El ''p'' [(''style'',
                          Sty [(''fontSize'', ''14''), (''color'', ''var(--ink-2)''),
                               (''margin'', ''6px 0 0'')])] [Text (fc_desc fc)]],
            El ''div'' [(''className'', Val ''card''),
                        (''style'',
                         Sty [(''padding'', ''24''), (''display'', ''flex''),
                              (''flexDirection'', ''column''), (''gap'', ''18'')])]
              ([El ''div'' [(''className'', Val ''field'')]
                  [El ''label'' []
                     [Text ''Campaign name '',
                      El ''span'' [(''className'', Val ''req'')] [Text ''*'']],
                   El ''input'' [(''className'', Val ''input''), (''value'', Val (wz_f w WfName)),
                                 (''onChange'', OnV (WzField WfName)),
                                 (''placeholder'',
                                  Val (if wz_kind w = ''loyalty'' then ''Cafetero Frecuente'' else if
                                         wz_kind w = ''ticket'' then ''Noche de Jazz'' else
                                         ''Summer promo'')), (''autoFocus'', Flag True)] []]]
                 @
                 (if isShared (wz_kind w) then
                    [El ''div'' [(''className'', Val ''field'')]
                       [El ''label'' []
                          [Text ''The code '',
                           El ''span'' [(''className'', Val ''req'')] [Text ''*'']],
                        El ''input'' [(''className'', Val ''input mono''),
                                      (''value'', Val (wz_f w WfCode)), (''onChange'', OnV WzCode),
                                      (''placeholder'', Val (fc_example fc))] [],
                        El ''span'' [(''className'', Val ''help'')]
                          [Text (''1''
                                   @ [CHR 0x96]
                                   @
                                   ''64 UTF-8 bytes, unique in this campaign. This is what customers type at checkout.'')]]]
                    @
                    (if wz_kind w = ''creator'' then
                       [El ''div'' [(''className'', Val ''field'')]
                          [El ''label'' []
                             [Text (''Creator'' @ [CHR 0x27] @ ''s Stellar address ''),
                              El ''span'' [(''className'', Val ''req'')] [Text ''*'']],
                           El ''input'' [(''className'', Val ''input mono''),
                                         (''value'', Val (wz_f w WfAttributed)),
                                         (''onChange'', OnV (WzField WfAttributed)),
                                         (''placeholder'', Val (''G'' @ [CHR 0x85]))] [],
                           El ''span'' [(''className'', Val ''help'')]
                             [Text
                                ''Attribution is bound to this address. The creator can verify published receipts and committed totals outside this dashboard; the receipt signer still attests that each event occurred.'']],
                        El ''div'' [(''style'',
                                     Sty [(''display'', ''grid''),
                                          (''gridTemplateColumns'', ''1fr 1fr''), (''gap'', ''16'')])]
                          [El ''div'' [(''className'', Val ''field'')]
                             [El ''label'' [] [Text ''Payout token''],
                              El ''select'' [(''className'', Val ''select mono''),
                                             (''style'', Sty [(''fontSize'', ''13.5'')])]
                                [El ''option'' []
                                   [Text (''XLM '' @ [CHR 0xB7] @ '' legacy testnet preview'')]]],
                           El ''div'' [(''className'', Val ''field'')]
                             [El ''label'' [] [Text ''Rate per redemption''],
                              El ''input'' [(''className'', Val ''input mono''),
                                            (''value'', Val (wz_f w WfRate)),
                                            (''onChange'', OnV (WzField WfRate))] [],
                              El ''span'' [(''className'', Val ''help'')]
                                [Text (''XLM amount ''
                                         @ [CHR 0xB7]
                                         @ '' up to 7 decimal places in this testnet preview.'')]]],
                        El ''div'' [(''style'',
                                     Sty [(''background'', ''var(--pending-bg)''),
                                          (''border'',
                                           
                                             ''1px solid color-mix(in oklch, var(--pending) 26%, transparent)''),
                                          (''borderRadius'', ''12''), (''padding'', ''13px 15px''),
                                          (''display'', ''flex''), (''gap'', ''11'')])]
                          [Ic_c ''lock'' [(''width'', Val ''17''), (''height'', Val ''17''),
                                        (''style'',
                                         Sty [(''flex'', ''none''), (''marginTop'', ''1''),
                                              (''color'', ''var(--pending)'')])],
                           El ''p'' [(''style'',
                                      Sty [(''fontSize'', ''13''), (''color'', ''var(--pending)''),
                                           (''lineHeight'', ''1.5''), (''margin'', ''0'')])]
                             [El ''strong'' [] [Text ''Payout terms are immutable after creation.''],
                              Text ('' The creator can verify them on-chain before promoting the code ''
                                      @ [CHR 0x97]
                                      @ '' that''
                                      @ [CHR 0x27]
                                      @ ''s the point.'')]]] else [])
                    @
                    (if wz_kind w = ''gift'' then
                       [El ''div'' [(''className'', Val ''field'')]
                          [El ''label'' []
                             [Text (''Venue'' @ [CHR 0x27] @ ''s Stellar address ''),
                              El ''span'' [(''style'',
                                            Sty [(''color'', ''var(--ink-3)''),
                                                 (''fontWeight'', ''500'')])] [Text ''(optional)'']],
                           El ''input'' [(''className'', Val ''input mono''),
                                         (''value'', Val (wz_f w WfAttributed)),
                                         (''onChange'', OnV (WzField WfAttributed)),
                                         (''placeholder'', Val (''G'' @ [CHR 0x85]))] [],
                           El ''span'' [(''className'', Val ''help'')]
                             [Text
                                ''The delivery point that received the gift (a restaurant, a shop). Attributing it binds every verified scan to this address; add more venue codes to the campaign after creation.'']]]
                       @
                       (if trim (wz_f w WfAttributed) \<noteq> [] then
                          [El ''div'' [(''style'',
                                        Sty [(''display'', ''grid''),
                                             (''gridTemplateColumns'', ''1fr 1fr''),
                                             (''gap'', ''16'')])]
                             [El ''div'' [(''className'', Val ''field'')]
                                [El ''label'' [] [Text ''Payout token''],
                                 El ''select'' [(''className'', Val ''select mono''),
                                                (''style'', Sty [(''fontSize'', ''13.5'')])]
                                   [El ''option'' []
                                      [Text (''XLM '' @ [CHR 0xB7] @ '' testnet preview'')]]],
                              El ''div'' [(''className'', Val ''field'')]
                                [El ''label'' [] [Text ''Rate per verified serving''],
                                 El ''input'' [(''className'', Val ''input mono''),
                                               (''value'', Val (wz_f w WfRate)),
                                               (''onChange'', OnV (WzField WfRate))] [],
                                 El ''span'' [(''className'', Val ''help'')]
                                   [Text
                                      ''Optional incentive: the venue gets paid per verified scan at settlement. 0 disables payout.'']]]]
                          else [])
                       @
                       [El ''div'' [(''style'',
                                     Sty [(''background'', ''var(--pending-bg)''),
                                          (''border'',
                                           
                                             ''1px solid color-mix(in oklch, var(--pending) 26%, transparent)''),
                                          (''borderRadius'', ''12''), (''padding'', ''13px 15px''),
                                          (''display'', ''flex''), (''gap'', ''11'')])]
                          [Ic_c ''lock'' [(''width'', Val ''17''), (''height'', Val ''17''),
                                        (''style'',
                                         Sty [(''flex'', ''none''), (''marginTop'', ''1''),
                                              (''color'', ''var(--pending)'')])],
                           El ''p'' [(''style'',
                                      Sty [(''fontSize'', ''13''), (''color'', ''var(--pending)''),
                                           (''lineHeight'', ''1.5''), (''margin'', ''0'')])]
                             [El ''strong'' [] [Text ''Scans prove attestation, not consumption.''],
                              Text (
                                      '' Signed receipts and the anchored tally make the scan set tamper-evident; detecting abuse (one phone scanning everything) is your integration''
                                      @ [CHR 0x27]
                                      @ ''s job ''
                                      @ [CHR 0x97]
                                      @ '' Soroticket gives you the customer commitments to do it.'')]]]
                       else []) else [])
                 @
                 (if wz_kind w = ''loyalty'' then
                    [El ''div'' [(''style'',
                                  Sty [(''display'', ''grid''),
                                       (''gridTemplateColumns'', ''1fr 1fr 1fr''), (''gap'', ''16'')])]
                       [El ''div'' [(''className'', Val ''field'')]
                          [El ''label'' [] [Text ''Punches to reward''],
                           El ''input'' [(''className'', Val ''input mono''),
                                         (''value'', Val (wz_f w WfThreshold)),
                                         (''onChange'', OnV (WzField WfThreshold))] [],
                           El ''span'' [(''className'', Val ''help'')]
                             [Text (''e.g. 10 ''
                                      @ [CHR 0x8F]
                                      @ '' the 10th punch auto-issues the voucher.'')]],
                        El ''div'' [(''className'', Val ''field'')]
                          [El ''label'' [] [Text ''Reward type''],
                           El ''select'' [(''className'', Val ''select mono''),
                                          (''value'', Val (wz_f w WfRewardType)),
                                          (''onChange'', OnV (WzField WfRewardType))]
                             [El ''option'' [(''value'', Val ''free_item'')] [Text ''free_item''],
                              El ''option'' [(''value'', Val ''percentage'')] [Text ''percentage''],
                              El ''option'' [(''value'', Val ''fixed_amount'')]
                                [Text ''fixed_amount'']]],
                        El ''div'' [(''className'', Val ''field'')]
                          [El ''label'' [] [Text ''Reward value''],
                           El ''input'' [(''className'', Val ''input mono''),
                                         (''value'', Val (wz_f w WfRewardValue)),
                                         (''onChange'', OnV (WzField WfRewardValue))] [],
                           El ''span'' [(''className'', Val ''help'')]
                             [Text ''Opaque integer interpreted by your POS.'']]]] else
                    [El ''div'' [(''style'',
                                  Sty [(''display'', ''grid''), (''gridTemplateColumns'', ''1fr 1fr''),
                                       (''gap'', ''16'')])]
                       [El ''div'' [(''className'', Val ''field'')]
                          [El ''label'' [] [Text ''Discount type''],
                           El ''select'' [(''className'', Val ''select''),
                                          (''style'', Sty [(''fontSize'', ''13.5'')]),
                                          (''value'', Val (wz_f w WfDiscountType)),
                                          (''onChange'', OnV (WzField WfDiscountType))]
                             [El ''option'' [(''value'', Val ''percentage'')] [Text ''percentage''],
                              El ''option'' [(''value'', Val ''fixed_amount'')] [Text ''fixed amount''],
                              El ''option'' [(''value'', Val ''free_item'')] [Text ''free item'']]],
                        El ''div'' [(''className'', Val ''field'')]
                          [El ''label'' []
                             [Text (if wz_f w WfDiscountType = ''percentage'' then ''Percent off'' else
                                      ''Value'')],
                           El ''input'' [(''className'', Val ''input mono''),
                                         (''value'', Val (wz_f w WfDiscountValue)),
                                         (''onChange'', OnV (WzField WfDiscountValue))] []]]])
                 @
                 (if (\<not> isShared (wz_kind w) \<and> wz_kind w \<noteq> ''loyalty'') then
                    [El ''div'' [(''style'',
                                  Sty [(''display'', ''grid''), (''gridTemplateColumns'', ''1fr 1fr''),
                                       (''gap'', ''16'')])]
                       [El ''div'' [(''className'', Val ''field'')]
                          [El ''label'' []
                             [Text (if wz_kind w = ''ticket'' then ''Seats / supply'' else
                                      ''Total supply'')],
                           El ''input'' [(''className'', Val ''input mono''),
                                         (''value'', Val (wz_f w WfSupply)),
                                         (''onChange'', OnV (WzField WfSupply))] [],
                           El ''span'' [(''className'', Val ''help'')]
                             [Text ''Maximum codes this campaign can ever issue.'']],
                        El ''div'' [(''className'', Val ''field'')]
                          [El ''label'' [] [Text ''Valid for''],
                           El ''select'' [(''className'', Val ''select''),
                                          (''style'', Sty [(''fontSize'', ''13.5'')]),
                                          (''value'', Val (wz_f w WfMonths)),
                                          (''onChange'', OnV (WzField WfMonths))]
                             [El ''option'' [(''value'', Val ''1'')] [Text ''1 month''],
                              El ''option'' [(''value'', Val ''3'')] [Text ''3 months''],
                              El ''option'' [(''value'', Val ''6'')] [Text ''6 months''],
                              El ''option'' [(''value'', Val ''12'')] [Text ''12 months'']]]]] else
                    [])),
            El ''div'' [(''style'',
                         Sty [(''display'', ''flex''), (''justifyContent'', ''space-between''),
                              (''alignItems'', ''center'')])]
              ((if wz_fixed w \<noteq> None then [El ''span'' [] []] else
                  [El ''button'' [(''className'', Val ''btn-plain''), (''onClick'', On (WzStep 1))]
                     [Text ([CHR 0x8E] @ '' Back'')]])
                 @
                 [BtnPrimary [Text ''Continue''] (WzStep 3) False (wz_f w WfName = [] \<and> \<not>
                                                                     (isShared (wz_kind w) \<and> wz_f w
                                                                        WfCode \<noteq> [])) [] False
                    []])],
         El ''div'' [(''style'',
                      Sty [(''width'', ''300''), (''flex'', ''none''), (''display'', ''flex''),
                           (''flexDirection'', ''column''), (''gap'', ''14'')])]
           [El ''div'' [(''className'', Val ''card''), (''style'', Sty [(''padding'', ''18px 20px'')])]
              ([El ''div'' [(''className'', Val ''eyebrow''),
                            (''style'', Sty [(''fontSize'', ''11''), (''marginBottom'', ''12'')])]
                  [Text ''What this costs'']]
                 @
                 (concat (map (\<lambda> (k, v) .
                                 [El ''div'' [(''style'',
                                               Sty [(''display'', ''flex''),
                                                    (''justifyContent'', ''space-between''),
                                                    (''padding'', ''7px 0''),
                                                    (''borderTop'', ''1px solid var(--line)''),
                                                    (''fontSize'', ''12.5'')])]
                                    [El ''span'' [(''style'', Sty [(''color'', ''var(--ink-2)'')])]
                                       [Text k],
                                     El ''span'' [(''className'', Val ''mono'')] [Text v]]])
                            (cost_lines (wz_kind w))))
                 @
                 [El ''div'' [(''style'',
                               Sty [(''display'', ''flex''), (''justifyContent'', ''space-between''),
                                    (''padding'', ''9px 0 2px''),
                                    (''borderTop'', ''1px dashed var(--line-2)''),
                                    (''fontSize'', ''13''), (''fontWeight'', ''650'')])]
                    [El ''span'' [] [Text ''Due today''],
                     El ''span'' [(''className'', Val ''mono'')]
                       [Text (if env = ''test'' then ''free (test)'' else dec (cost (wz_kind w))
                                @ '' cr'')]]]),
            El ''p'' [(''className'', Val ''mono''),
                      (''style'',
                       Sty [(''fontSize'', ''11.5''), (''color'', ''var(--ink-3)''),
                            (''lineHeight'', ''1.6''), (''margin'', ''0''), (''padding'', ''0 4px'')])]
              [Text (''Preview credits only ''
                       @ [CHR 0x97]
                       @ '' no payment processor is enabled. Test mode is always unmetered.'')]]])\<close>

definition wizard_step3 :: \<open>string \<Rightarrow> wizard \<Rightarrow> wizard_ev html\<close> where
  \<open>wizard_step3 env w =
     El ''div'' [(''style'',
                  Sty [(''width'', ''620''), (''maxWidth'', ''100%''), (''display'', ''flex''),
                       (''flexDirection'', ''column''), (''gap'', ''20'')])]
       ([El ''div'' [(''className'', Val ''ticket''), (''style'', Sty [(''borderRadius'', ''18'')])]
           [El ''div'' [(''className'', Val ''ticket-perf'')] [],
            El ''div'' [(''style'',
                         Sty [(''padding'', ''30px 28px 20px''), (''display'', ''flex''),
                              (''flexDirection'', ''column''), (''gap'', ''14'')])]
              [El ''div'' [(''style'',
                            Sty [(''display'', ''flex''), (''alignItems'', ''center''),
                                 (''justifyContent'', ''space-between'')])]
                 [El ''span'' [(''className'', Val ''eyebrow''),
                               (''style'', Sty [(''fontSize'', ''11'')])] [Text ''Ready to create''],
                  El ''span'' [(''className'', Val ''authtag'')]
                    [Text (toLowerCase (fc_name (face_of (wz_kind w))))]],
               El ''div'' []
                 [El ''div'' [(''className'', Val ''mono''),
                              (''style'',
                               Sty [(''fontSize'', ''32''), (''fontWeight'', ''600''),
                                    (''letterSpacing'', ''.01em'')])]
                    [Text (let t = (if isShared (wz_kind w) then wz_f w WfCode else wz_f w WfName) in if
                             t = [] then [CHR 0x97] else t)],
                  El ''div'' [(''style'',
                               Sty [(''fontSize'', ''13.5''), (''color'', ''var(--ink-2)''),
                                    (''marginTop'', ''2'')])]
                    [Text (if isShared (wz_kind w) then wz_f w WfName else if wz_kind w = ''loyalty''
                             then wz_f w WfThreshold
                             @ '' punches ''
                             @ [CHR 0x8F]
                             @ '' ''
                             @ wz_f w WfRewardType
                             @ '' ''
                             @ wz_f w WfRewardValue else wz_f w WfDiscountValue
                             @ (if wz_f w WfDiscountType = ''percentage'' then ''%'' else [])
                             @ '' ''
                             @ [CHR 0xB7]
                             @ '' supply ''
                             @ wz_f w WfSupply)]],
               El ''div'' [(''style'',
                            Sty [(''display'', ''grid''), (''gridTemplateColumns'', ''1fr 1fr''),
                                 (''gap'', ''10px 20px''), (''fontSize'', ''13'')])]
                 ((if wz_kind w = ''creator'' then
                     [El ''div'' [(''style'',
                                   Sty [(''display'', ''flex''),
                                        (''justifyContent'', ''space-between''),
                                        (''borderTop'', ''1px solid var(--line)''),
                                        (''paddingTop'', ''8'')])]
                        [El ''span'' [(''style'', Sty [(''color'', ''var(--ink-3)'')])]
                           [Text ''Creator''],
                         El ''span'' [(''className'', Val ''mono''),
                                      (''style'', Sty [(''fontSize'', ''12'')])]
                           [Text (trunc_c 4 4 (JStr (wz_f w WfAttributed)))]],
                      El ''div'' [(''style'',
                                   Sty [(''display'', ''flex''),
                                        (''justifyContent'', ''space-between''),
                                        (''borderTop'', ''1px solid var(--line)''),
                                        (''paddingTop'', ''8'')])]
                        [El ''span'' [(''style'', Sty [(''color'', ''var(--ink-3)'')])]
                           [Text ''Payout''],
                         El ''span'' [(''className'', Val ''mono''),
                                      (''style'', Sty [(''fontSize'', ''12'')])]
                           [Text (wz_f w WfRate),
                            Text '' XLM / redemption'']]] else [])
                    @
                    (if (wz_kind w = ''gift'' \<and> trim (wz_f w WfAttributed) \<noteq> []) then
                       [El ''div'' [(''style'',
                                     Sty [(''display'', ''flex''),
                                          (''justifyContent'', ''space-between''),
                                          (''borderTop'', ''1px solid var(--line)''),
                                          (''paddingTop'', ''8'')])]
                          [El ''span'' [(''style'', Sty [(''color'', ''var(--ink-3)'')])]
                             [Text ''Venue''],
                           El ''span'' [(''className'', Val ''mono''),
                                        (''style'', Sty [(''fontSize'', ''12'')])]
                             [Text (trunc_c 4 4 (JStr (wz_f w WfAttributed)))]],
                        El ''div'' [(''style'',
                                     Sty [(''display'', ''flex''),
                                          (''justifyContent'', ''space-between''),
                                          (''borderTop'', ''1px solid var(--line)''),
                                          (''paddingTop'', ''8'')])]
                          [El ''span'' [(''style'', Sty [(''color'', ''var(--ink-3)'')])]
                             [Text ''Payout''],
                           El ''span'' [(''className'', Val ''mono''),
                                        (''style'', Sty [(''fontSize'', ''12'')])]
                             [Text (if jless (Fin 0) (to_number (wz_f w WfRate)) then wz_f w WfRate
                                      @ '' XLM / serving'' else ''none'')]]] else [])
                    @
                    [El ''div'' [(''style'',
                                  Sty [(''display'', ''flex''), (''justifyContent'', ''space-between''),
                                       (''borderTop'', ''1px solid var(--line)''),
                                       (''paddingTop'', ''8'')])]
                       [El ''span'' [(''style'', Sty [(''color'', ''var(--ink-3)'')])]
                          [Text ''Environment''],
                        El ''span'' [(''className'', Val ''mono''),
                                     (''style'', Sty [(''fontSize'', ''12'')])] [Text env]],
                     El ''div'' [(''style'',
                                  Sty [(''display'', ''flex''), (''justifyContent'', ''space-between''),
                                       (''borderTop'', ''1px solid var(--line)''),
                                       (''paddingTop'', ''8'')])]
                       [El ''span'' [(''style'', Sty [(''color'', ''var(--ink-3)'')])]
                          [Text ''Valid for''],
                        El ''span'' [] [Text (wz_f w WfMonths), Text '' months'']]])],
            El ''div'' [(''className'', Val ''ticket-tear'')]
              [El ''i'' [(''className'', Val ''l''), (''style'', Sty [(''background'', ''var(--bg)'')])]
                 [],
               El ''i'' [(''className'', Val ''r''), (''style'', Sty [(''background'', ''var(--bg)'')])]
                 []],
            El ''div'' [(''style'',
                         Sty [(''padding'', ''18px 28px 24px''), (''display'', ''flex''),
                              (''flexDirection'', ''column''), (''gap'', ''9'')])]
              ([El ''div'' [(''className'', Val ''eyebrow''), (''style'', Sty [(''fontSize'', ''11'')])]
                  [Text ''When you press create''],
                El ''div'' [(''style'',
                             Sty [(''display'', ''flex''), (''alignItems'', ''center''),
                                  (''gap'', ''10''), (''fontSize'', ''13''),
                                  (''color'', ''var(--ink-2)'')])]
                  [El ''span'' [(''className'', Val ''mono''),
                                (''style'',
                                 Sty [(''width'', ''20''), (''height'', ''20''), (''flex'', ''none''),
                                      (''borderRadius'', ''999''),
                                      (''background'', ''var(--surface-inset)''),
                                      (''border'', ''1px solid var(--line)''), (''display'', ''grid''),
                                      (''placeItems'', ''center''), (''fontSize'', ''10.5'')])]
                     [Text ''1''],
                   El ''span'' [(''style'', Sty [(''flex'', ''1'')])]
                     [Text ''Campaign is written on-chain, owned by your org account''],
                   El ''span'' [(''className'', Val ''mono''),
                                (''style'', Sty [(''fontSize'', ''12'')])]
                     [Text (if env = ''test'' then ''free'' else ''20 cr'')]]]
                 @
                 (if isShared (wz_kind w) \<or> wz_kind w = ''loyalty'' then
                    [El ''div'' [(''style'',
                                  Sty [(''display'', ''flex''), (''alignItems'', ''center''),
                                       (''gap'', ''10''), (''fontSize'', ''13''),
                                       (''color'', ''var(--ink-2)'')])]
                       [El ''span'' [(''className'', Val ''mono''),
                                     (''style'',
                                      Sty [(''width'', ''20''), (''height'', ''20''),
                                           (''flex'', ''none''), (''borderRadius'', ''999''),
                                           (''background'', ''var(--surface-inset)''),
                                           (''border'', ''1px solid var(--line)''),
                                           (''display'', ''grid''), (''placeItems'', ''center''),
                                           (''fontSize'', ''10.5'')])] [Text ''2''],
                        El ''span'' [(''style'', Sty [(''flex'', ''1'')])]
                          (if wz_kind w = ''loyalty'' then
                             [Text (''The earn code is registered ''
                                      @ [CHR 0x97]
                                      @ '' signed punches can be committed manually by period'')] else
                             [El ''span'' [(''className'', Val ''mono''),
                                           (''style'', Sty [(''fontSize'', ''12'')])]
                                [Text (wz_f w WfCode)],
                              Text '' is registered'',
                              Text (if wz_kind w = ''creator'' then '' with its payout terms ''
                                      @ [CHR 0x97]
                                      @ '' locked'' else if wz_kind w = ''gift'' \<and> trim
                                      (wz_f w WfAttributed) \<noteq> [] then '' ''
                                      @ [CHR 0x97]
                                      @ '' attributed to the venue'' else [])]),
                        El ''span'' [(''className'', Val ''mono''),
                                     (''style'', Sty [(''fontSize'', ''12'')])]
                          [Text (if env = ''test'' then ''free'' else ''10 cr'')]]] else [])
                 @
                 [El ''div'' [(''style'',
                               Sty [(''display'', ''flex''), (''alignItems'', ''center''),
                                    (''gap'', ''10''), (''fontSize'', ''13''),
                                    (''color'', ''var(--ink-2)'')])]
                    [El ''span'' [(''className'', Val ''mono''),
                                  (''style'',
                                   Sty [(''width'', ''20''), (''height'', ''20''), (''flex'', ''none''),
                                        (''borderRadius'', ''999''),
                                        (''background'', ''var(--surface-inset)''),
                                        (''border'', ''1px solid var(--line)''),
                                        (''display'', ''grid''), (''placeItems'', ''center''),
                                        (''fontSize'', ''10.5'')])] [Text ''3''],
                     El ''span'' [(''style'', Sty [(''flex'', ''1'')])]
                       [Text ''Anyone can verify everything on '',
                        El ''span'' [(''className'', Val ''mono''),
                                     (''style'', Sty [(''fontSize'', ''12'')])]
                          [Text (''stellar.expert '' @ [CHR 0x9A])]],
                     El ''span'' [(''className'', Val ''mono''),
                                  (''style'', Sty [(''fontSize'', ''12'')])] [Text [CHR 0x97]]],
                  El ''div'' [(''style'',
                               Sty [(''display'', ''flex''), (''justifyContent'', ''space-between''),
                                    (''borderTop'', ''1px dashed var(--line-2)''),
                                    (''paddingTop'', ''10''), (''marginTop'', ''4''),
                                    (''fontSize'', ''13.5''), (''fontWeight'', ''650'')])]
                    [El ''span'' [] [Text ''Total''],
                     El ''span'' [(''className'', Val ''mono'')]
                       [Text (if env = ''test'' then ''free'' else dec (cost (wz_kind w))
                                @ '' cr'')]]])]]
          @ (ErrText (wz_err w))
          @
          [El ''div'' [(''style'',
                        Sty [(''display'', ''flex''), (''justifyContent'', ''space-between''),
                             (''alignItems'', ''center'')])]
             [El ''button'' [(''className'', Val ''btn-plain''), (''onClick'', On (WzStep 2))]
                [Text ([CHR 0x8E] @ '' Back'')],
              BtnPrimary [Text ''Create campaign''] WzCreate (wz_busy w) False
                [Ic_c ''check'' [(''width'', Val ''15''), (''height'', Val ''15'')]] False []],
           El ''p'' [(''className'', Val ''mono''),
                     (''style'',
                      Sty [(''fontSize'', ''11.5''), (''color'', ''var(--ink-3)''), (''margin'', ''0''),
                           (''textAlign'', ''center'')])]
             [Text
                ''You can archive a campaign anytime. Automated TTL keep-alive is not enabled yet.'']])\<close>

definition Wizard :: \<open>string \<Rightarrow> wizard \<Rightarrow> wizard_ev html\<close> where
  \<open>Wizard env w =
     El ''div'' [(''style'',
                  Sty [(''position'', ''fixed''), (''inset'', ''0''), (''zIndex'', ''300''),
                       (''background'', ''var(--bg)''), (''display'', ''flex''),
                       (''flexDirection'', ''column''), (''overflowY'', ''auto'')])]
       [El ''div'' [(''style'',
                     Sty [(''height'', ''58''), (''flex'', ''none''),
                          (''borderBottom'', ''1px solid var(--line)''), (''display'', ''flex''),
                          (''alignItems'', ''center''), (''gap'', ''14''), (''padding'', ''0 22px''),
                          (''position'', ''sticky''), (''top'', ''0''), (''background'', ''var(--bg)''),
                          (''zIndex'', ''5'')])]
          [El ''div'' [(''className'', Val ''side-logo'')] [Ic_c ''coupon'' []],
           El ''span'' [(''style'', Sty [(''fontSize'', ''14''), (''fontWeight'', ''650'')])]
             [Text ''New campaign''],
           El ''div'' [(''style'',
                        Sty [(''flex'', ''1''), (''display'', ''flex''),
                             (''justifyContent'', ''center''), (''gap'', ''22''),
                             (''alignItems'', ''center'')])] [stepDot (wz_step w) 1 ''Choose type'',
                                                              El ''span'' [(''style'',
                                                                            Sty
                                                                              [(''width'', ''26''),
                                                                               (''height'', ''1''),
                                                                               (''background'',
                                                                                ''var(--line-2)'')])]
                                                                [], stepDot (wz_step w) 2 ''Configure'',
                                                              El ''span'' [(''style'',
                                                                            Sty
                                                                              [(''width'', ''26''),
                                                                               (''height'', ''1''),
                                                                               (''background'',
                                                                                ''var(--line-2)'')])]
                                                                [], stepDot (wz_step w) 3 ''Review''],
           El ''span'' [(''className'', Val ''mono''),
                        (''style'',
                         Sty [(''fontSize'', ''11.5''),
                              (''color'',
                               (if env = ''test'' then ''var(--pending)'' else ''var(--ink-3)'')),
                              (''fontWeight'', ''600'')])] [Text (toUpperCase env)],
           El ''button'' [(''onClick'', On WzClose),
                          (''style'',
                           Sty [(''width'', ''30''), (''height'', ''30''), (''borderRadius'', ''999''),
                                (''border'', ''1px solid var(--line-2)''), (''display'', ''grid''),
                                (''placeItems'', ''center''), (''color'', ''var(--ink-2)'')])]
             [Ic_c ''x'' [(''width'', Val ''14''), (''height'', Val ''14'')]]],
        El ''div'' [(''style'',
                     Sty [(''padding'', ''40px 24px 48px''), (''display'', ''grid''),
                          (''placeItems'', ''center''), (''flex'', ''1'')])]
          ((if wz_step w = 1 then [wizard_step1 w] else [])
             @ (if wz_step w = 2 then [wizard_step2 env w] else [])
             @ (if wz_step w = 3 then [wizard_step3 env w] else []))]\<close>

section \<open>Towards the contract of a page\<close>

lemma wizard_sends:
  assumes "\<And>c. disciplined h (onDone c)"
  shows "disciplined h (wizard_run h now upd onDone wz e)"
proof -
  have "disciplined h (wizard_create h now upd onDone w)" for w
    unfolding wizard_create_def program_toast_def campaign_toast_def
    by (intro sends_bind sends_on_page sends_catch, split if_split)
      (intro conjI impI sends_intros assms)+
  with assms show ?thesis
    unfolding wizard_run_def by (auto intro!: sends_intros split: wizard_ev.split option.split)
qed

end
