(* ===== verification/Console_Campaigns.thy ===== *)
theory Console_Campaigns
  imports Console_Wizard
begin

text \<open>
  The campaigns page of the console (\<open>cloud/console/src/pages/Campaigns.jsx\<close>): the list with its search
  and status, and the wizard on top of it.
\<close>

section \<open>What is shown of a campaign\<close>

definition kindTag :: "jval \<Rightarrow> string" where
  "kindTag c =
     (let k = get c ''kind'' in
      if k = JStr ''voucher'' then ''unique vouchers''
      else if k = JStr ''ticket'' then ''event tickets''
      else if k = JStr ''creator'' then ''creator code '' @ [CHR 0xB7] @ '' '' @ trunc_c 4 4 (get c ''attributed_to'')
      else if k = JStr ''gift''
      then (if truthy (get c ''attributed_to'')
            then ''gift proof '' @ [CHR 0xB7] @ '' '' @ trunc_c 4 4 (get c ''attributed_to'') else ''gift proof'')
      else if k = JStr ''loyalty'' then ''loyalty''
      else ''shared code'')"

definition isUnique :: "jval \<Rightarrow> bool" where
  "isUnique c \<longleftrightarrow> get c ''kind'' \<in> {JStr ''voucher'', JStr ''ticket'', JStr ''loyalty''}"

definition statusOf :: "int \<Rightarrow> jval \<Rightarrow> string \<times> string" where \<comment> \<open>at a time in milliseconds\<close>
  "statusOf now c =
     (if truthy (get c ''archived'') then ([], ''Archived'')
      else if jless (times (js_Number (get c ''valid_until'')) 1000) (num now) then (''pending'', ''Expired'')
      else (''valid'', ''Active''))"

definition used_share :: "jval \<Rightarrow> string" where \<comment> \<open>the width of the bar\<close>
  "used_share c =
     (if truthy (get c ''minted'')
      then num_str (jround (jmul (jdiv (js_Number (get c ''burned'')) (jmax (Fin 1) (js_Number (get c ''total_supply'')))) (Fin 100)))
      else ''0'') @ ''%''"

section \<open>The page\<close>

record campaigns =
  cp_data :: jval
  cp_wizard :: "wizard option"
  cp_q :: string
  cp_loads :: "unit promises"

definition campaigns_init :: "string \<Rightarrow> campaigns" where \<comment> \<open>from the route\<close>
  "campaigns_init route =
     \<lparr>cp_data = JNull, cp_wizard = (if str_includes route ''new=1'' then Some (wizard_init None) else None),
      cp_q = [], cp_loads = []\<rparr>"

datatype campaigns_ev = CpNew | CpSearch string | CpOpen string | CpWizard wizard_ev

definition campaigns_load :: "'w console \<Rightarrow> (('w, campaigns) on_visit, unit) io" where
  "campaigns_load h = launch h ''/v1/campaigns'' () cp_loads_update"

definition campaigns_loaded :: "jval js \<Rightarrow> campaigns \<Rightarrow> campaigns" where
  "campaigns_loaded r p = (case r of Inr d \<Rightarrow> p\<lparr>cp_data := d\<rparr> | Inl _ \<Rightarrow> p)"

definition campaigns_effect :: "'w console \<Rightarrow> (('w, campaigns) on_visit, unit) io" where
  "campaigns_effect h = bindIO (on_page (\<lambda>p. p\<lparr>cp_data := JNull\<rparr>)) (\<lambda>_. campaigns_load h)"

definition has_text :: "jval \<Rightarrow> string \<Rightarrow> bool" where \<comment> \<open>\<open>v.toLowerCase().includes(q.toLowerCase())\<close>\<close>
  "has_text v q = str_includes (toLowerCase (js_String v)) (toLowerCase q)"

definition campaign_list :: "campaigns \<Rightarrow> jval list" where \<comment> \<open>\<open>list\<close>\<close>
  "campaign_list p =
     filter (\<lambda>c. cp_q p = [] \<or> has_text (get c ''name'') (cp_q p)
         \<or> has_text (js_or (get c ''shared_code'') (JStr [])) (cp_q p))
       (items (get (cp_data p) ''campaigns''))"

definition active_count :: "int \<Rightarrow> campaigns \<Rightarrow> nat" where
  "active_count now p =
     length (filter (\<lambda>c. snd (statusOf now c) = ''Active'') (items (get (cp_data p) ''campaigns'')))"

definition wizard_done :: "'w console \<Rightarrow> jval \<Rightarrow> (('w, campaigns) on_visit, unit) io" where \<comment> \<open>\<open>onDone\<close>\<close>
  "wizard_done h c =
     bindIO (on_page (\<lambda>p. p\<lparr>cp_wizard := None\<rparr>)) (\<lambda>_.
     bindIO (campaigns_load h) (\<lambda>_.
     if truthy c then in_visit (nav (''/campaigns/'' @ js_String (get c ''id''))) else returnIO ()))"

definition set_wizard :: "(wizard \<Rightarrow> wizard) \<Rightarrow> campaigns \<Rightarrow> campaigns" where
  "set_wizard f p = p\<lparr>cp_wizard := map_option f (cp_wizard p)\<rparr>"

definition campaigns_run :: "'w console \<Rightarrow> int \<Rightarrow> campaigns_ev \<Rightarrow> (('w, campaigns) on_visit, unit) io" where
  "campaigns_run h now e =
     (case e of
        CpNew \<Rightarrow> on_page (\<lambda>p. p\<lparr>cp_wizard := (case cp_wizard p of None \<Rightarrow> Some (wizard_init None)
                                            | Some w \<Rightarrow> Some w)\<rparr>)
      | CpSearch t \<Rightarrow> on_page (\<lambda>p. p\<lparr>cp_q := t\<rparr>)
      | CpOpen i \<Rightarrow> in_visit (nav (''/campaigns/'' @ i))
      | CpWizard w \<Rightarrow>
          bindIO (page_get cp_wizard) (\<lambda>wz. wizard_run h now set_wizard (wizard_done h) wz w))"

section \<open>Elements\<close>

definition campaign_row :: \<open>'w console \<Rightarrow> int \<Rightarrow> string \<Rightarrow> jval \<Rightarrow> campaigns_ev html\<close> where
  \<open>campaign_row h now env c =
     (let (pk, pl) = statusOf now c in El ''div'' [(''onClick'',
                                                    On (CpOpen (js_String (get c ''id'')))),
                                                   (''style'',
                                                    Sty [(''display'', ''grid''),
                                                         (''gridTemplateColumns'',
                                                          ''2.2fr 1fr 1.6fr .8fr .6fr 40px''),
                                                         (''gap'', ''14''),
                                                         (''padding'', ''13px 20px''),
                                                         (''borderBottom'', ''1px solid var(--line)''),
                                                         (''alignItems'', ''center''),
                                                         (''cursor'', ''pointer''),
                                                         (''opacity'',
                                                          (if pl \<noteq> ''Active'' then ''0.7'' else
                                                             ''1''))])]
        ([El ''div'' [(''style'',
                       Sty [(''display'', ''flex''), (''flexDirection'', ''column''),
                            (''gap'', ''4'')])]
            [El ''span'' [(''style'', Sty [(''fontSize'', ''14''), (''fontWeight'', ''650'')])]
               [Text (shown (if get c ''kind'' \<in> {JStr ''coupon'', JStr ''creator'',
                             JStr ''gift'' } then get c ''shared_code'' else get c ''name''))],
             El ''span'' [(''className'', Val ''authtag''),
                          (''style'', Sty [(''alignSelf'', ''flex-start'')])] [Text (kindTag c)]],
          Pill_c pk [Text pl]]
           @
           (if isUnique c then
              [El ''div'' [(''style'',
                            Sty [(''display'', ''flex''), (''flexDirection'', ''column''),
                                 (''gap'', ''5'')])]
                 [El ''div'' [(''className'', Val ''progressbar'')]
                    [El ''span'' [(''style'', Sty [(''width'', used_share c)])] []],
                  El ''span'' [(''className'', Val ''mono''),
                               (''style'',
                                Sty [(''fontSize'', ''11.5''), (''color'', ''var(--ink-2)'')])]
                    [Text (shown (get c ''burned'')),
                     Text '' / '',
                     Text (shown (get c ''total_supply'')),
                     Text '' '',
                     Text (if get c ''kind'' = JStr ''ticket'' then ''burned at the door'' else
                             ''redeemed'')]]] else
              [El ''div'' [(''style'',
                            Sty [(''display'', ''flex''), (''flexDirection'', ''column''),
                                 (''gap'', ''5'')])]
                 [El ''span'' [(''className'', Val ''mono''), (''style'', Sty [(''fontSize'', ''13'')])]
                    [Text (locale_text h (js_or (get c ''events_total'') (JNum (Fin 0)))),
                     Text '' '',
                     El ''span'' [(''style'',
                                   Sty [(''color'', ''var(--ink-3)''), (''fontSize'', ''11.5'')])]
                       [Text ''counted'']],
                  El ''span'' [(''className'', Val ''mono''),
                               (''style'',
                                Sty [(''fontSize'', ''11.5''), (''color'', ''var(--ink-3)'')])]
                    [Text (''one code '' @ [CHR 0xB7] @ '' many uses'')]]])
           @
           [El ''span'' [(''style'', Sty [(''fontSize'', ''13''), (''color'', ''var(--ink-2)'')])]
              [Text (fmtDate h (get c ''created_at''))],
            El ''span'' [(''className'', Val ''mono''),
                         (''style'',
                          Sty [(''fontSize'', ''11''),
                               (''color'',
                                (if env = ''test'' then ''var(--pending)'' else ''var(--ink-3)'')),
                               (''fontWeight'', (if env = ''test'' then ''600'' else ''400''))])]
              [Text env],
            Ic_c ''chevron'' [(''width'', Val ''15''), (''height'', Val ''15''),
                            (''style'',
                             Sty [(''color'', ''var(--ink-3)''), (''justifySelf'', ''end''),
                                  (''transform'', ''rotate(-90deg)'')])]]))\<close>

definition campaigns_view :: \<open>'w console \<Rightarrow> int \<Rightarrow> session \<Rightarrow> campaigns \<Rightarrow> campaigns_ev html\<close> where
  \<open>campaigns_view h now ss p =
     El ''div'' [(''className'', Val ''page'')]
       ([El ''div'' [(''className'', Val ''page-head'')]
           [El ''div'' []
              [El ''h1'' [(''className'', Val ''display''),
                          (''style'', Sty [(''fontSize'', ''27''), (''margin'', ''0'')])]
                 [Text ''Campaigns''],
               El ''p'' [(''className'', Val ''page-sub'')]
                 [Text (if truthy (cp_data p) then dec (int (length (items (get (cp_data p)
                                                                              ''campaigns''))))
                          @ '' total ''
                          @ [CHR 0xB7]
                          @ '' ''
                          @ dec (int (active_count now p))
                          @ '' active'' else [CHR 0x85]),
                  Text (if se_env ss = ''test'' then '' ''
                          @ [CHR 0xB7]
                          @ '' creating is free here'' else [])]],
            BtnPrimary [Text ''New campaign''] CpNew False False
              [Ic_c ''plus'' [(''width'', Val ''13''), (''height'', Val ''13'')]] True []],
         El ''div'' [(''style'',
                      Sty [(''display'', ''flex''), (''gap'', ''10''), (''alignItems'', ''center'')])]
           [El ''input'' [(''className'', Val ''input''), (''placeholder'', Val ''Search campaigns''),
                          (''value'', Val (cp_q p)), (''onChange'', OnV CpSearch),
                          (''style'',
                           Sty [(''width'', ''280''), (''fontSize'', ''13.5''), (''paddingTop'', ''9''),
                                (''paddingBottom'', ''9'')])] [],
            El ''div'' [(''style'', Sty [(''flex'', ''1'')])] []]]
          @
          (if truthy (cp_data p) \<and> campaign_list p = [] \<and> cp_q p = [] then
             [El ''div'' [(''className'', Val ''empty'')]
                [El ''h2'' [(''className'', Val ''display''),
                            (''style'', Sty [(''fontSize'', ''22''), (''margin'', ''0'')])]
                   [Text ''No campaigns yet''],
                 El ''p'' [(''style'',
                            Sty [(''fontSize'', ''13.5''), (''color'', ''var(--ink-2)''),
                                 (''margin'', ''0'')])]
                   [Text (''One primitive, six faces ''
                            @ [CHR 0x97]
                            @
                            '' coupons, creator codes, gift proofs, vouchers, tickets, punch cards.'')],
                 BtnPrimary [Text ''Create your first campaign''] CpNew False False
                   [Ic_c ''plus'' [(''width'', Val ''15''), (''height'', Val ''15'')]] False []]] else
             [El ''div'' [(''className'', Val ''card''), (''style'', Sty [(''overflow'', ''hidden'')])]
                ([El ''div'' [(''style'',
                               Sty [(''display'', ''grid''),
                                    (''gridTemplateColumns'', ''2.2fr 1fr 1.6fr .8fr .6fr 40px''),
                                    (''gap'', ''14''), (''padding'', ''11px 20px''),
                                    (''borderBottom'', ''1px solid var(--line)''),
                                    (''background'', ''var(--surface-inset)'')])]
                    (concat (map (\<lambda>t.
                                    [El ''span'' [(''className'', Val ''eyebrow''),
                                                  (''style'', Sty [(''fontSize'', ''11'')])] [Text t]])
                               [''Campaign'', ''Status'', ''Redemptions'', ''Created'', ''Env'', []]))]
                   @ (map (campaign_row h now (se_env ss)) (campaign_list p)))])
          @ (case cp_wizard p of None \<Rightarrow> [] | Some w \<Rightarrow>
               [map_html CpWizard (Wizard (se_env ss) w)]))\<close>

section \<open>The contract of a page\<close>

lemma campaigns_load_sends: "disciplined h (campaigns_load h)"
  unfolding campaigns_load_def by (intro sends_intros)

lemma wizard_done_sends: "disciplined h (wizard_done h c)"
  unfolding wizard_done_def by (cases "truthy c") (simp, intro sends_intros campaigns_load_sends)+

lemma campaigns_runs_send: "disciplined h (campaigns_run h now e)" "disciplined h (campaigns_effect h)"
proof -
  show "disciplined h (campaigns_run h now e)"
    by (cases e)
      (simp_all add: campaigns_run_def, (intro sends_intros wizard_sends wizard_done_sends)+)
  show "disciplined h (campaigns_effect h)"
    unfolding campaigns_effect_def by (intro sends_intros campaigns_load_sends)
qed

interpretation campaigns_page: page h "campaigns_run h now" "campaigns_effect h" for h now
  by unfold_locales (rule campaigns_runs_send)+

end
