(* ===== verification/Js_Uri.thy ===== *)
theory Js_Uri
  imports Js_Value
begin

text \<open>
  \<open>encodeURIComponent\<close> and \<open>decodeURIComponent\<close>. What is encoded is a text of the repertoire, ASCII and
  Latin-1; what is decoded may be any character, so the result is a list of UTF-16 code units.
\<close>

type_synonym units = "int list"

abbreviation units_of :: "string \<Rightarrow> units" where
  "units_of s \<equiv> map char_code s"

section \<open>Encoding\<close>

definition uri_plain :: "char \<Rightarrow> bool" where
  "uri_plain c \<longleftrightarrow>
     char_code c \<in> {65..90} \<or> char_code c \<in> {97..122} \<or> digit c
     \<or> c \<in> {CHR ''-'', CHR ''_'', CHR ''.'', CHR ''!'', CHR ''~'', CHR ''*'', CHR 0x27, CHR ''('', CHR '')''}"

definition hex_byte :: "int \<Rightarrow> string" where
  "hex_byte n = ''%'' @ toUpperCase [dig (n div 16), dig (n mod 16)]"

definition encodeURIComponent :: "string \<Rightarrow> string" where \<comment> \<open>of ASCII and Latin-1\<close>
  "encodeURIComponent s =
     concat (map (\<lambda>c. if uri_plain c then [c]
       else if char_code c < 128 then hex_byte (char_code c)
       else hex_byte (192 + char_code c div 64) @ hex_byte (128 + char_code c mod 64)) s)"

section \<open>Percent decoding\<close>

definition URIError :: jserr where
  "URIError = (Error ''URI malformed'')\<lparr>e_class := ''URIError''\<rparr>"

fun pct :: "string \<Rightarrow> (int \<times> string) option" where \<comment> \<open>one \<open>%XX\<close>\<close>
  "pct (p # a # b # r) =
     (if p = CHR ''%'' \<and> hex_char a \<and> hex_char b then Some (hex_num [a, b], r) else None)"
| "pct _ = None"

fun pct_tail :: "nat \<Rightarrow> string \<Rightarrow> (int list \<times> string) option" where \<comment> \<open>continuation bytes\<close>
  "pct_tail 0 s = Some ([], s)"
| "pct_tail (Suc n) s =
     (case pct s of
        Some (b, r) \<Rightarrow>
          if 128 \<le> b \<and> b < 192
          then map_option (\<lambda>(bs, t). ((b - 128) # bs, t)) (pct_tail n r) else None
      | None \<Rightarrow> None)"

definition utf8_more :: "int \<Rightarrow> nat option" where \<comment> \<open>how many bytes follow the first\<close>
  "utf8_more b =
     (if b < 128 then Some 0 else if b < 192 then None else if b < 224 then Some 1
      else if b < 240 then Some 2 else if b < 248 then Some 3 else None)"

definition utf8_point :: "nat \<Rightarrow> int \<Rightarrow> int list \<Rightarrow> int" where
  "utf8_point n b bs = foldl (\<lambda>a c. 64 * a + c) (if n = 0 then b else b mod 2 ^ (6 - n)) bs"

definition utf8_legal :: "nat \<Rightarrow> int \<Rightarrow> bool" where \<comment> \<open>shortest form, no surrogate, at most 10FFFF\<close>
  "utf8_legal n p \<longleftrightarrow>
     (if n = 0 then True else if n = 1 then 128 \<le> p else if n = 2 then 2048 \<le> p \<and> \<not> (55296 \<le> p \<and> p < 57344)
      else 65536 \<le> p \<and> p < 1114112)"

definition utf16 :: "int \<Rightarrow> units" where
  "utf16 p = (if p < 65536 then [p] else [55296 + (p - 65536) div 1024, 56320 + (p - 65536) mod 1024])"

definition pct_point :: "string \<Rightarrow> (units \<times> string) option" where \<comment> \<open>one escaped character\<close>
  "pct_point s =
     (case pct s of
        None \<Rightarrow> None
      | Some (b, r) \<Rightarrow>
          (case utf8_more b of
             None \<Rightarrow> None
           | Some n \<Rightarrow>
               (case pct_tail n r of
                  None \<Rightarrow> None
                | Some (bs, t) \<Rightarrow> if utf8_legal n (utf8_point n b bs) then Some (utf16 (utf8_point n b bs), t) else None)))"

lemma pct_shorter: "pct s = Some (b, r) \<Longrightarrow> length r < length s"
  by (cases s rule: pct.cases) (auto split: if_splits)

lemma pct_tail_shorter: "pct_tail n s = Some (bs, t) \<Longrightarrow> length t \<le> length s"
  by (induction n arbitrary: s bs t) (auto split: option.splits if_splits dest!: pct_shorter, fastforce)

lemma pct_point_shorter: "pct_point s = Some (u, t) \<Longrightarrow> length t < length s"
  by (auto simp: pct_point_def split: option.splits if_splits dest!: pct_shorter pct_tail_shorter)

function decodeURIComponent :: "string \<Rightarrow> units js" where
  "decodeURIComponent [] = Inr []"
| "decodeURIComponent (c # s) =
     (if c = CHR ''%''
      then (case pct_point (c # s) of
              None \<Rightarrow> Inl URIError
            | Some (u, t) \<Rightarrow> bindR (decodeURIComponent t) (\<lambda>us. Inr (u @ us)))
      else bindR (decodeURIComponent s) (\<lambda>us. Inr (char_code c # us)))"
  by pat_completeness auto
termination
  by (relation "measure length") (auto dest: pct_point_shorter)

lemma decode_plain: "CHR ''%'' \<notin> set s \<Longrightarrow> decodeURIComponent s = Inr (units_of s)"
  by (induction s) auto

section \<open>Round trip\<close>

lemma upper_dig:
  assumes "0 \<le> h" and "h < 16"
  obtains c where "upper_char (dig h) = [c]" and "hex_char c" and "hex_val c = h"
proof -
  have "\<forall>h\<in>set [0..15]. case upper_char (dig h) of [c] \<Rightarrow> hex_char c \<and> hex_val c = h | _ \<Rightarrow> False"
    by code_simp
  then have "case upper_char (dig h) of [c] \<Rightarrow> hex_char c \<and> hex_val c = h | _ \<Rightarrow> False"
    by (rule bspec) (use assms in simp)
  then show thesis by (cases "upper_char (dig h)"; cases "tl (upper_char (dig h))") (simp_all add: that)
qed

lemma pct_hex_byte [simp]:
  assumes "0 \<le> n" and "n < 256"
  shows "pct (hex_byte n @ r) = Some (n, r)"
proof -
  obtain c where c: "upper_char (dig (n div 16)) = [c]" "hex_char c" "hex_val c = n div 16"
    using assms by (auto intro: upper_dig [of "n div 16"])
  obtain d where d: "upper_char (dig (n mod 16)) = [d]" "hex_char d" "hex_val d = n mod 16"
    by (auto intro: upper_dig [of "n mod 16"])
  from c d show ?thesis by (simp add: hex_byte_def toUpperCase_def hex_num_def)
qed

lemma hex_byte_Cons: "hex_byte n @ r = CHR ''%'' # tl (hex_byte n) @ r"
  by (simp add: hex_byte_def)

text \<open>The two ways a character is escaped: as one byte below 128, as two up to Latin-1.\<close>

lemma pct_point_one:
  "0 \<le> n \<Longrightarrow> n < 128 \<Longrightarrow> pct_point (hex_byte n @ r) = Some ([n], r)"
  by (simp add: pct_point_def utf8_more_def utf8_point_def utf8_legal_def utf16_def)

lemma pct_point_two:
  assumes "2 \<le> x" and "x < 4" and "0 \<le> y" and "y < 64"
  shows "pct_point (hex_byte (192 + x) @ hex_byte (128 + y) @ r) = Some ([64 * x + y], r)"
proof -
  have "(192 + x) mod 32 = x" using assms by presburger
  with assms show ?thesis
    by (simp add: pct_point_def utf8_more_def utf8_point_def utf8_legal_def utf16_def)
qed

lemma decode_escape:
  "s = CHR ''%'' # r \<Longrightarrow> pct_point s = Some (u, t) \<Longrightarrow>
     decodeURIComponent s = bindR (decodeURIComponent t) (\<lambda>us. Inr (u @ us))"
  by simp

lemma char_code_bounds: "0 \<le> char_code c" "char_code c < 256"
  by (simp_all add: char_code_def of_char_def)

lemma decode_encode_char:
  "decodeURIComponent (encodeURIComponent [c] @ s) = bindR (decodeURIComponent s) (\<lambda>us. Inr (char_code c # us))"
proof -
  consider "uri_plain c" | "\<not> uri_plain c" "char_code c < 128" | "\<not> uri_plain c" "128 \<le> char_code c"
    by linarith
  then show ?thesis
  proof cases
    case 1
    then have "c \<noteq> CHR ''%''" by (auto simp: uri_plain_def char_code_def digit_def)
    with 1 show ?thesis by (simp add: encodeURIComponent_def)
  next
    case 2
    then show ?thesis
      using decode_escape [OF hex_byte_Cons pct_point_one [OF char_code_bounds(1), of c s]]
      by (simp add: encodeURIComponent_def)
  next
    case 3
    define x y where "x = char_code c div 64" and "y = char_code c mod 64"
    have n: "char_code c = 64 * x + y" by (simp add: x_def y_def)
    have "2 \<le> x" "x < 4" "0 \<le> y" "y < 64"
      using 3 char_code_bounds [of c] by (simp_all add: x_def y_def)
    then have "pct_point (hex_byte (192 + x) @ hex_byte (128 + y) @ s) = Some ([char_code c], s)"
      unfolding n by (rule pct_point_two)
    moreover have "encodeURIComponent [c] = hex_byte (192 + x) @ hex_byte (128 + y)"
      using 3 by (simp add: encodeURIComponent_def x_def y_def)
    ultimately show ?thesis
      using decode_escape [OF hex_byte_Cons, of "192 + x" "hex_byte (128 + y) @ s"] by simp
  qed
qed

lemma encode_Cons: "encodeURIComponent (c # s) = encodeURIComponent [c] @ encodeURIComponent s"
  by (simp add: encodeURIComponent_def)

lemma decode_encode_append:
  "decodeURIComponent (encodeURIComponent s @ t) = bindR (decodeURIComponent t) (\<lambda>us. Inr (units_of s @ us))"
proof (induction s)
  case Nil
  then show ?case by (cases "decodeURIComponent t") (simp_all add: encodeURIComponent_def)
next
  case (Cons c s)
  then show ?case
    by (cases "decodeURIComponent t") (simp_all add: encode_Cons [of c s] decode_encode_char del: decodeURIComponent.simps)
qed

lemma decode_encode: "decodeURIComponent (encodeURIComponent s) = Inr (units_of s)"
  using decode_encode_append [of s "[]"] by simp

end
