(* ===== verification/Console_Panels.thy ===== *)
theory Console_Panels
  imports Console_Sends Js_Uri
begin

text \<open>
  The panels of a campaign (\<open>cloud/console/src/pages/CampaignDetail.jsx\<close>): the scans with their pages, the
  printed QR, and the activity. Each has its own state, made when its tab is chosen. Asking for
  more scans is not awaited by anything, so the next click may come before its answer.
\<close>

section \<open>Scans\<close>

datatype scan_load = ScFirst | ScNext

record scans =
  sc_id :: jval
  sc_data :: jval
  sc_err :: "jserr option"
  sc_pages :: "jval list"
  sc_loads :: "scan_load promises"

datatype scans_ev = ScMore

definition scans_init :: "jval \<Rightarrow> scans" where
  "scans_init i = \<lparr>sc_id = i, sc_data = JNull, sc_err = None, sc_pages = [], sc_loads = []\<rparr>"

definition scans_path :: "jval \<Rightarrow> jval \<Rightarrow> string" where \<comment> \<open>of the campaign and the cursor\<close>
  "scans_path i cursor =
     ''/v1/campaigns/'' @ js_String i @ ''/scans?limit=100''
     @ (if truthy cursor then ''&cursor='' @ js_String cursor else [])"

definition fetch_page :: "'w console \<Rightarrow> scan_load \<Rightarrow> (('w, scans) on_visit, unit) io" where
  \<comment> \<open>\<open>fetchPage\<close>, for the first page or the one the last answer points to\<close>
  "fetch_page h k =
     bindIO (page_get (\<lambda>p. scans_path (sc_id p) (case k of ScFirst \<Rightarrow> JUndef | ScNext \<Rightarrow> get (sc_data p) ''next_cursor'')))
       (\<lambda>path. launch h path k sc_loads_update)"

definition scans_effect :: "'w console \<Rightarrow> (('w, scans) on_visit, unit) io" where
  "scans_effect h =
     bindIO (on_page (\<lambda>p. p\<lparr>sc_data := JNull, sc_err := None, sc_pages := []\<rparr>)) (\<lambda>_. fetch_page h ScFirst)"

definition scans_loaded :: "scan_load \<Rightarrow> jval js \<Rightarrow> scans \<Rightarrow> scans" where
  \<comment> \<open>a page after the first that is null throws when it is appended; here that is an error shown\<close>
  "scans_loaded k r p =
     (case r of
        Inl e \<Rightarrow> p\<lparr>sc_err := Some e\<rparr>
      | Inr d \<Rightarrow>
          (case field d ''scans'' of
             Inl e \<Rightarrow> p\<lparr>sc_data := d, sc_err := Some e\<rparr>
           | Inr v \<Rightarrow> p\<lparr>sc_data := d,
               sc_pages := (case k of ScFirst \<Rightarrow> items v | ScNext \<Rightarrow> sc_pages p @ items v)\<rparr>))"

definition scans_run :: "'w console \<Rightarrow> scans_ev \<Rightarrow> (('w, scans) on_visit, unit) io" where
  "scans_run h e = (case e of ScMore \<Rightarrow> fetch_page h ScNext)"

definition anchorPill :: \<open>jval \<Rightarrow> 'e html\<close> where
  \<open>anchorPill s =
     (if get s ''anchor'' = JStr ''committed'' then El ''span'' [(''className'', Val ''authtag''),
                                                                 (''title'',
                                                                  Val (if truthy (get s ''tx_hash'')
                                                                         then ''tx ''
                                                                         @ js_String (get s ''tx_hash'')
                                                                         else []))]
        [Text (''anclado '' @ [CHR 0xB7] @ '' ''),
         Text (shown (get s ''period_label''))] else if get s ''anchor'' = JStr ''legacy'' then El
        ''span'' [(''className'', Val ''authtag'')] [Text (''hist'' @ [CHR 0xF3] @ ''rico'')] else El
        ''span'' [(''className'', Val ''authtag'')] [Text ''por anclar''])\<close>

definition scan_summary :: "jval \<Rightarrow> (string \<times> jval) list" where
  "scan_summary d =
     (let s = get d ''summary'' in
      [(''Escaneos'', get s ''total_scans''), (''Personas distintas'', get s ''distinct_customers''),
       ((''Con ubicaci'' @ [CHR 0xF3] @ ''n''), get s ''with_location'')])"

definition scans_table :: \<open>'w console \<Rightarrow> scans \<Rightarrow> scans_ev html\<close> where
  \<open>scans_table h p =
     El ''div'' [(''style'',
                  Sty [(''display'', ''flex''), (''flexDirection'', ''column''), (''gap'', ''14'')])]
       ([El ''div'' [(''style'',
                      Sty [(''display'', ''flex''), (''gap'', ''12''), (''flexWrap'', ''wrap'')])]
           (concat (map (\<lambda> (label, value) .
                           [El ''div'' [(''className'', Val ''card''),
                                        (''style'',
                                         Sty [(''padding'', ''16px 20px''), (''flex'', ''1 1 160px'')])]
                              [El ''div'' [(''style'',
                                            Sty [(''fontSize'', ''12''), (''fontWeight'', ''600''),
                                                 (''color'', ''var(--ink-2)'')])] [Text label],
                               El ''div'' [(''className'', Val ''display''),
                                           (''style'', Sty [(''fontSize'', ''30'')])]
                                 [Text (shown value)]]]) (scan_summary (sc_data p))))]
          @
          (if sc_pages p = [] then
             [El ''div'' [(''className'', Val ''card''),
                          (''style'',
                           Sty [(''padding'', ''28px 24px''), (''display'', ''flex''),
                                (''flexDirection'', ''column''), (''gap'', ''8'')])]
                [El ''div'' [(''style'', Sty [(''fontSize'', ''14.5''), (''fontWeight'', ''650'')])]
                   [Text (''Todav''
                            @ [CHR 0xED]
                            @ ''a nadie escane''
                            @ [CHR 0xF3]
                            @ '' este c''
                            @ [CHR 0xF3]
                            @ ''digo'')],
                 El ''p'' [(''style'',
                            Sty [(''fontSize'', ''13.5''), (''color'', ''var(--ink-2)''),
                                 (''margin'', ''0''), (''lineHeight'', ''1.55'')])]
                   [Text (''Cuando alguien escanee el QR ver''
                            @ [CHR 0xE1]
                            @ ''s aqu''
                            @ [CHR 0xED]
                            @ '' la hora, los ''
                            @ [CHR 0xFA]
                            @ ''ltimos d''
                            @ [CHR 0xED]
                            @ ''gitos de su tel''
                            @ [CHR 0xE9]
                            @ ''fono y desde d''
                            @ [CHR 0xF3]
                            @ ''nde lo hizo.'')]]] else
             [El ''div'' [(''className'', Val ''card''), (''style'', Sty [(''overflow'', ''hidden'')])]
                ([El ''div'' [(''style'',
                               Sty [(''display'', ''grid''),
                                    (''gridTemplateColumns'', ''150px 110px 1fr 130px 120px''),
                                    (''gap'', ''12''), (''padding'', ''11px 20px''),
                                    (''borderBottom'', ''1px solid var(--line)''),
                                    (''background'', ''var(--surface-inset)'')])]
                    (concat (map (\<lambda>t.
                                    [El ''span'' [(''className'', Val ''eyebrow''),
                                                  (''style'', Sty [(''fontSize'', ''11'')])] [Text t]])
                               [(''Cu'' @ [CHR 0xE1] @ ''ndo''), (''Qui'' @ [CHR 0xE9] @ ''n''),
                                (''D'' @ [CHR 0xF3] @ ''nde''), (''C'' @ [CHR 0xF3] @ ''mo''),
                                ''En cadena'']))]
                   @
                   (concat (map (\<lambda>s.
                                   [El ''div'' [(''style'',
                                                 Sty [(''display'', ''grid''),
                                                      (''gridTemplateColumns'',
                                                       ''150px 110px 1fr 130px 120px''),
                                                      (''gap'', ''12''), (''padding'', ''12px 20px''),
                                                      (''borderBottom'', ''1px solid var(--line)''),
                                                      (''alignItems'', ''center''),
                                                      (''fontSize'', ''13'')])]
                                      [El ''span'' [(''style'', Sty [(''color'', ''var(--ink-2)'')])]
                                         [Text (fmtDateTime h (get s ''created_at''))],
                                       El ''span'' [(''className'', Val ''mono'')]
                                         (if truthy (get s ''customer_tail'') then
                                            [Text ([CHR 0xB7, CHR 0xB7, CHR 0xB7]
                                                     @ js_String (get s ''customer_tail''))] else
                                            [El ''span'' [(''style'',
                                                           Sty [(''color'', ''var(--ink-3)'')])]
                                               [Text (''an'' @ [CHR 0xF3] @ ''nimo'')]]),
                                       El ''span'' []
                                         (if \<not> nullish (get s ''lat'') then
                                            [El ''a'' [(''className'', Val ''mono''),
                                                       (''style'', Sty [(''fontSize'', ''12'')]),
                                                       (''target'', Val ''_blank''),
                                                       (''rel'', Val ''noreferrer''),
                                                       (''href'',
                                                        Val (''https://www.google.com/maps?q=''
                                                               @ js_String (get s ''lat'')
                                                               @ '',''
                                                               @ js_String (get s ''lon'')))]
                                               ([Text (toFixed 5 (js_Number (get s ''lat''))),
                                                 Text '', '',
                                                 Text (toFixed 5 (js_Number (get s ''lon''))),
                                                 Text ('' '' @ [CHR 0x9A])]
                                                  @
                                                  (if \<not> nullish (get s ''accuracy_m'') then
                                                     [El ''span'' [(''style'',
                                                                    Sty [(''color'',
                                                                          ''var(--ink-3)'')])]
                                                        [Text ('' '' @ [CHR 0xB1]),
                                                         Text (num_str (jround
                                                                          (js_Number
                                                                             (get s ''accuracy_m'')))),
                                                         Text '' m'']] else []))] else
                                            [El ''span'' [(''style'',
                                                           Sty [(''color'', ''var(--ink-3)'')])]
                                               [Text (''sin ubicaci'' @ [CHR 0xF3] @ ''n'')]]),
                                       El ''span'' [(''className'', Val ''mono''),
                                                    (''style'',
                                                     Sty [(''fontSize'', ''11.5''),
                                                          (''color'', ''var(--ink-3)'')])]
                                         [Text (if truthy (get s ''evidence_type'') then js_String
                                                  (get s ''evidence_type'') else [CHR 0x97])],
                                       El ''span'' [] [anchorPill s]]]) (sc_pages p)))
                   @
                   (if truthy (get (sc_data p) ''next_cursor'') then
                      [El ''div'' [(''style'', Sty [(''padding'', ''12px 20px'')])]
                         [El ''button'' [(''className'', Val ''btn-plain''),
                                         (''style'', Sty [(''fontSize'', ''13'')]),
                                         (''onClick'', On ScMore)]
                            [Text (''Cargar m'' @ [CHR 0xE1] @ ''s'')]]] else []))])
          @
          [El ''p'' [(''className'', Val ''help''), (''style'', Sty [(''margin'', ''0'')])]
             [Text (''De cada persona guardamos solo los ''
                      @ [CHR 0xFA]
                      @ ''ltimos cuatro d''
                      @ [CHR 0xED]
                      @ ''gitos: alcanza para aplicar ''
                      @ [CHR 0xAB]
                      @ ''una vez por persona''
                      @ [CHR 0xBB]
                      @ '' sin construir una base de datos de clientes. La ubicaci''
                      @ [CHR 0xF3]
                      @ ''n es la que el cliente comparti''
                      @ [CHR 0xF3]
                      @ '' por WhatsApp ''
                      @ [CHR 0x97]
                      @ '' queda en tu panel, no en el comprobante p''
                      @ [CHR 0xFA]
                      @ ''blico.'')]])\<close>

definition panel_error :: "jserr option \<Rightarrow> 'e html" where
  "panel_error e =
     El ''div'' [(''className'', Val ''card''), (''style'', Sty [(''padding'', ''24'')])] (ErrText e)"

definition scans_view :: \<open>'w console \<Rightarrow> scans \<Rightarrow> scans_ev html\<close> where
  \<open>scans_view h p =
     (if sc_err p \<noteq> None then panel_error (sc_err p) else if \<not> truthy (sc_data p) then El
        ''div'' [(''className'', Val ''card''), (''style'', Sty [(''padding'', ''24'')])]
        [El ''div'' [(''className'', Val ''faint'')] [Text (''Cargando escaneos'' @ [CHR 0x85])]] else
        scans_table h p)\<close>

section \<open>The printed QR\<close>

record qr_panel =
  qr_id :: jval
  qr_qr :: jval
  qr_err :: "jserr option"
  qr_loads :: "unit promises"

datatype qr_ev = QrCopy string string \<comment> \<open>the text and what the toast says of it\<close>

definition qr_init :: "jval \<Rightarrow> qr_panel" where
  "qr_init i = \<lparr>qr_id = i, qr_qr = JNull, qr_err = None, qr_loads = []\<rparr>"

definition qr_effect :: "'w console \<Rightarrow> (('w, qr_panel) on_visit, unit) io" where
  "qr_effect h =
     bindIO (on_page (\<lambda>p. p\<lparr>qr_qr := JNull, qr_err := None\<rparr>)) (\<lambda>_.
     bindIO (page_get (\<lambda>p. ''/v1/campaigns/'' @ js_String (qr_id p) @ ''/qr'')) (\<lambda>path.
     launch h path () qr_loads_update))"

definition qr_loaded :: "jval js \<Rightarrow> qr_panel \<Rightarrow> qr_panel" where
  "qr_loaded r p = (case r of Inr d \<Rightarrow> p\<lparr>qr_qr := d\<rparr> | Inl e \<Rightarrow> p\<lparr>qr_err := Some e\<rparr>)"

definition qr_run :: "'w console \<Rightarrow> (string \<Rightarrow> unit js) \<Rightarrow> qr_ev \<Rightarrow> (('w, qr_panel) on_visit, unit) io" where
  \<comment> \<open>the clipboard takes the text or rejects\<close>
  "qr_run h clip e =
     (case e of QrCopy text what \<Rightarrow>
        catchIO (bindIO (liftIO (clip text)) (\<lambda>_. pop_up h ''Copiado'' what ''success'')) (pop_err h))"

definition png_url :: "qr_panel \<Rightarrow> string" where
  "png_url p = ''/api/v1/campaigns/'' @ js_String (qr_id p) @ ''/qr.png?code=''
     @ encodeURIComponent (js_String (get (qr_qr p) ''code''))"

definition qr_view :: \<open>qr_panel \<Rightarrow> qr_ev html\<close> where
  \<open>qr_view p =
     (if qr_err p \<noteq> None then panel_error (qr_err p) else if \<not> truthy (qr_qr p) then El
        ''div'' [(''className'', Val ''card''), (''style'', Sty [(''padding'', ''24'')])]
        [El ''div'' [(''className'', Val ''faint'')] [Text (''Generando el QR'' @ [CHR 0x85])]] else El
        ''div'' [(''style'',
                  Sty [(''display'', ''flex''), (''gap'', ''20''), (''alignItems'', ''flex-start''),
                       (''flexWrap'', ''wrap'')])]
        [El ''div'' [(''className'', Val ''card''),
                     (''style'',
                      Sty [(''padding'', ''24''), (''display'', ''flex''), (''gap'', ''22''),
                           (''alignItems'', ''flex-start''), (''flex'', ''1 1 460px'')])]
           [El ''img'' [(''src'', Val (png_url p)),
                        (''alt'', Val (''QR de '' @ js_String (get (qr_qr p) ''code''))),
                        (''width'', Val ''190''), (''height'', Val ''190''),
                        (''style'',
                         Sty [(''imageRendering'', ''pixelated''), (''borderRadius'', ''12''),
                              (''border'', ''1px solid var(--line)''), (''background'', ''#fff''),
                              (''padding'', ''8''), (''flex'', ''none'')])] [],
            El ''div'' [(''style'',
                         Sty [(''display'', ''flex''), (''flexDirection'', ''column''),
                              (''gap'', ''12''), (''minWidth'', ''0'')])]
              [El ''div'' []
                 [El ''div'' [(''className'', Val ''eyebrow''),
                              (''style'', Sty [(''fontSize'', ''11'')])]
                    [Text ''Un solo QR para todas las unidades''],
                  El ''p'' [(''style'',
                             Sty [(''fontSize'', ''13.5''), (''color'', ''var(--ink-2)''),
                                  (''margin'', ''6px 0 0''), (''lineHeight'', ''1.55'')])]
                    [Text (''P''
                             @ [CHR 0xE9]
                             @ ''galo en la botella, la mesa o el volante. La c''
                             @ [CHR 0xE1]
                             @ ''mara del tel''
                             @ [CHR 0xE9]
                             @ ''fono abre WhatsApp con el mensaje cargado ''
                             @ [CHR 0x97]
                             @ '' el cliente solo aprieta enviar.'')]],
               El ''div'' [(''className'', Val ''mono''),
                           (''style'',
                            Sty [(''fontSize'', ''11.5''), (''background'', ''var(--surface-inset)''),
                                 (''border'', ''1px solid var(--line)''), (''borderRadius'', ''10''),
                                 (''padding'', ''9px 11px''), (''wordBreak'', ''break-all'')])]
                 [Text (shown (get (qr_qr p) ''deep_link''))],
               El ''div'' [(''style'',
                            Sty [(''display'', ''flex''), (''gap'', ''8''), (''flexWrap'', ''wrap'')])]
                 [El ''a'' [(''className'', Val ''btn-plain''),
                            (''style'', Sty [(''fontSize'', ''13''), (''textDecoration'', ''none'')]),
                            (''href'', Val (png_url p)),
                            (''download'',
                             Val (''soroticket-''
                                    @ toLowerCase (js_String (get (qr_qr p) ''code''))
                                    @ ''.png''))] [Text ''Descargar QR''],
                  El ''button'' [(''className'', Val ''btn-plain''),
                                 (''style'', Sty [(''fontSize'', ''13'')]),
                                 (''onClick'',
                                  On (QrCopy (js_String (get (qr_qr p) ''deep_link''))
                                        (''El link de WhatsApp est''
                                           @ [CHR 0xE1]
                                           @ '' en tu portapapeles.'')))] [Text ''Copiar link''],
                  El ''a'' [(''className'', Val ''btn-plain''),
                            (''style'', Sty [(''fontSize'', ''13''), (''textDecoration'', ''none'')]),
                            (''href'', Val (js_String (get (qr_qr p) ''deep_link''))),
                            (''target'', Val ''_blank''), (''rel'', Val ''noreferrer'')]
                    [Text ''Probarlo yo'']],
               El ''span'' [(''className'', Val ''help'')]
                 [Text ''El QR lleva un identificador opaco ('',
                  El ''span'' [(''className'', Val ''mono'')]
                    [Text (shown (get (qr_qr p) ''scan_token''))],
                  Text (''), no el c'' @ [CHR 0xF3] @ ''digo''),
                  El ''span'' [(''className'', Val ''mono'')]
                    [Text '' '',
                     Text (shown (get (qr_qr p) ''code''))],
                  Text ('': quien lea el QR no ve de qu'' @ [CHR 0xE9] @ '' promo se trata.'')]]],
         El ''div'' [(''className'', Val ''card''),
                     (''style'',
                      Sty [(''padding'', ''18px 20px''), (''flex'', ''0 1 300px''),
                           (''display'', ''flex''), (''flexDirection'', ''column''),
                           (''gap'', ''10'')])]
           [El ''div'' [(''className'', Val ''eyebrow''), (''style'', Sty [(''fontSize'', ''11'')])]
              [Text ''Antes de mandarlo a imprenta''],
            El ''p'' [(''style'',
                       Sty [(''fontSize'', ''13''), (''color'', ''var(--ink-2)''), (''margin'', ''0''),
                            (''lineHeight'', ''1.55'')])]
              [Text (''Escanea este QR con tu propio tel''
                       @ [CHR 0xE9]
                       @ ''fono y completa el flujo una vez. Si el d''
                       @ [CHR 0xED]
                       @
                       ''a del evento hay gente esperando, no es el momento de descubrir que algo no estaba conectado.'')],
            El ''p'' [(''style'',
                       Sty [(''fontSize'', ''13''), (''color'', ''var(--ink-2)''), (''margin'', ''0''),
                            (''lineHeight'', ''1.55'')])]
              [Text ''Bot de WhatsApp: '',
               El ''span'' [(''className'', Val ''mono'')]
                 [Text ''+'',
                  Text (shown (get (qr_qr p) ''wa_number''))],
               Text ('' '' @ [CHR 0x97] @ '' lo provee Soroticket, no tienes que configurar nada.'')]]])\<close>

section \<open>The activity\<close>

record activity_list =
  al_id :: jval
  al_items :: "jval list"
  al_loads :: "unit promises"

definition activity_init :: "jval \<Rightarrow> activity_list" where
  "activity_init i = \<lparr>al_id = i, al_items = [], al_loads = []\<rparr>"

definition activity_effect :: "'w console \<Rightarrow> (('w, activity_list) on_visit, unit) io" where
  "activity_effect h = launch h ''/v1/activity'' () al_loads_update"

definition activity_loaded :: "jval js \<Rightarrow> activity_list \<Rightarrow> activity_list" where
  "activity_loaded r p =
     (case r of
        Inr d \<Rightarrow> p\<lparr>al_items := filter (\<lambda>a. get a ''campaign_id'' = al_id p) (items (get d ''activity''))\<rparr>
      | Inl _ \<Rightarrow> p)"

definition activity_view :: \<open>'w console \<Rightarrow> activity_list \<Rightarrow> 'e html\<close> where
  \<open>activity_view h p =
     (if al_items p = [] then El ''div'' [(''className'', Val ''empty'')]
        [El ''span'' [(''className'', Val ''mono''),
                      (''style'', Sty [(''fontSize'', ''12.5''), (''color'', ''var(--ink-3)'')])]
           [Text ''No activity for this campaign yet.'']] else El ''div'' [(''className'',
                                                                            Val ''card''),
                                                                           (''style'',
                                                                            Sty
                                                                              [(''padding'',
                                                                                ''8px 0'')])]
        (concat (map (\<lambda> (i, a) .
                        [El ''div'' [(''style'',
                                      Sty [(''display'', ''flex''), (''alignItems'', ''center''),
                                           (''gap'', ''9''), (''padding'', ''9px 22px''),
                                           (''borderTop'',
                                            (if i = 0 then ''none'' else ''1px solid var(--line)'')),
                                           (''fontSize'', ''12.5'')])]
                           ([El ''span'' [(''className'', Val ''mono''),
                                          (''style'',
                                           Sty [(''fontSize'', ''11''), (''color'', ''var(--ink-3)''),
                                                (''width'', ''76''), (''flex'', ''none'')])]
                               [Text (fmtDateTime h (get a ''ts''))]]
                              @
                              (if truthy (get a ''code'') then
                                 [El ''span'' [(''className'',
                                                Val (''code-chip''
                                                       @ (if get a ''kind'' = JStr ''rejected'' then
                                                            '' bad'' else [])))]
                                    [Text (shown (get a ''code''))]] else [])
                              @
                              [El ''span'' [(''style'',
                                             Sty [(''color'',
                                                   (if get a ''kind'' = JStr ''rejected'' then
                                                      ''var(--burned)'' else ''var(--ink-2)''))])]
                                 [Text (shown (get a ''message''))],
                               El ''span'' [(''style'', Sty [(''marginLeft'', ''auto'')])]
                                 (TxLink (get a ''tx_hash'') [])])]) (enumerate 0 (al_items p)))))\<close>

section \<open>The contract of a page\<close>

lemma panels_send:
  "disciplined h (scans_run h e)" "disciplined h (scans_effect h)"
  "disciplined h (qr_run h clip e')" "disciplined h (qr_effect h)" "disciplined h (activity_effect h)"
  by (cases e, simp add: scans_run_def fetch_page_def, (intro sends_intros)+)
    (unfold scans_effect_def fetch_page_def qr_effect_def activity_effect_def, intro sends_intros,
     cases e', simp add: qr_run_def, (intro sends_intros)+)

interpretation scans_panel: page h "scans_run h" "scans_effect h" for h
  by unfold_locales (rule panels_send)+

interpretation qr_page: page h "qr_run h clip" "qr_effect h" for h clip
  by unfold_locales (rule panels_send)+

interpretation activity_panel: page h "\<lambda>_ :: unit. returnIO ()" "activity_effect h" for h
  by unfold_locales (intro sends_pure panels_send)+

end
