(* ===== verification/Console_Campaign.thy ===== *)
theory Console_Campaign
  imports Console_Campaigns Console_Panels
begin

text \<open>
  The page of one campaign (\<open>cloud/console/src/pages/CampaignDetail.jsx\<close>): its figures and codes, archiving
  it, and the dialogs that issue codes and record events. The panels of the other tabs have
  states of their own and stay elements with their name.
\<close>

section \<open>State\<close>

record issue_dialog =
  is_mode :: string
  is_count :: string
  is_prefix :: string
  is_pasted :: string
  is_busy :: bool
  is_err :: "jserr option"

record events_dialog =
  ed_count :: string
  ed_orderRef :: string
  ed_busy :: bool
  ed_err :: "jserr option"

record campaign_page =
  dp_id :: jnum
  dp_data :: jval
  dp_tab :: string
  dp_issue :: "issue_dialog option"
  dp_events :: "events_dialog option"
  dp_q :: string
  dp_loads :: "unit promises"

definition campaign_init :: "jnum \<Rightarrow> campaign_page" where
  "campaign_init i = \<lparr>dp_id = i, dp_data = JNull, dp_tab = ''codes'', dp_issue = None, dp_events = None,
     dp_q = [], dp_loads = []\<rparr>"

definition issue_init :: "jval \<Rightarrow> issue_dialog" where \<comment> \<open>for a campaign\<close>
  "issue_init c = \<lparr>is_mode = ''generate'', is_count = ''10'',
     is_prefix = (if get c ''kind'' = JStr ''ticket'' then ''TICKET'' else ''BURN''), is_pasted = [],
     is_busy = False, is_err = None\<rparr>"

definition events_init :: events_dialog where
  "events_init = \<lparr>ed_count = ''1'', ed_orderRef = [], ed_busy = False, ed_err = None\<rparr>"

datatype campaign_ev = DpNav string | DpArchive | DpIssue | DpEvents | DpTab string | DpFind string
  | DpExport string string | DpCopy string
  | IsMode string | IsCount string | IsPrefix string | IsPasted string | IsSubmit | IsCancel
  | EdCount string | EdOrderRef string | EdSubmit | EdCancel

definition the_campaign :: "campaign_page \<Rightarrow> jval" where
  "the_campaign p = get (dp_data p) ''campaign''"

definition isUniqueKind :: "jval \<Rightarrow> bool" where
  "isUniqueKind k \<longleftrightarrow> k \<in> {JStr ''voucher'', JStr ''ticket'', JStr ''loyalty''}"

definition shown_codes :: "campaign_page \<Rightarrow> jval list" where \<comment> \<open>\<open>codes\<close>\<close>
  "shown_codes p = filter (\<lambda>cd. dp_q p = [] \<or> has_text (get cd ''code'') (dp_q p)) (items (get (dp_data p) ''codes''))"

definition used_percent :: "jval \<Rightarrow> jnum" where \<comment> \<open>\<open>pct\<close>\<close>
  "used_percent c =
     (if isUniqueKind (get c ''kind'')
      then jround (jmul (jdiv (js_Number (get c ''burned'')) (jmax (Fin 1) (js_Number (get c ''total_supply'')))) (Fin 100))
      else Fin 0)"

definition expiresDays :: "int \<Rightarrow> jval \<Rightarrow> jnum" where
  "expiresDays now c =
     jmax (Fin 0) (jround (jdiv (jsub (times (js_Number (get c ''valid_until'')) 1000) (num now)) (Fin 86400000)))"

section \<open>Loading and archiving\<close>

definition campaign_load :: "'w console \<Rightarrow> (('w, campaign_page) on_visit, unit) io" where
  "campaign_load h =
     bindIO (page_get dp_id) (\<lambda>i. launch h (''/v1/campaigns/'' @ num_str i) () dp_loads_update)"

definition campaign_loaded :: "jval js \<Rightarrow> (('w, campaign_page) on_visit, unit) io" where
  "campaign_loaded r = (case r of Inr d \<Rightarrow> on_page (\<lambda>p. p\<lparr>dp_data := d\<rparr>) | Inl _ \<Rightarrow> in_visit (nav ''/campaigns''))"

definition campaign_effect :: "'w console \<Rightarrow> (('w, campaign_page) on_visit, unit) io" where
  "campaign_effect h = bindIO (on_page (\<lambda>p. p\<lparr>dp_data := JNull\<rparr>)) (\<lambda>_. campaign_load h)"

definition archive :: "'w console \<Rightarrow> (('w, campaign_page) on_visit, unit) io" where
  "archive h =
     catchIO
       (bindIO (page_get dp_id) (\<lambda>i.
        bindIO (keyed_post h (''/v1/campaigns/'' @ num_str i @ ''/archive'') (JObj [])) (\<lambda>_.
        bindIO (pop_up h ''Archived''
          ''New Cloud issues, redemptions and events are blocked; existing chain state is unchanged.'' ''success'')
          (\<lambda>_. campaign_load h))))
       (pop_err h)"

section \<open>Issuing codes\<close>

definition pasted_codes :: "string \<Rightarrow> string list" where \<comment> \<open>\<open>pasted.split(/[\s,]+/).filter(Boolean)\<close>\<close>
  "pasted_codes t = filter (\<lambda>w. w \<noteq> []) (split_runs (\<lambda>c. ws c \<or> c = CHR '','') t)"

definition issue_count :: "issue_dialog \<Rightarrow> jnum" where \<comment> \<open>\<open>n\<close>\<close>
  "issue_count d =
     (if is_mode d = ''generate'' then num_or (to_number (is_count d)) (Fin 0)
      else num (int (length (pasted_codes (is_pasted d)))))"

definition remaining :: "jval \<Rightarrow> jnum" where
  "remaining c = jsub (js_Number (get c ''total_supply'')) (js_Number (get c ''minted''))"

definition issue_blocked :: "jval \<Rightarrow> issue_dialog \<Rightarrow> bool" where \<comment> \<open>\<open>n === 0 || n > remaining\<close>\<close>
  "issue_blocked c d \<longleftrightarrow> issue_count d = Fin 0 \<or> jless (remaining c) (issue_count d)"

definition issue_body :: "issue_dialog \<Rightarrow> jval" where
  "issue_body d =
     (if is_mode d = ''generate''
      then JObj [(''generate'', JObj [(''count'', JNum (to_number (is_count d))), (''prefix'', JStr (is_prefix d))])]
      else JObj [(''codes'', JArr (map JStr (pasted_codes (is_pasted d))))])"

definition codeFormat :: "issue_dialog \<Rightarrow> string" where
  "codeFormat d = (if is_prefix d = [] then [] else is_prefix d @ ''-'') @ ''XXXXXXXXXXXX''"

definition issue_toast :: "'w console \<Rightarrow> issue_dialog \<Rightarrow> jval \<Rightarrow> (('w, campaign_page) on_visit, unit) io" where
  \<comment> \<open>an answer with an error is a batch that stopped early\<close>
  "issue_toast h d r =
     bindIO (read_field r ''error'') (\<lambda>err.
     bindIO (read_field r ''issued'') (\<lambda>issued.
     bindIO (read_field issued ''length'') (\<lambda>_.
     let n = dec (int (length (items issued))) in
     if truthy err
     then pop_up h (n @ '' of '' @ num_str (issue_count d) @ '' codes issued '' @ [CHR 0x97] @ '' batch stopped early'')
       (js_String (js_or (get err ''message'') (JStr ''The remaining codes were not issued; retry them.''))) ''error''
     else pop_up h (n @ '' codes issued'')
       (''Written on-chain '' @ [CHR 0x97] @ '' QR payloads in the CSV export.'') ''success'')))"

definition set_issue :: "(issue_dialog \<Rightarrow> issue_dialog) \<Rightarrow> campaign_page \<Rightarrow> campaign_page" where
  "set_issue f p = p\<lparr>dp_issue := map_option f (dp_issue p)\<rparr>"

definition issue_now :: "'w console \<Rightarrow> jval \<Rightarrow> issue_dialog \<Rightarrow> (('w, campaign_page) on_visit, unit) io" where
  \<comment> \<open>\<open>submit\<close> of the dialog, for the campaign it shows\<close>
  "issue_now h c d =
     bindIO (on_page (set_issue (\<lambda>x. x\<lparr>is_busy := True, is_err := None\<rparr>))) (\<lambda>_.
     catchIO
       (bindIO (keyed_post h (''/v1/campaigns/'' @ js_String (get c ''id'') @ ''/codes'') (issue_body d)) (\<lambda>r.
        bindIO (issue_toast h d r) (\<lambda>_.
        bindIO (on_page (\<lambda>p. p\<lparr>dp_issue := None\<rparr>)) (\<lambda>_. campaign_load h))))
       (\<lambda>e. on_page (set_issue (\<lambda>x. x\<lparr>is_err := Some e, is_busy := False\<rparr>))))"

section \<open>Recording events\<close>

definition events_body :: "events_dialog \<Rightarrow> jval js" where
  "events_body d =
     (let n = to_number (ed_count d) in
      if \<not> safe_int n \<or> jless n (Fin 1) \<or> jless (Fin 10000) n
      then Inl (RangeError ''Conversions must be an integer between 1 and 10,000.'')
      else Inr (JObj [(''count'', JNum n), (''order_ref'', JStr (ed_orderRef d))]))"

definition events_toast :: "'w console \<Rightarrow> events_dialog \<Rightarrow> jval \<Rightarrow> (('w, campaign_page) on_visit, unit) io" where
  "events_toast h d r =
     bindIO (read_field r ''pending_events'') (\<lambda>pend.
     pop_up h (''+'' @ num_str (to_number (ed_count d)) @ '' events recorded'')
       (if pend = JUndef then ''Signed receipt stored.''
        else js_String pend @ '' pending for the next on-chain anchor.'') ''success'')"

definition set_events :: "(events_dialog \<Rightarrow> events_dialog) \<Rightarrow> campaign_page \<Rightarrow> campaign_page" where
  "set_events f p = p\<lparr>dp_events := map_option f (dp_events p)\<rparr>"

definition events_now :: "'w console \<Rightarrow> jval \<Rightarrow> events_dialog \<Rightarrow> (('w, campaign_page) on_visit, unit) io" where
  "events_now h c d =
     bindIO (on_page (set_events (\<lambda>x. x\<lparr>ed_busy := True, ed_err := None\<rparr>))) (\<lambda>_.
     catchIO
       (bindIO (liftIO (events_body d)) (\<lambda>body.
        bindIO (keyed_post h (''/v1/shared-codes/'' @ js_String (get c ''id'') @ ''/'' @ js_String (get c ''shared_code'')
          @ ''/events'') body) (\<lambda>r.
        bindIO (events_toast h d r) (\<lambda>_.
        bindIO (on_page (\<lambda>p. p\<lparr>dp_events := None\<rparr>)) (\<lambda>_. campaign_load h)))))
       (\<lambda>e. on_page (set_events (\<lambda>x. x\<lparr>ed_err := Some e, ed_busy := False\<rparr>))))"

section \<open>Events of the page\<close>

definition tab_disabled :: "jval \<Rightarrow> string \<Rightarrow> bool" where
  "tab_disabled c k \<longleftrightarrow> k = ''settlement'' \<and> \<not> truthy (get c ''attributed_to'')"

definition campaign_run :: "'w console \<Rightarrow> campaign_ev \<Rightarrow> (('w, campaign_page) on_visit, unit) io" where
  "campaign_run h e =
     bindIO (page_get (\<lambda>p. p)) (\<lambda>p.
     let c = the_campaign p in
     case (e, dp_issue p, dp_events p) of
        (DpNav r, _) \<Rightarrow> in_visit (nav r)
      | (DpArchive, _) \<Rightarrow> archive h
      | (DpIssue, None, _) \<Rightarrow> on_page (\<lambda>p. p\<lparr>dp_issue := Some (issue_init c)\<rparr>)
      | (DpEvents, _, None) \<Rightarrow> on_page (\<lambda>p. p\<lparr>dp_events := Some events_init\<rparr>)
      | (DpTab k, _) \<Rightarrow>
          if tab_disabled c k then returnIO ()
          else if k = ''settlement'' then in_visit (nav ''/settlements'')
          else on_page (\<lambda>p. p\<lparr>dp_tab := k\<rparr>)
      | (DpFind t, _) \<Rightarrow> on_page (\<lambda>p. p\<lparr>dp_q := t\<rparr>)
      | (DpCopy t, _) \<Rightarrow> pop_up h ''QR payload copied'' t ''success''
      | (IsMode m, _) \<Rightarrow> on_page (set_issue (\<lambda>x. x\<lparr>is_mode := m\<rparr>))
      | (IsCount t, _) \<Rightarrow> on_page (set_issue (\<lambda>x. x\<lparr>is_count := t\<rparr>))
      | (IsPrefix t, _) \<Rightarrow> on_page (set_issue (\<lambda>x. x\<lparr>is_prefix := toUpperCase t\<rparr>))
      | (IsPasted t, _) \<Rightarrow> on_page (set_issue (\<lambda>x. x\<lparr>is_pasted := toUpperCase t\<rparr>))
      | (IsSubmit, Some d, _) \<Rightarrow> issue_now h c d
      | (IsCancel, _) \<Rightarrow> on_page (\<lambda>p. p\<lparr>dp_issue := None\<rparr>)
      | (EdCount t, _) \<Rightarrow> on_page (set_events (\<lambda>x. x\<lparr>ed_count := t\<rparr>))
      | (EdOrderRef t, _) \<Rightarrow> on_page (set_events (\<lambda>x. x\<lparr>ed_orderRef := t\<rparr>))
      | (EdSubmit, _, Some d) \<Rightarrow> events_now h c d
      | (EdCancel, _) \<Rightarrow> on_page (\<lambda>p. p\<lparr>dp_events := None\<rparr>)
      | _ \<Rightarrow> returnIO () \<comment> \<open>the file goes to the browser\<close>)"

section \<open>The export\<close>

definition qr_payload :: "jval \<Rightarrow> jval \<Rightarrow> string" where
  "qr_payload c cd = ''soroticket:'' @ js_String (get c ''chain_id'') @ '':'' @ js_String (get cd ''code'')"

definition csv_line :: "jval \<Rightarrow> jval \<Rightarrow> string" where
  "csv_line c cd =
     js_String (get cd ''code'') @ '','' @ js_String (get cd ''status'') @ '','' @ js_String (get cd ''token_id'')
     @ [CHR '','', CHR 0x22] @ qr_payload c cd @ [CHR 0x22]"

definition csv_text :: "jval \<Rightarrow> jval list \<Rightarrow> string" where
  "csv_text c cds =
     ''code,status,token_id,qr_payload'' @ [CHR 0x0A] @ join [CHR 0x0A] (map (csv_line c) cds)"

definition csv_name :: "jval \<Rightarrow> string" where
  "csv_name c = join ''-'' (split_runs ws (js_String (get c ''name''))) @ ''-codes.csv''"

section \<open>Elements\<close>

definition codes_tab :: \<open>'w console \<Rightarrow> campaign_page \<Rightarrow> campaign_ev html list\<close> where
  \<open>codes_tab h p =
     (let c = the_campaign p in
        [El ''div'' [(''style'',
                      Sty [(''display'', ''flex''), (''gap'', ''10''), (''alignItems'', ''center'')])]
           [El ''input'' [(''className'', Val ''input mono''), (''placeholder'', Val ''Find a code''),
                          (''value'', Val (dp_q p)), (''onChange'', OnV DpFind),
                          (''style'',
                           Sty [(''width'', ''240''), (''fontSize'', ''12.5''), (''paddingTop'', ''9''),
                                (''paddingBottom'', ''9'')])] [],
            El ''div'' [(''style'', Sty [(''flex'', ''1'')])] [],
            El ''button'' [(''className'', Val ''btn-plain''),
                           (''style'', Sty [(''fontSize'', ''13'')]),
                           (''onClick'',
                            On (DpExport (csv_name c) (csv_text c (items (get (dp_data p)
                                                                            ''codes'')))))]
              [Text ''Export CSV'']]]
        @
        (if shown_codes p = [] then
           [El ''div'' [(''className'', Val ''empty'')]
              [El ''p'' [(''style'',
                          Sty [(''fontSize'', ''13.5''), (''color'', ''var(--ink-2)''),
                               (''margin'', ''0'')])]
                 [Text (''No codes yet '' @ [CHR 0x97] @ '' issue a batch to get started.'')],
               BtnPrimary [Text ''Issue codes''] DpIssue False False
                 [Ic_c ''plus'' [(''width'', Val ''13''), (''height'', Val ''13'')]] True []]] else
           [El ''div'' [(''className'', Val ''card''), (''style'', Sty [(''overflow'', ''hidden'')])]
              ([El ''div'' [(''style'',
                             Sty [(''display'', ''grid''),
                                  (''gridTemplateColumns'', ''1.6fr 1fr 1fr 1fr 44px''),
                                  (''gap'', ''14''), (''padding'', ''11px 20px''),
                                  (''borderBottom'', ''1px solid var(--line)''),
                                  (''background'', ''var(--surface-inset)'')])]
                  (concat (map (\<lambda> (i, t) .
                                  [El ''span'' [(''className'', Val ''eyebrow''),
                                                (''style'',
                                                 Sty [(''fontSize'', ''11''),
                                                      (''textAlign'',
                                                       (if i = 4 then ''right'' else ''left''))])]
                                     [Text t]]) (enumerate 0 [''Code'', ''Status'', ''Issued'',
                                                              ''Redeemed'', ''QR''])))]
                 @
                 (concat (map (\<lambda>cd.
                                 [El ''div'' [(''style'',
                                               Sty [(''display'', ''grid''),
                                                    (''gridTemplateColumns'',
                                                     ''1.6fr 1fr 1fr 1fr 44px''), (''gap'', ''14''),
                                                    (''padding'', ''12px 20px''),
                                                    (''borderBottom'', ''1px solid var(--line)''),
                                                    (''alignItems'', ''center'')])]
                                    ([El ''span'' [(''className'', Val ''mono''),
                                                   (''style'',
                                                    Sty [(''fontSize'', ''13''),
                                                         (''fontWeight'', ''500'')])]
                                        [Text (shown (get cd ''code''))]]
                                       @
                                       (if get cd ''status'' = JStr ''redeemed'' then
                                          [Pill_c [] [Text ''Redeemed'']] else
                                          [Pill_c ''valid'' [Text ''Active'']])
                                       @
                                       [El ''span'' [(''style'',
                                                      Sty [(''fontSize'', ''12.5''),
                                                           (''color'', ''var(--ink-2)'')])]
                                          [Text (fmtDate h (get cd ''created_at''))],
                                        El ''span'' [(''style'',
                                                      Sty [(''fontSize'', ''12.5''),
                                                           (''color'',
                                                            (if truthy (get cd ''redeemed_at'') then
                                                               ''var(--ink-2)'' else
                                                               ''var(--ink-3)''))])]
                                          [Text (if truthy (get cd ''redeemed_at'') then fmtDateTime h
                                                   (get cd ''redeemed_at'') else [CHR 0x97])],
                                        El ''button'' [(''title'', Val ''Copy QR payload''),
                                                       (''style'',
                                                        Sty [(''justifySelf'', ''end''),
                                                             (''color'', ''var(--ink-3)'')]),
                                                       (''onClick'', On (DpCopy (qr_payload c cd)))]
                                          [El ''svg'' [(''viewBox'', Val ''0 0 24 24''),
                                                       (''fill'', Val ''none''),
                                                       (''stroke'', Val ''currentColor''),
                                                       (''strokeWidth'', Val ''1.8''),
                                                       (''strokeLinecap'', Val ''round''),
                                                       (''strokeLinejoin'', Val ''round''),
                                                       (''width'', Val ''16''),
                                                       (''height'', Val ''16'')]
                                             [El ''rect'' [(''x'', Val ''4''), (''y'', Val ''4''),
                                                           (''width'', Val ''6''),
                                                           (''height'', Val ''6''),
                                                           (''rx'', Val ''1.2'')] [],
                                              El ''rect'' [(''x'', Val ''14''), (''y'', Val ''4''),
                                                           (''width'', Val ''6''),
                                                           (''height'', Val ''6''),
                                                           (''rx'', Val ''1.2'')] [],
                                              El ''rect'' [(''x'', Val ''4''), (''y'', Val ''14''),
                                                           (''width'', Val ''6''),
                                                           (''height'', Val ''6''),
                                                           (''rx'', Val ''1.2'')] [],
                                              El ''path'' [(''d'',
                                                            Val
                                                              ''M14 14h2.6v2.6H14zM17.4 17.4H20V20h-2.6z'')]
                                                []]]])]) (take 100 (shown_codes p))))
                 @
                 [El ''div'' [(''style'', Sty [(''padding'', ''10px 20px'')])]
                    [El ''span'' [(''className'', Val ''mono''),
                                  (''style'',
                                   Sty [(''fontSize'', ''11.5''), (''color'', ''var(--ink-3)'')])]
                       [Text ''Showing '',
                        Text (dec (min 100 (int (length (shown_codes p))))),
                        Text '' of '',
                        Text (shown (get c ''minted'')),
                        Text '' codes'']]])]))\<close>

definition shared_tab :: \<open>jval \<Rightarrow> 'e html\<close> where
  \<open>shared_tab c =
     El ''div'' [(''className'', Val ''card''),
                 (''style'',
                  Sty [(''padding'', ''22px 24px''), (''display'', ''flex''),
                       (''flexDirection'', ''column''), (''gap'', ''12'')])]
       [El ''div'' [(''style'',
                     Sty [(''display'', ''flex''), (''alignItems'', ''center''), (''gap'', ''14'')])]
          ([El ''span'' [(''className'', Val ''mono''),
                         (''style'', Sty [(''fontSize'', ''24''), (''fontWeight'', ''600'')])]
              [Text (shown (get c ''shared_code''))]]
             @
             (if truthy (get c ''attributed_to'') then
                [El ''span'' [(''className'', Val ''authtag'')]
                   [Ic_c ''users'' [(''width'', Val ''11''), (''height'', Val ''11'')],
                    Text (''attributed '' @ [CHR 0xB7] @ '' ''),
                    Text (trunc_c 4 4 (get c ''attributed_to''))]] else
                [El ''span'' [(''className'', Val ''authtag'')]
                   [Text (''unattributed '' @ [CHR 0xB7] @ '' count-only'')]])
             @
             (if get c ''payout_rate'' \<noteq> JStr ''0'' then
                [El ''span'' [(''className'', Val ''authtag'')]
                   [Ic_c ''lock'' [(''width'', Val ''11''), (''height'', Val ''11'')],
                    Text ''rate immutable'']] else [])),
        El ''p'' [(''style'',
                   Sty [(''fontSize'', ''13.5''), (''color'', ''var(--ink-2)''), (''margin'', ''0''),
                        (''lineHeight'', ''1.55'')])]
          [Text
             ''One code, many uses. Record each conversion via the API (or the button above); totals anchor on-chain per period with a Merkle root'',
           Text (if truthy (get c ''attributed_to'') then '' and settle to the creator'' else []),
           Text ''.''],
        El ''div'' [(''className'', Val ''mono''),
                    (''style'',
                     Sty [(''fontSize'', ''12''), (''background'', ''var(--con-bg)''),
                          (''color'', ''var(--con-ink)''), (''borderRadius'', ''10''),
                          (''padding'', ''12px 14px''), (''overflowX'', ''auto'')])]
          [Text ''curl -X POST /v1/shared-codes/'',
           Text (shown (get c ''id'')),
           Text ''/'',
           Text (shown (get c ''shared_code'')),
           Text ''/events -d '',
           Text ([CHR 0x27] @ ''{"count":1,"order_ref":"ORD-1001"}'' @ [CHR 0x27])]]\<close>

definition ticket_header :: \<open>'w console \<Rightarrow> int \<Rightarrow> jval \<Rightarrow> campaign_ev html\<close> where
  \<open>ticket_header h now c =
     (let (pk, pl) = statusOf now c in El ''div'' [(''className'', Val ''ticket''),
                                                   (''style'',
                                                    Sty [(''borderRadius'', ''18''),
                                                         (''boxShadow'', ''var(--shadow)''),
                                                         (''overflow'', ''hidden'')])]
        [El ''div'' [(''className'', Val ''ticket-perf'')] [],
         El ''div'' [(''style'',
                      Sty [(''padding'', ''28px 26px 22px''), (''display'', ''flex''),
                           (''flexDirection'', ''column''), (''gap'', ''18'')])]
           ([El ''div'' [(''style'',
                          Sty [(''display'', ''flex''), (''alignItems'', ''flex-start''),
                               (''justifyContent'', ''space-between''), (''gap'', ''16'')])]
               [El ''div'' [(''style'',
                             Sty [(''display'', ''flex''), (''flexDirection'', ''column''),
                                  (''gap'', ''7'')])]
                  [El ''div'' [(''style'',
                                Sty [(''display'', ''flex''), (''alignItems'', ''center''),
                                     (''gap'', ''11'')])]
                     [El ''h1'' [(''className'', Val ''display''),
                                 (''style'', Sty [(''fontSize'', ''28''), (''margin'', ''0'')])]
                        [Text (shown (get c ''name''))],
                      Pill_c pk [Text pl]],
                   El ''div'' [(''style'',
                                Sty [(''display'', ''flex''), (''alignItems'', ''center''),
                                     (''gap'', ''9''), (''flexWrap'', ''wrap'')])]
                     [El ''span'' [(''className'', Val ''authtag'')]
                        [Text (kindTag c),
                         Text ('' '' @ [CHR 0xB7] @ '' ''),
                         Text (shown (get c ''discount_value'')),
                         Text (if get c ''discount_type'' = JStr ''percentage'' then ''% off'' else
                                 '' ''
                                 @ js_String (get c ''discount_type''))],
                      El ''span'' [(''className'', Val ''mono''),
                                   (''style'',
                                    Sty [(''fontSize'', ''11.5''), (''color'', ''var(--ink-3)'')])]
                        [Text ''campaign #'',
                         Text (shown (get c ''chain_id'')),
                         Text ('' '' @ [CHR 0xB7] @ '' created ''),
                         Text (fmtDate h (get c ''created_at'')),
                         Text ('' '' @ [CHR 0xB7]),
                         Text '' '',
                         El ''a'' [(''href'',
                                    Val (''https://stellar.expert/explorer/testnet/contract/''
                                           @ js_String (js_or (get c ''contract_id'')
                                                          (JStr
                                                             ''CCXNPRC4C2DX2W7Z2AW35NC6WORZPTI5JWJCTQIVRJ2FLMI3ZZ32MKRF'')))),
                                   (''target'', Val ''_blank''), (''rel'', Val ''noreferrer'')]
                           [Text ([CHR 0x9A] @ '' stellar.expert'')]]]],
                El ''div'' [(''style'', Sty [(''display'', ''flex''), (''gap'', ''8'')])]
                  ((if \<not> truthy (get c ''archived'') then
                      [El ''button'' [(''className'', Val ''btn-plain''),
                                      (''style'', Sty [(''fontSize'', ''13'')]),
                                      (''onClick'', On DpArchive)] [Text ''Archive'']] else [])
                     @
                     (if truthy (get c ''shared_code'') then
                        [El ''button'' [(''className'', Val ''btn-plain''),
                                        (''style'', Sty [(''fontSize'', ''13'')]),
                                        (''onClick'', On DpEvents)] [Text ''Record events'']] else [])
                     @
                     (if isUniqueKind (get c ''kind'') then
                        [BtnPrimary [Text ''Issue codes''] DpIssue False False
                           [Ic_c ''plus'' [(''width'', Val ''13''), (''height'', Val ''13'')]] True []]
                        else []))],
             El ''div'' [(''style'',
                          Sty [(''display'', ''flex''), (''gap'', ''44''),
                               (''alignItems'', ''flex-end'')])]
               ((if isUniqueKind (get c ''kind'') then
                   [El ''div'' []
                      [El ''div'' [(''style'',
                                    Sty [(''fontSize'', ''12''), (''fontWeight'', ''600''),
                                         (''color'', ''var(--ink-2)'')])] [Text ''Issued''],
                       El ''div'' [(''className'', Val ''display''),
                                   (''style'', Sty [(''fontSize'', ''34'')])]
                         [Text (shown (get c ''minted''))]],
                    El ''div'' []
                      [El ''div'' [(''style'',
                                    Sty [(''fontSize'', ''12''), (''fontWeight'', ''600''),
                                         (''color'', ''var(--ink-2)'')])] [Text ''Redeemed''],
                       El ''div'' [(''className'', Val ''display''),
                                   (''style'', Sty [(''fontSize'', ''34'')])]
                         [Text (shown (get c ''burned''))]],
                    El ''div'' []
                      [El ''div'' [(''style'',
                                    Sty [(''fontSize'', ''12''), (''fontWeight'', ''600''),
                                         (''color'', ''var(--ink-2)'')])] [Text ''Available''],
                       El ''div'' [(''className'', Val ''display''),
                                   (''style'', Sty [(''fontSize'', ''34'')])]
                         [Text (num_str (jsub (js_Number (get c ''minted''))
                                           (js_Number (get c ''burned''))))]]] else
                   [El ''div'' []
                      [El ''div'' [(''style'',
                                    Sty [(''fontSize'', ''12''), (''fontWeight'', ''600''),
                                         (''color'', ''var(--ink-2)'')])] [Text ''Code''],
                       El ''div'' [(''className'', Val ''mono''),
                                   (''style'', Sty [(''fontSize'', ''28''), (''fontWeight'', ''600'')])]
                         [Text (shown (get c ''shared_code''))]],
                    El ''div'' []
                      [El ''div'' [(''style'',
                                    Sty [(''fontSize'', ''12''), (''fontWeight'', ''600''),
                                         (''color'', ''var(--ink-2)'')])] [Text ''Events counted''],
                       El ''div'' [(''className'', Val ''display''),
                                   (''style'', Sty [(''fontSize'', ''34'')])]
                         [Text (locale_text h (js_or (get c ''events_total'') (JNum (Fin 0))))]]]
                   @
                   (if truthy (get c ''attributed_to'') then
                      [El ''div'' []
                         [El ''div'' [(''style'',
                                       Sty [(''fontSize'', ''12''), (''fontWeight'', ''600''),
                                            (''color'', ''var(--ink-2)'')])] [Text ''Creator''],
                          El ''div'' [(''className'', Val ''mono''),
                                      (''style'',
                                       Sty [(''fontSize'', ''15''), (''paddingBottom'', ''8'')])]
                            [Text (trunc_c 4 4 (get c ''attributed_to''))]]] else []))
                  @
                  [El ''div'' [(''style'', Sty [(''flex'', ''1'')])] [],
                   El ''div'' [(''style'', Sty [(''textAlign'', ''right'')])]
                     [El ''div'' [(''style'',
                                   Sty [(''fontSize'', ''12''), (''fontWeight'', ''600''),
                                        (''color'', ''var(--ink-2)'')])] [Text ''Expires''],
                      El ''div'' [(''className'', Val ''display''),
                                  (''style'', Sty [(''fontSize'', ''22''), (''paddingBottom'', ''4'')])]
                        [Text ''in '',
                         Text (num_str (expiresDays now c)),
                         Text '' days '',
                         El ''span'' [(''style'',
                                       Sty [(''fontSize'', ''14''), (''color'', ''var(--ink-3)'')])]
                           [Text ([CHR 0xB7] @ '' ''),
                            Text (fmtDate h (get c ''valid_until''))]]]])]
              @
              (if jless (Fin 0) (js_Number (get c ''legacy_unsigned_events'')) then
                 [El ''div'' [(''style'',
                               Sty [(''background'', ''var(--pending-bg)''),
                                    (''color'', ''var(--pending)''), (''borderRadius'', ''10''),
                                    (''padding'', ''10px 13px''), (''fontSize'', ''12.5'')])]
                    [Text (locale_text h (get c ''legacy_unsigned_events'')),
                     Text
                       '' pre-audit events are preserved but quarantined: they have no historical signature and cannot be presented as signed receipts. Export/reconcile them explicitly.'']]
                 else [])
              @
              (if isUniqueKind (get c ''kind'') then
                 [El ''div'' [(''style'',
                               Sty [(''display'', ''flex''), (''flexDirection'', ''column''),
                                    (''gap'', ''6'')])]
                    [El ''div'' [(''className'', Val ''progressbar''),
                                 (''style'', Sty [(''height'', ''6'')])]
                       [El ''span'' [(''style'', Sty [(''width'', num_str (used_percent c) @ ''%'')])]
                          []],
                     El ''div'' [(''className'', Val ''mono''),
                                 (''style'',
                                  Sty [(''fontSize'', ''11.5''), (''color'', ''var(--ink-3)'')])]
                       [Text (num_str (used_percent c)),
                        Text (''% redeemed ''
                                @ [CHR 0xB7]
                                @
                                '' archive blocks new Cloud operations but does not alter existing on-chain state or TTL'')]]]
                 else []))])\<close>

definition tab_list :: "jval \<Rightarrow> (string \<times> string) list" where
  "tab_list c =
     [(''codes'', if isUniqueKind (get c ''kind'') then ''Codes'' else ''Shared code'')]
     @ (if truthy (get c ''shared_code'') then [(''scans'', ''Escaneos''), (''qr'', ''QR de WhatsApp'')] else [])
     @ [(''settlement'', ''Settlement''), (''activity'', ''Activity'')]"

definition tab_item :: \<open>jval \<Rightarrow> bool \<Rightarrow> string \<Rightarrow> string \<Rightarrow> campaign_ev html\<close> where
  \<open>tab_item c chosen k label =
     El ''span'' [(''onClick'', On (DpTab k)),
                  (''style'',
                   Sty [(''padding'', ''9px 16px''), (''fontSize'', ''13.5''),
                        (''cursor'', (if tab_disabled c k then ''default'' else ''pointer'')),
                        (''fontWeight'', (if chosen then ''650'' else ''600'')),
                        (''color'', (if chosen then ''var(--ink)'' else ''var(--ink-3)'')),
                        (''borderBottom'', (if chosen then ''2px solid var(--ink)'' else ''none'')),
                        (''marginBottom'', ''-1''),
                        (''opacity'', (if tab_disabled c k then ''0.5'' else ''1''))])]
       ([Text label]
          @
          (if k = ''settlement'' then
             [El ''span'' [(''style'', Sty [(''fontSize'', ''11'')])]
                [Text ('' '' @ [CHR 0xB7] @ '' shared only'')]] else []))\<close>

definition IssueModal :: \<open>string \<Rightarrow> jval \<Rightarrow> issue_dialog \<Rightarrow> campaign_ev html\<close> where
  \<open>IssueModal env c d =
     Modal IsCancel ''520''
       [El ''div'' [(''style'',
                     Sty [(''display'', ''flex''), (''flexDirection'', ''column''), (''gap'', ''16'')])]
          ([El ''div'' []
              [El ''div'' [(''style'', Sty [(''fontSize'', ''16''), (''fontWeight'', ''650'')])]
                 [Text ''Issue codes''],
               El ''div'' [(''style'',
                            Sty [(''fontSize'', ''12.5''), (''color'', ''var(--ink-3)''),
                                 (''marginTop'', ''1'')])]
                 [Text (shown (get c ''name'')),
                  Text ('' '' @ [CHR 0xB7] @ '' ''),
                  Text (num_str (remaining c)),
                  Text '' of '',
                  Text (shown (get c ''total_supply'')),
                  Text '' supply remaining'']],
            El ''div'' [(''style'',
                         Sty [(''display'', ''inline-flex''),
                              (''background'', ''var(--surface-inset)''),
                              (''border'', ''1px solid var(--line)''), (''borderRadius'', ''999''),
                              (''padding'', ''3''), (''alignSelf'', ''flex-start'')])]
              (concat (map (\<lambda> (m, label) .
                              [El ''span'' [(''onClick'', On (IsMode m)),
                                            (''style'',
                                             Sty ([(''padding'', ''6px 16px''),
                                                   (''borderRadius'', ''999''), (''fontSize'', ''13''),
                                                   (''fontWeight'', ''600''), (''cursor'', ''pointer'')]
                                                    @ (if is_mode d = m then
                                                         [(''background'', ''var(--surface)''),
                                                          (''border'', ''1px solid var(--line-2)''),
                                                          (''boxShadow'', ''var(--shadow-sm)'')] else
                                                         [(''color'', ''var(--ink-3)'')])))]
                                 [Text label]]) [(''generate'', ''Generate''),
                                                 (''paste'', ''Paste a list'')]))]
             @
             (if is_mode d = ''generate'' then
                [El ''div'' [(''style'',
                              Sty [(''display'', ''grid''), (''gridTemplateColumns'', ''1fr 1fr''),
                                   (''gap'', ''14'')])]
                   [El ''div'' [(''className'', Val ''field'')]
                      [El ''label'' [] [Text ''How many''],
                       El ''input'' [(''className'', Val ''input mono''), (''value'', Val (is_count d)),
                                     (''onChange'', OnV IsCount)] []],
                    El ''div'' [(''className'', Val ''field'')]
                      [El ''label'' []
                         [Text ''Prefix '',
                          El ''span'' [(''style'',
                                        Sty [(''fontWeight'', ''500''), (''color'', ''var(--ink-3)'')])]
                            [Text ''optional'']],
                       El ''input'' [(''className'', Val ''input mono''),
                                     (''value'', Val (is_prefix d)), (''onChange'', OnV IsPrefix)] []]],
                 El ''div'' [(''style'',
                              Sty [(''display'', ''flex''), (''flexDirection'', ''column''),
                                   (''gap'', ''7'')])]
                   [El ''span'' [(''style'',
                                  Sty [(''fontSize'', ''12.5''), (''fontWeight'', ''600''),
                                       (''color'', ''var(--ink-2)'')])] [Text ''Generated format''],
                    El ''div'' [(''style'',
                                 Sty [(''display'', ''flex''), (''flexWrap'', ''wrap''),
                                      (''gap'', ''6'')])]
                      [El ''span'' [(''className'', Val ''mono''),
                                    (''style'',
                                     Sty [(''fontSize'', ''12''),
                                          (''background'', ''var(--surface-inset)''),
                                          (''border'', ''1px dashed var(--line-2)''),
                                          (''borderRadius'', ''7''), (''padding'', ''3px 9px'')])]
                         [Text (codeFormat d)],
                       El ''span'' [(''className'', Val ''mono''),
                                    (''style'',
                                     Sty [(''fontSize'', ''12''), (''color'', ''var(--ink-3)''),
                                          (''padding'', ''3px 2px'')])]
                         [Text ''actual values are generated securely by the API'']]]] else
                [El ''div'' [(''className'', Val ''field'')]
                   [El ''label'' []
                      [Text ''Codes '',
                       El ''span'' [(''style'',
                                     Sty [(''fontWeight'', ''500''), (''color'', ''var(--ink-3)'')])]
                         [Text ''one per line or comma-separated'']],
                    El ''textarea'' [(''className'', Val ''textarea mono''), (''rows'', Val ''5''),
                                     (''value'', Val (is_pasted d)), (''onChange'', OnV IsPasted),
                                     (''placeholder'', Val (''VIP-001'' @ [CHR 0x0A] @ ''VIP-002''))]
                      []]])
             @
             [El ''div'' [(''style'',
                           Sty [(''background'', ''var(--surface-inset)''),
                                (''border'', ''1px solid var(--line)''), (''borderRadius'', ''10''),
                                (''padding'', ''11px 14px''), (''fontSize'', ''12.5''),
                                (''color'', ''var(--ink-2)''), (''lineHeight'', ''1.5'')])]
                [Text ''Written on-chain in chunks of 100 per transaction. '',
                 El ''span'' [(''className'', Val ''mono''), (''style'', Sty [(''fontSize'', ''12'')])]
                   [Text (num_str (issue_count d)),
                    Text ('' codes '' @ [CHR 0xD7] @ '' 2 cr = ''),
                    Text (if env = ''test'' then ''free (test)'' else num_str
                            (jmul (issue_count d) (Fin 2))
                            @ '' cr'')],
                 Text ('' '' @ [CHR 0xB7] @ '' QR payloads included in the CSV.'')]]
             @ (ErrText (is_err d))
             @
             [El ''div'' [(''style'',
                           Sty [(''display'', ''flex''), (''justifyContent'', ''flex-end''),
                                (''gap'', ''9'')])]
                [El ''button'' [(''className'', Val ''btn-plain''), (''onClick'', On IsCancel)]
                   [Text ''Cancel''],
                 BtnPrimary [Text ''Issue '', Text (num_str (issue_count d)), Text '' codes''] IsSubmit
                   (is_busy d) (issue_blocked c d) [] True []]])]\<close>

definition EventsModal :: \<open>jval \<Rightarrow> events_dialog \<Rightarrow> campaign_ev html\<close> where
  \<open>EventsModal c d =
     Modal EdCancel ''460''
       [El ''div'' [(''style'',
                     Sty [(''display'', ''flex''), (''flexDirection'', ''column''), (''gap'', ''16'')])]
          ([El ''div'' []
              [El ''div'' [(''style'', Sty [(''fontSize'', ''16''), (''fontWeight'', ''650'')])]
                 [Text ''Record events''],
               El ''div'' [(''className'', Val ''mono''),
                           (''style'',
                            Sty [(''fontSize'', ''12''), (''color'', ''var(--ink-3)''),
                                 (''marginTop'', ''2'')])]
                 [Text (shown (get c ''shared_code'')),
                  Text ('' '' @ [CHR 0xB7] @ '' ''),
                  Text (shown (get c ''name''))]],
            El ''div'' [(''className'', Val ''field'')]
              [El ''label'' [] [Text ''How many conversions''],
               El ''input'' [(''className'', Val ''input mono''), (''value'', Val (ed_count d)),
                             (''onChange'', OnV EdCount), (''autoFocus'', Flag True)] [],
               El ''span'' [(''className'', Val ''help'')]
                 [Text (''The hot path is off-chain (0.2 cr each) ''
                          @ [CHR 0x97]
                          @ '' totals anchor on-chain per period with a Merkle root.'')]],
            El ''div'' [(''className'', Val ''field'')]
              [El ''label'' []
                 [Text ''Order reference '',
                  El ''span'' [(''style'',
                                Sty [(''fontWeight'', ''500''), (''color'', ''var(--ink-3)'')])]
                    [Text ''optional'']],
               El ''input'' [(''className'', Val ''input''), (''value'', Val (ed_orderRef d)),
                             (''onChange'', OnV EdOrderRef), (''placeholder'', Val ''ORD-1001'')] [],
               El ''span'' [(''className'', Val ''help'')]
                 [Text
                    ''Use a stable order ID to reject duplicate counting even if another idempotency key is used.'']]]
             @ (ErrText (ed_err d))
             @
             [El ''div'' [(''style'',
                           Sty [(''display'', ''flex''), (''justifyContent'', ''flex-end''),
                                (''gap'', ''9'')])]
                [El ''button'' [(''className'', Val ''btn-plain''), (''onClick'', On EdCancel)]
                   [Text ''Cancel''],
                 BtnPrimary [Text ''Record''] EdSubmit (ed_busy d) False
                   [Ic_c ''check'' [(''width'', Val ''13''), (''height'', Val ''13'')]] True []]])]\<close>

definition campaign_view :: \<open>'w console \<Rightarrow> int \<Rightarrow> session \<Rightarrow> campaign_page \<Rightarrow> campaign_ev html\<close> where
  \<open>campaign_view h now ss p =
     (let c = the_campaign p in if \<not> truthy (dp_data p) then El ''div''
        [(''className'', Val ''page'')]
        [El ''div'' [(''className'', Val ''faint'')] [Text (''Loading'' @ [CHR 0x85])]] else El ''div''
        [(''className'', Val ''page'')]
        ([El ''div'' [(''style'',
                       Sty [(''display'', ''flex''), (''alignItems'', ''center''), (''gap'', ''7''),
                            (''fontSize'', ''12.5''), (''fontWeight'', ''600''),
                            (''color'', ''var(--ink-3)'')])]
            [El ''span'' [(''style'', Sty [(''cursor'', ''pointer'')]),
                          (''onClick'', On (DpNav ''/campaigns''))] [Text ''Campaigns''],
             Ic_c ''chevron'' [(''width'', Val ''12''), (''height'', Val ''12''),
                             (''style'', Sty [(''transform'', ''rotate(-90deg)'')])],
             El ''span'' [(''style'', Sty [(''color'', ''var(--ink)'')])]
               [Text (shown (get c ''name''))]],
          ticket_header h now c,
          El ''div'' [(''style'',
                       Sty [(''display'', ''flex''), (''gap'', ''2''),
                            (''borderBottom'', ''1px solid var(--line)'')])]
            (map (\<lambda> (k, label) . tab_item c (dp_tab p = k) k label) (tab_list c))]
           @ (if dp_tab p = ''codes'' \<and> isUniqueKind (get c ''kind'') then codes_tab h p else [])
           @ (if dp_tab p = ''codes'' \<and> \<not> isUniqueKind (get c ''kind'') then [shared_tab c]
                else [])
           @
           (if dp_tab p = ''scans'' then
              [El ''ScansPanel'' [(''c'', Val (js_String (get c ''id'')))] []] else [])
           @
           (if dp_tab p = ''qr'' then [El ''QRPanel'' [(''c'', Val (js_String (get c ''id'')))] []] else
              [])
           @
           (if dp_tab p = ''activity'' then
              [El ''ActivityList'' [(''campaignID'', Val (js_String (get c ''id'')))] []] else [])
           @ (case dp_issue p of None \<Rightarrow> [] | Some d \<Rightarrow>
                [IssueModal (se_env ss) c d])
           @ (case dp_events p of None \<Rightarrow> [] | Some d \<Rightarrow> [EventsModal c d])))\<close>

section \<open>The contract of a page\<close>

lemma campaign_load_sends: "disciplined h (campaign_load h)"
  unfolding campaign_load_def by (intro sends_intros)

lemma campaign_runs_send: "disciplined h (campaign_run h e)" "disciplined h (campaign_effect h)"
proof -
  have a: "disciplined h (archive h)"
    unfolding archive_def by (intro sends_intros campaign_load_sends)
  have "disciplined h (issue_toast h d r)" for d r
    unfolding issue_toast_def Let_def
    by (intro sends_bind sends_read_field, split if_split) (intro conjI impI sends_intros)
  then have i: "disciplined h (issue_now h c d)" for c d
    unfolding issue_now_def by (intro sends_intros campaign_load_sends)
  have n: "disciplined h (events_now h c d)" for c d
    unfolding events_now_def events_toast_def by (intro sends_intros campaign_load_sends)
  show "disciplined h (campaign_run h e)"
    unfolding campaign_run_def
    by (intro sends_bind sends_page_get, cases e)
      (auto intro!: sends_intros a i n simp: Let_def split: option.split)
  show "disciplined h (campaign_effect h)"
    unfolding campaign_effect_def by (intro sends_intros campaign_load_sends)
qed

interpretation campaign_page: page h "campaign_run h" "campaign_effect h" for h
  by unfold_locales (rule campaign_runs_send)+

end
