(* ===== verification/Console_Pages_Props.thy ===== *)
theory Console_Pages_Props
  imports Machine Console_Clicks Console_Redeem Console_Overview Console_Campaign
begin

text \<open>
  What single pages promise: the payout the wizard orders, when the redemptions page offers to redeem,
  and whose figures the overview stores.
\<close>

section \<open>The wizard\<close>


definition creator_form :: wizard where
  "creator_form = (wizard_init None)\<lparr>wz_f := form_init(WfCode := ''PEDRO'', WfAttributed := ''GABC'', WfRate := ''0.25'')\<rparr>"


text \<open>
  The wizard goes on from its second step with a name alone: with no code, and for a creator with no
  address, which it marks as required.
\<close>

lemma continue_offered:
  "WzStep 3 \<in> set (clicks (wizard_step2 env w)) \<longleftrightarrow>
     wz_f w WfName \<noteq> [] \<or> isShared (wz_kind w) \<and> wz_f w WfCode \<noteq> []"
  by (auto simp: wizard_step2_def Let_def own_clicks_ons comp_def all_clicks_if split: if_splits)

text \<open>A supply of zero is ordered as a hundred.\<close>

lemma zero_supply: "num_or (to_number ''0'') (Fin 100) = Fin 100"
  by code_simp

section \<open>Redeeming\<close>

lemma RedeemModal_clicks [simp]:
  "clicks (RedeemModal env cs d) = [RmCancel, RmCancel] @
     (if rm_busy d \<or> rm_code d = [] \<or> \<not> truthy (rm_campID d) then [] else [RmSubmit])"
  by (simp add: RedeemModal_def own_clicks_ons comp_def)

lemma redemption_row_clicks:
  "set (all_clicks (redemption_row h x r)) \<subseteq> {RdRow (get r ''id'')} \<union> range RdCopy"
  by (auto simp: redemption_row_def own_clicks_ons Let_def comp_def all_clicks_if split: if_splits)


section \<open>The campaign page\<close>

text \<open>Issuing minus five codes is offered.\<close>

definition ten_left :: jval where
  "ten_left = JObj [(''total_supply'', JNum (Fin 10)), (''minted'', JNum (Fin 0))]"

lemma negative_issue: "\<not> issue_blocked ten_left ((issue_init ten_left)\<lparr>is_count := ''-5''\<rparr>)"
  by code_simp

text \<open>
  A second click for more scans, while the page asked for by the first is on its way, asks for the same page,
  and both answers are appended.
\<close>

lemma more_twice:
  assumes "scans_run h ScMore ((c, s), p) = (r, ((c', s'), p'))"
  shows "scans_path (sc_id p') (get (sc_data p') ''next_cursor'') = scans_path (sc_id p) (get (sc_data p) ''next_cursor'')"
    and "field d ''scans'' = Inr v \<Longrightarrow>
      sc_pages (scans_loaded ScNext (Inr d) (scans_loaded ScNext (Inr d) p')) = sc_pages p @ items v @ items v"
  using assms by (auto simp: scans_run_def fetch_page_def bindIO_def launch_def scans_loaded_def split: prod.splits)

section \<open>The overview\<close>

text \<open>
  The page with the promises it waits for. The last component says whether the environment was
  switched and the effect of the page has not run again yet.
\<close>

type_synonym 'w overview_run = "('w visit \<times> overview) \<times> bool"

inductive overview_step :: "'w console \<Rightarrow> 'w overview_run \<Rightarrow> 'w overview_run \<Rightarrow> bool" for h where
  switched: "overview_step h ((v, p), b) ((snd (switch_env e v), p), True)"
| effect: "overview_step h (z, b) (snd (overview_effect h z), False)"
| tick: "overview_step h (z, b) (snd (overview_load h z), b)"
| clicked: "overview_step h (z, b) (snd (overview_run h e z), b)"
| handled: "i < length (ov_loads p) \<Longrightarrow> ov_loads p ! i = (n, env, r) \<Longrightarrow>
    overview_step h ((v, p), b)
      ((v, (overview_loaded n r p)\<lparr>ov_loads := take i (ov_loads p) @ drop (Suc i) (ov_loads p)\<rparr>), b)"

definition overview_inv :: "'w overview_run \<Rightarrow> bool" where
  "overview_inv z = (case z of (((c, s), p), b) \<Rightarrow>
     \<forall>(n, env, r) \<in> set (ov_loads p). n \<le> ov_effect p \<and> (n = ov_effect p \<and> \<not> b \<longrightarrow> env = cl_env c))"

lemma overview_load_run:
  obtains r c' where "overview_load h ((c, s), p) =
    (Inr (), ((c', s), p\<lparr>ov_loads := ov_loads p @ [(ov_effect p, cl_env c, r)]\<rparr>))" "cl_env c' = cl_env c"
proof -
  obtain r c' where "api_get h ''/v1/overview'' c = (r, c')" by (metis surj_pair)
  moreover from this have "cl_env c' = cl_env c" using api_get_posts by blast
  moreover have "ov_loads_update (\<lambda>l. l @ [(ov_effect p, cl_env c, r)]) p =
      p\<lparr>ov_loads := ov_loads p @ [(ov_effect p, cl_env c, r)]\<rparr>" by (cases p) simp
  ultimately show thesis
    using that [of c' r] by (simp add: overview_load_def bindIO_def launch_def)
qed

lemma overview_step_inv: "overview_step h z z' \<Longrightarrow> overview_inv z \<Longrightarrow> overview_inv z'"
proof (induction rule: overview_step.induct)
  case (switched v p b e)
  obtain c s where v: "v = (c, s)" by (metis surj_pair)
  obtain c' s' where "snd (switch_env e v) = (c', s')" by (metis surj_pair)
  with switched v show ?case by (auto simp: overview_inv_def)
next
  case (effect z b)
  obtain c s p where z: "z = ((c, s), p)" by (metis surj_pair)
  let ?p = "p\<lparr>ov_effect := Suc (ov_effect p)\<rparr>"
  obtain r c' where "overview_load h ((c, s), ?p) =
    (Inr (), ((c', s), ?p\<lparr>ov_loads := ov_loads ?p @ [(ov_effect ?p, cl_env c, r)]\<rparr>))" "cl_env c' = cl_env c"
    by (rule overview_load_run)
  with effect z show ?case by (auto simp: overview_inv_def overview_effect_def bindIO_def)
next
  case (tick z b)
  obtain c s p where z: "z = ((c, s), p)" by (metis surj_pair)
  obtain r c' where "overview_load h ((c, s), p) =
    (Inr (), ((c', s), p\<lparr>ov_loads := ov_loads p @ [(ov_effect p, cl_env c, r)]\<rparr>))" "cl_env c' = cl_env c"
    by (rule overview_load_run)
  with tick z show ?case by (auto simp: overview_inv_def)
next
  case (clicked z b e)
  then show ?case
    by (cases z; cases e) (auto simp: overview_inv_def overview_run_def in_visit_run nav_def on_session_def)
next
  case (handled i p n env r v b)
  have "set (take i (ov_loads p) @ drop (Suc i) (ov_loads p)) \<subseteq> set (ov_loads p)"
    by (auto dest: in_set_takeD in_set_dropD)
  with handled(3) show ?case
    by (cases v) (auto simp: overview_inv_def overview_loaded_def split: sum.splits)
qed

interpretation overview: invariant_machine "overview_step h" overview_inv for h
  by unfold_locales (rule overview_step_inv)

text \<open>
  C32 (invariant). The overview stores only answers of the environment it is in: along any run of switches,
  effects, ticks and answers, in any order and however late an answer comes, once the effect has run
  after the last switch, an answer that changes what is shown is one to a request sent in the
  environment of the client.
\<close>

theorem overview_current:
  assumes "(overview_step h)\<^sup>*\<^sup>* ((v0, overview_init), b0) (((c, s), p), False)"
    and "(n, env, r) \<in> set (ov_loads p)" and "overview_loaded n r p \<noteq> p"
  shows "env = cl_env c"
proof -
  have "overview_inv ((v0, overview_init), b0)" by (cases v0) (simp add: overview_inv_def overview_init_def)
  with assms(1) have "overview_inv (((c, s), p), False)" by (rule overview.run_inv)
  moreover have "n = ov_effect p" using assms(3) by (auto simp: overview_loaded_def split: sum.splits if_splits)
  ultimately show ?thesis using assms(2) by (auto simp: overview_inv_def)
qed

text \<open>The figures of the environment before stay on the page until the first answer.\<close>

lemma overview_keeps_old: "ov_data (snd (snd (overview_effect h z))) = ov_data (snd z)"
proof -
  obtain c s p where z: "z = ((c, s), p)" by (metis surj_pair)
  let ?p = "p\<lparr>ov_effect := Suc (ov_effect p)\<rparr>"
  obtain r c' where "overview_load h ((c, s), ?p) =
    (Inr (), ((c', s), ?p\<lparr>ov_loads := ov_loads ?p @ [(ov_effect ?p, cl_env c, r)]\<rparr>))" "cl_env c' = cl_env c"
    by (rule overview_load_run)
  then show ?thesis by (simp add: z overview_effect_def bindIO_def)
qed

section \<open>Witnesses\<close>


text \<open>
  A link that opens the dialog opens it before any campaign is loaded, and no campaign is chosen when they
  arrive: the list shows the first one, and nothing can be redeemed until another is chosen.
\<close>

lemma redeem_link_stuck:
  assumes "redemptions_view h ss (redeem_loaded RdCampaigns (Inr d) ((redemptions_init route)\<lparr>rd_redeem :=
      Some ((redeem_dialog_init [])\<lparr>rm_code := t\<rparr>)\<rparr>)) = Inr v"
  shows "RmSubmit \<notin> set (clicks v)"
proof -
  have "RmSubmit \<notin> set (all_clicks (redemption_row h x r))" for x r
    using redemption_row_clicks by fastforce
  with assms show ?thesis
    by (auto simp: redemptions_view_def bindR_Inr_iff own_clicks_ons comp_def redeem_loaded_def redeem_dialog_init_def
        redeemable_def split: option.splits if_splits)
qed

definition saying_true :: "nat console" where
  "saying_true = fixed_service (Inr \<lparr>rp_ok = True, rp_status = 200, rp_text = Inr ''true''\<rparr>)"

definition opened :: "(nat, overview) on_visit" where
  "opened = snd (overview_effect saying_true ((fresh_client, session_init ''test'' []), overview_init))"

theorem overview_current_witness:
  "\<exists>n env r. (n, env, r) \<in> set (ov_loads (snd opened)) \<and> overview_loaded n r (snd opened) \<noteq> snd opened \<and>
     env = cl_env (fst (fst opened))"
proof -
  obtain c s p where o: "opened = ((c, s), p)" by (metis surj_pair)
  have "overview_step saying_true (((fresh_client, session_init ''test'' []), overview_init), True) (opened, False)"
    unfolding opened_def by (rule overview_step.effect)
  then have run: "(overview_step saying_true)\<^sup>*\<^sup>* (((fresh_client, session_init ''test'' []), overview_init), True)
      (((c, s), p), False)" by (simp add: o)
  have "length (ov_loads (snd opened)) = 1 \<and> fst (hd (ov_loads (snd opened))) = ov_effect (snd opened)
    \<and> (case snd (snd (hd (ov_loads (snd opened)))) of Inr (JBool b) \<Rightarrow> True | _ \<Rightarrow> False)
    \<and> (case ov_data (snd opened) of JNull \<Rightarrow> True | _ \<Rightarrow> False)" by code_simp
  moreover then obtain b where "snd (snd (hd (ov_loads p))) = Inr (JBool b)"
    by (auto simp: o split: sum.splits jval.splits)
  ultimately obtain env where l: "ov_loads p = [(ov_effect p, env, Inr (JBool b))]" "ov_data p = JNull"
    by (cases "hd (ov_loads p)") (auto simp: o length_Suc_conv split: jval.splits)
  have "overview_loaded (ov_effect p) (Inr (JBool b)) p \<noteq> p"
    using l(2) by (cases p) (auto simp: overview_loaded_def)
  with l overview_current [OF run, of "ov_effect p" env "Inr (JBool b)"] show ?thesis by (simp add: o)
qed

end
