(* ===== verification/Console_Keys.thy ===== *)
theory Console_Keys
  imports Console_Sends
begin

text \<open>
  The pages of API keys and of usage and credits (\<open>cloud/console/src/pages/Platform.jsx\<close>): listing, creating
  and revoking keys, the quickstart, and the ledger of credits.
\<close>

section \<open>API keys\<close>

record key_dialog =
  kd_label :: string
  kd_created :: jval
  kd_busy :: bool
  kd_err :: "jserr option"

definition key_dialog_init :: key_dialog where
  "key_dialog_init = \<lparr>kd_label = [], kd_created = JNull, kd_busy = False, kd_err = None\<rparr>"

record api_keys =
  ak_data :: jval
  ak_create :: "key_dialog option"
  ak_snippet :: string
  ak_loads :: "unit promises"

definition api_keys_init :: api_keys where
  "api_keys_init = \<lparr>ak_data = JNull, ak_create = None, ak_snippet = ''curl'', ak_loads = []\<rparr>"

datatype keys_ev = AkCreate | AkRevoke jval | AkSnippet string | AkCopy string
  | KdLabel string | KdKey string | KdSubmit | KdCancel | KdClose | KdCopy string | KdDone

definition keys_load :: "'w console \<Rightarrow> (('w, api_keys) on_visit, unit) io" where
  "keys_load h = launch h ''/v1/keys'' () ak_loads_update"

definition keys_loaded :: "jval js \<Rightarrow> api_keys \<Rightarrow> api_keys" where
  "keys_loaded r p = (case r of Inr d \<Rightarrow> p\<lparr>ak_data := d\<rparr> | Inl _ \<Rightarrow> p)"

definition keys_effect :: "'w console \<Rightarrow> (('w, api_keys) on_visit, unit) io" where
  "keys_effect h = bindIO (on_page (\<lambda>p. p\<lparr>ak_data := JNull\<rparr>)) (\<lambda>_. keys_load h)"

definition revoke :: "'w console \<Rightarrow> jval \<Rightarrow> (('w, api_keys) on_visit, unit) io" where
  "revoke h i =
     catchIO
       (bindIO (keyed_post h (''/v1/keys/'' @ js_String i @ ''/revoke'') (JObj [])) (\<lambda>_.
        bindIO (pop_up h ''Key revoked'' ''Requests with it now return 401.'' ''success'') (\<lambda>_. keys_load h)))
       (pop_err h)"

definition set_key_dialog :: "(key_dialog \<Rightarrow> key_dialog) \<Rightarrow> api_keys \<Rightarrow> api_keys" where
  "set_key_dialog f p = p\<lparr>ak_create := map_option f (ak_create p)\<rparr>"

definition key_submit :: "'w console \<Rightarrow> key_dialog \<Rightarrow> (('w, api_keys) on_visit, unit) io" where
  "key_submit h k =
     bindIO (on_page (set_key_dialog (\<lambda>d. d\<lparr>kd_err := None\<rparr>))) (\<lambda>_.
     guarded
       (bindIO (keyed_post h ''/v1/keys'' (JObj [(''label'', JStr (kd_label k))])) (\<lambda>r.
        on_page (set_key_dialog (\<lambda>d. d\<lparr>kd_created := r\<rparr>))))
       (\<lambda>e. on_page (set_key_dialog (\<lambda>d. d\<lparr>kd_err := Some e\<rparr>)))
       (\<lambda>b. set_key_dialog (\<lambda>d. d\<lparr>kd_busy := b\<rparr>)))"

definition key_closed :: "'w console \<Rightarrow> bool \<Rightarrow> (('w, api_keys) on_visit, unit) io" where
  \<comment> \<open>\<open>onClose(changed)\<close> of the dialog\<close>
  "key_closed h changed =
     bindIO (on_page (\<lambda>p. p\<lparr>ak_create := None\<rparr>)) (\<lambda>_. if changed then keys_load h else returnIO ())"

definition keys_run :: "'w console \<Rightarrow> keys_ev \<Rightarrow> (('w, api_keys) on_visit, unit) io" where
  "keys_run h e =
     bindIO (page_get ak_create) (\<lambda>dialog.
     case (e, dialog) of
        (AkCreate, None) \<Rightarrow> on_page (\<lambda>p. p\<lparr>ak_create := Some key_dialog_init\<rparr>)
      | (AkRevoke i, _) \<Rightarrow> revoke h i
      | (AkSnippet s, _) \<Rightarrow> on_page (\<lambda>p. p\<lparr>ak_snippet := s\<rparr>)
      | (KdLabel t, _) \<Rightarrow> on_page (set_key_dialog (\<lambda>d. d\<lparr>kd_label := t\<rparr>))
      | (KdKey k, Some d) \<Rightarrow> if k = ''Enter'' then key_submit h d else returnIO ()
      | (KdSubmit, Some d) \<Rightarrow> key_submit h d
      | (KdCancel, Some d) \<Rightarrow> key_closed h False
      | (KdClose, Some d) \<Rightarrow> key_closed h (truthy (kd_created d))
      | (KdDone, Some d) \<Rightarrow> key_closed h True
      | _ \<Rightarrow> returnIO () \<comment> \<open>the clipboard, and a dialog that is open already\<close>)"

section \<open>The quickstart\<close>

definition key_mode :: "string \<Rightarrow> string" where
  "key_mode env = (if env = ''live'' then ''metered'' else ''test'')"

definition key_snippets :: "string \<Rightarrow> (string \<times> string) list" where
  \<open>key_snippets mode =
     [(''curl'',
       ''# redeem a unique code '' @ [CHR 0x97] @ '' preview testnet; waits for chain confirmation'' @ [CHR 0x0A]
       @ ''curl -X POST http://127.0.0.1:8787/v1/redemptions '' @ [CHR 0x5C] @ [CHR 0x0A]
       @ ''  -H "Authorization: Bearer sk_'' @ mode @ ''_'' @ [CHR 0x85] @ ''" '' @ [CHR 0x5C] @ [CHR 0x0A]
       @ ''  -H "Idempotency-Key: <new-uuid-per-operation>" '' @ [CHR 0x5C] @ [CHR 0x0A]
       @ ''  -H "Content-Type: application/json" '' @ [CHR 0x5C] @ [CHR 0x0A]
       @ ''  -d '' @ [CHR 0x27] @ ''{ "campaign_id": 4, "code": "BURN-9D4X", "redeemer_ref": "order #58291" }'' @ [CHR 0x27]),
      (''TypeScript'',
       ''const res = await fetch("http://127.0.0.1:8787/v1/redemptions", {'' @ [CHR 0x0A]
       @ ''  method: "POST",'' @ [CHR 0x0A]
       @ ''  headers: { Authorization: "Bearer sk_'' @ mode @ ''_'' @ [CHR 0x85] @ ''", "Idempotency-Key": crypto.randomUUID(), "Content-Type": "application/json" },'' @ [CHR 0x0A]
       @ ''  body: JSON.stringify({ campaign_id: 4, code: "BURN-9D4X", redeemer_ref: "order #58291" }),'' @ [CHR 0x0A]
       @ ''});'' @ [CHR 0x0A]
       @ ''const { receipt } = await res.json(); // token_id, ledger_seq, tx'' @ [CHR 0x85]),
      (''Go'',
       ''req, _ := http.NewRequest("POST", api+"/v1/redemptions", body)'' @ [CHR 0x0A]
       @ ''req.Header.Set("Authorization", "Bearer sk_'' @ mode @ ''_'' @ [CHR 0x85] @ ''")'' @ [CHR 0x0A]
       @ ''req.Header.Set("Idempotency-Key", uuid.NewString()) // retries can'' @ [CHR 0x27] @ ''t double-burn'' @ [CHR 0x0A]
       @ ''req.Header.Set("Content-Type", "application/json")'' @ [CHR 0x0A]
       @ ''client := &http.Client{Timeout: 15 * time.Second}'' @ [CHR 0x0A]
       @ ''resp, err := client.Do(req)'')]\<close>

definition snippet_text :: "string \<Rightarrow> string \<Rightarrow> string" where
  "snippet_text env name = (case map_of (key_snippets (key_mode env)) name of Some t \<Rightarrow> t | None \<Rightarrow> [])"

section \<open>Elements of the key page\<close>

definition CreateKeyModal :: \<open>string \<Rightarrow> key_dialog \<Rightarrow> keys_ev html\<close> where
  \<open>CreateKeyModal env d =
     Modal KdClose ''480''
       (if \<not> truthy (kd_created d) then
          [El ''div'' [(''style'',
                        Sty [(''display'', ''flex''), (''flexDirection'', ''column''),
                             (''gap'', ''16'')])]
             ([El ''div'' []
                 [El ''div'' [(''style'', Sty [(''fontSize'', ''16''), (''fontWeight'', ''650'')])]
                    [Text ''Create API key''],
                  El ''div'' [(''style'',
                               Sty [(''fontSize'', ''12.5''), (''color'', ''var(--ink-3)''),
                                    (''marginTop'', ''1'')])]
                    [Text ''Scoped to '',
                     El ''span'' [(''className'', Val ''mono'')] [Text env],
                     Text ('' ''
                             @ [CHR 0x97]
                             @
                             '' create keys per integration so you can revoke one without breaking the rest.'')]],
               El ''div'' [(''className'', Val ''field'')]
                 [El ''label'' [] [Text ''Label''],
                  El ''input'' [(''className'', Val ''input''), (''value'', Val (kd_label d)),
                                (''onChange'', OnV KdLabel),
                                (''placeholder'', Val ''Backend integration''),
                                (''autoFocus'', Flag True), (''onKeyDown'', OnV KdKey)] []]]
                @ (ErrText (kd_err d))
                @
                [El ''div'' [(''style'',
                              Sty [(''display'', ''flex''), (''justifyContent'', ''flex-end''),
                                   (''gap'', ''9'')])]
                   [El ''button'' [(''className'', Val ''btn-plain''), (''onClick'', On KdCancel)]
                      [Text ''Cancel''],
                    BtnPrimary [Text ''Create key''] KdSubmit (kd_busy d) False [] True []]])] else
          [El ''div'' [(''style'',
                        Sty [(''display'', ''flex''), (''flexDirection'', ''column''),
                             (''gap'', ''16'')])]
             [El ''div'' []
                [El ''div'' [(''style'', Sty [(''fontSize'', ''16''), (''fontWeight'', ''650'')])]
                   [Text ''Copy your key now''],
                 El ''div'' [(''style'',
                              Sty [(''fontSize'', ''12.5''), (''color'', ''var(--ink-3)''),
                                   (''marginTop'', ''1'')])]
                   [Text (shown (get (kd_created d) ''label'')),
                    Text ('' '' @ [CHR 0xB7] @ '' ''),
                    El ''span'' [(''className'', Val ''mono'')]
                      [Text (shown (get (kd_created d) ''env''))]]],
              El ''div'' [(''style'',
                           Sty [(''background'', ''var(--con-bg)''), (''borderRadius'', ''12''),
                                (''padding'', ''14px 16px''), (''display'', ''flex''),
                                (''alignItems'', ''center''), (''gap'', ''10'')])]
                [El ''span'' [(''className'', Val ''mono''),
                              (''style'',
                               Sty [(''fontSize'', ''13''), (''color'', ''var(--con-ink)''),
                                    (''wordBreak'', ''break-all''), (''flex'', ''1'')])]
                   [Text (shown (get (kd_created d) ''key''))],
                 El ''button'' [(''className'', Val ''btn-plain''),
                                (''style'',
                                 Sty [(''fontSize'', ''12''), (''padding'', ''6px 13px''),
                                      (''flex'', ''none'')]),
                                (''onClick'', On (KdCopy (js_String (get (kd_created d) ''key''))))]
                   [Text ''Copy'']],
              El ''div'' [(''style'',
                           Sty [(''background'', ''var(--burned-bg)''), (''color'', ''var(--burned)''),
                                (''borderRadius'', ''10''), (''padding'', ''10px 13px''),
                                (''fontSize'', ''12.5''), (''fontWeight'', ''600'')])]
                [Text (''You won''
                         @ [CHR 0x27]
                         @ ''t see this again ''
                         @ [CHR 0x97]
                         @ '' we store only a hash.'')],
              El ''div'' [(''style'',
                           Sty [(''display'', ''flex''), (''justifyContent'', ''flex-end'')])]
                [BtnPrimary [Text ''Done''] KdDone False False
                   [Ic_c ''check'' [(''width'', Val ''13''), (''height'', Val ''13'')]] True []]]])\<close>

definition api_keys_view :: \<open>'w console \<Rightarrow> session \<Rightarrow> api_keys \<Rightarrow> keys_ev html\<close> where
  \<open>api_keys_view h ss p =
     El ''div'' [(''className'', Val ''page'')]
       ([El ''div'' [(''className'', Val ''page-head'')]
           [El ''div'' []
              [El ''h1'' [(''className'', Val ''display''),
                          (''style'', Sty [(''fontSize'', ''27''), (''margin'', ''0'')])]
                 [Text ''API keys''],
               El ''p'' [(''className'', Val ''page-sub'')]
                 [Text (''Bearer keys, hashed at rest ''
                          @ [CHR 0xB7]
                          @ '' mutating v1 routes accept an ''),
                  El ''span'' [(''className'', Val ''mono''), (''style'', Sty [(''fontSize'', ''12'')])]
                    [Text ''Idempotency-Key'']]],
            BtnPrimary [Text ''Create key''] AkCreate False False
              [Ic_c ''plus'' [(''width'', Val ''13''), (''height'', Val ''13'')]] True []]]
          @
          (if (truthy (ak_data p) \<and> items (get (ak_data p) ''keys'') \<noteq> []) then
             [El ''div'' [(''className'', Val ''card''), (''style'', Sty [(''overflow'', ''hidden'')])]
                ([El ''div'' [(''style'',
                               Sty [(''display'', ''grid''),
                                    (''gridTemplateColumns'', ''1.5fr 1.8fr 1fr 1fr .8fr''),
                                    (''gap'', ''14''), (''padding'', ''11px 20px''),
                                    (''borderBottom'', ''1px solid var(--line)''),
                                    (''background'', ''var(--surface-inset)'')])]
                    (concat (map (\<lambda>t.
                                    [El ''span'' [(''className'', Val ''eyebrow''),
                                                  (''style'', Sty [(''fontSize'', ''11'')])] [Text t]])
                               [''Label'', ''Key'', ''Created'', ''Last used'', []]))]
                   @
                   (concat (map (\<lambda>k.
                                   [El ''div'' [(''style'',
                                                 Sty [(''display'', ''grid''),
                                                      (''gridTemplateColumns'',
                                                       ''1.5fr 1.8fr 1fr 1fr .8fr''), (''gap'', ''14''),
                                                      (''padding'', ''13px 20px''),
                                                      (''borderBottom'', ''1px solid var(--line)''),
                                                      (''alignItems'', ''center''),
                                                      (''opacity'',
                                                       (if truthy (get k ''revoked'') then ''0.5'' else
                                                          ''1''))])]
                                      ([El ''span'' [(''style'',
                                                      Sty [(''fontSize'', ''13.5''),
                                                           (''fontWeight'', ''650'')])]
                                          [Text (shown (get k ''label'')),
                                           El ''span'' [(''className'', Val ''authtag''),
                                                        (''style'', Sty [(''marginLeft'', ''6'')])]
                                             [Text (shown (js_or (get k ''mode'') (get k ''env'')))]],
                                        El ''span'' [(''className'', Val ''mono''),
                                                     (''style'',
                                                      Sty [(''fontSize'', ''12.5''),
                                                           (''color'', ''var(--ink-2)'')])]
                                          [Text (shown (get k ''prefix''))],
                                        El ''span'' [(''style'',
                                                      Sty [(''fontSize'', ''12.5''),
                                                           (''color'', ''var(--ink-2)'')])]
                                          [Text (fmtDate h (get k ''created_at''))],
                                        El ''span'' [(''style'',
                                                      Sty [(''fontSize'', ''12.5''),
                                                           (''color'',
                                                            (if truthy (get k ''last_used_at'') then
                                                               ''var(--valid)'' else ''var(--ink-3)'')),
                                                           (''fontWeight'',
                                                            (if truthy (get k ''last_used_at'') then
                                                               ''600'' else ''400''))])]
                                          [Text (if truthy (get k ''last_used_at'') then fmtDateTime h
                                                   (get k ''last_used_at'') else ''never'')]]
                                         @
                                         (if truthy (get k ''revoked'') then
                                            [El ''span'' [(''className'', Val ''mono''),
                                                          (''style'',
                                                           Sty [(''fontSize'', ''11.5''),
                                                                (''color'', ''var(--ink-3)''),
                                                                (''justifySelf'', ''end'')])]
                                               [Text ''revoked'']] else
                                            [El ''button'' [(''className'', Val ''btn-plain''),
                                                            (''style'',
                                                             Sty [(''fontSize'', ''12''),
                                                                  (''padding'', ''5px 13px''),
                                                                  (''justifySelf'', ''end''),
                                                                  (''color'', ''var(--burned)'')]),
                                                            (''onClick'', On (AkRevoke (get k ''id'')))]
                                               [Text ''Revoke'']]))]) (items
                                                                         (get (ak_data p) ''keys'')))))]
             else [])
          @
          (if (truthy (ak_data p) \<and> items (get (ak_data p) ''keys'') = []) then
             [Empty [Ic_c ''lock'' [(''width'', Val ''20''), (''height'', Val ''20'')]] ''No keys yet''
                [Text (''Create a key to wire redemptions into your POS, bot or backend ''
                         @ [CHR 0x97]
                         @ '' the console works without one.'')] []] else [])
          @
          [El ''div'' [(''style'',
                        Sty [(''background'', ''var(--con-bg)''),
                             (''border'', ''1px solid var(--con-line)''),
                             (''borderRadius'', ''var(--r)''), (''overflow'', ''hidden''),
                             (''boxShadow'', ''var(--shadow)'')])]
             [El ''div'' [(''style'',
                           Sty [(''display'', ''flex''), (''alignItems'', ''center''), (''gap'', ''4''),
                                (''padding'', ''12px 18px''),
                                (''borderBottom'', ''1px solid var(--con-line)'')])]
                ([El ''span'' [(''style'',
                                Sty [(''fontSize'', ''12.5''), (''fontWeight'', ''650''),
                                     (''color'', ''var(--con-ink)''), (''marginRight'', ''12'')])]
                    [Text (''Quickstart '' @ [CHR 0x97] @ '' your first redemption'')]]
                   @
                   (concat (map (\<lambda>s.
                                   [El ''span'' [(''className'', Val ''mono''),
                                                 (''onClick'', On (AkSnippet s)),
                                                 (''style'',
                                                  Sty ([(''fontSize'', ''11.5''),
                                                        (''padding'', ''4px 12px''),
                                                        (''borderRadius'', ''999''),
                                                        (''cursor'', ''pointer'')]
                                                         @ (if ak_snippet p = s then
                                                              [(''background'', ''var(--con-surface)''),
                                                               (''color'', ''var(--con-ink)''),
                                                               (''border'',
                                                                ''1px solid var(--con-line)'')] else
                                                              [(''color'', ''var(--con-ink-3)'')])))]
                                      [Text s]]) (map fst (key_snippets (key_mode (se_env ss))))))
                   @
                   [El ''span'' [(''style'', Sty [(''flex'', ''1'')])] [],
                    El ''span'' [(''className'', Val ''mono''),
                                 (''onClick'', On (AkCopy (snippet_text (se_env ss) (ak_snippet p)))),
                                 (''style'',
                                  Sty [(''fontSize'', ''11''), (''color'', ''var(--con-ink-3)''),
                                       (''display'', ''inline-flex''), (''alignItems'', ''center''),
                                       (''gap'', ''5''), (''cursor'', ''pointer'')])]
                      [Ic_c ''copy'' [(''width'', Val ''12''), (''height'', Val ''12'')],
                       Text ''copy'']]),
              El ''pre'' [(''className'', Val ''mono''),
                          (''style'',
                           Sty [(''margin'', ''0''), (''padding'', ''16px 18px 18px''),
                                (''fontSize'', ''12.5''), (''lineHeight'', ''1.75''),
                                (''color'', ''var(--con-ink)''), (''overflowX'', ''auto'')])]
                [Text (snippet_text (se_env ss) (ak_snippet p))]]]
          @ (case ak_create p of None \<Rightarrow> [] | Some d \<Rightarrow>
               [CreateKeyModal (se_env ss) d]))\<close>

section \<open>Usage and credits\<close>

datatype usage_load = UsCredits | UsUsage

record usage =
  us_credits :: jval
  us_usage :: jval
  us_loads :: "usage_load promises"

definition usage_init :: usage where
  "usage_init = \<lparr>us_credits = JNull, us_usage = JNull, us_loads = []\<rparr>"

definition usage_effect :: "'w console \<Rightarrow> (('w, usage) on_visit, unit) io" where
  "usage_effect h =
     bindIO (on_page (\<lambda>p. p\<lparr>us_credits := JNull\<rparr>)) (\<lambda>_.
     bindIO (launch h ''/v1/credits'' UsCredits us_loads_update) (\<lambda>_.
     launch h ''/v1/usage'' UsUsage us_loads_update))"

definition usage_loaded :: "usage_load \<Rightarrow> jval js \<Rightarrow> usage \<Rightarrow> usage" where
  "usage_loaded k r p =
     (case (k, r) of
        (UsCredits, Inr d) \<Rightarrow> p\<lparr>us_credits := d\<rparr>
      | (UsUsage, Inr d) \<Rightarrow> p\<lparr>us_usage := d\<rparr>
      | _ \<Rightarrow> p)"

definition price_text :: "'w console \<Rightarrow> jval \<Rightarrow> string" where
  "price_text h p =
     (if get p ''mcr'' = JNum (Fin 0) then ''free''
      else fmtCr h (get p ''mcr'') @ '' cr''
        @ (if truthy (get p ''per'') then '' / '' @ js_String (get p ''per'') else []))"

definition usage_view :: \<open>'w console \<Rightarrow> session \<Rightarrow> usage \<Rightarrow> 'e html\<close> where
  \<open>usage_view h ss p =
     (if \<not> truthy (us_credits p) then El ''div'' [(''className'', Val ''page'')]
        [El ''div'' [(''className'', Val ''faint'')] [Text (''Loading'' @ [CHR 0x85])]] else El ''div''
        [(''className'', Val ''page'')]
        [El ''div'' [(''className'', Val ''page-head'')]
           ([El ''div'' []
               [El ''h1'' [(''className'', Val ''display''),
                           (''style'', Sty [(''fontSize'', ''27''), (''margin'', ''0'')])]
                  [Text ''Usage & credits''],
                El ''p'' [(''className'', Val ''page-sub'')]
                  [Text (if se_env ss = ''test'' then ''Test mode is never metered ''
                           @ [CHR 0x97]
                           @ '' every operation is free here.'' else ''Preview ledger ''
                           @ [CHR 0xB7]
                           @ '' nominal 1,000 cr = $1 ''
                           @ [CHR 0xB7]
                           @ '' payments/recharges disabled'')]]]
              @
              (if se_env ss = ''live'' then
                 [Pill_c ''pending'' [Text (''Billing disabled '' @ [CHR 0xB7] @ '' testnet preview'')]]
                 else [])),
         El ''div'' [(''style'',
                      Sty [(''display'', ''grid''), (''gridTemplateColumns'', ''repeat(3, 1fr)''),
                           (''gap'', ''14'')])]
           [El ''div'' [(''className'', Val ''card''),
                        (''style'', Sty [(''padding'', ''16px 18px 14px'')])]
              ([El ''div'' [(''style'',
                             Sty [(''fontSize'', ''12.5''), (''fontWeight'', ''600''),
                                  (''color'', ''var(--ink-2)'')])] [Text ''Balance'']]
                 @
                 (if se_env ss = ''test'' then
                    [El ''div'' [(''className'', Val ''mono''),
                                 (''style'',
                                  Sty [(''fontSize'', ''28''), (''fontWeight'', ''600''),
                                       (''marginTop'', ''9''), (''color'', ''var(--pending)'')])]
                       [Text ''Free'']] else
                    [El ''div'' [(''className'', Val ''mono''),
                                 (''style'',
                                  Sty [(''fontSize'', ''28''), (''fontWeight'', ''600''),
                                       (''marginTop'', ''9'')])]
                       [Text (fmtCr h (nullish_or (get (us_credits p) ''balance_mcr'') (JNum (Fin 0)))),
                        Text '' '',
                        El ''span'' [(''style'',
                                      Sty [(''fontSize'', ''14''), (''color'', ''var(--ink-3)''),
                                           (''fontWeight'', ''500'')])] [Text ''cr'']]])),
            El ''div'' [(''className'', Val ''card''),
                        (''style'', Sty [(''padding'', ''16px 18px 14px'')])]
              [El ''div'' [(''style'',
                            Sty [(''fontSize'', ''12.5''), (''fontWeight'', ''600''),
                                 (''color'', ''var(--ink-2)'')])] [Text ''Monthly free grant''],
               El ''div'' [(''className'', Val ''mono''),
                           (''style'',
                            Sty [(''fontSize'', ''28''), (''fontWeight'', ''600''),
                                 (''marginTop'', ''9'')])]
                 [Text (fmtCr h (get (us_credits p) ''monthly_grant_mcr'')),
                  Text '' '',
                  El ''span'' [(''style'',
                                Sty [(''fontSize'', ''14''), (''color'', ''var(--ink-3)''),
                                     (''fontWeight'', ''500'')])] [Text ''cr'']],
               El ''div'' [(''style'',
                            Sty [(''fontSize'', ''12''), (''color'', ''var(--ink-3)''),
                                 (''marginTop'', ''2'')])]
                 [Text (''non-accumulating '' @ [CHR 0xB7] @ '' renews monthly'')]],
            El ''div'' [(''className'', Val ''card''),
                        (''style'', Sty [(''padding'', ''16px 18px 14px'')])]
              [El ''div'' [(''style'',
                            Sty [(''fontSize'', ''12.5''), (''fontWeight'', ''600''),
                                 (''color'', ''var(--ink-2)'')])]
                 [Text (''Operations '' @ [CHR 0xB7] @ '' 30d'')],
               El ''div'' [(''className'', Val ''display''),
                           (''style'', Sty [(''fontSize'', ''34''), (''marginTop'', ''6'')])]
                 [Text (shown (nullish_or (get (us_usage p) ''operations_30d'') (JStr [CHR 0x85])))]]],
         El ''div'' [(''className'', Val ''card''), (''style'', Sty [(''overflow'', ''hidden'')])]
           ([El ''div'' [(''style'',
                          Sty [(''padding'', ''16px 20px 12px''), (''display'', ''flex''),
                               (''alignItems'', ''baseline''),
                               (''justifyContent'', ''space-between'')])]
               [El ''span'' [(''style'', Sty [(''fontSize'', ''14''), (''fontWeight'', ''650'')])]
                  [Text ''Credit ledger''],
                El ''span'' [(''className'', Val ''mono''),
                             (''style'', Sty [(''fontSize'', ''11.5''), (''color'', ''var(--ink-3)'')])]
                  [Text ''append-only preview usage ledger'']],
             El ''div'' [(''style'',
                          Sty [(''display'', ''grid''),
                               (''gridTemplateColumns'', ''1.2fr 1.4fr 2fr 1fr 1fr''),
                               (''gap'', ''12''), (''padding'', ''9px 20px''),
                               (''borderTop'', ''1px solid var(--line)''),
                               (''borderBottom'', ''1px solid var(--line)''),
                               (''background'', ''var(--surface-inset)'')])]
               (concat (map (\<lambda>t.
                               [El ''span'' [(''className'', Val ''eyebrow''),
                                             (''style'', Sty [(''fontSize'', ''11'')])] [Text t]])
                          [''When'', ''Operation'', ''Detail'', [CHR 0x98] @ '' credits'',
                           ''Balance'']))]
              @
              (if items (get (us_credits p) ''ledger'') = [] then
                 [El ''div'' [(''style'',
                               Sty [(''padding'', ''22px 20px''), (''textAlign'', ''center'')])]
                    [El ''span'' [(''className'', Val ''mono''),
                                  (''style'',
                                   Sty [(''fontSize'', ''12''), (''color'', ''var(--ink-3)'')])]
                       [Text (if se_env ss = ''test'' then ''Test operations aren''
                                @ [CHR 0x27]
                                @ ''t metered ''
                                @ [CHR 0x97]
                                @ '' switch to METERED to exercise the ledger.'' else
                                ''No metered operations yet.'')]]] else [])
              @
              (concat (map (\<lambda>l.
                              [El ''div'' [(''style'',
                                            Sty [(''display'', ''grid''),
                                                 (''gridTemplateColumns'', ''1.2fr 1.4fr 2fr 1fr 1fr''),
                                                 (''gap'', ''12''), (''padding'', ''11px 20px''),
                                                 (''borderBottom'', ''1px solid var(--line)''),
                                                 (''alignItems'', ''center''),
                                                 (''fontSize'', ''12.5'')])]
                                 [El ''span'' [(''className'', Val ''mono''),
                                               (''style'',
                                                Sty [(''fontSize'', ''11.5''),
                                                     (''color'', ''var(--ink-2)'')])]
                                    [Text (fmtDateTime h (get l ''ts''))],
                                  El ''span'' [(''className'', Val ''mono''),
                                               (''style'', Sty [(''fontSize'', ''12'')])]
                                    [Text (shown (get l ''operation''))],
                                  El ''span'' [(''style'',
                                                Sty [(''color'', ''var(--ink-2)''),
                                                     (''overflow'', ''hidden''),
                                                     (''textOverflow'', ''ellipsis''),
                                                     (''whiteSpace'', ''nowrap'')])]
                                    [Text (shown (get l ''detail''))],
                                  El ''span'' [(''className'', Val ''mono''),
                                               (''style'',
                                                Sty [(''fontSize'', ''12''),
                                                     (''color'',
                                                      (if jless (Fin 0) (js_Number
                                                                           (get l ''delta_mcr'')) then
                                                         ''var(--valid)'' else ''var(--ink)'')),
                                                     (''fontWeight'', ''600'')])]
                                    [Text (if jless (Fin 0) (js_Number (get l ''delta_mcr'')) then ''+''
                                             else []),
                                     Text (fmtCr h (get l ''delta_mcr''))],
                                  El ''span'' [(''className'', Val ''mono''),
                                               (''style'',
                                                Sty [(''fontSize'', ''12''),
                                                     (''color'', ''var(--ink-2)'')])]
                                    [Text (fmtCr h (get l ''balance_mcr''))]]])
                         (items (get (us_credits p) ''ledger''))))),
         El ''details'' [(''className'', Val ''card''), (''style'', Sty [(''padding'', ''16px 20px'')])]
           [El ''summary'' [(''style'',
                             Sty [(''fontSize'', ''14''), (''fontWeight'', ''650''),
                                  (''cursor'', ''pointer'')])] [Text ''What things cost''],
            El ''div'' [(''style'', Sty [(''marginTop'', ''10'')])]
              ((concat (map (\<lambda>q.
                               [El ''div'' [(''style'',
                                             Sty [(''display'', ''flex''),
                                                  (''justifyContent'', ''space-between''),
                                                  (''padding'', ''7px 0''),
                                                  (''borderTop'', ''1px solid var(--line)''),
                                                  (''fontSize'', ''12.5'')])]
                                  [El ''span'' [(''style'', Sty [(''color'', ''var(--ink-2)'')])]
                                     [Text (shown (get q ''operation''))],
                                   El ''span'' [(''className'', Val ''mono'')]
                                     [Text (price_text h q)]]]) (items (get (us_credits p)
                                                                          ''price_table''))))
                 @
                 [El ''p'' [(''className'', Val ''mono''),
                            (''style'',
                             Sty [(''fontSize'', ''11.5''), (''color'', ''var(--ink-3)''),
                                  (''margin'', ''10px 0 0'')])]
                    [Text
                       ''Preview pricing only. Automated campaign keep-alive and its billing are not enabled yet.'']])]])\<close>

section \<open>The contract of a page\<close>

lemma keys_load_sends: "disciplined h (keys_load h)"
  unfolding keys_load_def by (intro sends_intros)

lemma keys_runs_send: "disciplined h (keys_run h e)" "disciplined h (keys_effect h)"
proof -
  have "disciplined h (revoke h i)" for i
    unfolding revoke_def by (intro sends_intros keys_load_sends)
  moreover have "disciplined h (key_submit h d)" for d
    unfolding key_submit_def by (intro sends_intros)
  moreover have "disciplined h (key_closed h b)" for b
    unfolding key_closed_def by (cases b) (simp, intro sends_intros keys_load_sends)+
  ultimately show "disciplined h (keys_run h e)"
    unfolding keys_run_def
    by (intro sends_bind sends_page_get) (auto intro!: sends_intros split: keys_ev.split option.split)
  show "disciplined h (keys_effect h)"
    unfolding keys_effect_def by (intro sends_intros keys_load_sends)
qed

interpretation keys_page: page h "keys_run h" "keys_effect h" for h
  by unfold_locales (rule keys_runs_send)+

lemma usage_effect_sends: "disciplined h (usage_effect h)"
  unfolding usage_effect_def by (intro sends_intros)

interpretation usage_page: page h "\<lambda>_ :: unit. returnIO ()" "usage_effect h" for h
  by unfold_locales (intro sends_pure usage_effect_sends)+

end
