(* ===== verification/Console_Hooks.thy ===== *)
theory Console_Hooks
  imports Console_Sends
begin

text \<open>
  The pages of webhooks and of settings (\<open>cloud/console/src/pages/Platform.jsx\<close>). A load that fails shows
  the error as a toast; after a test or a disabling the page loads again when its timer runs out.
\<close>

section \<open>Webhooks\<close>

record hook_dialog =
  hd_url :: string
  hd_selected :: "string list" \<comment> \<open>a set in insertion order\<close>
  hd_created :: jval
  hd_busy :: bool
  hd_err :: "jserr option"

record webhooks =
  wh_data :: jval
  wh_create :: "hook_dialog option"
  wh_timers :: nat
  wh_loads :: "unit promises"

definition webhooks_init :: webhooks where
  "webhooks_init = \<lparr>wh_data = JNull, wh_create = None, wh_timers = 0, wh_loads = []\<rparr>"

datatype hooks_ev = WhCreate | WhAction jval string | WhTimer
  | HdUrl string | HdToggle string | HdSubmit | HdCancel | HdClose | HdCopy string | HdDone

definition supported_events :: "jval \<Rightarrow> string list" where
  "supported_events data = map js_String (items (get data ''supported_events''))"

definition hook_dialog_init :: "string list \<Rightarrow> hook_dialog" where
  "hook_dialog_init events =
     \<lparr>hd_url = [], hd_selected = rev (remdups (rev events)), hd_created = JNull, hd_busy = False, hd_err = None\<rparr>"

definition toggle_event :: "string \<Rightarrow> string list \<Rightarrow> string list" where \<comment> \<open>\<open>toggle\<close>\<close>
  "toggle_event e sel = (if e \<in> set sel then filter (\<lambda>x. x \<noteq> e) sel else sel @ [e])"

definition hooks_load :: "'w console \<Rightarrow> (('w, webhooks) on_visit, unit) io" where
  "hooks_load h = launch h ''/v1/webhooks'' () wh_loads_update"

definition hooks_loaded :: "'w console \<Rightarrow> jval js \<Rightarrow> (('w, webhooks) on_visit, unit) io" where
  "hooks_loaded h r = (case r of Inr d \<Rightarrow> on_page (\<lambda>p. p\<lparr>wh_data := d\<rparr>) | Inl e \<Rightarrow> pop_err h e)"

definition hooks_effect :: "'w console \<Rightarrow> (('w, webhooks) on_visit, unit) io" where
  "hooks_effect h = bindIO (on_page (\<lambda>p. p\<lparr>wh_data := JNull\<rparr>)) (\<lambda>_. hooks_load h)"

definition hook_action :: "'w console \<Rightarrow> jval \<Rightarrow> string \<Rightarrow> (('w, webhooks) on_visit, unit) io" where
  \<comment> \<open>\<open>action\<close>; \<open>setTimeout(load, \<dots>)\<close> leaves a timer\<close>
  "hook_action h i name =
     catchIO
       (bindIO (keyed_post h (''/v1/webhooks/'' @ js_String i @ ''/'' @ name) (JObj [])) (\<lambda>_.
        bindIO (pop_up h (if name = ''test'' then ''Test queued'' else ''Endpoint disabled'')
          (if name = ''test'' then ''Delivery status will update shortly.'' else ''No new events will be delivered.'')
          ''success'') (\<lambda>_.
        on_page (\<lambda>p. p\<lparr>wh_timers := Suc (wh_timers p)\<rparr>))))
       (pop_err h)"

definition set_hook_dialog :: "(hook_dialog \<Rightarrow> hook_dialog) \<Rightarrow> webhooks \<Rightarrow> webhooks" where
  "set_hook_dialog f p = p\<lparr>wh_create := map_option f (wh_create p)\<rparr>"

definition hook_body :: "hook_dialog \<Rightarrow> jval" where
  "hook_body k = JObj [(''url'', JStr (hd_url k)), (''events'', JArr (map JStr (hd_selected k)))]"

definition hook_submit :: "'w console \<Rightarrow> hook_dialog \<Rightarrow> (('w, webhooks) on_visit, unit) io" where
  "hook_submit h k =
     bindIO (on_page (set_hook_dialog (\<lambda>d. d\<lparr>hd_err := None\<rparr>))) (\<lambda>_.
     guarded
       (bindIO (keyed_post h ''/v1/webhooks'' (hook_body k)) (\<lambda>r.
        on_page (set_hook_dialog (\<lambda>d. d\<lparr>hd_created := r\<rparr>))))
       (\<lambda>e. on_page (set_hook_dialog (\<lambda>d. d\<lparr>hd_err := Some e\<rparr>)))
       (\<lambda>b. set_hook_dialog (\<lambda>d. d\<lparr>hd_busy := b\<rparr>)))"

definition hook_closed :: "'w console \<Rightarrow> bool \<Rightarrow> (('w, webhooks) on_visit, unit) io" where
  "hook_closed h changed =
     bindIO (on_page (\<lambda>p. p\<lparr>wh_create := None\<rparr>)) (\<lambda>_. if changed then hooks_load h else returnIO ())"

definition hooks_run :: "'w console \<Rightarrow> hooks_ev \<Rightarrow> (('w, webhooks) on_visit, unit) io" where
  "hooks_run h e =
     bindIO (page_get (\<lambda>p. p)) (\<lambda>p.
     case (e, wh_create p) of
        (WhCreate, None) \<Rightarrow>
          on_page (\<lambda>p. p\<lparr>wh_create := Some (hook_dialog_init (supported_events (wh_data p)))\<rparr>)
      | (WhAction i name, _) \<Rightarrow> hook_action h i name
      | (WhTimer, _) \<Rightarrow>
          if wh_timers p = 0 then returnIO ()
          else bindIO (on_page (\<lambda>p. p\<lparr>wh_timers := wh_timers p - 1\<rparr>)) (\<lambda>_. hooks_load h)
      | (HdUrl t, _) \<Rightarrow> on_page (set_hook_dialog (\<lambda>d. d\<lparr>hd_url := t\<rparr>))
      | (HdToggle t, _) \<Rightarrow> on_page (set_hook_dialog (\<lambda>d. d\<lparr>hd_selected := toggle_event t (hd_selected d)\<rparr>))
      | (HdSubmit, Some d) \<Rightarrow> hook_submit h d
      | (HdCancel, Some d) \<Rightarrow> hook_closed h False
      | (HdClose, Some d) \<Rightarrow> hook_closed h (truthy (hd_created d))
      | (HdDone, Some d) \<Rightarrow> hook_closed h True
      | _ \<Rightarrow> returnIO ())"

section \<open>Elements of the webhook page\<close>

definition CreateWebhookModal :: \<open>string list \<Rightarrow> hook_dialog \<Rightarrow> hooks_ev html\<close> where
  \<open>CreateWebhookModal events d =
     Modal HdClose ''560''
       (if \<not> truthy (hd_created d) then
          [El ''div'' [(''style'',
                        Sty [(''display'', ''flex''), (''flexDirection'', ''column''),
                             (''gap'', ''16'')])]
             ([El ''div'' []
                 [El ''div'' [(''style'', Sty [(''fontSize'', ''16''), (''fontWeight'', ''650'')])]
                    [Text ''Add webhook endpoint''],
                  El ''div'' [(''style'',
                               Sty [(''fontSize'', ''12.5''), (''color'', ''var(--ink-3)''),
                                    (''marginTop'', ''2'')])]
                    [Text
                       ''Public HTTPS endpoints only; redirects and private network destinations are blocked.'']],
               El ''div'' [(''className'', Val ''field'')]
                 [El ''label'' [] [Text ''Endpoint URL''],
                  El ''input'' [(''className'', Val ''input mono''), (''value'', Val (hd_url d)),
                                (''onChange'', OnV HdUrl),
                                (''placeholder'', Val ''https://example.com/soroticket/webhooks''),
                                (''autoFocus'', Flag True)] []],
               El ''div'' [(''className'', Val ''field'')]
                 [El ''label'' [] [Text ''Events''],
                  El ''div'' [(''style'',
                               Sty [(''display'', ''flex''), (''flexDirection'', ''column''),
                                    (''gap'', ''7'')])]
                    (concat (map (\<lambda>e.
                                    [El ''label'' [(''style'',
                                                    Sty [(''display'', ''flex''), (''gap'', ''8''),
                                                         (''alignItems'', ''center''),
                                                         (''fontSize'', ''12.5'')])]
                                       [El ''input'' [(''type'', Val ''checkbox''),
                                                      (''checked'', Flag (e \<in> set (hd_selected d))),
                                                      (''onChange'', On (HdToggle e))] [],
                                        El ''span'' [(''className'', Val ''mono'')] [Text e]]])
                               events))]]
                @ (ErrText (hd_err d))
                @
                [El ''div'' [(''style'',
                              Sty [(''display'', ''flex''), (''justifyContent'', ''flex-end''),
                                   (''gap'', ''9'')])]
                   [El ''button'' [(''className'', Val ''btn-plain''), (''onClick'', On HdCancel)]
                      [Text ''Cancel''],
                    BtnPrimary [Text ''Create endpoint''] HdSubmit (hd_busy d) False [] True []]])] else
          [El ''div'' [(''style'',
                        Sty [(''display'', ''flex''), (''flexDirection'', ''column''),
                             (''gap'', ''16'')])]
             [El ''div'' []
                [El ''div'' [(''style'', Sty [(''fontSize'', ''16''), (''fontWeight'', ''650'')])]
                   [Text ''Copy the signing secret now''],
                 El ''div'' [(''style'',
                              Sty [(''fontSize'', ''12.5''), (''color'', ''var(--ink-3)''),
                                   (''marginTop'', ''2'')])]
                   [Text ''Only an encrypted copy is kept; the console will not reveal it again.'']],
              El ''div'' [(''style'',
                           Sty [(''background'', ''var(--con-bg)''), (''borderRadius'', ''12''),
                                (''padding'', ''14px 16px''), (''display'', ''flex''),
                                (''alignItems'', ''center''), (''gap'', ''10'')])]
                [El ''span'' [(''className'', Val ''mono''),
                              (''style'',
                               Sty [(''fontSize'', ''12.5''), (''color'', ''var(--con-ink)''),
                                    (''wordBreak'', ''break-all''), (''flex'', ''1'')])]
                   [Text (shown (get (get (hd_created d) ''webhook'') ''secret''))],
                 El ''button'' [(''className'', Val ''btn-plain''),
                                (''onClick'',
                                 On (HdCopy (js_String (get (get (hd_created d) ''webhook'')
                                                          ''secret''))))] [Text ''Copy'']],
              BtnPrimary [Text ''Done''] HdDone False False [] True [(''alignSelf'', ''flex-end'')]]])\<close>

definition webhooks_view :: \<open>webhooks \<Rightarrow> hooks_ev html\<close> where
  \<open>webhooks_view p =
     El ''div'' [(''className'', Val ''page'')]
       ([El ''div'' [(''className'', Val ''page-head'')]
           [El ''div'' []
              [El ''h1'' [(''className'', Val ''display''),
                          (''style'', Sty [(''fontSize'', ''27''), (''margin'', ''0'')])]
                 [Text ''Webhooks''],
               El ''p'' [(''className'', Val ''page-sub'')]
                 [Text (''HMAC-SHA256 signed ''
                          @ [CHR 0xB7]
                          @ '' HTTPS only ''
                          @ [CHR 0xB7]
                          @ '' automatic retries'')]],
            BtnPrimary [Text ''Add endpoint''] WhCreate False False
              [Ic_c ''plus'' [(''width'', Val ''13''), (''height'', Val ''13'')]] True []]]
          @
          (if (truthy (wh_data p) \<and> items (get (wh_data p) ''webhooks'') = []) then
             [Empty [Ic_c ''zap'' [(''width'', Val ''20''), (''height'', Val ''20'')]]
                ''No endpoints yet''
                [Text
                   ''Subscribe an HTTPS endpoint to receive redemption, tally, settlement and loyalty events.'']
                []] else [])
          @
          (if (truthy (wh_data p) \<and> items (get (wh_data p) ''webhooks'') \<noteq> []) then
             [El ''div'' [(''className'', Val ''card''), (''style'', Sty [(''overflow'', ''hidden'')])]
                (concat (map (\<lambda>k.
                                [El ''div'' [(''style'',
                                              Sty [(''padding'', ''16px 20px''),
                                                   (''borderBottom'', ''1px solid var(--line)''),
                                                   (''display'', ''grid''),
                                                   (''gridTemplateColumns'', ''2fr 2fr 1fr auto''),
                                                   (''gap'', ''14''), (''alignItems'', ''center''),
                                                   (''opacity'',
                                                    (if truthy (get k ''active'') then ''1'' else
                                                       ''0.55''))])]
                                   [El ''div'' [(''style'', Sty [(''minWidth'', ''0'')])]
                                      [El ''div'' [(''className'', Val ''mono''),
                                                   (''style'',
                                                    Sty [(''fontSize'', ''12.5''),
                                                         (''overflow'', ''hidden''),
                                                         (''textOverflow'', ''ellipsis'')])]
                                         [Text (shown (get k ''url''))],
                                       El ''div'' [(''className'', Val ''mono''),
                                                   (''style'',
                                                    Sty [(''fontSize'', ''11''),
                                                         (''color'', ''var(--ink-3)''),
                                                         (''marginTop'', ''3'')])]
                                         [Text (shown (get k ''secret_prefix''))]],
                                    El ''div'' [(''style'',
                                                 Sty [(''display'', ''flex''), (''gap'', ''5''),
                                                      (''flexWrap'', ''wrap'')])]
                                      (concat (map (\<lambda>e.
                                                      [El ''span'' [(''className'', Val ''authtag'')]
                                                         [Text (shown e)]])
                                                 (items (get k ''events'')))),
                                    El ''div'' []
                                      [Pill_c (if get k ''last_status'' = JStr ''delivered'' then
                                                 ''valid'' else if get k ''last_status'' = JStr
                                                 ''failed'' then ''burned'' else ''pending'')
                                         [Text (shown (get k ''last_status''))]],
                                    El ''div'' [(''style'',
                                                 Sty [(''display'', ''flex''), (''gap'', ''7'')])]
                                      ((if truthy (get k ''active'') then
                                          [El ''button'' [(''className'', Val ''btn-plain''),
                                                          (''style'',
                                                           Sty [(''fontSize'', ''12''),
                                                                (''padding'', ''6px 10px'')]),
                                                          (''onClick'',
                                                           On (WhAction (get k ''id'') ''test''))]
                                             [Text ''Test'']] else [])
                                         @
                                         (if truthy (get k ''active'') then
                                            [El ''button'' [(''className'', Val ''btn-plain''),
                                                            (''style'',
                                                             Sty [(''fontSize'', ''12''),
                                                                  (''padding'', ''6px 10px''),
                                                                  (''color'', ''var(--burned)'')]),
                                                            (''onClick'',
                                                             On (WhAction (get k ''id'') ''disable''))]
                                               [Text ''Disable'']] else []))]])
                           (items (get (wh_data p) ''webhooks''))))] else [])
          @
          [El ''div'' [(''className'', Val ''card''),
                       (''style'',
                        Sty [(''padding'', ''16px 20px''), (''fontSize'', ''12.5''),
                             (''color'', ''var(--ink-2)''), (''lineHeight'', ''1.6'')])]
             [Text ''Verify '',
              El ''span'' [(''className'', Val ''mono'')] [Text ''X-Soroticket-Signature''],
              Text '' over '',
              El ''span'' [(''className'', Val ''mono'')] [Text ''timestamp + "." + raw_body''],
              Text '', reject stale timestamps, and deduplicate with '',
              El ''span'' [(''className'', Val ''mono'')] [Text ''X-Soroticket-Delivery''],
              Text ''.'']]
          @ (case wh_create p of None \<Rightarrow> [] | Some d \<Rightarrow>
               [CreateWebhookModal (supported_events (wh_data p)) d]))\<close>

section \<open>Settings\<close>

datatype settings_ev = SettingsCopy string

definition settings_view :: \<open>bool \<Rightarrow> session \<Rightarrow> settings_ev html\<close> where \<comment> \<open>whether the key was copied just now\<close>
  \<open>settings_view copied ss =
     El ''div'' [(''className'', Val ''page'')]
       [El ''div'' [(''className'', Val ''page-head'')]
          [El ''div'' []
             [El ''h1'' [(''className'', Val ''display''),
                         (''style'', Sty [(''fontSize'', ''27''), (''margin'', ''0'')])]
                [Text ''Settings''],
              El ''p'' [(''className'', Val ''page-sub'')]
                [Text (shown (get (se_org ss) ''name'')),
                 Text ('' '' @ [CHR 0xB7] @ '' signed in as ''),
                 Text (shown (get (se_user ss) ''email''))]]],
        El ''div'' [(''className'', Val ''card''),
                    (''style'',
                     Sty [(''padding'', ''20px 24px''), (''display'', ''flex''),
                          (''flexDirection'', ''column''), (''gap'', ''12'')])]
          [El ''div'' [(''style'',
                        Sty [(''display'', ''flex''), (''alignItems'', ''center''),
                             (''justifyContent'', ''space-between'')])]
             [El ''span'' [(''style'', Sty [(''fontSize'', ''14''), (''fontWeight'', ''650'')])]
                [Text (''Your Stellar account '' @ [CHR 0xB7] @ '' ''),
                 Text (se_env ss)],
              El ''span'' [(''className'', Val ''authtag'')]
                [Ic_c ''lock'' [(''width'', Val ''11''), (''height'', Val ''11'')],
                 Text (''custodial '' @ [CHR 0xB7] @ '' export unavailable in preview'')]],
           El ''div'' [(''style'',
                        Sty [(''display'', ''flex''), (''alignItems'', ''center''), (''gap'', ''12''),
                             (''flexWrap'', ''wrap'')])]
             [CopyMono copied SettingsCopy (if truthy (get (get (get (se_org ss) ''accounts'')
                                                              (se_env ss)) ''public_key'') then
                                              js_String (get (get (get (se_org ss) ''accounts'')
                                                                (se_env ss)) ''public_key'') else [])
                (shown (get (get (get (se_org ss) ''accounts'') (se_env ss)) ''public_key'')) ''13'',
              El ''a'' [(''className'', Val ''mono''),
                        (''style'', Sty [(''fontSize'', ''12''), (''color'', ''var(--ink-2)'')]),
                        (''target'', Val ''_blank''), (''rel'', Val ''noreferrer''),
                        (''href'',
                         Val (expertAccount (js_String (get (get (get (se_org ss) ''accounts'')
                                                               (se_env ss)) ''public_key''))))]
                [Text ([CHR 0x9A] @ '' stellar.expert'')]],
           El ''p'' [(''style'',
                      Sty [(''fontSize'', ''12.5''), (''color'', ''var(--ink-2)''), (''margin'', ''0''),
                           (''lineHeight'', ''1.55'')])]
             [Text
                ''This preview holds the key and submits testnet network/storage operations; METERED deducts non-monetary preview credits. Campaign and settlement state is inspectable under this address. Shared-event claims additionally require the published signed receipts and Merkle proofs.'']],
        El ''div'' [(''className'', Val ''card''),
                    (''style'',
                     Sty [(''padding'', ''20px 24px''), (''display'', ''flex''),
                          (''flexDirection'', ''column''), (''gap'', ''8'')])]
          [El ''span'' [(''style'', Sty [(''fontSize'', ''14''), (''fontWeight'', ''650'')])]
             [Text ''Environments''],
           El ''p'' [(''style'',
                      Sty [(''fontSize'', ''12.5''), (''color'', ''var(--ink-2)''), (''margin'', ''0''),
                           (''lineHeight'', ''1.55'')])]
             [El ''strong'' [] [Text ''TEST''],
              Text '' and '',
              El ''strong'' [] [Text ''METERED''],
              Text
                '' keep separate data, Stellar accounts and API keys. Both currently run on Stellar testnet; METERED only exercises the credit ledger. Mainnet is not enabled.'']],
        El ''div'' [(''className'', Val ''card''),
                    (''style'',
                     Sty [(''padding'', ''20px 24px''),
                          (''borderColor'', ''color-mix(in oklch, var(--burned) 30%, var(--line))'')])]
          [El ''span'' [(''style'',
                         Sty [(''fontSize'', ''14''), (''fontWeight'', ''650''),
                              (''color'', ''var(--burned)'')])] [Text ''Danger zone''],
           El ''p'' [(''style'',
                      Sty [(''fontSize'', ''12.5''), (''color'', ''var(--ink-2)''),
                           (''margin'', ''6px 0 0'')])]
             [Text
                ''Organization deletion and a verified data-erasure workflow are not implemented in this preview.'']]]\<close>

section \<open>The contract of a page\<close>

lemma hooks_load_sends: "disciplined h (hooks_load h)"
  unfolding hooks_load_def by (intro sends_intros)

lemma hooks_runs_send: "disciplined h (hooks_run h e)" "disciplined h (hooks_effect h)"
proof -
  have "disciplined h (hook_action h i n)" for i n
    unfolding hook_action_def by (intro sends_intros)
  moreover have "disciplined h (hook_submit h d)" for d
    unfolding hook_submit_def by (intro sends_intros)
  moreover have "disciplined h (hook_closed h b)" for b
    unfolding hook_closed_def by (cases b) (simp, intro sends_intros hooks_load_sends)+
  ultimately show "disciplined h (hooks_run h e)"
    unfolding hooks_run_def
    by (intro sends_bind sends_page_get)
      (auto intro!: sends_intros hooks_load_sends split: hooks_ev.split option.split)
  show "disciplined h (hooks_effect h)"
    unfolding hooks_effect_def by (intro sends_intros hooks_load_sends)
qed

interpretation hooks_page: page h "hooks_run h" "hooks_effect h" for h
  by unfold_locales (rule hooks_runs_send)+

end
