(* ===== verification/Console_Loyalty.thy ===== *)
theory Console_Loyalty
  imports Console_Wizard
begin

text \<open>
  The loyalty pages of the console (\<open>cloud/console/src/pages/Loyalty.jsx\<close>): the list of programs, one
  program with its customers and rewards, and the dialog that records punches.
\<close>

section \<open>Shared parts\<close>

definition programStatus :: "int \<Rightarrow> jval \<Rightarrow> string \<times> string" where \<comment> \<open>at a time in milliseconds\<close>
  "programStatus now p =
     (if truthy (get p ''archived'') then ([], ''Archived'')
      else if jless (times (js_Number (get p ''valid_until'')) 1000) (num now) then (''pending'', ''Expired'')
      else (''valid'', ''Active''))"

definition status_pill :: "int \<Rightarrow> jval \<Rightarrow> 'e html" where
  "status_pill now p = (case programStatus now p of (k, l) \<Rightarrow> Pill_c k [Text l])"

definition dots_shown :: "jnum \<Rightarrow> nat" where \<comment> \<open>the length \<open>Math.min(of, 10)\<close> of an array\<close>
  "dots_shown v = (case v of Fin r \<Rightarrow> nat \<lfloor>min r 10\<rfloor> | PosInf \<Rightarrow> 10 | _ \<Rightarrow> 0)"

definition PunchDots :: \<open>jnum \<Rightarrow> jnum \<Rightarrow> string \<Rightarrow> 'e html\<close> where
  \<open>PunchDots n cap sz =
     El ''span'' [(''style'', Sty [(''display'', ''inline-flex''), (''gap'', ''4'')])]
       (concat (map (\<lambda>i.
                       [El ''span'' [(''style'',
                                      Sty ([(''width'', sz), (''height'', sz),
                                            (''borderRadius'', ''99'')]
                                             @ (if jless (num (int i)) n then
                                                  [(''background'', ''var(--accent)''),
                                                   (''border'', ''1px solid var(--accent-2)'')] else
                                                  [(''border'', ''1px dashed var(--line-2)'')])))] []])
                  [0..<dots_shown cap]))\<close>

section \<open>The programs\<close>

record loyalty =
  lp_data :: jval
  lp_create :: "wizard option"
  lp_loads :: "unit promises"

definition loyalty_init :: loyalty where
  "loyalty_init = \<lparr>lp_data = JNull, lp_create = None, lp_loads = []\<rparr>"

datatype loyalty_ev = LpNew | LpOpen string | LpWizard wizard_ev

definition programs_load :: "'w console \<Rightarrow> (('w, loyalty) on_visit, unit) io" where
  "programs_load h = launch h ''/v1/loyalty/programs'' () lp_loads_update"

definition programs_loaded :: "jval js \<Rightarrow> loyalty \<Rightarrow> loyalty" where
  "programs_loaded r p = (case r of Inr d \<Rightarrow> p\<lparr>lp_data := d\<rparr> | Inl _ \<Rightarrow> p)"

definition programs_effect :: "'w console \<Rightarrow> (('w, loyalty) on_visit, unit) io" where
  "programs_effect h = bindIO (on_page (\<lambda>p. p\<lparr>lp_data := JNull\<rparr>)) (\<lambda>_. programs_load h)"

definition program_done :: "'w console \<Rightarrow> jval \<Rightarrow> (('w, loyalty) on_visit, unit) io" where \<comment> \<open>\<open>onDone\<close>\<close>
  "program_done h c = bindIO (on_page (\<lambda>p. p\<lparr>lp_create := None\<rparr>)) (\<lambda>_. programs_load h)"

definition set_create :: "(wizard \<Rightarrow> wizard) \<Rightarrow> loyalty \<Rightarrow> loyalty" where
  "set_create f p = p\<lparr>lp_create := map_option f (lp_create p)\<rparr>"

definition loyalty_run :: "'w console \<Rightarrow> int \<Rightarrow> loyalty_ev \<Rightarrow> (('w, loyalty) on_visit, unit) io" where
  "loyalty_run h now e =
     (case e of
        LpNew \<Rightarrow> on_page (\<lambda>p. p\<lparr>lp_create := (case lp_create p of None \<Rightarrow> Some (wizard_init (Some ''loyalty''))
                                            | Some w \<Rightarrow> Some w)\<rparr>)
      | LpOpen i \<Rightarrow> in_visit (nav (''/loyalty/'' @ i))
      | LpWizard w \<Rightarrow>
          bindIO (page_get lp_create) (\<lambda>wz. wizard_run h now set_create (program_done h) wz w))"

definition no_programs :: \<open>string \<Rightarrow> loyalty \<Rightarrow> loyalty_ev html\<close> where
  \<open>no_programs env p =
     El ''div'' [(''className'', Val ''page'')]
       ([El ''div'' [(''style'',
                      Sty [(''flex'', ''1''), (''display'', ''grid''), (''placeItems'', ''center''),
                           (''minHeight'', ''60vh'')])]
           [El ''div'' [(''style'',
                         Sty [(''width'', ''440''), (''display'', ''flex''),
                              (''flexDirection'', ''column''), (''alignItems'', ''center''),
                              (''gap'', ''20''), (''textAlign'', ''center'')])]
              [El ''div'' [(''style'',
                            Sty [(''width'', ''340''), (''background'', ''var(--surface)''),
                                 (''border'', ''1px solid var(--line)''), (''borderRadius'', ''16''),
                                 (''boxShadow'', ''var(--shadow)''), (''padding'', ''18px 22px''),
                                 (''display'', ''flex''), (''flexDirection'', ''column''),
                                 (''gap'', ''12''), (''transform'', ''rotate(-1.5deg)'')])]
                 [El ''div'' [(''style'',
                               Sty [(''display'', ''flex''), (''justifyContent'', ''space-between''),
                                    (''alignItems'', ''center'')])]
                    [El ''span'' [(''className'', Val ''eyebrow''),
                                  (''style'', Sty [(''fontSize'', ''10.5'')])] [Text ''Punch card''],
                     El ''span'' [(''className'', Val ''mono''),
                                  (''style'',
                                   Sty [(''fontSize'', ''10.5''), (''color'', ''var(--ink-3)'')])]
                       [Text ''3/10'']],
                  El ''div'' [(''style'',
                               Sty [(''display'', ''flex''), (''gap'', ''7''),
                                    (''justifyContent'', ''center'')])]
                    (concat (map (\<lambda>i. (if i < (3 :: nat) then
                                                 [El ''span'' [(''style'',
                                                                Sty [(''width'', ''22''),
                                                                     (''height'', ''22''),
                                                                     (''borderRadius'', ''99''),
                                                                     (''background'',
                                                                      ''var(--accent)''),
                                                                     (''border'',
                                                                      ''1px solid var(--accent-2)''),
                                                                     (''display'', ''grid''),
                                                                     (''placeItems'', ''center''),
                                                                     (''color'', ''var(--on-accent)''),
                                                                     (''fontSize'', ''11''),
                                                                     (''fontWeight'', ''700'')])]
                                                    [Text [CHR 0x8D]]] else
                                                 [El ''span'' [(''style'',
                                                                Sty [(''width'', ''22''),
                                                                     (''height'', ''22''),
                                                                     (''borderRadius'', ''99''),
                                                                     (''border'',
                                                                      ''1.5px dashed var(--line-2)'')])]
                                                    []])) [0..<10])),
                  El ''div'' [(''className'', Val ''mono''),
                              (''style'',
                               Sty [(''fontSize'', ''10.5''), (''color'', ''var(--ink-3)''),
                                    (''borderTop'', ''1px dashed var(--line-2)''),
                                    (''paddingTop'', ''9'')])]
                    [Text (''signed receipts '' @ [CHR 0xB7] @ '' manual period anchor'')]],
               El ''div'' []
                 [El ''h2'' [(''className'', Val ''display''),
                             (''style'', Sty [(''fontSize'', ''26''), (''margin'', ''0'')])]
                    [Text (''Buy 10, get 1 free '' @ [CHR 0x97] @ '' with signed punches.'')],
                  El ''p'' [(''style'',
                             Sty [(''fontSize'', ''13.5''), (''color'', ''var(--ink-2)''),
                                  (''lineHeight'', ''1.55''), (''margin'', ''8px 0 0'')])]
                    [Text
                       ''Punches produce signed receipts. You can commit a period total on-chain manually; crossing the threshold issues the reward voucher.'']],
               BtnPrimary [Text ''Create a program''] LpNew False False
                 [Ic_c ''plus'' [(''width'', Val ''15''), (''height'', Val ''15'')]] False []]]]
          @ (case lp_create p of None \<Rightarrow> [] | Some w \<Rightarrow>
               [map_html LpWizard (Wizard env w)]))\<close>

definition program_list :: \<open>'w console \<Rightarrow> int \<Rightarrow> string \<Rightarrow> loyalty \<Rightarrow> loyalty_ev html\<close> where
  \<open>program_list h now env p =
     El ''div'' [(''className'', Val ''page'')]
       ([El ''div'' [(''className'', Val ''page-head'')]
           [El ''div'' []
              [El ''h1'' [(''className'', Val ''display''),
                          (''style'', Sty [(''fontSize'', ''27''), (''margin'', ''0'')])]
                 [Text ''Loyalty''],
               El ''p'' [(''className'', Val ''page-sub'')]
                 [Text (''Punch programs ''
                          @ [CHR 0xB7]
                          @
                          '' signed earn receipts, manual period commits, automatic reward issuance'')]],
            BtnPrimary [Text ''New program''] LpNew False False
              [Ic_c ''plus'' [(''width'', Val ''13''), (''height'', Val ''13'')]] True []],
         El ''div'' [(''className'', Val ''card''), (''style'', Sty [(''overflow'', ''hidden'')])]
           ([El ''div'' [(''style'',
                          Sty [(''display'', ''grid''),
                               (''gridTemplateColumns'', ''1.8fr 2fr 1fr 1.1fr 1.1fr .8fr''),
                               (''gap'', ''14''), (''padding'', ''11px 20px''),
                               (''borderBottom'', ''1px solid var(--line)''),
                               (''background'', ''var(--surface-inset)'')])]
               (concat (map (\<lambda>t.
                               [El ''span'' [(''className'', Val ''eyebrow''),
                                             (''style'', Sty [(''fontSize'', ''11'')])] [Text t]])
                          [''Program'', ''Rule'', ''Status'', ''Customers'', ''Rewards issued'',
                           ''Created'']))]
              @
              (concat (map (\<lambda>x.
                              [El ''div'' [(''onClick'', On (LpOpen (js_String (get x ''id'')))),
                                           (''style'',
                                            Sty [(''display'', ''grid''),
                                                 (''gridTemplateColumns'',
                                                  ''1.8fr 2fr 1fr 1.1fr 1.1fr .8fr''),
                                                 (''gap'', ''14''), (''padding'', ''14px 20px''),
                                                 (''borderBottom'', ''1px solid var(--line)''),
                                                 (''alignItems'', ''center''),
                                                 (''cursor'', ''pointer'')])]
                                 [El ''span'' [(''style'',
                                                Sty [(''fontSize'', ''14''),
                                                     (''fontWeight'', ''650'')])]
                                    [Text (shown (get x ''name''))],
                                  El ''div'' [(''style'',
                                               Sty [(''display'', ''flex''),
                                                    (''alignItems'', ''center''), (''gap'', ''9'')])]
                                    [PunchDots (Fin 3) (jmin (js_Number (get x ''threshold'')) (Fin 5))
                                       ''9'',
                                     El ''span'' [(''style'',
                                                   Sty [(''fontSize'', ''12.5''),
                                                        (''color'', ''var(--ink-2)'')])]
                                       [Text (shown (get x ''threshold'')),
                                        Text ('' punches '' @ [CHR 0x8F] @ '' reward'')]],
                                  status_pill now x,
                                  El ''span'' [(''className'', Val ''mono''),
                                               (''style'', Sty [(''fontSize'', ''13'')])]
                                    [Text (shown (get x ''customers''))],
                                  El ''span'' [(''className'', Val ''mono''),
                                               (''style'', Sty [(''fontSize'', ''13'')])]
                                    [Text (shown (get x ''rewards_issued''))],
                                  El ''span'' [(''style'',
                                                Sty [(''fontSize'', ''12.5''),
                                                     (''color'', ''var(--ink-2)'')])]
                                    [Text (fmtDate h (get x ''created_at''))]]])
                         (items (get (lp_data p) ''programs'')))))]
          @ (case lp_create p of None \<Rightarrow> [] | Some w \<Rightarrow>
               [map_html LpWizard (Wizard env w)]))\<close>

definition page_loading :: "'e html" where
  "page_loading =
     El ''div'' [(''className'', Val ''page'')]
       [El ''div'' [(''className'', Val ''faint'')] [Text (''Loading'' @ [CHR 0x85])]]"

definition loyalty_view :: "'w console \<Rightarrow> int \<Rightarrow> session \<Rightarrow> loyalty \<Rightarrow> loyalty_ev html" where
  "loyalty_view h now ss p =
     (if \<not> truthy (lp_data p) then page_loading
      else if items (get (lp_data p) ''programs'') = [] then no_programs (se_env ss) p
      else program_list h now (se_env ss) p)"

section \<open>One program\<close>

record punch_dialog =
  pd_ref :: string
  pd_eventRef :: string
  pd_count :: string
  pd_busy :: bool
  pd_err :: "jserr option"

definition punch_init :: punch_dialog where
  "punch_init = \<lparr>pd_ref = [], pd_eventRef = [], pd_count = ''1'', pd_busy = False, pd_err = None\<rparr>"

record program_page =
  pp_id :: jnum
  pp_data :: jval
  pp_punch :: "punch_dialog option"
  pp_loads :: "unit promises"

definition program_init :: "jnum \<Rightarrow> program_page" where
  "program_init i = \<lparr>pp_id = i, pp_data = JNull, pp_punch = None, pp_loads = []\<rparr>"

datatype program_ev = PpNav string | PpPunch | PdRef string | PdEventRef string | PdCount string | PdSubmit | PdCancel

definition program_load :: "'w console \<Rightarrow> (('w, program_page) on_visit, unit) io" where
  "program_load h =
     bindIO (page_get pp_id) (\<lambda>i. launch h (''/v1/loyalty/programs/'' @ num_str i) () pp_loads_update)"

definition program_loaded :: "jval js \<Rightarrow> (('w, program_page) on_visit, unit) io" where
  "program_loaded r = (case r of Inr d \<Rightarrow> on_page (\<lambda>p. p\<lparr>pp_data := d\<rparr>) | Inl _ \<Rightarrow> in_visit (nav ''/loyalty''))"

definition program_effect :: "'w console \<Rightarrow> (('w, program_page) on_visit, unit) io" where
  "program_effect h = bindIO (on_page (\<lambda>p. p\<lparr>pp_data := JNull\<rparr>)) (\<lambda>_. program_load h)"

definition the_program :: "program_page \<Rightarrow> jval" where
  "the_program p = get (pp_data p) ''program''"

definition set_punch :: "(punch_dialog \<Rightarrow> punch_dialog) \<Rightarrow> program_page \<Rightarrow> program_page" where
  "set_punch f p = p\<lparr>pp_punch := map_option f (pp_punch p)\<rparr>"

definition punch_body :: "punch_dialog \<Rightarrow> jval js" where
  "punch_body d =
     (let n = to_number (pd_count d) in
      if \<not> safe_int n \<or> jless n (Fin 1) \<or> jless (Fin 1000) n
      then Inl (RangeError ''Punches must be an integer between 1 and 1,000.'')
      else Inr (JObj [(''customer_ref'', JStr (pd_ref d)), (''event_ref'', JStr (pd_eventRef d)),
             (''count'', JNum n)]))"

definition punch_toast :: "'w console \<Rightarrow> jval \<Rightarrow> (('w, program_page) on_visit, unit) io" where
  \<comment> \<open>the ticket of the first title is a pair of code units\<close>
  "punch_toast h r =
     bindIO (read_field r ''rewards_issued'') (\<lambda>issued.
     bindIO (read_field issued ''length'') (\<lambda>_.
     if items issued \<noteq> []
     then pop_up h (''Reward issued! '' @ [CHR 0x83, CHR 0x84])
       (''Voucher '' @ join '', '' (map js_String (items issued)) @ '' auto-issued on-chain '' @ [CHR 0x97] @ '' ''
        @ js_String (get r ''punches'') @ '' punches total.'') ''success''
     else pop_up h ''Punches recorded''
       (js_String (get r ''progress'') @ ''/'' @ js_String (get r ''threshold'') @ '' toward the next reward.'') ''success''))"

definition punch_now :: "'w console \<Rightarrow> jval \<Rightarrow> punch_dialog \<Rightarrow> (('w, program_page) on_visit, unit) io" where
  \<comment> \<open>\<open>submit\<close> of the dialog, for the program it was opened on\<close>
  "punch_now h prog d =
     bindIO (on_page (set_punch (\<lambda>x. x\<lparr>pd_busy := True, pd_err := None\<rparr>))) (\<lambda>_.
     catchIO
       (bindIO (liftIO (punch_body d)) (\<lambda>body.
        bindIO (keyed_post h (''/v1/loyalty/programs/'' @ js_String (get prog ''id'') @ ''/punches'') body) (\<lambda>r.
        bindIO (punch_toast h r) (\<lambda>_.
        bindIO (on_page (\<lambda>p. p\<lparr>pp_punch := None\<rparr>)) (\<lambda>_. program_load h)))))
       (\<lambda>e. on_page (set_punch (\<lambda>x. x\<lparr>pd_err := Some e, pd_busy := False\<rparr>))))"

definition program_run :: "'w console \<Rightarrow> program_ev \<Rightarrow> (('w, program_page) on_visit, unit) io" where
  "program_run h e =
     bindIO (page_get (\<lambda>p. p)) (\<lambda>p.
     case (e, pp_punch p) of
        (PpNav r, _) \<Rightarrow> in_visit (nav r)
      | (PpPunch, None) \<Rightarrow> on_page (\<lambda>p. p\<lparr>pp_punch := Some punch_init\<rparr>)
      | (PdRef t, _) \<Rightarrow> on_page (set_punch (\<lambda>x. x\<lparr>pd_ref := t\<rparr>))
      | (PdEventRef t, _) \<Rightarrow> on_page (set_punch (\<lambda>x. x\<lparr>pd_eventRef := t\<rparr>))
      | (PdCount t, _) \<Rightarrow> on_page (set_punch (\<lambda>x. x\<lparr>pd_count := t\<rparr>))
      | (PdSubmit, Some d) \<Rightarrow> punch_now h (the_program p) d
      | (PdCancel, Some d) \<Rightarrow> on_page (\<lambda>p. p\<lparr>pp_punch := None\<rparr>)
      | _ \<Rightarrow> returnIO ())"

section \<open>Elements of one program\<close>

definition js_PI :: rat where \<comment> \<open>the double \<open>Math.PI\<close>\<close>
  "js_PI = 884279719003555 / 281474976710656"

definition circ :: jnum where
  "circ = jmul (jmul (Fin 2) (Fin js_PI)) (Fin 64)"

definition redeemed_share :: "jval \<Rightarrow> jnum" where \<comment> \<open>\<open>frac\<close>\<close>
  "redeemed_share x =
     (if truthy (get x ''rewards_issued'')
      then jdiv (js_Number (get x ''rewards_redeemed'')) (js_Number (get x ''rewards_issued'')) else Fin 0)"

definition outstanding :: "jval \<Rightarrow> jnum" where
  "outstanding x = jsub (js_Number (get x ''rewards_issued'')) (js_Number (get x ''rewards_redeemed''))"

fun replace_first :: "char \<Rightarrow> char \<Rightarrow> string \<Rightarrow> string" where
  "replace_first a b [] = []"
| "replace_first a b (c # s) = (if c = a then b # s else c # replace_first a b s)"

definition reward_rows :: "jval \<Rightarrow> (string \<times> string) list" where
  "reward_rows x =
     [(''Threshold'', js_String (get x ''threshold'') @ '' punches''),
      (''Reward'', replace_first (CHR ''_'') (CHR '' '') (js_String (get x ''reward_discount_type''))),
      (''Earn anchor'', shown (get x ''earn_code''))]"

definition one_away :: "jval \<Rightarrow> jval \<Rightarrow> bool" where \<comment> \<open>of a customer in a program\<close>
  "one_away x cu \<longleftrightarrow> get cu ''progress'' = JNum (jsub (js_Number (get x ''threshold'')) (Fin 1))"

definition more_than_zero :: "jval \<Rightarrow> bool" where
  "more_than_zero v \<longleftrightarrow> jless (Fin 0) (js_Number v)"

definition customer_row :: \<open>'w console \<Rightarrow> jval \<Rightarrow> jval \<Rightarrow> 'e html\<close> where
  \<open>customer_row h x cu =
     El ''div'' [(''style'',
                  Sty [(''display'', ''grid''), (''gridTemplateColumns'', ''1.4fr 2fr 1fr 1fr''),
                       (''gap'', ''14''), (''padding'', ''13px 20px''),
                       (''borderBottom'', ''1px solid var(--line)''), (''alignItems'', ''center''),
                       (''background'',
                        (if one_away x cu then
                           ''color-mix(in oklch, var(--accent-wash) 30%, var(--surface))'' else []))])]
       [El ''span'' [(''className'', Val ''mono''), (''style'', Sty [(''fontSize'', ''12.5'')])]
          [Text (trunc_c 4 4 (get cu ''customer_ref''))],
        El ''div'' [(''style'',
                     Sty [(''display'', ''flex''), (''alignItems'', ''center''), (''gap'', ''10'')])]
          [PunchDots (js_Number (get cu ''progress'')) (js_Number (get x ''threshold'')) ''13'',
           El ''span'' [(''className'', Val ''mono''),
                        (''style'', Sty [(''fontSize'', ''12''), (''fontWeight'', ''600'')])]
             ([Text (shown (get cu ''progress'')), Text ''/'', Text (shown (get x ''threshold''))]
                @
                (if one_away x cu then
                   [El ''span'' [(''style'',
                                  Sty [(''color'', ''var(--pending)''), (''fontWeight'', ''500'')])]
                      [Text ('' '' @ [CHR 0xB7] @ '' one away'')]] else [])
                @
                (if (more_than_zero (get cu ''rewards_earned'') \<and> jless
                       (js_Number (get cu ''progress'')) (Fin 2)) then
                   [El ''span'' [(''style'',
                                  Sty [(''color'', ''var(--valid)''), (''fontWeight'', ''500'')])]
                      [Text ('' '' @ [CHR 0xB7] @ '' reward issued'')]] else []))],
        El ''span'' [(''className'', Val ''mono''), (''style'', Sty [(''fontSize'', ''12.5'')])]
          [Text (shown (get cu ''rewards_earned''))],
        El ''span'' [(''style'', Sty [(''fontSize'', ''12.5''), (''color'', ''var(--ink-2)'')])]
          [Text (fmtDateTime h (get cu ''last_punch_at''))]]\<close>

definition PunchModal :: \<open>jval \<Rightarrow> punch_dialog \<Rightarrow> program_ev html\<close> where
  \<open>PunchModal x d =
     Modal PdCancel ''440''
       [El ''div'' [(''style'',
                     Sty [(''display'', ''flex''), (''flexDirection'', ''column''), (''gap'', ''16'')])]
          ([El ''div'' []
              [El ''div'' [(''style'', Sty [(''fontSize'', ''16''), (''fontWeight'', ''650'')])]
                 [Text ''Record punches''],
               El ''div'' [(''className'', Val ''mono''),
                           (''style'',
                            Sty [(''fontSize'', ''12''), (''color'', ''var(--ink-3)''),
                                 (''marginTop'', ''2'')])]
                 [Text (shown (get x ''name'')),
                  Text ('' '' @ [CHR 0xB7] @ '' ''),
                  Text (shown (get x ''threshold'')),
                  Text ('' '' @ [CHR 0x8F] @ '' reward'')]],
            El ''div'' [(''className'', Val ''field'')]
              [El ''label'' []
                 [Text ''Customer '',
                  El ''span'' [(''className'', Val ''req'')] [Text ''*'']],
               El ''input'' [(''className'', Val ''input''), (''value'', Val (pd_ref d)),
                             (''onChange'', OnV PdRef),
                             (''placeholder'', Val ''phone, email or POS id''),
                             (''autoFocus'', Flag True)] [],
               El ''span'' [(''className'', Val ''help'')]
                 [Text (''Hashed before storage ''
                          @ [CHR 0x97]
                          @ '' the chain never sees who they are.'')]],
            El ''div'' [(''className'', Val ''field'')]
              [El ''label'' []
                 [Text ''Sale / event ID '',
                  El ''span'' [(''style'', Sty [(''color'', ''var(--ink-3)'')])] [Text ''optional'']],
               El ''input'' [(''className'', Val ''input mono''), (''value'', Val (pd_eventRef d)),
                             (''onChange'', OnV PdEventRef), (''placeholder'', Val ''POS-ORDER-1042'')]
                 [],
               El ''span'' [(''className'', Val ''help'')]
                 [Text
                    ''Use a stable POS reference to reject the same event even if it arrives with a different idempotency key.'']],
            El ''div'' [(''className'', Val ''field'')]
              [El ''label'' [] [Text ''Punches''],
               El ''input'' [(''className'', Val ''input mono''), (''value'', Val (pd_count d)),
                             (''onChange'', OnV PdCount)] []]]
             @ (ErrText (pd_err d))
             @
             [El ''div'' [(''style'',
                           Sty [(''display'', ''flex''), (''justifyContent'', ''flex-end''),
                                (''gap'', ''9'')])]
                [El ''button'' [(''className'', Val ''btn-plain''), (''onClick'', On PdCancel)]
                   [Text ''Cancel''],
                 BtnPrimary [Text ''Record''] PdSubmit (pd_busy d) (pd_ref d = [])
                   [Ic_c ''check'' [(''width'', Val ''13''), (''height'', Val ''13'')]] True []]])]\<close>

definition program_view :: \<open>'w console \<Rightarrow> int \<Rightarrow> program_page \<Rightarrow> program_ev html\<close> where
  \<open>program_view h now p =
     (let x = the_program p in if \<not> truthy (pp_data p) then page_loading else El ''div''
        [(''className'', Val ''page'')]
        ([El ''div'' [(''style'',
                       Sty [(''display'', ''flex''), (''alignItems'', ''center''), (''gap'', ''10'')])]
            [El ''div'' [(''style'',
                          Sty [(''display'', ''flex''), (''alignItems'', ''center''), (''gap'', ''7''),
                               (''fontSize'', ''12.5''), (''fontWeight'', ''600''),
                               (''color'', ''var(--ink-3)''), (''flex'', ''1'')])]
               [El ''span'' [(''style'', Sty [(''cursor'', ''pointer'')]),
                             (''onClick'', On (PpNav ''/loyalty''))] [Text ''Loyalty''],
                Ic_c ''chevron'' [(''width'', Val ''12''), (''height'', Val ''12''),
                                (''style'', Sty [(''transform'', ''rotate(-90deg)'')])],
                El ''span'' [(''style'', Sty [(''color'', ''var(--ink)'')])]
                  [Text (shown (get x ''name''))]],
             status_pill now x,
             BtnPrimary [Text ''Record punches''] PpPunch False False
               [Ic_c ''plus'' [(''width'', Val ''13''), (''height'', Val ''13'')]] True []],
          El ''div'' [(''style'',
                       Sty [(''display'', ''grid''), (''gridTemplateColumns'', ''1fr 1.6fr''),
                            (''gap'', ''14''), (''alignItems'', ''stretch'')])]
            [El ''div'' [(''className'', Val ''card''),
                         (''style'',
                          Sty [(''padding'', ''24''), (''display'', ''flex''),
                               (''alignItems'', ''center''), (''gap'', ''24'')])]
               [El ''svg'' [(''viewBox'', Val ''0 0 160 160''), (''width'', Val ''150''),
                            (''height'', Val ''150''), (''style'', Sty [(''flex'', ''none'')])]
                  ([El ''circle'' [(''cx'', Val ''80''), (''cy'', Val ''80''), (''r'', Val ''64''),
                                   (''fill'', Val ''none''), (''stroke'', Val ''var(--surface-inset)''),
                                   (''strokeWidth'', Val ''13'')] [],
                    El ''circle'' [(''cx'', Val ''80''), (''cy'', Val ''80''), (''r'', Val ''64''),
                                   (''fill'', Val ''none''), (''stroke'', Val ''var(--line)''),
                                   (''strokeWidth'', Val ''13''), (''opacity'', Val ''.6'')] []]
                     @
                     (if more_than_zero (get x ''rewards_issued'') then
                        [El ''circle'' [(''cx'', Val ''80''), (''cy'', Val ''80''), (''r'', Val ''64''),
                                        (''fill'', Val ''none''), (''stroke'', Val ''var(--accent)''),
                                        (''strokeWidth'', Val ''13''),
                                        (''strokeLinecap'', Val ''round''),
                                        (''strokeDasharray'',
                                         Val (num_str (jmax (Fin 2) (jmul (redeemed_share x) circ))
                                                @ '' ''
                                                @ num_str circ)),
                                        (''transform'', Val ''rotate(-90 80 80)'')] []] else [])
                     @
                     [El ''text'' [(''x'', Val ''80''), (''y'', Val ''76''),
                                   (''textAnchor'', Val ''middle''),
                                   (''fontFamily'', Val ''var(--serif)''), (''fontSize'', Val ''36''),
                                   (''fontWeight'', Val ''600''), (''fill'', Val ''var(--ink)'')]
                        [Text (shown (get x ''rewards_issued''))],
                      El ''text'' [(''x'', Val ''80''), (''y'', Val ''97''),
                                   (''textAnchor'', Val ''middle''),
                                   (''fontFamily'', Val ''var(--sans)''), (''fontSize'', Val ''11''),
                                   (''fontWeight'', Val ''600''), (''fill'', Val ''var(--ink-3)'')]
                        [Text ''rewards issued'']]),
                El ''div'' [(''style'',
                             Sty [(''display'', ''flex''), (''flexDirection'', ''column''),
                                  (''gap'', ''10'')])]
                  [El ''div'' [(''style'',
                                Sty [(''display'', ''flex''), (''alignItems'', ''center''),
                                     (''gap'', ''8'')])]
                     [El ''span'' [(''style'',
                                    Sty [(''width'', ''10''), (''height'', ''10''),
                                         (''borderRadius'', ''3''),
                                         (''background'', ''var(--accent)'')])] [],
                      El ''span'' [(''style'',
                                    Sty [(''fontSize'', ''13''), (''color'', ''var(--ink-2)'')])]
                        [El ''strong'' [(''style'', Sty [(''color'', ''var(--ink)'')])]
                           [Text (shown (get x ''rewards_redeemed''))],
                         Text '' redeemed'']],
                   El ''div'' [(''style'',
                                Sty [(''display'', ''flex''), (''alignItems'', ''center''),
                                     (''gap'', ''8'')])]
                     [El ''span'' [(''style'',
                                    Sty [(''width'', ''10''), (''height'', ''10''),
                                         (''borderRadius'', ''3''), (''background'', ''var(--line)'')])]
                        [],
                      El ''span'' [(''style'',
                                    Sty [(''fontSize'', ''13''), (''color'', ''var(--ink-2)'')])]
                        [El ''strong'' [(''style'', Sty [(''color'', ''var(--ink)'')])]
                           [Text (num_str (outstanding x))],
                         Text '' outstanding'']],
                   El ''div'' [(''className'', Val ''mono''),
                               (''style'',
                                Sty [(''fontSize'', ''11.5''), (''color'', ''var(--ink-3)''),
                                     (''borderTop'', ''1px dashed var(--line-2)''),
                                     (''paddingTop'', ''10'')])]
                     [Text (shown (get x ''punches'')),
                      Text '' punches total'',
                      El ''br'' [] [],
                      Text (if more_than_zero (get x ''pending_anchor_events'') then js_String
                              (get x ''pending_anchor_events'')
                              @ '' pending anchor'' else ''no pending receipts'')]]],
             El ''div'' [(''className'', Val ''card''),
                         (''style'',
                          Sty [(''padding'', ''20px 24px''), (''display'', ''flex''),
                               (''flexDirection'', ''column''), (''gap'', ''12'')])]
               [El ''div'' [(''style'',
                             Sty [(''display'', ''flex''), (''alignItems'', ''center''),
                                  (''justifyContent'', ''space-between'')])]
                  [El ''span'' [(''style'', Sty [(''fontSize'', ''14''), (''fontWeight'', ''650'')])]
                     [Text ''Reward settings''],
                   El ''span'' [(''className'', Val ''authtag'')]
                     [Ic_c ''lock'' [(''width'', Val ''11''), (''height'', Val ''11'')],
                      Text ''locked after creation'']],
                El ''div'' [(''style'',
                             Sty [(''display'', ''grid''),
                                  (''gridTemplateColumns'', ''repeat(3, 1fr)''), (''gap'', ''14'')])]
                  (concat (map (\<lambda> (k, v) .
                                  [El ''div'' [(''style'',
                                                Sty [(''background'', ''var(--surface-inset)''),
                                                     (''border'', ''1px solid var(--line)''),
                                                     (''borderRadius'', ''12''),
                                                     (''padding'', ''13px 15px'')])]
                                     [El ''div'' [(''style'',
                                                   Sty [(''fontSize'', ''11.5''),
                                                        (''fontWeight'', ''600''),
                                                        (''color'', ''var(--ink-3)'')])] [Text k],
                                      El ''div'' [(''className'', Val ''display''),
                                                  (''style'',
                                                   Sty [(''fontSize'', ''20''),
                                                        (''marginTop'', ''3'')])] [Text v]]])
                             (reward_rows x))),
                El ''p'' [(''style'',
                           Sty [(''fontSize'', ''12.5''), (''color'', ''var(--ink-2)''),
                                (''margin'', ''0''), (''lineHeight'', ''1.5'')])]
                  [Text
                     ''Crossing the threshold auto-issues a single-use voucher on the reward campaign and fires'',
                   Text '' '',
                   El ''span'' [(''className'', Val ''mono''),
                                (''style'', Sty [(''fontSize'', ''11.5'')])]
                     [Text ''loyalty.reward_issued''],
                   Text
                     ''. Period totals can be committed on-chain manually; per-customer balances stay private.'']]],
          El ''div'' [(''className'', Val ''card''), (''style'', Sty [(''overflow'', ''hidden'')])]
            ([El ''div'' [(''style'',
                           Sty [(''display'', ''grid''),
                                (''gridTemplateColumns'', ''1.4fr 2fr 1fr 1fr''), (''gap'', ''14''),
                                (''padding'', ''11px 20px''),
                                (''borderBottom'', ''1px solid var(--line)''),
                                (''background'', ''var(--surface-inset)'')])]
                (concat (map (\<lambda>t.
                                [El ''span'' [(''className'', Val ''eyebrow''),
                                              (''style'', Sty [(''fontSize'', ''11'')])] [Text t]])
                           [''Customer ref'', ''Punches'', ''Rewards earned'', ''Last punch'']))]
               @
               (if items (get (pp_data p) ''customers'') = [] then
                  [El ''div'' [(''style'',
                                Sty [(''padding'', ''26px 20px''), (''textAlign'', ''center'')])]
                     [El ''span'' [(''className'', Val ''mono''),
                                   (''style'',
                                    Sty [(''fontSize'', ''12''), (''color'', ''var(--ink-3)'')])]
                        [Text (''No punches yet '' @ [CHR 0x97] @ '' record the first one.'')]]] else
                  [])
               @ (map (customer_row h x) (items (get (pp_data p) ''customers''))))]
           @
           (if items (get (pp_data p) ''rewards'') \<noteq> [] then
              [El ''div'' [(''className'', Val ''card''), (''style'', Sty [(''overflow'', ''hidden'')])]
                 ([El ''div'' [(''style'', Sty [(''padding'', ''14px 20px 0'')])]
                     [El ''span'' [(''style'', Sty [(''fontSize'', ''14''), (''fontWeight'', ''650'')])]
                        [Text ''Reward vouchers'']]]
                    @
                    (concat (map (\<lambda>r.
                                    [El ''div'' [(''style'',
                                                  Sty [(''display'', ''flex''),
                                                       (''alignItems'', ''center''), (''gap'', ''12''),
                                                       (''padding'', ''11px 20px''),
                                                       (''borderTop'', ''1px solid var(--line)''),
                                                       (''fontSize'', ''12.5'')])]
                                       [El ''span'' [(''className'', Val ''code-chip''),
                                                     (''style'', Sty [(''fontSize'', ''12.5'')])]
                                          [Text (shown (get r ''code''))],
                                        El ''span'' [(''className'', Val ''mono''),
                                                     (''style'',
                                                      Sty [(''fontSize'', ''11.5''),
                                                           (''color'', ''var(--ink-3)'')])]
                                          [Text (trunc_c 4 4 (get r ''customer_ref''))],
                                        El ''span'' [(''style'', Sty [(''color'', ''var(--ink-3)'')])]
                                          [Text (fmtDateTime h (get r ''issued_at''))],
                                        El ''span'' [(''style'', Sty [(''marginLeft'', ''auto'')])]
                                          (if truthy (get r ''redeemed'') then
                                             [Pill_c [] [Text ''Redeemed'']] else
                                             [Pill_c ''valid'' [Text ''Outstanding'']])]])
                               (items (get (pp_data p) ''rewards'')))))] else [])
           @
           [El ''p'' [(''className'', Val ''mono''),
                      (''style'',
                       Sty [(''fontSize'', ''11.5''), (''color'', ''var(--ink-3)''),
                            (''margin'', ''0'')])]
              [Text (''Customer refs are opaque hashes ''
                       @ [CHR 0x97]
                       @ '' you keep the mapping in your POS; the chain never sees who they are.'')]]
           @ (case pp_punch p of None \<Rightarrow> [] | Some d \<Rightarrow> [PunchModal x d])))\<close>

section \<open>The contract of a page\<close>

lemma programs_load_sends: "disciplined h (programs_load h)"
  unfolding programs_load_def by (intro sends_intros)

lemma loyalty_runs_send: "disciplined h (loyalty_run h now e)" "disciplined h (programs_effect h)"
proof -
  have "disciplined h (program_done h c)" for c
    unfolding program_done_def by (intro sends_intros programs_load_sends)
  then show "disciplined h (loyalty_run h now e)"
    by (cases e) (simp_all add: loyalty_run_def, (intro sends_intros wizard_sends)+)
  show "disciplined h (programs_effect h)"
    unfolding programs_effect_def by (intro sends_intros programs_load_sends)
qed

interpretation loyalty_page: page h "loyalty_run h now" "programs_effect h" for h now
  by unfold_locales (rule loyalty_runs_send)+

lemma program_load_sends: "disciplined h (program_load h)"
  unfolding program_load_def by (intro sends_intros)

lemma program_runs_send: "disciplined h (program_run h e)" "disciplined h (program_effect h)"
proof -
  have "disciplined h (punch_toast h r)" for r
    unfolding punch_toast_def
    by (intro sends_bind sends_read_field, split if_split) (intro conjI impI sends_intros)
  then have "disciplined h (punch_now h x d)" for x d
    unfolding punch_now_def by (intro sends_intros program_load_sends)
  then show "disciplined h (program_run h e)"
    unfolding program_run_def
    by (intro sends_bind sends_page_get) (auto intro!: sends_intros split: program_ev.split option.split)
  show "disciplined h (program_effect h)"
    unfolding program_effect_def by (intro sends_intros program_load_sends)
qed

interpretation program_page: page h "program_run h" "program_effect h" for h
  by unfold_locales (rule program_runs_send)+

end
