(* ===== verification/Console_Orders.thy ===== *)
theory Console_Orders
  imports Console_Redeem Console_Keys Console_Hooks Console_Loyalty Console_Campaign Console_Campaigns
begin

text \<open>
  One click, one order. Every button of the console that writes is an attempt of the same shape: the
  body is checked, one post is awaited, the page is brought up to date, and what is thrown is
  shown. \<open>sends_one\<close> says what such an attempt sends and that it ends without throwing.
\<close>

abbreviation quiet :: "(('w, 'p) on_visit, 'a) io \<Rightarrow> bool" where \<comment> \<open>posts nothing\<close>
  "quiet m \<equiv> frame (\<lambda>z z'. posts (client_of z') = posts (client_of z)) m"

lemma quiet_rel: "reflp (\<lambda>z z'. posts (client_of z') = posts (client_of z))"
  "transp (\<lambda>z z'. posts (client_of z') = posts (client_of z))"
  by (auto intro!: reflpI transpI)

lemmas quiet_bind = frame_bind [OF quiet_rel(2)]

lemma quiet_on_page: "quiet (on_page f)"
  by (auto simp: frame_def client_of_def)

lemma quiet_page_get: "quiet (page_get f)"
  by (auto simp: frame_def client_of_def)

lemma quiet_nav: "quiet (in_visit (nav r))"
  by (auto simp: frame_def in_visit_run nav_def on_session_def client_of_def)

lemma quiet_pop: "quiet (pop_up h t m k)" "quiet (pop_err h e)"
  by (auto simp: frame_def pop_up_def pop_err_def toastErr_def in_visit_run toast_c_run client_of_def posts_def)

lemma quiet_launch: "quiet (launch h path k upd)"
  by (auto simp: frame_def launch_def client_of_def dest: api_get_posts split: prod.splits)

lemma quiet_read: "quiet (read_field v k)" "quiet (liftIO r)" "quiet (returnIO x)"
  by (simp_all add: frame_def read_field_def)

lemma quiet_if: "quiet m \<Longrightarrow> quiet n \<Longrightarrow> quiet (if b then m else n)"
  by simp

lemmas quiet_intros = quiet_bind quiet_read quiet_if quiet_on_page quiet_page_get quiet_nav quiet_pop quiet_launch

definition one_more :: "'w console \<Rightarrow> string \<Rightarrow> jval js \<Rightarrow> 'w client \<Rightarrow> 'w client \<Rightarrow> bool" where
  \<comment> \<open>nothing is posted when there is no body, and otherwise one order of it, under a key made for it and
    in the environment of the client\<close>
  "one_more h path body c c' \<longleftrightarrow>
     (case body of
        Inl e \<Rightarrow> posts c' = posts c
      | Inr b \<Rightarrow> \<exists>q. posts c' = posts c @ [q] \<and> rq_path q = ''/api'' @ path \<and> json_stringify b = Inr (rq_body q) \<and>
          key_of q = Some (c_uuid h (cl_uuids c)) \<and> env_of q = Some (cl_env c))"

definition sends_one :: "'w console \<Rightarrow> ('p \<Rightarrow> string) \<Rightarrow> jval js \<Rightarrow> (('w, 'p) on_visit, unit) io \<Rightarrow> bool" where
  \<comment> \<open>on any state of the page, which may name the path, and nothing is thrown\<close>
  "sends_one h path body m \<longleftrightarrow>
     (\<forall>c s p. \<exists>c' s' p'. m ((c, s), p) = (Inr (), ((c', s'), p')) \<and> one_more h (path p) body c c')"

definition settles :: "(('w, 'p) on_visit, unit) io \<Rightarrow> bool" where \<comment> \<open>throws nothing\<close>
  "settles m \<longleftrightarrow> (\<forall>z. fst (m z) = Inr ())"

lemma settles_on_page: "settles (on_page f)"
  by (auto simp: settles_def)

lemma settles_pop_err: "settles (pop_err h e)"
  by (auto simp: settles_def pop_err_def toastErr_def in_visit_run toast_c_run)

lemma sends_oneI:
  assumes "\<And>b. body = Inr b \<Longrightarrow> \<not> nullish b \<and> (\<exists>t. json_stringify b = Inr (Some t))"
    and "\<And>v. quiet (k v)" and "\<And>e. quiet (handler e)" and "\<And>e. settles (handler e)"
  shows "sends_one h (\<lambda>_. path) body (catchIO (bindIO (liftIO body) (\<lambda>b. bindIO (keyed_post h path b) k)) handler)"
    (is "sends_one h (\<lambda>_. path) body (catchIO ?try handler)")
  unfolding sends_one_def
proof (intro allI)
  fix c s p
  have caught: "\<exists>c' s' p'. catchIO ?try handler ((c, s), p) = (Inr (), ((c', s'), p')) \<and> posts c' = posts c1"
    if "?try ((c, s), p) = (r, ((c1, s1), p1))" for r c1 s1 p1
  proof (cases r)
    case (Inl e)
    obtain c2 s2 p2 where "handler e ((c1, s1), p1) = (Inr (), ((c2, s2), p2))"
      using assms(4) [of e, unfolded settles_def, rule_format, of "((c1, s1), p1)"] by (metis prod.collapse)
    with frameD [OF assms(3) this] that Inl show ?thesis by (simp add: client_of_def)
  qed (use that in simp)
  show "\<exists>c' s' p'. catchIO ?try handler ((c, s), p) = (Inr (), ((c', s'), p')) \<and> one_more h path body c c'"
  proof (cases body)
    case (Inl e)
    then have "?try ((c, s), p) = (Inl e, ((c, s), p))" by (simp add: bindIO_def)
    from caught [OF this] Inl show ?thesis by (simp add: one_more_def)
  next
    case (Inr b)
    with assms(1) obtain t where b: "\<not> nullish b" "json_stringify b = Inr (Some t)" by blast
    obtain ans c1 where 1: "keyed_post h path b ((c, s), p) = (ans, ((c1, s), p))"
      "cl_sent c1 = cl_sent c @ [\<lparr>rq_method = ''POST'', rq_path = ''/api'' @ path,
         rq_headers = headers_of (cl_env c) [(''Idempotency-Key'', c_uuid h (cl_uuids c))] b, rq_body = Some t\<rparr>]"
      (is "_ = _ @ [?q]") by (rule keyed_post_run [OF b])
    have q: "posts c1 = posts c @ [?q]" "key_of ?q = Some (c_uuid h (cl_uuids c))" "env_of ?q = Some (cl_env c)"
      using 1(2) by (simp_all add: posts_def key_of_def env_of_def headers_of_def Let_def)
    have "posts (client_of (snd (?try ((c, s), p)))) = posts c1"
    proof (cases ans)
      case (Inl e)
      with 1(1) Inr show ?thesis by (simp add: bindIO_def client_of_def)
    next
      case v: (Inr v)
      with 1(1) Inr have "?try ((c, s), p) = k v ((c1, s), p)" by (simp add: bindIO_def)
      moreover have "posts (client_of (snd (k v ((c1, s), p)))) = posts (client_of ((c1, s), p))"
        using frameD [OF assms(2) prod.collapse [symmetric]] .
      ultimately show ?thesis by (simp add: client_of_def)
    qed
    moreover obtain r c2 s2 p2 where 2: "?try ((c, s), p) = (r, ((c2, s2), p2))" by (metis surj_pair)
    ultimately have "posts c2 = posts c1" by (simp add: client_of_def)
    with caught [OF 2] q have "\<exists>c' s' p'. catchIO ?try handler ((c, s), p) = (Inr (), ((c', s'), p')) \<and>
      posts c' = posts c @ [?q]" by simp
    with q(2,3) b(2) Inr show ?thesis by (fastforce simp: one_more_def)
  qed
qed

lemma sends_one_posts:
  assumes "\<not> nullish b" and "\<exists>t. json_stringify b = Inr (Some t)"
    and "\<And>v. quiet (k v)" and "\<And>e. quiet (handler e)" and "\<And>e. settles (handler e)"
  shows "sends_one h (\<lambda>_. path) (Inr b) (catchIO (bindIO (keyed_post h path b) k) handler)"
proof -
  have "bindIO (liftIO (Inr b)) (\<lambda>b. bindIO (keyed_post h path b) k) = bindIO (keyed_post h path b) k"
    by (rule ext) (simp add: bindIO_def)
  with sends_oneI [of "Inr b" k handler h path] assms show ?thesis by simp
qed

lemma sends_one_around:
  assumes "sends_one h (\<lambda>_. path) body m"
  shows "sends_one h (\<lambda>_. path) body (bindIO (on_page f) (\<lambda>_. m))"
    and "sends_one h (\<lambda>_. path) body (bindIO m (\<lambda>_. on_page g))"
proof -
  show "sends_one h (\<lambda>_. path) body (bindIO (on_page f) (\<lambda>_. m))"
    using assms unfolding sends_one_def by (simp add: bindIO_def)
  show "sends_one h (\<lambda>_. path) body (bindIO m (\<lambda>_. on_page g))"
    unfolding sends_one_def
  proof (intro allI)
    fix c s p
    from assms [unfolded sends_one_def, rule_format, of c s p] obtain c' s' p' where
      "m ((c, s), p) = (Inr (), ((c', s'), p'))" "one_more h path body c c'" by blast
    then show "\<exists>c' s' p'. bindIO m (\<lambda>_. on_page g) ((c, s), p) = (Inr (), ((c', s'), p')) \<and>
      one_more h path body c c'" by (simp add: bindIO_def)
  qed
qed

lemma sends_one_guarded:
  assumes "\<not> nullish b" and "\<exists>t. json_stringify b = Inr (Some t)"
    and "\<And>v. quiet (k v)" and "\<And>e. quiet (handler e)" and "\<And>e. settles (handler e)"
  shows "sends_one h (\<lambda>_. path) (Inr b) (guarded (bindIO (keyed_post h path b) k) handler busy)"
  unfolding guarded_def by (intro sends_one_around sends_one_posts assms)

lemma sends_one_get:
  assumes "\<And>i. sends_one h (\<lambda>_. path i) body (catchIO (m i) handler)"
  shows "sends_one h (\<lambda>p. path (g p)) body (catchIO (bindIO (page_get g) m) handler)"
proof -
  have "catchIO (bindIO (page_get g) m) handler ((c, s), p) = catchIO (m (g p)) handler ((c, s), p)" for c s p
    by (simp add: catchIO_run bindIO_def)
  with assms show ?thesis by (simp add: sends_one_def)
qed

section \<open>The orders\<close>

lemma strings_stringify: "mapR json_stringify (map JStr ss) = Inr (map (\<lambda>s. Some (json_text s)) ss)"
  by (induction ss) simp_all

lemma bodies_stringify:
  "\<exists>t. json_stringify (JObj []) = Inr (Some t)"
  "\<exists>t. json_stringify (JObj [(k, JStr s)]) = Inr (Some t)"
  "\<exists>t. json_stringify (hook_body d) = Inr (Some t)"
  "\<exists>t. json_stringify (redemption_body m) = Inr (Some t)"
  "\<exists>t. json_stringify (issue_body i) = Inr (Some t)"
  by (simp_all add: hook_body_def redemption_body_def issue_body_def strings_stringify)

lemma checked_stringify:
  "events_body e = Inr b \<Longrightarrow> \<not> nullish b \<and> (\<exists>t. json_stringify b = Inr (Some t))"
  "punch_body d = Inr b \<Longrightarrow> \<not> nullish b \<and> (\<exists>t. json_stringify b = Inr (Some t))"
  "program_body w = Inr b \<Longrightarrow> \<not> nullish b \<and> (\<exists>t. json_stringify b = Inr (Some t))"
  "campaign_body now w = Inr b \<Longrightarrow> \<not> nullish b \<and> (\<exists>t. json_stringify b = Inr (Some t))"
  by (auto simp: events_body_def punch_body_def program_body_def campaign_body_def Let_def bindR_Inr_iff
      split: if_splits)

lemma quiet_after:
  "quiet (redeem_toast h r)" "quiet (redeem_load h)" "quiet (keys_load h)" "quiet (campaign_load h)"
  "quiet (issue_toast h i r)" "quiet (events_toast h e r)" "quiet (punch_toast h r)" "quiet (program_load h)"
  "quiet (program_toast h w r)" "quiet (campaign_toast h w r)" "quiet (wizard_done h c)"
  unfolding redeem_toast_def redeem_load_def keys_load_def campaign_load_def issue_toast_def events_toast_def
    punch_toast_def program_load_def program_toast_def campaign_toast_def wizard_done_def campaigns_load_def Let_def
  by (intro quiet_intros)+


end
