(* ===== verification/Console_Run.thy ===== *)
theory Console_Run
  imports Machine Console_Shell Console_Auth Console_Settle Console_Redeem Console_Overview Console_Keys
    Console_Hooks Console_Loyalty Console_Campaign
begin

text \<open>
  The console as a whole: a step is anything that can happen to the client, an event or an effect of
  any page in any state, the frame, the router, the timers and the switch of the environment. A
  page keeps what its contract says in any state of its own, so the steps need no record of
  which page is open. The orders of a run are identified.
\<close>

inductive console_step :: "'w console \<Rightarrow> 'w visit \<Rightarrow> 'w visit \<Rightarrow> bool" for h where
  hashed: "console_step h v (snd (onHash v))"
| expired: "console_step h (c, s) (c, toast_expired i s)"
| booted: "console_step h v (snd (boot h v))"
| framed: "console_step h v (fst (snd (shell_run h e (v, sh))))"
| credits: "console_step h v (snd (in_api (credits_read h) v))"
| signing: "console_step h v (fst (snd (auth_run h e (v, a))))"
| naming: "console_step h v (fst (snd (org_run h e (v, g))))"
| overview: "console_step h v (fst (snd (overview_run h e (v, p))))"
| overview_mounts: "console_step h v (fst (snd (overview_effect h (v, p))))"
| overview_ticks: "console_step h v (fst (snd (overview_load h (v, p))))"
| settlements: "console_step h v (fst (snd (settle_page_run h e (v, p))))"
| settlements_mount: "console_step h v (fst (snd (settle_effect h (v, p))))"
| redemptions: "console_step h v (fst (snd (redemptions_run h e (v, p))))"
| redemptions_mount: "console_step h v (fst (snd (redeem_effect h (v, p))))"
| campaigns: "console_step h v (fst (snd (campaigns_run h now e (v, p))))"
| campaigns_mount: "console_step h v (fst (snd (campaigns_effect h (v, p))))"
| campaign: "console_step h v (fst (snd (campaign_run h e (v, p))))"
| campaign_mounts: "console_step h v (fst (snd (campaign_effect h (v, p))))"
| scans: "console_step h v (fst (snd (scans_run h e (v, p))))"
| scans_mount: "console_step h v (fst (snd (scans_effect h (v, p))))"
| qr: "console_step h v (fst (snd (qr_run h clip e (v, p))))"
| qr_mounts: "console_step h v (fst (snd (qr_effect h (v, p))))"
| activity_mounts: "console_step h v (fst (snd (activity_effect h (v, p))))"
| programs: "console_step h v (fst (snd (loyalty_run h now e (v, p))))"
| programs_mount: "console_step h v (fst (snd (programs_effect h (v, p))))"
| one_program: "console_step h v (fst (snd (program_run h e (v, p))))"
| one_program_mounts: "console_step h v (fst (snd (program_effect h (v, p))))"
| keys: "console_step h v (fst (snd (keys_run h e (v, p))))"
| keys_mount: "console_step h v (fst (snd (keys_effect h (v, p))))"
| usage_mounts: "console_step h v (fst (snd (usage_effect h (v, p))))"
| webhooks: "console_step h v (fst (snd (hooks_run h e (v, p))))"
| webhooks_mount: "console_step h v (fst (snd (hooks_effect h (v, p))))"
| webhooks_failed: "console_step h v (fst (snd (hooks_loaded h r (v, p))))"

lemma disciplined_orders: "disciplined h m \<Longrightarrow> orders h (fst v) (fst (fst (snd (m (v, p)))))"
proof -
  assume d: "disciplined h m"
  obtain r z where m: "m (v, p) = (r, z)" by (metis surj_pair)
  from frameD [OF d m] show ?thesis by (simp add: m client_of_def sends_orders)
qed

lemma visit_orders: "disciplined_visit h m \<Longrightarrow> orders h (fst v) (fst (snd (m v)))"
  by (metis frameD prod.collapse sends_orders)

lemma switch_orders: "orders h (fst v) (fst (snd (switch_env e v)))"
  by (cases v) (simp add: switch_env_def bindIO_def in_api_def setEnv_def on_session_def orders_def)

lemma signOut_sends: "disciplined h (signOut h)"
  unfolding signOut_def
  by (intro sends_bind sends_on_page sends_in_visit sends_catch sends_in_api sends_post sends_refresh sends_nav
      sends_pure) (simp add: startsWith_def)

lemma shell_orders: "orders h (fst v) (fst (fst (snd (shell_run h e (v, sh)))))"
proof (cases e)
  case (ShellEnv n)
  with switch_orders show ?thesis by (simp add: shell_run_def in_visit_run)
next
  case ShellSignOut
  with disciplined_orders [OF signOut_sends] show ?thesis by (simp add: shell_run_def)
qed (auto simp: shell_run_def orders_refl intro!: disciplined_orders sends_intros)

lemma boot_sends: "disciplined_visit h (boot h)"
  unfolding boot_def by (intro sends_bind sends_refresh sends_on_session)

lemma hash_sends: "disciplined_visit h onHash"
  unfolding onHash_def by (rule sends_on_session)

lemma credits_sends: "disciplined_visit h (in_api (credits_read h))"
  unfolding credits_read_def by (intro sends_in_api sends_get)

lemma hooks_loaded_sends: "disciplined h (hooks_loaded h r)"
  unfolding hooks_loaded_def by (cases r) (simp_all, (intro sends_intros)+)

lemmas page_orders = auth_page.run_sends org_page.run_sends overview_sends settle_page.run_sends settle_page.mount_sends
  redeem_page.run_sends redeem_page.mount_sends campaigns_page.run_sends campaigns_page.mount_sends
  campaign_page.run_sends campaign_page.mount_sends panels_send loyalty_page.run_sends loyalty_page.mount_sends
  program_page.run_sends program_page.mount_sends keys_page.run_sends keys_page.mount_sends
  usage_page.mount_sends hooks_page.run_sends hooks_page.mount_sends hooks_loaded_sends

lemma console_step_orders: "console_step h v v' \<Longrightarrow> orders h (fst v) (fst v')"
  by (induction rule: console_step.induct)
    (simp_all add: orders_refl shell_orders visit_orders [OF boot_sends] visit_orders [OF hash_sends]
      visit_orders [OF credits_sends] disciplined_orders [OF page_orders(1)] disciplined_orders page_orders)

interpretation console: ordered_machine "console_step h" "\<lambda>_. True" "\<lambda>v v'. orders h (fst v) (fst v')" for h
  by unfold_locales (auto intro: orders_refl orders_trans console_step_orders)

text \<open>
  C29 (safety). Every order the console sends is identified: along any run of the console, through any
  pages, clicks, timers, failures and switches of the environment and whatever the service
  answers, every post under \<open>/api/v1\<close> carries an idempotency key, no two of them carry the same one,
  and none carries a key of an order sent before the run; the identifiers of the host are
  assumed not to repeat.
\<close>

theorem orders_identified:
  assumes "(console_step h)\<^sup>*\<^sup>* u v" and "(console_step h)\<^sup>*\<^sup>* v v'" and "inj (c_uuid h)"
    and "cl_sent (fst u) = []"
  shows "\<exists>qs. cl_sent (fst v') = cl_sent (fst v) @ qs \<and>
    (\<forall>q \<in> set (cl_sent (fst v')). is_order q \<longrightarrow> key_of q \<noteq> None) \<and>
    distinct (map key_of (filter is_order (cl_sent (fst v'))))"
proof -
  from console.run_le [OF assms(2)] obtain qs where "cl_sent (fst v') = cl_sent (fst v) @ qs"
    by (auto simp: orders_def)
  moreover from assms(1,2) have "(console_step h)\<^sup>*\<^sup>* u v'" by (rule rtranclp_trans)
  from console.run_le [OF this] assms(4)
  have "keyed h (cl_uuids (fst u)) (cl_uuids (fst v')) (cl_sent (fst v'))"
    by (auto simp: orders_def)
  from keyed_distinct [OF this assms(3)]
  have "(\<forall>q \<in> set (cl_sent (fst v')). is_order q \<longrightarrow> key_of q \<noteq> None) \<and>
    distinct (map key_of (filter is_order (cl_sent (fst v'))))" by force
  ultimately show ?thesis by blast
qed

text \<open>A run of two orders: a key is made and a webhook disabled, with no network.\<close>

definition numbered_service :: "nat console" where
  "numbered_service = (fixed_service (Inl (TypeError ''Failed to fetch'')))\<lparr>c_uuid := (\<lambda>n. replicate n (CHR ''k''))\<rparr>"

definition before :: "nat visit" where
  "before = (fresh_client, session_init ''test'' [])"

definition between :: "nat visit" where
  "between = fst (snd (hooks_run numbered_service (WhAction (JNum (Fin 1)) ''disable'') (before, webhooks_init)))"

definition after :: "nat visit" where
  "after = fst (snd (keys_run numbered_service (AkRevoke (JNum (Fin 2))) (between, api_keys_init)))"

theorem orders_identified_witness:
  "\<exists>q1 q2. cl_sent (fst after) = [q1, q2] \<and> is_order q1 \<and> is_order q2 \<and> key_of q1 \<noteq> key_of q2"
proof -
  have "console_step numbered_service before between" unfolding between_def by (rule webhooks)
  then have 1: "(console_step numbered_service)\<^sup>*\<^sup>* before between" by blast
  have "console_step numbered_service between after" unfolding after_def by (rule keys)
  then have 2: "(console_step numbered_service)\<^sup>*\<^sup>* between after" by blast
  have i: "inj (c_uuid numbered_service)"
    by (auto simp: inj_def numbered_service_def dest: arg_cong [of _ _ length])
  have z: "cl_sent (fst before) = []" by (simp add: before_def fresh_client_def)
  have "length (cl_sent (fst after)) = 2 \<and> list_all is_order (cl_sent (fst after))" by code_simp
  then obtain q1 q2 where q: "cl_sent (fst after) = [q1, q2]" "is_order q1" "is_order q2"
    by (auto simp: numeral_2_eq_2 length_Suc_conv)
  with orders_identified [OF 1 2 i z] show ?thesis by auto
qed

end
