(* ===== verification/Play_Tweaks.thy ===== *)
theory Play_Tweaks
  imports Ui Js_Json Js_Io
begin

text \<open>
  The tweaks panel (\<open>web/src/tweaks-panel.jsx\<close>): the values with the messages that have the host store
  them, the floating panel with the host's protocol and its dragging, and the controls. A control is
  given the event its parent raises for a value, as it is given \<open>onChange\<close>; the positions of the
  pointer and the boxes of elements come from the browser. The values of options are primitive.
\<close>

section \<open>useTweaks\<close>

datatype host_msg = EditAvailable | EditSetKeys "(string \<times> jval) list" | EditDismissed

record tweak_hub =
  hub_values :: "(string \<times> jval) list"
  hub_posted :: "host_msg list" \<comment> \<open>to \<open>window.parent\<close>\<close>
  hub_events :: "(string \<times> jval) list list" \<comment> \<open>the details of \<open>tweakchange\<close>\<close>

definition hub_init :: "(string \<times> jval) list \<Rightarrow> tweak_hub" where
  "hub_init defaults = \<lparr>hub_values = defaults, hub_posted = [], hub_events = []\<rparr>"

definition tweak_edits :: "jval \<Rightarrow> jval \<Rightarrow> (string \<times> jval) list" where \<comment> \<open>\<open>edits\<close>; a spread takes the own members\<close>
  "tweak_edits keyOrEdits val =
     (case keyOrEdits of
        JObj kvs \<Rightarrow> kvs
      | JArr vs \<Rightarrow> map (\<lambda>(i, v). (dec (int i), v)) (enumerate 0 vs)
      | JBytes bs \<Rightarrow> map (\<lambda>(i, b). (dec (int i), JNum (num (uint b)))) (enumerate 0 bs)
      | JMap _ \<Rightarrow> []
      | k \<Rightarrow> [(js_String k, val)])"

definition setTweak :: "jval \<Rightarrow> jval \<Rightarrow> tweak_hub \<Rightarrow> tweak_hub" where
  "setTweak keyOrEdits val u =
     (let edits = tweak_edits keyOrEdits val in
      u\<lparr>hub_values := obj_spread (hub_values u) edits, hub_posted := hub_posted u @ [EditSetKeys edits],
        hub_events := hub_events u @ [edits]\<rparr>)"

section \<open>The panel\<close>

record viewport =
  vp_inner :: "jnum \<times> jnum" \<comment> \<open>\<open>window.innerWidth\<close>, \<open>innerHeight\<close>\<close>
  vp_offset :: "jnum \<times> jnum" \<comment> \<open>\<open>offsetWidth\<close>, \<open>offsetHeight\<close> of the panel\<close>

type_synonym drag = "(jnum \<times> jnum) \<times> (jnum \<times> jnum)" \<comment> \<open>the pointer and the gaps at its start\<close>

record tweak_panel =
  tp_open :: bool
  tp_listening :: bool
  tp_at :: "jnum \<times> jnum" \<comment> \<open>\<open>offsetRef\<close>: the gaps to the right and the bottom\<close>
  tp_drags :: "drag list"
  tp_view :: viewport
  tp_posted :: "host_msg list"

definition panel_init :: "viewport \<Rightarrow> tweak_panel" where
  "panel_init v = \<lparr>tp_open = False, tp_listening = False, tp_at = (Fin 16, Fin 16), tp_drags = [], tp_view = v,
     tp_posted = []\<rparr>"

definition max_gap :: "jnum \<Rightarrow> jnum \<Rightarrow> jnum" where \<comment> \<open>\<open>maxRight\<close>, \<open>maxBottom\<close>\<close>
  "max_gap inner extent = jmax (Fin 16) (jsub (jsub inner extent) (Fin 16))"

definition clamp_gap :: "jnum \<Rightarrow> jnum \<Rightarrow> jnum \<Rightarrow> jnum" where
  "clamp_gap inner extent g = jmin (max_gap inner extent) (jmax (Fin 16) g)"

definition clampToViewport :: "tweak_panel \<Rightarrow> tweak_panel" where \<comment> \<open>without a panel it does nothing\<close>
  "clampToViewport p =
     (if tp_open p
      then p\<lparr>tp_at := (clamp_gap (fst (vp_inner (tp_view p))) (fst (vp_offset (tp_view p))) (fst (tp_at p)),
                     clamp_gap (snd (vp_inner (tp_view p))) (snd (vp_offset (tp_view p))) (snd (tp_at p)))\<rparr>
      else p)"

definition set_open :: "bool \<Rightarrow> tweak_panel \<Rightarrow> tweak_panel" where \<comment> \<open>\<open>setOpen\<close>, and the effect of a change to open\<close>
  "set_open b p = (if b = tp_open p then p else if b then clampToViewport (p\<lparr>tp_open := True\<rparr>) else p\<lparr>tp_open := False\<rparr>)"

definition panel_mount :: "tweak_panel \<Rightarrow> tweak_panel" where \<comment> \<open>the effect: it listens, then it announces itself\<close>
  "panel_mount p = (let q = p\<lparr>tp_listening := True\<rparr> in q\<lparr>tp_posted := tp_posted q @ [EditAvailable]\<rparr>)"

definition panel_unmount :: "tweak_panel \<Rightarrow> tweak_panel" where \<comment> \<open>the panel is gone, its drags are not\<close>
  "panel_unmount p = p\<lparr>tp_listening := False, tp_open := False\<rparr>"

definition message_type :: "jval \<Rightarrow> jval" where \<comment> \<open>\<open>e?.data?.type\<close>\<close>
  "message_type d = (case field d ''type'' of Inr t \<Rightarrow> t | Inl _ \<Rightarrow> JUndef)"

definition onMsg :: "jval \<Rightarrow> tweak_panel \<Rightarrow> tweak_panel" where
  "onMsg d p =
     (let t = message_type d in
      if t = JStr ''__activate_edit_mode'' then set_open True p
      else if t = JStr ''__deactivate_edit_mode'' then set_open False p else p)"

definition dismiss :: "tweak_panel \<Rightarrow> tweak_panel" where
  "dismiss p = (let q = set_open False p in q\<lparr>tp_posted := tp_posted q @ [EditDismissed]\<rparr>)"

definition drag_start :: "jnum \<times> jnum \<Rightarrow> jnum \<times> jnum \<Rightarrow> tweak_panel \<Rightarrow> tweak_panel" where
  \<comment> \<open>\<open>onDragStart\<close>, with the right and the bottom of the panel's box\<close>
  "drag_start s box p =
     (if tp_open p
      then p\<lparr>tp_drags := tp_drags p @
        [(s, (jsub (fst (vp_inner (tp_view p))) (fst box), jsub (snd (vp_inner (tp_view p))) (snd box)))]\<rparr>
      else p)"

definition drag_move :: "jnum \<times> jnum \<Rightarrow> drag \<Rightarrow> tweak_panel \<Rightarrow> tweak_panel" where \<comment> \<open>\<open>move\<close> of one drag\<close>
  "drag_move c d p =
     (case d of (s, g) \<Rightarrow>
        clampToViewport (p\<lparr>tp_at := (jsub (fst g) (jsub (fst c) (fst s)), jsub (snd g) (jsub (snd c) (snd s)))\<rparr>))"

datatype panel_ev = TpMessage jval | TpDismiss | TpDown "jnum \<times> jnum" "jnum \<times> jnum" | TpMove "jnum \<times> jnum" | TpUp
  | TpResize viewport | TpMount | TpUnmount

definition panel_run :: "panel_ev \<Rightarrow> tweak_panel \<Rightarrow> tweak_panel" where
  "panel_run e p =
     (case e of
        TpMessage d \<Rightarrow> if tp_listening p then onMsg d p else p
      | TpDismiss \<Rightarrow> if tp_open p then dismiss p else p
      | TpDown s box \<Rightarrow> drag_start s box p
      | TpMove c \<Rightarrow> foldl (\<lambda>q d. drag_move c d q) p (tp_drags p)
      | TpUp \<Rightarrow> p\<lparr>tp_drags := []\<rparr>
      | TpResize v \<Rightarrow> clampToViewport (p\<lparr>tp_view := v\<rparr>)
      | TpMount \<Rightarrow> panel_mount p
      | TpUnmount \<Rightarrow> panel_unmount p)"

definition TWEAKS_STYLE :: string where \<comment> \<open>\<open>__TWEAKS_STYLE\<close>\<close>
  \<open>TWEAKS_STYLE = join [CHR 0x0A]
     [[],
      ''  .twk-panel{position:fixed;right:16px;bottom:16px;z-index:2147483646;width:280px;'',
      ''    max-height:calc(100vh - 32px);display:flex;flex-direction:column;'',
      ''    transform:scale(var(--dc-inv-zoom,1));transform-origin:bottom right;'',
      ''    background:rgba(250,249,247,.78);color:#29261b;'',
      ''    -webkit-backdrop-filter:blur(24px) saturate(160%);backdrop-filter:blur(24px) saturate(160%);'',
      ''    border:.5px solid rgba(255,255,255,.6);border-radius:14px;'',
      ''    box-shadow:0 1px 0 rgba(255,255,255,.5) inset,0 12px 40px rgba(0,0,0,.18);'',
      ''    font:11.5px/1.4 ui-sans-serif,system-ui,-apple-system,sans-serif;overflow:hidden}'',
      ''  .twk-hd{display:flex;align-items:center;justify-content:space-between;'',
      ''    padding:10px 8px 10px 14px;cursor:move;user-select:none}'',
      ''  .twk-hd b{font-size:12px;font-weight:600;letter-spacing:.01em}'',
      ''  .twk-x{appearance:none;border:0;background:transparent;color:rgba(41,38,27,.55);'',
      ''    width:22px;height:22px;border-radius:6px;cursor:default;font-size:13px;line-height:1}'',
      ''  .twk-x:hover{background:rgba(0,0,0,.06);color:#29261b}'',
      ''  .twk-body{padding:2px 14px 14px;display:flex;flex-direction:column;gap:10px;'',
      ''    overflow-y:auto;overflow-x:hidden;min-height:0;'',
      ''    scrollbar-width:thin;scrollbar-color:rgba(0,0,0,.15) transparent}'',
      ''  .twk-body::-webkit-scrollbar{width:8px}'',
      ''  .twk-body::-webkit-scrollbar-track{background:transparent;margin:2px}'',
      ''  .twk-body::-webkit-scrollbar-thumb{background:rgba(0,0,0,.15);border-radius:4px;'',
      ''    border:2px solid transparent;background-clip:content-box}'',
      ''  .twk-body::-webkit-scrollbar-thumb:hover{background:rgba(0,0,0,.25);'',
      ''    border:2px solid transparent;background-clip:content-box}'',
      ''  .twk-row{display:flex;flex-direction:column;gap:5px}'',
      ''  .twk-row-h{flex-direction:row;align-items:center;justify-content:space-between;gap:10px}'',
      ''  .twk-lbl{display:flex;justify-content:space-between;align-items:baseline;'',
      ''    color:rgba(41,38,27,.72)}'',
      ''  .twk-lbl>span:first-child{font-weight:500}'',
      ''  .twk-val{color:rgba(41,38,27,.5);font-variant-numeric:tabular-nums}'',
      [],
      ''  .twk-sect{font-size:10px;font-weight:600;letter-spacing:.06em;text-transform:uppercase;'',
      ''    color:rgba(41,38,27,.45);padding:10px 0 0}'',
      ''  .twk-sect:first-child{padding-top:0}'',
      [],
      ''  .twk-field{appearance:none;box-sizing:border-box;width:100%;min-width:0;height:26px;padding:0 8px;'',
      ''    border:.5px solid rgba(0,0,0,.1);border-radius:7px;'',
      ''    background:rgba(255,255,255,.6);color:inherit;font:inherit;outline:none}'',
      ''  .twk-field:focus{border-color:rgba(0,0,0,.25);background:rgba(255,255,255,.85)}'',
      ''  select.twk-field{padding-right:22px;'',
      (''    background-image:url("data:image/svg+xml;utf8,<svg xmlns='' @ [CHR 0x27] @ ''http://www.w3.org/2000/svg'' @ [CHR 0x27] @ '' width='' @ [CHR 0x27] @ ''10'' @ [CHR 0x27] @ '' height='' @ [CHR 0x27] @ ''6'' @ [CHR 0x27] @ '' viewBox='' @ [CHR 0x27] @ ''0 0 10 6'' @ [CHR 0x27] @ ''><path fill='' @ [CHR 0x27] @ ''rgba(0,0,0,.5)'' @ [CHR 0x27] @ '' d='' @ [CHR 0x27] @ ''M0 0h10L5 6z'' @ [CHR 0x27] @ ''/></svg>");''),
      ''    background-repeat:no-repeat;background-position:right 8px center}'',
      [],
      ''  .twk-slider{appearance:none;-webkit-appearance:none;width:100%;height:4px;margin:6px 0;'',
      ''    border-radius:999px;background:rgba(0,0,0,.12);outline:none}'',
      ''  .twk-slider::-webkit-slider-thumb{-webkit-appearance:none;appearance:none;'',
      ''    width:14px;height:14px;border-radius:50%;background:#fff;'',
      ''    border:.5px solid rgba(0,0,0,.12);box-shadow:0 1px 3px rgba(0,0,0,.2);cursor:default}'',
      ''  .twk-slider::-moz-range-thumb{width:14px;height:14px;border-radius:50%;'',
      ''    background:#fff;border:.5px solid rgba(0,0,0,.12);box-shadow:0 1px 3px rgba(0,0,0,.2);cursor:default}'',
      [],
      ''  .twk-seg{position:relative;display:flex;padding:2px;border-radius:8px;'',
      ''    background:rgba(0,0,0,.06);user-select:none}'',
      ''  .twk-seg-thumb{position:absolute;top:2px;bottom:2px;border-radius:6px;'',
      ''    background:rgba(255,255,255,.9);box-shadow:0 1px 2px rgba(0,0,0,.12);'',
      ''    transition:left .15s cubic-bezier(.3,.7,.4,1),width .15s}'',
      ''  .twk-seg.dragging .twk-seg-thumb{transition:none}'',
      ''  .twk-seg button{appearance:none;position:relative;z-index:1;flex:1;border:0;'',
      ''    background:transparent;color:inherit;font:inherit;font-weight:500;min-height:22px;'',
      ''    border-radius:6px;cursor:default;padding:4px 6px;line-height:1.2;'',
      ''    overflow-wrap:anywhere}'',
      [],
      ''  .twk-toggle{position:relative;width:32px;height:18px;border:0;border-radius:999px;'',
      ''    background:rgba(0,0,0,.15);transition:background .15s;cursor:default;padding:0}'',
      ''  .twk-toggle[data-on="1"]{background:#34c759}'',
      ''  .twk-toggle i{position:absolute;top:2px;left:2px;width:14px;height:14px;border-radius:50%;'',
      ''    background:#fff;box-shadow:0 1px 2px rgba(0,0,0,.25);transition:transform .15s}'',
      ''  .twk-toggle[data-on="1"] i{transform:translateX(14px)}'',
      [],
      ''  .twk-num{display:flex;align-items:center;box-sizing:border-box;min-width:0;height:26px;padding:0 0 0 8px;'',
      ''    border:.5px solid rgba(0,0,0,.1);border-radius:7px;background:rgba(255,255,255,.6)}'',
      ''  .twk-num-lbl{font-weight:500;color:rgba(41,38,27,.6);cursor:ew-resize;'',
      ''    user-select:none;padding-right:8px}'',
      ''  .twk-num input{flex:1;min-width:0;height:100%;border:0;background:transparent;'',
      ''    font:inherit;font-variant-numeric:tabular-nums;text-align:right;padding:0 8px 0 0;'',
      ''    outline:none;color:inherit;-moz-appearance:textfield}'',
      ''  .twk-num input::-webkit-inner-spin-button,.twk-num input::-webkit-outer-spin-button{'',
      ''    -webkit-appearance:none;margin:0}'',
      ''  .twk-num-unit{padding-right:8px;color:rgba(41,38,27,.45)}'',
      [],
      ''  .twk-btn{appearance:none;height:26px;padding:0 12px;border:0;border-radius:7px;'',
      ''    background:rgba(0,0,0,.78);color:#fff;font:inherit;font-weight:500;cursor:default}'',
      ''  .twk-btn:hover{background:rgba(0,0,0,.88)}'',
      ''  .twk-btn.secondary{background:rgba(0,0,0,.06);color:inherit}'',
      ''  .twk-btn.secondary:hover{background:rgba(0,0,0,.1)}'',
      [],
      ''  .twk-swatch{appearance:none;-webkit-appearance:none;width:56px;height:22px;'',
      ''    border:.5px solid rgba(0,0,0,.1);border-radius:6px;padding:0;cursor:default;'',
      ''    background:transparent;flex-shrink:0}'',
      ''  .twk-swatch::-webkit-color-swatch-wrapper{padding:0}'',
      ''  .twk-swatch::-webkit-color-swatch{border:0;border-radius:5.5px}'',
      ''  .twk-swatch::-moz-color-swatch{border:0;border-radius:5.5px}'',
      [],
      ''  .twk-chips{display:flex;gap:6px}'',
      ''  .twk-chip{position:relative;appearance:none;flex:1;min-width:0;height:46px;'',
      ''    padding:0;border:0;border-radius:6px;overflow:hidden;cursor:default;'',
      ''    box-shadow:0 0 0 .5px rgba(0,0,0,.12),0 1px 2px rgba(0,0,0,.06);'',
      ''    transition:transform .12s cubic-bezier(.3,.7,.4,1),box-shadow .12s}'',
      ''  .twk-chip:hover{transform:translateY(-1px);'',
      ''    box-shadow:0 0 0 .5px rgba(0,0,0,.18),0 4px 10px rgba(0,0,0,.12)}'',
      ''  .twk-chip[data-on="1"]{box-shadow:0 0 0 1.5px rgba(0,0,0,.85),'',
      ''    0 2px 6px rgba(0,0,0,.15)}'',
      ''  .twk-chip>span{position:absolute;top:0;bottom:0;right:0;width:34%;'',
      ''    display:flex;flex-direction:column;box-shadow:-1px 0 0 rgba(0,0,0,.1)}'',
      ''  .twk-chip>span>i{flex:1;box-shadow:0 -1px 0 rgba(0,0,0,.1)}'',
      ''  .twk-chip>span>i:first-child{box-shadow:none}'',
      ''  .twk-chip svg{position:absolute;top:6px;left:6px;width:13px;height:13px;'',
      ''    filter:drop-shadow(0 1px 1px rgba(0,0,0,.3))}'',
      []]\<close>

definition tweaks_panel_view :: \<open>string \<Rightarrow> tweak_panel \<Rightarrow> (jnum \<Rightarrow> jnum \<Rightarrow> panel_ev) \<Rightarrow> panel_ev html list \<Rightarrow> panel_ev html list\<close> where \<comment> \<open>\<open>down\<close> adds the box of the panel to the position\<close>
  \<open>tweaks_panel_view title p down children =
     (if \<not> tp_open p then [] else
        [El ''style'' [] [Text TWEAKS_STYLE],
         El ''div'' [(''ref'', Val ''drag''), (''className'', Val ''twk-panel''),
                     (''data-omelette-chrome'', Val []),
                     (''style'',
                      Sty [(''right'', num_str (fst (tp_at p))),
                           (''bottom'', num_str (snd (tp_at p)))])]
           [El ''div'' [(''className'', Val ''twk-hd''), (''onMouseDown'', OnAt down)]
              [El ''b'' [] [Text title],
               El ''button'' [(''className'', Val ''twk-x''), (''aria-label'', Val ''Close tweaks''),
                              (''onMouseDown'', Val ''stop''), (''onClick'', On TpDismiss)]
                 [Text [CHR 0x9D]]],
            El ''div'' [(''className'', Val ''twk-body'')] children]])\<close>

section \<open>Rows\<close>

definition TweakSection :: \<open>string \<Rightarrow> 'e html list \<Rightarrow> 'e html list\<close> where
  \<open>TweakSection label children =
     [El ''div'' [(''className'', Val ''twk-sect'')] [Text label]] @ children\<close>

definition TweakRow :: \<open>string \<Rightarrow> jval \<Rightarrow> bool \<Rightarrow> 'e html list \<Rightarrow> 'e html\<close> where
  \<open>TweakRow label value inline children =
     El ''div'' [(''className'', Val (if inline then ''twk-row twk-row-h'' else ''twk-row''))]
       ([El ''div'' [(''className'', Val ''twk-lbl'')]
           ([El ''span'' [] [Text label]]
              @
              (if \<not> nullish value then
                 [El ''span'' [(''className'', Val ''twk-val'')] [Text (shown value)]] else []))]
          @ children)\<close>

section \<open>Controls\<close>

definition TweakSlider :: \<open>string \<Rightarrow> jval \<Rightarrow> jnum \<Rightarrow> jnum \<Rightarrow> jnum \<Rightarrow> string \<Rightarrow> (jval \<Rightarrow> 'e) \<Rightarrow> 'e html\<close> where
  \<open>TweakSlider label value mn mx stp unit onChange =
     TweakRow label (JStr (js_String value @ unit)) False
       [El ''input'' [(''type'', Val ''range''), (''className'', Val ''twk-slider''),
                      (''min'', Val (num_str mn)), (''max'', Val (num_str mx)),
                      (''step'', Val (num_str stp)), (''value'', Val (js_String value)),
                      (''onChange'', OnV (\<lambda>t. onChange (JNum (to_number t))))] []]\<close>

definition TweakToggle :: \<open>string \<Rightarrow> jval \<Rightarrow> (jval \<Rightarrow> 'e) \<Rightarrow> 'e html\<close> where
  \<open>TweakToggle label value onChange =
     El ''div'' [(''className'', Val ''twk-row twk-row-h'')]
       [El ''div'' [(''className'', Val ''twk-lbl'')] [El ''span'' [] [Text label]],
        El ''button'' [(''type'', Val ''button''), (''className'', Val ''twk-toggle''),
                       (''data-on'', Val (if truthy value then ''1'' else ''0'')),
                       (''role'', Val ''switch''), (''aria-checked'', Flag (truthy value)),
                       (''onClick'', On (onChange (JBool (\<not> truthy value))))] [El ''i'' [] []]]\<close>

text \<open>The options of a radio and a select: a primitive, or an object of a value and a label.\<close>

definition opt_value :: "jval \<Rightarrow> jval" where
  "opt_value o' = (case o' of JObj kvs \<Rightarrow> (case map_of kvs ''value'' of Some v \<Rightarrow> v | None \<Rightarrow> JUndef) | _ \<Rightarrow> o')"

definition opt_label :: "jval \<Rightarrow> jval" where
  "opt_label o' = (case o' of JObj kvs \<Rightarrow> (case map_of kvs ''label'' of Some v \<Rightarrow> v | None \<Rightarrow> JUndef) | _ \<Rightarrow> o')"

definition labelLen :: "jval \<Rightarrow> nat" where
  "labelLen o' = length (js_String (opt_label o'))"

definition fitsAsSegments :: "jval list \<Rightarrow> bool" where
  "fitsAsSegments options \<longleftrightarrow>
     foldl (\<lambda>m o'. max m (labelLen o')) 0 options \<le> (if length options = 2 then 16 else if length options = 3 then 10 else 0)"

definition resolve :: "jval list \<Rightarrow> string \<Rightarrow> jval" where
  "resolve options t =
     (case find (\<lambda>o'. js_String (opt_value o') = t) options of None \<Rightarrow> JStr t | Some o' \<Rightarrow> opt_value o')"

definition strict_eq :: "jval \<Rightarrow> jval \<Rightarrow> bool" where \<comment> \<open>\<open>===\<close> of primitives\<close>
  "strict_eq a b \<longleftrightarrow> a = b \<and> a \<noteq> JNum NaN"

definition chosen_index :: "jval list \<Rightarrow> jval \<Rightarrow> nat" where \<comment> \<open>\<open>idx\<close>\<close>
  "chosen_index options v =
     (let before = takeWhile (\<lambda>o'. \<not> strict_eq (opt_value o') v) options in
      if length before < length options then length before else 0)"

record track =
  tr_left :: jnum
  tr_width :: jnum

definition segAt :: "track \<Rightarrow> jval list \<Rightarrow> jnum \<Rightarrow> jval js" where
  "segAt r options clientX =
     (let n = int (length options); inner = jsub (tr_width r) (Fin 4);
          i = jfloor (jmul (jdiv (jsub (jsub clientX (tr_left r)) (Fin 2)) inner) (num n))
      in case jmax (Fin 0) (jmin (num (n - 1)) i) of
           Fin k \<Rightarrow> if nat \<lfloor>k\<rfloor> < length options then Inr (opt_value (options ! nat \<lfloor>k\<rfloor>))
                   else Inl (TypeError (''Cannot read properties of undefined (reading '' @ [CHR 0x27] @ ''value'' @ [CHR 0x27] @ '')''))
         | _ \<Rightarrow> Inl (TypeError (''Cannot read properties of undefined (reading '' @ [CHR 0x27] @ ''value'' @ [CHR 0x27] @ '')'')))"

record radio =
  ra_dragging :: bool
  ra_drags :: nat \<comment> \<open>the pairs of listeners on the window\<close>

datatype radio_ev = RaPick jval | RaDown jnum | RaMove jnum | RaUp

definition radio_run :: "track \<Rightarrow> jval list \<Rightarrow> jval \<Rightarrow> radio_ev \<Rightarrow> (radio, jval list) io" where
  \<comment> \<open>the calls of \<open>onChange\<close>; the value is the one last rendered\<close>
  "radio_run r options value e =
     (case e of
        RaPick v \<Rightarrow> returnIO [v]
      | RaDown x \<Rightarrow>
          bindIO (modifyIO (\<lambda>a. a\<lparr>ra_dragging := True\<rparr>)) (\<lambda>_.
          bindIO (liftIO (segAt r options x)) (\<lambda>v.
          bindIO (modifyIO (\<lambda>a. a\<lparr>ra_drags := Suc (ra_drags a)\<rparr>)) (\<lambda>_.
          returnIO (if strict_eq v value then [] else [v]))))
      | RaMove x \<Rightarrow>
          bindIO (getIO ra_drags) (\<lambda>n.
          if n = 0 then returnIO []
          else bindIO (liftIO (segAt r options x)) (\<lambda>v.
               returnIO (if strict_eq v value then [] else replicate n v)))
      | RaUp \<Rightarrow>
          bindIO (getIO ra_drags) (\<lambda>n.
          if n = 0 then returnIO []
          else bindIO (modifyIO (\<lambda>a. \<lparr>ra_dragging = False, ra_drags = 0\<rparr>)) (\<lambda>_. returnIO [])))"

definition TweakSelect :: \<open>string \<Rightarrow> jval \<Rightarrow> jval list \<Rightarrow> (string \<Rightarrow> 'e) \<Rightarrow> 'e html\<close> where
  \<open>TweakSelect label value options onChange =
     TweakRow label JNull False
       [El ''select'' [(''className'', Val ''twk-field''), (''value'', Val (js_String value)),
                       (''onChange'', OnV onChange)]
          (concat (map (\<lambda>op.
                          [El ''option'' [(''value'', Val (js_String (opt_value op)))]
                             [Text (shown (opt_label op))]]) options))]\<close>

definition TweakRadio :: \<open>string \<Rightarrow> jval \<Rightarrow> jval list \<Rightarrow> radio \<Rightarrow> radio_ev html\<close> where
  \<open>TweakRadio label value options a =
     (if \<not> fitsAsSegments options then TweakSelect label value options
        (\<lambda>t. RaPick (resolve options t)) else TweakRow label JNull False
        [El ''div'' [(''ref'', Val ''track''), (''role'', Val ''radiogroup''),
                     (''onPointerDown'', OnAt (\<lambda>x y. RaDown x)),
                     (''className'', Val (if ra_dragging a then ''twk-seg dragging'' else ''twk-seg''))]
           ([El ''div'' [(''className'', Val ''twk-seg-thumb''),
                         (''style'',
                          Sty [(''left'',
                                (''calc(2px + ''
                                   @ dec (int (chosen_index options value))
                                   @ '' * (100% - 4px) / ''
                                   @ dec (int (length options))
                                   @ '')'')),
                               (''width'',
                                (''calc((100% - 4px) / '' @ dec (int (length options)) @ '')''))])] []]
              @
              (concat (map (\<lambda>op.
                              [El ''button'' [(''type'', Val ''button''), (''role'', Val ''radio''),
                                              (''aria-checked'', Flag (strict_eq (opt_value op) value))]
                                 [Text (shown (opt_label op))]]) options)))])\<close>

definition TweakText :: \<open>string \<Rightarrow> string \<Rightarrow> string \<Rightarrow> (string \<Rightarrow> 'e) \<Rightarrow> 'e html\<close> where
  \<open>TweakText label value placeholder onChange =
     TweakRow label JNull False
       [El ''input'' [(''className'', Val ''twk-field''), (''type'', Val ''text''),
                      (''value'', Val value), (''placeholder'', Val placeholder),
                      (''onChange'', OnV onChange)] []]\<close>

section \<open>Numbers\<close>

definition tweak_clamp :: "jnum option \<Rightarrow> jnum option \<Rightarrow> jnum \<Rightarrow> jnum" where \<comment> \<open>\<open>clamp\<close>\<close>
  "tweak_clamp mn mx n =
     (case mn of Some a \<Rightarrow> if jless n a then a else (case mx of Some b \<Rightarrow> if jless b n then b else n | None \<Rightarrow> n)
      | None \<Rightarrow> (case mx of Some b \<Rightarrow> if jless b n then b else n | None \<Rightarrow> n))"

definition opt_text :: "jnum option \<Rightarrow> string" where \<comment> \<open>a prop that may be missing\<close>
  "opt_text v = (case v of Some n \<Rightarrow> num_str n | None \<Rightarrow> [])"

definition step_decimals :: "jnum \<Rightarrow> nat" where \<comment> \<open>\<open>(String(step).split(".")[1] || "").length\<close>\<close>
  "step_decimals stp = (case split_on (CHR ''.'') (num_str stp) of _ # d # _ \<Rightarrow> length d | _ \<Rightarrow> 0)"

record scrub =
  sc_start :: "jnum \<times> jnum" \<comment> \<open>\<open>startRef\<close>: the position and the value\<close>
  sc_moves :: nat \<comment> \<open>the pairs of listeners on the window\<close>

definition scrubbed :: "jnum \<Rightarrow> jnum \<times> jnum \<Rightarrow> jnum \<Rightarrow> jnum" where
  "scrubbed stp start clientX =
     (let raw = jadd (snd start) (jmul (jsub clientX (fst start)) stp); snapped = jmul (jround (jdiv raw stp)) stp
      in to_number (toFixed (step_decimals stp) snapped))"

datatype number_ev = NuType string | NuDown jnum | NuMove jnum | NuUp

definition number_run ::
  "jnum option \<Rightarrow> jnum option \<Rightarrow> jnum \<Rightarrow> jnum \<Rightarrow> number_ev \<Rightarrow> scrub \<Rightarrow> scrub \<times> jnum list" where
  \<comment> \<open>the calls of \<open>onChange\<close>; the value is a Number\<close>
  "number_run mn mx stp value e c =
     (case e of
        NuType t \<Rightarrow> (c, [tweak_clamp mn mx (to_number t)])
      | NuDown x \<Rightarrow> (\<lparr>sc_start = (x, value), sc_moves = Suc (sc_moves c)\<rparr>, [])
      | NuMove x \<Rightarrow> (c, replicate (sc_moves c) (tweak_clamp mn mx (scrubbed stp (sc_start c) x)))
      | NuUp \<Rightarrow> (c\<lparr>sc_moves := 0\<rparr>, []))"

definition TweakNumber :: \<open>string \<Rightarrow> jnum \<Rightarrow> jnum option \<Rightarrow> jnum option \<Rightarrow> jnum \<Rightarrow> string \<Rightarrow> number_ev html\<close> where
  \<open>TweakNumber label value mn mx stp unit =
     El ''div'' [(''className'', Val ''twk-num'')]
       ([El ''span'' [(''className'', Val ''twk-num-lbl''),
                      (''onPointerDown'', OnAt (\<lambda>x y. NuDown x))] [Text label],
         El ''input'' [(''type'', Val ''number''), (''value'', Val (num_str value)),
                       (''min'', Val (opt_text mn)), (''max'', Val (opt_text mx)),
                       (''step'', Val (num_str stp)), (''onChange'', OnV NuType)] []]
          @
          (if unit \<noteq> [] then [El ''span'' [(''className'', Val ''twk-num-unit'')] [Text unit]]
             else []))\<close>

section \<open>Colours\<close>

fun drop_hash :: "string \<Rightarrow> string" where \<comment> \<open>\<open>replace("#", "")\<close>: the first one\<close>
  "drop_hash [] = []"
| "drop_hash (c # s) = (if c = CHR ''#'' then s else c # drop_hash s)"

definition line_end :: "char \<Rightarrow> bool" where \<comment> \<open>what \<open>.\<close> does not match\<close>
  "line_end c \<longleftrightarrow> c = CHR 0x0A \<or> c = CHR 0x0D"

definition hex6 :: "string \<Rightarrow> string" where \<comment> \<open>\<open>x\<close>\<close>
  "hex6 t = (if length t = 3 then concat (map (\<lambda>c. if line_end c then [c] else [c, c]) t) else padEnd t 6 (CHR ''0''))"

definition parse_hex :: "string \<Rightarrow> int option" where \<comment> \<open>\<open>parseInt(s, 16)\<close>\<close>
  "parse_hex t =
     (let u = dropWhile ws t;
          neg = (case u of c # _ \<Rightarrow> c = CHR ''-'' | [] \<Rightarrow> False);
          v = (case u of c # r \<Rightarrow> if c = CHR ''-'' \<or> c = CHR ''+'' then r else u | [] \<Rightarrow> []);
          w = (case v of z # x # r \<Rightarrow> if z = CHR ''0'' \<and> (x = CHR ''x'' \<or> x = CHR ''X'') then r else v | _ \<Rightarrow> v);
          ds = takeWhile hex_char w
      in if ds = [] then None else Some ((if neg then - 1 else 1) * hex_num ds))"

definition twkIsLight :: "string \<Rightarrow> bool" where \<comment> \<open>\<open>__twkIsLight\<close>\<close>
  "twkIsLight hex =
     (case parse_hex (take 6 (hex6 (drop_hash hex))) of
        None \<Rightarrow> True
      | Some n \<Rightarrow> 148000 < (n div 65536) mod 256 * 299 + (n div 256) mod 256 * 587 + n mod 256 * 114)"

definition TwkCheck :: \<open>bool \<Rightarrow> 'e html\<close> where \<comment> \<open>\<open>__TwkCheck\<close>\<close>
  \<open>TwkCheck light =
     El ''svg'' [(''viewBox'', Val ''0 0 14 14''), (''aria-hidden'', Val ''true'')]
       [El ''path'' [(''d'', Val ''M3 7.2 5.8 10 11 4.2''), (''fill'', Val ''none''),
                     (''strokeWidth'', Val ''2.2''), (''strokeLinecap'', Val ''round''),
                     (''strokeLinejoin'', Val ''round''),
                     (''stroke'', Val (if light then ''rgba(0,0,0,.78)'' else ''#fff''))] []]\<close>

definition colours_of :: "jval \<Rightarrow> string list" where \<comment> \<open>\<open>colors\<close>\<close>
  "colours_of o' = (case o' of JArr vs \<Rightarrow> map js_String vs | _ \<Rightarrow> [js_String o'])"

definition colour_key :: "jval \<Rightarrow> string js" where \<comment> \<open>\<open>key\<close>\<close>
  "colour_key o' =
     bindR (json_stringify o') (\<lambda>t. Inr (toLowerCase (case t of None \<Rightarrow> ''undefined'' | Some x \<Rightarrow> x)))"

definition colour_hero :: "jval \<Rightarrow> string" where \<comment> \<open>the first colour; none is written as nothing\<close>
  "colour_hero o' = (case colours_of o' of c # _ \<Rightarrow> c | [] \<Rightarrow> [])"

definition hero_light :: "jval \<Rightarrow> bool" where \<comment> \<open>\<open>String(undefined)\<close> where there is no colour\<close>
  "hero_light o' = twkIsLight (case colours_of o' of c # _ \<Rightarrow> c | [] \<Rightarrow> ''undefined'')"

definition colour_picker :: \<open>string \<Rightarrow> jval \<Rightarrow> (jval \<Rightarrow> 'e) \<Rightarrow> 'e html\<close> where \<comment> \<open>without options\<close>
  \<open>colour_picker label value onChange =
     El ''div'' [(''className'', Val ''twk-row twk-row-h'')]
       [El ''div'' [(''className'', Val ''twk-lbl'')] [El ''span'' [] [Text label]],
        El ''input'' [(''type'', Val ''color''), (''className'', Val ''twk-swatch''),
                      (''value'', Val (js_String value)),
                      (''onChange'', OnV (\<lambda>t. onChange (JStr t)))] []]\<close>

definition colour_chips :: \<open>string \<Rightarrow> jval list \<Rightarrow> string list \<Rightarrow> string \<Rightarrow> (jval \<Rightarrow> 'e) \<Rightarrow> 'e html\<close> where \<comment> \<open>with the keys of the options and the value\<close>
  \<open>colour_chips label options keys cur onChange =
     TweakRow label JNull False
       [El ''div'' [(''className'', Val ''twk-chips''), (''role'', Val ''radiogroup'')]
          (concat (map (\<lambda> (op, k) .
                          [El ''button'' [(''type'', Val ''button''), (''className'', Val ''twk-chip''),
                                          (''role'', Val ''radio''), (''aria-checked'', Flag (k = cur)),
                                          (''data-on'', Val (if k = cur then ''1'' else ''0'')),
                                          (''aria-label'', Val (join '', '' (colours_of op))),
                                          (''title'',
                                           Val (join [CHR '' '', CHR 0xB7, CHR '' ''] (colours_of op))),
                                          (''style'', Sty [(''background'', colour_hero op)]),
                                          (''onClick'', On (onChange op))]
                             ((if take 4 (drop 1 (colours_of op)) \<noteq> [] then
                                 [El ''span'' []
                                    (concat (map (\<lambda>c.
                                                    [El ''i'' [(''style'', Sty [(''background'', c)])]
                                                       []]) (take 4 (drop 1 (colours_of op)))))] else
                                 [])
                                @ (if k = cur then [TwkCheck (hero_light op)] else []))])
                     (zip options keys)))]\<close>

definition TweakColor :: "string \<Rightarrow> jval \<Rightarrow> jval list \<Rightarrow> (jval \<Rightarrow> 'e) \<Rightarrow> 'e html js" where
  "TweakColor label value options onChange =
     (if options = [] then Inr (colour_picker label value onChange)
      else bindR (colour_key value) (\<lambda>cur.
           bindR (mapR colour_key options) (\<lambda>keys. Inr (colour_chips label options keys cur onChange))))"

definition TweakButton :: \<open>string \<Rightarrow> 'e \<Rightarrow> bool \<Rightarrow> 'e html\<close> where
  \<open>TweakButton label onClick secondary =
     El ''button'' [(''type'', Val ''button''),
                    (''className'', Val (if secondary then ''twk-btn secondary'' else ''twk-btn'')),
                    (''onClick'', On onClick)] [Text label]\<close>

end
