(* ===== verification/Play_Tweaks_Props.thy ===== *)
theory Play_Tweaks_Props
  imports Machine Play_Tweaks
begin

text \<open>
  What the tweaks panel keeps: the host that stores the edits it is sent has the values on the screen,
  and the panel, once open, stays where it can be reached.
\<close>

section \<open>The host stores what is on the screen\<close>

definition host_block :: "(string \<times> jval) list \<Rightarrow> host_msg list \<Rightarrow> (string \<times> jval) list" where
  \<comment> \<open>the block of a host that merges the edits it is sent, and nothing else\<close>
  "host_block b ms = foldl (\<lambda>b m. case m of EditSetKeys es \<Rightarrow> obj_spread b es | _ \<Rightarrow> b) b ms"

definition tweak_run :: "(jval \<times> jval) list \<Rightarrow> tweak_hub \<Rightarrow> tweak_hub" where
  "tweak_run calls u = foldl (\<lambda>u (k, v). setTweak k v u) u calls"

lemma host_block_snoc: "host_block b (ms @ [m]) = (case m of EditSetKeys es \<Rightarrow> obj_spread (host_block b ms) es | _ \<Rightarrow> host_block b ms)"
  by (cases m) (simp_all add: host_block_def)

lemma tweak_run_host:
  "host_block b (hub_posted u) = hub_values u \<Longrightarrow> host_block b (hub_posted (tweak_run calls u)) = hub_values (tweak_run calls u)"
proof (induction calls arbitrary: u)
  case (Cons c calls)
  have "host_block b (hub_posted (setTweak (fst c) (snd c) u)) = hub_values (setTweak (fst c) (snd c) u)"
    using Cons.prems by (simp add: setTweak_def Let_def host_block_snoc)
  from Cons.IH [OF this] show ?case by (simp add: tweak_run_def case_prod_unfold)
qed (simp add: tweak_run_def)

lemma setTweak_value:
  assumes "\<forall>kvs. k \<noteq> JObj kvs" "\<forall>vs. k \<noteq> JArr vs" "\<forall>bs. k \<noteq> JBytes bs" "\<forall>m. k \<noteq> JMap m"
  shows "map_of (hub_values (setTweak k v u)) = (map_of (hub_values u))(js_String k \<mapsto> v)"
  using assms by (cases k) (auto simp: setTweak_def Let_def tweak_edits_def obj_spread_def)

lemma tweak_run_events:
  "length (hub_posted (tweak_run calls u)) = length (hub_posted u) + length calls
   \<and> length (hub_events (tweak_run calls u)) = length (hub_events u) + length calls"
proof (induction calls arbitrary: u)
  case (Cons c calls)
  from Cons [of "setTweak (fst c) (snd c) u"] show ?case
    by (simp add: tweak_run_def case_prod_unfold setTweak_def Let_def)
qed (simp add: tweak_run_def)


section \<open>The panel stays in reach\<close>

text \<open>Positions and sizes are whole pixels, of any size a screen has; so are the gaps, exactly.\<close>

definition px :: "int \<Rightarrow> jnum \<Rightarrow> bool" where
  "px b a \<longleftrightarrow> (\<exists>n. a = num n \<and> \<bar>n\<bar> \<le> b)"

abbreviation px2 :: "int \<Rightarrow> jnum \<times> jnum \<Rightarrow> bool" where
  "px2 b p \<equiv> px b (fst p) \<and> px b (snd p)"

definition sound_view :: "viewport \<Rightarrow> bool" where
  "sound_view v \<longleftrightarrow> px2 (2 ^ 31) (vp_inner v) \<and> px2 (2 ^ 31) (vp_offset v)"

definition sound_ev :: "panel_ev \<Rightarrow> bool" where
  "sound_ev e \<longleftrightarrow> (case e of TpDown s box \<Rightarrow> px2 (2 ^ 31) s \<and> px2 (2 ^ 31) box | TpMove c \<Rightarrow> px2 (2 ^ 31) c
     | TpResize v \<Rightarrow> sound_view v | _ \<Rightarrow> True)"

definition gap_ok :: "jnum \<Rightarrow> jnum \<Rightarrow> jnum \<Rightarrow> bool" where
  \<comment> \<open>at least 16 pixels to this edge, and to the opposite one where the panel fits\<close>
  "gap_ok inner extent g \<longleftrightarrow>
     (\<exists>i e x. inner = num i \<and> extent = num e \<and> g = num x \<and> 16 \<le> x \<and> x \<le> max 16 (i - e - 16))"

definition in_reach :: "tweak_panel \<Rightarrow> bool" where
  "in_reach p \<longleftrightarrow>
     gap_ok (fst (vp_inner (tp_view p))) (fst (vp_offset (tp_view p))) (fst (tp_at p)) \<and>
     gap_ok (snd (vp_inner (tp_view p))) (snd (vp_offset (tp_view p))) (snd (tp_at p))"

definition panel_inv :: "tweak_panel \<Rightarrow> bool" where
  "panel_inv p \<longleftrightarrow> sound_view (tp_view p) \<and> px2 (2 ^ 34) (tp_at p)
     \<and> (\<forall>d\<in>set (tp_drags p). px2 (2 ^ 31) (fst d) \<and> px2 (2 ^ 32) (snd d))
     \<and> (tp_open p \<longrightarrow> tp_listening p \<and> in_reach p)"

definition panel_step :: "tweak_panel \<Rightarrow> tweak_panel \<Rightarrow> bool" where
  "panel_step p q \<longleftrightarrow> (\<exists>e. sound_ev e \<and> q = panel_run e p)"

lemma jmin_num [simp]: "jmin (num a) (num b) = num (min a b)"
proof -
  have neg: "jneg (num n) = num (- n)" for n by simp
  show ?thesis unfolding jmin_def neg jmax_num by (simp only: of_int_minus) (simp add: min_def max_def)
qed

lemma jsub_px:
  assumes "px b x" and "px c y" and "b + c < 2 ^ 53"
  obtains m n where "x = num m" "y = num n" "jsub x y = num (m - n)" "\<bar>m - n\<bar> \<le> b + c"
proof -
  from assms obtain m n where "x = num m" "\<bar>m\<bar> \<le> b" "y = num n" "\<bar>n\<bar> \<le> c" unfolding px_def by blast
  moreover from this have le: "\<bar>m - n\<bar> \<le> b + c" by linarith
  moreover from le assms(3) have "\<bar>m - n\<bar> < 2 ^ 53" by linarith
  ultimately show thesis by (intro that [of m n]) (simp_all only: jsub_num)
qed

lemma px_sub: "px b x \<Longrightarrow> px c y \<Longrightarrow> b + c < 2 ^ 53 \<Longrightarrow> b + c \<le> d \<Longrightarrow> px d (jsub x y)"
  unfolding px_def [of d] by (erule (2) jsub_px) (use order_trans in blast)

lemma max_gap_num:
  assumes "\<bar>i\<bar> \<le> 2 ^ 31" and "\<bar>e\<bar> \<le> 2 ^ 31"
  shows "max_gap (num i) (num e) = num (max 16 (i - e - 16))"
proof -
  have "\<bar>i - e\<bar> < 2 ^ 53" and "\<bar>(i - e) - 16\<bar> < 2 ^ 53" using assms by simp_all
  then have "jsub (num i) (num e) = num (i - e)" and "jsub (num (i - e)) (num 16) = num (i - e - 16)"
    by (simp_all only: jsub_num)
  then show ?thesis using jmax_num [of 16 "i - e - 16"] by (simp add: max_gap_def)
qed

lemma clamp_gap_ok:
  assumes "px (2 ^ 31) inner" "px (2 ^ 31) extent" "px (2 ^ 34) g"
  shows "gap_ok inner extent (clamp_gap inner extent g) \<and> px (2 ^ 34) (clamp_gap inner extent g)"
proof -
  from assms obtain i e x where n: "inner = num i" "\<bar>i\<bar> \<le> 2 ^ 31" "extent = num e" "\<bar>e\<bar> \<le> 2 ^ 31" "g = num x" "\<bar>x\<bar> \<le> 2 ^ 34"
    unfolding px_def by blast
  have "clamp_gap inner extent g = num (min (max 16 (i - e - 16)) (max 16 x))"
    using jmax_num [of 16 x] jmin_num by (simp add: clamp_gap_def n(1,3,5) max_gap_num [OF n(2,4)])
  moreover have "\<bar>min (max 16 (i - e - 16)) (max 16 x)\<bar> \<le> 2 ^ 34" using n(2,4,6) by (auto simp: min_def max_def)
  moreover have "16 \<le> min (max 16 (i - e - 16)) (max 16 x)" by simp
  moreover have "min (max 16 (i - e - 16)) (max 16 x) \<le> max 16 (i - e - 16)" by (rule min.cobounded1)
  ultimately show ?thesis unfolding gap_ok_def px_def using n(1,3) by blast
qed

text \<open>Clamping keeps the invariant, whatever the position was, and establishes it for an opened panel.\<close>

lemma clamp_inv:
  assumes "sound_view (tp_view p)" "px2 (2 ^ 34) (tp_at p)" "tp_open p \<longrightarrow> tp_listening p"
    "\<forall>d\<in>set (tp_drags p). px2 (2 ^ 31) (fst d) \<and> px2 (2 ^ 32) (snd d)"
  shows "panel_inv (clampToViewport p)"
  using assms clamp_gap_ok
  by (auto simp: panel_inv_def clampToViewport_def in_reach_def sound_view_def)

lemma clamp_simps [simp]:
  "tp_open (clampToViewport p) = tp_open p" "tp_drags (clampToViewport p) = tp_drags p"
  "tp_view (clampToViewport p) = tp_view p" "tp_listening (clampToViewport p) = tp_listening p"
  by (simp_all add: clampToViewport_def)

lemma drag_move_inv:
  assumes "panel_inv p" and "px2 (2 ^ 31) c" and "px2 (2 ^ 31) (fst d)" and "px2 (2 ^ 32) (snd d)"
  shows "panel_inv (drag_move c d p) \<and> tp_drags (drag_move c d p) = tp_drags p"
proof -
  obtain s g where d: "d = (s, g)" by (cases d)
  have "px (2 ^ 34) (jsub a (jsub b e))" if "px (2 ^ 32) a" "px (2 ^ 31) b" "px (2 ^ 31) e" for a b e
    using px_sub [OF that(1) px_sub [OF that(2,3), of "2 ^ 32"], of "2 ^ 34"] by simp
  with assms(2-4) have "px (2 ^ 34) (jsub (fst g) (jsub (fst c) (fst s)))" "px (2 ^ 34) (jsub (snd g) (jsub (snd c) (snd s)))"
    by (simp_all only: d fst_conv snd_conv)
  then have "panel_inv (clampToViewport (p\<lparr>tp_at := (jsub (fst g) (jsub (fst c) (fst s)), jsub (snd g) (jsub (snd c) (snd s)))\<rparr>))"
    by (intro clamp_inv) (use assms(1) in \<open>simp_all add: panel_inv_def\<close>)
  then show ?thesis by (simp add: drag_move_def d)
qed

lemma drags_inv:
  assumes "px2 (2 ^ 31) c" and "panel_inv p" and "set ds \<subseteq> set (tp_drags p)"
  shows "panel_inv (foldl (\<lambda>q d. drag_move c d q) p ds)"
  using assms(2,3)
proof (induction ds arbitrary: p)
  case (Cons d ds)
  from Cons.prems have "d \<in> set (tp_drags p)" by simp
  then have "px2 (2 ^ 31) (fst d)" "px2 (2 ^ 32) (snd d)" using Cons.prems(1) by (simp_all only: panel_inv_def)
  from drag_move_inv [OF Cons.prems(1) assms(1) this] Cons.prems(2)
  have "panel_inv (drag_move c d p)" and "set ds \<subseteq> set (tp_drags (drag_move c d p))" by auto
  then show ?case unfolding foldl.simps by (rule Cons.IH)
qed simp

lemma onMsg_inv:
  assumes "panel_inv p" and "tp_listening p"
  shows "panel_inv (onMsg d p)"
proof -
  have "panel_inv (clampToViewport (p\<lparr>tp_open := True\<rparr>))"
    by (rule clamp_inv) (use assms in \<open>simp_all add: panel_inv_def\<close>)
  with assms(1) show ?thesis
    by (simp add: onMsg_def set_open_def Let_def) (simp add: panel_inv_def)
qed

lemma panel_run_inv:
  assumes "panel_inv p" and "sound_ev e"
  shows "panel_inv (panel_run e p)"
proof (cases e)
  case (TpDown s box)
  have "px (2 ^ 32) (jsub a b)" if "px (2 ^ 31) a" "px (2 ^ 31) b" for a b
    using px_sub [OF that, of "2 ^ 32"] by simp
  with assms TpDown show ?thesis
    by (simp add: panel_run_def drag_start_def panel_inv_def sound_ev_def sound_view_def in_reach_def)
next
  case (TpMove c)
  with assms show ?thesis by (simp add: panel_run_def sound_ev_def drags_inv)
next
  case (TpResize v)
  then have "panel_run e p = clampToViewport (p\<lparr>tp_view := v\<rparr>)" by (simp add: panel_run_def)
  moreover have "panel_inv \<dots>" by (rule clamp_inv) (use assms TpResize in \<open>simp_all add: panel_inv_def sound_ev_def\<close>)
  ultimately show ?thesis by simp
next
  case (TpMessage d)
  with assms(1) show ?thesis
    by (simp add: panel_run_def onMsg_inv)
qed (use assms(1) in \<open>simp_all add: panel_run_def dismiss_def set_open_def panel_mount_def panel_unmount_def panel_inv_def
    in_reach_def Let_def\<close>)

interpretation panel: invariant_machine panel_step panel_inv
  by unfold_locales (auto simp: panel_step_def panel_run_inv)

lemma panel_events:
  "\<forall>e\<in>set evs. sound_ev e \<Longrightarrow> panel_step\<^sup>*\<^sup>* p (foldl (\<lambda>q e. panel_run e q) p evs)"
proof (induction evs arbitrary: p)
  case (Cons e evs)
  then have "panel_step p (panel_run e p)" by (auto simp: panel_step_def)
  moreover have "panel_step\<^sup>*\<^sup>* (panel_run e p) (foldl (\<lambda>q e. panel_run e q) (panel_run e p) evs)"
    using Cons.prems by (intro Cons.IH) simp
  ultimately show ?case by simp
qed simp

lemma panel_init_inv: "sound_view v \<Longrightarrow> panel_inv (panel_init v)"
  by (simp add: panel_inv_def panel_init_def px_def)



section \<open>Controls\<close>

text \<open>A number that is reported is never below its minimum, nor above its maximum where there is room.\<close>

lemma jless_irrefl [simp]: "\<not> jless a a"
  by (cases a) simp_all

lemma tweak_clamp_min: "\<not> jless (tweak_clamp (Some a) mx n) a \<or> mx = Some (tweak_clamp (Some a) mx n)"
  by (cases mx) (simp_all add: tweak_clamp_def)

lemma tweak_clamp_max: "\<not> jless b (tweak_clamp mn (Some b) n) \<or> mn = Some (tweak_clamp mn (Some b) n)"
  by (cases mn) (simp_all add: tweak_clamp_def)

lemma number_reports:
  "v \<in> set (snd (number_run mn mx stp value e c)) \<Longrightarrow> \<exists>n. v = tweak_clamp mn mx n"
  by (cases e) (auto simp: number_run_def set_replicate_conv_if split: if_splits)

text \<open>The dropdown gives back the option it shows, with its type, when no two read the same.\<close>

lemma resolve_option:
  assumes "op \<in> set options" and "\<forall>q\<in>set options. js_String (opt_value q) = js_String (opt_value op) \<longrightarrow> opt_value q = opt_value op"
  shows "resolve options (js_String (opt_value op)) = opt_value op"
proof (cases "find (\<lambda>q. js_String (opt_value q) = js_String (opt_value op)) options")
  case None
  with assms(1) show ?thesis by (auto simp: find_None_iff)
next
  case (Some q)
  then have "q \<in> set options" and "js_String (opt_value q) = js_String (opt_value op)"
    by (auto simp: find_Some_iff)
  with assms(2) Some show ?thesis by (simp add: resolve_def)
qed

text \<open>A colour and its short form get the same mark.\<close>

lemma twkIsLight_short:
  "CHR ''#'' \<notin> {a, b, c} \<Longrightarrow> \<forall>x\<in>{a, b, c}. \<not> line_end x \<Longrightarrow>
     twkIsLight [CHR ''#'', a, b, c] = twkIsLight [CHR ''#'', a, a, b, b, c, c]"
  by (simp add: twkIsLight_def hex6_def padEnd_def)

end
