(* ===== verification/Sdk_Typed.thy ===== *)
theory Sdk_Typed
  imports Js_Object Sdk_Client Ledger Play_Data
begin

text \<open>
  The presets and signers of \<open>sdk/ts/src/helpers.ts\<close>, and the table of errors of the generated client
  (\<open>sdk/ts/src/contract.ts\<close>). The constructor of the client and \<open>basicNodeSigner\<close> belong to the Stellar
  SDK and are arguments; Freighter is the extension of \<open>Sdk_Client\<close>.
\<close>

section \<open>Presets\<close>

definition LEGACY_TESTNET :: "(string \<times> jval) list" where
  "LEGACY_TESTNET =
     [(''contractId'', JStr ''CBSTBPSCSUXWK57OBQN7QKGS56WUDNJBURV5PD5ZDUHTR2KQYC52QDBX''),
      (''networkPassphrase'', JStr ''Test SDF Network ; September 2015''),
      (''rpcUrl'', JStr ''https://soroban-testnet.stellar.org'')]"

definition TESTNET :: "(string \<times> jval) list" where
  "TESTNET =
     [(''contractId'', JStr ''CCXNPRC4C2DX2W7Z2AW35NC6WORZPTI5JWJCTQIVRJ2FLMI3ZZ32MKRF''),
      (''networkPassphrase'', JStr ''Test SDF Network ; September 2015''),
      (''rpcUrl'', JStr ''https://soroban-testnet.stellar.org'')]"

definition testnet_passphrase :: string where \<comment> \<open>\<open>TESTNET.networkPassphrase\<close>\<close>
  "testnet_passphrase = ''Test SDF Network ; September 2015''"

definition soroticket :: "((string \<times> jval) list \<Rightarrow> 'c js) \<Rightarrow> (string \<times> jval) list \<Rightarrow> 'c js" where
  "soroticket newClient opts = newClient (obj_spread TESTNET opts)"

text \<open>The client of the playground (\<open>web/src/lib/soroban.js\<close>) is bound to the network of its data.\<close>

definition web_config :: config where
  "web_config = \<lparr>contractId = net_contractId, rpcUrl = net_rpc, networkPassphrase = net_passphrase,
     readSource = net_ownerWallet, horizonUrl = None\<rparr>"

section \<open>Signers\<close>

record 's signer =
  sg_publicKey :: jval
  sg_sign :: 's

definition keypairSigner :: "stellar \<Rightarrow> (string \<Rightarrow> string \<Rightarrow> 's) \<Rightarrow> string \<Rightarrow> string option \<Rightarrow> 's signer js" where
  "keypairSigner S basicNodeSigner secret passphrase =
     (let np = (case passphrase of Some p \<Rightarrow> p | None \<Rightarrow> testnet_passphrase) in
      bindR (keypairOf S secret) (\<lambda>pk.
      Inr \<lparr>sg_publicKey = JStr pk, sg_sign = basicNodeSigner secret np\<rparr>))"

definition opt_field :: "jval \<Rightarrow> string \<Rightarrow> jval js" where \<comment> \<open>\<open>v?.k\<close>\<close>
  "opt_field v k = (if nullish v then Inr JUndef else field v k)"

definition sign_options :: "string \<Rightarrow> jval \<Rightarrow> (string \<times> jval) list \<Rightarrow> (string \<times> jval) list" where
  \<comment> \<open>what \<open>fr.signTransaction\<close> is called with, beside the transaction\<close>
  "sign_options np publicKey opts = obj_spread [(''networkPassphrase'', JStr np), (''address'', publicKey)] opts"

definition freighterSigner ::
  "'w env \<Rightarrow> string option \<Rightarrow> ('w run, ((string \<times> jval) list \<Rightarrow> (string \<times> jval) list) signer) io" where
  "freighterSigner E passphrase =
     (let np = (case passphrase of Some p \<Rightarrow> p | None \<Rightarrow> testnet_passphrase) in
      bindIO (ask LoadFreighter (e_loadFreighter E)) (\<lambda>_.
      bindIO (ask RequestAccess (e_requestAccess E)) (\<lambda>access.
      bindIO (liftIO (opt_field access ''error'')) (\<lambda>err.
      if truthy err then throwIO (Error (js_String err))
      else
      bindIO (liftIO (opt_field access ''address'')) (\<lambda>a.
      bindIO (if nullish a
              then bindIO (ask GetAddress (e_getAddress E)) (\<lambda>g. liftIO (opt_field g ''address''))
              else returnIO a) (\<lambda>publicKey.
      returnIO \<lparr>sg_publicKey = publicKey, sg_sign = sign_options np publicKey\<rparr>))))))"

section \<open>The errors of the generated client\<close>

definition Errors :: "(nat \<times> string) list" where
  "Errors =
     [(1, ''CampaignNotFound''),
      (2, ''CouponNotFound''),
      (3, ''AlreadyRedeemed''),
      (4, ''CampaignExpired''),
      (5, ''SupplyExhausted''),
      (6, ''Unauthorized''),
      (7, ''InvalidCode''),
      (8, ''DuplicateCode''),
      (9, ''InvalidTerms''),
      (10, ''BatchTooLarge''),
      (11, ''CodeTooLong''),
      (12, ''SharedNotFound''),
      (13, ''AlreadyRegistered''),
      (14, ''PeriodCommitted''),
      (15, ''TallyNotFound''),
      (16, ''AlreadySettled''),
      (17, ''InvalidTally''),
      (18, ''InvalidSettlement''),
      (19, ''AttributionMismatch'')]"

fun error_name :: "contract_error \<Rightarrow> string" where \<comment> \<open>the names of the contract's enumeration\<close>
  "error_name CampaignNotFound = ''CampaignNotFound''"
| "error_name CouponNotFound = ''CouponNotFound''"
| "error_name AlreadyRedeemed = ''AlreadyRedeemed''"
| "error_name CampaignExpired = ''CampaignExpired''"
| "error_name SupplyExhausted = ''SupplyExhausted''"
| "error_name Unauthorized = ''Unauthorized''"
| "error_name InvalidCode = ''InvalidCode''"
| "error_name DuplicateCode = ''DuplicateCode''"
| "error_name InvalidTerms = ''InvalidTerms''"
| "error_name BatchTooLarge = ''BatchTooLarge''"
| "error_name CodeTooLong = ''CodeTooLong''"
| "error_name SharedNotFound = ''SharedNotFound''"
| "error_name AlreadyRegistered = ''AlreadyRegistered''"
| "error_name PeriodCommitted = ''PeriodCommitted''"
| "error_name TallyNotFound = ''TallyNotFound''"
| "error_name AlreadySettled = ''AlreadySettled''"
| "error_name InvalidTally = ''InvalidTally''"
| "error_name InvalidSettlement = ''InvalidSettlement''"
| "error_name AttributionMismatch = ''AttributionMismatch''"

lemma Errors_map:
  "Errors = map (\<lambda>e. (error_number e, error_name e))
     [CampaignNotFound, CouponNotFound, AlreadyRedeemed, CampaignExpired, SupplyExhausted,
      Unauthorized, InvalidCode, DuplicateCode, InvalidTerms, BatchTooLarge,
      CodeTooLong, SharedNotFound, AlreadyRegistered, PeriodCommitted, TallyNotFound,
      AlreadySettled, InvalidTally, InvalidSettlement, AttributionMismatch]"
  by (simp add: Errors_def)

lemma Errors_of_contract: "map_of Errors (error_number e) = Some (error_name e)"
  by (cases e) (simp_all add: Errors_def)

lemma Errors_are_contract: "map_of Errors n = Some t \<Longrightarrow> \<exists>e. error_number e = n \<and> error_name e = t"
  unfolding Errors_map by (drule map_of_SomeD) (auto simp only: set_map)

section \<open>What they do\<close>

text \<open>The playground and the typed client address the same deployment.\<close>

lemma web_config_is_testnet:
  "[(''contractId'', JStr (contractId web_config)), (''networkPassphrase'', JStr (networkPassphrase web_config)),
    (''rpcUrl'', JStr (rpcUrl web_config))] = TESTNET"
  by (simp add: web_config_def TESTNET_def net_contractId_def net_passphrase_def net_rpc_def)

text \<open>The options given win over the preset, which fills in the others.\<close>

lemma soroticket_options:
  "distinct (map fst opts) \<Longrightarrow>
     soroticket (\<lambda>os. Inr (map_of os k)) opts = Inr (case map_of opts k of Some v \<Rightarrow> Some v | None \<Rightarrow> map_of TESTNET k)"
  by (simp add: soroticket_def map_of_obj_spread map_add_def)

text \<open>
  Getting a signer from Freighter signs nothing and says who refused. It loads the extension, asks for
  access and, only when the answer names no address, asks for the address, in this order and nothing
  else, whatever the extension answers; an answer with an error ends in an error of that text, and
  a signer signs for the network asked for and with the address it shows, unless the caller of the
  signature names others.
\<close>

lemma opt_field_total: "\<exists>x. opt_field v k = Inr x"
  by (cases v) (simp_all add: opt_field_def)

lemma freighterSigner_refused:
  assumes "e_loadFreighter E w = (Inr (), w1)" and "e_requestAccess E w1 = (Inr (JObj kvs), w2)"
    and "map_of kvs ''error'' = Some v" and "truthy v"
  shows "freighterSigner E passphrase (w, tr) = (Inl (Error (js_String v)), (w2, tr @ [LoadFreighter, RequestAccess]))"
  using assms by (simp add: freighterSigner_def ask_def bindIO_run opt_field_def Let_def)

lemma freighterSigner_asks:
  assumes "freighterSigner E passphrase (w, tr) = (r, (w', tr'))"
  shows "(\<exists>k. tr' = tr @ take k [LoadFreighter, RequestAccess, GetAddress]
      \<and> (\<forall>s. r = Inr s \<longrightarrow> 2 \<le> k
          \<and> sg_sign s [] = [(''networkPassphrase'', JStr (case passphrase of Some p \<Rightarrow> p | None \<Rightarrow> testnet_passphrase)),
                            (''address'', sg_publicKey s)]))
    \<and> (\<forall>w1 kvs w2 v. e_loadFreighter E w = (Inr (), w1) \<and> e_requestAccess E w1 = (Inr (JObj kvs), w2)
        \<and> map_of kvs ''error'' = Some v \<and> truthy v
        \<longrightarrow> r = Inl (Error (js_String v)) \<and> tr' = tr @ [LoadFreighter, RequestAccess])"
proof (intro conjI allI impI)
  have k1: "\<exists>k. tr @ [LoadFreighter] = tr @ take k [LoadFreighter, RequestAccess, GetAddress] \<and> P k"
    if "P 1" for P using that by (intro exI [of _ 1]) simp
  have k2: "\<exists>k. tr @ [LoadFreighter, RequestAccess] = tr @ take k [LoadFreighter, RequestAccess, GetAddress] \<and> P k"
    if "P 2" for P using that by (intro exI [of _ 2]) simp
  have k3: "\<exists>k. tr @ [LoadFreighter, RequestAccess, GetAddress] = tr @ take k [LoadFreighter, RequestAccess, GetAddress] \<and> P k"
    if "P 3" for P using that by (intro exI [of _ 3]) simp
  have e1: "\<exists>k. [LoadFreighter] = take k [LoadFreighter, RequestAccess, GetAddress]"
    by (rule exI [of _ 1]) simp
  have e2: "\<exists>k. [LoadFreighter, RequestAccess] = take k [LoadFreighter, RequestAccess, GetAddress]"
    by (rule exI [of _ 2]) simp
  show "\<exists>k. tr' = tr @ take k [LoadFreighter, RequestAccess, GetAddress]
      \<and> (\<forall>s. r = Inr s \<longrightarrow> 2 \<le> k
          \<and> sg_sign s [] = [(''networkPassphrase'', JStr (case passphrase of Some p \<Rightarrow> p | None \<Rightarrow> testnet_passphrase)),
                            (''address'', sg_publicKey s)])"
    using assms
    by (auto simp: freighterSigner_def ask_def bindIO_eq_iff liftIO_eq_iff Let_def sign_options_def obj_spread_def
        intro!: k1 k2 k3 e1 e2 split: prod.splits if_splits)
qed (use assms freighterSigner_refused in fastforce)+

lemma freighterSigner_asks_witness:
  "(\<exists>k. [LoadFreighter, RequestAccess] = [] @ take k [LoadFreighter, RequestAccess, GetAddress]
      \<and> (\<forall>s. Inr \<lparr>sg_publicKey = JStr ''GUSER'', sg_sign = sign_options testnet_passphrase (JStr ''GUSER'')\<rparr> = (Inr s :: _ js) \<longrightarrow> 2 \<le> k
          \<and> sg_sign s [] = [(''networkPassphrase'', JStr (case None of Some p \<Rightarrow> p | None \<Rightarrow> testnet_passphrase)),
                            (''address'', sg_publicKey s)]))
    \<and> (\<forall>w1 kvs w2 v. e_loadFreighter (sample_env None 0) 0 = (Inr (), w1) \<and> e_requestAccess (sample_env None 0) w1 = (Inr (JObj kvs), w2)
        \<and> map_of kvs ''error'' = Some v \<and> truthy v
        \<longrightarrow> Inr \<lparr>sg_publicKey = JStr ''GUSER'', sg_sign = sign_options testnet_passphrase (JStr ''GUSER'')\<rparr>
            = Inl (Error (js_String v)) \<and> [LoadFreighter, RequestAccess] = [] @ [LoadFreighter, RequestAccess])"
  by (rule freighterSigner_asks [where w' = 0])
    (simp add: freighterSigner_def sample_env_def ask_def bindIO_run opt_field_def Let_def)

text \<open>Where Freighter shows no address, connecting refuses; the signer is made without a public key.\<close>

lemma freighterSigner_without_address:
  assumes "e_loadFreighter E w = (Inr (), w1)" and "e_requestAccess E w1 = (Inr (JObj []), w2)"
    and "e_getAddress E w2 = (Inr (JObj [(''error'', JStr e)]), w3)"
  shows "fst (freighterSigner E None (w, tr)) = Inr \<lparr>sg_publicKey = JUndef, sg_sign = sign_options testnet_passphrase JUndef\<rparr>"
  using assms by (simp add: freighterSigner_def ask_def bindIO_run opt_field_def Let_def)

end
