(* ===== verification/Node_Path.thy ===== *)
theory Node_Path
  imports Js_Uri
begin

text \<open>
  What the scripts use of Node's standard library: \<open>resolve\<close> and \<open>extname\<close> of \<open>node:path\<close> on POSIX. A path is a list of
  UTF-16 code units; 47 is the slash and 46 the dot.
\<close>

section \<open>Paths\<close>

fun segments :: "units \<Rightarrow> units list" where \<comment> \<open>split at the slashes\<close>
  "segments [] = [[]]"
| "segments (c # p) =
     (if c = 47 then [] # segments p
      else (case segments p of [] \<Rightarrow> [[c]] | s # ss \<Rightarrow> (c # s) # ss))"

definition seg_step :: "units list \<Rightarrow> units \<Rightarrow> units list" where \<comment> \<open>the parent of the root is the root\<close>
  "seg_step st s = (if s = [] \<or> s = [46] then st else if s = [46, 46] then butlast st else st @ [s])"

definition normal_segments :: "units \<Rightarrow> units list" where
  "normal_segments p = foldl seg_step [] (segments p)"

definition abs_path :: "units list \<Rightarrow> units" where
  "abs_path ss = (if ss = [] then [47] else concat (map (\<lambda>s. 47 # s) ss))"

definition resolve_path :: "units \<Rightarrow> units \<Rightarrow> units" where \<comment> \<open>\<open>resolve(a, b)\<close> of an absolute \<open>a\<close>\<close>
  "resolve_path a b = abs_path (normal_segments (case b of c # _ \<Rightarrow> if c = 47 then b else a @ 47 # b | [] \<Rightarrow> a))"

definition path_starts :: "units \<Rightarrow> units \<Rightarrow> bool" where \<comment> \<open>\<open>a.startsWith(b)\<close>\<close>
  "path_starts a b \<longleftrightarrow> take (length b) a = b"

definition base_name :: "units \<Rightarrow> units" where \<comment> \<open>of a resolved path\<close>
  "base_name p = last (segments p)"

definition extname :: "units \<Rightarrow> units" where
  \<comment> \<open>from the last dot of the name on; a dot in front is no extension\<close>
  "extname p =
     (let b = base_name p; ext = takeWhile (\<lambda>c. c \<noteq> 46) (rev b); stem = butlast (take (length b - length ext) b)
      in if 46 \<notin> set b \<or> stem = [] \<or> b = [46, 46] then [] else 46 # rev ext)"

text \<open>A proper segment is a name: it is not empty, no dot segment, and has no slash.\<close>

definition proper :: "units \<Rightarrow> bool" where
  "proper s \<longleftrightarrow> s \<noteq> [] \<and> s \<noteq> [46] \<and> s \<noteq> [46, 46] \<and> 47 \<notin> set s"

lemma segments_not_Nil [simp]: "segments p \<noteq> []"
  by (induction p) (auto split: list.splits)

lemma segments_no_slash: "s \<in> set (segments p) \<Longrightarrow> 47 \<notin> set s"
  by (induction p arbitrary: s) (auto split: list.splits if_splits)

lemma segments_plain: "47 \<notin> set s \<Longrightarrow> segments s = [s]"
  by (induction s) auto

lemma segments_slash: "segments (a @ 47 # b) = segments a @ segments b"
proof (induction a)
  case (Cons c a)
  obtain s ss where "segments a = s # ss" by (cases "segments a") auto
  with Cons show ?case by simp
qed simp

lemma proper_step [simp]: "proper s \<Longrightarrow> seg_step st s = st @ [s]"
  by (auto simp: proper_def seg_step_def)

lemma seg_step_Nil [simp]: "seg_step st [] = st" "seg_step st [46] = st" "seg_step st [46, 46] = butlast st"
  by (simp_all add: seg_step_def)

lemma fold_proper [simp]: "(\<forall>s\<in>set ss. proper s) \<Longrightarrow> foldl seg_step st ss = st @ ss"
  by (induction ss arbitrary: st) simp_all

lemma seg_step_proper:
  "\<forall>t\<in>set st. proper t \<Longrightarrow> 47 \<notin> set s \<Longrightarrow> \<forall>t\<in>set (seg_step st s). proper t"
  by (auto simp: seg_step_def proper_def dest: in_set_butlastD)

lemma fold_seg_proper:
  "\<forall>t\<in>set st. proper t \<Longrightarrow> \<forall>s\<in>set ss. 47 \<notin> set s \<Longrightarrow> \<forall>t\<in>set (foldl seg_step st ss). proper t"
proof (induction ss arbitrary: st)
  case (Cons s ss)
  from Cons.prems(2) have "47 \<notin> set s" and ss: "\<forall>s\<in>set ss. 47 \<notin> set s" by simp_all
  then show ?case unfolding foldl.simps by (intro Cons.IH [OF seg_step_proper [OF Cons.prems(1)]])
qed simp

lemma normal_proper: "\<forall>s\<in>set (normal_segments p). proper s"
  unfolding normal_segments_def by (rule fold_seg_proper) (auto dest: segments_no_slash)

text \<open>An absolute path of proper segments is resolved already, and its segments are read back.\<close>

lemma segments_abs:
  assumes "\<forall>s\<in>set ss. proper s" and "ss \<noteq> []"
  shows "segments (abs_path ss) = [] # ss"
proof -
  have "segments (concat (map (\<lambda>s. 47 # s) ss)) = [] # ss"
    using assms(1)
  proof (induction ss rule: rev_induct)
    case (snoc s ss)
    then have "segments s = [s]" by (intro segments_plain) (auto simp: proper_def)
    with snoc show ?case by (simp add: segments_slash)
  qed simp
  with assms(2) show ?thesis by (simp add: abs_path_def)
qed

lemma normal_abs:
  assumes "\<forall>s\<in>set ss. proper s"
  shows "normal_segments (abs_path ss) = ss"
proof (cases "ss = []")
  case True
  then show ?thesis by (simp add: normal_segments_def abs_path_def)
next
  case False
  with assms show ?thesis by (simp add: normal_segments_def segments_abs)
qed

lemma abs_path_length: "0 < length (abs_path ss)"
  by (cases ss) (simp_all add: abs_path_def)

lemma abs_path_inject:
  assumes "\<forall>s\<in>set ss. proper s" and "\<forall>s\<in>set ts. proper s"
  shows "abs_path ss = abs_path ts \<longleftrightarrow> ss = ts"
  using normal_abs [OF assms(1)] normal_abs [OF assms(2)] by metis

lemma resolve_path_relative:
  assumes "\<forall>s\<in>set rs. proper s" and "b \<noteq> []" and "hd b \<noteq> 47"
  shows "resolve_path (abs_path rs) b = abs_path (foldl seg_step rs (segments b))"
  using assms normal_abs [OF assms(1)]
  by (cases b) (auto simp: resolve_path_def normal_segments_def segments_slash)

text \<open>Below the root in the text of the path is below it in the tree.\<close>

lemma below_root:
  assumes rs: "\<forall>s\<in>set rs. proper s" and ss: "\<forall>s\<in>set ss. proper s"
  shows "path_starts (abs_path ss) (abs_path rs @ [47]) \<longleftrightarrow> rs \<noteq> [] \<and> (\<exists>t ts. ss = rs @ t # ts)"
    (is "?starts \<longleftrightarrow> ?below")
proof
  assume ?below
  then obtain t ts where "ss = rs @ t # ts" and "rs \<noteq> []" by blast
  then show ?starts by (simp add: path_starts_def abs_path_def)
next
  assume ?starts
  then obtain u where u: "abs_path ss = (abs_path rs @ [47]) @ u"
    unfolding path_starts_def by (metis append_take_drop_id)
  have "2 \<le> length (abs_path ss)" using abs_path_length [of rs] unfolding u by (cases "abs_path rs") simp_all
  then have ss_ne: "ss \<noteq> []" by (auto simp: abs_path_def)
  have rs_ne: "rs \<noteq> []"
  proof
    assume "rs = []"
    with u have "segments (abs_path ss) = [] # [] # segments u" by (simp add: abs_path_def)
    with ss ss_ne show False by (auto simp: segments_abs proper_def)
  qed
  have "[] # ss = segments (abs_path rs) @ segments u"
    using u ss ss_ne by (simp add: segments_slash flip: segments_abs)
  then have "ss = rs @ segments u" using rs rs_ne by (simp add: segments_abs)
  with rs_ne show ?below by (cases "segments u") auto
qed

end
