(* ===== verification/Dev_Server.thy ===== *)
theory Dev_Server
  imports Node_Path Js_Io
begin

text \<open>
  The scripts that serve and build the landing page: \<open>scripts/dev-server.mjs\<close> and
  \<open>scripts/build-landing.mjs\<close>. The URL parser of the platform is an argument, which gives the path of
  a request or throws; the file system is what \<open>existsSync\<close> and \<open>statSync\<close> say of a path at the time
  of a request, with None where there is nothing.
\<close>

section \<open>The development server\<close>

definition dev_root :: "units \<Rightarrow> units" where \<comment> \<open>\<open>projectRoot\<close>, of \<open>import.meta.dirname\<close>\<close>
  "dev_root dirname = resolve_path dirname (units_of ''..'')"

definition env_or :: "string option \<Rightarrow> string \<Rightarrow> string" where \<comment> \<open>\<open>v || d\<close> of a text that may be missing\<close>
  "env_or v d = (case v of Some t \<Rightarrow> if t = [] then d else t | None \<Rightarrow> d)"

definition dev_host :: "string option \<Rightarrow> string" where
  "dev_host HOST = env_or HOST ''127.0.0.1''"

definition dev_port :: "string option \<Rightarrow> jnum" where
  "dev_port PORT = to_number (env_or PORT ''5173'')"

definition contentTypes :: "(string \<times> string) list" where
  "contentTypes =
     [(''.css'', ''text/css; charset=utf-8''),
      (''.html'', ''text/html; charset=utf-8''),
      (''.js'', ''text/javascript; charset=utf-8''),
      (''.json'', ''application/json; charset=utf-8''),
      (''.svg'', ''image/svg+xml''),
      (''.ttf'', ''font/ttf''),
      (''.woff'', ''font/woff''),
      (''.woff2'', ''font/woff2'')]"

definition lower_unit :: "int \<Rightarrow> int" where \<comment> \<open>of ASCII; no other lower case is one of an extension above\<close>
  "lower_unit c = (if 65 \<le> c \<and> c \<le> 90 then c + 32 else c)"

definition content_type :: "units \<Rightarrow> string" where
  "content_type f =
     (case find (\<lambda>(e, t). units_of e = map lower_unit (extname f)) contentTypes of
        Some (e, t) \<Rightarrow> t
      | None \<Rightarrow> ''application/octet-stream'')"

record dev_request =
  rq_url :: string
  rq_host :: "string option" \<comment> \<open>the Host header\<close>

datatype dev_body = Plain string | FileStream units

record dev_reply =
  rp_status :: int
  rp_headers :: "(string \<times> string) list"
  rp_body :: dev_body

definition plain_reply :: "int \<Rightarrow> string \<Rightarrow> dev_reply" where
  "plain_reply n t =
     \<lparr>rp_status = n, rp_headers = [(''Content-Type'', ''text/plain; charset=utf-8'')], rp_body = Plain t\<rparr>"

definition file_reply :: "units \<Rightarrow> dev_reply" where
  "file_reply f =
     \<lparr>rp_status = 200, rp_headers = [(''Cache-Control'', ''no-store''), (''Content-Type'', content_type f)],
      rp_body = FileStream f\<rparr>"

definition dev_file :: "units \<Rightarrow> (units \<Rightarrow> bool option) \<Rightarrow> units \<Rightarrow> dev_reply" where
  \<comment> \<open>from the decoded path on\<close>
  "dev_file rt fs decodedPath =
     (let filePath = resolve_path rt (46 # decodedPath) in
      if filePath \<noteq> rt \<and> \<not> path_starts filePath (rt @ [47]) then plain_reply 403 ''Forbidden''
      else if fs filePath \<noteq> Some True then plain_reply 404 ''Not found''
      else file_reply filePath)"

definition dev_handle ::
  "(string \<Rightarrow> string \<Rightarrow> string js) \<Rightarrow> (units \<Rightarrow> bool option) \<Rightarrow> string \<Rightarrow> units \<Rightarrow> dev_request \<Rightarrow> dev_reply js" where
  "dev_handle parse fs host rt request =
     bindR (parse (if rq_url request = [] then ''/'' else rq_url request)
              (''http://'' @ env_or (rq_host request) host)) (\<lambda>p.
     let pathname = (if p = ''/'' then ''/soroticket-index.html'' else p) in
     bindR (decodeURIComponent pathname) (\<lambda>decodedPath. Inr (dev_file rt fs decodedPath)))"

text \<open>
  The process: it listens, closes at the first signal and exits once the connections are gone or at
  a second signal, whose \<open>close\<close> fails at once. An exception of the handler, and the error of a
  file's stream, which has no listener, end it.
\<close>

datatype dev_phase = Listening | Closing | Exited | Crashed

record dev_server =
  dv_phase :: dev_phase
  dv_replies :: "dev_reply list"
  dv_printed :: "string list"

definition dev_banner :: "string \<Rightarrow> jnum \<Rightarrow> string" where
  "dev_banner host port = ''Soroticket disponible en http://'' @ host @ '':'' @ num_str port"

definition dev_start :: "string option \<Rightarrow> string option \<Rightarrow> dev_server" where
  "dev_start HOST PORT =
     \<lparr>dv_phase = Listening, dv_replies = [], dv_printed = [dev_banner (dev_host HOST) (dev_port PORT)]\<rparr>"

datatype dev_ev = DvRequest dev_request "units \<Rightarrow> bool option" | DvReadError | DvSignal | DvDrained

definition dev_up :: "dev_server \<Rightarrow> bool" where
  "dev_up v \<longleftrightarrow> dv_phase v = Listening \<or> dv_phase v = Closing"

definition dev_step ::
  "(string \<Rightarrow> string \<Rightarrow> string js) \<Rightarrow> string \<Rightarrow> units \<Rightarrow> dev_ev \<Rightarrow> dev_server \<Rightarrow> dev_server" where
  "dev_step parse host rt e v =
     (if \<not> dev_up v then v
      else case e of
        DvRequest q fs \<Rightarrow>
          (case dev_handle parse fs host rt q of
             Inl _ \<Rightarrow> v\<lparr>dv_phase := Crashed\<rparr>
           | Inr r \<Rightarrow> v\<lparr>dv_replies := dv_replies v @ [r]\<rparr>)
      | DvReadError \<Rightarrow> v\<lparr>dv_phase := Crashed\<rparr>
      | DvSignal \<Rightarrow> v\<lparr>dv_phase := (if dv_phase v = Listening then Closing else Exited)\<rparr>
      | DvDrained \<Rightarrow> if dv_phase v = Closing then v\<lparr>dv_phase := Exited\<rparr> else v)"

definition dev_run ::
  "(string \<Rightarrow> string \<Rightarrow> string js) \<Rightarrow> string \<Rightarrow> units \<Rightarrow> dev_ev list \<Rightarrow> dev_server \<Rightarrow> dev_server" where
  "dev_run parse host rt evs v = foldl (\<lambda>w e. dev_step parse host rt e w) v evs"

section \<open>Building the landing page\<close>

datatype fs_op = Rm units | Mkdir units | CopyFile units units | CopyDir units units

definition fs_target :: "fs_op \<Rightarrow> units" where \<comment> \<open>what an operation changes\<close>
  "fs_target op = (case op of Rm p \<Rightarrow> p | Mkdir p \<Rightarrow> p | CopyFile _ p \<Rightarrow> p | CopyDir _ p \<Rightarrow> p)"

type_synonym 'w build = "'w \<times> fs_op list"

definition fs_do :: "(fs_op \<Rightarrow> 'w \<Rightarrow> unit js \<times> 'w) \<Rightarrow> fs_op \<Rightarrow> ('w build, unit) io" where
  "fs_do disk op = (\<lambda>(w, tr). case disk op w of (r, w') \<Rightarrow> (r, (w', tr @ [op])))"

definition build_output :: "units \<Rightarrow> units" where
  "build_output rt = resolve_path rt (units_of ''dist'')"

definition build_landing :: "(fs_op \<Rightarrow> 'w \<Rightarrow> unit js \<times> 'w) \<Rightarrow> units \<Rightarrow> ('w build, string) io" where
  \<comment> \<open>each await stops the script when it fails; it ends with what it prints\<close>
  "build_landing disk scripts =
     (let rt = resolve_path scripts (units_of ''..'');
          out = build_output rt;
          inside = (\<lambda>p t. resolve_path p (units_of t)) in
      bindIO (fs_do disk (Rm out)) (\<lambda>_.
      bindIO (fs_do disk (Mkdir (inside out ''assets''))) (\<lambda>_.
      bindIO (fs_do disk (CopyFile (inside rt ''soroticket-index.html'') (inside out ''index.html''))) (\<lambda>_.
      bindIO (fs_do disk (CopyDir (inside (inside rt ''assets'') ''soroticket'')
                                  (inside (inside out ''assets'') ''soroticket''))) (\<lambda>_.
      returnIO ''Soroticket landing built in dist/'')))))"

section \<open>What is served\<close>

definition dev_segments :: "units \<Rightarrow> units list" where \<comment> \<open>of the project's root\<close>
  "dev_segments dirname = normal_segments (dirname @ 47 # units_of ''..'')"

lemma dev_root_abs: "dev_root dirname = abs_path (dev_segments dirname)"
  by (simp add: dev_root_def dev_segments_def resolve_path_def char_code_def)

lemma dev_segments_proper: "\<forall>s\<in>set (dev_segments dirname). proper s"
  by (simp add: dev_segments_def normal_proper)

text \<open>The two tests of the handler together say that the path is in the tree of the root.\<close>

lemma dev_file_cases:
  assumes rs: "\<forall>s\<in>set rs. proper s" and ss: "ss = foldl seg_step rs (segments (46 # d))"
  shows "dev_file (abs_path rs) fs d =
    (if ss \<noteq> rs \<and> \<not> (rs \<noteq> [] \<and> (\<exists>t ts. ss = rs @ t # ts)) then plain_reply 403 ''Forbidden''
     else if fs (abs_path ss) \<noteq> Some True then plain_reply 404 ''Not found'' else file_reply (abs_path ss))"
proof -
  have proper_ss: "\<forall>s\<in>set ss. proper s"
    unfolding ss using rs by (intro fold_seg_proper) (auto dest: segments_no_slash simp del: segments.simps)
  have "resolve_path (abs_path rs) (46 # d) = abs_path ss"
    using rs by (simp add: resolve_path_relative ss del: segments.simps)
  then show ?thesis
    by (simp add: dev_file_def Let_def abs_path_inject [OF proper_ss rs] below_root [OF rs proper_ss])
qed

lemma dev_file_inside:
  assumes rs: "\<forall>s\<in>set rs. proper s" and "rp_status (dev_file (abs_path rs) fs d) = 200"
  obtains ts where "\<forall>s\<in>set ts. proper s" and "dev_file (abs_path rs) fs d = file_reply (abs_path (rs @ ts))"
    and "fs (abs_path (rs @ ts)) = Some True"
proof -
  define ss where "ss = foldl seg_step rs (segments (46 # d))"
  have proper_ss: "\<forall>s\<in>set ss. proper s"
    unfolding ss_def using rs by (intro fold_seg_proper) (auto dest: segments_no_slash simp del: segments.simps)
  note f = dev_file_cases [OF rs ss_def, of fs]
  from assms(2) obtain ts where "ss = rs @ ts"
    unfolding f by (auto simp: plain_reply_def split: if_splits)
  with assms(2) proper_ss that [of ts] show ?thesis
    unfolding f by (auto simp: plain_reply_def split: if_splits)
qed

text \<open>A run of the server: what every reply satisfies, and what ends it.\<close>

lemma dev_handle_file:
  assumes "dev_handle parse fs host rt q = Inr r"
  obtains d where "r = dev_file rt fs d"
  using assms by (auto simp: dev_handle_def Let_def bindR_Inr_iff)

lemma dev_run_snoc: "dev_run parse host rt (evs @ [e]) v = dev_step parse host rt e (dev_run parse host rt evs v)"
  by (simp add: dev_run_def)

lemma dev_step_replies:
  assumes "r \<in> set (dv_replies (dev_step parse host rt e v))"
  obtains "r \<in> set (dv_replies v)" | q fs d where "e = DvRequest q fs" and "r = dev_file rt fs d"
  using assms
  by (auto simp: dev_step_def split: if_splits dev_ev.splits sum.splits elim: dev_handle_file)

lemma dev_run_replies:
  assumes "r \<in> set (dv_replies (dev_run parse host rt evs v))" and "dv_replies v = []"
  obtains q fs d where "DvRequest q fs \<in> set evs" and "r = dev_file rt fs d"
  using assms
proof (induction evs arbitrary: thesis rule: rev_induct)
  case Nil
  then show ?case by (simp add: dev_run_def)
next
  case (snoc e evs)
  from snoc.prems(2) show ?case
    unfolding dev_run_snoc
    by (cases rule: dev_step_replies) (use snoc in \<open>auto 4 4\<close>)
qed

lemma dev_down_stays: "\<not> dev_up v \<Longrightarrow> dev_run parse host rt evs v = v"
  by (induction evs) (simp_all add: dev_run_def dev_step_def)

text \<open>One request with a malformed escape ends the server for every later one.\<close>

lemma malformed_ends_server:
  assumes "dev_up v" and "parse (if rq_url q = [] then ''/'' else rq_url q) (''http://'' @ env_or (rq_host q) host) = Inr ''/%''"
  shows "dev_run parse host rt (DvRequest q fs # evs) v = v\<lparr>dv_phase := Crashed\<rparr>"
proof -
  have "dev_handle parse fs host rt q = Inl URIError"
    using assms(2) by (simp add: dev_handle_def pct_point_def)
  then have "dev_step parse host rt (DvRequest q fs) v = v\<lparr>dv_phase := Crashed\<rparr>"
    using assms(1) by (simp add: dev_step_def)
  then show ?thesis
    using dev_down_stays [of "v\<lparr>dv_phase := Crashed\<rparr>"] by (simp add: dev_run_def dev_up_def)
qed

text \<open>
  C28 (safety). Only the project is served. Along any run of the development server, whatever the requests ask for
  (dot segments, escaped slashes and dots, any URL parser), a reply with status 200 is the stream of a
  file that is below the root of the project in the tree of directories, that was there when it was
  asked for, and carries the two headers of a file.
\<close>

theorem dev_serves_inside:
  assumes "r \<in> set (dv_replies (dev_run parse host (dev_root dirname) evs (dev_start HOST PORT)))"
    and "rp_status r = 200"
  shows "\<exists>ts. (\<forall>s\<in>set ts. proper s) \<and> r = file_reply (abs_path (dev_segments dirname @ ts))
    \<and> (\<exists>q fs. DvRequest q fs \<in> set evs \<and> fs (abs_path (dev_segments dirname @ ts)) = Some True)"
proof -
  from assms(1) obtain q fs d where q: "DvRequest q fs \<in> set evs"
      and r: "r = dev_file (abs_path (dev_segments dirname)) fs d"
    by (rule dev_run_replies) (simp_all add: dev_start_def dev_root_abs)
  from assms(2) obtain ts where "\<forall>s\<in>set ts. proper s"
      and "r = file_reply (abs_path (dev_segments dirname @ ts))"
      and "fs (abs_path (dev_segments dirname @ ts)) = Some True"
    unfolding r by (rule dev_file_inside [OF dev_segments_proper])
  with q show ?thesis by blast
qed

theorem dev_serves_inside_witness:
  "\<exists>ts. (\<forall>s\<in>set ts. proper s) \<and>
     file_reply (units_of ''/srv/a.css'') = file_reply (abs_path (dev_segments (units_of ''/srv/scripts'') @ ts)) \<and>
     (\<exists>q fs. DvRequest q fs \<in> set [DvRequest \<lparr>rq_url = ''/x/%2e%2e/a.css'', rq_host = None\<rparr> (\<lambda>p. Some True)] \<and>
        fs (abs_path (dev_segments (units_of ''/srv/scripts'') @ ts)) = Some True)"
proof (rule dev_serves_inside [where parse = "\<lambda>u h. Inr u" and host = "''localhost''" and HOST = None and PORT = None])
  show "file_reply (units_of ''/srv/a.css'') \<in> set (dv_replies (dev_run (\<lambda>u h. Inr u) ''localhost''
      (dev_root (units_of ''/srv/scripts''))
      [DvRequest \<lparr>rq_url = ''/x/%2e%2e/a.css'', rq_host = None\<rparr> (\<lambda>p. Some True)] (dev_start None None)))"
    by code_simp
qed (simp add: file_reply_def)

section \<open>Every file of the project is served\<close>

definition url_path :: "string list \<Rightarrow> string" where \<comment> \<open>the path of a URL, its names escaped\<close>
  "url_path names = concat (map (\<lambda>n. CHR ''/'' # encodeURIComponent n) names)"

lemma decode_slash:
  "decodeURIComponent (CHR ''/'' # encodeURIComponent n @ s) = bindR (decodeURIComponent s) (\<lambda>us. Inr (47 # units_of n @ us))"
  by (cases "decodeURIComponent s") (simp_all add: decode_encode_append char_code_def)

lemma decode_url_path: "decodeURIComponent (url_path names) = Inr (concat (map (\<lambda>n. 47 # units_of n) names))"
proof (induction names)
  case (Cons n names)
  have "url_path (n # names) = CHR ''/'' # encodeURIComponent n @ url_path names" by (simp add: url_path_def)
  with Cons show ?case by (simp only: decode_slash) simp
qed (simp add: url_path_def)

lemma encode_Nil_iff: "encodeURIComponent n = [] \<longleftrightarrow> n = []"
  by (cases n) (auto simp: encodeURIComponent_def hex_byte_def)

text \<open>
  Every file of the project is served, at its own path. When a request asks for the path of a file
  below the root, each name escaped, the reply is that file with its content type; no name of a file,
  with spaces, percent signs or accents, is refused or confused with another.
\<close>

lemma dev_serves_every_file:
  assumes "dev_segments dirname \<noteq> []" and "names \<noteq> []" and "\<forall>n\<in>set names. proper (units_of n)"
    and "fs (abs_path (dev_segments dirname @ map units_of names)) = Some True"
    and "parse (if rq_url q = [] then ''/'' else rq_url q) (''http://'' @ env_or (rq_host q) host)
      = Inr (url_path names)"
  shows "dev_handle parse fs host (dev_root dirname) q
    = Inr (file_reply (abs_path (dev_segments dirname @ map units_of names)))"
proof -
  obtain n ns where names: "names = n # ns" using assms(2) by (cases names) auto
  have "n \<noteq> []" using assms(3) names by (auto simp: proper_def)
  then have "url_path names \<noteq> ''/''" by (simp add: names url_path_def encode_Nil_iff)
  moreover have "segments (46 # abs_path (map units_of names)) = [46] # map units_of names"
    using segments_abs [of "map units_of names"] assms(2,3) by simp
  then have "foldl seg_step (dev_segments dirname) (segments (46 # abs_path (map units_of names)))
      = dev_segments dirname @ map units_of names"
    using assms(3) by simp
  then have "dev_file (dev_root dirname) fs (abs_path (map units_of names))
      = file_reply (abs_path (dev_segments dirname @ map units_of names))"
    using dev_file_cases [OF dev_segments_proper sym, of dirname "abs_path (map units_of names)"
        "dev_segments dirname @ map units_of names" fs] assms(1,4)
    by (simp add: dev_root_abs names)
  moreover have "abs_path (map units_of names) = concat (map (\<lambda>n. 47 # units_of n) names)"
    using assms(2) by (simp add: abs_path_def comp_def)
  ultimately show ?thesis
    using assms(5) by (simp add: dev_handle_def decode_url_path)
qed

lemma dev_serves_every_file_witness:
  "dev_handle (\<lambda>u h. Inr u) (\<lambda>p. Some True) ''localhost'' (dev_root (units_of ''/srv/scripts''))
     \<lparr>rq_url = ''/100%25%20caf%C3%A9.css'', rq_host = None\<rparr>
   = Inr (file_reply (abs_path (dev_segments (units_of ''/srv/scripts'') @ map units_of [''100% caf'' @ [CHR 0xE9] @ ''.css''])))"
  by (rule dev_serves_every_file) code_simp+

section \<open>What the build touches\<close>

text \<open>
  The script asks for four operations, in this order, and stops at the first that fails; each of them
  removes or writes at or below \<open>dist\<close> of the project.
\<close>

definition build_ops :: "units list \<Rightarrow> fs_op list" where
  "build_ops rs =
     (let path = (\<lambda>ns. abs_path (rs @ ns)) in
      [Rm (path [units_of ''dist'']), Mkdir (path [units_of ''dist'', units_of ''assets'']),
       CopyFile (path [units_of ''soroticket-index.html'']) (path [units_of ''dist'', units_of ''index.html'']),
       CopyDir (path [units_of ''assets'', units_of ''soroticket'']) (path [units_of ''dist'', units_of ''assets'', units_of ''soroticket''])])"

lemma resolve_name:
  assumes "\<forall>s\<in>set rs. proper s" and "proper (units_of n)"
  shows "resolve_path (abs_path rs) (units_of n) = abs_path (rs @ [units_of n])"
proof -
  from assms(2) have ne: "units_of n \<noteq> []" and plain: "47 \<notin> set (units_of n)" by (simp_all only: proper_def) auto
  from hd_in_set [OF ne] plain have "hd (units_of n) \<noteq> 47" by metis
  note ne this segments_plain [OF plain]
  with assms show ?thesis by (simp add: resolve_path_relative del: list.map_disc_iff)
qed

lemma proper_names:
  "proper (units_of ''dist'')" "proper (units_of ''assets'')" "proper (units_of ''index.html'')"
  "proper (units_of ''soroticket'')" "proper (units_of ''soroticket-index.html'')"
  by (simp_all add: proper_def char_code_def)

lemma fs_chain:
  assumes "foldr (\<lambda>op m. bindIO (fs_do disk op) (\<lambda>_. m)) ops (returnIO x) (w, tr) = (r, (w', tr'))"
  shows "\<exists>k. tr' = tr @ take k ops \<and> (r = Inr x \<longrightarrow> length ops \<le> k)"
  using assms
proof (induction ops arbitrary: w tr)
  case (Cons op ops)
  obtain q w1 where q: "disk op w = (q, w1)" by (cases "disk op w")
  show ?case
  proof (cases q)
    case (Inl e)
    with Cons.prems q show ?thesis by (intro exI [of _ 1]) (auto simp: bindIO_run fs_do_def)
  next
    case (Inr u)
    have "fs_do disk op (w, tr) = (Inr u, (w1, tr @ [op]))" using q Inr by (simp add: fs_do_def)
    with Cons.prems have "foldr (\<lambda>op m. bindIO (fs_do disk op) (\<lambda>_. m)) ops (returnIO x) (w1, tr @ [op]) = (r, (w', tr'))"
      by (simp only: foldr.simps comp_apply bindIO_simps)
    then obtain k where "tr' = (tr @ [op]) @ take k ops" and "r = Inr x \<longrightarrow> length ops \<le> k"
      by (blast dest: Cons.IH)
    then show ?thesis by (intro exI [of _ "Suc k"]) simp
  qed
qed simp

lemma build_landing_chain:
  "build_landing disk scripts = foldr (\<lambda>op m. bindIO (fs_do disk op) (\<lambda>_. m)) (build_ops (dev_segments scripts))
     (returnIO ''Soroticket landing built in dist/'')"
proof -
  have rs: "\<forall>s\<in>set (dev_segments scripts). proper s" by (simp add: dev_segments_proper)
  have "resolve_path scripts (units_of ''..'') = abs_path (dev_segments scripts)"
    using dev_root_abs [of scripts] by (simp only: dev_root_def)
  then show ?thesis
    using rs proper_names
    by (simp add: build_landing_def build_ops_def build_output_def Let_def resolve_name del: list.map)
qed

text \<open>
  The build touches only its output. Whatever the file system answers, the operations asked for are the
  first of the four, in their order (\<open>dist\<close> is removed before anything is written, and all four were asked
  for when the script ends normally), and every one changes a path at or below \<open>dist\<close> of the project.
\<close>

lemma build_inside:
  "\<exists>k. snd (snd (build_landing disk scripts (w, []))) = take k (build_ops (dev_segments scripts))
     \<and> (fst (build_landing disk scripts (w, [])) = Inr ''Soroticket landing built in dist/'' \<longrightarrow> 4 \<le> k)
     \<and> (\<forall>op\<in>set (build_ops (dev_segments scripts)).
          \<exists>ts. fs_target op = abs_path (dev_segments scripts @ units_of ''dist'' # ts))"
proof -
  obtain r w' tr' where run: "build_landing disk scripts (w, []) = (r, (w', tr'))"
    by (cases "build_landing disk scripts (w, [])") auto
  from fs_chain [OF run [unfolded build_landing_chain]]
  obtain k where "tr' = take k (build_ops (dev_segments scripts))"
      and "r = Inr ''Soroticket landing built in dist/'' \<longrightarrow> length (build_ops (dev_segments scripts)) \<le> k"
    by auto
  with run show ?thesis
    by (intro exI [of _ k]) (auto simp: build_ops_def Let_def fs_target_def)
qed

end
