(* ===== verification/Spec2Isabelle.thy ===== *)
theory Spec2Isabelle
  imports Play_Refine Play_Page Cards_Props Cards_Views Redeem_Commit Ui_Props
    Console_Session Console_Settle_Props Console_Auth_Props Console_Pages_Props Console_Orders Console_Run
    Play_Tweaks_Props Sdk_Typed Dev_Server
begin

text \<open>
  Soroticket issues coupons and tallies on the Stellar network. This development models its
  JavaScript and TypeScript code, and the contract that code talks to, and proves what makes the
  parts correct on their own and together.

  \<^bold>\<open>The program.\<close> The contract (\<open>contracts/coupon-ledger\<close>) keeps campaigns, coupon tokens, delegates,
  shared codes, period tallies and settlements. The SDK (\<open>sdk/ts/src/browser.ts\<close>, \<open>helpers.ts\<close>) encodes
  arguments, simulates, has Freighter sign, sends, waits, and turns contract errors into
  exceptions with a code; \<open>helpers.ts\<close> adds presets and signers. The playground (\<open>web/src\<close>) is a React application over the SDK: a store
  with a wallet, an activity log, toasts and a mirror of the ledger, and seven cards with forms.
  The console (\<open>cloud/console/src\<close>) is a React application for merchants over the HTTP interface of a
  service that signs for them. Two scripts (\<open>scripts\<close>) serve and build the landing page.

  \<^bold>\<open>Foundations.\<close>
  \<^item> \<open>Prelude\<close>: the result type of code that may throw (\<open>Inl\<close> is a throw, a rejected promise or
    \<open>Err\<close>), its sequencing, association lists in insertion order, the rule collections
    \<open>throw_simps\<close> and \<open>inv_intros\<close>.
  \<^item> \<open>Js_Text\<close>, \<open>Js_Number\<close>, \<open>Js_Round\<close>, \<open>Js_Value\<close>, \<open>Js_Object\<close>, \<open>Js_Json\<close>: what the sources use of
    JavaScript's strings, Numbers (doubles, with their rounding), values and coercions, plain
    objects with their key order, and JSON. Numbers are rationals rounded to 53 bits, so that
    every loss of precision of the program is one of the model.
  \<^item> \<open>Js_Uri\<close>, \<open>Node_Path\<close>: escaping in URLs, with its round trip, and the paths of Node.
  \<^item> \<open>Js_Io\<close>: code with effects as functions of a state that return or throw; the state reached
    before a throw is kept. \<open>frame\<close> states what a computation leaves alone.
  \<^item> \<open>Machine\<close>: the locales \<open>invariant_machine\<close> and \<open>ordered_machine\<close>, the contract between a step
    relation and the invariants and orders its runs keep; interpreted on the ledger, the store,
    the mirror, the commitment effect, the chip input, the settlements page, the overview, the
    tweaks panel and the console.

  \<^bold>\<open>The SDK.\<close> \<open>Sdk_Codec\<close> has the pure part, \<open>Sdk_Client\<close> the client over a record of the Stellar SDK's pure
  functions (\<open>stellar\<close>) and one of the outside world (\<open>env\<close>: RPC, Freighter, fetch, timers), each of
  which may throw; every call to the outside is appended to a trace. The polling loop of \<open>waitForTx\<close>
  ends after 20 retries by a measure; \<open>approveSettlement\<close> polls 30 times.
  \<open>Sdk_Typed\<close> has the presets, the options of the typed client, the signers and the table of errors of
  the generated client, with the lemmas that the table is the contract's and that getting a signer signs
  nothing.

  \<^bold>\<open>The contract.\<close> \<open>Ledger\<close> has one map per kind of storage key, one function per entry point, the error
  numbers and events; additions and multiplications carry their bounds as the errors or traps
  of the source. \<open>Ledger_Inv\<close> proves the invariant and the order of the machine of all calls,
  \<open>Ledger_Props\<close> the properties: redemption and settlement happen once, counters are the truth,
  tallies are append-only, listings are complete.

  \<^bold>\<open>The playground.\<close>
  \<^item> \<open>Play_Data\<close> (\<open>data.js\<close>), \<open>Play_Store\<close> and \<open>Play_Ops\<close> (\<open>store.jsx\<close>): formatting, snippets, the state of
    the provider and every operation of its context; \<open>Play_Props\<close> proves the invariant of the store
    and what a failed call leaves behind, \<open>Play_Shape\<close> the type of every result, \<open>Play_Refine\<close> that the
    mirror is an abstraction of the ledger and the error table that of the contract.
  \<^item> \<open>Ui\<close>, \<open>Play_Ui\<close> (\<open>components.jsx\<close>, \<open>cards-core.jsx\<close>), \<open>Cards_A\<close>, \<open>Cards_B\<close>, \<open>Cards_C\<close>, \<open>Cards_Tally\<close>
    (\<open>cards-*.jsx\<close>), \<open>Play_Console\<close> (\<open>console.jsx\<close>), \<open>Play_Page\<close> (\<open>topbar.jsx\<close>, \<open>hero.jsx\<close>, \<open>app.jsx\<close>): for
    each component its React state as a record, its events as a datatype, its setters, handlers
    and effects, and the elements it renders. A handler in an element is the event it raises,
    so that what a view offers can be compared with what the handlers accept.
  \<^item> \<open>Cards_Calc\<close>, \<open>Cards_Props\<close>: every click is answered by a result or a shown error and leaves the
    card idle; \<open>Cards_Views\<close>: which calls a card offers; \<open>Redeem_Commit\<close>: the commitment effect with
    promises resolving in any order; \<open>Ui_Props\<close>: the highlighter and the chip input.
  \<^item> \<open>Play_Art\<close> (the drawing of \<open>hero.jsx\<close>), \<open>Play_Tweaks\<close> (\<open>tweaks-panel.jsx\<close>): the values with the
    messages that make a host store them, the panel with the host's protocol, its drags and its place in
    the window, and the controls. \<open>Play_Tweaks_Props\<close>: the host stores what is on the screen, the open
    panel stays in reach, the controls keep their bounds and the type of an option.

  \<^bold>\<open>The console.\<close> The service is an argument: a function from requests to replies that may keep any
  state; the client model shows what is sent and what the caller sees of each reply.
  \<^item> \<open>Console_Api\<close> (\<open>api.js\<close>): requests with environment and idempotency key, problems as rejections,
    amounts; \<open>Console_Api_Props\<close>: what arrives, which problem a caller sees, exactness and round trip
    of the amounts.
  \<^item> \<open>Console_Store\<close> (\<open>store.jsx\<close>, \<open>main.jsx\<close>), \<open>Console_Ui\<close> (\<open>ui.jsx\<close>), \<open>Console_Shell\<close> (\<open>shell.jsx\<close>): the session,
    router, elements and frame; \<open>Console_Session\<close>: only the service lets a visitor in, and the
    navigation marks the page shown.
  \<^item> \<open>Console_Settle\<close> (\<open>pages/Settlements.jsx\<close>), \<open>Console_Clicks\<close>, \<open>Console_Settle_Props\<close>: which settlements
    are offered, what a settlement sends, and the loads in flight when the environment changes.

  \<^item> \<open>Console_Page\<close>: what the pages share, their calls, the promises they do not await and the busy
    button; \<open>Console_Sends\<close>: the discipline of requests and the locale \<open>page\<close>, the contract of a page,
    interpreted at the end of every page's theory.
  \<^item> The other pages (\<open>pages/*.jsx\<close>), one theory each with state, events, handlers, effects and elements:
    \<open>Console_Auth\<close>, \<open>Console_Overview\<close>, \<open>Console_Redeem\<close>, \<open>Console_Keys\<close> (keys, usage), \<open>Console_Hooks\<close>
    (webhooks, settings), \<open>Console_Wizard\<close>, \<open>Console_Campaigns\<close>, \<open>Console_Loyalty\<close>, \<open>Console_Panels\<close> and
    \<open>Console_Campaign\<close>.
  \<^item> \<open>Console_Auth_Props\<close>: what follows an attempt to sign in; \<open>Console_Pages_Props\<close>: the payout the wizard
    orders, when redeeming is offered, whose figures the overview stores; \<open>Console_Orders\<close>: every button
    that writes sends one order; \<open>Console_Run\<close>: the console as a whole, all pages interleaved, and that its
    orders are identified.

  \<^bold>\<open>The scripts.\<close> \<open>Dev_Server\<close> (\<open>dev-server.mjs\<close>, \<open>build-landing.mjs\<close>): from a request to the reply, the life
  of the process, and the four operations of the build. Only files below the project are served, every
  one of them at its own path, and the build changes nothing outside \<open>dist\<close>.

  \<^bold>\<open>Parameters.\<close> The Stellar SDK, the RPC server, Freighter, the cloud service, the clipboard, the clock, the time zone
  and locale of the host, SHA-256, the source of randomness, the URL parser, the file system and the boxes of elements are arguments of the definitions.

  \<^bold>\<open>Not modelled.\<close> Time-to-live extensions of contract storage, which change no value; the generated contract
  bindings apart from their errors; module loading and build configuration; the Go services and the Go
  SDK, in another language than the implementation modelled; the drivers of the end-to-end tests.
  Calls of one user are atomic with respect to each other, except where a theory says that it
  models promises in flight.
\<close>

end
